(* ===== verification/Prelude.thy ===== *)
theory Prelude
  imports Main "HOL-Library.Multiset"
begin

text \<open>
  The prelude of the development: times and identifiers, JSON values, SQL tables as lists
  of rows with the four statements the repositories issue, and the shape of a service
  method: a function of the state that returns a value or an exception together with the
  state it leaves behind.  The lemmas declared \<open>[simp]\<close> here turn a composed method into
  explicit state passing; the frame rules (locale \<open>frame_rel\<close>) show what a method leaves
  alone without unfolding it.
\<close>

named_theorems act_frame \<open>frame facts about service methods\<close>
named_theorems hook_defs \<open>definitions of the request-type hooks\<close>

section \<open>Identifiers, times and JSON\<close>

type_synonym uuid = string
type_synonym timestamp = int \<comment> \<open>milliseconds since the epoch, as \<^verbatim>\<open>Date.getTime()\<close>\<close>

text \<open>
  JSON values (payloads, template variables, audit metadata).  A time inside a JSON value
  is kept as \<open>JDate\<close>; the ISO text of \<^verbatim>\<open>toISOString()\<close> is not spelled out.
\<close>

datatype json =
    JNull
  | JBool bool
  | JNum int
  | JStr string
  | JDate timestamp
  | JArr "json list"
  | JObj "(string \<times> json) list"

type_synonym jobject = "(string \<times> json) list"

text \<open>Property access \<^verbatim>\<open>o.k\<close>; a missing property reads as null.\<close>

definition jfield :: "jobject \<Rightarrow> string \<Rightarrow> json" where
  "jfield obj k = (case map_of obj k of None \<Rightarrow> JNull | Some v \<Rightarrow> v)"

definition jstr :: "json \<Rightarrow> string option" where
  "jstr j = (case j of JStr s \<Rightarrow> Some s | _ \<Rightarrow> None)"

text \<open>A property the code uses as a string; the typed payloads always have it.\<close>

definition jtext :: "json \<Rightarrow> string" where
  "jtext j = (case j of JStr s \<Rightarrow> s | _ \<Rightarrow> [])"

definition jnum :: "json \<Rightarrow> int" where
  "jnum j = (case j of JNum n \<Rightarrow> n | _ \<Rightarrow> 0)"

definition jstr_or_null :: "string option \<Rightarrow> json" where
  "jstr_or_null s = (case s of None \<Rightarrow> JNull | Some x \<Rightarrow> JStr x)"

text \<open>A number in a template literal.\<close>

fun nat_str :: "nat \<Rightarrow> string" where
  "nat_str n = (if n < 10 then [''0123456789'' ! n] else nat_str (n div 10) @ [''0123456789'' ! (n mod 10)])"

declare nat_str.simps [simp del]

definition int_str :: "int \<Rightarrow> string" where
  "int_str n = (if n < 0 then ''-'' @ nat_str (nat (- n)) else nat_str (nat n))"

text \<open>Reading decimal digits, and \<^verbatim>\<open>String.trim()\<close>.\<close>

definition digit_of :: "char \<Rightarrow> nat option" where
  "digit_of c = map_of (zip ''0123456789'' [0..<10]) c"

fun digits_value :: "nat \<Rightarrow> string \<Rightarrow> nat option" where
  "digits_value acc [] = Some acc"
| "digits_value acc (c # cs) =
     (case digit_of c of None \<Rightarrow> None | Some k \<Rightarrow> digits_value (10 * acc + k) cs)"

definition js_space :: "char \<Rightarrow> bool" where
  "js_space c \<longleftrightarrow> c \<in> {CHR '' '', CHR 0x09, CHR 0x0A, CHR 0x0B, CHR 0x0C, CHR 0x0D, CHR 0xA0}"

definition js_trim :: "string \<Rightarrow> string" where
  "js_trim s = rev (dropWhile js_space (rev (dropWhile js_space s)))"

lemma nat_str_small [simp]: "n < 10 \<Longrightarrow> nat_str n = [''0123456789'' ! n]"
  by (subst nat_str.simps) simp

lemma jfield_Cons [simp]: "jfield ((k', v) # obj) k = (if k = k' then v else jfield obj k)"
  by (simp add: jfield_def)

lemma jfield_Nil [simp]: "jfield [] k = JNull"
  by (simp add: jfield_def)

lemma jstr_JStr [simp]: "jstr (JStr s) = Some s" "jstr JNull = None"
  by (simp_all add: jstr_def)

lemma jtext_JStr [simp]: "jtext (JStr s) = s"
  by (simp add: jtext_def)

lemma jnum_JNum [simp]: "jnum (JNum n) = n"
  by (simp add: jnum_def)

section \<open>Tables\<close>

text \<open>
  A table is the list of its rows in storage order.  The statements of the query builder
  become: \<open>select_where\<close> (\<^verbatim>\<open>select().from(t).where(p)\<close>), \<open>find_where\<close> (the same with
  \<^verbatim>\<open>limit(1)\<close> and the first row destructured), \<open>insert_row\<close>, \<open>update_where\<close> and
  \<open>delete_where\<close>.
\<close>

definition select_where :: "('r \<Rightarrow> bool) \<Rightarrow> 'r list \<Rightarrow> 'r list" where
  "select_where p t = filter p t"

definition find_where :: "('r \<Rightarrow> bool) \<Rightarrow> 'r list \<Rightarrow> 'r option" where
  "find_where p t = List.find p t"

definition insert_row :: "'r \<Rightarrow> 'r list \<Rightarrow> 'r list" where
  "insert_row r t = t @ [r]"

definition update_where :: "('r \<Rightarrow> bool) \<Rightarrow> ('r \<Rightarrow> 'r) \<Rightarrow> 'r list \<Rightarrow> 'r list" where
  "update_where p f t = map (\<lambda>r. if p r then f r else r) t"

definition delete_where :: "('r \<Rightarrow> bool) \<Rightarrow> 'r list \<Rightarrow> 'r list" where
  "delete_where p t = filter (\<lambda>r. \<not> p r) t"

definition page :: "nat \<Rightarrow> nat \<Rightarrow> 'r list \<Rightarrow> 'r list" where
  "page lim off t = take lim (drop off t)" \<comment> \<open>\<^verbatim>\<open>.limit(lim).offset(off)\<close>\<close>

text \<open>An optional equality filter: \<^verbatim>\<open>f ? eq(col, f) : undefined\<close>.\<close>

definition opt_eq :: "'a option \<Rightarrow> 'a \<Rightarrow> bool" where
  "opt_eq f x = (case f of None \<Rightarrow> True | Some y \<Rightarrow> x = y)"

text \<open>Comparisons with a nullable column: null never matches.\<close>

definition col_eq :: "'a option \<Rightarrow> 'a \<Rightarrow> bool" where
  "col_eq c x \<longleftrightarrow> c = Some x"

lemma set_select_where [simp]: "set (select_where p t) = {r \<in> set t. p r}"
  by (auto simp: select_where_def)

lemma set_insert_row [simp]: "set (insert_row r t) = insert r (set t)"
  by (auto simp: insert_row_def)

lemma set_update_where: "set (update_where p f t) = (\<lambda>r. if p r then f r else r) ` set t"
  by (simp add: update_where_def)

lemma update_where_in: "r \<in> set t \<Longrightarrow> p r \<Longrightarrow> f r \<in> set (update_where p f t)"
  by (force simp: set_update_where)

lemma set_delete_where [simp]: "set (delete_where p t) = {r \<in> set t. \<not> p r}"
  by (auto simp: delete_where_def)

lemma length_update_where [simp]: "length (update_where p f t) = length t"
  by (simp add: update_where_def)

lemma map_update_where:
  "(\<And>r. k (f r) = k r) \<Longrightarrow> map k (update_where p f t) = map k t"
  by (induction t) (auto simp: update_where_def)

lemma update_where_Nil [simp]: "update_where p f [] = []"
  by (simp add: update_where_def)

lemma update_where_Cons [simp]:
  "update_where p f (r # t) = (if p r then f r else r) # update_where p f t"
  by (simp add: update_where_def)

lemma update_where_append [simp]:
  "update_where p f (t @ u) = update_where p f t @ update_where p f u"
  by (simp add: update_where_def)

lemma update_where_id: "(\<And>r. r \<in> set t \<Longrightarrow> p r \<Longrightarrow> f r = r) \<Longrightarrow> update_where p f t = t"
  by (induction t) auto

lemma find_where_Nil [simp]: "find_where p [] = None"
  by (simp add: find_where_def)

lemma find_where_Cons [simp]:
  "find_where p (r # t) = (if p r then Some r else find_where p t)"
  by (simp add: find_where_def)

lemma find_where_SomeD: "find_where p t = Some r \<Longrightarrow> r \<in> set t \<and> p r"
  by (auto simp: find_where_def find_Some_iff)

lemma find_where_None_iff: "find_where p t = None \<longleftrightarrow> (\<forall>r \<in> set t. \<not> p r)"
  by (auto simp: find_where_def find_None_iff)

lemma find_where_append:
  "find_where p (t @ u) = (case find_where p t of None \<Rightarrow> find_where p u | Some r \<Rightarrow> Some r)"
  by (induction t) auto

lemma find_where_insert [simp]:
  "find_where p (insert_row r t) =
     (case find_where p t of None \<Rightarrow> (if p r then Some r else None) | Some x \<Rightarrow> Some x)"
  by (simp add: insert_row_def find_where_append split: option.split)

text \<open>
  A lookup that the update cannot disturb sees the updated row; the usual case is a
  lookup by primary key.
\<close>

lemma find_where_update:
  "(\<And>r. p r \<Longrightarrow> q (f r) = q r) \<Longrightarrow>
   find_where q (update_where p f t) = map_option (\<lambda>r. if p r then f r else r) (find_where q t)"
  by (induction t) auto

lemma find_where_update_key:
  "(\<And>r. k (f r) = k r) \<Longrightarrow>
   find_where (\<lambda>r. k r = x) (update_where (\<lambda>r. k r = x) f t) = map_option f (find_where (\<lambda>r. k r = x) t)"
  by (induction t) auto

lemma find_where_distinct:
  "distinct (map k t) \<Longrightarrow> r \<in> set t \<Longrightarrow> find_where (\<lambda>r'. k r' = k r) t = Some r"
  by (induction t) (auto simp: rev_image_eqI)

lemma select_where_append [simp]: "select_where p (t @ u) = select_where p t @ select_where p u"
  by (simp add: select_where_def)

lemma select_where_insert [simp]:
  "select_where p (insert_row r t) = select_where p t @ (if p r then [r] else [])"
  by (simp add: insert_row_def select_where_def)

lemma select_where_empty_iff: "select_where p t = [] \<longleftrightarrow> (\<forall>r \<in> set t. \<not> p r)"
  by (simp add: select_where_def filter_empty_conv)

lemma opt_eq_simps [simp]: "opt_eq None x" "opt_eq (Some y) x \<longleftrightarrow> x = y"
  by (simp_all add: opt_eq_def)

section \<open>Service methods\<close>

text \<open>
  A method runs on a state and returns an exception or a value, with the state it leaves:
  writes made before an exception outside a transaction stay.
\<close>

type_synonym ('s, 'e, 'a) act = "'s \<Rightarrow> ('e + 'a) \<times> 's"

definition mret :: "'a \<Rightarrow> ('s, 'e, 'a) act" where
  "mret x s = (Inr x, s)"

definition mthrow :: "'e \<Rightarrow> ('s, 'e, 'a) act" where
  "mthrow e s = (Inl e, s)"

definition mgets :: "('s \<Rightarrow> 'a) \<Rightarrow> ('s, 'e, 'a) act" where
  "mgets f s = (Inr (f s), s)"

definition mmodify :: "('s \<Rightarrow> 's) \<Rightarrow> ('s, 'e, unit) act" where
  "mmodify f s = (Inr (), f s)"

definition mbind :: "('s, 'e, 'a) act \<Rightarrow> ('a \<Rightarrow> ('s, 'e, 'b) act) \<Rightarrow> ('s, 'e, 'b) act" where
  "mbind m f s = (case m s of (Inl e, s') \<Rightarrow> (Inl e, s') | (Inr x, s') \<Rightarrow> f x s')"

definition mwhen :: "bool \<Rightarrow> ('s, 'e, unit) act \<Rightarrow> ('s, 'e, unit) act" where
  "mwhen b m = (if b then m else mret ())"

definition throw_if :: "bool \<Rightarrow> 'e \<Rightarrow> ('s, 'e, unit) act" where
  "throw_if b e = (if b then mthrow e else mret ())"

definition or_throw :: "'a option \<Rightarrow> 'e \<Rightarrow> ('s, 'e, 'a) act" where
  "or_throw x e = (case x of None \<Rightarrow> mthrow e | Some y \<Rightarrow> mret y)"

definition mtry :: "('s, 'e, 'a) act \<Rightarrow> ('e \<Rightarrow> ('s, 'e, 'a) act) \<Rightarrow> ('s, 'e, 'a) act" where
  "mtry m h s = (case m s of (Inl e, s') \<Rightarrow> h e s' | (Inr x, s') \<Rightarrow> (Inr x, s'))"

primrec mfor :: "'x list \<Rightarrow> ('x \<Rightarrow> ('s, 'e, unit) act) \<Rightarrow> ('s, 'e, unit) act" where
  "mfor [] f = mret ()"
| "mfor (x # xs) f = mbind (f x) (\<lambda>_. mfor xs f)"

lemma mret_apply [simp]: "mret x s = (Inr x, s)"
  by (simp add: mret_def)

lemma mthrow_apply [simp]: "mthrow e s = (Inl e, s)"
  by (simp add: mthrow_def)

lemma mgets_apply [simp]: "mgets f s = (Inr (f s), s)"
  by (simp add: mgets_def)

lemma mmodify_apply [simp]: "mmodify f s = (Inr (), f s)"
  by (simp add: mmodify_def)

lemma mbind_ret [simp]: "mbind (mret x) f s = f x s"
  by (simp add: mbind_def)

lemma mbind_throw [simp]: "mbind (mthrow e) f s = (Inl e, s)"
  by (simp add: mbind_def)

lemma mbind_gets [simp]: "mbind (mgets g) f s = f (g s) s"
  by (simp add: mbind_def)

lemma mbind_modify [simp]: "mbind (mmodify u) f s = f () (u s)"
  by (simp add: mbind_def)

text \<open>The same when a step has already been unfolded.\<close>

lemma mbind_pair [simp]:
  "mbind (\<lambda>a. (Inr (g a), h a)) f s = f (g s) (h s)"
  by (simp add: mbind_def)

lemma mbind_assoc [simp]: "mbind (mbind m f) g = mbind m (\<lambda>x. mbind (f x) g)"
  by (auto simp: mbind_def fun_eq_iff split: prod.splits sum.splits)

lemma mbind_if [simp]: "mbind (if b then m else n) f s = (if b then mbind m f s else mbind n f s)"
  by simp

lemma mbind_case_option [simp]:
  "mbind (case x of None \<Rightarrow> m | Some y \<Rightarrow> n y) f s = (case x of None \<Rightarrow> mbind m f s | Some y \<Rightarrow> mbind (n y) f s)"
  by (cases x) simp_all

lemma mbind_throw_if [simp]:
  "mbind (throw_if b e) f s = (if b then (Inl e, s) else f () s)"
  by (simp add: throw_if_def)

lemma mbind_or_throw [simp]:
  "mbind (or_throw x e) f s = (case x of None \<Rightarrow> (Inl e, s) | Some y \<Rightarrow> f y s)"
  by (cases x) (simp_all add: or_throw_def)

lemma mbind_when [simp]: "mbind (mwhen b m) f s = (if b then mbind m f s else f () s)"
  by (simp add: mwhen_def)

lemma throw_if_apply [simp]: "throw_if b e s = (if b then (Inl e, s) else (Inr (), s))"
  by (simp add: throw_if_def)

lemma or_throw_apply [simp]:
  "or_throw x e s = (case x of None \<Rightarrow> (Inl e, s) | Some y \<Rightarrow> (Inr y, s))"
  by (cases x) (simp_all add: or_throw_def)

lemma mwhen_apply [simp]: "mwhen b m s = (if b then m s else (Inr (), s))"
  by (simp add: mwhen_def)

text \<open>
  Evaluation of a method on a concrete state: with this congruence rule the simplifier runs
  the first part before it looks at the continuation.
\<close>

lemma mbind_weak_cong: "m = m' \<Longrightarrow> s = s' \<Longrightarrow> mbind m f s = mbind m' f s'"
  by simp

text \<open>Inversion of a composed method: a returned value came through both parts.\<close>

lemma mbind_Inr_iff:
  "mbind m f s = (Inr y, s'') \<longleftrightarrow> (\<exists>x s'. m s = (Inr x, s') \<and> f x s' = (Inr y, s''))"
  by (auto simp: mbind_def split: prod.splits sum.splits)

lemma mbind_InrE:
  assumes "mbind m f s = (Inr y, s'')"
  obtains x s' where "m s = (Inr x, s')" and "f x s' = (Inr y, s'')"
  using assms by (auto simp: mbind_Inr_iff)

lemma mbind_eq: "m s = (Inr x, s') \<Longrightarrow> mbind m f s = f x s'"
  by (simp add: mbind_def)

lemma mbind_eq_Inl: "m s = (Inl e, s') \<Longrightarrow> mbind m f s = (Inl e, s')"
  by (simp add: mbind_def)

section \<open>Frame rules\<close>

text \<open>
  \<open>keeps R m\<close>: whatever \<open>m\<close> returns, the state it leaves is related to the one it started
  from.  For a reflexive and transitive \<open>R\<close> the rules below follow the structure of a
  method, so a frame property needs no unfolding of the methods it calls.
\<close>

definition keeps :: "('s \<Rightarrow> 's \<Rightarrow> bool) \<Rightarrow> ('s, 'e, 'a) act \<Rightarrow> bool" where
  "keeps R m \<longleftrightarrow> (\<forall>s. R s (snd (m s)))"

lemma keepsD: "keeps R m \<Longrightarrow> m s = (r, s') \<Longrightarrow> R s s'"
  by (metis keeps_def snd_conv)

lemma keepsI: "(\<And>s. R s (snd (m s))) \<Longrightarrow> keeps R m"
  by (simp add: keeps_def)

locale frame_rel =
  fixes R :: "'s \<Rightarrow> 's \<Rightarrow> bool"
  assumes rel_refl: "R s s"
    and rel_trans: "R s t \<Longrightarrow> R t u \<Longrightarrow> R s u"
begin

lemma keeps_ret: "keeps R (mret x)"
  by (simp add: keeps_def rel_refl)

lemma keeps_throw: "keeps R (mthrow e)"
  by (simp add: keeps_def rel_refl)

lemma keeps_gets: "keeps R (mgets f)"
  by (simp add: keeps_def rel_refl)

lemma keeps_modify: "(\<And>s. R s (f s)) \<Longrightarrow> keeps R (mmodify f)"
  by (simp add: keeps_def)

lemma keeps_bind: "keeps R m \<Longrightarrow> (\<And>x. keeps R (f x)) \<Longrightarrow> keeps R (mbind m f)"
  unfolding keeps_def mbind_def
  by (auto split: prod.splits sum.splits) (metis rel_trans snd_conv)+

lemma keeps_if: "keeps R m \<Longrightarrow> keeps R n \<Longrightarrow> keeps R (if b then m else n)"
  by simp

lemma keeps_option: "keeps R m \<Longrightarrow> (\<And>y. keeps R (n y)) \<Longrightarrow> keeps R (case x of None \<Rightarrow> m | Some y \<Rightarrow> n y)"
  by (cases x) simp_all

lemma keeps_when: "keeps R m \<Longrightarrow> keeps R (mwhen b m)"
  by (simp add: mwhen_def keeps_ret)

lemma keeps_throw_if: "keeps R (throw_if b e)"
  by (simp add: throw_if_def keeps_ret keeps_throw)

lemma keeps_or_throw: "keeps R (or_throw x e)"
  by (cases x) (simp_all add: or_throw_def keeps_ret keeps_throw)

lemma keeps_try: "keeps R m \<Longrightarrow> (\<And>e. keeps R (h e)) \<Longrightarrow> keeps R (mtry m h)"
  unfolding keeps_def mtry_def
  by (auto split: prod.splits sum.splits) (metis rel_trans snd_conv)+

lemma keeps_for: "(\<And>x. keeps R (f x)) \<Longrightarrow> keeps R (mfor xs f)"
  by (induction xs) (simp_all add: keeps_ret keeps_bind)

text \<open>A continuation only has to keep the relation for the values that reach it.\<close>

lemma keeps_bind_val:
  assumes "keeps R m" and "\<And>x w w'. m w = (Inr x, w') \<Longrightarrow> R w' (snd (f x w'))"
  shows "keeps R (mbind m f)"
proof (rule keepsI)
  fix w
  obtain r w1 where m: "m w = (r, w1)" by (cases "m w")
  note R = keepsD [OF assms(1) m]
  show "R w (snd (mbind m f w))"
  proof (cases r)
    case (Inl e)
    with m R show ?thesis by (simp add: mbind_def)
  next
    case (Inr x)
    with m assms(2) [of w x w1] R show ?thesis
      by (auto simp: mbind_def intro: rel_trans)
  qed
qed

lemmas keeps_rules = keeps_ret keeps_throw keeps_gets keeps_throw_if keeps_or_throw
  keeps_when keeps_if keeps_option keeps_for keeps_bind

end

text \<open>An invariant kept by a method, failures included.\<close>

abbreviation maintains :: "('s \<Rightarrow> bool) \<Rightarrow> ('s, 'e, 'a) act \<Rightarrow> bool" where
  "maintains I m \<equiv> keeps (\<lambda>s s'. I s \<longrightarrow> I s') m"

interpretation maintain: frame_rel "\<lambda>s s'. I s \<longrightarrow> I s'"
  by unfold_locales blast+

lemma maintainsD: "maintains I m \<Longrightarrow> I s \<Longrightarrow> m s = (r, s') \<Longrightarrow> I s'"
  by (auto dest: keepsD)

text \<open>An update of the one row with a given key, as a multiset of the rows that satisfy \<open>P\<close>.\<close>

lemma filter_update_key:
  assumes "distinct (map k t)" and "find_where (\<lambda>x. k x = i) t = Some r" and "\<not> P r"
  shows "mset (filter P (update_where (\<lambda>x. k x = i) f t)) =
    (if P (f r) then add_mset (f r) (mset (filter P t)) else mset (filter P t))"
  using assms
proof (induction t)
  case (Cons a t)
  show ?case
  proof (cases "k a = i")
    case True
    then have "i \<notin> k ` set t" using Cons.prems(1) by auto
    then have "update_where (\<lambda>x. k x = i) f t = t"
      by (intro update_where_id) auto
    with True Cons.prems show ?thesis by simp
  next
    case False
    with Cons show ?thesis by simp
  qed
qed simp

interpretation same_state: frame_rel "(=) :: 's \<Rightarrow> 's \<Rightarrow> bool"
  by unfold_locales simp_all

end
