(* ===== verification/Errors.thy ===== *)
theory Errors
  imports Prelude
begin

text \<open>
  The error codes, categories and exceptions of \<^verbatim>\<open>libs/platform/src/errors\<close>.  Clients branch
  on the code, so the human-readable message is kept only where the code alone does not
  tell two refusals apart (\<^verbatim>\<open>PermissionDeniedException\<close> always carries \<open>FORBIDDEN\<close>) and for
  the plain \<^verbatim>\<open>Error\<close> of the request registry.  A violated unique index, which the database
  driver raises, is the constructor \<open>UniqueViolation\<close>; an exception of the web framework has a
  status and, from the rate limiter, the seconds to wait.
\<close>

datatype error_code =
    INTERNAL_ERROR | VALIDATION_FAILED | RATE_LIMITED | INVALID_CURSOR | UNAUTHORIZED | FORBIDDEN
  | NOT_FOUND | BAD_REQUEST | METHOD_NOT_ALLOWED | CONFLICT | PAYLOAD_TOO_LARGE
  | UNSUPPORTED_MEDIA_TYPE | PRECONDITION_FAILED
  | AUTH_INVALID_CREDENTIALS | AUTH_TOKEN_EXPIRED | AUTH_TOKEN_INVALID | EMPLOYEE_NOT_FOUND
  | EMPLOYEE_INACTIVE
  | ASSET_NOT_FOUND | ASSET_TAG_TAKEN | ASSET_ALREADY_ASSIGNED | ASSET_NOT_ASSIGNED | ASSET_RETIRED
  | ACCESS_REQUEST_NOT_FOUND | ACCESS_REQUEST_NOT_PENDING | ACCESS_GRANT_NOT_FOUND
  | ACCESS_GRANT_NOT_ACTIVE
  | SOFTWARE_NOT_FOUND | FINDING_NOT_FOUND | FINDING_ALREADY_RESOLVED
  | TIMESHEET_NOT_FOUND | TIMESHEET_NOT_EDITABLE | LEAVE_REQUEST_NOT_FOUND
  | LEAVE_REQUEST_NOT_PENDING | LEAVE_OVERLAPPING | OVERTIME_NOT_FOUND | SHIFT_LOG_NOT_FOUND
  | AUDIT_LOG_NOT_FOUND
  | ROLE_NOT_FOUND | ROLE_KEY_TAKEN | ROLE_IMMUTABLE | ROLE_ASSIGNMENT_NOT_FOUND
  | PERMISSION_NOT_FOUND
  | REQUEST_NOT_FOUND | REQUEST_NOT_PENDING | REQUEST_NOT_CANCELLABLE | REQUEST_SOD_VIOLATION
  | DELEGATION_NOT_FOUND | DELEGATION_SELF | DELEGATION_INVALID_WINDOW | DELEGATION_NOT_OWNER
  | WEBHOOK_NOT_FOUND | DELIVERY_NOT_FOUND
  | FILE_NOT_FOUND | FILE_NOT_UPLOADED | FILE_TOO_LARGE | FILE_TYPE_NOT_ALLOWED
  | FILE_SIZE_MISMATCH

datatype error_category =
    Cat_NotFound | Cat_Conflict | Cat_ValidationFailed | Cat_Unauthorized | Cat_PermissionDenied
  | Cat_PreconditionFailed | Cat_RateLimited | Cat_Internal

fun category_http_status :: "error_category \<Rightarrow> nat" where
  "category_http_status Cat_NotFound = 404"
| "category_http_status Cat_Conflict = 409"
| "category_http_status Cat_ValidationFailed = 422"
| "category_http_status Cat_Unauthorized = 401"
| "category_http_status Cat_PermissionDenied = 403"
| "category_http_status Cat_PreconditionFailed = 412"
| "category_http_status Cat_RateLimited = 429"
| "category_http_status Cat_Internal = 500"

datatype exn =
    DomainException error_code error_category "string option"
  | PlainError string
  | UniqueViolation string
  | HttpException nat "int option"

definition NotFoundException :: "error_code \<Rightarrow> exn" where
  "NotFoundException c = DomainException c Cat_NotFound None"

definition ConflictException :: "error_code \<Rightarrow> exn" where
  "ConflictException c = DomainException c Cat_Conflict None"

definition ValidationException :: "error_code \<Rightarrow> exn" where
  "ValidationException c = DomainException c Cat_ValidationFailed None"

definition PermissionDeniedException :: "string \<Rightarrow> exn" where
  "PermissionDeniedException msg = DomainException FORBIDDEN Cat_PermissionDenied (Some msg)"

definition UnauthorizedException :: "error_code \<Rightarrow> exn" where
  "UnauthorizedException c = DomainException c Cat_Unauthorized None"

definition PreconditionFailedException :: "error_code \<Rightarrow> exn" where
  "PreconditionFailedException c = DomainException c Cat_PreconditionFailed None"

text \<open>The status and the code of the answer of \<^verbatim>\<open>GlobalExceptionFilter\<close>.\<close>

definition httpStatusToErrorCode :: "nat \<Rightarrow> error_code" where
  "httpStatusToErrorCode st = (case map_of [(400, BAD_REQUEST), (401, UNAUTHORIZED), (403, FORBIDDEN), (404, NOT_FOUND),
     (405, METHOD_NOT_ALLOWED), (409, CONFLICT), (413, PAYLOAD_TOO_LARGE), (415, UNSUPPORTED_MEDIA_TYPE),
     (422, VALIDATION_FAILED), (429, RATE_LIMITED)] st of None \<Rightarrow> INTERNAL_ERROR | Some c \<Rightarrow> c)"

fun catch_exn :: "exn \<Rightarrow> nat \<times> error_code" where
  "catch_exn (DomainException c cat m) = (category_http_status cat, c)"
| "catch_exn (HttpException st r) = (st, httpStatusToErrorCode st)"
| "catch_exn (PlainError m) = (500, INTERNAL_ERROR)"
| "catch_exn (UniqueViolation i) = (500, INTERNAL_ERROR)"

lemmas exn_defs = NotFoundException_def ConflictException_def ValidationException_def
  PermissionDeniedException_def UnauthorizedException_def PreconditionFailedException_def

declare exn_defs [simp]

end
