(* ===== verification/Schema.thy ===== *)
theory Schema
  imports Errors
begin

text \<open>
  The database schema of \<^verbatim>\<open>db/schema\<close>: one datatype per Postgres enum, one record per table
  (a nullable column is an option, a \<^verbatim>\<open>jsonb\<close> object a \<^typ>\<open>jobject\<close>), and the record
  \<open>db\<close> that holds every table the modelled services touch.  A \<open>world\<close> adds what the
  services read from outside the database: the clock, the supply of fresh UUIDs and the
  Redis cache.
\<close>

section \<open>Enums\<close>

datatype employee_status = Emp_active | Emp_on_leave | Emp_offboarded
datatype scope_type = Scope_global | Scope_self | Scope_team | Scope_dept | Scope_region
datatype request_status =
  Req_pending | Req_in_review | Req_approved | Req_rejected | Req_cancelled | Req_expired
datatype request_priority = Prio_low | Prio_normal | Prio_high | Prio_urgent
datatype asset_type =
  Asset_laptop | Asset_desktop | Asset_monitor | Asset_phone | Asset_tablet | Asset_peripheral | Asset_other
datatype asset_status = As_in_stock | As_assigned | As_in_repair | As_retired | As_lost
datatype access_request_status = Acc_pending | Acc_approved | Acc_rejected | Acc_expired | Acc_revoked
datatype timesheet_status = Ts_draft | Ts_submitted | Ts_approved | Ts_rejected
datatype leave_type = Leave_annual | Leave_sick | Leave_unpaid | Leave_parental | Leave_other
datatype leave_status = Lv_pending | Lv_approved | Lv_rejected | Lv_cancelled
datatype overtime_status = Ot_pending | Ot_approved | Ot_rejected
datatype shift_type = Shift_night | Shift_on_call | Shift_weekend
datatype license_type = Lic_perpetual | Lic_subscription | Lic_per_seat | Lic_concurrent
datatype stored_file_status = Sf_pending | Sf_completed | Sf_deleted
datatype finding_status = Fi_open | Fi_acknowledged | Fi_resolved | Fi_risk_accepted
datatype finding_severity = Sev_low | Sev_medium | Sev_high | Sev_critical
datatype software_listing = Whitelisted | Blacklisted | Under_review
datatype license_status = Lis_active | Lis_expiring_soon | Lis_expired | Lis_cancelled

text \<open>The \<^verbatim>\<open>varchar\<close> status columns of the outbox tables and of the approval log.\<close>

datatype decision = Dec_approved | Dec_rejected | Dec_delegated
datatype notif_status = No_pending | No_dispatched | No_dead
datatype email_status = Em_pending | Em_sent | Em_failed
datatype delivery_status = Wd_pending | Wd_delivered | Wd_failed

text \<open>The names of the enum values, where the code puts them into a payload.\<close>

fun leave_type_name :: "leave_type \<Rightarrow> string" where
  "leave_type_name Leave_annual = ''annual''"
| "leave_type_name Leave_sick = ''sick''"
| "leave_type_name Leave_unpaid = ''unpaid''"
| "leave_type_name Leave_parental = ''parental''"
| "leave_type_name Leave_other = ''other''"

fun priority_name :: "request_priority \<Rightarrow> string" where
  "priority_name Prio_low = ''low''"
| "priority_name Prio_normal = ''normal''"
| "priority_name Prio_high = ''high''"
| "priority_name Prio_urgent = ''urgent''"

fun asset_type_name :: "asset_type \<Rightarrow> string" where
  "asset_type_name Asset_laptop = ''laptop''"
| "asset_type_name Asset_desktop = ''desktop''"
| "asset_type_name Asset_monitor = ''monitor''"
| "asset_type_name Asset_phone = ''phone''"
| "asset_type_name Asset_tablet = ''tablet''"
| "asset_type_name Asset_peripheral = ''peripheral''"
| "asset_type_name Asset_other = ''other''"

fun scope_type_name :: "scope_type \<Rightarrow> string" where
  "scope_type_name Scope_global = ''global''"
| "scope_type_name Scope_self = ''self''"
| "scope_type_name Scope_team = ''team''"
| "scope_type_name Scope_dept = ''dept''"
| "scope_type_name Scope_region = ''region''"

section \<open>Requests\<close>

record request_item =
  ri_id :: uuid
  ri_type :: string
  ri_requester :: uuid
  ri_assignee :: "uuid option"
  ri_status :: request_status
  ri_priority :: request_priority
  ri_payload :: jobject
  ri_resolution_note :: "string option"
  ri_submitted_at :: timestamp
  ri_resolved_at :: "timestamp option"
  ri_expires_at :: "timestamp option"
  ri_sla_hours :: "int option"
  ri_sla_deadline :: "timestamp option"
  ri_sla_breached_at :: "timestamp option"
  ri_current_step :: int
  ri_total_steps :: int
  ri_created_at :: timestamp
  ri_updated_at :: timestamp

record request_approval =
  ra_id :: uuid
  ra_request :: uuid
  ra_step :: int
  ra_approver :: uuid
  ra_decision :: decision
  ra_note :: "string option"
  ra_delegated_from :: "uuid option"
  ra_decided_at :: timestamp

record request_comment =
  rc_id :: uuid
  rc_request :: uuid
  rc_author :: uuid
  rc_body :: string
  rc_edited_at :: "timestamp option"
  rc_created_at :: timestamp

section \<open>Messaging\<close>

record outbox_event =
  oe_id :: uuid
  oe_aggregate_type :: string
  oe_aggregate_id :: string
  oe_event_type :: string
  oe_payload :: jobject
  oe_published :: bool
  oe_created_at :: timestamp
  oe_published_at :: "timestamp option"

record notification_outbox_row =
  no_id :: uuid
  no_recipient :: uuid
  no_actor :: "uuid option"
  no_type :: string
  no_vars :: jobject
  no_resource :: "uuid option"
  no_status :: notif_status
  no_attempts :: nat
  no_last_error :: "string option"
  no_idempotency_key :: "string option"
  no_scheduled_at :: timestamp
  no_dispatched_at :: "timestamp option"

record email_outbox_row =
  em_id :: uuid
  em_to :: string
  em_template :: string
  em_vars :: jobject
  em_status :: email_status
  em_attempts :: nat
  em_last_error :: "string option"
  em_idempotency_key :: "string option"
  em_recipient :: "uuid option"
  em_scheduled_at :: timestamp
  em_sent_at :: "timestamp option"

record webhook_subscription =
  ws_id :: uuid
  ws_url :: string
  ws_secret :: string
  ws_events :: "string list"
  ws_description :: "string option"
  ws_active :: bool
  ws_created_at :: timestamp
  ws_updated_at :: timestamp

record webhook_delivery =
  wd_id :: uuid
  wd_subscription :: uuid
  wd_event_type :: string
  wd_payload :: jobject
  wd_status :: delivery_status
  wd_attempts :: nat
  wd_next_attempt_at :: timestamp
  wd_delivered_at :: "timestamp option"
  wd_last_error :: "string option"
  wd_created_at :: timestamp

section \<open>Authorization\<close>

record permission_row =
  pm_key :: string
  pm_description :: string

record role_row =
  ro_id :: uuid
  ro_key :: string
  ro_name :: string
  ro_system :: bool
  ro_updated_at :: timestamp

record role_permission =
  rp_role :: uuid
  rp_permission :: string

record role_assignment =
  ura_id :: uuid
  ura_user :: uuid
  ura_role :: uuid
  ura_scope_type :: scope_type
  ura_scope_id :: "string option"
  ura_granted_by :: uuid
  ura_expires_at :: "timestamp option"
  ura_created_at :: timestamp

record approval_delegation =
  ad_id :: uuid
  ad_from :: uuid
  ad_to :: uuid
  ad_starts_at :: timestamp
  ad_ends_at :: timestamp
  ad_reason :: "string option"
  ad_created_at :: timestamp

section \<open>Identity\<close>

record employee =
  emp_id :: uuid
  emp_entra_oid :: "string option"
  emp_email :: string
  emp_display_name :: string
  emp_department :: "string option"
  emp_job_title :: "string option"
  emp_manager :: "uuid option"
  emp_roles :: "string list"
  emp_status :: employee_status
  emp_photo_key :: "string option"
  emp_created_at :: timestamp
  emp_updated_at :: timestamp

record refresh_token =
  rt_id :: uuid
  rt_employee :: uuid
  rt_hash :: string
  rt_family :: uuid
  rt_revoked :: bool
  rt_expires_at :: timestamp
  rt_created_at :: timestamp

section \<open>Access\<close>

record access_request =
  ar_id :: uuid
  ar_requester :: uuid
  ar_access_type :: string
  ar_target :: string
  ar_justification :: string
  ar_duration_hours :: string
  ar_status :: access_request_status
  ar_reviewer :: "uuid option"
  ar_review_note :: "string option"
  ar_reviewed_at :: "timestamp option"
  ar_created_at :: timestamp
  ar_updated_at :: timestamp
  ar_request :: "uuid option"

record access_grant =
  ag_id :: uuid
  ag_request :: uuid
  ag_grantee :: uuid
  ag_access_type :: string
  ag_target :: string
  ag_granted_at :: timestamp
  ag_expires_at :: timestamp
  ag_revoked_at :: "timestamp option"

section \<open>Workforce\<close>

text \<open>Dates of the form \<^verbatim>\<open>YYYY-MM-DD\<close> compare as the days they name; here they are day numbers.\<close>

record timesheet =
  ts_id :: uuid
  ts_employee :: uuid
  ts_work_date :: int
  ts_minutes :: int
  ts_note :: "string option"
  ts_status :: timesheet_status
  ts_submitted_at :: "timestamp option"
  ts_approved_by :: "uuid option"
  ts_created_at :: timestamp
  ts_updated_at :: timestamp

record leave_request =
  lr_id :: uuid
  lr_employee :: uuid
  lr_leave_type :: leave_type
  lr_start :: int
  lr_end :: int
  lr_reason :: "string option"
  lr_document_key :: "string option"
  lr_status :: leave_status
  lr_reviewer :: "uuid option"
  lr_reviewed_at :: "timestamp option"
  lr_created_at :: timestamp
  lr_request :: "uuid option"

record overtime_entry =
  ot_id :: uuid
  ot_employee :: uuid
  ot_work_date :: int
  ot_hours :: int \<comment> \<open>\<^verbatim>\<open>numeric(4,2)\<close>, in hundredths\<close>
  ot_reason :: string
  ot_status :: overtime_status
  ot_reviewer :: "uuid option"
  ot_reviewed_at :: "timestamp option"
  ot_created_at :: timestamp
  ot_request :: "uuid option"

record shift_log =
  sl_id :: uuid
  sl_employee :: uuid
  sl_shift_type :: shift_type
  sl_starts_at :: timestamp
  sl_ends_at :: timestamp
  sl_note :: "string option"
  sl_created_at :: timestamp

section \<open>Assets and licenses\<close>

record asset =
  as_id :: uuid
  as_tag :: string
  as_type :: asset_type
  as_status :: asset_status
  as_manufacturer :: "string option"
  as_model :: "string option"
  as_serial :: "string option"
  as_mdm_device :: "string option"
  as_purchase_date :: "string option"
  as_warranty_expiry :: "string option"
  as_specs :: jobject
  as_assigned_to :: "uuid option"
  as_photo_key :: "string option"
  as_created_at :: timestamp
  as_updated_at :: timestamp

record asset_assignment =
  aa_id :: uuid
  aa_asset :: uuid
  aa_employee :: uuid
  aa_assigned_at :: timestamp
  aa_returned_at :: "timestamp option"
  aa_notes :: "string option"

record software_license =
  sw_id :: uuid
  sw_name :: string
  sw_vendor :: string
  sw_type :: license_type
  sw_seat_count :: "int option"
  sw_cost_cents :: "int option"
  sw_renewal_date :: "string option"
  sw_status :: license_status
  sw_notes :: "string option"
  sw_external_id :: "string option"
  sw_created_at :: timestamp
  sw_updated_at :: timestamp

record license_assignment =
  la_id :: uuid
  la_license :: uuid
  la_employee :: uuid
  la_assigned_at :: timestamp
  la_revoked_at :: "timestamp option"
  la_notes :: "string option"

section \<open>Stored files\<close>

record stored_file =
  sf_id :: uuid
  sf_key :: string
  sf_original_name :: string
  sf_mime_type :: string
  sf_size_bytes :: int
  sf_resource_type :: string
  sf_status :: stored_file_status
  sf_uploader :: uuid
  sf_linked_type :: "string option"
  sf_linked_id :: "uuid option"
  sf_created_at :: timestamp
  sf_confirmed_at :: "timestamp option"

section \<open>Audit and in-app notifications\<close>

record audit_log =
  al_id :: uuid
  al_actor :: "uuid option"
  al_actor_email :: "string option"
  al_action :: string
  al_resource_type :: string
  al_resource :: "uuid option"
  al_changes :: jobject
  al_metadata :: jobject
  al_occurred_at :: timestamp

record in_app_notification =
  ian_id :: uuid
  ian_recipient :: uuid
  ian_actor :: "uuid option"
  ian_type :: string
  ian_title :: string
  ian_body :: "string option"
  ian_resource_type :: "string option"
  ian_resource :: "uuid option"
  ian_metadata :: jobject
  ian_is_read :: bool
  ian_read_at :: "timestamp option"
  ian_created_at :: timestamp
  ian_source_event :: "string option"

record notification_preference =
  np_id :: uuid
  np_user :: uuid
  np_type :: string
  np_in_app :: bool
  np_email :: bool
  np_updated_at :: timestamp

record software_entry =
  so_id :: uuid
  so_name :: string
  so_publisher :: "string option"
  so_listing :: software_listing
  so_notes :: "string option"
  so_created_at :: timestamp
  so_updated_at :: timestamp

record compliance_finding =
  cf_id :: uuid
  cf_asset :: "uuid option"
  cf_employee :: "uuid option"
  cf_software :: string
  cf_version :: "string option"
  cf_severity :: finding_severity
  cf_status :: finding_status
  cf_source :: string
  cf_detected_at :: timestamp
  cf_resolved_by :: "uuid option"
  cf_note :: "string option"
  cf_resolved_at :: "timestamp option"

record catalog_item =
  ci_id :: uuid
  ci_name :: string
  ci_description :: "string option"
  ci_category :: string
  ci_icon :: "string option"
  ci_permission :: string
  ci_sla_hours :: "int option"
  ci_active :: bool
  ci_sort :: int
  ci_created_at :: timestamp
  ci_updated_at :: timestamp

section \<open>Security posture\<close>

text \<open>
  Scores and percentages are in hundredths (\<^verbatim>\<open>numeric(.., 2)\<close>); so are the expected and the actual
  score of a check, which the code stores as texts.
\<close>

record score_snapshot =
  sn_id :: uuid
  sn_score :: int
  sn_max_score :: int
  sn_percentage :: int
  sn_date :: string
  sn_created_at :: timestamp

record baseline_check =
  bl_id :: uuid
  bl_category :: string
  bl_check_name :: string
  bl_status :: string
  bl_device :: "string option"
  bl_device_name :: "string option"
  bl_expected :: "int option"
  bl_actual :: "int option"
  bl_details :: "string option"
  bl_checked_at :: timestamp

section \<open>The database and the world\<close>

record db =
  t_request_items :: "request_item list"
  t_request_approvals :: "request_approval list"
  t_request_comments :: "request_comment list"
  t_outbox_events :: "outbox_event list"
  t_notification_outbox :: "notification_outbox_row list"
  t_email_outbox :: "email_outbox_row list"
  t_webhook_subscriptions :: "webhook_subscription list"
  t_webhook_deliveries :: "webhook_delivery list"
  t_permissions :: "permission_row list"
  t_roles :: "role_row list"
  t_role_permissions :: "role_permission list"
  t_role_assignments :: "role_assignment list"
  t_delegations :: "approval_delegation list"
  t_employees :: "employee list"
  t_refresh_tokens :: "refresh_token list"
  t_access_requests :: "access_request list"
  t_access_grants :: "access_grant list"
  t_timesheets :: "timesheet list"
  t_leave_requests :: "leave_request list"
  t_overtime_entries :: "overtime_entry list"
  t_shift_logs :: "shift_log list"
  t_assets :: "asset list"
  t_asset_assignments :: "asset_assignment list"
  t_software_licenses :: "software_license list"
  t_license_assignments :: "license_assignment list"
  t_audit_logs :: "audit_log list"
  t_in_app_notifications :: "in_app_notification list"
  t_notification_preferences :: "notification_preference list"
  t_stored_files :: "stored_file list"
  t_software_catalog :: "software_entry list"
  t_findings :: "compliance_finding list"
  t_catalog_items :: "catalog_item list"
  t_score_snapshots :: "score_snapshot list"
  t_baseline_checks :: "baseline_check list"

definition empty_db :: db where
  "empty_db = \<lparr>
     t_request_items = [], t_request_approvals = [], t_request_comments = [],
     t_outbox_events = [], t_notification_outbox = [], t_email_outbox = [],
     t_webhook_subscriptions = [], t_webhook_deliveries = [], t_permissions = [], t_roles = [],
     t_role_permissions = [], t_role_assignments = [], t_delegations = [], t_employees = [],
     t_refresh_tokens = [], t_access_requests = [], t_access_grants = [], t_timesheets = [],
     t_leave_requests = [], t_overtime_entries = [], t_shift_logs = [], t_assets = [],
     t_asset_assignments = [], t_software_licenses = [], t_license_assignments = [],
     t_audit_logs = [], t_in_app_notifications = [], t_notification_preferences = [],
     t_stored_files = [], t_software_catalog = [], t_findings = [], t_catalog_items = [],
     t_score_snapshots = [], t_baseline_checks = []\<rparr>"

text \<open>
  A resolved permission set: for every permission key the scopes it is held in.
\<close>

record scope =
  sc_type :: scope_type
  sc_id :: "string option"

type_synonym effective_permissions = "(string \<times> scope list) list"

text \<open>
  The cache holds resolved permission sets under
  \<^verbatim>\<open>authz:perms:<user>\<close>, and the revocation marks under \<^verbatim>\<open>revoked:session:<id>\<close> and
  \<^verbatim>\<open>revoked:employee:<id>\<close>.  It also keeps the responses of the idempotency interceptor under
  \<^verbatim>\<open>idem:<identity>:<key>\<close> and the request times of the rate limiter under \<^verbatim>\<open>rl:<tier>:<who>\<close>,
  here in maps from what follows the prefix.  Every entry carries the time it expires at; Redis drops it then.
  \<open>w_perm_outage\<close> says that the permission query of the authorization service fails, the
  one database failure the code catches.
\<close>

record cache =
  c_enabled :: bool
  c_perms :: "uuid \<rightharpoonup> effective_permissions \<times> timestamp"
  c_revoked_session :: "uuid \<rightharpoonup> timestamp"
  c_revoked_employee :: "uuid \<rightharpoonup> timestamp"
  c_idem :: "string \<rightharpoonup> json \<times> timestamp"
  c_windows :: "string \<Rightarrow> timestamp list" \<comment> \<open>the scores of a sorted set, ascending\<close>

definition empty_cache :: cache where
  "empty_cache = \<lparr>c_enabled = True, c_perms = (\<lambda>_. None), c_revoked_session = (\<lambda>_. None),
     c_revoked_employee = (\<lambda>_. None), c_idem = (\<lambda>_. None), c_windows = (\<lambda>_. [])\<rparr>"

text \<open>
  Microsoft Graph is outside the repository: the world says whether its credentials are
  configured and whether a call succeeds, and collects the calls the services make.  The keys
  of the objects that the storage service asks S3 to delete are collected as well.
  \<open>w_delta_link\<close> is the link from which the device synchronisation continues, kept in memory, and
  \<open>w_sqs\<close> collects the messages accepted by the queue of domain events.
\<close>

datatype graph_call = EnableEntraUser string | DisableEntraUser string

record world =
  w_db :: db
  w_cache :: cache
  w_now :: timestamp
  w_uuid :: "nat \<Rightarrow> uuid"
  w_next :: nat
  w_perm_outage :: bool
  w_graph_enabled :: bool
  w_graph_ok :: bool
  w_graph_calls :: "graph_call list"
  w_s3_deletes :: "string list"
  w_delta_link :: "string option"
  w_sqs :: "jobject list"

type_synonym 'a svc = "(world, exn, 'a) act"

text \<open>The acting principal handed from the controllers to the services.\<close>

record actor =
  ac_sub :: uuid
  ac_email :: string

section \<open>Primitive steps\<close>

definition now :: "timestamp svc" where
  "now = mgets w_now"

definition newId :: "uuid svc" where
  "newId w = (Inr (w_uuid w (w_next w)), w\<lparr>w_next := Suc (w_next w)\<rparr>)"

definition query :: "(db \<Rightarrow> 'a) \<Rightarrow> 'a svc" where
  "query q = mgets (\<lambda>w. q (w_db w))"

definition exec :: "(db \<Rightarrow> db) \<Rightarrow> unit svc" where
  "exec u = mmodify (\<lambda>w. w\<lparr>w_db := u (w_db w)\<rparr>)"

text \<open>
  A transaction: an exception inside it rolls the tables back.  Identifiers drawn inside
  are not reused and cache entries are outside the database.
\<close>

definition transaction :: "'a svc \<Rightarrow> 'a svc" where
  "transaction m w = (case m w of (Inl e, w') \<Rightarrow> (Inl e, w'\<lparr>w_db := w_db w\<rparr>) | (Inr x, w') \<Rightarrow> (Inr x, w'))"

lemma now_apply [simp]: "now w = (Inr (w_now w), w)"
  by (simp add: now_def)

lemma mbind_now [simp]: "mbind now f w = f (w_now w) w"
  by (simp add: now_def)

lemma query_apply [simp]: "query q w = (Inr (q (w_db w)), w)"
  by (simp add: query_def)

lemma mbind_query [simp]: "mbind (query q) f w = f (q (w_db w)) w"
  by (simp add: query_def)

lemma exec_apply [simp]: "exec u w = (Inr (), w\<lparr>w_db := u (w_db w)\<rparr>)"
  by (simp add: exec_def)

lemma mbind_exec [simp]: "mbind (exec u) f w = f () (w\<lparr>w_db := u (w_db w)\<rparr>)"
  by (simp add: exec_def)

lemma newId_apply [simp]: "newId w = (Inr (w_uuid w (w_next w)), w\<lparr>w_next := Suc (w_next w)\<rparr>)"
  by (simp add: newId_def)

lemma mbind_newId [simp]: "mbind newId f w = f (w_uuid w (w_next w)) (w\<lparr>w_next := Suc (w_next w)\<rparr>)"
  by (simp add: mbind_def)

lemma transaction_Inr_iff: "transaction m w = (Inr x, w') \<longleftrightarrow> m w = (Inr x, w')"
  by (auto simp: transaction_def split: prod.splits sum.splits)

text \<open>Atomicity: a failed transaction leaves every table as it was.\<close>

lemma transaction_Inl_db: "transaction m w = (Inl e, w') \<Longrightarrow> w_db w' = w_db w"
  by (auto simp: transaction_def split: prod.splits sum.splits)

section \<open>Frames on tables\<close>

text \<open>
  \<open>same f\<close>: the two worlds agree on the part \<open>f\<close> of the database.  A transaction keeps
  such a frame whenever its body does.
\<close>

definition same :: "(db \<Rightarrow> 'a) \<Rightarrow> world \<Rightarrow> world \<Rightarrow> bool" where
  "same f w w' \<longleftrightarrow> f (w_db w') = f (w_db w)"

interpretation same: frame_rel "same f"
  by unfold_locales (auto simp: same_def)

lemma keeps_same_transaction: "keeps (same f) m \<Longrightarrow> keeps (same f) (transaction m)"
  unfolding keeps_def same_def transaction_def
  by (auto split: prod.splits sum.splits) (metis snd_conv)

lemma keeps_same_exec: "(\<And>d. f (u d) = f d) \<Longrightarrow> keeps (same f) (exec u)"
  by (simp add: keeps_def same_def)

lemma keeps_same_query: "keeps (same f) (query q)"
  by (simp add: keeps_def same_def)

lemma keeps_same_now: "keeps (same f) now"
  by (simp add: keeps_def same_def)

lemma keeps_same_newId: "keeps (same f) newId"
  by (simp add: keeps_def same_def)

lemmas same_rules = same.keeps_rules keeps_same_transaction keeps_same_exec keeps_same_query
  keeps_same_now keeps_same_newId

lemma sameD: "keeps (same (\<lambda>d. d)) m \<Longrightarrow> m w = (r, w') \<Longrightarrow> w_db w' = w_db w"
  using keepsD [of "same (\<lambda>d. d)" m w r w'] by (simp add: same_def)

section \<open>Failures that change nothing\<close>

text \<open>
  \<open>atomic_failure m\<close>: when \<open>m\<close> throws, every table is as before.  A method that reads first
  and then runs one transaction has it; so has one that only reads.
\<close>

definition atomic_failure :: "'a svc \<Rightarrow> bool" where
  "atomic_failure m \<longleftrightarrow> (\<forall>w e w'. m w = (Inl e, w') \<longrightarrow> w_db w' = w_db w)"

definition never_fails :: "'a svc \<Rightarrow> bool" where
  "never_fails m \<longleftrightarrow> (\<forall>w. \<exists>x w'. m w = (Inr x, w'))"

lemma atomic_failureD: "atomic_failure m \<Longrightarrow> m w = (Inl e, w') \<Longrightarrow> w_db w' = w_db w"
  by (simp add: atomic_failure_def)

lemma atomic_transaction: "atomic_failure (transaction m)"
  by (auto simp: atomic_failure_def dest: transaction_Inl_db)

lemma atomic_keeps: "keeps (same (\<lambda>d. d)) m \<Longrightarrow> atomic_failure m"
  by (auto simp: atomic_failure_def dest: sameD)

lemma atomic_never: "never_fails m \<Longrightarrow> atomic_failure m"
  unfolding atomic_failure_def never_fails_def by (metis Inl_Inr_False prod.inject)

lemma atomic_bind: "keeps (same (\<lambda>d. d)) m \<Longrightarrow> (\<And>x. atomic_failure (f x)) \<Longrightarrow> atomic_failure (mbind m f)"
  unfolding atomic_failure_def mbind_def
  by (auto split: prod.splits sum.splits dest: sameD)

lemma atomic_bind_never:
  "atomic_failure m \<Longrightarrow> (\<And>x. never_fails (f x)) \<Longrightarrow> atomic_failure (mbind m f)"
  unfolding atomic_failure_def mbind_def
  by (auto split: prod.splits sum.splits) (metis Inl_Inr_False never_fails_def prod.inject)

lemma atomic_if: "atomic_failure m \<Longrightarrow> atomic_failure n \<Longrightarrow> atomic_failure (if b then m else n)"
  by simp

lemma atomic_option:
  "atomic_failure m \<Longrightarrow> (\<And>y. atomic_failure (n y)) \<Longrightarrow> atomic_failure (case x of None \<Rightarrow> m | Some y \<Rightarrow> n y)"
  by (cases x) simp_all

lemma never_ret: "never_fails (mret x)"
  by (simp add: never_fails_def)

lemma never_exec: "never_fails (exec u)"
  by (simp add: never_fails_def)

lemma never_query: "never_fails (query q)"
  by (simp add: never_fails_def)

lemma never_now: "never_fails now"
  by (simp add: never_fails_def)

lemma never_newId: "never_fails newId"
  by (simp add: never_fails_def)

lemma never_gets: "never_fails (mgets f)"
  by (simp add: never_fails_def)

lemma never_modify: "never_fails (mmodify f)"
  by (simp add: never_fails_def)

lemma never_bind: "never_fails m \<Longrightarrow> (\<And>x. never_fails (f x)) \<Longrightarrow> never_fails (mbind m f)"
  unfolding never_fails_def by (metis mbind_eq)

lemma never_if: "never_fails m \<Longrightarrow> never_fails n \<Longrightarrow> never_fails (if b then m else n)"
  by simp

lemma never_when: "never_fails m \<Longrightarrow> never_fails (mwhen b m)"
  by (simp add: mwhen_def never_ret)

lemma never_option: "never_fails m \<Longrightarrow> (\<And>y. never_fails (n y)) \<Longrightarrow> never_fails (case x of None \<Rightarrow> m | Some y \<Rightarrow> n y)"
  by (cases x) simp_all

lemma never_for: "(\<And>x. never_fails (f x)) \<Longrightarrow> never_fails (mfor xs f)"
  by (induction xs) (simp_all add: never_ret never_bind)

lemma never_try: "(\<And>e. never_fails (h e)) \<Longrightarrow> never_fails (mtry m h)"
  unfolding never_fails_def mtry_def by (auto split: prod.split sum.split)

lemma never_transaction: "never_fails m \<Longrightarrow> never_fails (transaction m)"
  unfolding never_fails_def by (metis transaction_Inr_iff)

lemma never_failsD: "never_fails m \<Longrightarrow> \<exists>x w'. m w = (Inr x, w')"
  by (simp add: never_fails_def)

lemmas never_rules = never_ret never_exec never_query never_now never_newId never_gets never_modify
  never_if never_when never_option never_for never_try never_transaction never_bind

section \<open>Tables with fresh keys\<close>

text \<open>The keys of a table are distinct and were all drawn from the supply of identifiers.\<close>

definition keyed :: "('r \<Rightarrow> uuid) \<Rightarrow> 'r list \<Rightarrow> world \<Rightarrow> bool" where
  "keyed k t w \<longleftrightarrow> inj (w_uuid w) \<and> distinct (map k t) \<and> k ` set t \<subseteq> w_uuid w ` {..<w_next w}"

lemma keyed_fresh:
  assumes "keyed k t w" and "w_next w \<le> n"
  shows "w_uuid w n \<notin> k ` set t"
proof
  assume "w_uuid w n \<in> k ` set t"
  then obtain m where "w_uuid w n = w_uuid w m" "m < w_next w"
    using assms(1) unfolding keyed_def by blast
  with assms show False
    unfolding keyed_def using injD [of "w_uuid w" n m] by simp
qed

lemma keyed_later:
  assumes "keyed k t w" and "w_uuid w' = w_uuid w" and "w_next w \<le> w_next w'"
  shows "keyed k t w'"
proof -
  have "w_uuid w ` {..<w_next w} \<subseteq> w_uuid w' ` {..<w_next w'}"
    using assms(2,3) by (simp add: image_mono lessThan_subset_iff)
  with assms(1,2) show ?thesis unfolding keyed_def by (metis order.trans)
qed

lemma keyed_insert:
  assumes "keyed k t w" and "k r = w_uuid w n" and "w_next w \<le> n" and "n < w_next w'" and "w_uuid w' = w_uuid w"
  shows "keyed k (insert_row r t) w'"
proof -
  have "keyed k t w'"
    using assms by (intro keyed_later [OF assms(1)]) simp_all
  moreover have "k r \<notin> k ` set t"
    using keyed_fresh [OF assms(1,3)] assms(2) by simp
  moreover have "k r \<in> w_uuid w' ` {..<w_next w'}"
    using assms by (intro image_eqI [of _ _ n]) simp_all
  ultimately show ?thesis
    unfolding keyed_def insert_row_def by simp
qed

lemma keyed_update: "keyed k t w \<Longrightarrow> (\<And>r. k (f r) = k r) \<Longrightarrow> keyed k (update_where p f t) w"
  unfolding keyed_def by (simp add: map_update_where) (auto simp: set_update_where)

lemma keyed_only: "keyed k t w \<Longrightarrow> x \<in> set t \<Longrightarrow> y \<in> set t \<Longrightarrow> k x = k y \<Longrightarrow> x = y"
  by (auto simp: keyed_def distinct_map inj_on_def)

end
