(* ===== verification/Messaging.thy ===== *)
theory Messaging
  imports Schema
begin

text \<open>
  What a service writes next to its own rows: the transactional outbox, the notification
  outbox with its idempotency keys, the fan-out of an event to webhook subscriptions, and
  the audit log.  All of them only append rows; the frame lemmas say which table.
\<close>

section \<open>Outbox events\<close>

definition enqueue :: "string \<Rightarrow> string \<Rightarrow> string \<Rightarrow> jobject \<Rightarrow> unit svc" where
  "enqueue aggregateType aggregateId eventType payload =
     mbind newId (\<lambda>id. mbind now (\<lambda>t.
       exec (t_outbox_events_update (insert_row
         \<lparr>oe_id = id, oe_aggregate_type = aggregateType, oe_aggregate_id = aggregateId,
          oe_event_type = eventType, oe_payload = payload, oe_published = False,
          oe_created_at = t, oe_published_at = None\<rparr>))))"

section \<open>Notifications\<close>

record notification_input =
  ni_type :: string
  ni_vars :: jobject
  ni_recipient :: uuid
  ni_actor :: "uuid option"
  ni_resource :: "uuid option"
  ni_idempotency_key :: "string option"

text \<open>
  The insert is \<^verbatim>\<open>onConflictDoNothing()\<close>: a row with the same non-null idempotency key
  makes it a no-op.
\<close>

definition idempotency_taken :: "string option \<Rightarrow> notification_outbox_row list \<Rightarrow> bool" where
  "idempotency_taken k t \<longleftrightarrow> k \<noteq> None \<and> list_ex (\<lambda>r. no_idempotency_key r = k) t"

definition schedule :: "notification_input \<Rightarrow> unit svc" where
  "schedule input =
     mbind newId (\<lambda>id. mbind now (\<lambda>t.
       exec (t_notification_outbox_update (\<lambda>tab.
         if idempotency_taken (ni_idempotency_key input) tab then tab
         else insert_row
           \<lparr>no_id = id, no_recipient = ni_recipient input, no_actor = ni_actor input,
            no_type = ni_type input, no_vars = ni_vars input, no_resource = ni_resource input,
            no_status = No_pending, no_attempts = 0, no_last_error = None,
            no_idempotency_key = ni_idempotency_key input, no_scheduled_at = t,
            no_dispatched_at = None\<rparr> tab))))"

section \<open>Webhook fan-out\<close>

definition subscribed :: "string \<Rightarrow> webhook_subscription \<Rightarrow> bool" where
  "subscribed eventType s \<longleftrightarrow> ws_active s \<and> eventType \<in> set (ws_events s)"

definition new_delivery :: "timestamp \<Rightarrow> string \<Rightarrow> jobject \<Rightarrow> uuid \<Rightarrow> uuid \<Rightarrow> webhook_delivery" where
  "new_delivery t eventType payload sub deliveryId =
     \<lparr>wd_id = deliveryId, wd_subscription = sub, wd_event_type = eventType, wd_payload = payload,
      wd_status = Wd_pending, wd_attempts = 0, wd_next_attempt_at = t, wd_delivered_at = None,
      wd_last_error = None, wd_created_at = t\<rparr>"

definition deliver :: "timestamp \<Rightarrow> string \<Rightarrow> jobject \<Rightarrow> webhook_subscription \<Rightarrow> unit svc" where
  "deliver t eventType payload s = mbind newId (\<lambda>deliveryId.
     exec (t_webhook_deliveries_update (insert_row (new_delivery t eventType payload (ws_id s) deliveryId))))"

definition fanout :: "string \<Rightarrow> jobject \<Rightarrow> unit svc" where
  "fanout eventType payload =
     mbind (query (\<lambda>d. select_where (subscribed eventType) (t_webhook_subscriptions d))) (\<lambda>subs.
     if subs = [] then mret ()
     else mbind now (\<lambda>t. mfor subs (deliver t eventType payload)))"

section \<open>Audit\<close>

definition audit_record :: "uuid option \<Rightarrow> string option \<Rightarrow> string \<Rightarrow> string \<Rightarrow> uuid option
    \<Rightarrow> jobject \<Rightarrow> jobject \<Rightarrow> unit svc" where
  "audit_record actorId actorEmail action resourceType resourceId changes metadata =
     mbind newId (\<lambda>id. mbind now (\<lambda>t.
       exec (t_audit_logs_update (insert_row
         \<lparr>al_id = id, al_actor = actorId, al_actor_email = actorEmail, al_action = action,
          al_resource_type = resourceType, al_resource = resourceId, al_changes = changes,
          al_metadata = metadata, al_occurred_at = t\<rparr>))))"

section \<open>Frames\<close>

lemma keeps_enqueue [act_frame]:
  "(\<And>d u. f (t_outbox_events_update u d) = f d) \<Longrightarrow> keeps (same f) (enqueue a i e p)"
  unfolding enqueue_def by (intro same_rules) simp

lemma keeps_schedule [act_frame]:
  "(\<And>d u. f (t_notification_outbox_update u d) = f d) \<Longrightarrow> keeps (same f) (schedule i)"
  unfolding schedule_def by (intro same_rules) simp

lemma keeps_fanout [act_frame]:
  "(\<And>d u. f (t_webhook_deliveries_update u d) = f d) \<Longrightarrow> keeps (same f) (fanout e p)"
  unfolding fanout_def deliver_def by (intro same_rules) simp

lemma keeps_audit_record [act_frame]:
  "(\<And>d u. f (t_audit_logs_update u d) = f d) \<Longrightarrow> keeps (same f) (audit_record a b c r i ch m)"
  unfolding audit_record_def by (intro same_rules) simp

lemmas messaging_frames = keeps_enqueue keeps_schedule keeps_fanout keeps_audit_record

section \<open>What is written\<close>

text \<open>None of the four can fail; each returns with its row appended.\<close>

lemma enqueue_apply:
  "enqueue a i e p w = (Inr (), w\<lparr>w_next := Suc (w_next w), w_db := t_outbox_events_update (insert_row
     \<lparr>oe_id = w_uuid w (w_next w), oe_aggregate_type = a, oe_aggregate_id = i, oe_event_type = e,
      oe_payload = p, oe_published = False, oe_created_at = w_now w, oe_published_at = None\<rparr>) (w_db w)\<rparr>)"
  by (simp add: enqueue_def)

lemma schedule_total: "\<exists>w'. schedule i w = (Inr (), w')"
  by (simp add: schedule_def)

lemma audit_record_total: "\<exists>w'. audit_record a b c r i ch m w = (Inr (), w')"
  by (simp add: audit_record_def)

lemma never_schedule: "never_fails (schedule i)"
  using schedule_total by (simp add: never_fails_def)

lemma never_audit_record: "never_fails (audit_record a b c r i ch m)"
  using audit_record_total by (simp add: never_fails_def)

lemma never_enqueue: "never_fails (enqueue a i e p)"
  by (simp add: never_fails_def enqueue_apply)

text \<open>
  The fan-out in closed form: one pending delivery per active matching subscription, in
  the subscriptions' order, and nothing else.
\<close>

primrec deliveries_for :: "timestamp \<Rightarrow> string \<Rightarrow> jobject \<Rightarrow> (nat \<Rightarrow> uuid) \<Rightarrow> nat \<Rightarrow> webhook_subscription list
    \<Rightarrow> webhook_delivery list" where
  "deliveries_for t e p uid n [] = []"
| "deliveries_for t e p uid n (s # subs) =
     new_delivery t e p (ws_id s) (uid n) # deliveries_for t e p uid (Suc n) subs"

lemma deliver_apply:
  "deliver t e p s v = (Inr (), v\<lparr>w_next := Suc (w_next v), w_db := t_webhook_deliveries_update
     (\<lambda>tab. tab @ [new_delivery t e p (ws_id s) (w_uuid v (w_next v))]) (w_db v)\<rparr>)"
  by (simp add: deliver_def insert_row_def [abs_def])

lemma fanout_loop:
  "mfor subs (deliver t e p) v =
   (Inr (), v\<lparr>w_next := w_next v + length subs, w_db := t_webhook_deliveries_update
      (\<lambda>tab. tab @ deliveries_for t e p (w_uuid v) (w_next v) subs) (w_db v)\<rparr>)"
proof (induction subs arbitrary: v)
  case Nil
  show ?case by simp
next
  case (Cons s subs)
  show ?case
    by (simp add: mbind_eq [OF deliver_apply] Cons.IH comp_def)
qed

lemma fanout_apply:
  "fanout e p w =
     (let subs = select_where (subscribed e) (t_webhook_subscriptions (w_db w)) in
      (Inr (), w\<lparr>w_next := w_next w + length subs, w_db := t_webhook_deliveries_update
        (\<lambda>tab. tab @ deliveries_for (w_now w) e p (w_uuid w) (w_next w) subs) (w_db w)\<rparr>))"
  by (auto simp: fanout_def fanout_loop Let_def)

lemma deliveries_for_subscriptions:
  "map wd_subscription (deliveries_for t e p uid n subs) = map ws_id subs"
  by (induction subs arbitrary: n) (simp_all add: new_delivery_def)

lemma deliveries_for_pending:
  "d \<in> set (deliveries_for t e p uid n subs) \<Longrightarrow>
     wd_event_type d = e \<and> wd_payload d = p \<and> wd_status d = Wd_pending \<and> wd_attempts d = 0"
  by (induction subs arbitrary: n) (auto simp: new_delivery_def)

lemma fanout_total: "\<exists>w'. fanout e p w = (Inr (), w')"
  by (simp add: fanout_apply Let_def)

lemma never_fanout: "never_fails (fanout e p)"
  using fanout_total by (simp add: never_fails_def)

lemmas messaging_never = never_schedule never_audit_record never_enqueue never_fanout

end
