(* ===== verification/Authz.thy ===== *)
theory Authz
  imports Schema
begin

text \<open>
  Authorization (\<^verbatim>\<open>libs/platform/src/auth\<close>, \<^verbatim>\<open>libs/platform/src/authz\<close>): the scope
  matcher, the resolution of effective permissions with its cache, the permission check,
  the guards in front of the routes, and approval delegations.  The abstract notion is
  \<open>holds\<close>: the user has an unexpired assignment of a role that carries the permission or
  the wildcard.  The lemmas show that the grouped, cached resolution computes it.
\<close>

section \<open>Scopes\<close>

record resource_attrs =
  at_owner :: "uuid option"
  at_team :: "string option"
  at_dept :: "string option"
  at_region :: "string option"

record jwt_payload =
  jw_jti :: uuid
  jw_sub :: uuid
  jw_email :: string
  jw_roles :: "string list"
  jw_name :: string
  jw_exp :: int \<comment> \<open>in seconds\<close>

fun scope_matches :: "scope_type \<Rightarrow> scope \<Rightarrow> resource_attrs \<Rightarrow> jwt_payload \<Rightarrow> bool" where
  "scope_matches Scope_global g res user = True"
| "scope_matches Scope_self g res user = (at_owner res = Some (jw_sub user))"
| "scope_matches Scope_team g res user = (sc_id g \<noteq> None \<and> sc_id g = at_team res)"
| "scope_matches Scope_dept g res user = (sc_id g \<noteq> None \<and> sc_id g = at_dept res)"
| "scope_matches Scope_region g res user = (sc_id g \<noteq> None \<and> sc_id g = at_region res)"

definition anyMatches :: "scope list \<Rightarrow> resource_attrs \<Rightarrow> jwt_payload \<Rightarrow> bool" where
  "anyMatches grants res user = list_ex (\<lambda>g. scope_matches (sc_type g) g res user) grants"

section \<open>Resolution of effective permissions\<close>

definition WILDCARD_PERMISSION :: string where
  "WILDCARD_PERMISSION = ''*''"

definition CACHE_TTL_SECONDS :: int where
  "CACHE_TTL_SECONDS = 300"

definition not_expired :: "timestamp \<Rightarrow> role_assignment \<Rightarrow> bool" where
  "not_expired t a \<longleftrightarrow> (case ura_expires_at a of None \<Rightarrow> True | Some e \<Rightarrow> t < e)"

text \<open>The join of the assignments with the permissions of their roles.\<close>

definition permission_rows :: "uuid \<Rightarrow> timestamp \<Rightarrow> db \<Rightarrow> (string \<times> scope) list" where
  "permission_rows userId t d =
     concat (map (\<lambda>a. map (\<lambda>rp. (rp_permission rp, \<lparr>sc_type = ura_scope_type a, sc_id = ura_scope_id a\<rparr>))
                          (filter (\<lambda>rp. rp_role rp = ura_role a) (t_role_permissions d)))
       (filter (\<lambda>a. ura_user a = userId \<and> not_expired t a) (t_role_assignments d)))"

text \<open>\<^verbatim>\<open>(effective[row.permissionKey] ??= []).push(scope)\<close>\<close>

fun push_scope :: "effective_permissions \<Rightarrow> string \<times> scope \<Rightarrow> effective_permissions" where
  "push_scope [] (k, s) = [(k, [s])]"
| "push_scope ((k', ss) # e) (k, s) =
     (if k' = k then (k', ss @ [s]) # e else (k', ss) # push_scope e (k, s))"

definition group_rows :: "(string \<times> scope) list \<Rightarrow> effective_permissions" where
  "group_rows rows = foldl push_scope [] rows"

text \<open>The cache of the permission sets: a read sees an entry until its time to live is over.\<close>

definition cache_get_perms :: "uuid \<Rightarrow> effective_permissions option svc" where
  "cache_get_perms userId = mgets (\<lambda>w.
     if \<not> c_enabled (w_cache w) then None
     else (case c_perms (w_cache w) userId of
             None \<Rightarrow> None
           | Some (e, until) \<Rightarrow> if w_now w < until then Some e else None))"

definition cache_set_perms :: "uuid \<Rightarrow> effective_permissions \<Rightarrow> int \<Rightarrow> unit svc" where
  "cache_set_perms userId e ttl = mmodify (\<lambda>w.
     if \<not> c_enabled (w_cache w) then w
     else w\<lparr>w_cache := (w_cache w)\<lparr>c_perms := (c_perms (w_cache w))(userId \<mapsto> (e, w_now w + ttl * 1000))\<rparr>\<rparr>)"

definition resolve :: "uuid \<Rightarrow> effective_permissions svc" where
  "resolve userId =
     mbind (cache_get_perms userId) (\<lambda>cached.
     case cached of
       Some e \<Rightarrow> mret e
     | None \<Rightarrow>
         mbind (mgets w_perm_outage) (\<lambda>outage.
         if outage then mret []
         else mbind now (\<lambda>t.
              mbind (query (permission_rows userId t)) (\<lambda>rows.
              mbind (cache_set_perms userId (group_rows rows) CACHE_TTL_SECONDS) (\<lambda>_.
              mret (group_rows rows))))))"

definition invalidate :: "uuid \<Rightarrow> unit svc" where
  "invalidate userId = mmodify (\<lambda>w.
     if \<not> c_enabled (w_cache w) then w
     else w\<lparr>w_cache := (w_cache w)\<lparr>c_perms := (c_perms (w_cache w))(userId := None)\<rparr>\<rparr>)"

definition scopes_of :: "effective_permissions \<Rightarrow> string \<Rightarrow> scope list" where
  "scopes_of e k = (case map_of e k of None \<Rightarrow> [] | Some ss \<Rightarrow> ss)"

definition check_on :: "uuid \<Rightarrow> string \<Rightarrow> resource_attrs option \<Rightarrow> jwt_payload option \<Rightarrow> bool svc" where
  "check_on userId permission res user =
     mbind (resolve userId) (\<lambda>effective.
       let grants = scopes_of effective WILDCARD_PERMISSION @ scopes_of effective permission in
       if grants = [] then mret False
       else case (res, user) of
              (Some r, Some u) \<Rightarrow> mret (anyMatches grants r u)
            | _ \<Rightarrow> mret True)"

definition check :: "uuid \<Rightarrow> string \<Rightarrow> bool svc" where
  "check userId permission = check_on userId permission None None"

section \<open>Guards\<close>

record permission_requirement =
  pr_permission :: string
  pr_scope_from :: "resource_attrs option"

text \<open>
  The route's resource, when its decorator resolves one, is already part of the requirement.
\<close>

definition policy_guard :: "permission_requirement option \<Rightarrow> jwt_payload option \<Rightarrow> bool svc" where
  "policy_guard requirement user =
     (case requirement of
        None \<Rightarrow> mret True
      | Some r \<Rightarrow>
          mbind (or_throw user (UnauthorizedException UNAUTHORIZED)) (\<lambda>u.
          mbind (check_on (jw_sub u) (pr_permission r) (pr_scope_from r) (Some u)) (\<lambda>allowed.
          if \<not> allowed then mthrow (PermissionDeniedException (''Missing permission: '' @ pr_permission r))
          else mret True)))"

definition role_guard :: "string list option \<Rightarrow> jwt_payload option \<Rightarrow> exn + bool" where
  "role_guard required user =
     (case required of
        None \<Rightarrow> Inr True
      | Some rs \<Rightarrow>
          if rs = [] then Inr True
          else let roles = (case user of None \<Rightarrow> [] | Some u \<Rightarrow> jw_roles u) in
            if ''admin'' \<in> set roles then Inr True
            else if list_ex (\<lambda>r. r \<in> set roles) rs then Inr True
            else Inl (PermissionDeniedException ''Requires one of roles''))"

text \<open>The token check after the signature: two revocation marks, skipped without Redis.\<close>

definition mark_alive :: "timestamp \<Rightarrow> timestamp option \<Rightarrow> bool" where
  "mark_alive t m \<longleftrightarrow> (case m of None \<Rightarrow> False | Some until \<Rightarrow> t < until)"

definition jwt_validate :: "jwt_payload \<Rightarrow> jwt_payload svc" where
  "jwt_validate payload =
     mbind (mgets w_cache) (\<lambda>c. mbind now (\<lambda>t.
       if c_enabled c \<and> (mark_alive t (c_revoked_session c (jw_jti payload))
                         \<or> mark_alive t (c_revoked_employee c (jw_sub payload)))
       then mthrow (UnauthorizedException AUTH_TOKEN_INVALID)
       else mret payload))"

section \<open>Delegations\<close>

definition delegation_create :: "uuid \<Rightarrow> uuid \<Rightarrow> timestamp \<Rightarrow> timestamp \<Rightarrow> string option
    \<Rightarrow> approval_delegation svc" where
  "delegation_create fromUserId toUserId startsAt endsAt reason =
     (if fromUserId = toUserId then mthrow (PreconditionFailedException DELEGATION_SELF)
      else if startsAt \<ge> endsAt then mthrow (PreconditionFailedException DELEGATION_INVALID_WINDOW)
      else mbind newId (\<lambda>id. mbind now (\<lambda>t.
           let row = \<lparr>ad_id = id, ad_from = fromUserId, ad_to = toUserId, ad_starts_at = startsAt,
                      ad_ends_at = endsAt, ad_reason = reason, ad_created_at = t\<rparr> in
           mbind (exec (t_delegations_update (insert_row row))) (\<lambda>_. mret row))))"

definition delegation_revoke :: "uuid \<Rightarrow> uuid \<Rightarrow> unit svc" where
  "delegation_revoke delegationId actorId =
     mbind (query (\<lambda>d. find_where (\<lambda>r. ad_id r = delegationId) (t_delegations d))) (\<lambda>found.
     mbind (or_throw found (NotFoundException DELEGATION_NOT_FOUND)) (\<lambda>row.
     mbind (throw_if (ad_from row \<noteq> actorId) (PreconditionFailedException DELEGATION_NOT_OWNER)) (\<lambda>_.
     exec (t_delegations_update (delete_where (\<lambda>r. ad_id r = delegationId))))))"

definition delegation_list_from :: "uuid \<Rightarrow> approval_delegation list svc" where
  "delegation_list_from u = query (\<lambda>d. select_where (\<lambda>r. ad_from r = u) (t_delegations d))"

definition delegation_list_to :: "uuid \<Rightarrow> approval_delegation list svc" where
  "delegation_list_to u = query (\<lambda>d. select_where (\<lambda>r. ad_to r = u) (t_delegations d))"

definition delegation_active :: "uuid \<Rightarrow> timestamp \<Rightarrow> approval_delegation \<Rightarrow> bool" where
  "delegation_active u t r \<longleftrightarrow> ad_to r = u \<and> ad_starts_at r \<le> t \<and> t < ad_ends_at r"

definition findActiveDelegationTo :: "uuid \<Rightarrow> approval_delegation option svc" where
  "findActiveDelegationTo actorId =
     mbind now (\<lambda>t. query (\<lambda>d. find_where (delegation_active actorId t) (t_delegations d)))"

definition deleteExpiredBefore :: "timestamp \<Rightarrow> nat svc" where
  "deleteExpiredBefore before =
     mbind (query (\<lambda>d. length (select_where (\<lambda>r. ad_ends_at r \<le> before) (t_delegations d)))) (\<lambda>n.
     mbind (exec (t_delegations_update (delete_where (\<lambda>r. ad_ends_at r \<le> before)))) (\<lambda>_. mret n))"

section \<open>Specification: who holds a permission\<close>

definition holds :: "db \<Rightarrow> timestamp \<Rightarrow> uuid \<Rightarrow> string \<Rightarrow> bool" where
  "holds d t u p \<longleftrightarrow>
     (\<exists>a \<in> set (t_role_assignments d). ura_user a = u \<and> not_expired t a \<and>
        (\<exists>rp \<in> set (t_role_permissions d). rp_role rp = ura_role a \<and>
            (rp_permission rp = p \<or> rp_permission rp = WILDCARD_PERMISSION)))"

definition holds_on :: "db \<Rightarrow> timestamp \<Rightarrow> uuid \<Rightarrow> string \<Rightarrow> resource_attrs \<Rightarrow> jwt_payload \<Rightarrow> bool" where
  "holds_on d t u p res user \<longleftrightarrow>
     (\<exists>a \<in> set (t_role_assignments d). ura_user a = u \<and> not_expired t a \<and>
        scope_matches (ura_scope_type a) \<lparr>sc_type = ura_scope_type a, sc_id = ura_scope_id a\<rparr> res user \<and>
        (\<exists>rp \<in> set (t_role_permissions d). rp_role rp = ura_role a \<and>
            (rp_permission rp = p \<or> rp_permission rp = WILDCARD_PERMISSION)))"

text \<open>No live cache entry for the user: the next resolution reads the tables.\<close>

definition cold :: "uuid \<Rightarrow> world \<Rightarrow> bool" where
  "cold u w \<longleftrightarrow> fst (cache_get_perms u w) = Inr None"

section \<open>Grouping is faithful\<close>

lemma scopes_of_Nil [simp]: "scopes_of [] k = []"
  by (simp add: scopes_of_def)

lemma scopes_of_push:
  "scopes_of (push_scope e ks) k = scopes_of e k @ (if k = fst ks then [snd ks] else [])"
  by (induction e ks rule: push_scope.induct) (auto simp: scopes_of_def)

lemma scopes_of_foldl:
  "scopes_of (foldl push_scope e rows) k = scopes_of e k @ map snd (filter (\<lambda>r. fst r = k) rows)"
  by (induction rows arbitrary: e) (auto simp: scopes_of_push)

lemma scopes_of_group: "scopes_of (group_rows rows) k = map snd (filter (\<lambda>r. fst r = k) rows)"
  by (simp add: group_rows_def scopes_of_foldl)

lemma set_permission_rows:
  "(k, s) \<in> set (permission_rows u t d) \<longleftrightarrow>
     (\<exists>a \<in> set (t_role_assignments d). ura_user a = u \<and> not_expired t a \<and>
        s = \<lparr>sc_type = ura_scope_type a, sc_id = ura_scope_id a\<rparr> \<and>
        (\<exists>rp \<in> set (t_role_permissions d). rp_role rp = ura_role a \<and> rp_permission rp = k))"
  by (auto simp: permission_rows_def)

lemma set_scopes_of_group: "set (scopes_of (group_rows rows) k) = {s. (k, s) \<in> set rows}"
  by (force simp: scopes_of_group)

lemma keys_push_scope: "set (map fst (push_scope e ks)) = insert (fst ks) (set (map fst e))"
  by (induction e ks rule: push_scope.induct) auto

lemma keys_group_rows: "set (map fst (group_rows rows)) = fst ` set rows"
proof -
  have "set (map fst (foldl push_scope e rows)) = set (map fst e) \<union> fst ` set rows" for e
    by (induction rows arbitrary: e) (auto simp: keys_push_scope simp del: set_map)
  then show ?thesis
    by (simp add: group_rows_def del: set_map)
qed

section \<open>Resolution and checks\<close>

lemma now_only_cache:
  "snd (cache_set_perms u e ttl w) = w\<lparr>w_cache := w_cache (snd (cache_set_perms u e ttl w))\<rparr>"
  by (simp add: cache_set_perms_def)

text \<open>Resolution never throws and touches nothing but the cache.\<close>

lemma resolve_total:
  obtains e c where "resolve u w = (Inr e, w\<lparr>w_cache := c\<rparr>)" and "c_enabled c = c_enabled (w_cache w)"
proof (cases "fst (cache_get_perms u w)")
  case (Inl x)
  then show thesis by (simp add: cache_get_perms_def)
next
  case (Inr cached)
  then have "resolve u w = (case cached of Some e \<Rightarrow> (Inr e, w) | None \<Rightarrow>
      if w_perm_outage w then (Inr [], w)
      else (Inr (group_rows (permission_rows u (w_now w) (w_db w))),
            snd (cache_set_perms u (group_rows (permission_rows u (w_now w) (w_db w))) CACHE_TTL_SECONDS w)))"
    by (simp add: resolve_def cache_get_perms_def cache_set_perms_def split: option.split)
  then show thesis
    by (cases cached; cases "w_perm_outage w"; cases "c_enabled (w_cache w)")
      (auto simp: cache_set_perms_def intro: that [of _ "w_cache w"] that)
qed

lemma check_on_total:
  obtains b c where "check_on u p res usr w = (Inr b, w\<lparr>w_cache := c\<rparr>)"
    and "c_enabled c = c_enabled (w_cache w)"
proof -
  obtain e c where "resolve u w = (Inr e, w\<lparr>w_cache := c\<rparr>)" "c_enabled c = c_enabled (w_cache w)"
    by (rule resolve_total)
  then have "\<exists>b. check_on u p res usr w = (Inr b, w\<lparr>w_cache := c\<rparr>)" and "c_enabled c = c_enabled (w_cache w)"
    by (auto simp: check_on_def mbind_eq Let_def split: option.split)
  then show thesis
    by (auto intro: that)
qed

lemma check_total:
  obtains b c where "check u p w = (Inr b, w\<lparr>w_cache := c\<rparr>)"
    and "c_enabled c = c_enabled (w_cache w)"
  unfolding check_def by (rule check_on_total)

lemma keeps_check [act_frame]: "keeps (same f) (check u p)"
proof (rule keepsI)
  fix w
  obtain b c where "check u p w = (Inr b, w\<lparr>w_cache := c\<rparr>)"
    by (rule check_total)
  then show "same f w (snd (check u p w))"
    by (simp add: same_def)
qed

lemma keeps_findActiveDelegationTo [act_frame]: "keeps (same f) (findActiveDelegationTo a)"
  unfolding findActiveDelegationTo_def by (intro same_rules)

lemma findActiveDelegationTo_apply [simp]:
  "findActiveDelegationTo a w = (Inr (find_where (delegation_active a (w_now w)) (t_delegations (w_db w))), w)"
  by (simp add: findActiveDelegationTo_def)

text \<open>What a resolution returns, by the state of the cache.\<close>

lemma resolve_cold:
  "cold u w \<Longrightarrow> \<not> w_perm_outage w \<Longrightarrow>
   fst (resolve u w) = Inr (group_rows (permission_rows u (w_now w) (w_db w)))"
  by (simp add: cold_def resolve_def cache_get_perms_def cache_set_perms_def split: option.splits if_splits)

lemma resolve_outage: "cold u w \<Longrightarrow> w_perm_outage w \<Longrightarrow> resolve u w = (Inr [], w)"
  by (simp add: cold_def resolve_def cache_get_perms_def split: option.splits if_splits)

lemma check_on_result:
  assumes "fst (resolve u w) = Inr e"
  shows "fst (check_on u p res usr w) =
    Inr (let gs = scopes_of e WILDCARD_PERMISSION @ scopes_of e p in
         gs \<noteq> [] \<and> (case (res, usr) of (Some r, Some v) \<Rightarrow> anyMatches gs r v | _ \<Rightarrow> True))"
proof -
  obtain w' where "resolve u w = (Inr e, w')"
    using assms by (cases "resolve u w") auto
  then show ?thesis
    by (auto simp: check_on_def mbind_eq Let_def split: option.split)
qed

lemma scopes_of_group_nonempty:
  "scopes_of (group_rows (permission_rows u t d)) k \<noteq> [] \<longleftrightarrow>
     (\<exists>a \<in> set (t_role_assignments d). ura_user a = u \<and> not_expired t a \<and>
        (\<exists>rp \<in> set (t_role_permissions d). rp_role rp = ura_role a \<and> rp_permission rp = k))"
proof -
  have "scopes_of (group_rows (permission_rows u t d)) k \<noteq> [] \<longleftrightarrow>
      (\<exists>s. (k, s) \<in> set (permission_rows u t d))"
    by (metis set_scopes_of_group Collect_empty_eq set_empty)
  then show ?thesis
    by (auto simp: set_permission_rows)
qed

lemma holds_group:
  "scopes_of (group_rows (permission_rows u t d)) WILDCARD_PERMISSION
     @ scopes_of (group_rows (permission_rows u t d)) p \<noteq> [] \<longleftrightarrow> holds d t u p"
  unfolding append_is_Nil_conv de_Morgan_conj scopes_of_group_nonempty holds_def by blast

lemma check_cold:
  assumes "cold u w" and "\<not> w_perm_outage w"
  shows "fst (check u p w) = Inr (holds (w_db w) (w_now w) u p)"
  unfolding check_def check_on_result [OF resolve_cold [OF assms]]
  by (simp only: Let_def holds_group split_conv option.case simp_thms)

text \<open>
  The cache is sound when every live entry is what a resolution would compute now.  Checks
  keep it sound, and answer \<open>holds\<close>.
\<close>

definition cache_sound :: "world \<Rightarrow> bool" where
  "cache_sound w \<longleftrightarrow> (\<forall>u e. fst (cache_get_perms u w) = Inr (Some e) \<longrightarrow>
     e = group_rows (permission_rows u (w_now w) (w_db w)))"

lemma resolve_sound:
  assumes "cache_sound w" and "\<not> w_perm_outage w"
  obtains c where "resolve u w = (Inr (group_rows (permission_rows u (w_now w) (w_db w))), w\<lparr>w_cache := c\<rparr>)"
    and "cache_sound (w\<lparr>w_cache := c\<rparr>)"
proof (cases "cold u w")
  case True
  obtain e c where r: "resolve u w = (Inr e, w\<lparr>w_cache := c\<rparr>)"
    by (rule resolve_total)
  moreover have e: "e = group_rows (permission_rows u (w_now w) (w_db w))"
    using resolve_cold [OF True assms(2)] r by simp
  moreover have c: "c = w_cache (snd (cache_set_perms u e CACHE_TTL_SECONDS w))"
    using True assms(2) arg_cong [OF r, of "\<lambda>x. w_cache (snd x)"] e
    by (auto simp: cold_def resolve_def cache_get_perms_def cache_set_perms_def split: option.splits if_splits)
  have "cache_sound (w\<lparr>w_cache := c\<rparr>)"
    unfolding c using assms(1) e
    by (auto simp: cache_sound_def cache_get_perms_def cache_set_perms_def split: option.splits if_splits)
  ultimately show thesis
    by (auto intro: that)
next
  case False
  then obtain e where e: "fst (cache_get_perms u w) = Inr (Some e)"
    by (auto simp: cold_def cache_get_perms_def)
  then have "resolve u w = (Inr e, w)"
    by (simp add: resolve_def cache_get_perms_def)
  moreover have "e = group_rows (permission_rows u (w_now w) (w_db w))"
    using e assms(1) by (simp add: cache_sound_def)
  ultimately show thesis
    using assms(1) by (intro that [of "w_cache w"]) simp_all
qed

lemma check_sound:
  assumes "cache_sound w" and "\<not> w_perm_outage w"
  obtains c where "check u p w = (Inr (holds (w_db w) (w_now w) u p), w\<lparr>w_cache := c\<rparr>)"
    and "cache_sound (w\<lparr>w_cache := c\<rparr>)"
proof -
  obtain c where r: "resolve u w = (Inr (group_rows (permission_rows u (w_now w) (w_db w))), w\<lparr>w_cache := c\<rparr>)"
    and c: "cache_sound (w\<lparr>w_cache := c\<rparr>)"
    using resolve_sound [OF assms] by blast
  have "check u p w = (Inr (holds (w_db w) (w_now w) u p), w\<lparr>w_cache := c\<rparr>)"
    unfolding check_def check_on_def mbind_eq [where m = "resolve u", OF r] Let_def
    by (simp only: holds_group [symmetric] split: option.split) simp
  with c show thesis by (intro that)
qed

lemma anyMatches_iff: "anyMatches gs res v \<longleftrightarrow> (\<exists>g \<in> set gs. scope_matches (sc_type g) g res v)"
  by (simp add: anyMatches_def list_ex_iff)

lemma check_on_cold:
  assumes "cold u w" and "\<not> w_perm_outage w"
  shows "fst (check_on u p (Some res) (Some v) w) = Inr (holds_on (w_db w) (w_now w) u p res v)"
proof -
  let ?gs = "scopes_of (group_rows (permission_rows u (w_now w) (w_db w))) WILDCARD_PERMISSION
    @ scopes_of (group_rows (permission_rows u (w_now w) (w_db w))) p"
  have "?gs \<noteq> [] \<and> anyMatches ?gs res v \<longleftrightarrow> anyMatches ?gs res v"
    by (auto simp: anyMatches_iff)
  also have "\<dots> \<longleftrightarrow> holds_on (w_db w) (w_now w) u p res v"
  proof -
    have "set ?gs = {\<lparr>sc_type = ura_scope_type a, sc_id = ura_scope_id a\<rparr> | a.
        a \<in> set (t_role_assignments (w_db w)) \<and> ura_user a = u \<and> not_expired (w_now w) a \<and>
        (\<exists>rp \<in> set (t_role_permissions (w_db w)). rp_role rp = ura_role a \<and>
            (rp_permission rp = p \<or> rp_permission rp = WILDCARD_PERMISSION))}"
      by (auto simp: set_scopes_of_group set_permission_rows)
    then show ?thesis
      unfolding anyMatches_iff holds_on_def by fastforce
  qed
  finally show ?thesis
    unfolding check_on_result [OF resolve_cold [OF assms]] by (simp add: Let_def)
qed

section \<open>Staleness, invalidation and the guards\<close>

lemma invalidate_cold: "cold u (snd (invalidate u w))"
  by (simp add: invalidate_def cold_def cache_get_perms_def)

lemma invalidate_db [simp]:
  "w_db (snd (invalidate u w)) = w_db w" "w_now (snd (invalidate u w)) = w_now w"
  "w_perm_outage (snd (invalidate u w)) = w_perm_outage w"
  by (simp_all add: invalidate_def)

lemma invalidate_returns: "fst (invalidate u w) = Inr ()"
  by (simp add: invalidate_def)

lemma keeps_invalidate [act_frame]: "keeps (same f) (invalidate u)"
  by (simp add: keeps_def same_def invalidate_def)

text \<open>Right after an invalidation the check answers from the tables.\<close>

lemma check_after_invalidate:
  "\<not> w_perm_outage w \<Longrightarrow>
   fst (check u p (snd (invalidate u w))) = Inr (holds (w_db w) (w_now w) u p)"
  using check_cold [OF invalidate_cold, of u w p] by simp

text \<open>Without the tables the check denies.\<close>

lemma check_fails_closed: "cold u w \<Longrightarrow> w_perm_outage w \<Longrightarrow> check_on u p res usr w = (Inr False, w)"
  by (simp add: check_on_def mbind_eq [OF resolve_outage] Let_def)

lemma policy_guard_cold:
  assumes "cold (jw_sub v) w" and "\<not> w_perm_outage w"
  shows "fst (policy_guard (Some r) (Some v) w) =
     (if (case pr_scope_from r of
            None \<Rightarrow> holds (w_db w) (w_now w) (jw_sub v) (pr_permission r)
          | Some res \<Rightarrow> holds_on (w_db w) (w_now w) (jw_sub v) (pr_permission r) res v)
      then Inr True
      else Inl (PermissionDeniedException (''Missing permission: '' @ pr_permission r)))"
proof -
  have none: "check_on u p None (Some v) w = check_on u p None None w" for u p
    by (simp add: check_on_def cong: if_cong)
  obtain b c where "check_on (jw_sub v) (pr_permission r) (pr_scope_from r) (Some v) w = (Inr b, w\<lparr>w_cache := c\<rparr>)"
    by (rule check_on_total)
  moreover from this have "fst (check_on (jw_sub v) (pr_permission r) (pr_scope_from r) (Some v) w) = Inr b"
    by simp
  then have "b = (case pr_scope_from r of
            None \<Rightarrow> holds (w_db w) (w_now w) (jw_sub v) (pr_permission r)
          | Some res \<Rightarrow> holds_on (w_db w) (w_now w) (jw_sub v) (pr_permission r) res v)"
    using check_cold [OF assms, of "pr_permission r"] check_on_cold [OF assms, of "pr_permission r" _ v]
    by (cases "pr_scope_from r") (simp_all add: check_def none)
  ultimately show ?thesis
    by (simp add: policy_guard_def mbind_eq)
qed

section \<open>Delegations stay well formed\<close>

definition delegations_wf :: "db \<Rightarrow> bool" where
  "delegations_wf d \<longleftrightarrow> (\<forall>r \<in> set (t_delegations d). ad_from r \<noteq> ad_to r \<and> ad_starts_at r < ad_ends_at r)"

lemma delegation_create_wf:
  "delegations_wf (w_db w) \<Longrightarrow> delegations_wf (w_db (snd (delegation_create f t s e r w)))"
  by (auto simp: delegation_create_def delegations_wf_def Let_def)

lemma delegation_revoke_wf:
  "delegations_wf (w_db w) \<Longrightarrow> delegations_wf (w_db (snd (delegation_revoke i a w)))"
  by (auto simp: delegation_revoke_def delegations_wf_def split: option.split)

lemma deleteExpiredBefore_wf:
  "delegations_wf (w_db w) \<Longrightarrow> delegations_wf (w_db (snd (deleteExpiredBefore b w)))"
  by (auto simp: deleteExpiredBefore_def delegations_wf_def)

lemma delegation_active_holder:
  assumes "delegations_wf (w_db w)"
    and "findActiveDelegationTo a w = (Inr (Some r), w')"
  shows "ad_to r = a \<and> ad_from r \<noteq> a \<and> ad_starts_at r \<le> w_now w \<and> w_now w < ad_ends_at r"
proof -
  have "find_where (delegation_active a (w_now w)) (t_delegations (w_db w)) = Some r"
    using assms(2) by auto
  with find_where_SomeD [OF this] assms(1) show ?thesis
    by (auto simp: delegations_wf_def delegation_active_def)
qed

lemma find_where_delete_disjoint:
  "(\<And>r. q r \<Longrightarrow> \<not> p r) \<Longrightarrow> find_where q (delete_where p t) = find_where q t"
  by (induction t) (auto simp: delete_where_def)

text \<open>The retention purge never removes a delegation that is still active.\<close>

lemma purge_keeps_active:
  assumes "before \<le> w_now w" and "deleteExpiredBefore before w = (Inr n, w')"
  shows "fst (findActiveDelegationTo a w') = fst (findActiveDelegationTo a w)"
  using assms
  by (auto simp: deleteExpiredBefore_def delegation_active_def intro!: find_where_delete_disjoint)

end
