(* ===== verification/Request_Engine.thy ===== *)
theory Request_Engine
  imports Messaging Authz
begin

text \<open>
  The universal request engine (\<^verbatim>\<open>libs/platform/src/requests\<close>): the registry of request
  types with their lifecycle hooks, the transitions submit, approve, reject, cancel and
  expire, and the queries and comments.  Every transition reads the request and checks the
  caller first, outside the transaction, and then runs the state change, the type's hook
  and the outbox writes in one transaction; \<open>approve_guard\<close> and \<open>approve_tx\<close> (and the same
  for reject) are those two halves, so that interleavings can be stated.
\<close>

section \<open>Type definitions and the registry\<close>

record step_def =
  sd_step :: int
  sd_permission :: string
  sd_resolver :: "(jobject \<Rightarrow> uuid option svc) option"

record type_def =
  td_type :: string
  td_permission :: string
  td_allow_self :: bool
  td_expiry_hours :: "int option"
  td_sla_hours :: "int option"
  td_steps :: "step_def list option"
  td_on_submit :: "(jobject \<Rightarrow> uuid \<Rightarrow> unit svc) option"
  td_on_approve :: "jobject \<Rightarrow> uuid \<Rightarrow> uuid \<Rightarrow> unit svc"
  td_on_step_approved :: "(jobject \<Rightarrow> uuid \<Rightarrow> int \<Rightarrow> int \<Rightarrow> uuid option \<Rightarrow> uuid \<Rightarrow> unit svc) option"
  td_on_reject :: "(jobject \<Rightarrow> uuid \<Rightarrow> uuid \<Rightarrow> unit svc) option"
  td_on_cancel :: "(jobject \<Rightarrow> uuid \<Rightarrow> uuid \<Rightarrow> unit svc) option"
  td_on_expire :: "(jobject \<Rightarrow> uuid \<Rightarrow> unit svc) option"
  td_after_approve :: "(jobject \<Rightarrow> uuid \<Rightarrow> uuid \<Rightarrow> unit svc) option"

type_synonym registry = "(string \<times> type_def) list"

definition registry_has :: "registry \<Rightarrow> string \<Rightarrow> bool" where
  "registry_has reg k \<longleftrightarrow> map_of reg k \<noteq> None"

definition registry_register :: "registry \<Rightarrow> type_def \<Rightarrow> registry" where
  "registry_register reg def = (if registry_has reg (td_type def) then reg else reg @ [(td_type def, def)])"

definition registry_get :: "registry \<Rightarrow> string \<Rightarrow> type_def svc" where
  "registry_get reg k =
     or_throw (map_of reg k) (PlainError (''No RequestTypeDef registered for type '' @ k))"

definition registry_list :: "registry \<Rightarrow> type_def list" where
  "registry_list reg = map snd reg"

definition run_hook :: "'a option \<Rightarrow> ('a \<Rightarrow> unit svc) \<Rightarrow> unit svc" where
  "run_hook h call = (case h of None \<Rightarrow> mret () | Some f \<Rightarrow> call f)"

section \<open>Helpers\<close>

definition getOrFail :: "uuid \<Rightarrow> request_item svc" where
  "getOrFail rid =
     mbind (query (\<lambda>d. find_where (\<lambda>r. ri_id r = rid) (t_request_items d))) (\<lambda>item.
     or_throw item (NotFoundException REQUEST_NOT_FOUND))"

definition open_status :: "request_status \<Rightarrow> bool" where
  "open_status st \<longleftrightarrow> st = Req_pending \<or> st = Req_in_review"

definition assertApprovable :: "request_status \<Rightarrow> unit svc" where
  "assertApprovable st = throw_if (\<not> open_status st) (PreconditionFailedException REQUEST_NOT_PENDING)"

definition step_permission :: "type_def \<Rightarrow> int \<Rightarrow> string" where
  "step_permission def cur =
     (case td_steps def of
        None \<Rightarrow> td_permission def
      | Some steps \<Rightarrow>
          (case find_where (\<lambda>s. sd_step s = cur) steps of
             None \<Rightarrow> td_permission def
           | Some s \<Rightarrow> sd_permission s))"

text \<open>\<^verbatim>\<open>Math.max(...steps)\<close>; with no steps at all that is minus infinity, here \<open>None\<close>.\<close>

definition max_step :: "type_def \<Rightarrow> int option" where
  "max_step def =
     (case td_steps def of
        None \<Rightarrow> Some 1
      | Some [] \<Rightarrow> None
      | Some (s # ss) \<Rightarrow> Some (fold max (map sd_step ss) (sd_step s)))"

definition is_final_step :: "type_def \<Rightarrow> int \<Rightarrow> bool" where
  "is_final_step def cur \<longleftrightarrow>
     td_steps def = None \<or> (case max_step def of None \<Rightarrow> True | Some m \<Rightarrow> m \<le> cur)"

definition max_step_json :: "type_def \<Rightarrow> json" where
  "max_step_json def = (case max_step def of None \<Rightarrow> JNull | Some m \<Rightarrow> JNum m)"

section \<open>Submit\<close>

record submit_options =
  so_expires_at :: "timestamp option"
  so_priority :: "request_priority option"
  so_assignee :: "uuid option"

definition no_options :: submit_options where
  "no_options = \<lparr>so_expires_at = None, so_priority = None, so_assignee = None\<rparr>"

text \<open>\<^verbatim>\<open>h ? new Date(now + h hours) : null\<close>: zero hours count as none.\<close>

definition hours_after :: "timestamp \<Rightarrow> int option \<Rightarrow> timestamp option" where
  "hours_after t h = (case h of None \<Rightarrow> None | Some n \<Rightarrow> if n = 0 then None else Some (t + n * 3600000))"

definition total_steps :: "type_def \<Rightarrow> int" where
  "total_steps def = (case td_steps def of None \<Rightarrow> 1 | Some ss \<Rightarrow> int (length ss))"

definition new_request :: "uuid \<Rightarrow> timestamp \<Rightarrow> type_def \<Rightarrow> string \<Rightarrow> jobject \<Rightarrow> actor \<Rightarrow> submit_options \<Rightarrow> request_item" where
  "new_request newRequestId t def type payload actor opts =
     \<lparr>ri_id = newRequestId, ri_type = type, ri_requester = ac_sub actor,
      ri_assignee = so_assignee opts, ri_status = Req_pending,
      ri_priority = (case so_priority opts of None \<Rightarrow> Prio_normal | Some p \<Rightarrow> p),
      ri_payload = payload, ri_resolution_note = None, ri_submitted_at = t, ri_resolved_at = None,
      ri_expires_at = (case so_expires_at opts of Some e \<Rightarrow> Some e | None \<Rightarrow> hours_after t (td_expiry_hours def)),
      ri_sla_hours = td_sla_hours def, ri_sla_deadline = hours_after t (td_sla_hours def),
      ri_sla_breached_at = None, ri_current_step = 1, ri_total_steps = total_steps def,
      ri_created_at = t, ri_updated_at = t\<rparr>"

definition submit :: "registry \<Rightarrow> string \<Rightarrow> jobject \<Rightarrow> actor \<Rightarrow> submit_options \<Rightarrow> request_item svc" where
  "submit reg type payload actor opts =
     mbind (registry_get reg type) (\<lambda>def. mbind now (\<lambda>t.
     transaction (
       mbind (run_hook (td_on_submit def) (\<lambda>h. h payload (ac_sub actor))) (\<lambda>_.
       mbind newId (\<lambda>rid.
       let row = new_request rid t def type payload actor opts;
           submitPayload = [(''requestId'', JStr rid), (''type'', JStr type),
              (''requesterId'', JStr (ac_sub actor)), (''priority'', JStr (priority_name (ri_priority row)))] in
       mbind (exec (t_request_items_update (insert_row row))) (\<lambda>_.
       mbind (enqueue ''request'' rid ''request.submitted'' submitPayload) (\<lambda>_.
       mbind (fanout ''request.submitted'' submitPayload) (\<lambda>_.
       mbind (case ri_assignee row of
                None \<Rightarrow> mret ()
              | Some a \<Rightarrow> schedule
                  \<lparr>ni_type = ''request.submitted'',
                   ni_vars = [(''requestType'', JStr type), (''requestId'', JStr rid),
                              (''requesterEmail'', JStr (ac_email actor))],
                   ni_recipient = a, ni_actor = Some (ac_sub actor), ni_resource = Some rid,
                   ni_idempotency_key = Some (''request_submitted:'' @ rid)\<rparr>) (\<lambda>_.
       mret row)))))))))"

section \<open>Approve\<close>

text \<open>What the checks of approve and reject establish: the request as read, its type, and
  the delegation the caller acts under.\<close>

record decision_ctx =
  dx_request :: request_item
  dx_def :: type_def
  dx_delegation :: "approval_delegation option"

definition sod_subject :: "actor \<Rightarrow> approval_delegation option \<Rightarrow> uuid" where
  "sod_subject actor deleg = (case deleg of None \<Rightarrow> ac_sub actor | Some g \<Rightarrow> ad_from g)"

definition delegator_check :: "approval_delegation option \<Rightarrow> string \<Rightarrow> bool svc" where
  "delegator_check deleg perm = (case deleg of None \<Rightarrow> mret False | Some g \<Rightarrow> check (ad_from g) perm)"

definition missing_permission :: "int \<Rightarrow> string \<Rightarrow> exn" where
  "missing_permission cur perm =
     PermissionDeniedException (''Missing permission for step '' @ int_str cur @ '': '' @ perm)"

definition approve_guard :: "registry \<Rightarrow> uuid \<Rightarrow> actor \<Rightarrow> decision_ctx svc" where
  "approve_guard reg requestId actor =
     mbind (getOrFail requestId) (\<lambda>request.
     mbind (assertApprovable (ri_status request)) (\<lambda>_.
     mbind (registry_get reg (ri_type request)) (\<lambda>def.
     let requiredPermission = step_permission def (ri_current_step request) in
     mbind (findActiveDelegationTo (ac_sub actor)) (\<lambda>deleg.
     mbind (throw_if (\<not> td_allow_self def \<and> ri_requester request = sod_subject actor deleg)
              (PermissionDeniedException
                 ''REQUEST_SOD_VIOLATION: Requester cannot approve their own request'')) (\<lambda>_.
     mbind (check (ac_sub actor) requiredPermission) (\<lambda>actorAllowed.
     mbind (delegator_check deleg requiredPermission) (\<lambda>delegatorAllowed.
     mbind (throw_if (\<not> actorAllowed \<and> \<not> delegatorAllowed)
              (missing_permission (ri_current_step request) requiredPermission)) (\<lambda>_.
     mret \<lparr>dx_request = request, dx_def = def, dx_delegation = deleg\<rparr>))))))))"

text \<open>The assignee of the next step: the next step's resolver when it has one.\<close>

definition next_assignee :: "decision_ctx \<Rightarrow> uuid option svc" where
  "next_assignee ctx =
     (let request = dx_request ctx; def = dx_def ctx; cur = ri_current_step request;
          nextStepDef = (case td_steps def of None \<Rightarrow> None
                         | Some steps \<Rightarrow> find_where (\<lambda>s. sd_step s = cur + 1) steps) in
      if is_final_step def cur then mret (ri_assignee request)
      else case nextStepDef of
             None \<Rightarrow> mret (ri_assignee request)
           | Some s \<Rightarrow>
               (case sd_resolver s of
                  None \<Rightarrow> mret (ri_assignee request)
                | Some f \<Rightarrow>
                    mbind (f (ri_payload request)) (\<lambda>a.
                    mret (case a of None \<Rightarrow> ri_assignee request | Some x \<Rightarrow> Some x))))"

definition approved_row :: "decision_ctx \<Rightarrow> string option \<Rightarrow> uuid option \<Rightarrow> timestamp \<Rightarrow> request_item \<Rightarrow> request_item" where
  "approved_row ctx note nextAssigneeId t r =
     (let request = dx_request ctx; cur = ri_current_step request;
          isFinalStep = is_final_step (dx_def ctx) cur in
      r\<lparr>ri_status := (if isFinalStep then Req_approved else Req_in_review),
        ri_current_step := (if isFinalStep then cur else cur + 1),
        ri_assignee := (if isFinalStep then ri_assignee request else nextAssigneeId),
        ri_resolved_at := (if isFinalStep then Some t else None),
        ri_resolution_note := (if isFinalStep then note else None),
        ri_updated_at := t\<rparr>)"

definition decision_row :: "decision_ctx \<Rightarrow> decision \<Rightarrow> string option \<Rightarrow> actor \<Rightarrow> uuid \<Rightarrow> timestamp \<Rightarrow> request_approval" where
  "decision_row ctx decision note actor approvalId t =
     \<lparr>ra_id = approvalId, ra_request = ri_id (dx_request ctx), ra_step = ri_current_step (dx_request ctx),
      ra_approver = ac_sub actor, ra_decision = decision, ra_note = note,
      ra_delegated_from = map_option ad_from (dx_delegation ctx), ra_decided_at = t\<rparr>"

definition final_approval :: "decision_ctx \<Rightarrow> actor \<Rightarrow> unit svc" where
  "final_approval ctx actor =
     (let request = dx_request ctx; requestId = ri_id request in
      mbind (td_on_approve (dx_def ctx) (ri_payload request) requestId (ac_sub actor)) (\<lambda>_.
      schedule
        \<lparr>ni_type = ''request.approved'',
         ni_vars = [(''requestType'', JStr (ri_type request)), (''requestId'', JStr requestId)],
         ni_recipient = ri_requester request, ni_actor = Some (ac_sub actor),
         ni_resource = Some requestId,
         ni_idempotency_key = Some (''request_approved:'' @ requestId)\<rparr>))"

definition step_approval :: "decision_ctx \<Rightarrow> uuid option \<Rightarrow> actor \<Rightarrow> unit svc" where
  "step_approval ctx nextAssigneeId actor =
     (let request = dx_request ctx; requestId = ri_id request; cur = ri_current_step request in
      mbind (run_hook (td_on_step_approved (dx_def ctx))
               (\<lambda>h. h (ri_payload request) requestId cur (cur + 1) nextAssigneeId (ac_sub actor))) (\<lambda>_.
      case nextAssigneeId of
        None \<Rightarrow> mret ()
      | Some a \<Rightarrow> schedule
          \<lparr>ni_type = ''request.step_ready'',
           ni_vars = [(''requestType'', JStr (ri_type request)), (''requestId'', JStr requestId),
                      (''completedStep'', JNum cur), (''nextStep'', JNum (cur + 1)),
                      (''totalSteps'', max_step_json (dx_def ctx))],
           ni_recipient = a, ni_actor = None, ni_resource = Some requestId,
           ni_idempotency_key = Some (''step_ready:'' @ requestId @ '':'' @ int_str (cur + 1))\<rparr>))"

definition approve_tx :: "decision_ctx \<Rightarrow> string option \<Rightarrow> actor \<Rightarrow> request_item option svc" where
  "approve_tx ctx note actor =
     (let request = dx_request ctx; requestId = ri_id request; cur = ri_current_step request;
          isFinalStep = is_final_step (dx_def ctx) cur;
          approvalEventType = (if isFinalStep then ''request.approved'' else ''request.step_approved'');
          approvalPayload = [(''requestId'', JStr requestId), (''type'', JStr (ri_type request)),
             (''approverId'', JStr (ac_sub actor)), (''step'', JNum cur),
             (''isFinalStep'', JBool isFinalStep), (''totalSteps'', max_step_json (dx_def ctx))] in
      mbind now (\<lambda>t.
      transaction (
        mbind (next_assignee ctx) (\<lambda>nextAssigneeId.
        mbind (exec (t_request_items_update (update_where (\<lambda>r. ri_id r = requestId)
                 (approved_row ctx note nextAssigneeId t)))) (\<lambda>_.
        mbind (query (\<lambda>d. find_where (\<lambda>r. ri_id r = requestId) (t_request_items d))) (\<lambda>row.
        mbind newId (\<lambda>approvalId.
        mbind (exec (t_request_approvals_update (insert_row
                 (decision_row ctx Dec_approved note actor approvalId t)))) (\<lambda>_.
        mbind (if isFinalStep then final_approval ctx actor
               else step_approval ctx nextAssigneeId actor) (\<lambda>_.
        mbind (enqueue ''request'' requestId approvalEventType approvalPayload) (\<lambda>_.
        mbind (fanout approvalEventType approvalPayload) (\<lambda>_.
        mret row)))))))))))"

text \<open>
  After the commit of a final approval the type's \<^verbatim>\<open>afterApprove\<close> runs; its failure is
  logged and swallowed.
\<close>

definition after_approve :: "decision_ctx \<Rightarrow> actor \<Rightarrow> unit svc" where
  "after_approve ctx actor =
     (let request = dx_request ctx in
      if is_final_step (dx_def ctx) (ri_current_step request) then
        run_hook (td_after_approve (dx_def ctx))
          (\<lambda>h. mtry (h (ri_payload request) (ri_id request) (ac_sub actor)) (\<lambda>_. mret ()))
      else mret ())"

definition approve :: "registry \<Rightarrow> uuid \<Rightarrow> string option \<Rightarrow> actor \<Rightarrow> request_item option svc" where
  "approve reg requestId note actor =
     mbind (approve_guard reg requestId actor) (\<lambda>ctx.
     mbind (approve_tx ctx note actor) (\<lambda>row.
     mbind (after_approve ctx actor) (\<lambda>_.
     mret row)))"

section \<open>Reject\<close>

definition reject_guard :: "registry \<Rightarrow> uuid \<Rightarrow> actor \<Rightarrow> decision_ctx svc" where
  "reject_guard reg requestId actor =
     mbind (getOrFail requestId) (\<lambda>request.
     mbind (assertApprovable (ri_status request)) (\<lambda>_.
     mbind (registry_get reg (ri_type request)) (\<lambda>def.
     mbind (findActiveDelegationTo (ac_sub actor)) (\<lambda>deleg.
     mbind (throw_if (\<not> td_allow_self def \<and> ri_requester request = sod_subject actor deleg)
              (PermissionDeniedException
                 ''REQUEST_SOD_VIOLATION: Requester cannot reject their own request'')) (\<lambda>_.
     let requiredPermission = step_permission def (ri_current_step request) in
     mbind (check (ac_sub actor) requiredPermission) (\<lambda>actorAllowed.
     mbind (delegator_check deleg requiredPermission) (\<lambda>delegatorAllowed.
     mbind (throw_if (\<not> actorAllowed \<and> \<not> delegatorAllowed)
              (missing_permission (ri_current_step request) requiredPermission)) (\<lambda>_.
     mret \<lparr>dx_request = request, dx_def = def, dx_delegation = deleg\<rparr>))))))))"

definition rejected_row :: "string option \<Rightarrow> timestamp \<Rightarrow> request_item \<Rightarrow> request_item" where
  "rejected_row note t r =
     r\<lparr>ri_status := Req_rejected, ri_resolved_at := Some t, ri_resolution_note := note, ri_updated_at := t\<rparr>"

definition reject_tx :: "decision_ctx \<Rightarrow> string option \<Rightarrow> actor \<Rightarrow> request_item option svc" where
  "reject_tx ctx note actor =
     (let request = dx_request ctx; requestId = ri_id request;
          rejectedPayload = [(''requestId'', JStr requestId), (''type'', JStr (ri_type request)),
             (''approverId'', JStr (ac_sub actor)), (''note'', jstr_or_null note)] in
      mbind now (\<lambda>t.
      transaction (
        mbind (exec (t_request_items_update (update_where (\<lambda>r. ri_id r = requestId) (rejected_row note t)))) (\<lambda>_.
        mbind (query (\<lambda>d. find_where (\<lambda>r. ri_id r = requestId) (t_request_items d))) (\<lambda>row.
        mbind newId (\<lambda>approvalId.
        mbind (exec (t_request_approvals_update (insert_row
                 (decision_row ctx Dec_rejected note actor approvalId t)))) (\<lambda>_.
        mbind (run_hook (td_on_reject (dx_def ctx)) (\<lambda>h. h (ri_payload request) requestId (ac_sub actor))) (\<lambda>_.
        mbind (schedule
          \<lparr>ni_type = ''request.rejected'',
           ni_vars = [(''requestType'', JStr (ri_type request)), (''requestId'', JStr requestId)]
             @ (case note of None \<Rightarrow> [] | Some n \<Rightarrow> [(''reason'', JStr n)]),
           ni_recipient = ri_requester request, ni_actor = Some (ac_sub actor),
           ni_resource = Some requestId,
           ni_idempotency_key = Some (''request_rejected:'' @ requestId)\<rparr>) (\<lambda>_.
        mbind (enqueue ''request'' requestId ''request.rejected'' rejectedPayload) (\<lambda>_.
        mbind (fanout ''request.rejected'' rejectedPayload) (\<lambda>_.
        mret row)))))))))))"

definition reject :: "registry \<Rightarrow> uuid \<Rightarrow> string option \<Rightarrow> actor \<Rightarrow> request_item option svc" where
  "reject reg requestId note actor =
     mbind (reject_guard reg requestId actor) (\<lambda>ctx. reject_tx ctx note actor)"

section \<open>Cancel and expire\<close>

definition closed_row :: "request_status \<Rightarrow> timestamp \<Rightarrow> request_item \<Rightarrow> request_item" where
  "closed_row st t r = r\<lparr>ri_status := st, ri_resolved_at := Some t, ri_updated_at := t\<rparr>"

definition cancel_tx :: "type_def \<Rightarrow> request_item \<Rightarrow> actor \<Rightarrow> request_item option svc" where
  "cancel_tx def request actor =
     (let requestId = ri_id request;
          cancelledPayload = [(''requestId'', JStr requestId), (''type'', JStr (ri_type request)),
            (''cancelledBy'', JStr (ac_sub actor))] in
      mbind now (\<lambda>t.
      transaction (
        mbind (exec (t_request_items_update (update_where (\<lambda>r. ri_id r = requestId) (closed_row Req_cancelled t)))) (\<lambda>_.
        mbind (query (\<lambda>d. find_where (\<lambda>r. ri_id r = requestId) (t_request_items d))) (\<lambda>row.
        mbind (run_hook (td_on_cancel def) (\<lambda>h. h (ri_payload request) requestId (ac_sub actor))) (\<lambda>_.
        mbind (enqueue ''request'' requestId ''request.cancelled'' cancelledPayload) (\<lambda>_.
        mbind (fanout ''request.cancelled'' cancelledPayload) (\<lambda>_.
        mret row))))))))"

definition cancel :: "registry \<Rightarrow> uuid \<Rightarrow> actor \<Rightarrow> request_item option svc" where
  "cancel reg requestId actor =
     mbind (getOrFail requestId) (\<lambda>request.
     mbind (check (ac_sub actor) ''rbac.manage'') (\<lambda>canAdminCancel.
     mbind (throw_if (ri_requester request \<noteq> ac_sub actor \<and> \<not> canAdminCancel)
              (PermissionDeniedException ''Only the requester can cancel their own request'')) (\<lambda>_.
     mbind (throw_if (\<not> open_status (ri_status request))
              (PreconditionFailedException REQUEST_NOT_CANCELLABLE)) (\<lambda>_.
     mbind (registry_get reg (ri_type request)) (\<lambda>def.
     cancel_tx def request actor)))))"

definition expire_tx :: "type_def \<Rightarrow> request_item \<Rightarrow> unit svc" where
  "expire_tx def request =
     (let requestId = ri_id request;
          expiredPayload = [(''requestId'', JStr requestId), (''type'', JStr (ri_type request))] in
      mbind now (\<lambda>t.
      transaction (
        mbind (exec (t_request_items_update (update_where (\<lambda>r. ri_id r = requestId) (closed_row Req_expired t)))) (\<lambda>_.
        mbind (run_hook (td_on_expire def) (\<lambda>h. h (ri_payload request) requestId)) (\<lambda>_.
        mbind (enqueue ''request'' requestId ''request.expired'' expiredPayload) (\<lambda>_.
        fanout ''request.expired'' expiredPayload))))))"

definition expire :: "registry \<Rightarrow> uuid \<Rightarrow> unit svc" where
  "expire reg requestId =
     mbind (getOrFail requestId) (\<lambda>request.
     if \<not> open_status (ri_status request) then mret ()
     else mbind (registry_get reg (ri_type request)) (\<lambda>def. expire_tx def request))"

section \<open>Queries\<close>

definition by_step_time :: "request_approval list \<Rightarrow> request_approval list" where
  "by_step_time as = sort_key ra_step (sort_key ra_decided_at as)"

definition getById :: "uuid \<Rightarrow> (request_item \<times> request_approval list) option svc" where
  "getById rid =
     mbind (query (\<lambda>d. find_where (\<lambda>r. ri_id r = rid) (t_request_items d))) (\<lambda>row.
     case row of
       None \<Rightarrow> mret None
     | Some r \<Rightarrow>
         mbind (query (\<lambda>d. by_step_time (select_where (\<lambda>a. ra_request a = rid) (t_request_approvals d)))) (\<lambda>approvals.
         mret (Some (r, approvals))))"

record request_filters =
  rf_type :: "string option"
  rf_requester :: "uuid option"
  rf_assignee :: "uuid option"
  rf_status :: "request_status option"
  rf_my_queue :: bool

definition request_matches :: "request_filters \<Rightarrow> uuid \<Rightarrow> request_item \<Rightarrow> bool" where
  "request_matches f actorId r \<longleftrightarrow>
     opt_eq (rf_type f) (ri_type r) \<and> opt_eq (rf_requester f) (ri_requester r) \<and>
     opt_eq (rf_status f) (ri_status r) \<and>
     (if rf_my_queue f
      then col_eq (ri_assignee r) actorId \<or> (ri_assignee r = None \<and> ri_status r = Req_pending)
      else (case rf_assignee f of None \<Rightarrow> True | Some a \<Rightarrow> col_eq (ri_assignee r) a))"

text \<open>
  The approvals of a page are loaded in one query and distributed over the page by a map:
  \<^verbatim>\<open>(m.get(k) ?? m.set(k, []).get(k)).push(a)\<close>.
\<close>

fun push_approval :: "(uuid \<times> request_approval list) list \<Rightarrow> request_approval \<Rightarrow> (uuid \<times> request_approval list) list" where
  "push_approval [] a = [(ra_request a, [a])]"
| "push_approval ((k, as) # m) a =
     (if k = ra_request a then (k, as @ [a]) # m else (k, as) # push_approval m a)"

definition list_requests :: "request_filters \<Rightarrow> uuid \<Rightarrow> nat \<Rightarrow> nat
    \<Rightarrow> ((request_item \<times> request_approval list) list \<times> nat) svc" where
  "list_requests f actorId lim off =
     mbind (query (\<lambda>d. page lim off (sort_key (\<lambda>r. - ri_created_at r)
              (select_where (request_matches f actorId) (t_request_items d))))) (\<lambda>rows.
     mbind (query (\<lambda>d. length (select_where (request_matches f actorId) (t_request_items d)))) (\<lambda>count.
     let ids = map ri_id rows in
     mbind (if ids = [] then mret []
            else query (\<lambda>d. by_step_time (select_where (\<lambda>a. ra_request a \<in> set ids) (t_request_approvals d)))) (\<lambda>allApprovals.
     let approvalMap = foldl push_approval [] allApprovals in
     mret (map (\<lambda>r. (r, case map_of approvalMap (ri_id r) of None \<Rightarrow> [] | Some as \<Rightarrow> as)) rows, count))))"

definition is_expired :: "timestamp \<Rightarrow> request_item \<Rightarrow> bool" where
  "is_expired t r \<longleftrightarrow> open_status (ri_status r) \<and>
     (case ri_expires_at r of None \<Rightarrow> False | Some e \<Rightarrow> e < t)"

definition findExpired :: "nat \<Rightarrow> uuid list svc" where
  "findExpired batchSize =
     mbind now (\<lambda>t. query (\<lambda>d. map ri_id (take batchSize (select_where (is_expired t) (t_request_items d)))))"

section \<open>Comments\<close>

definition addComment :: "uuid \<Rightarrow> string \<Rightarrow> actor \<Rightarrow> request_comment svc" where
  "addComment requestId body actor =
     mbind (getOrFail requestId) (\<lambda>_. mbind newId (\<lambda>cid. mbind now (\<lambda>t.
     let row = \<lparr>rc_id = cid, rc_request = requestId, rc_author = ac_sub actor, rc_body = js_trim body,
                rc_edited_at = None, rc_created_at = t\<rparr> in
     mbind (exec (t_request_comments_update (insert_row row))) (\<lambda>_. mret row))))"

definition listComments :: "uuid \<Rightarrow> request_comment list svc" where
  "listComments requestId =
     query (\<lambda>d. sort_key rc_created_at (select_where (\<lambda>c. rc_request c = requestId) (t_request_comments d)))"

end
