(* ===== verification/Engine_Laws.thy ===== *)
theory Engine_Laws
  imports Request_Engine
begin

text \<open>
  The laws of the request engine, for every registry whose hooks keep to their contract: a
  hook may write the tables of its own domain, never those of the engine.  Locale
  \<open>request_hooks\<close> is that contract for one type, locale \<open>engine\<close> the engine over a registry
  of such types.  The first part gives each operation in closed form on the engine's tables,
  the second the invariant of the reachable states.
\<close>

section \<open>The contract of the hooks\<close>

definition engine_view :: "db \<Rightarrow> request_item list \<times> request_approval list \<times> request_comment list
    \<times> outbox_event list \<times> webhook_subscription list \<times> webhook_delivery list" where
  "engine_view d = (t_request_items d, t_request_approvals d, t_request_comments d,
     t_outbox_events d, t_webhook_subscriptions d, t_webhook_deliveries d)"

definition quiet :: "world \<Rightarrow> world \<Rightarrow> bool" where
  "quiet w w' \<longleftrightarrow> engine_view (w_db w') = engine_view (w_db w) \<and> w_uuid w' = w_uuid w \<and>
     w_next w \<le> w_next w' \<and> w_now w' = w_now w"

interpretation quiet: frame_rel quiet
  by unfold_locales (auto simp: quiet_def)

lemma quiet_exec: "(\<And>d. engine_view (u d) = engine_view d) \<Longrightarrow> keeps quiet (exec u)"
  by (simp add: keeps_def quiet_def)

lemma quiet_query: "keeps quiet (query q)"
  by (simp add: keeps_def quiet_def)

lemma quiet_now: "keeps quiet now"
  by (simp add: keeps_def quiet_def)

lemma quiet_newId: "keeps quiet newId"
  by (simp add: keeps_def quiet_def)

lemma quiet_schedule: "keeps quiet (schedule i)"
  unfolding schedule_def
  by (intro quiet.keeps_rules quiet_newId quiet_now quiet_exec) (simp add: engine_view_def)

lemmas quiet_rules = quiet.keeps_rules quiet_exec quiet_query quiet_now quiet_newId quiet_schedule

lemma keeps_run_hook:
  "(\<And>f. h = Some f \<Longrightarrow> keeps quiet (call f)) \<Longrightarrow> keeps quiet (run_hook h call)"
  by (cases h) (simp_all add: run_hook_def quiet.keeps_ret)

locale request_hooks =
  fixes def :: type_def
  assumes on_submit: "td_on_submit def = Some h1 \<Longrightarrow> keeps quiet (h1 p u)"
    and on_approve: "keeps quiet (td_on_approve def p r a)"
    and on_step: "td_on_step_approved def = Some h2 \<Longrightarrow> keeps quiet (h2 p r s s' n a)"
    and on_reject: "td_on_reject def = Some h3 \<Longrightarrow> keeps quiet (h3 p r a)"
    and on_cancel: "td_on_cancel def = Some h4 \<Longrightarrow> keeps quiet (h4 p r a)"
    and on_expire: "td_on_expire def = Some h5 \<Longrightarrow> keeps quiet (h5 p r)"
    and after_app: "td_after_approve def = Some h6 \<Longrightarrow> keeps quiet (h6 p r a)"
    and resolver: "td_steps def = Some ss \<Longrightarrow> s1 \<in> set ss \<Longrightarrow> sd_resolver s1 = Some f \<Longrightarrow> keeps quiet (f p)"
    and steps_numbered: "td_steps def = Some ss \<Longrightarrow> ss \<noteq> [] \<and> map sd_step ss = [1..int (length ss)]"
begin

lemma quiet_on_submit: "keeps quiet (run_hook (td_on_submit def) (\<lambda>h. h p u))"
  by (intro keeps_run_hook on_submit)

lemma quiet_on_step: "keeps quiet (run_hook (td_on_step_approved def) (\<lambda>h. h p r s s' n a))"
  by (intro keeps_run_hook on_step)

lemma quiet_on_reject: "keeps quiet (run_hook (td_on_reject def) (\<lambda>h. h p r a))"
  by (intro keeps_run_hook on_reject)

lemma quiet_on_cancel: "keeps quiet (run_hook (td_on_cancel def) (\<lambda>h. h p r a))"
  by (intro keeps_run_hook on_cancel)

lemma quiet_on_expire: "keeps quiet (run_hook (td_on_expire def) (\<lambda>h. h p r))"
  by (intro keeps_run_hook on_expire)

lemma quiet_after: "dx_def ctx = def \<Longrightarrow> keeps quiet (after_approve ctx actor)"
  unfolding after_approve_def Let_def
  by (intro quiet.keeps_if quiet.keeps_ret keeps_run_hook quiet.keeps_try after_app) auto

lemma quiet_next_assignee: "dx_def ctx = def \<Longrightarrow> keeps quiet (next_assignee ctx)"
  unfolding next_assignee_def Let_def
  by (auto intro!: quiet.keeps_ret quiet.keeps_bind split: option.split dest!: find_where_SomeD intro: resolver)

text \<open>With steps numbered from one the last step is the number of steps.\<close>

lemma max_step_total: "max_step def = Some (total_steps def)"
proof (cases "td_steps def")
  case None
  then show ?thesis by (simp add: max_step_def total_steps_def)
next
  case (Some ss)
  with steps_numbered have ne: "ss \<noteq> []" and steps: "map sd_step ss = [1..int (length ss)]" by auto
  then obtain s rest where ss: "ss = s # rest" by (cases ss) auto
  have "fold max (map sd_step rest) (sd_step s) = Max (set (map sd_step ss))"
    unfolding ss by (simp only: list.map Max.set_eq_fold)
  also have "\<dots> = int (length ss)"
    unfolding steps using ne by (intro Max_eqI) (auto simp: Suc_le_eq)
  finally show ?thesis
    using Some ss by (simp add: max_step_def total_steps_def)
qed

lemma final_iff: "is_final_step def cur \<longleftrightarrow> td_steps def = None \<or> total_steps def \<le> cur"
  by (simp add: is_final_step_def max_step_total)

lemma total_steps_pos: "1 \<le> total_steps def"
  using steps_numbered by (cases "td_steps def") (auto simp: total_steps_def Suc_le_eq)

text \<open>Every step below the last is required of its own permission.\<close>

lemma step_permission_step:
  assumes "td_steps def = Some ss" and "1 \<le> cur" and "cur \<le> total_steps def"
  shows "step_permission def cur = sd_permission (ss ! nat (cur - 1))"
proof -
  have len: "nat (cur - 1) < length ss" and steps: "map sd_step ss = [1..int (length ss)]"
    using assms steps_numbered by (auto simp: total_steps_def)
  have nth: "i < length ss \<Longrightarrow> sd_step (ss ! i) = int i + 1" for i
    using arg_cong [OF steps, of "\<lambda>l. l ! i"] by (simp add: nth_upto)
  have "distinct (map sd_step ss)"
    unfolding steps by simp
  then have "find_where (\<lambda>s. sd_step s = sd_step (ss ! nat (cur - 1))) ss = Some (ss ! nat (cur - 1))"
    using len by (intro find_where_distinct) auto
  then show ?thesis
    using assms nth [OF len] by (simp add: step_permission_def)
qed

end

section \<open>Transitions\<close>

text \<open>
  The specification of a committed transition: what happens to the engine's tables when the
  items change by \<open>upd\<close>, the rows \<open>apps\<close> are appended to the approval log and the event
  \<open>ev\<close> with payload \<open>pl\<close> is announced for the request \<open>rid\<close>.
\<close>

definition published :: "string \<Rightarrow> uuid \<Rightarrow> jobject \<Rightarrow> db \<Rightarrow> db \<Rightarrow> bool" where
  "published ev rid pl d d' \<longleftrightarrow>
     (\<exists>e. t_outbox_events d' = t_outbox_events d @ [e] \<and> oe_aggregate_type e = ''request'' \<and>
          oe_aggregate_id e = rid \<and> oe_event_type e = ev \<and> oe_payload e = pl \<and> \<not> oe_published e) \<and>
     (\<exists>ds. t_webhook_deliveries d' = t_webhook_deliveries d @ ds \<and>
          map wd_subscription ds = map ws_id (select_where (subscribed ev) (t_webhook_subscriptions d)) \<and>
          (\<forall>x \<in> set ds. wd_event_type x = ev \<and> wd_payload x = pl \<and> wd_status x = Wd_pending \<and> wd_attempts x = 0))"

definition transition :: "(request_item list \<Rightarrow> request_item list) \<Rightarrow> request_approval list \<Rightarrow> string \<Rightarrow> uuid
    \<Rightarrow> jobject \<Rightarrow> world \<Rightarrow> world \<Rightarrow> bool" where
  "transition upd apps ev rid pl w w' \<longleftrightarrow>
     t_request_items (w_db w') = upd (t_request_items (w_db w)) \<and>
     t_request_approvals (w_db w') = t_request_approvals (w_db w) @ apps \<and>
     t_request_comments (w_db w') = t_request_comments (w_db w) \<and>
     t_webhook_subscriptions (w_db w') = t_webhook_subscriptions (w_db w) \<and>
     published ev rid pl (w_db w) (w_db w') \<and>
     w_uuid w' = w_uuid w \<and> w_next w \<le> w_next w' \<and> w_now w' = w_now w"

lemma announce_transition:
  "mbind (enqueue ''request'' rid ev pl) (\<lambda>_. fanout ev pl) w = (r, w') \<Longrightarrow>
     r = Inr () \<and> transition (\<lambda>t. t) [] ev rid pl w w'"
  unfolding mbind_eq [OF enqueue_apply] fanout_apply Let_def
  by (auto simp: transition_def published_def insert_row_def deliveries_for_subscriptions
           dest: deliveries_for_pending)

lemma announce_row:
  assumes "mbind (enqueue ''request'' rid ev pl) (\<lambda>_. mbind (fanout ev pl) (\<lambda>_. mret x)) w = (Inr y, w')"
  shows "y = x \<and> transition (\<lambda>t. t) [] ev rid pl w w'"
  using assms announce_transition [of rid ev pl w "Inr ()" w'] by (auto simp: mbind_Inr_iff)

lemma announce_then:
  assumes "mbind (enqueue ''request'' rid ev pl) (\<lambda>_. mbind (fanout ev pl) (\<lambda>_. m)) w = (Inr y, w')"
  obtains w1 where "transition (\<lambda>t. t) [] ev rid pl w w1" and "m w1 = (Inr y, w')"
  using assms announce_transition [of rid ev pl w "Inr ()"] by (auto simp: mbind_Inr_iff)

lemma quiet_transition: "quiet w w1 \<Longrightarrow> transition upd apps ev rid pl w1 w2 \<Longrightarrow> transition upd apps ev rid pl w w2"
  by (auto simp: quiet_def engine_view_def transition_def published_def)

lemma transition_quiet: "transition upd apps ev rid pl w w1 \<Longrightarrow> quiet w1 w2 \<Longrightarrow> transition upd apps ev rid pl w w2"
  by (auto simp: quiet_def engine_view_def transition_def published_def)

lemma transition_items:
  "transition upd apps ev rid pl (w\<lparr>w_db := t_request_items_update f (w_db w)\<rparr>) w' \<Longrightarrow>
   transition (\<lambda>t. upd (f t)) apps ev rid pl w w'"
  by (auto simp: transition_def published_def)

lemma transition_decision:
  "transition upd apps ev rid pl
     (w\<lparr>w_next := Suc n, w_db := t_request_approvals_update (insert_row a) (t_request_items_update f (w_db w))\<rparr>) w' \<Longrightarrow>
   n = w_next w \<Longrightarrow> transition (\<lambda>t. upd (f t)) (a # apps) ev rid pl w w'"
  by (auto simp: transition_def published_def insert_row_def)

lemma transition_insert:
  "transition upd apps ev rid pl (w\<lparr>w_next := Suc (w_next w), w_db := t_request_items_update f (w_db w)\<rparr>) w' \<Longrightarrow>
   transition (\<lambda>t. upd (f t)) apps ev rid pl w w' \<and> w_next w < w_next w'"
  by (auto simp: transition_def published_def insert_row_def)

locale engine =
  fixes reg :: registry
  assumes registered: "map_of reg k = Some def \<Longrightarrow> request_hooks def"
begin

lemma registry_get_hooks: "registry_get reg k w = (Inr def, w') \<Longrightarrow> request_hooks def \<and> map_of reg k = Some def \<and> w' = w"
  by (auto simp: registry_get_def registered split: option.splits)

end

text \<open>The event of an approval and its payload.\<close>

definition approval_event :: "type_def \<Rightarrow> request_item \<Rightarrow> string" where
  "approval_event def r =
     (if is_final_step def (ri_current_step r) then ''request.approved'' else ''request.step_approved'')"

definition approval_payload :: "type_def \<Rightarrow> request_item \<Rightarrow> actor \<Rightarrow> jobject" where
  "approval_payload def r actor =
     [(''requestId'', JStr (ri_id r)), (''type'', JStr (ri_type r)), (''approverId'', JStr (ac_sub actor)),
      (''step'', JNum (ri_current_step r)), (''isFinalStep'', JBool (is_final_step def (ri_current_step r))),
      (''totalSteps'', JNum (total_steps def))]"

section \<open>The transactions\<close>

text \<open>
  In the tail of every transaction the hook runs between the change of the item and the
  announcement.
\<close>

lemma hook_then_announce:
  assumes "keeps quiet hook"
    and "mbind hook (\<lambda>_. mbind (enqueue ''request'' rid ev pl) (\<lambda>_. mbind (fanout ev pl) (\<lambda>_. mret x))) w = (Inr y, w')"
  shows "y = x \<and> transition (\<lambda>t. t) [] ev rid pl w w'"
  using assms(2)
  by (auto elim!: mbind_InrE dest!: announce_row keepsD [OF assms(1)] intro: quiet_transition)

context request_hooks begin

lemma cancel_tx_success:
  assumes "cancel_tx def r actor w = (Inr row, w')"
  shows "transition (update_where (\<lambda>x. ri_id x = ri_id r) (closed_row Req_cancelled (w_now w))) []
           ''request.cancelled'' (ri_id r)
           [(''requestId'', JStr (ri_id r)), (''type'', JStr (ri_type r)), (''cancelledBy'', JStr (ac_sub actor))] w w'"
    and "row = find_where (\<lambda>x. ri_id x = ri_id r)
           (update_where (\<lambda>x. ri_id x = ri_id r) (closed_row Req_cancelled (w_now w)) (t_request_items (w_db w)))"
  using assms unfolding cancel_tx_def
  by (auto simp: Let_def transaction_Inr_iff dest!: hook_then_announce [OF quiet_on_cancel] transition_items)

lemma expire_tx_success:
  assumes "expire_tx def r w = (Inr u, w')"
  shows "transition (update_where (\<lambda>x. ri_id x = ri_id r) (closed_row Req_expired (w_now w))) []
           ''request.expired'' (ri_id r) [(''requestId'', JStr (ri_id r)), (''type'', JStr (ri_type r))] w w'"
proof -
  have "expire_tx def r w = (Inr (), w')"
    using assms by (simp add: unit_all_eq1)
  then show ?thesis
    unfolding expire_tx_def
    by (auto simp: Let_def transaction_Inr_iff elim!: mbind_InrE [of "run_hook h f" for h f]
        dest!: keepsD [OF quiet_on_expire] announce_transition dest: quiet_transition transition_items)
qed

lemma reject_tx_success:
  assumes "reject_tx ctx note actor w = (Inr row, w')" and "dx_def ctx = def"
  defines "r \<equiv> dx_request ctx"
  shows "\<exists>i. transition (update_where (\<lambda>x. ri_id x = ri_id r) (rejected_row note (w_now w)))
           [decision_row ctx Dec_rejected note actor i (w_now w)] ''request.rejected'' (ri_id r)
           [(''requestId'', JStr (ri_id r)), (''type'', JStr (ri_type r)), (''approverId'', JStr (ac_sub actor)),
            (''note'', jstr_or_null note)] w w'"
    and "row = find_where (\<lambda>x. ri_id x = ri_id r)
           (update_where (\<lambda>x. ri_id x = ri_id r) (rejected_row note (w_now w)) (t_request_items (w_db w)))"
proof -
  have hook: "keeps quiet (mbind (run_hook (td_on_reject (dx_def ctx)) (\<lambda>h. h p q a)) (\<lambda>_. schedule i))" for p q a i
    unfolding assms(2) by (intro quiet.keeps_bind quiet_on_reject quiet_schedule)
  note tail = hook_then_announce [OF hook, unfolded mbind_assoc]
  from assms(1) show "\<exists>i. transition (update_where (\<lambda>x. ri_id x = ri_id r) (rejected_row note (w_now w)))
           [decision_row ctx Dec_rejected note actor i (w_now w)] ''request.rejected'' (ri_id r)
           [(''requestId'', JStr (ri_id r)), (''type'', JStr (ri_type r)), (''approverId'', JStr (ac_sub actor)),
            (''note'', jstr_or_null note)] w w'"
    unfolding reject_tx_def r_def
    by (auto simp: Let_def transaction_Inr_iff dest!: tail transition_decision)
  from assms(1) show "row = find_where (\<lambda>x. ri_id x = ri_id r)
           (update_where (\<lambda>x. ri_id x = ri_id r) (rejected_row note (w_now w)) (t_request_items (w_db w)))"
    unfolding reject_tx_def r_def
    by (auto simp: Let_def transaction_Inr_iff dest!: tail)
qed


lemma approve_tx_success:
  assumes "approve_tx ctx note actor w = (Inr row, w')" and ctx: "dx_def ctx = def"
  defines "r \<equiv> dx_request ctx"
  obtains nxt i v v' where
    "transition (update_where (\<lambda>x. ri_id x = ri_id r) (approved_row ctx note nxt (w_now w)))
       [decision_row ctx Dec_approved note actor i (w_now w)]
       (approval_event def r) (ri_id r) (approval_payload def r actor) w w'"
    and "next_assignee ctx v = (Inr nxt, v')"
    and "row = find_where (\<lambda>x. ri_id x = ri_id r)
       (update_where (\<lambda>x. ri_id x = ri_id r) (approved_row ctx note nxt (w_now w)) (t_request_items (w_db w)))"
proof -
  define decide where "decide = (\<lambda>nxt. if is_final_step def (ri_current_step (dx_request ctx))
     then final_approval ctx actor else step_approval ctx nxt actor)"
  have hook: "keeps quiet (decide nxt)" for nxt
    unfolding decide_def final_approval_def step_approval_def Let_def ctx
    by (intro quiet_rules on_approve quiet_on_step)
  note assignee = quiet_next_assignee [OF ctx]
  from assms(1) obtain nxt w1 where n: "next_assignee ctx w = (Inr nxt, w1)"
    and tail: "mbind (exec (t_request_items_update (update_where (\<lambda>x. ri_id x = ri_id r)
                 (approved_row ctx note nxt (w_now w)))))
       (\<lambda>_. mbind (query (\<lambda>d. find_where (\<lambda>x. ri_id x = ri_id r) (t_request_items d))) (\<lambda>row.
        mbind newId (\<lambda>i. mbind (exec (t_request_approvals_update (insert_row
                 (decision_row ctx Dec_approved note actor i (w_now w))))) (\<lambda>_.
        mbind (decide nxt) (\<lambda>_.
        mbind (enqueue ''request'' (ri_id r) (approval_event def r) (approval_payload def r actor)) (\<lambda>_.
        mbind (fanout (approval_event def r) (approval_payload def r actor)) (\<lambda>_.
        mret row))))))) w1 = (Inr row, w')"
    unfolding approve_tx_def r_def Let_def decide_def approval_event_def approval_payload_def
    by (simp only: mbind_now transaction_Inr_iff max_step_json_def max_step_total option.case ctx)
      (rule mbind_InrE [where m = "next_assignee ctx"])
  have q: "quiet w w1"
    using keepsD [OF assignee n] .
  then have items: "t_request_items (w_db w1) = t_request_items (w_db w)"
    by (simp add: quiet_def engine_view_def)
  from tail show thesis
    by (auto simp: items dest!: hook_then_announce [OF hook] transition_decision intro!: that [OF _ n] quiet_transition [OF q])
qed

lemma submit_success:
  assumes "map_of reg type = Some def" and "submit reg type payload actor opts w = (Inr row, w')"
  obtains n where "w_next w \<le> n" and "n < w_next w'"
    and "row = new_request (w_uuid w n) (w_now w) def type payload actor opts"
    and "transition (insert_row row) [] ''request.submitted'' (ri_id row)
           [(''requestId'', JStr (ri_id row)), (''type'', JStr type),
            (''requesterId'', JStr (ac_sub actor)), (''priority'', JStr (priority_name (ri_priority row)))] w w'"
proof -
  define notice :: "uuid \<times> request_item \<Rightarrow> unit svc" where "notice = (\<lambda>(rid, r). case ri_assignee r of None \<Rightarrow> mret () | Some a \<Rightarrow> schedule
      \<lparr>ni_type = ''request.submitted'',
       ni_vars = [(''requestType'', JStr type), (''requestId'', JStr rid),
                  (''requesterEmail'', JStr (ac_email actor))],
       ni_recipient = a, ni_actor = Some (ac_sub actor), ni_resource = Some rid,
       ni_idempotency_key = Some (''request_submitted:'' @ rid)\<rparr>)"
  have notice: "keeps quiet (notice x)" for x
    unfolding notice_def by (auto intro!: quiet_rules split: prod.split option.split)
  have "mbind (run_hook (td_on_submit def) (\<lambda>h. h payload (ac_sub actor))) (\<lambda>_.
       mbind newId (\<lambda>rid. let row = new_request rid (w_now w) def type payload actor opts;
           pl = [(''requestId'', JStr rid), (''type'', JStr type), (''requesterId'', JStr (ac_sub actor)),
                 (''priority'', JStr (priority_name (ri_priority row)))] in
         mbind (exec (t_request_items_update (insert_row row))) (\<lambda>_.
         mbind (enqueue ''request'' rid ''request.submitted'' pl) (\<lambda>_.
         mbind (fanout ''request.submitted'' pl) (\<lambda>_.
         mbind (notice (rid, row)) (\<lambda>_. mret row)))))) w = (Inr row, w')"
    using assms unfolding submit_def notice_def
    by (simp add: transaction_Inr_iff registry_get_def)
  then obtain u w1 where hook: "run_hook (td_on_submit def) (\<lambda>h. h payload (ac_sub actor)) w = (Inr u, w1)"
    and tail: "mbind newId (\<lambda>rid. let row = new_request rid (w_now w) def type payload actor opts;
           pl = [(''requestId'', JStr rid), (''type'', JStr type), (''requesterId'', JStr (ac_sub actor)),
                 (''priority'', JStr (priority_name (ri_priority row)))] in
         mbind (exec (t_request_items_update (insert_row row))) (\<lambda>_.
         mbind (enqueue ''request'' rid ''request.submitted'' pl) (\<lambda>_.
         mbind (fanout ''request.submitted'' pl) (\<lambda>_.
         mbind (notice (rid, row)) (\<lambda>_. mret row))))) w1 = (Inr row, w')"
    by (rule mbind_InrE)
  have q: "quiet w w1"
    by (rule keepsD [OF quiet_on_submit hook])
  have [simp]: "ri_id (new_request i t def ty p a opts') = i" for i t ty p a opts'
    by (simp add: new_request_def)
  from tail show thesis
    apply (simp only: mbind_newId mbind_exec Let_def)
    apply (erule announce_then)
    apply (auto elim!: mbind_InrE dest!: keepsD [OF notice] transition_insert)
    apply (rule that [of "w_next w1"])
    using q apply (auto simp: quiet_def) [3]
    apply (auto intro: quiet_transition [OF q] dest: transition_quiet) 
    done
qed

end

section \<open>The guards\<close>

lemma check_quiet:
  assumes "check u p w = (Inr b, w')"
  shows "quiet w w' \<and> w_db w' = w_db w"
  using assms by (cases rule: check_total [of u p w]) (auto simp: quiet_def)

lemma delegator_check_quiet:
  assumes "delegator_check g p w = (Inr b, w')"
  shows "quiet w w' \<and> w_db w' = w_db w"
  using assms check_quiet by (cases g) (auto simp: delegator_check_def quiet.rel_refl)

lemma getOrFail_success:
  "getOrFail rid w = (Inr r, w') \<longleftrightarrow> w' = w \<and> find_where (\<lambda>r. ri_id r = rid) (t_request_items (w_db w)) = Some r"
  by (auto simp: getOrFail_def split: option.splits)

lemma registry_get_success: "registry_get reg k w = (Inr def, w') \<longleftrightarrow> w' = w \<and> map_of reg k = Some def"
  by (auto simp: registry_get_def split: option.splits)

text \<open>
  What both guards establish: the request is open, the type is registered, the separation of
  duties holds of the subject, and the actor or the delegator passed the permission check of
  the current step.
\<close>

definition may_decide :: "registry \<Rightarrow> uuid \<Rightarrow> actor \<Rightarrow> world \<Rightarrow> decision_ctx \<Rightarrow> bool" where
  "may_decide reg rid actor w ctx \<longleftrightarrow>
     find_where (\<lambda>r. ri_id r = rid) (t_request_items (w_db w)) = Some (dx_request ctx) \<and>
     open_status (ri_status (dx_request ctx)) \<and>
     map_of reg (ri_type (dx_request ctx)) = Some (dx_def ctx) \<and>
     dx_delegation ctx = find_where (delegation_active (ac_sub actor) (w_now w)) (t_delegations (w_db w)) \<and>
     (td_allow_self (dx_def ctx) \<or> ri_requester (dx_request ctx) \<noteq> sod_subject actor (dx_delegation ctx))"

definition permitted :: "actor \<Rightarrow> decision_ctx \<Rightarrow> world \<Rightarrow> bool" where
  "permitted actor ctx w \<longleftrightarrow>
     (let p = step_permission (dx_def ctx) (ri_current_step (dx_request ctx)) in
      holds (w_db w) (w_now w) (ac_sub actor) p \<or>
      (case dx_delegation ctx of None \<Rightarrow> False | Some g \<Rightarrow> holds (w_db w) (w_now w) (ad_from g) p))"

lemma mbind_findActiveDelegationTo [simp]:
  "mbind (findActiveDelegationTo a) f w =
     f (find_where (delegation_active a (w_now w)) (t_delegations (w_db w))) w"
  by (simp add: findActiveDelegationTo_def)

text \<open>On a sound cache the two checks answer from the tables.\<close>

lemma delegator_check_sound:
  assumes "cache_sound w" and "\<not> w_perm_outage w"
  shows "\<exists>c. delegator_check g p w =
      (Inr (case g of None \<Rightarrow> False | Some x \<Rightarrow> holds (w_db w) (w_now w) (ad_from x) p), w\<lparr>w_cache := c\<rparr>) \<and>
      cache_sound (w\<lparr>w_cache := c\<rparr>)"
proof (cases g)
  case None
  then show ?thesis
    using assms(1) by (intro exI [of _ "w_cache w"]) (simp add: delegator_check_def)
next
  case (Some x)
  obtain c where "check (ad_from x) p w = (Inr (holds (w_db w) (w_now w) (ad_from x) p), w\<lparr>w_cache := c\<rparr>)"
    and "cache_sound (w\<lparr>w_cache := c\<rparr>)"
    by (rule check_sound [OF assms])
  with Some show ?thesis
    by (intro exI [of _ c]) (simp add: delegator_check_def)
qed

lemma both_checks_success:
  assumes "mbind (check a p) (\<lambda>x. mbind (delegator_check g p) (\<lambda>y.
           mbind (throw_if (\<not> x \<and> \<not> y) e) (\<lambda>_. mret ctx))) w = (Inr ctx', w')"
  shows "ctx' = ctx \<and> quiet w w' \<and> w_db w' = w_db w \<and>
    (cache_sound w \<longrightarrow> \<not> w_perm_outage w \<longrightarrow> holds (w_db w) (w_now w) a p \<or>
       (case g of None \<Rightarrow> False | Some x \<Rightarrow> holds (w_db w) (w_now w) (ad_from x) p))"
proof -
  from assms obtain x w1 y where c1: "check a p w = (Inr x, w1)" and c2: "delegator_check g p w1 = (Inr y, w')"
    and xy: "x \<or> y" and ctx: "ctx' = ctx"
    by (auto simp: mbind_Inr_iff split: if_splits)
  have q: "quiet w w' \<and> w_db w' = w_db w"
    using check_quiet [OF c1] delegator_check_quiet [OF c2] by (auto intro: quiet.rel_trans)
  have "holds (w_db w) (w_now w) a p \<or> (case g of None \<Rightarrow> False | Some x \<Rightarrow> holds (w_db w) (w_now w) (ad_from x) p)"
    if s: "cache_sound w" and o: "\<not> w_perm_outage w"
  proof -
    obtain c where c: "check a p w = (Inr (holds (w_db w) (w_now w) a p), w\<lparr>w_cache := c\<rparr>)"
      "cache_sound (w\<lparr>w_cache := c\<rparr>)"
      by (rule check_sound [OF s o])
    obtain c' where "delegator_check g p (w\<lparr>w_cache := c\<rparr>) =
        (Inr (case g of None \<Rightarrow> False | Some x \<Rightarrow> holds (w_db w) (w_now w) (ad_from x) p), w\<lparr>w_cache := c'\<rparr>)"
      using delegator_check_sound [OF c(2), of g p] o by (auto cong: option.case_cong)
    moreover have "x = holds (w_db w) (w_now w) a p" and "w1 = w\<lparr>w_cache := c\<rparr>"
      using c(1) c1 by simp_all
    ultimately have "y = (case g of None \<Rightarrow> False | Some x \<Rightarrow> holds (w_db w) (w_now w) (ad_from x) p)"
      using c2 by simp
    with xy \<open>x = _\<close> show ?thesis by blast
  qed
  with q ctx show ?thesis by blast
qed

lemma approve_guard_success:
  assumes "approve_guard reg rid actor w = (Inr ctx, w')"
  shows "may_decide reg rid actor w ctx \<and> quiet w w' \<and> w_db w' = w_db w \<and>
    (cache_sound w \<longrightarrow> \<not> w_perm_outage w \<longrightarrow> permitted actor ctx w)"
  using assms unfolding approve_guard_def
  by (auto simp: may_decide_def permitted_def getOrFail_def assertApprovable_def registry_get_def Let_def
      split: option.splits if_splits dest!: both_checks_success)

lemma reject_guard_success:
  assumes "reject_guard reg rid actor w = (Inr ctx, w')"
  shows "may_decide reg rid actor w ctx \<and> quiet w w' \<and> w_db w' = w_db w \<and>
    (cache_sound w \<longrightarrow> \<not> w_perm_outage w \<longrightarrow> permitted actor ctx w)"
  using assms unfolding reject_guard_def
  by (auto simp: may_decide_def permitted_def getOrFail_def assertApprovable_def registry_get_def Let_def
      split: option.splits if_splits dest!: both_checks_success)

section \<open>Failures change nothing\<close>

lemma keeps_getOrFail [act_frame]: "keeps (same f) (getOrFail rid)"
  unfolding getOrFail_def by (intro same_rules)

lemma keeps_registry_get [act_frame]: "keeps (same f) (registry_get reg k)"
  unfolding registry_get_def by (intro same_rules)

lemma keeps_delegator_check [act_frame]: "keeps (same f) (delegator_check g p)"
  unfolding delegator_check_def by (intro same_rules keeps_check)

lemmas guard_frames = same_rules keeps_getOrFail keeps_registry_get keeps_delegator_check keeps_check
  keeps_findActiveDelegationTo

lemma keeps_approve_guard: "keeps (same f) (approve_guard reg rid actor)"
  unfolding approve_guard_def assertApprovable_def Let_def by (intro guard_frames)

lemma keeps_reject_guard: "keeps (same f) (reject_guard reg rid actor)"
  unfolding reject_guard_def assertApprovable_def Let_def by (intro guard_frames)

lemma never_after_approve: "never_fails (after_approve ctx actor)"
  unfolding after_approve_def run_hook_def Let_def by (intro never_rules)

lemma submit_failure: "atomic_failure (submit reg type payload actor opts)"
  unfolding submit_def by (intro atomic_bind atomic_transaction keeps_registry_get keeps_same_now)

lemma approve_failure: "atomic_failure (approve reg rid note actor)"
  unfolding approve_def approve_tx_def Let_def
  by (intro atomic_bind [OF keeps_approve_guard] atomic_bind_never atomic_bind [OF keeps_same_now]
      atomic_transaction never_bind never_ret never_after_approve)

lemma reject_failure: "atomic_failure (reject reg rid note actor)"
  unfolding reject_def reject_tx_def Let_def
  by (intro atomic_bind keeps_reject_guard keeps_same_now atomic_transaction)

lemma cancel_failure: "atomic_failure (cancel reg rid actor)"
  unfolding cancel_def cancel_tx_def Let_def
  by (intro atomic_bind guard_frames atomic_transaction)

lemma expire_failure: "atomic_failure (expire reg rid)"
  unfolding expire_def expire_tx_def Let_def
  by (intro atomic_bind guard_frames atomic_transaction atomic_if atomic_keeps)

section \<open>The operations\<close>

context engine begin

lemma approve_success:
  assumes "approve reg rid note actor w = (Inr row, w')"
  obtains ctx nxt i v v' where "may_decide reg rid actor w ctx"
    and "cache_sound w \<Longrightarrow> \<not> w_perm_outage w \<Longrightarrow> permitted actor ctx w"
    and "next_assignee ctx v = (Inr nxt, v')"
    and "transition (update_where (\<lambda>x. ri_id x = rid) (approved_row ctx note nxt (w_now w)))
       [decision_row ctx Dec_approved note actor i (w_now w)] (approval_event (dx_def ctx) (dx_request ctx)) rid
       (approval_payload (dx_def ctx) (dx_request ctx) actor) w w'"
    and "row = Some (approved_row ctx note nxt (w_now w) (dx_request ctx))"
proof -
  from assms obtain ctx w1 w2 u where g: "approve_guard reg rid actor w = (Inr ctx, w1)"
    and t: "approve_tx ctx note actor w1 = (Inr row, w2)" and a: "after_approve ctx actor w2 = (Inr u, w')"
    unfolding approve_def by (auto elim!: mbind_InrE)
  note g' = approve_guard_success [OF g]
  then have "map_of reg (ri_type (dx_request ctx)) = Some (dx_def ctx)"
    by (simp add: may_decide_def)
  then have hooks: "request_hooks (dx_def ctx)" by (rule registered)
  have q: "quiet w w1" and db: "w_db w1 = w_db w" and now: "w_now w1 = w_now w" using g' by (simp_all add: quiet_def)
  have q2: "quiet w2 w'" using keepsD [OF request_hooks.quiet_after [OF hooks refl] a] .
  have found: "find_where (\<lambda>x. ri_id x = rid) (t_request_items (w_db w)) = Some (dx_request ctx)"
    using g' by (simp add: may_decide_def)
  then have rid: "ri_id (dx_request ctx) = rid"
    using find_where_SomeD by fastforce
  obtain nxt i v v' where n: "next_assignee ctx v = (Inr nxt, v')" and tr: "transition (update_where (\<lambda>x. ri_id x = rid) (approved_row ctx note nxt (w_now w)))
       [decision_row ctx Dec_approved note actor i (w_now w)] (approval_event (dx_def ctx) (dx_request ctx)) rid
       (approval_payload (dx_def ctx) (dx_request ctx) actor) w1 w2"
    and row: "row = find_where (\<lambda>x. ri_id x = rid)
       (update_where (\<lambda>x. ri_id x = rid) (approved_row ctx note nxt (w_now w)) (t_request_items (w_db w)))"
    by (rule request_hooks.approve_tx_success [OF hooks t refl, unfolded rid now db]) (rule that; assumption)
  have "row = Some (approved_row ctx note nxt (w_now w) (dx_request ctx))"
    using row found by (simp add: find_where_update_key approved_row_def Let_def)
  moreover have "transition (update_where (\<lambda>x. ri_id x = rid) (approved_row ctx note nxt (w_now w)))
       [decision_row ctx Dec_approved note actor i (w_now w)] (approval_event (dx_def ctx) (dx_request ctx)) rid
       (approval_payload (dx_def ctx) (dx_request ctx) actor) w w'"
    by (rule quiet_transition [OF q transition_quiet [OF tr q2]])
  ultimately show thesis
    using g' by (intro that [OF _ _ n]) auto
qed

lemma reject_success:
  assumes "reject reg rid note actor w = (Inr row, w')"
  obtains ctx i where "may_decide reg rid actor w ctx"
    and "cache_sound w \<Longrightarrow> \<not> w_perm_outage w \<Longrightarrow> permitted actor ctx w"
    and "transition (update_where (\<lambda>x. ri_id x = rid) (rejected_row note (w_now w)))
       [decision_row ctx Dec_rejected note actor i (w_now w)] ''request.rejected'' rid
       [(''requestId'', JStr rid), (''type'', JStr (ri_type (dx_request ctx))), (''approverId'', JStr (ac_sub actor)),
        (''note'', jstr_or_null note)] w w'"
    and "row = Some (rejected_row note (w_now w) (dx_request ctx))"
proof -
  from assms obtain ctx w1 where g: "reject_guard reg rid actor w = (Inr ctx, w1)"
    and t: "reject_tx ctx note actor w1 = (Inr row, w')"
    unfolding reject_def by (auto elim!: mbind_InrE)
  note g' = reject_guard_success [OF g]
  then have "map_of reg (ri_type (dx_request ctx)) = Some (dx_def ctx)"
    by (simp add: may_decide_def)
  then have hooks: "request_hooks (dx_def ctx)" by (rule registered)
  have q: "quiet w w1" and db: "w_db w1 = w_db w" and now: "w_now w1 = w_now w" using g' by (simp_all add: quiet_def)
  have found: "find_where (\<lambda>x. ri_id x = rid) (t_request_items (w_db w)) = Some (dx_request ctx)"
    using g' by (simp add: may_decide_def)
  then have rid: "ri_id (dx_request ctx) = rid"
    using find_where_SomeD by fastforce
  from request_hooks.reject_tx_success [OF hooks t refl, unfolded rid now db]
  show thesis
    using g' found by (auto simp: find_where_update_key rejected_row_def dest: quiet_transition [OF q] intro: that)
qed

lemma cancel_success:
  assumes "cancel reg rid actor w = (Inr row, w')"
  obtains r where "find_where (\<lambda>x. ri_id x = rid) (t_request_items (w_db w)) = Some r"
    and "open_status (ri_status r)"
    and "ri_requester r = ac_sub actor \<or>
         (cache_sound w \<longrightarrow> \<not> w_perm_outage w \<longrightarrow> holds (w_db w) (w_now w) (ac_sub actor) ''rbac.manage'')"
    and "transition (update_where (\<lambda>x. ri_id x = rid) (closed_row Req_cancelled (w_now w))) []
           ''request.cancelled'' rid
           [(''requestId'', JStr rid), (''type'', JStr (ri_type r)), (''cancelledBy'', JStr (ac_sub actor))] w w'"
    and "row = Some (closed_row Req_cancelled (w_now w) r)"
proof -
  from assms obtain r b w1 def where found: "find_where (\<lambda>x. ri_id x = rid) (t_request_items (w_db w)) = Some r"
    and c: "check (ac_sub actor) ''rbac.manage'' w = (Inr b, w1)"
    and who: "ri_requester r = ac_sub actor \<or> b" and st: "open_status (ri_status r)"
    and def: "map_of reg (ri_type r) = Some def" and t: "cancel_tx def r actor w1 = (Inr row, w')"
    unfolding cancel_def
    by (auto simp: getOrFail_def registry_get_def split: option.splits if_splits
             elim!: mbind_InrE [where m = "check u p" for u p])
  have hooks: "request_hooks def" using def by (rule registered)
  have rid: "ri_id r = rid"
    using find_where_SomeD [OF found] by simp
  have q: "quiet w w1" and db: "w_db w1 = w_db w" and now: "w_now w1 = w_now w"
    using check_quiet [OF c] by (simp_all add: quiet_def)
  have "b \<Longrightarrow> cache_sound w \<longrightarrow> \<not> w_perm_outage w \<longrightarrow> holds (w_db w) (w_now w) (ac_sub actor) ''rbac.manage''"
    using c by (auto elim: check_sound [of w "ac_sub actor" "''rbac.manage''"])
  with request_hooks.cancel_tx_success [OF hooks t, unfolded rid now db] who st found show thesis
    by (intro that) (auto simp: find_where_update_key closed_row_def dest: quiet_transition [OF q])
qed

lemma expire_success:
  assumes "expire reg rid w = (Inr u, w')"
  obtains (noop) r where "find_where (\<lambda>x. ri_id x = rid) (t_request_items (w_db w)) = Some r"
      and "\<not> open_status (ri_status r)" and "w' = w"
    | (expired) r where "find_where (\<lambda>x. ri_id x = rid) (t_request_items (w_db w)) = Some r"
      and "open_status (ri_status r)"
      and "transition (update_where (\<lambda>x. ri_id x = rid) (closed_row Req_expired (w_now w))) []
           ''request.expired'' rid [(''requestId'', JStr rid), (''type'', JStr (ri_type r))] w w'"
proof -
  from assms obtain r where found: "find_where (\<lambda>x. ri_id x = rid) (t_request_items (w_db w)) = Some r"
    and rest: "if open_status (ri_status r)
       then (\<exists>def. map_of reg (ri_type r) = Some def \<and> expire_tx def r w = (Inr u, w')) else w' = w"
    unfolding expire_def by (auto simp: getOrFail_def registry_get_def split: option.splits if_splits)
  have rid: "ri_id r = rid"
    using find_where_SomeD [OF found] by simp
  show thesis
  proof (cases "open_status (ri_status r)")
    case True
    then obtain def where def: "map_of reg (ri_type r) = Some def" and t: "expire_tx def r w = (Inr u, w')"
      using rest by auto
    from request_hooks.expire_tx_success [OF registered [OF def] t] show thesis
      using found True by (intro expired) (simp_all add: rid)
  next
    case False
    with rest found show thesis by (intro noop) simp_all
  qed
qed

end

end
