(* ===== verification/Request_Crons.thy ===== *)
theory Request_Crons
  imports Engine_Laws
begin

text \<open>
  The two timers of the worker that act on requests (\<^verbatim>\<open>apps/worker/src/cron\<close>): the expiry tick
  and the SLA tick.  Each reads a batch and handles the rows one by one; a row that fails is
  logged and skipped.  The flag that keeps a tick from overlapping itself is not modelled: a
  tick is one method here.
\<close>

section \<open>Expiry\<close>

definition expire_one :: "registry \<Rightarrow> uuid \<Rightarrow> unit svc" where
  "expire_one reg rid = mtry (expire reg rid) (\<lambda>_. mret ())"

definition expiry_tick :: "registry \<Rightarrow> unit svc" where
  "expiry_tick reg = mbind (findExpired 100) (\<lambda>ids. mfor ids (expire_one reg))"

section \<open>SLA breaches\<close>

definition sla_overdue :: "timestamp \<Rightarrow> request_item \<Rightarrow> bool" where
  "sla_overdue t r \<longleftrightarrow> open_status (ri_status r) \<and> ri_sla_breached_at r = None \<and>
     (case ri_sla_deadline r of None \<Rightarrow> False | Some d \<Rightarrow> d \<le> t)"

definition sla_breach_one :: "timestamp \<Rightarrow> request_item \<Rightarrow> unit svc" where
  "sla_breach_one t row =
     (case ri_sla_deadline row of
        None \<Rightarrow> mret ()
      | Some deadline \<Rightarrow>
          mtry (transaction (
            mbind (exec (t_request_items_update (update_where (\<lambda>r. ri_id r = ri_id row)
                     (ri_sla_breached_at_update (\<lambda>_. Some t))))) (\<lambda>_.
            schedule
              \<lparr>ni_type = ''request.sla_breach'',
               ni_vars = [(''requestType'', JStr (ri_type row)), (''requestId'', JStr (ri_id row)),
                          (''deadline'', JDate deadline)],
               ni_recipient = ri_requester row, ni_actor = None, ni_resource = Some (ri_id row),
               ni_idempotency_key = Some (''sla_breach:'' @ ri_id row)\<rparr>))) (\<lambda>_. mret ()))"

definition sla_tick :: "unit svc" where
  "sla_tick =
     mbind now (\<lambda>t.
     mbind (query (\<lambda>d. take 100 (select_where (sla_overdue t) (t_request_items d)))) (\<lambda>breached.
     mfor breached (sla_breach_one t)))"

section \<open>What the SLA tick changes\<close>

text \<open>An item may only have been stamped, and only while it was open.\<close>

definition stamped :: "request_item \<Rightarrow> request_item \<Rightarrow> bool" where
  "stamped r r' \<longleftrightarrow> r' = r \<or> open_status (ri_status r) \<and> (\<exists>t. r' = ri_sla_breached_at_update (\<lambda>_. t) r)"

definition stamps :: "world \<Rightarrow> world \<Rightarrow> bool" where
  "stamps w w' \<longleftrightarrow> list_all2 stamped (t_request_items (w_db w)) (t_request_items (w_db w')) \<and>
     t_request_approvals (w_db w') = t_request_approvals (w_db w) \<and>
     w_uuid w' = w_uuid w \<and> w_next w \<le> w_next w'"

lemma stamped_refl: "stamped r r"
  by (simp add: stamped_def)

lemma stamped_trans:
  assumes "stamped r s" and "stamped s u"
  shows "stamped r u"
proof (cases "s = r \<or> u = s")
  case True
  with assms show ?thesis by blast
next
  case False
  with assms obtain t t' where "s = ri_sla_breached_at_update (\<lambda>_. t) r" "open_status (ri_status r)"
    and "u = ri_sla_breached_at_update (\<lambda>_. t') s"
    unfolding stamped_def by blast
  then have "u = ri_sla_breached_at_update (\<lambda>_. t') r" by simp
  with \<open>open_status (ri_status r)\<close> show ?thesis unfolding stamped_def by blast
qed

interpretation stamps: frame_rel stamps
proof
  show "stamps s s" for s
    by (simp add: stamps_def list.rel_refl stamped_refl)
  show "stamps s t \<Longrightarrow> stamps t u \<Longrightarrow> stamps s u" for s t u
    unfolding stamps_def using list_all2_trans [of stamped stamped stamped, OF stamped_trans] by auto
qed

lemma stamped_same: "stamped r r' \<Longrightarrow> ri_id r' = ri_id r \<and> ri_status r' = ri_status r \<and> ri_type r' = ri_type r \<and>
    ri_current_step r' = ri_current_step r \<and> ri_total_steps r' = ri_total_steps r \<and>
    ri_resolved_at r' = ri_resolved_at r \<and> ri_requester r' = ri_requester r \<and> ri_payload r' = ri_payload r"
  unfolding stamped_def by (elim disjE conjE exE) simp_all

lemma sla_breach_one_stamps:
  assumes "\<forall>r \<in> set (t_request_items (w_db w)). ri_id r = ri_id row \<longrightarrow> open_status (ri_status r)"
  shows "stamps w (snd (sla_breach_one t row w))"
proof (cases "ri_sla_deadline row")
  case None
  then show ?thesis by (simp add: sla_breach_one_def stamps.rel_refl)
next
  case (Some dl)
  have "list_all2 stamped l (update_where (\<lambda>r. ri_id r = ri_id row) (ri_sla_breached_at_update (\<lambda>_. Some t)) l)"
    if "\<forall>r \<in> set l. ri_id r = ri_id row \<longrightarrow> open_status (ri_status r)" for l
    using that by (induction l) (auto simp: stamped_def)
  with assms Some show ?thesis
    by (simp add: sla_breach_one_def mtry_def transaction_def schedule_def stamps_def)
qed

lemma stamps_open:
  assumes "stamps w w'"
    and "\<forall>r \<in> set (t_request_items (w_db w)). ri_id r = i \<longrightarrow> open_status (ri_status r)"
  shows "\<forall>r \<in> set (t_request_items (w_db w')). ri_id r = i \<longrightarrow> open_status (ri_status r)"
proof
  fix r' assume "r' \<in> set (t_request_items (w_db w'))"
  then obtain r where "r \<in> set (t_request_items (w_db w))" and "stamped r r'"
    using assms(1) unfolding stamps_def
    by (metis (no_types, lifting) in_set_conv_nth list_all2_conv_all_nth)
  with assms(2) show "ri_id r' = i \<longrightarrow> open_status (ri_status r')"
    using stamped_same by auto
qed

lemma sla_loop_stamps:
  assumes "\<forall>row \<in> set rows. \<forall>r \<in> set (t_request_items (w_db w)). ri_id r = ri_id row \<longrightarrow> open_status (ri_status r)"
  shows "stamps w (snd (mfor rows (sla_breach_one t) w))"
  using assms
proof (induction rows arbitrary: w)
  case Nil
  show ?case by (simp add: stamps.rel_refl)
next
  case (Cons row rows)
  obtain r w1 where one: "sla_breach_one t row w = (r, w1)"
    by (cases "sla_breach_one t row w")
  have s: "stamps w w1"
    using sla_breach_one_stamps [of w row t] Cons.prems one by simp
  have "stamps w1 (snd (mfor rows (sla_breach_one t) w1))"
    using Cons.prems stamps_open [OF s] by (intro Cons.IH) auto
  with s show ?case
    using one by (cases r) (auto simp: mbind_def intro: stamps.rel_trans)
qed

lemma sla_tick_stamps:
  assumes "distinct (map ri_id (t_request_items (w_db w)))"
  shows "stamps w (snd (sla_tick w))"
proof -
  have "\<forall>row \<in> set (take 100 (select_where (sla_overdue (w_now w)) (t_request_items (w_db w)))).
      \<forall>r \<in> set (t_request_items (w_db w)). ri_id r = ri_id row \<longrightarrow> open_status (ri_status r)"
  proof (intro ballI impI)
    fix row r
    assume row: "row \<in> set (take 100 (select_where (sla_overdue (w_now w)) (t_request_items (w_db w))))"
      and r: "r \<in> set (t_request_items (w_db w))" "ri_id r = ri_id row"
    from row have "row \<in> set (t_request_items (w_db w))" "sla_overdue (w_now w) row"
      by (auto dest: in_set_takeD)
    with assms r have "r = row"
      by (auto simp: distinct_map inj_on_def)
    with \<open>sla_overdue (w_now w) row\<close> show "open_status (ri_status r)"
      by (simp add: sla_overdue_def)
  qed
  then show ?thesis
    by (simp add: sla_tick_def sla_loop_stamps)
qed

end
