(* ===== verification/Engine_Invariant.thy ===== *)
theory Engine_Invariant
  imports Request_Crons
begin

text \<open>
  The state machine of the request engine as a step relation: the five transitions, the SLA
  timer, and any step of another component, which leaves the requests and their approval log
  alone.  \<open>engine_inv\<close> relates every request to its part of the log; it holds in every
  reachable state, over every registry whose hooks keep to their contract.
\<close>

section \<open>Steps\<close>

definition other_step :: "world \<Rightarrow> world \<Rightarrow> bool" where
  "other_step w w' \<longleftrightarrow> t_request_items (w_db w') = t_request_items (w_db w) \<and>
     t_request_approvals (w_db w') = t_request_approvals (w_db w) \<and>
     w_uuid w' = w_uuid w \<and> w_next w \<le> w_next w'"

inductive engine_step :: "registry \<Rightarrow> world \<Rightarrow> world \<Rightarrow> bool" for reg where
  step_submit: "submit reg type payload actor opts w = (r, w') \<Longrightarrow> engine_step reg w w'"
| step_approve: "approve reg rid note actor w = (r, w') \<Longrightarrow> engine_step reg w w'"
| step_reject: "reject reg rid note actor w = (r, w') \<Longrightarrow> engine_step reg w w'"
| step_cancel: "cancel reg rid actor w = (r, w') \<Longrightarrow> engine_step reg w w'"
| step_expire: "expire reg rid w = (r, w') \<Longrightarrow> engine_step reg w w'"
| step_sla: "sla_tick w = (r, w') \<Longrightarrow> engine_step reg w w'"
| step_other: "other_step w w' \<Longrightarrow> engine_step reg w w'"

inductive reachable :: "registry \<Rightarrow> world \<Rightarrow> bool" for reg where
  reach_init: "t_request_items (w_db w) = [] \<Longrightarrow> t_request_approvals (w_db w) = [] \<Longrightarrow> inj (w_uuid w) \<Longrightarrow>
    reachable reg w"
| reach_step: "reachable reg w \<Longrightarrow> engine_step reg w w' \<Longrightarrow> reachable reg w'"

inductive_cases reachableE: "reachable reg w"

section \<open>The invariant\<close>

text \<open>
  The approval log a request in a given state must have: an approval of every step before
  the current one, in order, and the decision of the current step when there was one.
\<close>

definition log_of :: "db \<Rightarrow> uuid \<Rightarrow> request_approval list" where
  "log_of d rid = select_where (\<lambda>a. ra_request a = rid) (t_request_approvals d)"

definition closing :: "request_item \<Rightarrow> (int \<times> decision) list" where
  "closing r = (case ri_status r of
      Req_approved \<Rightarrow> [(ri_current_step r, Dec_approved)]
    | Req_rejected \<Rightarrow> [(ri_current_step r, Dec_rejected)]
    | _ \<Rightarrow> [])"

definition log_ok :: "request_item \<Rightarrow> request_approval list \<Rightarrow> bool" where
  "log_ok r L \<longleftrightarrow>
     1 \<le> ri_current_step r \<and> ri_current_step r \<le> ri_total_steps r \<and>
     (ri_status r = Req_pending \<longrightarrow> ri_current_step r = 1) \<and>
     (ri_status r = Req_in_review \<longrightarrow> 1 < ri_current_step r) \<and>
     (ri_status r = Req_approved \<longrightarrow> ri_current_step r = ri_total_steps r) \<and>
     map (\<lambda>a. (ra_step a, ra_decision a)) L =
       map (\<lambda>s. (s, Dec_approved)) [1..ri_current_step r - 1] @ closing r"

definition item_ok :: "registry \<Rightarrow> request_item \<Rightarrow> bool" where
  "item_ok reg r \<longleftrightarrow> (ri_resolved_at r = None \<longleftrightarrow> open_status (ri_status r)) \<and>
     map_option total_steps (map_of reg (ri_type r)) = Some (ri_total_steps r)"

definition engine_inv :: "registry \<Rightarrow> world \<Rightarrow> bool" where
  "engine_inv reg w \<longleftrightarrow> inj (w_uuid w) \<and>
     distinct (map ri_id (t_request_items (w_db w))) \<and>
     (\<forall>r \<in> set (t_request_items (w_db w)). ri_id r \<in> w_uuid w ` {..<w_next w}) \<and>
     (\<forall>a \<in> set (t_request_approvals (w_db w)). ra_request a \<in> ri_id ` set (t_request_items (w_db w))) \<and>
     (\<forall>r \<in> set (t_request_items (w_db w)). item_ok reg r \<and> log_ok r (log_of (w_db w) (ri_id r)))"

lemma log_of_append [simp]:
  "t_request_approvals d' = t_request_approvals d @ apps \<Longrightarrow>
   log_of d' rid = log_of d rid @ select_where (\<lambda>a. ra_request a = rid) apps"
  by (simp add: log_of_def)

lemma engine_invD:
  assumes "engine_inv reg w" and "r \<in> set (t_request_items (w_db w))"
  shows "item_ok reg r" and "log_ok r (log_of (w_db w) (ri_id r))"
    and "find_where (\<lambda>x. ri_id x = ri_id r) (t_request_items (w_db w)) = Some r"
  using assms by (auto simp: engine_inv_def find_where_distinct)

section \<open>Preservation\<close>

lemma inv_update:
  assumes tr: "transition (update_where (\<lambda>x. ri_id x = rid) f) apps ev i pl w w'"
    and inv: "engine_inv reg w"
    and found: "find_where (\<lambda>x. ri_id x = rid) (t_request_items (w_db w)) = Some r"
    and f_id: "\<And>x. ri_id (f x) = ri_id x"
    and apps: "\<forall>a \<in> set apps. ra_request a = rid"
    and ok: "item_ok reg (f r)" "log_ok (f r) (log_of (w_db w) rid @ apps)"
  shows "engine_inv reg w'"
proof -
  let ?T = "t_request_items (w_db w)" and ?T' = "t_request_items (w_db w')"
  have T': "?T' = update_where (\<lambda>x. ri_id x = rid) f ?T"
    and A': "t_request_approvals (w_db w') = t_request_approvals (w_db w) @ apps"
    and u: "w_uuid w' = w_uuid w" "w_next w \<le> w_next w'"
    using tr by (auto simp: transition_def)
  have ids: "map ri_id ?T' = map ri_id ?T"
    unfolding T' by (rule map_update_where) (rule f_id)
  then have idset: "ri_id ` set ?T' = ri_id ` set ?T"
    by (metis list.set_map)
  have r: "r \<in> set ?T" "ri_id r = rid"
    using find_where_SomeD [OF found] by auto
  have only: "x = r" if "x \<in> set ?T" "ri_id x = rid" for x
    using that inv r by (auto simp: engine_inv_def distinct_map inj_on_def)
  have sel: "select_where (\<lambda>a. ra_request a = rid) apps = apps"
    using apps by (simp add: select_where_def)
  have unsel: "select_where (\<lambda>a. ra_request a = x) apps = []" if "x \<noteq> rid" for x
    using apps that by (auto simp: select_where_empty_iff)
  have "item_ok reg x \<and> log_ok x (log_of (w_db w') (ri_id x))" if "x \<in> set ?T'" for x
  proof (cases "ri_id x = rid")
    case True
    with that only f_id have "x = f r"
      unfolding T' by (auto simp: set_update_where split: if_splits)
    with ok True sel show ?thesis
      by (simp add: log_of_append [OF A'])
  next
    case False
    with that f_id have "x \<in> set ?T"
      unfolding T' by (auto simp: set_update_where split: if_splits)
    with inv False unsel show ?thesis
      by (simp add: engine_inv_def log_of_append [OF A'])
  qed
  moreover have "\<forall>a \<in> set (t_request_approvals (w_db w')). ra_request a \<in> ri_id ` set ?T'"
    using inv apps r unfolding A' idset by (auto simp: engine_inv_def)
  moreover have "\<forall>x \<in> set ?T'. ri_id x \<in> w_uuid w' ` {..<w_next w'}"
  proof
    fix x assume "x \<in> set ?T'"
    then have "ri_id x \<in> ri_id ` set ?T" using idset by blast
    with inv u show "ri_id x \<in> w_uuid w' ` {..<w_next w'}"
      by (fastforce simp: engine_inv_def)
  qed
  ultimately show ?thesis
    using inv ids u by (simp add: engine_inv_def)
qed

lemma inv_insert:
  assumes tr: "transition (insert_row r) [] ev i pl w w'" and inv: "engine_inv reg w"
    and fresh: "ri_id r = w_uuid w n" "w_next w \<le> n" "n < w_next w'"
    and ok: "item_ok reg r" "log_ok r []"
  shows "engine_inv reg w'"
proof -
  let ?T = "t_request_items (w_db w)" and ?T' = "t_request_items (w_db w')"
  have T': "?T' = insert_row r ?T"
    and A': "t_request_approvals (w_db w') = t_request_approvals (w_db w)"
    and u: "w_uuid w' = w_uuid w" "w_next w \<le> w_next w'"
    using tr by (auto simp: transition_def)
  have new: "ri_id r \<notin> ri_id ` set ?T"
    using inv fresh by (force simp: engine_inv_def dest: injD)
  have log: "log_of (w_db w') x = log_of (w_db w) x" for x
    by (simp add: log_of_def A')
  have "log_of (w_db w) (ri_id r) = []"
    using inv new unfolding log_of_def select_where_empty_iff engine_inv_def by metis
  moreover have "distinct (map ri_id ?T')"
    using inv new by (simp add: T' engine_inv_def insert_row_def)
  moreover have "\<forall>x \<in> set ?T'. ri_id x \<in> w_uuid w' ` {..<w_next w'}"
    using inv fresh u unfolding T' by (fastforce simp: engine_inv_def)
  ultimately show ?thesis
    using inv ok unfolding engine_inv_def T' A' log u(1) by auto
qed

lemma stamped_ok:
  assumes "stamped r r'"
  shows "item_ok reg r' = item_ok reg r" and "log_ok r' L = log_ok r L"
  using stamped_same [OF assms] by (simp_all add: item_ok_def log_ok_def closing_def cong: option.case_cong request_status.case_cong)

lemma inv_stamps:
  assumes st: "stamps w w'" and inv: "engine_inv reg w"
  shows "engine_inv reg w'"
proof -
  let ?T = "t_request_items (w_db w)" and ?T' = "t_request_items (w_db w')"
  have l: "list_all2 stamped ?T ?T'" and A': "t_request_approvals (w_db w') = t_request_approvals (w_db w)"
    and u: "w_uuid w' = w_uuid w" "w_next w \<le> w_next w'"
    using st by (auto simp: stamps_def)
  have ids: "map ri_id ?T' = map ri_id ?T"
    using l by (induction rule: list_all2_induct) (auto dest: stamped_same)
  then have idset: "ri_id ` set ?T' = ri_id ` set ?T"
    by (metis list.set_map)
  have "item_ok reg x \<and> log_ok x (log_of (w_db w') (ri_id x))" if x: "x \<in> set ?T'" for x
  proof -
    obtain y where y: "y \<in> set ?T" "stamped y x"
      using l x by (metis (no_types, lifting) in_set_conv_nth list_all2_conv_all_nth)
    with inv stamped_same [OF y(2)] show ?thesis
      by (simp add: stamped_ok [OF y(2)] engine_inv_def log_of_def A')
  qed
  moreover have "\<forall>x \<in> set ?T'. ri_id x \<in> w_uuid w' ` {..<w_next w'}"
  proof
    fix x assume "x \<in> set ?T'"
    then have "ri_id x \<in> ri_id ` set ?T" using idset by blast
    with inv u show "ri_id x \<in> w_uuid w' ` {..<w_next w'}"
      by (fastforce simp: engine_inv_def)
  qed
  ultimately show ?thesis
    using inv ids u by (simp add: engine_inv_def A' idset)
qed

lemma inv_other: "other_step w w' \<Longrightarrow> engine_inv reg w \<Longrightarrow> engine_inv reg w'"
  by (fastforce simp: other_step_def engine_inv_def log_of_def)

lemma other_same_db:
  "w_db w' = w_db w \<Longrightarrow> w_uuid w' = w_uuid w \<Longrightarrow> w_next w \<le> w_next w' \<Longrightarrow> other_step w w'"
  by (simp add: other_step_def)

section \<open>Every operation keeps the invariant\<close>

lemma log_ok_open:
  assumes "log_ok r L" and "open_status (ri_status r)"
  shows "map (\<lambda>a. (ra_step a, ra_decision a)) L = map (\<lambda>s. (s, Dec_approved)) [1..ri_current_step r - 1]"
    and "1 \<le> ri_current_step r" and "ri_current_step r \<le> ri_total_steps r"
  using assms by (auto simp: log_ok_def closing_def open_status_def)

lemma log_ok_closed:
  assumes "log_ok r L" and "open_status (ri_status r)" and "st = Req_cancelled \<or> st = Req_expired"
  shows "log_ok (closed_row st t r) L"
  using log_ok_open [OF assms(1,2)] assms(3) by (auto simp: log_ok_def closing_def closed_row_def)

lemma log_ok_rejected:
  assumes "log_ok r L" and "open_status (ri_status r)" and "ra_step a = ri_current_step r" and "ra_decision a = Dec_rejected"
  shows "log_ok (rejected_row note t r) (L @ [a])"
  using log_ok_open [OF assms(1,2)] assms(3,4) by (simp add: log_ok_def closing_def rejected_row_def)

context request_hooks begin

lemma log_ok_approved:
  assumes "log_ok r L" and "open_status (ri_status r)" and "ra_step a = ri_current_step r"
    and "ra_decision a = Dec_approved" and "total_steps def = ri_total_steps r"
    and "dx_def ctx = def" and "dx_request ctx = r"
  shows "log_ok (approved_row ctx note nxt t r) (L @ [a])"
proof -
  let ?k = "ri_current_step r"
  note o = log_ok_open [OF assms(1,2)]
  show ?thesis
  proof (cases "is_final_step def ?k")
    case True
    then have "?k = ri_total_steps r"
      using o assms(5) by (auto simp: final_iff total_steps_def)
    with True o assms show ?thesis
      by (simp add: log_ok_def closing_def approved_row_def Let_def)
  next
    case False
    then have "?k < ri_total_steps r"
      using assms(5) by (simp add: final_iff)
    moreover have "[1..?k] = [1..?k - 1] @ [?k]"
      using o by (simp add: upto_rec2)
    ultimately show ?thesis
      using False o assms by (simp add: log_ok_def closing_def approved_row_def Let_def)
  qed
qed

end

context engine begin

lemma approve_inv:
  assumes inv: "engine_inv reg w" and run: "approve reg rid note actor w = (Inr row, w')"
  shows "engine_inv reg w'"
proof -
  from run obtain ctx nxt i where may: "may_decide reg rid actor w ctx"
    and tr: "transition (update_where (\<lambda>x. ri_id x = rid) (approved_row ctx note nxt (w_now w)))
       [decision_row ctx Dec_approved note actor i (w_now w)] (approval_event (dx_def ctx) (dx_request ctx)) rid
       (approval_payload (dx_def ctx) (dx_request ctx) actor) w w'"
    by (rule approve_success) (rule that; assumption)
  define r where "r = dx_request ctx"
  have found: "find_where (\<lambda>x. ri_id x = rid) (t_request_items (w_db w)) = Some r"
    and st: "open_status (ri_status r)" and def: "map_of reg (ri_type r) = Some (dx_def ctx)"
    using may by (simp_all add: may_decide_def r_def)
  have r: "r \<in> set (t_request_items (w_db w))" "ri_id r = rid"
    using find_where_SomeD [OF found] by auto
  have ok: "item_ok reg r" and log: "log_ok r (log_of (w_db w) rid)"
    using engine_invD [OF inv r(1)] r(2) by simp_all
  have total: "total_steps (dx_def ctx) = ri_total_steps r"
    using ok def by (simp add: item_ok_def)
  note hooks = registered [OF def]
  show ?thesis
  proof (rule inv_update [OF tr inv found])
    show "log_ok (approved_row ctx note nxt (w_now w) r) (log_of (w_db w) rid @ [decision_row ctx Dec_approved note actor i (w_now w)])"
      by (rule request_hooks.log_ok_approved [OF hooks log st _ _ total])
        (simp_all add: decision_row_def r_def)
    show "item_ok reg (approved_row ctx note nxt (w_now w) r)"
      using ok by (simp add: item_ok_def approved_row_def Let_def open_status_def)
  qed (use r(2) in \<open>simp_all add: approved_row_def decision_row_def Let_def r_def\<close>)
qed

lemma reject_inv:
  assumes inv: "engine_inv reg w" and run: "reject reg rid note actor w = (Inr row, w')"
  shows "engine_inv reg w'"
proof -
  from run obtain ctx i pl where may: "may_decide reg rid actor w ctx"
    and tr: "transition (update_where (\<lambda>x. ri_id x = rid) (rejected_row note (w_now w)))
       [decision_row ctx Dec_rejected note actor i (w_now w)] ''request.rejected'' rid pl w w'"
    by (rule reject_success) (rule that; assumption)
  define r where "r = dx_request ctx"
  have found: "find_where (\<lambda>x. ri_id x = rid) (t_request_items (w_db w)) = Some r"
    and st: "open_status (ri_status r)"
    using may by (simp_all add: may_decide_def r_def)
  have r: "r \<in> set (t_request_items (w_db w))" "ri_id r = rid"
    using find_where_SomeD [OF found] by auto
  have ok: "item_ok reg r" and log: "log_ok r (log_of (w_db w) rid)"
    using engine_invD [OF inv r(1)] r(2) by simp_all
  show ?thesis
  proof (rule inv_update [OF tr inv found])
    show "log_ok (rejected_row note (w_now w) r) (log_of (w_db w) rid @ [decision_row ctx Dec_rejected note actor i (w_now w)])"
      by (rule log_ok_rejected [OF log st]) (simp_all add: decision_row_def r_def)
    show "item_ok reg (rejected_row note (w_now w) r)"
      using ok by (simp add: item_ok_def rejected_row_def open_status_def)
  qed (use r(2) in \<open>simp_all add: rejected_row_def decision_row_def r_def\<close>)
qed

lemma closed_inv:
  assumes inv: "engine_inv reg w" and st: "st = Req_cancelled \<or> st = Req_expired"
    and tr: "transition (update_where (\<lambda>x. ri_id x = rid) (closed_row st (w_now w))) [] ev rid pl w w'"
    and found: "find_where (\<lambda>x. ri_id x = rid) (t_request_items (w_db w)) = Some r"
    and "open_status (ri_status r)"
  shows "engine_inv reg w'"
proof -
  have r: "r \<in> set (t_request_items (w_db w))" "ri_id r = rid"
    using find_where_SomeD [OF found] by auto
  show ?thesis
  proof (rule inv_update [OF tr inv found])
    show "log_ok (closed_row st (w_now w) r) (log_of (w_db w) rid @ [])"
      using log_ok_closed [OF _ assms(5) st] engine_invD(2) [OF inv r(1)] r(2) by simp
    show "item_ok reg (closed_row st (w_now w) r)"
      using engine_invD(1) [OF inv r(1)] st by (auto simp: item_ok_def closed_row_def open_status_def)
  qed (simp_all add: closed_row_def)
qed

lemma cancel_inv:
  assumes "engine_inv reg w" and "cancel reg rid actor w = (Inr row, w')"
  shows "engine_inv reg w'"
  using assms(2) by (rule cancel_success) (rule closed_inv [OF assms(1)], auto)

lemma expire_inv:
  assumes "engine_inv reg w" and "expire reg rid w = (Inr u, w')"
  shows "engine_inv reg w'"
  using assms(2)
proof (cases rule: expire_success)
  case (noop r)
  with assms(1) show ?thesis by simp
next
  case (expired r)
  then show ?thesis by (intro closed_inv [OF assms(1)]) auto
qed

lemma new_request_ok:
  assumes "map_of reg type = Some def"
  shows "item_ok reg (new_request i t def type p a opts) \<and> log_ok (new_request i t def type p a opts) []"
  using assms request_hooks.total_steps_pos [OF registered [OF assms]]
  by (simp add: item_ok_def log_ok_def new_request_def open_status_def closing_def)

lemma submit_inv:
  assumes inv: "engine_inv reg w" and run: "submit reg type payload actor opts w = (Inr row, w')"
  shows "engine_inv reg w'"
proof -
  obtain def where def: "map_of reg type = Some def"
    using run by (auto simp: submit_def registry_get_def split: option.splits)
  from request_hooks.submit_success [OF registered [OF def] def run] obtain n pl where
    "w_next w \<le> n" "n < w_next w'" and row: "row = new_request (w_uuid w n) (w_now w) def type payload actor opts"
    and "transition (insert_row row) [] ''request.submitted'' (ri_id row) pl w w'"
    by blast
  then show ?thesis
    using new_request_ok [OF def] by (intro inv_insert [of row _ _ _ w w' reg n] inv) (simp_all add: new_request_def)
qed

end

section \<open>Identifiers\<close>

text \<open>Whatever a method returns, drawn identifiers stay drawn.\<close>

definition ids :: "world \<Rightarrow> world \<Rightarrow> bool" where
  "ids w w' \<longleftrightarrow> w_uuid w' = w_uuid w \<and> w_next w \<le> w_next w'"

interpretation ids: frame_rel ids
  by unfold_locales (auto simp: ids_def)

lemma ids_transaction: "keeps ids m \<Longrightarrow> keeps ids (transaction m)"
  unfolding keeps_def transaction_def
  by (auto simp: ids_def split: prod.split sum.split) (metis ids_def snd_conv)+

lemma ids_prim: "keeps ids (exec u)" "keeps ids (query q)" "keeps ids now" "keeps ids newId"
  by (simp_all add: keeps_def ids_def)

lemma ids_quiet: "keeps quiet m \<Longrightarrow> keeps ids m"
  by (auto simp: keeps_def ids_def quiet_def)

lemma ids_enqueue: "keeps ids (enqueue a i e p)"
  by (simp add: keeps_def enqueue_apply ids_def)

lemma ids_fanout: "keeps ids (fanout e p)"
  by (simp add: keeps_def fanout_apply ids_def Let_def)

lemma ids_check: "keeps ids (check u p)"
proof (rule keepsI)
  fix w
  obtain b c where "check u p w = (Inr b, w\<lparr>w_cache := c\<rparr>)" by (rule check_total)
  then show "ids w (snd (check u p w))" by (simp add: ids_def)
qed

lemmas ids_rules = ids.keeps_rules ids_transaction ids_prim ids_enqueue ids_fanout ids_check
  ids_quiet [OF quiet_schedule]

lemma ids_read: "keeps ids (getOrFail rid)" "keeps ids (registry_get reg k)"
    "keeps ids (findActiveDelegationTo a)" "keeps ids (delegator_check g p)" "keeps ids (assertApprovable st)"
  unfolding getOrFail_def registry_get_def findActiveDelegationTo_def delegator_check_def assertApprovable_def
  by (intro ids_rules)+

text \<open>A continuation only has to keep the frame for the values its guard lets through.\<close>

lemma ids_bind_guard:
  assumes "keeps ids m" and "\<And>x w w'. m w = (Inr x, w') \<Longrightarrow> keeps ids (f x)"
  shows "keeps ids (mbind m f)"
proof (rule keepsI)
  fix w
  obtain r w1 where m: "m w = (r, w1)" by (cases "m w")
  then have g: "ids w w1" by (rule keepsD [OF assms(1)])
  show "ids w (snd (mbind m f w))"
  proof (cases r)
    case (Inl e)
    with m g show ?thesis by (simp add: mbind_def)
  next
    case (Inr x)
    with m assms(2) have "ids w1 (snd (f x w1))" by (simp add: keeps_def)
    with m Inr g show ?thesis by (auto simp: mbind_def intro: ids.rel_trans)
  qed
qed

context engine begin

lemma ids_with_def:
  assumes "\<And>def. request_hooks def \<Longrightarrow> keeps ids (f def)"
  shows "keeps ids (mbind (registry_get reg k) f)"
  by (intro ids_bind_guard ids_read assms) (auto simp: registry_get_success intro: registered)

lemma ids_submit: "keeps ids (submit reg type payload actor opts)"
  unfolding submit_def Let_def
  by (intro ids_with_def ids_rules ids_quiet [OF request_hooks.quiet_on_submit])

lemma ids_expire: "keeps ids (expire reg rid)"
  unfolding expire_def expire_tx_def Let_def
  by (intro ids_with_def ids_read ids_rules ids_quiet [OF request_hooks.quiet_on_expire])

lemma ids_cancel: "keeps ids (cancel reg rid actor)"
  unfolding cancel_def cancel_tx_def Let_def
  by (intro ids_with_def ids_read ids_rules ids_quiet [OF request_hooks.quiet_on_cancel])

lemma ids_reject_guard: "keeps ids (reject_guard reg rid actor)"
  unfolding reject_guard_def Let_def by (intro ids_read ids_rules)

lemma ids_approve_guard: "keeps ids (approve_guard reg rid actor)"
  unfolding approve_guard_def Let_def by (intro ids_read ids_rules)

lemma may_decide_hooks: "may_decide reg rid actor w ctx \<Longrightarrow> request_hooks (dx_def ctx)"
  by (auto simp: may_decide_def intro: registered)

lemma ids_reject: "keeps ids (reject reg rid note actor)"
  unfolding reject_def
proof (intro ids_bind_guard ids_reject_guard)
  fix ctx w w' assume "reject_guard reg rid actor w = (Inr ctx, w')"
  then have "request_hooks (dx_def ctx)"
    using reject_guard_success may_decide_hooks by blast
  then show "keeps ids (reject_tx ctx note actor)"
    unfolding reject_tx_def Let_def
    by (intro ids_rules ids_quiet [OF request_hooks.quiet_on_reject])
qed

lemma ids_approve: "keeps ids (approve reg rid note actor)"
  unfolding approve_def
proof (intro ids_bind_guard [of "approve_guard reg rid actor"] ids_approve_guard)
  fix ctx w w' assume "approve_guard reg rid actor w = (Inr ctx, w')"
  then have h: "request_hooks (dx_def ctx)"
    using approve_guard_success may_decide_hooks by blast
  have "keeps ids (approve_tx ctx note actor)"
    unfolding approve_tx_def final_approval_def step_approval_def Let_def
    by (intro ids_rules ids_quiet [OF request_hooks.quiet_next_assignee [OF h refl]]
        ids_quiet [OF request_hooks.on_approve [OF h]] ids_quiet [OF request_hooks.quiet_on_step [OF h]])
  then show "keeps ids (mbind (approve_tx ctx note actor) (\<lambda>row. mbind (after_approve ctx actor) (\<lambda>_. mret row)))"
    by (intro ids_rules ids_quiet [OF request_hooks.quiet_after [OF h refl]])
qed

text \<open>A failed operation is a step that changes nothing the engine looks at.\<close>

lemma failed_other:
  "atomic_failure m \<Longrightarrow> keeps ids m \<Longrightarrow> m w = (Inl e, w') \<Longrightarrow> other_step w w'"
  using atomic_failureD [of m w e w'] keepsD [of ids m w "Inl e" w'] by (simp add: ids_def other_same_db)

lemma operation_inv:
  assumes "m w = (r, w')" and "engine_inv reg w" and "atomic_failure m" and "keeps ids m"
    and "\<And>x v v'. engine_inv reg v \<Longrightarrow> m v = (Inr x, v') \<Longrightarrow> engine_inv reg v'"
  shows "engine_inv reg w'"
proof (cases r)
  case (Inl e)
  with assms(1) have "other_step w w'" by (intro failed_other [OF assms(3,4)]) simp
  then show ?thesis by (rule inv_other [OF _ assms(2)])
next
  case (Inr x)
  with assms show ?thesis by blast
qed

lemma step_inv:
  assumes "engine_step reg w w'" and "engine_inv reg w"
  shows "engine_inv reg w'"
  using assms(1)
proof (cases rule: engine_step.cases)
  case step_submit
  then show ?thesis by (rule operation_inv [OF _ assms(2) submit_failure ids_submit]) (rule submit_inv)
next
  case step_approve
  then show ?thesis by (rule operation_inv [OF _ assms(2) approve_failure ids_approve]) (rule approve_inv)
next
  case step_reject
  then show ?thesis by (rule operation_inv [OF _ assms(2) reject_failure ids_reject]) (rule reject_inv)
next
  case step_cancel
  then show ?thesis by (rule operation_inv [OF _ assms(2) cancel_failure ids_cancel]) (rule cancel_inv)
next
  case step_expire
  then show ?thesis by (rule operation_inv [OF _ assms(2) expire_failure ids_expire]) (rule expire_inv)
next
  case (step_sla r)
  have "distinct (map ri_id (t_request_items (w_db w)))"
    using assms(2) by (simp add: engine_inv_def)
  from sla_tick_stamps [OF this] step_sla have "stamps w w'" by simp
  then show ?thesis by (rule inv_stamps [OF _ assms(2)])
next
  case step_other
  then show ?thesis by (rule inv_other [OF _ assms(2)])
qed

lemma reachable_inv: "reachable reg w \<Longrightarrow> engine_inv reg w"
proof (induction rule: reachable.induct)
  case (reach_init w)
  then show ?case unfolding engine_inv_def by (simp only: list.map distinct.simps(1) list.set ball_empty simp_thms)
next
  case (reach_step w w')
  show ?case using reach_step.hyps(2) reach_step.IH by (rule step_inv)
qed

end

section \<open>How a request evolves\<close>

text \<open>
  Statuses only move forward, what was submitted never changes, and a decided request is
  never touched again.
\<close>

fun status_rank :: "request_status \<Rightarrow> nat" where
  "status_rank Req_pending = 0"
| "status_rank Req_in_review = 1"
| "status_rank _ = 2"

definition submitted_part :: "request_item \<Rightarrow> uuid \<times> string \<times> uuid \<times> jobject \<times> request_priority \<times> timestamp
    \<times> timestamp option \<times> int option \<times> timestamp option \<times> int \<times> timestamp" where
  "submitted_part r = (ri_id r, ri_type r, ri_requester r, ri_payload r, ri_priority r, ri_submitted_at r,
     ri_expires_at r, ri_sla_hours r, ri_sla_deadline r, ri_total_steps r, ri_created_at r)"

definition evolves :: "request_item \<Rightarrow> request_item \<Rightarrow> bool" where
  "evolves r r' \<longleftrightarrow> submitted_part r' = submitted_part r \<and>
     status_rank (ri_status r) \<le> status_rank (ri_status r') \<and> ri_current_step r \<le> ri_current_step r' \<and>
     (\<not> open_status (ri_status r) \<longrightarrow> r' = r)"

definition world_evolves :: "world \<Rightarrow> world \<Rightarrow> bool" where
  "world_evolves w w' \<longleftrightarrow>
     (\<forall>r \<in> set (t_request_items (w_db w)). \<exists>r' \<in> set (t_request_items (w_db w')). evolves r r') \<and>
     (\<exists>apps. t_request_approvals (w_db w') = t_request_approvals (w_db w) @ apps)"

lemma open_rank: "open_status st \<longleftrightarrow> status_rank st < 2"
  by (cases st) (simp_all add: open_status_def)

lemma evolves_refl: "evolves r r"
  by (simp add: evolves_def)

lemma evolves_trans: "evolves r s \<Longrightarrow> evolves s u \<Longrightarrow> evolves r u"
  unfolding evolves_def open_rank by (metis order.trans)

interpretation evo: frame_rel world_evolves
proof
  show "world_evolves s s" for s
    unfolding world_evolves_def using evolves_refl by fastforce
  show "world_evolves s u" if st: "world_evolves s t" and tu: "world_evolves t u" for s t u
  proof -
    have "\<exists>r''\<in>set (t_request_items (w_db u)). evolves r r''" if r: "r \<in> set (t_request_items (w_db s))" for r
    proof -
      obtain r' where r': "r' \<in> set (t_request_items (w_db t))" "evolves r r'"
        using st r unfolding world_evolves_def by blast
      obtain r'' where "r'' \<in> set (t_request_items (w_db u))" "evolves r' r''"
        using tu r'(1) unfolding world_evolves_def by blast
      with evolves_trans [OF r'(2)] show ?thesis by blast
    qed
    moreover obtain a b where "t_request_approvals (w_db t) = t_request_approvals (w_db s) @ a"
        "t_request_approvals (w_db u) = t_request_approvals (w_db t) @ b"
      using st tu unfolding world_evolves_def by blast
    ultimately show ?thesis
      unfolding world_evolves_def by simp
  qed
qed

lemma evolves_update:
  assumes tr: "transition (update_where (\<lambda>x. ri_id x = rid) f) apps ev i pl w w'"
    and inv: "engine_inv reg w"
    and found: "find_where (\<lambda>x. ri_id x = rid) (t_request_items (w_db w)) = Some r"
    and f: "evolves r (f r)"
  shows "world_evolves w w'"
proof -
  have only: "x = r" if "x \<in> set (t_request_items (w_db w))" "ri_id x = rid" for x
    using that inv find_where_SomeD [OF found] by (auto simp: engine_inv_def distinct_map inj_on_def)
  have "\<exists>r' \<in> set (t_request_items (w_db w')). evolves x r'" if x: "x \<in> set (t_request_items (w_db w))" for x
  proof (cases "ri_id x = rid")
    case True
    with x only have "x = r" by blast
    then have "f r \<in> set (t_request_items (w_db w'))"
      using x True tr by (force simp: transition_def set_update_where)
    with f \<open>x = r\<close> show ?thesis by blast
  next
    case False
    then have "x \<in> set (t_request_items (w_db w'))"
      using x tr by (force simp: transition_def set_update_where)
    with evolves_refl show ?thesis by blast
  qed
  then show ?thesis
    using tr by (simp add: world_evolves_def transition_def)
qed

lemma evolves_insert: "transition (insert_row r) [] ev i pl w w' \<Longrightarrow> world_evolves w w'"
  using evolves_refl by (fastforce simp: transition_def world_evolves_def)

lemma evolves_other: "other_step w w' \<Longrightarrow> world_evolves w w'"
  using evolves_refl by (fastforce simp: other_step_def world_evolves_def)

lemma stamped_evolves: "stamped r r' \<Longrightarrow> evolves r r'"
  unfolding stamped_def by (elim disjE conjE exE) (simp_all add: evolves_def submitted_part_def)

lemma evolves_stamps:
  assumes "stamps w w'"
  shows "world_evolves w w'"
proof -
  have "\<exists>r' \<in> set (t_request_items (w_db w')). evolves r r'" if "r \<in> set (t_request_items (w_db w))" for r
    using assms that stamped_evolves unfolding stamps_def
    by (metis (no_types, lifting) in_set_conv_nth list_all2_conv_all_nth)
  with assms show ?thesis by (simp add: world_evolves_def stamps_def)
qed

lemma evolves_closed:
  "open_status (ri_status r) \<Longrightarrow> status_rank st = 2 \<Longrightarrow> evolves r (closed_row st t r)"
  by (simp add: evolves_def closed_row_def submitted_part_def open_rank)

lemma evolves_rejected: "open_status (ri_status r) \<Longrightarrow> evolves r (rejected_row note t r)"
  by (simp add: evolves_def rejected_row_def submitted_part_def open_rank)

lemma evolves_approved:
  assumes "log_ok r L" and "open_status (ri_status r)" and "dx_request ctx = r"
  shows "evolves r (approved_row ctx note nxt t r)"
  using assms by (auto simp: evolves_def approved_row_def submitted_part_def open_status_def Let_def)

context engine begin

lemma operation_evolves:
  assumes "m w = (r, w')" and "engine_inv reg w" and "atomic_failure m" and "keeps ids m"
    and "\<And>x v v'. engine_inv reg v \<Longrightarrow> m v = (Inr x, v') \<Longrightarrow> world_evolves v v'"
  shows "world_evolves w w'"
proof (cases r)
  case (Inl e)
  with assms(1) have "other_step w w'" by (intro failed_other [OF assms(3,4)]) simp
  then show ?thesis by (rule evolves_other)
next
  case (Inr x)
  with assms show ?thesis by blast
qed

lemma submit_evolves:
  assumes "engine_inv reg w" and run: "submit reg type payload actor opts w = (Inr row, w')"
  shows "world_evolves w w'"
proof -
  obtain def where def: "map_of reg type = Some def"
    using run by (auto simp: submit_def registry_get_def split: option.splits)
  from request_hooks.submit_success [OF registered [OF def] def run] obtain pl where
    "transition (insert_row row) [] ''request.submitted'' (ri_id row) pl w w'" by blast
  then show ?thesis by (rule evolves_insert)
qed

lemma approve_evolves:
  assumes inv: "engine_inv reg w" and run: "approve reg rid note actor w = (Inr row, w')"
  shows "world_evolves w w'"
proof -
  from run obtain ctx nxt i where may: "may_decide reg rid actor w ctx"
    and tr: "transition (update_where (\<lambda>x. ri_id x = rid) (approved_row ctx note nxt (w_now w)))
       [decision_row ctx Dec_approved note actor i (w_now w)] (approval_event (dx_def ctx) (dx_request ctx)) rid
       (approval_payload (dx_def ctx) (dx_request ctx) actor) w w'"
    by (rule approve_success) (rule that; assumption)
  then have found: "find_where (\<lambda>x. ri_id x = rid) (t_request_items (w_db w)) = Some (dx_request ctx)"
    and st: "open_status (ri_status (dx_request ctx))"
    by (simp_all add: may_decide_def)
  then have "log_ok (dx_request ctx) (log_of (w_db w) rid)"
    using engine_invD(2) [OF inv] find_where_SomeD [OF found] by metis
  then show ?thesis
    by (intro evolves_update [OF tr inv found] evolves_approved [OF _ st refl])
qed

lemma reject_evolves:
  assumes inv: "engine_inv reg w" and run: "reject reg rid note actor w = (Inr row, w')"
  shows "world_evolves w w'"
proof -
  from run obtain ctx i pl where may: "may_decide reg rid actor w ctx"
    and tr: "transition (update_where (\<lambda>x. ri_id x = rid) (rejected_row note (w_now w)))
       [decision_row ctx Dec_rejected note actor i (w_now w)] ''request.rejected'' rid pl w w'"
    by (rule reject_success) (rule that; assumption)
  have "find_where (\<lambda>x. ri_id x = rid) (t_request_items (w_db w)) = Some (dx_request ctx)"
    and "open_status (ri_status (dx_request ctx))"
    using may by (simp_all add: may_decide_def)
  then show ?thesis
    by (intro evolves_update [OF tr inv] evolves_rejected)
qed

lemma cancel_evolves:
  assumes inv: "engine_inv reg w" and run: "cancel reg rid actor w = (Inr row, w')"
  shows "world_evolves w w'"
  using run by (rule cancel_success) (rule evolves_update [OF _ inv], assumption+, rule evolves_closed, simp_all)

lemma expire_evolves:
  assumes inv: "engine_inv reg w" and run: "expire reg rid w = (Inr u, w')"
  shows "world_evolves w w'"
  using run
proof (cases rule: expire_success)
  case noop
  then show ?thesis by (simp add: evo.rel_refl)
next
  case (expired r)
  then show ?thesis by (intro evolves_update [OF expired(3) inv expired(1)] evolves_closed) simp_all
qed

lemma step_evolves:
  assumes "engine_step reg w w'" and "engine_inv reg w"
  shows "world_evolves w w'"
  using assms(1)
proof (cases rule: engine_step.cases)
  case step_submit
  then show ?thesis by (rule operation_evolves [OF _ assms(2) submit_failure ids_submit]) (rule submit_evolves)
next
  case step_approve
  then show ?thesis by (rule operation_evolves [OF _ assms(2) approve_failure ids_approve]) (rule approve_evolves)
next
  case step_reject
  then show ?thesis by (rule operation_evolves [OF _ assms(2) reject_failure ids_reject]) (rule reject_evolves)
next
  case step_cancel
  then show ?thesis by (rule operation_evolves [OF _ assms(2) cancel_failure ids_cancel]) (rule cancel_evolves)
next
  case step_expire
  then show ?thesis by (rule operation_evolves [OF _ assms(2) expire_failure ids_expire]) (rule expire_evolves)
next
  case (step_sla r)
  have "distinct (map ri_id (t_request_items (w_db w)))"
    using assms(2) by (simp add: engine_inv_def)
  from sla_tick_stamps [OF this] step_sla have "stamps w w'" by simp
  then show ?thesis by (rule evolves_stamps)
next
  case step_other
  then show ?thesis by (rule evolves_other)
qed

lemma run_evolves:
  assumes "(engine_step reg)\<^sup>*\<^sup>* w w'" and "reachable reg w"
  shows "world_evolves w w' \<and> reachable reg w'"
  using assms(1)
proof (induction rule: rtranclp_induct)
  case base
  show ?case using assms(2) evo.rel_refl by blast
next
  case (step y z)
  then have "world_evolves y z"
    using step_evolves reachable_inv by blast
  with step show ?case
    by (blast intro: evo.rel_trans reach_step)
qed

end

end
