(* ===== verification/Request_Queries.thy ===== *)
theory Request_Queries
  imports Engine_Invariant
begin

text \<open>
  The queries of the engine against their specification (the batch loading of approvals
  returns for every row what a lookup of that row returns), the comments, and the expiry
  timer: over a registry whose expiry hooks cannot fail, a tick expires exactly the batch it
  read.
\<close>

section \<open>The batch query\<close>

lemma map_of_push:
  "map_of (push_approval m a) k =
     (if k = ra_request a then Some ((case map_of m k of None \<Rightarrow> [] | Some as \<Rightarrow> as) @ [a]) else map_of m k)"
  by (induction m a rule: push_approval.induct) auto

lemma map_of_group:
  "(case map_of (foldl push_approval m L) k of None \<Rightarrow> [] | Some as \<Rightarrow> as) =
   (case map_of m k of None \<Rightarrow> [] | Some as \<Rightarrow> as) @ filter (\<lambda>a. ra_request a = k) L"
  by (induction L arbitrary: m) (auto simp: map_of_push split: option.splits)

lemma by_step_time_filter: "filter P (by_step_time L) = by_step_time (filter P L)"
  by (simp add: by_step_time_def filter_sort)

lemma batch_approvals:
  assumes "k \<in> K"
  shows "(case map_of (foldl push_approval [] (by_step_time (select_where (\<lambda>a. ra_request a \<in> K) T))) k of
            None \<Rightarrow> [] | Some as \<Rightarrow> as) = by_step_time (select_where (\<lambda>a. ra_request a = k) T)"
proof -
  have "filter (\<lambda>a. ra_request a = k) (filter (\<lambda>a. ra_request a \<in> K) T) = filter (\<lambda>a. ra_request a = k) T"
    using assms by (induction T) auto
  then show ?thesis
    by (simp add: map_of_group by_step_time_filter select_where_def)
qed

definition request_page :: "request_filters \<Rightarrow> uuid \<Rightarrow> nat \<Rightarrow> nat \<Rightarrow> db \<Rightarrow> request_item list" where
  "request_page f actorId lim off d =
     page lim off (sort_key (\<lambda>r. - ri_created_at r) (select_where (request_matches f actorId) (t_request_items d)))"

lemma list_requests_apply:
  "list_requests f actorId lim off w =
     (Inr (map (\<lambda>r. (r, by_step_time (log_of (w_db w) (ri_id r)))) (request_page f actorId lim off (w_db w)),
           length (select_where (request_matches f actorId) (t_request_items (w_db w)))), w)"
proof (cases "request_page f actorId lim off (w_db w) = []")
  case True
  then show ?thesis
    by (simp add: list_requests_def request_page_def)
next
  case False
  then show ?thesis
    by (simp add: list_requests_def request_page_def [symmetric] batch_approvals [OF imageI] log_of_def)
qed

lemma getById_apply:
  "getById rid w = (Inr (map_option (\<lambda>r. (r, by_step_time (log_of (w_db w) rid)))
      (find_where (\<lambda>r. ri_id r = rid) (t_request_items (w_db w)))), w)"
  by (simp add: getById_def log_of_def split: option.split)

lemma set_page: "set (page lim off t) \<subseteq> set t"
  by (auto simp: page_def dest: in_set_takeD in_set_dropD)

lemma request_page_subset:
  "r \<in> set (request_page f actorId lim off d) \<Longrightarrow> r \<in> set (t_request_items d) \<and> request_matches f actorId r"
  unfolding request_page_def using set_page by fastforce

text \<open>The pages of a listing are consecutive pieces of one list.\<close>

lemma page_append: "page n off t @ page m (off + n) t = page (n + m) off t"
  unfolding page_def take_add drop_drop by (simp add: add.commute)

section \<open>The expiry timer\<close>

locale live_engine = engine +
  assumes expire_hooks: "map_of reg k = Some def \<Longrightarrow> td_on_expire def = Some h \<Longrightarrow> never_fails (h p r)"
begin

lemma expire_open:
  assumes found: "find_where (\<lambda>x. ri_id x = rid) (t_request_items (w_db w)) = Some r"
    and st: "open_status (ri_status r)" and reg: "map_of reg (ri_type r) = Some def"
  obtains w' where "expire reg rid w = (Inr (), w')"
    and "transition (update_where (\<lambda>x. ri_id x = rid) (closed_row Req_expired (w_now w))) []
           ''request.expired'' rid [(''requestId'', JStr rid), (''type'', JStr (ri_type r))] w w'"
proof -
  have "never_fails (run_hook (td_on_expire def) (\<lambda>h. h (ri_payload r) (ri_id r)))"
    using expire_hooks [OF reg] by (cases "td_on_expire def") (simp_all add: run_hook_def never_ret)
  then have "never_fails (expire_tx def r)"
    unfolding expire_tx_def Let_def by (intro never_rules messaging_never)
  then obtain w' where "expire_tx def r w = (Inr (), w')"
    using never_failsD by (metis old.unit.exhaust)
  then have run: "expire reg rid w = (Inr (), w')"
    using found st reg by (simp add: expire_def getOrFail_def registry_get_def)
  from run show thesis
  proof (cases rule: expire_success)
    case (noop r')
    with found st show thesis by simp
  next
    case (expired r')
    with found run show thesis by (intro that) auto
  qed
qed

lemma expire_one_open:
  assumes "find_where (\<lambda>x. ri_id x = rid) (t_request_items (w_db w)) = Some r"
    and "open_status (ri_status r)" and "map_of reg (ri_type r) = Some def"
  obtains w' where "expire_one reg rid w = (Inr (), w')"
    and "transition (update_where (\<lambda>x. ri_id x = rid) (closed_row Req_expired (w_now w))) []
           ''request.expired'' rid [(''requestId'', JStr rid), (''type'', JStr (ri_type r))] w w'"
  using assms by (rule expire_open) (rule that, simp_all add: expire_one_def mtry_def)

lemma update_where_two:
  assumes "\<And>x. ri_id (f x) = ri_id x" and "i \<notin> I"
  shows "update_where (\<lambda>r. ri_id r \<in> I) f (update_where (\<lambda>r. ri_id r = i) f T) = update_where (\<lambda>r. ri_id r \<in> insert i I) f T"
  using assms by (induction T) auto

lemma expire_loop:
  assumes "distinct rids" and "distinct (map ri_id (t_request_items (w_db w)))"
    and "\<forall>i \<in> set rids. \<exists>r \<in> set (t_request_items (w_db w)). ri_id r = i \<and> open_status (ri_status r) \<and>
           map_of reg (ri_type r) \<noteq> None"
  shows "\<exists>w'. mfor rids (expire_one reg) w = (Inr (), w') \<and>
    t_request_items (w_db w') = update_where (\<lambda>r. ri_id r \<in> set rids) (closed_row Req_expired (w_now w)) (t_request_items (w_db w)) \<and>
    t_request_approvals (w_db w') = t_request_approvals (w_db w) \<and> w_now w' = w_now w \<and>
    (\<exists>es. t_outbox_events (w_db w') = t_outbox_events (w_db w) @ es \<and> map oe_aggregate_id es = rids \<and>
          (\<forall>e \<in> set es. oe_event_type e = ''request.expired''))"
  using assms
proof (induction rids arbitrary: w)
  case Nil
  show ?case by (simp add: update_where_def)
next
  case (Cons i rids)
  let ?f = "closed_row Req_expired (w_now w)" and ?T = "t_request_items (w_db w)"
  have f_id: "ri_id (?f x) = ri_id x" for x by (simp add: closed_row_def)
  from Cons.prems(3) obtain r where r: "r \<in> set ?T" "ri_id r = i" "open_status (ri_status r)" "map_of reg (ri_type r) \<noteq> None"
    by auto
  then have "find_where (\<lambda>x. ri_id x = i) ?T = Some r"
    using find_where_distinct [OF Cons.prems(2)] by blast
  with r(3,4) obtain w1 pl where one: "expire_one reg i w = (Inr (), w1)"
    and tr: "transition (update_where (\<lambda>x. ri_id x = i) ?f) [] ''request.expired'' i pl w w1"
    by (auto elim!: expire_one_open)
  have T1: "t_request_items (w_db w1) = update_where (\<lambda>x. ri_id x = i) ?f ?T" and now: "w_now w1 = w_now w"
    using tr by (simp_all add: transition_def)
  have "distinct (map ri_id (t_request_items (w_db w1)))"
    using Cons.prems(2) map_update_where [of ri_id ?f, OF f_id] by (simp add: T1)
  moreover have "\<forall>k \<in> set rids. \<exists>r \<in> set (t_request_items (w_db w1)). ri_id r = k \<and> open_status (ri_status r) \<and>
           map_of reg (ri_type r) \<noteq> None"
  proof
    fix k assume k: "k \<in> set rids"
    then obtain r' where r': "r' \<in> set ?T" "ri_id r' = k" "open_status (ri_status r')" "map_of reg (ri_type r') \<noteq> None"
      using Cons.prems(3) by auto
    with k Cons.prems(1) have "r' \<in> set (t_request_items (w_db w1))"
      by (force simp: T1 set_update_where)
    with r' show "\<exists>r \<in> set (t_request_items (w_db w1)). ri_id r = k \<and> open_status (ri_status r) \<and>
           map_of reg (ri_type r) \<noteq> None" by blast
  qed
  ultimately obtain w' es where loop: "mfor rids (expire_one reg) w1 = (Inr (), w')"
    and T': "t_request_items (w_db w') = update_where (\<lambda>r. ri_id r \<in> set rids) ?f (t_request_items (w_db w1))"
    and A': "t_request_approvals (w_db w') = t_request_approvals (w_db w1)" and now': "w_now w' = w_now w1"
    and es: "t_outbox_events (w_db w') = t_outbox_events (w_db w1) @ es" "map oe_aggregate_id es = rids"
      "\<forall>e \<in> set es. oe_event_type e = ''request.expired''"
    using Cons.IH [of w1] Cons.prems(1) now by auto
  from tr obtain e where e: "t_outbox_events (w_db w1) = t_outbox_events (w_db w) @ [e]" "oe_aggregate_id e = i"
      "oe_event_type e = ''request.expired''"
    by (auto simp: transition_def published_def)
  have "t_request_items (w_db w') = update_where (\<lambda>r. ri_id r \<in> set (i # rids)) ?f ?T"
    using Cons.prems(1) update_where_two [of ?f i "set rids", OF f_id] by (simp add: T' T1)
  moreover have "mfor (i # rids) (expire_one reg) w = (Inr (), w')"
    using one loop by (simp add: mbind_eq)
  moreover have "t_request_approvals (w_db w') = t_request_approvals (w_db w)"
    using A' tr by (simp add: transition_def)
  moreover have "t_outbox_events (w_db w') = t_outbox_events (w_db w) @ (e # es) \<and> map oe_aggregate_id (e # es) = i # rids \<and>
      (\<forall>x \<in> set (e # es). oe_event_type x = ''request.expired'')"
    using es e by simp
  ultimately show ?case
    using now now' by (intro exI [of _ w'] conjI) auto
qed

lemma expiry_tick_batch:
  assumes inv: "engine_inv reg w"
  defines "batch \<equiv> map ri_id (take 100 (select_where (is_expired (w_now w)) (t_request_items (w_db w))))"
  shows "\<exists>w'. expiry_tick reg w = (Inr (), w') \<and>
    t_request_items (w_db w') = update_where (\<lambda>r. ri_id r \<in> set batch) (closed_row Req_expired (w_now w)) (t_request_items (w_db w)) \<and>
    t_request_approvals (w_db w') = t_request_approvals (w_db w) \<and> w_now w' = w_now w \<and>
    (\<exists>es. t_outbox_events (w_db w') = t_outbox_events (w_db w) @ es \<and> map oe_aggregate_id es = batch \<and>
          (\<forall>e \<in> set es. oe_event_type e = ''request.expired''))"
proof -
  let ?T = "t_request_items (w_db w)"
  have d: "distinct (map ri_id ?T)" using inv by (simp add: engine_inv_def)
  have "distinct (map ri_id (select_where (is_expired (w_now w)) ?T))"
    using d by (simp add: select_where_def distinct_map_filter)
  then have "distinct batch"
    by (simp add: batch_def take_map [symmetric])
  moreover have "\<forall>i \<in> set batch. \<exists>r \<in> set ?T. ri_id r = i \<and> open_status (ri_status r) \<and> map_of reg (ri_type r) \<noteq> None"
    using engine_invD(1) [OF inv]
    by (fastforce simp: batch_def is_expired_def item_ok_def dest!: in_set_takeD)
  ultimately show ?thesis
    using expire_loop [OF _ d, of batch] unfolding expiry_tick_def findExpired_def batch_def [symmetric]
    by (simp add: batch_def [symmetric])
qed

end

section \<open>Approvals that must succeed\<close>

text \<open>
  When the hooks of the approval path cannot fail either, an authorized approval always goes
  through: the guard is complete and the transaction commits.
\<close>

locale total_engine = live_engine +
  assumes approve_hooks: "map_of reg k = Some def \<Longrightarrow> never_fails (td_on_approve def p r a)"
    and step_hooks: "map_of reg k = Some def \<Longrightarrow> td_on_step_approved def = Some h2 \<Longrightarrow> never_fails (h2 p r s s' n a)"
    and resolvers: "map_of reg k = Some def \<Longrightarrow> td_steps def = Some ss \<Longrightarrow> s1 \<in> set ss \<Longrightarrow>
      sd_resolver s1 = Some f \<Longrightarrow> never_fails (f p)"
begin

lemma approve_guard_complete:
  assumes found: "find_where (\<lambda>r. ri_id r = rid) (t_request_items (w_db w)) = Some r"
    and st: "open_status (ri_status r)" and def: "map_of reg (ri_type r) = Some def"
    and deleg: "deleg = find_where (delegation_active (ac_sub actor) (w_now w)) (t_delegations (w_db w))"
    and sod: "td_allow_self def \<or> ri_requester r \<noteq> sod_subject actor deleg"
    and perm: "holds (w_db w) (w_now w) (ac_sub actor) (step_permission def (ri_current_step r)) \<or>
      (\<exists>g. deleg = Some g \<and> holds (w_db w) (w_now w) (ad_from g) (step_permission def (ri_current_step r)))"
    and cache: "cache_sound w" "\<not> w_perm_outage w"
  shows "\<exists>w'. approve_guard reg rid actor w = (Inr \<lparr>dx_request = r, dx_def = def, dx_delegation = deleg\<rparr>, w') \<and>
    quiet w w' \<and> w_db w' = w_db w \<and> cache_sound w' \<and> \<not> w_perm_outage w'"
proof -
  let ?p = "step_permission def (ri_current_step r)"
  obtain c where c: "check (ac_sub actor) ?p w = (Inr (holds (w_db w) (w_now w) (ac_sub actor) ?p), w\<lparr>w_cache := c\<rparr>)"
    "cache_sound (w\<lparr>w_cache := c\<rparr>)"
    by (rule check_sound [OF cache])
  obtain c' where c': "delegator_check deleg ?p (w\<lparr>w_cache := c\<rparr>) =
      (Inr (case deleg of None \<Rightarrow> False | Some x \<Rightarrow> holds (w_db w) (w_now w) (ad_from x) ?p), w\<lparr>w_cache := c'\<rparr>)"
    and sound: "cache_sound (w\<lparr>w_cache := c'\<rparr>)"
    using delegator_check_sound [OF c(2), of deleg ?p] cache(2) by (auto cong: option.case_cong)
  have "approve_guard reg rid actor w = (Inr \<lparr>dx_request = r, dx_def = def, dx_delegation = deleg\<rparr>, w\<lparr>w_cache := c'\<rparr>)"
    using found st def sod perm c(1) c'
    by (auto simp: approve_guard_def getOrFail_def assertApprovable_def registry_get_def Let_def deleg [symmetric]
        mbind_eq [where m = "check (ac_sub actor) ?p", OF c(1)] mbind_eq [where m = "delegator_check deleg ?p", OF c'])
  then show ?thesis
    using sound cache(2) by (auto simp: quiet_def)
qed

lemma approve_tx_total:
  assumes def: "map_of reg k = Some (dx_def ctx)"
  shows "never_fails (approve_tx ctx note actor)"
proof -
  have "never_fails (next_assignee ctx)"
    unfolding next_assignee_def Let_def
    by (auto intro!: never_ret never_bind split: option.split dest!: find_where_SomeD intro: resolvers [OF def])
  moreover have "never_fails (final_approval ctx actor)"
    unfolding final_approval_def Let_def by (intro never_rules approve_hooks [OF def] messaging_never)
  moreover have "never_fails (run_hook (td_on_step_approved (dx_def ctx)) (\<lambda>h. h p r s s' n a))" for p r s s' n a
    using step_hooks [OF def] by (cases "td_on_step_approved (dx_def ctx)") (simp_all add: run_hook_def never_ret)
  then have "never_fails (step_approval ctx nxt actor)" for nxt
    unfolding step_approval_def Let_def by (intro never_rules messaging_never)
  ultimately show ?thesis
    unfolding approve_tx_def Let_def by (intro never_rules messaging_never)
qed

lemma approve_returns:
  assumes guard: "approve_guard reg rid actor w = (Inr ctx, w1)"
  shows "\<exists>row w'. approve reg rid note actor w = (Inr row, w')"
proof -
  have "map_of reg (ri_type (dx_request ctx)) = Some (dx_def ctx)"
    using approve_guard_success [OF guard] by (simp add: may_decide_def)
  from never_failsD [OF approve_tx_total [OF this], of "note" actor w1]
  obtain row w2 where t: "approve_tx ctx note actor w1 = (Inr row, w2)" by auto
  obtain u w3 where "after_approve ctx actor w2 = (Inr u, w3)"
    using never_failsD [OF never_after_approve, of ctx actor w2] by auto
  then show ?thesis
    by (simp add: approve_def mbind_eq [where m = "approve_guard reg rid actor", OF guard]
        mbind_eq [where m = "approve_tx ctx note actor", OF t] mbind_eq)
qed

text \<open>
  Two approvals whose checks both ran before either transaction: both commit, and the log
  holds two approvals of the same step.
\<close>

lemma approve_twice:
  assumes g1: "approve_guard reg rid a1 w = (Inr c1, w1)" and g2: "approve_guard reg rid a2 w1 = (Inr c2, w2)"
  shows "\<exists>row1 w3 row2 w4 x y. approve_tx c1 n1 a1 w2 = (Inr row1, w3) \<and> approve_tx c2 n2 a2 w3 = (Inr row2, w4) \<and>
    t_request_approvals (w_db w4) = t_request_approvals (w_db w) @ [x, y] \<and>
    ra_request x = rid \<and> ra_request y = rid \<and> ra_step y = ra_step x \<and>
    ra_approver x = ac_sub a1 \<and> ra_approver y = ac_sub a2 \<and> ra_decision x = Dec_approved \<and> ra_decision y = Dec_approved"
proof -
  have m1: "may_decide reg rid a1 w c1" "w_db w1 = w_db w" using approve_guard_success [OF g1] by auto
  have m2: "may_decide reg rid a2 w1 c2" "w_db w2 = w_db w1" using approve_guard_success [OF g2] by auto
  have same: "dx_request c2 = dx_request c1" "dx_def c2 = dx_def c1"
    using m1 m2 by (auto simp: may_decide_def)
  have id: "ri_id (dx_request c1) = rid"
    using m1(1) find_where_SomeD by (fastforce simp: may_decide_def)
  have d1: "map_of reg (ri_type (dx_request c1)) = Some (dx_def c1)" and d2: "map_of reg (ri_type (dx_request c2)) = Some (dx_def c2)"
    using m1(1) m2(1) by (simp_all add: may_decide_def)
  obtain row1 w3 where t1: "approve_tx c1 n1 a1 w2 = (Inr row1, w3)"
    using never_failsD [OF approve_tx_total [OF d1]] by blast
  obtain row2 w4 where t2: "approve_tx c2 n2 a2 w3 = (Inr row2, w4)"
    using never_failsD [OF approve_tx_total [OF d2]] by blast
  obtain i where "t_request_approvals (w_db w3) = t_request_approvals (w_db w2) @ [decision_row c1 Dec_approved n1 a1 i (w_now w2)]"
    by (rule request_hooks.approve_tx_success [OF registered [OF d1] t1 refl]) (auto simp: transition_def)
  moreover obtain j where "t_request_approvals (w_db w4) = t_request_approvals (w_db w3) @ [decision_row c2 Dec_approved n2 a2 j (w_now w3)]"
    by (rule request_hooks.approve_tx_success [OF registered [OF d2] t2 refl]) (auto simp: transition_def)
  ultimately show ?thesis
    using t1 t2 m1(2) m2(2) by (simp add: decision_row_def same id)
qed

end

section \<open>Comments\<close>

lemma addComment_apply:
  "addComment rid body actor w =
     (case find_where (\<lambda>r. ri_id r = rid) (t_request_items (w_db w)) of
        None \<Rightarrow> (Inl (NotFoundException REQUEST_NOT_FOUND), w)
      | Some r \<Rightarrow>
          let row = \<lparr>rc_id = w_uuid w (w_next w), rc_request = rid, rc_author = ac_sub actor, rc_body = js_trim body,
                     rc_edited_at = None, rc_created_at = w_now w\<rparr> in
          (Inr row, w\<lparr>w_next := Suc (w_next w), w_db := t_request_comments_update (insert_row row) (w_db w)\<rparr>))"
  by (simp add: addComment_def getOrFail_def Let_def split: option.split)

lemma js_trim_idem [simp]: "js_trim (js_trim s) = js_trim s"
proof -
  have *: "dropWhile P (rev (dropWhile P (rev (dropWhile P t)))) = rev (dropWhile P (rev (dropWhile P t)))"
    for P :: "char \<Rightarrow> bool" and t
  proof (cases "dropWhile P t")
    case Nil
    show ?thesis unfolding Nil by simp
  next
    case (Cons a u)
    then have "\<not> P a" by (metis hd_dropWhile list.distinct(1) list.sel(1))
    then show ?thesis unfolding Cons by (simp add: dropWhile_append3)
  qed
  show ?thesis unfolding js_trim_def by (simp add: *)
qed

end
