(* ===== verification/Type_Defs.thy ===== *)
theory Type_Defs
  imports Request_Queries
begin

text \<open>
  The six request types the modules register: access requests, leave, overtime,
  onboarding, offboarding and catalog requests, with their hooks, and the registry they
  make.  The registry is shown to keep the contract of the engine, so every law of locale
  \<open>engine\<close> and \<open>live_engine\<close> holds of it.  The last part states what the hooks do.
\<close>

section \<open>Microsoft Graph\<close>

definition graph_patch :: "graph_call \<Rightarrow> unit svc" where
  "graph_patch call =
     mbind (mgets w_graph_enabled) (\<lambda>enabled.
     if \<not> enabled then mret ()
     else mbind (mmodify (w_graph_calls_update (\<lambda>cs. cs @ [call]))) (\<lambda>_.
          mbind (mgets w_graph_ok) (\<lambda>ok. throw_if (\<not> ok) (PlainError ''Graph''))))"

definition disableEntraUser :: "string \<Rightarrow> unit svc" where
  "disableEntraUser entraOid = graph_patch (DisableEntraUser entraOid)"

definition enableEntraUser :: "string \<Rightarrow> unit svc" where
  "enableEntraUser entraOid = graph_patch (EnableEntraUser entraOid)"

section \<open>Access requests\<close>

definition access_on_step_approved ::
    "jobject \<Rightarrow> uuid \<Rightarrow> int \<Rightarrow> int \<Rightarrow> uuid option \<Rightarrow> uuid \<Rightarrow> unit svc" where
  "access_on_step_approved payload requestId completedStep nextStep nextAssigneeId approverId =
     schedule
       \<lparr>ni_type = ''access_request.submitted'',
        ni_vars = [(''resourceName'', JStr (jtext (jfield payload ''target''))),
                   (''requesterName'', JStr (jtext (jfield payload ''requesterId'')))],
        ni_recipient = jtext (jfield payload ''requesterId''), ni_actor = None,
        ni_resource = Some requestId,
        ni_idempotency_key = Some (''ar_step'' @ int_str completedStep @ ''_notify:'' @ requestId)\<rparr>"

definition access_on_approve :: "jobject \<Rightarrow> uuid \<Rightarrow> uuid \<Rightarrow> unit svc" where
  "access_on_approve payload requestId approverId =
     mbind now (\<lambda>t.
     let accessRequestId = jtext (jfield payload ''accessRequestId'');
         expiresAt = t + jnum (jfield payload ''durationHours'') * 3600000 in
     mbind (exec (t_access_requests_update (update_where (\<lambda>r. ar_id r = accessRequestId)
       (\<lambda>r. r\<lparr>ar_status := Acc_approved, ar_reviewer := Some approverId, ar_reviewed_at := Some t,
              ar_updated_at := t\<rparr>)))) (\<lambda>_.
     mbind newId (\<lambda>grantId.
     exec (t_access_grants_update (insert_row
       \<lparr>ag_id = grantId, ag_request = accessRequestId,
        ag_grantee = jtext (jfield payload ''requesterId''),
        ag_access_type = jtext (jfield payload ''accessType''),
        ag_target = jtext (jfield payload ''target''),
        ag_granted_at = t, ag_expires_at = expiresAt, ag_revoked_at = None\<rparr>)))))"

definition access_on_reject :: "jobject \<Rightarrow> uuid \<Rightarrow> uuid \<Rightarrow> unit svc" where
  "access_on_reject payload requestId approverId =
     mbind now (\<lambda>t.
     exec (t_access_requests_update (update_where (\<lambda>r. ar_id r = jtext (jfield payload ''accessRequestId''))
       (\<lambda>r. r\<lparr>ar_status := Acc_rejected, ar_reviewer := Some approverId, ar_reviewed_at := Some t,
              ar_updated_at := t\<rparr>))))"

definition access_on_expire :: "jobject \<Rightarrow> uuid \<Rightarrow> unit svc" where
  "access_on_expire payload requestId =
     mbind now (\<lambda>t.
     exec (t_access_requests_update (update_where (\<lambda>r. ar_id r = jtext (jfield payload ''accessRequestId''))
       (\<lambda>r. r\<lparr>ar_status := Acc_expired, ar_updated_at := t\<rparr>))))"

definition access_request_def :: type_def where
  "access_request_def = \<lparr>
     td_type = ''access_request'', td_permission = ''access_request.approve'', td_allow_self = False,
     td_expiry_hours = Some 168, td_sla_hours = Some 72,
     td_steps = Some [
       \<lparr>sd_step = 1, sd_permission = ''access_request.approve'', sd_resolver = None\<rparr>,
       \<lparr>sd_step = 2, sd_permission = ''access_request.security_approve'', sd_resolver = None\<rparr>],
     td_on_submit = None, td_on_approve = access_on_approve,
     td_on_step_approved = Some access_on_step_approved, td_on_reject = Some access_on_reject,
     td_on_cancel = None, td_on_expire = Some access_on_expire, td_after_approve = None\<rparr>"

section \<open>Leave requests\<close>

definition set_leave :: "jobject \<Rightarrow> (leave_request \<Rightarrow> leave_request) \<Rightarrow> unit svc" where
  "set_leave payload f = exec (t_leave_requests_update
     (update_where (\<lambda>r. lr_id r = jtext (jfield payload ''leaveRequestId'')) f))"

definition leave_on_approve :: "jobject \<Rightarrow> uuid \<Rightarrow> uuid \<Rightarrow> unit svc" where
  "leave_on_approve payload requestId reviewerId = mbind now (\<lambda>t. set_leave payload
     (\<lambda>r. r\<lparr>lr_status := Lv_approved, lr_reviewer := Some reviewerId, lr_reviewed_at := Some t\<rparr>))"

definition leave_on_reject :: "jobject \<Rightarrow> uuid \<Rightarrow> uuid \<Rightarrow> unit svc" where
  "leave_on_reject payload requestId reviewerId = mbind now (\<lambda>t. set_leave payload
     (\<lambda>r. r\<lparr>lr_status := Lv_rejected, lr_reviewer := Some reviewerId, lr_reviewed_at := Some t\<rparr>))"

definition leave_on_expire :: "jobject \<Rightarrow> uuid \<Rightarrow> unit svc" where
  "leave_on_expire payload requestId = set_leave payload (\<lambda>r. r\<lparr>lr_status := Lv_cancelled\<rparr>)"

definition leave_request_def :: type_def where
  "leave_request_def = \<lparr>
     td_type = ''leave_request'', td_permission = ''workforce.leave.review'', td_allow_self = False,
     td_expiry_hours = Some 72, td_sla_hours = Some 48, td_steps = None,
     td_on_submit = None, td_on_approve = leave_on_approve, td_on_step_approved = None,
     td_on_reject = Some leave_on_reject, td_on_cancel = None,
     td_on_expire = Some leave_on_expire, td_after_approve = None\<rparr>"

section \<open>Overtime\<close>

definition set_overtime :: "jobject \<Rightarrow> (overtime_entry \<Rightarrow> overtime_entry) \<Rightarrow> unit svc" where
  "set_overtime payload f = exec (t_overtime_entries_update
     (update_where (\<lambda>r. ot_id r = jtext (jfield payload ''overtimeId'')) f))"

definition overtime_on_approve :: "jobject \<Rightarrow> uuid \<Rightarrow> uuid \<Rightarrow> unit svc" where
  "overtime_on_approve payload requestId reviewerId = mbind now (\<lambda>t. set_overtime payload
     (\<lambda>r. r\<lparr>ot_status := Ot_approved, ot_reviewer := Some reviewerId, ot_reviewed_at := Some t\<rparr>))"

definition overtime_on_reject :: "jobject \<Rightarrow> uuid \<Rightarrow> uuid \<Rightarrow> unit svc" where
  "overtime_on_reject payload requestId reviewerId = mbind now (\<lambda>t. set_overtime payload
     (\<lambda>r. r\<lparr>ot_status := Ot_rejected, ot_reviewer := Some reviewerId, ot_reviewed_at := Some t\<rparr>))"

definition overtime_on_expire :: "jobject \<Rightarrow> uuid \<Rightarrow> unit svc" where
  "overtime_on_expire payload requestId = set_overtime payload (\<lambda>r. r\<lparr>ot_status := Ot_rejected\<rparr>)"

definition overtime_def :: type_def where
  "overtime_def = \<lparr>
     td_type = ''overtime'', td_permission = ''workforce.overtime.review'', td_allow_self = False,
     td_expiry_hours = Some 72, td_sla_hours = Some 48, td_steps = None,
     td_on_submit = None, td_on_approve = overtime_on_approve, td_on_step_approved = None,
     td_on_reject = Some overtime_on_reject, td_on_cancel = None,
     td_on_expire = Some overtime_on_expire, td_after_approve = None\<rparr>"

section \<open>Onboarding and offboarding\<close>

definition entra_oid_of :: "uuid \<Rightarrow> db \<Rightarrow> string option" where
  "entra_oid_of employeeId d =
     (case find_where (\<lambda>e. emp_id e = employeeId) (t_employees d) of
        None \<Rightarrow> None | Some e \<Rightarrow> emp_entra_oid e)"

definition onboarding_after_approve :: "jobject \<Rightarrow> uuid \<Rightarrow> uuid \<Rightarrow> unit svc" where
  "onboarding_after_approve payload requestId approverId =
     mbind (mgets w_graph_enabled) (\<lambda>enabled.
     if \<not> enabled then mret ()
     else mbind (query (entra_oid_of (jtext (jfield payload ''employeeId'')))) (\<lambda>oid.
          case oid of None \<Rightarrow> mret () | Some o' \<Rightarrow> enableEntraUser o'))"

definition onboarding_def :: type_def where
  "onboarding_def = \<lparr>
     td_type = ''onboarding'', td_permission = ''onboarding.complete'', td_allow_self = False,
     td_expiry_hours = Some 168, td_sla_hours = Some 72,
     td_steps = Some [
       \<lparr>sd_step = 1, sd_permission = ''onboarding.approve'', sd_resolver = None\<rparr>,
       \<lparr>sd_step = 2, sd_permission = ''onboarding.provision'', sd_resolver = None\<rparr>,
       \<lparr>sd_step = 3, sd_permission = ''onboarding.complete'', sd_resolver = None\<rparr>],
     td_on_submit = None, td_on_approve = (\<lambda>payload requestId approverId. mret ()),
     td_on_step_approved = None, td_on_reject = None, td_on_cancel = None, td_on_expire = None,
     td_after_approve = Some onboarding_after_approve\<rparr>"

definition mark_returned :: "timestamp \<Rightarrow> uuid \<Rightarrow> unit svc" where
  "mark_returned t assetId = exec (t_assets_update (update_where (\<lambda>a. as_id a = assetId)
     (\<lambda>a. a\<lparr>as_status := As_in_stock, as_updated_at := t\<rparr>)))"

definition offboarding_on_approve :: "jobject \<Rightarrow> uuid \<Rightarrow> uuid \<Rightarrow> unit svc" where
  "offboarding_on_approve payload requestId approverId =
     mbind now (\<lambda>t.
     let employeeId = jtext (jfield payload ''employeeId'');
         active = (\<lambda>a. aa_employee a = employeeId \<and> aa_returned_at a = None) in
     mbind (exec (t_employees_update (update_where (\<lambda>e. emp_id e = employeeId)
              (\<lambda>e. e\<lparr>emp_status := Emp_offboarded, emp_updated_at := t\<rparr>)))) (\<lambda>_.
     mbind (exec (t_role_assignments_update (delete_where (\<lambda>a. ura_user a = employeeId)))) (\<lambda>_.
     mbind (exec (t_access_grants_update (update_where (\<lambda>g. ag_grantee g = employeeId \<and> ag_revoked_at g = None)
              (\<lambda>g. g\<lparr>ag_revoked_at := Some t\<rparr>)))) (\<lambda>_.
     mbind (query (\<lambda>d. map aa_asset (select_where active (t_asset_assignments d)))) (\<lambda>assetIds.
     mbind (exec (t_asset_assignments_update (update_where active (\<lambda>a. a\<lparr>aa_returned_at := Some t\<rparr>)))) (\<lambda>_.
     mbind (mfor assetIds (mark_returned t)) (\<lambda>_.
     exec (t_refresh_tokens_update (update_where (\<lambda>r. rt_employee r = employeeId \<and> \<not> rt_revoked r)
              (\<lambda>r. r\<lparr>rt_revoked := True\<rparr>))))))))))"

definition offboarding_after_approve :: "jobject \<Rightarrow> uuid \<Rightarrow> uuid \<Rightarrow> unit svc" where
  "offboarding_after_approve payload requestId approverId =
     mbind (mgets w_graph_enabled) (\<lambda>enabled.
     if \<not> enabled then mret ()
     else mbind (query (entra_oid_of (jtext (jfield payload ''employeeId'')))) (\<lambda>oid.
          case oid of None \<Rightarrow> mret () | Some o' \<Rightarrow> disableEntraUser o'))"

definition offboarding_def :: type_def where
  "offboarding_def = \<lparr>
     td_type = ''offboarding'', td_permission = ''offboarding.approve'', td_allow_self = False,
     td_expiry_hours = Some 72, td_sla_hours = Some 24, td_steps = None,
     td_on_submit = None, td_on_approve = offboarding_on_approve, td_on_step_approved = None,
     td_on_reject = Some (\<lambda>payload requestId approverId. mret ()), td_on_cancel = None,
     td_on_expire = None, td_after_approve = Some offboarding_after_approve\<rparr>"

section \<open>Catalog requests\<close>

definition catalog_request_def :: type_def where
  "catalog_request_def = \<lparr>
     td_type = ''catalog_request'', td_permission = ''requests.approve'', td_allow_self = False,
     td_expiry_hours = Some 72, td_sla_hours = Some 24, td_steps = None,
     td_on_submit = None, td_on_approve = (\<lambda>payload requestId approverId. mret ()),
     td_on_step_approved = None, td_on_reject = None, td_on_cancel = None, td_on_expire = None,
     td_after_approve = None\<rparr>"

section \<open>The registry\<close>

definition app_types :: "type_def list" where
  "app_types = [access_request_def, leave_request_def, overtime_def, onboarding_def, offboarding_def,
     catalog_request_def]"

definition app_registry :: registry where
  "app_registry = foldl registry_register [] app_types"

text \<open>
  The types are registered by the modules of the API process.  The module of the worker imports
  the platform alone, whose registry starts empty, so no type is registered there.
\<close>

definition worker_registry :: registry where
  "worker_registry = foldl registry_register [] []"

lemmas type_defs = access_request_def_def leave_request_def_def overtime_def_def onboarding_def_def
  offboarding_def_def catalog_request_def_def

lemma type_keys [simp]:
  "td_type access_request_def = ''access_request''" "td_type leave_request_def = ''leave_request''"
  "td_type overtime_def = ''overtime''" "td_type onboarding_def = ''onboarding''"
  "td_type offboarding_def = ''offboarding''" "td_type catalog_request_def = ''catalog_request''"
  by (simp_all add: type_defs)

lemma foldl_register:
  assumes "distinct (map td_type ds)" and "\<forall>d \<in> set ds. map_of reg (td_type d) = None"
  shows "foldl registry_register reg ds = reg @ map (\<lambda>d. (td_type d, d)) ds"
  using assms
proof (induction ds arbitrary: reg)
  case (Cons a ds)
  then have "registry_register reg a = reg @ [(td_type a, a)]"
    by (simp add: registry_register_def registry_has_def)
  moreover have "\<forall>d \<in> set ds. map_of (reg @ [(td_type a, a)]) (td_type d) = None"
    using Cons.prems by (auto simp: map_add_def) (metis imageI)
  ultimately show ?case
    using Cons.IH [of "reg @ [(td_type a, a)]"] Cons.prems by simp
qed simp

lemma app_types_distinct: "distinct (map td_type app_types)"
  by (simp add: app_types_def)

lemma app_registry_eq: "app_registry = map (\<lambda>d. (td_type d, d)) app_types"
  unfolding app_registry_def using foldl_register [OF app_types_distinct, of "[]"] by simp

lemma app_registry_lookup:
  "map_of app_registry k = Some def \<longleftrightarrow> def \<in> set app_types \<and> k = td_type def"
proof -
  have "distinct (map fst app_registry)"
    using app_types_distinct by (simp add: app_registry_eq comp_def)
  then have "map_of app_registry k = Some def \<longleftrightarrow> (k, def) \<in> set app_registry"
    by (rule map_of_eq_Some_iff)
  then show ?thesis by (auto simp: app_registry_eq)
qed

section \<open>The contract\<close>

lemma quiet_modify_graph: "keeps quiet (mmodify (w_graph_calls_update f))"
  by (simp add: keeps_def quiet_def)

lemma quiet_graph_patch: "keeps quiet (graph_patch c)"
  unfolding graph_patch_def by (intro quiet_rules quiet_modify_graph)

lemma quiet_set_leave: "keeps quiet (set_leave p f)"
  unfolding set_leave_def by (intro quiet_rules) (simp add: engine_view_def)

lemma quiet_set_overtime: "keeps quiet (set_overtime p f)"
  unfolding set_overtime_def by (intro quiet_rules) (simp add: engine_view_def)

lemma quiet_mark_returned: "keeps quiet (mark_returned t i)"
  unfolding mark_returned_def by (intro quiet_rules) (simp add: engine_view_def)

lemma quiet_access: "keeps quiet (access_on_step_approved p r s s' n a)" "keeps quiet (access_on_approve p r a)"
    "keeps quiet (access_on_reject p r a)" "keeps quiet (access_on_expire p r)"
  unfolding access_on_step_approved_def access_on_approve_def access_on_reject_def access_on_expire_def Let_def
  by (intro quiet_rules; simp add: engine_view_def)+

lemma quiet_leave: "keeps quiet (leave_on_approve p r a)" "keeps quiet (leave_on_reject p r a)"
    "keeps quiet (leave_on_expire p r)"
  unfolding leave_on_approve_def leave_on_reject_def leave_on_expire_def
  by (intro quiet_rules quiet_set_leave)+

lemma quiet_overtime: "keeps quiet (overtime_on_approve p r a)" "keeps quiet (overtime_on_reject p r a)"
    "keeps quiet (overtime_on_expire p r)"
  unfolding overtime_on_approve_def overtime_on_reject_def overtime_on_expire_def
  by (intro quiet_rules quiet_set_overtime)+

lemma quiet_boarding: "keeps quiet (onboarding_after_approve p r a)" "keeps quiet (offboarding_after_approve p r a)"
  unfolding onboarding_after_approve_def offboarding_after_approve_def enableEntraUser_def disableEntraUser_def
  by (intro quiet_rules quiet_graph_patch)+

lemma quiet_offboarding: "keeps quiet (offboarding_on_approve p r a)"
  unfolding offboarding_on_approve_def Let_def
  by (intro quiet_rules quiet_mark_returned; simp add: engine_view_def)

interpretation access: request_hooks access_request_def
  by unfold_locales (auto simp: access_request_def_def quiet_access upto_rec1)

interpretation leave: request_hooks leave_request_def
  by unfold_locales (auto simp: leave_request_def_def quiet_leave)

interpretation overtime: request_hooks overtime_def
  by unfold_locales (auto simp: overtime_def_def quiet_overtime)

interpretation onboarding: request_hooks onboarding_def
  by unfold_locales (auto simp: onboarding_def_def quiet_boarding quiet.keeps_ret upto_rec1)

interpretation offboarding: request_hooks offboarding_def
  by unfold_locales (auto simp: offboarding_def_def quiet_boarding quiet_offboarding quiet.keeps_ret)

interpretation catalog: request_hooks catalog_request_def
  by unfold_locales (auto simp: catalog_request_def_def quiet.keeps_ret)

lemma app_types_hooks: "def \<in> set app_types \<Longrightarrow> request_hooks def"
  by (auto simp: app_types_def intro: access.request_hooks_axioms leave.request_hooks_axioms
      overtime.request_hooks_axioms onboarding.request_hooks_axioms offboarding.request_hooks_axioms
      catalog.request_hooks_axioms)

lemma expire_hooks_total:
  "def \<in> set app_types \<Longrightarrow> td_on_expire def = Some h \<Longrightarrow> never_fails (h p r)"
  by (auto simp: app_types_def type_defs access_on_expire_def leave_on_expire_def overtime_on_expire_def
      set_leave_def set_overtime_def never_exec intro!: never_rules)

lemma approve_hooks_total: "def \<in> set app_types \<Longrightarrow> never_fails (td_on_approve def p r a)"
  by (auto simp: app_types_def type_defs access_on_approve_def leave_on_approve_def overtime_on_approve_def
      offboarding_on_approve_def set_leave_def set_overtime_def mark_returned_def Let_def never_exec intro!: never_rules)

lemma step_hooks_total:
  "def \<in> set app_types \<Longrightarrow> td_on_step_approved def = Some h \<Longrightarrow> never_fails (h p r s s' n a)"
  by (auto simp: app_types_def type_defs access_on_step_approved_def never_schedule)

lemma no_resolvers:
  "def \<in> set app_types \<Longrightarrow> td_steps def = Some ss \<Longrightarrow> s \<in> set ss \<Longrightarrow> sd_resolver s = None"
  by (auto simp: app_types_def type_defs)

lemma app_next_assignee:
  assumes "dx_def ctx \<in> set app_types"
  shows "next_assignee ctx = mret (ri_assignee (dx_request ctx))"
  using no_resolvers [OF assms]
  by (auto simp: next_assignee_def Let_def split: option.splits dest!: find_where_SomeD)

interpretation app: total_engine app_registry
  by (intro total_engine.intro live_engine.intro engine.intro live_engine_axioms.intro total_engine_axioms.intro)
    (auto simp: app_registry_lookup app_types_hooks expire_hooks_total approve_hooks_total step_hooks_total no_resolvers)

end
