(* ===== verification/Scenario.thy ===== *)
theory Scenario
  imports Type_Defs
begin

text \<open>
  A small concrete world on which the theorems are applied: one administrator, one employee
  with a catalog request that is submitted and approved, and the lemmas that let the
  simplifier run the methods on it.
\<close>

section \<open>The sample worlds\<close>

definition sample_uuid :: "nat \<Rightarrow> uuid" where
  "sample_uuid n = replicate n CHR ''i'' @ ''d''"

lemma inj_sample_uuid: "inj sample_uuid"
proof (rule injI)
  fix m n
  assume "sample_uuid m = sample_uuid n"
  then have "length (sample_uuid m) = length (sample_uuid n)" by simp
  then show "m = n" by (simp add: sample_uuid_def)
qed

definition base_db :: db where
  "base_db = empty_db\<lparr>
     t_role_assignments := [\<lparr>ura_id = ''a1'', ura_user = ''root'', ura_role = ''admin'',
       ura_scope_type = Scope_global, ura_scope_id = None, ura_granted_by = ''root'',
       ura_expires_at = None, ura_created_at = 0\<rparr>],
     t_role_permissions := [\<lparr>rp_role = ''admin'', rp_permission = ''*''\<rparr>]\<rparr>"

definition base_world :: world where
  "base_world = \<lparr>w_db = base_db, w_cache = empty_cache, w_now = 1000, w_uuid = sample_uuid, w_next = 0,
     w_perm_outage = False, w_graph_enabled = False, w_graph_ok = True, w_graph_calls = [], w_s3_deletes = [],
     w_delta_link = None, w_sqs = []\<rparr>"

definition user :: "uuid \<Rightarrow> actor" where
  "user u = \<lparr>ac_sub = u, ac_email = u @ ''@x''\<rparr>"

definition w_submitted :: world where
  "w_submitted = snd (submit app_registry ''catalog_request'' [] (user ''alice'') no_options base_world)"

definition w_approved :: world where
  "w_approved = snd (approve app_registry ''d'' None (user ''root'') w_submitted)"

section \<open>Running the methods\<close>

text \<open>
  With these equations, with \<open>mbind_weak_cong\<close> as congruence rule and without \<open>mbind_assoc\<close>
  the simplifier executes a method step by step.
\<close>

lemma replicate_numeral: "replicate (numeral k) x = x # replicate (pred_numeral k) x"
  by (simp add: numeral_eq_Suc)

lemmas run_db = replicate_numeral mbind_def run_hook_def Let_def select_where_def insert_row_def find_where_def
  update_where_def delete_where_def transaction_def or_throw_def mtry_def sample_uuid_def user_def enqueue_def
  fanout_def schedule_def subscribed_def idempotency_taken_def int_str_def

lemmas run_authz = check_def check_on_def resolve_def cache_get_perms_def cache_set_perms_def permission_rows_def
  not_expired_def group_rows_def scopes_of_def WILDCARD_PERMISSION_def CACHE_TTL_SECONDS_def
  delegator_check_def delegation_active_def

lemmas run_engine = submit_def new_request_def no_options_def hours_after_def total_steps_def registry_get_def
  approve_def approve_guard_def getOrFail_def assertApprovable_def step_permission_def open_status_def
  sod_subject_def approve_tx_def next_assignee_def is_final_step_def max_step_def max_step_json_def
  approved_row_def decision_row_def final_approval_def step_approval_def after_approve_def missing_permission_def
  cancel_def cancel_tx_def expire_def expire_tx_def closed_row_def
  reject_def reject_guard_def reject_tx_def rejected_row_def

lemmas run_base = base_world_def base_db_def empty_db_def empty_cache_def

lemma catalog_fields:
  "td_permission catalog_request_def = ''requests.approve''" "td_allow_self catalog_request_def = False"
  "td_expiry_hours catalog_request_def = Some 72" "td_sla_hours catalog_request_def = Some 24"
  "td_steps catalog_request_def = None" "td_on_submit catalog_request_def = None"
  "td_on_approve catalog_request_def = (\<lambda>p r a. mret ())" "td_on_step_approved catalog_request_def = None"
  "td_on_reject catalog_request_def = None" "td_on_cancel catalog_request_def = None"
  "td_on_expire catalog_request_def = None" "td_after_approve catalog_request_def = None"
  by (simp_all add: catalog_request_def_def)

lemma catalog_registered: "map_of app_registry ''catalog_request'' = Some catalog_request_def"
  by (simp add: app_registry_lookup app_types_def)

lemma overtime_registered: "map_of app_registry ''overtime'' = Some overtime_def"
  by (simp add: app_registry_lookup app_types_def)

lemma access_registered: "map_of app_registry ''access_request'' = Some access_request_def"
  by (simp add: app_registry_lookup app_types_def)

definition alice_request :: request_item where
  "alice_request = \<lparr>ri_id = ''d'', ri_type = ''catalog_request'', ri_requester = ''alice'', ri_assignee = None,
     ri_status = Req_pending, ri_priority = Prio_normal, ri_payload = [], ri_resolution_note = None,
     ri_submitted_at = 1000, ri_resolved_at = None, ri_expires_at = Some 259201000, ri_sla_hours = Some 24,
     ri_sla_deadline = Some 86401000, ri_sla_breached_at = None, ri_current_step = 1, ri_total_steps = 1,
     ri_created_at = 1000, ri_updated_at = 1000\<rparr>"

lemma alice_request_fields:
  "ri_id alice_request = ''d''" "ri_type alice_request = ''catalog_request''" "ri_requester alice_request = ''alice''"
  "ri_status alice_request = Req_pending" "ri_current_step alice_request = 1" "ri_total_steps alice_request = 1"
  by (simp_all add: alice_request_def)

definition submitted_db :: db where
  "submitted_db = base_db\<lparr>t_request_items := [alice_request], t_outbox_events := [
     \<lparr>oe_id = ''id'', oe_aggregate_type = ''request'', oe_aggregate_id = ''d'', oe_event_type = ''request.submitted'',
      oe_payload = [(''requestId'', JStr ''d''), (''type'', JStr ''catalog_request''),
        (''requesterId'', JStr ''alice''), (''priority'', JStr ''normal'')],
      oe_published = False, oe_created_at = 1000, oe_published_at = None\<rparr>]\<rparr>"

lemma submit_eval:
  "submit app_registry ''catalog_request'' [] (user ''alice'') no_options base_world =
     (Inr alice_request, base_world\<lparr>w_db := submitted_db, w_next := 2\<rparr>)"
  by (simp add: run_db run_engine run_base catalog_fields catalog_registered submitted_db_def
      alice_request_def del: mbind_assoc cong: mbind_weak_cong)

lemma w_submitted_eq: "w_submitted = base_world\<lparr>w_db := submitted_db, w_next := 2\<rparr>"
  by (simp add: w_submitted_def submit_eval)

lemma submit_run:
  "submit app_registry ''catalog_request'' [] (user ''alice'') no_options base_world = (Inr alice_request, w_submitted)"
  by (simp add: submit_eval w_submitted_eq)

definition approved_request :: request_item where
  "approved_request = alice_request\<lparr>ri_status := Req_approved, ri_resolved_at := Some 1000\<rparr>"

lemma approve_run: "approve app_registry ''d'' None (user ''root'') w_submitted = (Inr (Some approved_request), w_approved)"
proof -
  have "fst (approve app_registry ''d'' None (user ''root'') w_submitted) = Inr (Some approved_request)"
    by (simp add: w_submitted_eq run_db run_authz run_engine run_base catalog_fields
        catalog_registered submitted_db_def alice_request_def approved_request_def
        del: mbind_assoc cong: mbind_weak_cong)
  then show ?thesis by (simp add: w_approved_def prod_eq_iff)
qed

lemma base_cache_sound: "w_cache w = empty_cache \<Longrightarrow> cache_sound w"
  by (simp add: cache_sound_def cache_get_perms_def empty_cache_def)

lemma submitted_simps:
  "w_cache w_submitted = empty_cache" "w_perm_outage w_submitted = False" "w_now w_submitted = 1000"
  "w_db w_submitted = submitted_db" "t_delegations submitted_db = []"
  "t_request_items submitted_db = [alice_request]" "t_request_approvals submitted_db = []"
  by (simp_all add: w_submitted_eq base_world_def submitted_db_def base_db_def empty_db_def)

lemma holds_root:
  assumes "t_role_assignments d = t_role_assignments base_db" and "t_role_permissions d = t_role_permissions base_db"
  shows "holds d t ''root'' p"
  unfolding holds_def assms by (simp add: base_db_def not_expired_def WILDCARD_PERMISSION_def)

lemma holds_submitted: "holds submitted_db t ''root'' p"
  by (rule holds_root) (simp_all add: submitted_db_def)

lemma approved_items: "t_request_items (w_db w_approved) = [approved_request]"
proof -
  from approve_run obtain ctx nxt i where may: "may_decide app_registry ''d'' (user ''root'') w_submitted ctx"
    and tr: "transition (update_where (\<lambda>x. ri_id x = ''d'') (approved_row ctx None nxt (w_now w_submitted)))
       [decision_row ctx Dec_approved None (user ''root'') i (w_now w_submitted)]
       (approval_event (dx_def ctx) (dx_request ctx)) ''d''
       (approval_payload (dx_def ctx) (dx_request ctx) (user ''root'')) w_submitted w_approved"
    and row: "Some approved_request = Some (approved_row ctx None nxt (w_now w_submitted) (dx_request ctx))"
    by (rule app.approve_success) (rule that; assumption)
  have id: "ri_id alice_request = ''d''"
    by (simp add: alice_request_def)
  with may have "dx_request ctx = alice_request"
    by (simp add: may_decide_def submitted_simps)
  then show ?thesis
    using tr row id by (simp add: transition_def submitted_simps)
qed

lemma reject_run:
  "fst (reject app_registry ''d'' (Some ''no'') (user ''root'') w_submitted) =
     Inr (Some (alice_request\<lparr>ri_status := Req_rejected, ri_resolved_at := Some 1000, ri_resolution_note := Some ''no''\<rparr>))"
  by (simp add: w_submitted_eq run_db run_authz run_engine run_base catalog_fields
      catalog_registered submitted_db_def alice_request_def del: mbind_assoc cong: mbind_weak_cong)

lemma cancel_run:
  "fst (cancel app_registry ''d'' (user ''alice'') w_submitted) =
     Inr (Some (alice_request\<lparr>ri_status := Req_cancelled, ri_resolved_at := Some 1000\<rparr>))"
  by (simp add: w_submitted_eq run_db run_authz run_engine run_base catalog_fields
      catalog_registered submitted_db_def alice_request_def del: mbind_assoc cong: mbind_weak_cong)

section \<open>Reachability of the samples\<close>

lemma base_reachable: "reachable app_registry base_world"
  by (rule reach_init) (simp_all add: base_world_def base_db_def empty_db_def inj_sample_uuid)

lemma submitted_reachable: "reachable app_registry w_submitted"
  using base_reachable by (rule reach_step) (rule step_submit, simp add: w_submitted_def prod_eq_iff)

lemma approved_reachable: "reachable app_registry w_approved"
  using submitted_reachable by (rule reach_step) (rule step_approve, simp add: w_approved_def prod_eq_iff)

text \<open>The submitted world, four days later.\<close>

definition w_late :: world where
  "w_late = w_submitted\<lparr>w_now := 345600000\<rparr>"

lemma late_reachable: "reachable app_registry w_late"
  using submitted_reachable by (rule reach_step) (rule step_other, simp add: other_step_def w_late_def)

text \<open>The submitted world with an active delegation from the administrator to Alice.\<close>

definition root_delegation :: approval_delegation where
  "root_delegation = \<lparr>ad_id = ''g'', ad_from = ''root'', ad_to = ''alice'', ad_starts_at = 0, ad_ends_at = 5000,
     ad_reason = None, ad_created_at = 0\<rparr>"

definition w_delegated :: world where
  "w_delegated = w_submitted\<lparr>w_db := submitted_db\<lparr>t_delegations := [root_delegation]\<rparr>\<rparr>"

lemma delegated_simps:
  "w_cache w_delegated = empty_cache" "w_perm_outage w_delegated = False" "w_now w_delegated = 1000"
  "t_delegations (w_db w_delegated) = [root_delegation]" "t_request_items (w_db w_delegated) = [alice_request]"
  "t_request_approvals (w_db w_delegated) = []"
  by (simp_all add: w_delegated_def submitted_simps)

lemma holds_delegated: "holds (w_db w_delegated) t ''root'' p"
  by (rule holds_root) (simp_all add: w_delegated_def submitted_db_def)

end
