(* ===== verification/Engine_Domain.thy ===== *)
theory Engine_Domain
  imports Type_Defs
begin

text \<open>
  What a transition of the request engine does to the tables of the other modules: exactly
  what the hook of the request's type does.  \<open>domain_view\<close> blanks the tables the engine
  itself writes; \<open>domain_step\<close> says that, seen through it, a transition is one run of a hook
  at the same time, or nothing.  The services of the modules take their effects from here.
\<close>

section \<open>The tables outside the engine\<close>

definition domain_view :: "db \<Rightarrow> db" where
  "domain_view d = d\<lparr>t_request_items := [], t_request_approvals := [], t_request_comments := [],
     t_outbox_events := [], t_notification_outbox := [], t_webhook_deliveries := []\<rparr>"

lemma domain_view_tables [simp]:
  "t_employees (domain_view d) = t_employees d" "t_role_assignments (domain_view d) = t_role_assignments d"
  "t_access_requests (domain_view d) = t_access_requests d" "t_access_grants (domain_view d) = t_access_grants d"
  "t_leave_requests (domain_view d) = t_leave_requests d" "t_overtime_entries (domain_view d) = t_overtime_entries d"
  "t_assets (domain_view d) = t_assets d" "t_asset_assignments (domain_view d) = t_asset_assignments d"
  "t_refresh_tokens (domain_view d) = t_refresh_tokens d" "t_timesheets (domain_view d) = t_timesheets d"
  "t_shift_logs (domain_view d) = t_shift_logs d" "t_delegations (domain_view d) = t_delegations d"
  "t_role_permissions (domain_view d) = t_role_permissions d" "t_audit_logs (domain_view d) = t_audit_logs d"
  by (simp_all add: domain_view_def)

definition undisturbed :: "world \<Rightarrow> world \<Rightarrow> bool" where
  "undisturbed w w' \<longleftrightarrow> domain_view (w_db w') = domain_view (w_db w) \<and> w_now w' = w_now w \<and>
     w_uuid w' = w_uuid w \<and> w_next w \<le> w_next w'"

interpretation undisturbed: frame_rel undisturbed
  by unfold_locales (auto simp: undisturbed_def)

definition domain_step :: "unit svc \<Rightarrow> world \<Rightarrow> world \<Rightarrow> bool" where
  "domain_step h w w' \<longleftrightarrow> (\<exists>v v'. undisturbed w v \<and> h v = (Inr (), v') \<and> undisturbed v' w')"

lemma domain_step_ret [simp]: "domain_step (mret ()) w w' \<longleftrightarrow> undisturbed w w'"
  by (auto simp: domain_step_def intro: undisturbed.rel_refl undisturbed.rel_trans)

lemma domain_step_before: "undisturbed w u \<Longrightarrow> domain_step h u w' \<Longrightarrow> domain_step h w w'"
  unfolding domain_step_def by (blast intro: undisturbed.rel_trans)

lemma domain_step_after: "domain_step h w u \<Longrightarrow> undisturbed u w' \<Longrightarrow> domain_step h w w'"
  unfolding domain_step_def by (blast intro: undisturbed.rel_trans)

lemma undisturbed_exec: "(\<And>d. domain_view (u d) = domain_view d) \<Longrightarrow> keeps undisturbed (exec u)"
  by (simp add: keeps_def undisturbed_def)

lemma undisturbed_prim: "keeps undisturbed (query q)" "keeps undisturbed now" "keeps undisturbed newId"
  by (simp_all add: keeps_def undisturbed_def)

lemma undisturbed_schedule: "keeps undisturbed (schedule i)"
  unfolding schedule_def
  by (intro undisturbed.keeps_rules undisturbed_prim undisturbed_exec) (simp add: domain_view_def)

lemma undisturbed_enqueue: "keeps undisturbed (enqueue a i e p)"
  unfolding enqueue_def
  by (intro undisturbed.keeps_rules undisturbed_prim undisturbed_exec) (simp add: domain_view_def)

lemma undisturbed_fanout: "keeps undisturbed (fanout e p)"
  unfolding fanout_def deliver_def
  by (intro undisturbed.keeps_rules undisturbed_prim undisturbed_exec) (simp add: domain_view_def)

lemma undisturbed_check: "check u p w = (Inr b, w') \<Longrightarrow> undisturbed w w'"
  by (cases rule: check_total [of u p w]) (auto simp: undisturbed_def)

lemmas undisturbed_rules = undisturbed.keeps_rules undisturbed_exec undisturbed_prim undisturbed_schedule
  undisturbed_enqueue undisturbed_fanout

text \<open>
  \<open>runs h m\<close>: a successful run of \<open>m\<close> is one run of \<open>h\<close> between undisturbing parts.  The
  rules follow the structure of a method.
\<close>

definition runs :: "unit svc \<Rightarrow> 'a svc \<Rightarrow> bool" where
  "runs h m \<longleftrightarrow> (\<forall>w y w'. m w = (Inr y, w') \<longrightarrow> domain_step h w w')"

lemma runsD: "runs h m \<Longrightarrow> m w = (Inr y, w') \<Longrightarrow> domain_step h w w'"
  by (simp add: runs_def)

lemma runs_skip: "keeps undisturbed m \<Longrightarrow> runs (mret ()) m"
  by (auto simp: runs_def dest: keepsD)

lemma runs_before: "keeps undisturbed m \<Longrightarrow> (\<And>x. runs h (f x)) \<Longrightarrow> runs h (mbind m f)"
  unfolding runs_def by (blast elim: mbind_InrE dest: keepsD intro: domain_step_before)

lemma runs_after: "runs h m \<Longrightarrow> (\<And>x. keeps undisturbed (f x)) \<Longrightarrow> runs h (mbind m f)"
  unfolding runs_def by (blast elim: mbind_InrE dest: keepsD intro: domain_step_after)

lemma runs_self: "runs h h"
  unfolding runs_def domain_step_def
  by (metis (full_types) old.unit.exhaust undisturbed.rel_refl)

lemma runs_transaction: "runs h m \<Longrightarrow> runs h (transaction m)"
  by (simp add: runs_def transaction_Inr_iff)

lemma undisturbed_items: "keeps undisturbed (exec (t_request_items_update u))"
  by (intro undisturbed_exec) (simp add: domain_view_def)

lemma undisturbed_log: "keeps undisturbed (exec (t_request_approvals_update u))"
  by (intro undisturbed_exec) (simp add: domain_view_def)

lemma run_hook_some: "run_hook (Some h) call = call h" "run_hook None call = mret ()"
  by (simp_all add: run_hook_def)

lemmas clean_rules = undisturbed.keeps_rules undisturbed_items undisturbed_log undisturbed_prim
  undisturbed_schedule undisturbed_enqueue undisturbed_fanout

lemma undisturbed_read: "keeps undisturbed (getOrFail rid)" "keeps undisturbed (registry_get reg k)"
    "keeps undisturbed (findActiveDelegationTo a)" "keeps undisturbed (assertApprovable st)"
  unfolding getOrFail_def registry_get_def findActiveDelegationTo_def assertApprovable_def
  by (intro undisturbed_rules)+

lemma undisturbed_checks: "keeps undisturbed (check u p)" "keeps undisturbed (delegator_check g p)"
proof -
  show c: "keeps undisturbed (check u p)" for u
  proof (rule keepsI)
    fix w
    obtain b c where "check u p w = (Inr b, w\<lparr>w_cache := c\<rparr>)" by (rule check_total)
    then show "undisturbed w (snd (check u p w))" by (simp add: undisturbed_def)
  qed
  then show "keeps undisturbed (delegator_check g p)"
    unfolding delegator_check_def by (intro undisturbed_rules)
qed

lemmas undisturbed_guards = undisturbed_rules undisturbed_read undisturbed_checks

lemma undisturbed_approve_guard: "keeps undisturbed (approve_guard reg rid actor)"
  unfolding approve_guard_def Let_def by (intro undisturbed_guards)

lemma undisturbed_reject_guard: "keeps undisturbed (reject_guard reg rid actor)"
  unfolding reject_guard_def Let_def by (intro undisturbed_guards)

section \<open>Transitions of a clean engine\<close>

text \<open>
  The hooks that run beside the deciding ones (the intermediate step hook, the resolvers of
  assignees, the work after the commit) leave the domain tables alone.
\<close>

locale clean_engine = engine +
  assumes clean_step: "map_of reg k = Some def \<Longrightarrow> td_on_step_approved def = Some h2 \<Longrightarrow>
      keeps undisturbed (h2 p r s s' n a)"
    and clean_resolver: "map_of reg k = Some def \<Longrightarrow> td_steps def = Some ss \<Longrightarrow> s1 \<in> set ss \<Longrightarrow>
      sd_resolver s1 = Some f \<Longrightarrow> keeps undisturbed (f p)"
    and clean_after: "map_of reg k = Some def \<Longrightarrow> td_after_approve def = Some h6 \<Longrightarrow> keeps undisturbed (h6 p r a)"
begin

lemma clean_after_approve:
  "map_of reg k = Some (dx_def ctx) \<Longrightarrow> keeps undisturbed (after_approve ctx actor)"
  unfolding after_approve_def run_hook_def Let_def
  by (cases "td_after_approve (dx_def ctx)")
    (auto intro!: undisturbed.keeps_if undisturbed.keeps_ret undisturbed.keeps_try dest: clean_after)

lemma clean_next_assignee: "map_of reg k = Some (dx_def ctx) \<Longrightarrow> keeps undisturbed (next_assignee ctx)"
  unfolding next_assignee_def Let_def
  by (auto intro!: undisturbed.keeps_ret undisturbed.keeps_bind split: option.split
      dest!: find_where_SomeD intro: clean_resolver)

lemma clean_step_approval: "map_of reg k = Some (dx_def ctx) \<Longrightarrow> keeps undisturbed (step_approval ctx nxt actor)"
  unfolding step_approval_def run_hook_def Let_def
  by (cases "td_on_step_approved (dx_def ctx)")
    (auto intro!: undisturbed_rules split: option.split dest: clean_step)

text \<open>The hook that decides an approval: that of the type on the last step, none before.\<close>

lemma approve_tx_domain:
  assumes def: "map_of reg k = Some (dx_def ctx)"
  shows "runs (if is_final_step (dx_def ctx) (ri_current_step (dx_request ctx))
      then td_on_approve (dx_def ctx) (ri_payload (dx_request ctx)) (ri_id (dx_request ctx)) (ac_sub actor)
      else mret ()) (approve_tx ctx note actor)"
proof -
  have hook: "runs (if is_final_step (dx_def ctx) (ri_current_step (dx_request ctx))
      then td_on_approve (dx_def ctx) (ri_payload (dx_request ctx)) (ri_id (dx_request ctx)) (ac_sub actor)
      else mret ())
     (if is_final_step (dx_def ctx) (ri_current_step (dx_request ctx)) then final_approval ctx actor
      else step_approval ctx nxt actor)" for nxt
    by (auto simp: final_approval_def Let_def intro!: runs_after runs_self undisturbed_schedule
        runs_skip clean_step_approval [OF def])
  show ?thesis
    unfolding approve_tx_def Let_def
    by (intro runs_before [OF undisturbed_prim(2)] runs_transaction runs_before [OF clean_next_assignee [OF def]]
        runs_before [OF undisturbed_items] runs_before [OF undisturbed_log] runs_before [OF undisturbed_prim(1)]
        runs_before [OF undisturbed_prim(3)] runs_after [OF hook] clean_rules)
qed

lemma approve_domain:
  assumes run: "approve reg rid note actor w = (Inr row, w')"
  shows "\<exists>r def. find_where (\<lambda>x. ri_id x = rid) (t_request_items (w_db w)) = Some r \<and>
    open_status (ri_status r) \<and> map_of reg (ri_type r) = Some def \<and>
    domain_step (if is_final_step def (ri_current_step r)
      then td_on_approve def (ri_payload r) rid (ac_sub actor) else mret ()) w w'"
proof -
  from run obtain ctx w1 w2 u where g: "approve_guard reg rid actor w = (Inr ctx, w1)"
    and t: "approve_tx ctx note actor w1 = (Inr row, w2)" and a: "after_approve ctx actor w2 = (Inr u, w')"
    unfolding approve_def by (auto elim!: mbind_InrE)
  have may: "may_decide reg rid actor w ctx"
    using approve_guard_success [OF g] by blast
  then have found: "find_where (\<lambda>x. ri_id x = rid) (t_request_items (w_db w)) = Some (dx_request ctx)"
    and st: "open_status (ri_status (dx_request ctx))"
    and def: "map_of reg (ri_type (dx_request ctx)) = Some (dx_def ctx)"
    by (simp_all add: may_decide_def)
  have rid: "ri_id (dx_request ctx) = rid"
    using find_where_SomeD [OF found] by simp
  note before = keepsD [OF undisturbed_approve_guard g] and after = keepsD [OF clean_after_approve [OF def] a]
  from domain_step_before [OF before domain_step_after [OF runsD [OF approve_tx_domain [OF def] t] after]]
  show ?thesis
    using found st def rid by (intro exI conjI) auto
qed

lemma reject_domain:
  assumes run: "reject reg rid note actor w = (Inr row, w')"
  shows "\<exists>r def. find_where (\<lambda>x. ri_id x = rid) (t_request_items (w_db w)) = Some r \<and>
    open_status (ri_status r) \<and> map_of reg (ri_type r) = Some def \<and>
    domain_step (run_hook (td_on_reject def) (\<lambda>h. h (ri_payload r) rid (ac_sub actor))) w w'"
proof -
  from run obtain ctx w1 where g: "reject_guard reg rid actor w = (Inr ctx, w1)"
    and t: "reject_tx ctx note actor w1 = (Inr row, w')"
    unfolding reject_def by (auto elim!: mbind_InrE)
  have may: "may_decide reg rid actor w ctx"
    using reject_guard_success [OF g] by blast
  then have found: "find_where (\<lambda>x. ri_id x = rid) (t_request_items (w_db w)) = Some (dx_request ctx)"
    and st: "open_status (ri_status (dx_request ctx))"
    and def: "map_of reg (ri_type (dx_request ctx)) = Some (dx_def ctx)"
    by (simp_all add: may_decide_def)
  have rid: "ri_id (dx_request ctx) = rid"
    using find_where_SomeD [OF found] by simp
  have "runs (run_hook (td_on_reject (dx_def ctx)) (\<lambda>h. h (ri_payload (dx_request ctx)) (ri_id (dx_request ctx)) (ac_sub actor)))
      (reject_tx ctx note actor)"
    unfolding reject_tx_def Let_def
    by (intro runs_before [OF undisturbed_prim(2)] runs_transaction runs_before [OF undisturbed_items]
        runs_before [OF undisturbed_log] runs_before [OF undisturbed_prim(1)] runs_before [OF undisturbed_prim(3)]
        runs_after [OF runs_self] clean_rules)
  from domain_step_before [OF keepsD [OF undisturbed_reject_guard g] runsD [OF this t]]
  show ?thesis
    using found st def rid by (intro exI conjI) auto
qed

lemma cancel_domain:
  assumes run: "cancel reg rid actor w = (Inr row, w')"
  shows "\<exists>r def. find_where (\<lambda>x. ri_id x = rid) (t_request_items (w_db w)) = Some r \<and>
    open_status (ri_status r) \<and> map_of reg (ri_type r) = Some def \<and>
    domain_step (run_hook (td_on_cancel def) (\<lambda>h. h (ri_payload r) rid (ac_sub actor))) w w'"
proof -
  from run obtain r b w1 def where found: "find_where (\<lambda>x. ri_id x = rid) (t_request_items (w_db w)) = Some r"
    and c: "check (ac_sub actor) ''rbac.manage'' w = (Inr b, w1)" and st: "open_status (ri_status r)"
    and def: "map_of reg (ri_type r) = Some def" and t: "cancel_tx def r actor w1 = (Inr row, w')"
    unfolding cancel_def
    by (auto simp: getOrFail_def registry_get_def split: option.splits if_splits
             elim!: mbind_InrE [where m = "check u p" for u p])
  have rid: "ri_id r = rid"
    using find_where_SomeD [OF found] by simp
  have "runs (run_hook (td_on_cancel def) (\<lambda>h. h (ri_payload r) (ri_id r) (ac_sub actor))) (cancel_tx def r actor)"
    unfolding cancel_tx_def Let_def
    by (intro runs_before [OF undisturbed_prim(2)] runs_transaction runs_before [OF undisturbed_items]
        runs_before [OF undisturbed_prim(1)] runs_after [OF runs_self] clean_rules)
  from domain_step_before [OF undisturbed_check [OF c] runsD [OF this t]]
  show ?thesis
    using found st def rid by (intro exI conjI) auto
qed

lemma expire_domain:
  assumes run: "expire reg rid w = (Inr u, w')"
  shows "\<exists>r. find_where (\<lambda>x. ri_id x = rid) (t_request_items (w_db w)) = Some r \<and>
    (if open_status (ri_status r)
     then \<exists>def. map_of reg (ri_type r) = Some def \<and>
       domain_step (run_hook (td_on_expire def) (\<lambda>h. h (ri_payload r) rid)) w w'
     else w' = w)"
proof -
  from run obtain r where found: "find_where (\<lambda>x. ri_id x = rid) (t_request_items (w_db w)) = Some r"
    and rest: "if open_status (ri_status r)
       then (\<exists>def. map_of reg (ri_type r) = Some def \<and> expire_tx def r w = (Inr u, w')) else w' = w"
    unfolding expire_def by (auto simp: getOrFail_def registry_get_def split: option.splits if_splits)
  have rid: "ri_id r = rid"
    using find_where_SomeD [OF found] by simp
  have "runs (run_hook (td_on_expire def) (\<lambda>h. h (ri_payload r) (ri_id r))) (expire_tx def r)" for def
    unfolding expire_tx_def Let_def
    by (intro runs_before [OF undisturbed_prim(2)] runs_transaction runs_before [OF undisturbed_items]
        runs_before [OF undisturbed_prim(1)] runs_after [OF runs_self] clean_rules)
  note step = runsD [OF this]
  show ?thesis
  proof (cases "open_status (ri_status r)")
    case True
    then obtain def where "map_of reg (ri_type r) = Some def" "expire_tx def r w = (Inr u, w')"
      using rest by auto
    then show ?thesis
      using found True rid step by (intro exI [of _ r]) auto
  next
    case False
    with found rest show ?thesis by auto
  qed
qed

lemma submit_domain:
  assumes run: "submit reg type payload actor opts w = (Inr row, w')"
  shows "\<exists>def. map_of reg type = Some def \<and>
    domain_step (run_hook (td_on_submit def) (\<lambda>h. h payload (ac_sub actor))) w w'"
proof -
  from run obtain def where def: "map_of reg type = Some def"
    by (auto simp: submit_def registry_get_def split: option.splits)
  have notice: "keeps undisturbed (case x of None \<Rightarrow> mret () | Some a \<Rightarrow> schedule (i a))" for x i
    by (intro clean_rules)
  have "runs (run_hook (td_on_submit def) (\<lambda>h. h payload (ac_sub actor)))
      (mbind now (\<lambda>t. transaction (mbind (run_hook (td_on_submit def) (\<lambda>h. h payload (ac_sub actor))) (\<lambda>_.
       mbind newId (\<lambda>rid.
       let row = new_request rid t def type payload actor opts;
           submitPayload = [(''requestId'', JStr rid), (''type'', JStr type),
              (''requesterId'', JStr (ac_sub actor)), (''priority'', JStr (priority_name (ri_priority row)))] in
       mbind (exec (t_request_items_update (insert_row row))) (\<lambda>_.
       mbind (enqueue ''request'' rid ''request.submitted'' submitPayload) (\<lambda>_.
       mbind (fanout ''request.submitted'' submitPayload) (\<lambda>_.
       mbind (case ri_assignee row of
                None \<Rightarrow> mret ()
              | Some a \<Rightarrow> schedule
                  \<lparr>ni_type = ''request.submitted'',
                   ni_vars = [(''requestType'', JStr type), (''requestId'', JStr rid),
                              (''requesterEmail'', JStr (ac_email actor))],
                   ni_recipient = a, ni_actor = Some (ac_sub actor), ni_resource = Some rid,
                   ni_idempotency_key = Some (''request_submitted:'' @ rid)\<rparr>) (\<lambda>_.
       mret row)))))))))"
    unfolding Let_def
    by (intro runs_before [OF undisturbed_prim(2)] runs_transaction runs_after [OF runs_self] clean_rules)
  from runsD [OF this, of w row w'] run def show ?thesis
    by (simp add: submit_def registry_get_def)
qed

end

section \<open>The application's engine is clean\<close>

lemma clean_hooks:
  "def \<in> set app_types \<Longrightarrow> td_on_step_approved def = Some h2 \<Longrightarrow> keeps undisturbed (h2 p r s s' n a)"
  by (auto simp: app_types_def type_defs access_on_step_approved_def undisturbed_schedule)

lemma undisturbed_graph: "keeps undisturbed (graph_patch c)"
  unfolding graph_patch_def
  by (intro undisturbed_rules undisturbed.keeps_modify) (simp add: undisturbed_def)

lemma clean_boarding: "keeps undisturbed (onboarding_after_approve p r a)"
    "keeps undisturbed (offboarding_after_approve p r a)"
  unfolding onboarding_after_approve_def offboarding_after_approve_def enableEntraUser_def disableEntraUser_def
  by (intro undisturbed_rules undisturbed_graph)+

lemma clean_afters:
  "def \<in> set app_types \<Longrightarrow> td_after_approve def = Some h6 \<Longrightarrow> keeps undisturbed (h6 p r a)"
  by (auto simp: app_types_def type_defs clean_boarding)

interpretation clean: clean_engine app_registry
  by (intro clean_engine.intro clean_engine_axioms.intro app.engine_axioms)
    (auto simp: app_registry_lookup clean_hooks clean_afters dest: no_resolvers)

section \<open>Submissions\<close>

text \<open>No type of the application has work to do at submission: a submission always returns, and
  the other modules do not notice it.\<close>

lemma app_on_submit: "def \<in> set app_types \<Longrightarrow> td_on_submit def = None"
  by (auto simp: app_types_def type_defs)

lemma app_submit_total: "k \<in> td_type ` set app_types \<Longrightarrow> never_fails (submit app_registry k payload actor opts)"
proof -
  assume "k \<in> td_type ` set app_types"
  then obtain def where def: "map_of app_registry k = Some def" "def \<in> set app_types"
    by (auto simp: app_registry_lookup)
  then have "td_on_submit def = None"
    by (auto simp: app_types_def type_defs)
  with def have "submit app_registry k payload actor opts = mbind now (\<lambda>t. transaction (
       mbind newId (\<lambda>rid.
       let row = new_request rid t def k payload actor opts;
           pl = [(''requestId'', JStr rid), (''type'', JStr k),
              (''requesterId'', JStr (ac_sub actor)), (''priority'', JStr (priority_name (ri_priority row)))] in
       mbind (exec (t_request_items_update (insert_row row))) (\<lambda>_.
       mbind (enqueue ''request'' rid ''request.submitted'' pl) (\<lambda>_.
       mbind (fanout ''request.submitted'' pl) (\<lambda>_.
       mbind (case ri_assignee row of None \<Rightarrow> mret ()
              | Some a \<Rightarrow> schedule
                  \<lparr>ni_type = ''request.submitted'',
                   ni_vars = [(''requestType'', JStr k), (''requestId'', JStr rid),
                              (''requesterEmail'', JStr (ac_email actor))],
                   ni_recipient = a, ni_actor = Some (ac_sub actor), ni_resource = Some rid,
                   ni_idempotency_key = Some (''request_submitted:'' @ rid)\<rparr>) (\<lambda>_.
       mret row)))))))"
    by (auto simp: fun_eq_iff submit_def registry_get_def or_throw_def run_hook_def Let_def transaction_def)
  then show ?thesis
    unfolding Let_def by (auto intro!: never_rules messaging_never)
qed

lemma app_submit_undisturbed:
  assumes "submit app_registry k payload actor opts w = (Inr row, w')"
  shows "undisturbed w w'"
proof -
  obtain def where def: "map_of app_registry k = Some def"
    and step: "domain_step (run_hook (td_on_submit def) (\<lambda>h. h payload (ac_sub actor))) w w'"
    using clean.submit_domain [OF assms] by blast
  then have "td_on_submit def = None"
    using app_on_submit by (auto simp: app_registry_lookup)
  with step show ?thesis by (simp add: run_hook_def)
qed

text \<open>What a submission adds: a pending request under a new identifier.\<close>

lemma app_submit_new:
  assumes "submit app_registry k payload actor opts w = (Inr row, w')"
  obtains def n where "map_of app_registry k = Some def" and "w_next w \<le> n" and "n < w_next w'"
    and "row = new_request (w_uuid w n) (w_now w) def k payload actor opts"
    and "t_request_items (w_db w') = t_request_items (w_db w) @ [row]"
proof -
  obtain def where def: "map_of app_registry k = Some def"
    using clean.submit_domain [OF assms] by blast
  from request_hooks.submit_success [OF app.registered [OF def] def assms] obtain n pl where
    "w_next w \<le> n" "n < w_next w'" "row = new_request (w_uuid w n) (w_now w) def k payload actor opts"
    "transition (insert_row row) [] ''request.submitted'' (ri_id row) pl w w'"
    by blast
  with def show thesis
    by (intro that) (auto simp: transition_def insert_row_def)
qed

section \<open>Notifications\<close>

text \<open>
  To the outbox of notifications an approval only adds rows.
\<close>

definition outbox_grows :: "world \<Rightarrow> world \<Rightarrow> bool" where
  "outbox_grows w w' \<longleftrightarrow> (\<exists>rows. t_notification_outbox (w_db w') = t_notification_outbox (w_db w) @ rows)"

interpretation grows: frame_rel outbox_grows
  by unfold_locales (auto simp: outbox_grows_def)

lemma grows_exec: "(\<And>d. t_notification_outbox (u d) = t_notification_outbox d) \<Longrightarrow> keeps outbox_grows (exec u)"
  by (simp add: keeps_def outbox_grows_def)

lemma grows_prim: "keeps outbox_grows (query q)" "keeps outbox_grows now" "keeps outbox_grows newId"
  by (simp_all add: keeps_def outbox_grows_def)

lemma grows_schedule: "keeps outbox_grows (schedule i)"
  unfolding schedule_def by (intro grows.keeps_rules grows_prim) (simp add: keeps_def outbox_grows_def insert_row_def)

lemma grows_enqueue: "keeps outbox_grows (enqueue a i e p)"
  unfolding enqueue_def by (intro grows.keeps_rules grows_prim grows_exec) simp

lemma grows_fanout: "keeps outbox_grows (fanout e p)"
  unfolding fanout_def deliver_def by (intro grows.keeps_rules grows_prim grows_exec) simp

lemma grows_transaction: "keeps outbox_grows m \<Longrightarrow> keeps outbox_grows (transaction m)"
  by (auto simp: keeps_def outbox_grows_def transaction_def split: prod.splits sum.splits)
    (metis snd_conv)

lemma grows_graph: "keeps outbox_grows (graph_patch c)"
  unfolding graph_patch_def
  by (intro grows.keeps_rules grows_prim grows.keeps_modify) (simp_all add: outbox_grows_def keeps_def)

lemmas grows_rules = grows.keeps_rules grows_exec grows_prim grows_schedule grows_enqueue grows_fanout grows_transaction grows_graph

lemma grows_approve_hook: "def \<in> set app_types \<Longrightarrow> keeps outbox_grows (td_on_approve def p r a)"
  by (auto simp: app_types_def type_defs access_on_approve_def leave_on_approve_def overtime_on_approve_def
      offboarding_on_approve_def set_leave_def set_overtime_def mark_returned_def Let_def intro!: grows_rules)

lemma grows_other_hooks:
  assumes "def \<in> set app_types"
  shows "td_on_step_approved def = Some h2 \<Longrightarrow> keeps outbox_grows (h2 p r s s' n a)"
    and "td_after_approve def = Some h6 \<Longrightarrow> keeps outbox_grows (h6 p r a)"
  using assms
  by (auto simp: app_types_def type_defs access_on_step_approved_def onboarding_after_approve_def offboarding_after_approve_def
      enableEntraUser_def disableEntraUser_def intro!: grows_rules)

lemma grows_run_hook:
  "(\<And>h. hook = Some h \<Longrightarrow> keeps outbox_grows (f h)) \<Longrightarrow> keeps outbox_grows (run_hook hook f)"
  by (cases hook) (simp_all add: run_hook_def grows.keeps_ret)

lemma grows_approve_tx:
  assumes "dx_def ctx \<in> set app_types"
  shows "keeps outbox_grows (approve_tx ctx note actor)"
  unfolding approve_tx_def final_approval_def step_approval_def Let_def app_next_assignee [OF assms]
  by (intro grows_rules grows_run_hook grows_approve_hook [OF assms] grows_other_hooks(1) [OF assms]; simp)

lemma grows_after_approve:
  assumes "dx_def ctx \<in> set app_types"
  shows "keeps outbox_grows (after_approve ctx actor)"
  unfolding after_approve_def Let_def
  by (intro grows_rules grows.keeps_try grows_run_hook grows_other_hooks(2) [OF assms]; simp)

lemma app_approve_grows:
  assumes run: "approve app_registry rid note actor w = (Inr row, w')"
  shows "outbox_grows w w'"
proof -
  from run obtain ctx w1 w2 u where g: "approve_guard app_registry rid actor w = (Inr ctx, w1)"
    and t: "approve_tx ctx note actor w1 = (Inr row, w2)" and a: "after_approve ctx actor w2 = (Inr u, w')"
    unfolding approve_def by (auto elim!: mbind_InrE)
  have "may_decide app_registry rid actor w ctx" and db: "w_db w1 = w_db w"
    using approve_guard_success [OF g] by auto
  then have def: "dx_def ctx \<in> set app_types"
    by (auto simp: may_decide_def app_registry_lookup)
  have "outbox_grows w w1"
    using db by (simp add: outbox_grows_def)
  with keepsD [OF grows_approve_tx [OF def] t] keepsD [OF grows_after_approve [OF def] a] show ?thesis
    by (blast intro: grows.rel_trans)
qed

section \<open>Authorized approvals return\<close>

lemma app_approve_authorized:
  assumes "find_where (\<lambda>r. ri_id r = rid) (t_request_items (w_db w)) = Some r"
    and "open_status (ri_status r)" and "map_of app_registry (ri_type r) = Some def"
    and "find_where (delegation_active (ac_sub actor) (w_now w)) (t_delegations (w_db w)) = None"
    and "ri_requester r \<noteq> ac_sub actor"
    and "holds (w_db w) (w_now w) (ac_sub actor) (step_permission def (ri_current_step r))"
    and "cache_sound w" and "\<not> w_perm_outage w"
  shows "\<exists>row w'. approve app_registry rid note actor w = (Inr row, w')"
proof -
  have "ri_requester r \<noteq> sod_subject actor None"
    using assms(5) by (simp add: sod_subject_def)
  then obtain ctx w1 where "approve_guard app_registry rid actor w = (Inr ctx, w1)"
    using app.approve_guard_complete [OF assms(1-3) refl _ _ assms(7,8), of actor] assms(4,6) by auto
  then show ?thesis
    using app.approve_returns by blast
qed

end
