(* ===== verification/Engine_Claims.thy ===== *)
theory Engine_Claims
  imports Scenario Engine_Domain
begin

text \<open>
  The properties of the request engine over the registry of the application.  Each is
  followed by its application to the sample worlds.
\<close>

section \<open>Shared facts\<close>

lemma app_no_self_approval: "map_of app_registry k = Some def \<Longrightarrow> \<not> td_allow_self def"
  by (auto simp: app_registry_lookup app_types_def type_defs)

lemma may_decide_app:
  assumes "may_decide app_registry rid actor w ctx"
  shows "ri_requester (dx_request ctx) \<noteq>
    sod_subject actor (find_where (delegation_active (ac_sub actor) (w_now w)) (t_delegations (w_db w)))"
  using assms app_no_self_approval by (auto simp: may_decide_def)

lemma single_step_final: "td_steps def = None \<Longrightarrow> is_final_step def 1"
  by (simp add: is_final_step_def)

section \<open>The state machine\<close>

text \<open>C1: In every state the application can reach (any sequence of submissions, approvals,
  rejections, cancellations, expiries, SLA ticks and steps of other components), every request
  agrees with the append-only approval log: it has exactly one approval for each step before
  its current one, in step order, plus the decision that closed it when it was approved or
  rejected; an approved request has passed all its steps; a pending one is at step 1; and
  \<open>resolvedAt\<close> is set exactly when the request is no longer open.\<close>

theorem approval_log_complete:
  assumes "reachable app_registry w" and "r \<in> set (t_request_items (w_db w))"
  shows "log_ok r (log_of (w_db w) (ri_id r)) \<and>
    (ri_resolved_at r = None \<longleftrightarrow> open_status (ri_status r))"
  using engine_invD [OF app.reachable_inv [OF assms(1)] assms(2)] by (simp add: item_ok_def)

theorem approval_log_complete_witness:
  "map ra_step (log_of (w_db w_approved) ''d'') = [1] \<and> ri_resolved_at approved_request \<noteq> None"
proof -
  have "log_ok approved_request (log_of (w_db w_approved) (ri_id approved_request)) \<and>
    (ri_resolved_at approved_request = None \<longleftrightarrow> open_status (ri_status approved_request))"
    using approved_reachable by (rule approval_log_complete) (simp add: approved_items)
  then have "map (\<lambda>a. (ra_step a, ra_decision a)) (log_of (w_db w_approved) ''d'') = [(1, Dec_approved)]"
    by (simp add: log_ok_def closing_def approved_request_def alice_request_def)
  from arg_cong [OF this, of "map fst"] show ?thesis
    by (simp add: comp_def approved_request_def)
qed

text \<open>C2: Along any run from a reachable state a request never disappears; everything that was
  submitted (its type, requester, payload, priority, the times of submission and creation, the expiry, the SLA hours and
  deadline, and the number of steps) never changes; its status only
  moves forward (pending, in review, decided) and its current step never goes back; once it is
  approved, rejected, cancelled or expired no operation changes it any more; and the approval
  log only grows.\<close>

theorem request_evolution:
  assumes "reachable app_registry w" and "(engine_step app_registry)\<^sup>*\<^sup>* w w'"
    and "r \<in> set (t_request_items (w_db w))"
  shows "(\<exists>r' \<in> set (t_request_items (w_db w')).
      ri_id r' = ri_id r \<and> ri_type r' = ri_type r \<and> ri_requester r' = ri_requester r \<and>
      ri_payload r' = ri_payload r \<and> ri_priority r' = ri_priority r \<and> ri_submitted_at r' = ri_submitted_at r \<and>
      ri_created_at r' = ri_created_at r \<and> ri_expires_at r' = ri_expires_at r \<and> ri_sla_hours r' = ri_sla_hours r \<and>
      ri_sla_deadline r' = ri_sla_deadline r \<and> ri_total_steps r' = ri_total_steps r \<and>
      status_rank (ri_status r) \<le> status_rank (ri_status r') \<and> ri_current_step r \<le> ri_current_step r' \<and>
      (open_status (ri_status r) \<or> r' = r)) \<and>
    (\<exists>apps. t_request_approvals (w_db w') = t_request_approvals (w_db w) @ apps)"
proof -
  have ev: "world_evolves w w'"
    using app.run_evolves [OF assms(2,1)] by simp
  then obtain r' where r': "r' \<in> set (t_request_items (w_db w'))" and e: "evolves r r'"
    using assms(3) unfolding world_evolves_def by blast
  from e have "ri_id r' = ri_id r \<and> ri_type r' = ri_type r \<and> ri_requester r' = ri_requester r \<and>
      ri_payload r' = ri_payload r \<and> ri_priority r' = ri_priority r \<and> ri_submitted_at r' = ri_submitted_at r \<and>
      ri_created_at r' = ri_created_at r \<and> ri_expires_at r' = ri_expires_at r \<and> ri_sla_hours r' = ri_sla_hours r \<and>
      ri_sla_deadline r' = ri_sla_deadline r \<and> ri_total_steps r' = ri_total_steps r \<and>
      status_rank (ri_status r) \<le> status_rank (ri_status r') \<and> ri_current_step r \<le> ri_current_step r' \<and>
      (open_status (ri_status r) \<or> r' = r)"
    unfolding evolves_def submitted_part_def by auto
  with r' have "\<exists>r' \<in> set (t_request_items (w_db w')).
      ri_id r' = ri_id r \<and> ri_type r' = ri_type r \<and> ri_requester r' = ri_requester r \<and>
      ri_payload r' = ri_payload r \<and> ri_priority r' = ri_priority r \<and> ri_submitted_at r' = ri_submitted_at r \<and>
      ri_created_at r' = ri_created_at r \<and> ri_expires_at r' = ri_expires_at r \<and> ri_sla_hours r' = ri_sla_hours r \<and>
      ri_sla_deadline r' = ri_sla_deadline r \<and> ri_total_steps r' = ri_total_steps r \<and>
      status_rank (ri_status r) \<le> status_rank (ri_status r') \<and> ri_current_step r \<le> ri_current_step r' \<and>
      (open_status (ri_status r) \<or> r' = r)" by (rule rev_bexI)
  with ev show ?thesis unfolding world_evolves_def by blast
qed

theorem request_evolution_witness:
  "\<exists>r' \<in> set (t_request_items (w_db w_approved)). ri_requester r' = ''alice'' \<and> 1 \<le> ri_current_step r'"
proof -
  have "engine_step app_registry w_submitted w_approved"
    by (rule step_approve [OF approve_run])
  then have "(engine_step app_registry)\<^sup>*\<^sup>* w_submitted w_approved" ..
  from request_evolution [OF submitted_reachable this, of alice_request] show ?thesis
    by (auto simp: submitted_simps alice_request_def)
qed

section \<open>Approval\<close>

text \<open>C3: When an approval returns, then (with the permission cache in agreement with the
  tables and the permission query available) the request existed and was open, the requester
  is not the separation-of-duties subject (the actor, or the delegator the actor stands in
  for), and the actor or that delegator holds the permission of the request's current step
  through an unexpired role assignment.\<close>

theorem approve_authorized:
  assumes "approve app_registry rid note actor w = (Inr row, w')"
    and "cache_sound w" and "\<not> w_perm_outage w"
  shows "\<exists>r def deleg. find_where (\<lambda>r. ri_id r = rid) (t_request_items (w_db w)) = Some r \<and>
    open_status (ri_status r) \<and> map_of app_registry (ri_type r) = Some def \<and>
    deleg = find_where (delegation_active (ac_sub actor) (w_now w)) (t_delegations (w_db w)) \<and>
    ri_requester r \<noteq> sod_subject actor deleg \<and>
    (holds (w_db w) (w_now w) (ac_sub actor) (step_permission def (ri_current_step r)) \<or>
     (\<exists>g. deleg = Some g \<and> holds (w_db w) (w_now w) (ad_from g) (step_permission def (ri_current_step r))))"
proof -
  from assms(1) obtain ctx where may: "may_decide app_registry rid actor w ctx"
    and perm: "cache_sound w \<Longrightarrow> \<not> w_perm_outage w \<Longrightarrow> permitted actor ctx w"
    by (rule app.approve_success) (rule that; assumption)
  then show ?thesis
    using may_decide_app [OF may] perm [OF assms(2,3)]
    by (intro exI [of _ "dx_request ctx"] exI [of _ "dx_def ctx"] exI [of _ "dx_delegation ctx"])
      (auto simp: may_decide_def permitted_def Let_def split: option.splits)
qed

theorem approve_authorized_witness:
  "holds submitted_db 1000 ''root'' ''requests.approve'' \<and> ri_requester alice_request \<noteq> ''root''"
  using approve_authorized [OF approve_run base_cache_sound]
  by (auto simp: submitted_simps alice_request_def catalog_registered catalog_fields step_permission_def
      sod_subject_def user_def)

text \<open>C4: What an approval that returns has done, table by table.  The approval of the current step was
  appended to the log.  Of the request only the status, the current step, the resolution time and note
  and the update time changed: on the last step it is approved and resolved with the note,
  before it the request moved to the next step and is in review; no other request changed.
  Exactly one outbox event (\<open>request.approved\<close> or \<open>request.step_approved\<close>) and one pending
  delivery per active matching webhook subscription were written, and to the outbox of notifications rows were
  at most added.  All tables outside the engine (\<open>domain_view\<close>) changed by exactly one run of the approval hook of the
  request's type on the last step, and not at all before it.\<close>

theorem approve_effect:
  assumes "approve app_registry rid note actor w = (Inr row, w')"
  shows "\<exists>r def a f. find_where (\<lambda>r. ri_id r = rid) (t_request_items (w_db w)) = Some r \<and>
    map_of app_registry (ri_type r) = Some def \<and> row = Some (f r) \<and>
    ra_request a = rid \<and> ra_step a = ri_current_step r \<and> ra_approver a = ac_sub actor \<and>
    ra_decision a = Dec_approved \<and> ra_note a = note \<and> ra_decided_at a = w_now w \<and>
    f = (if is_final_step def (ri_current_step r)
         then (\<lambda>x. x\<lparr>ri_status := Req_approved, ri_current_step := ri_current_step r, ri_assignee := ri_assignee r,
           ri_resolved_at := Some (w_now w), ri_resolution_note := note, ri_updated_at := w_now w\<rparr>)
         else (\<lambda>x. x\<lparr>ri_status := Req_in_review, ri_current_step := ri_current_step r + 1, ri_assignee := ri_assignee r,
           ri_resolved_at := None, ri_resolution_note := None, ri_updated_at := w_now w\<rparr>)) \<and>
    transition (update_where (\<lambda>x. ri_id x = rid) f) [a]
       (if is_final_step def (ri_current_step r) then ''request.approved'' else ''request.step_approved'') rid
       (approval_payload def r actor) w w' \<and>
    outbox_grows w w' \<and>
    (if is_final_step def (ri_current_step r)
     then domain_step (td_on_approve def (ri_payload r) rid (ac_sub actor)) w w'
     else domain_view (w_db w') = domain_view (w_db w))"
proof -
  from assms obtain ctx nxt i v v' where may: "may_decide app_registry rid actor w ctx"
    and n: "next_assignee ctx v = (Inr nxt, v')"
    and tr: "transition (update_where (\<lambda>x. ri_id x = rid) (approved_row ctx note nxt (w_now w)))
       [decision_row ctx Dec_approved note actor i (w_now w)] (approval_event (dx_def ctx) (dx_request ctx)) rid
       (approval_payload (dx_def ctx) (dx_request ctx) actor) w w'"
    and row: "row = Some (approved_row ctx note nxt (w_now w) (dx_request ctx))"
    by (rule app.approve_success) (rule that; assumption)
  let ?r = "dx_request ctx" and ?def = "dx_def ctx" and ?f = "approved_row ctx note nxt (w_now w)"
  have found: "find_where (\<lambda>r. ri_id r = rid) (t_request_items (w_db w)) = Some ?r"
    and def: "map_of app_registry (ri_type ?r) = Some ?def"
    using may by (simp_all add: may_decide_def)
  have rid: "ri_id ?r = rid"
    using find_where_SomeD [OF found] by simp
  have "?def \<in> set app_types"
    using def by (simp add: app_registry_lookup)
  then have nxt: "nxt = ri_assignee ?r"
    using n by (simp add: app_next_assignee)
  have f: "?f = (if is_final_step ?def (ri_current_step ?r)
         then (\<lambda>x. x\<lparr>ri_status := Req_approved, ri_current_step := ri_current_step ?r, ri_assignee := ri_assignee ?r,
           ri_resolved_at := Some (w_now w), ri_resolution_note := note, ri_updated_at := w_now w\<rparr>)
         else (\<lambda>x. x\<lparr>ri_status := Req_in_review, ri_current_step := ri_current_step ?r + 1, ri_assignee := ri_assignee ?r,
           ri_resolved_at := None, ri_resolution_note := None, ri_updated_at := w_now w\<rparr>))"
    by (simp add: fun_eq_iff approved_row_def nxt Let_def)
  from clean.approve_domain [OF assms] found def
  have step: "domain_step (if is_final_step ?def (ri_current_step ?r)
      then td_on_approve ?def (ri_payload ?r) rid (ac_sub actor) else mret ()) w w'"
    by auto
  show ?thesis
    using tr step unfolding approval_event_def
    by (intro exI [of _ ?r] exI [of _ ?def] exI [of _ "decision_row ctx Dec_approved note actor i (w_now w)"]
          exI [of _ ?f] conjI found def row f app_approve_grows [OF assms])
      (auto simp: decision_row_def rid undisturbed_def)
qed

theorem approve_effect_witness:
  "t_request_items (w_db w_approved) = [approved_request] \<and>
   length (t_request_approvals (w_db w_approved)) = 1 \<and> length (t_outbox_events (w_db w_approved)) = 2"
  using approve_effect [OF approve_run] approved_items
  by (auto simp: transition_def published_def submitted_simps) (simp_all add: submitted_db_def)

section \<open>Rejection, cancellation, submission\<close>

text \<open>C5: When a rejection returns, the request was open, the requester is not the
  separation-of-duties subject, the actor or the delegator holds the permission of the current
  step (with the cache in agreement with the tables); the request is now rejected with the
  note, whatever step it had reached, the rejection is in the log, no other request changed,
  and one \<open>request.rejected\<close> event was written with its deliveries.\<close>

theorem reject_contract:
  assumes "reject app_registry rid note actor w = (Inr row, w')"
    and "cache_sound w" and "\<not> w_perm_outage w"
  shows "\<exists>r def a. find_where (\<lambda>r. ri_id r = rid) (t_request_items (w_db w)) = Some r \<and>
    open_status (ri_status r) \<and> map_of app_registry (ri_type r) = Some def \<and>
    ri_requester r \<noteq> sod_subject actor (find_where (delegation_active (ac_sub actor) (w_now w)) (t_delegations (w_db w))) \<and>
    (holds (w_db w) (w_now w) (ac_sub actor) (step_permission def (ri_current_step r)) \<or>
     (\<exists>g. find_where (delegation_active (ac_sub actor) (w_now w)) (t_delegations (w_db w)) = Some g \<and>
          holds (w_db w) (w_now w) (ad_from g) (step_permission def (ri_current_step r)))) \<and>
    row = Some (r\<lparr>ri_status := Req_rejected, ri_resolved_at := Some (w_now w), ri_resolution_note := note,
                  ri_updated_at := w_now w\<rparr>) \<and>
    ra_step a = ri_current_step r \<and> ra_decision a = Dec_rejected \<and> ra_approver a = ac_sub actor \<and>
    transition (update_where (\<lambda>x. ri_id x = rid) (rejected_row note (w_now w))) [a] ''request.rejected'' rid
      [(''requestId'', JStr rid), (''type'', JStr (ri_type r)), (''approverId'', JStr (ac_sub actor)),
       (''note'', jstr_or_null note)] w w'"
proof -
  from assms(1) obtain ctx i where may: "may_decide app_registry rid actor w ctx"
    and perm: "cache_sound w \<Longrightarrow> \<not> w_perm_outage w \<Longrightarrow> permitted actor ctx w"
    and tr: "transition (update_where (\<lambda>x. ri_id x = rid) (rejected_row note (w_now w)))
       [decision_row ctx Dec_rejected note actor i (w_now w)] ''request.rejected'' rid
       [(''requestId'', JStr rid), (''type'', JStr (ri_type (dx_request ctx))), (''approverId'', JStr (ac_sub actor)),
        (''note'', jstr_or_null note)] w w'"
    and row: "row = Some (rejected_row note (w_now w) (dx_request ctx))"
    by (rule app.reject_success) (rule that; assumption)
  show ?thesis
    using may perm [OF assms(2,3)] may_decide_app [OF may] tr row
    by (intro exI [of _ "dx_request ctx"] exI [of _ "dx_def ctx"]
          exI [of _ "decision_row ctx Dec_rejected note actor i (w_now w)"])
      (auto simp: may_decide_def permitted_def rejected_row_def decision_row_def Let_def split: option.splits)
qed

theorem reject_contract_witness: "holds submitted_db 1000 ''root'' ''requests.approve''"
proof -
  have run: "reject app_registry ''d'' (Some ''no'') (user ''root'') w_submitted =
      (Inr (Some (alice_request\<lparr>ri_status := Req_rejected, ri_resolved_at := Some 1000, ri_resolution_note := Some ''no''\<rparr>)),
       snd (reject app_registry ''d'' (Some ''no'') (user ''root'') w_submitted))"
    using reject_run by (simp add: prod_eq_iff)
  have "w_cache w_submitted = empty_cache" "\<not> w_perm_outage w_submitted"
    by (simp_all add: submitted_simps)
  from reject_contract [OF run base_cache_sound [OF this(1)] this(2)] show ?thesis
    by (auto simp: submitted_simps alice_request_fields catalog_registered catalog_fields step_permission_def user_def)
qed

text \<open>A cancellation that returns was made by the requester or by somebody holding
  \<open>rbac.manage\<close>, on a request that was still open; the request is now cancelled and resolved,
  no approval was logged, no other request changed, and one \<open>request.cancelled\<close> event was
  written with its deliveries.\<close>

theorem cancel_contract:
  assumes "cancel app_registry rid actor w = (Inr row, w')"
    and "cache_sound w" and "\<not> w_perm_outage w"
  shows "\<exists>r. find_where (\<lambda>x. ri_id x = rid) (t_request_items (w_db w)) = Some r \<and>
    open_status (ri_status r) \<and>
    (ri_requester r = ac_sub actor \<or> holds (w_db w) (w_now w) (ac_sub actor) ''rbac.manage'') \<and>
    row = Some (r\<lparr>ri_status := Req_cancelled, ri_resolved_at := Some (w_now w), ri_updated_at := w_now w\<rparr>) \<and>
    transition (update_where (\<lambda>x. ri_id x = rid) (closed_row Req_cancelled (w_now w))) [] ''request.cancelled'' rid
      [(''requestId'', JStr rid), (''type'', JStr (ri_type r)), (''cancelledBy'', JStr (ac_sub actor))] w w'"
  using assms(1)
  by (rule app.cancel_success) (use assms(2,3) in \<open>auto simp: closed_row_def\<close>)

theorem cancel_contract_witness:
  "t_request_items (w_db (snd (cancel app_registry ''d'' (user ''alice'') w_submitted))) =
     [alice_request\<lparr>ri_status := Req_cancelled, ri_resolved_at := Some 1000\<rparr>]"
proof -
  have run: "cancel app_registry ''d'' (user ''alice'') w_submitted =
      (Inr (Some (alice_request\<lparr>ri_status := Req_cancelled, ri_resolved_at := Some 1000\<rparr>)),
       snd (cancel app_registry ''d'' (user ''alice'') w_submitted))"
    using cancel_run by (simp add: prod_eq_iff)
  have "w_cache w_submitted = empty_cache" "\<not> w_perm_outage w_submitted"
    by (simp_all add: submitted_simps)
  from cancel_contract [OF run base_cache_sound [OF this(1)] this(2)] show ?thesis
    by (auto simp: submitted_simps alice_request_fields transition_def closed_row_def)
qed

text \<open>C6: A submission of a registered type that returns has created one request under a
  fresh identifier: pending, at step 1 of the type's number of steps, with the type's expiry
  window unless the caller gave one and the type's SLA deadline, both counted from now; and
  one \<open>request.submitted\<close> event was written with its deliveries.\<close>

theorem submit_contract:
  assumes "submit app_registry type payload actor opts w = (Inr row, w')" and "inj (w_uuid w)"
  shows "\<exists>def n. map_of app_registry type = Some def \<and> w_next w \<le> n \<and> n < w_next w' \<and>
    ri_id row = w_uuid w n \<and> ri_id row \<notin> w_uuid w ` {..<w_next w} \<and>
    ri_status row = Req_pending \<and> ri_requester row = ac_sub actor \<and> ri_payload row = payload \<and>
    ri_current_step row = 1 \<and> ri_total_steps row = total_steps def \<and>
    ri_expires_at row = (case so_expires_at opts of Some e \<Rightarrow> Some e
                         | None \<Rightarrow> Some (w_now w + the (td_expiry_hours def) * 3600000)) \<and>
    ri_sla_deadline row = Some (w_now w + the (td_sla_hours def) * 3600000) \<and>
    transition (insert_row row) [] ''request.submitted'' (ri_id row)
      [(''requestId'', JStr (ri_id row)), (''type'', JStr type), (''requesterId'', JStr (ac_sub actor)),
       (''priority'', JStr (priority_name (ri_priority row)))] w w'"
proof -
  obtain def where def: "map_of app_registry type = Some def"
    using assms(1) by (auto simp: submit_def registry_get_def split: option.splits)
  have hours: "hours_after t (td_expiry_hours def) = Some (t + the (td_expiry_hours def) * 3600000)"
      "hours_after t (td_sla_hours def) = Some (t + the (td_sla_hours def) * 3600000)" for t
    using def by (auto simp: app_registry_lookup app_types_def type_defs hours_after_def)
  from request_hooks.submit_success [OF app.registered [OF def] def assms(1)] obtain n where
    n: "w_next w \<le> n" "n < w_next w'" and row: "row = new_request (w_uuid w n) (w_now w) def type payload actor opts"
    and tr: "transition (insert_row row) [] ''request.submitted'' (ri_id row)
      [(''requestId'', JStr (ri_id row)), (''type'', JStr type), (''requesterId'', JStr (ac_sub actor)),
       (''priority'', JStr (priority_name (ri_priority row)))] w w'"
    by blast
  have "w_uuid w n \<notin> w_uuid w ` {..<w_next w}"
    using assms(2) n by (auto dest: injD)
  with def n row tr show ?thesis
    by (intro exI [of _ def] exI [of _ n]) (auto simp: new_request_def hours split: option.split)
qed

theorem submit_contract_witness: "ri_id alice_request \<notin> sample_uuid ` {..<0} \<and> ri_total_steps alice_request = 1"
proof -
  have "inj (w_uuid base_world)" by (simp add: base_world_def inj_sample_uuid)
  from submit_contract [OF submit_run this] show ?thesis
    by (auto simp: catalog_registered catalog_fields total_steps_def)
qed

text \<open>C7: Submit, approve, reject, cancel and expire are atomic: when one of them throws,
  whatever the reason, every table of the database is as it was before the call.\<close>

theorem transitions_atomic:
  "atomic_failure (submit reg type payload actor opts) \<and> atomic_failure (approve reg rid note actor) \<and>
   atomic_failure (reject reg rid note actor) \<and> atomic_failure (cancel reg rid actor) \<and>
   atomic_failure (expire reg rid)"
  by (intro conjI submit_failure approve_failure reject_failure cancel_failure expire_failure)

section \<open>The expiry timer and the listing\<close>

text \<open>Without a registered type every expiry ends in an exception before it has written anything.\<close>

lemma worker_expire: "expire_one worker_registry rid w = (Inr (), w)"
  by (simp add: expire_one_def mtry_def expire_def getOrFail_def registry_get_def worker_registry_def
      split: option.split)

lemma worker_tick: "expiry_tick worker_registry w = (Inr (), w)"
proof -
  have "mfor ids (expire_one worker_registry) w = (Inr (), w)" for ids
    by (induction ids) (simp_all add: mbind_eq [OF worker_expire])
  then show ?thesis
    by (simp add: expiry_tick_def findExpired_def)
qed



text \<open>C9: Listing requests (the unified inbox) returns the page of the matching requests,
  newest first, with the total number of matches; the approvals of the page are loaded by one
  query and regrouped in memory, and every row comes with exactly the approvals, in the same
  order, that reading that request alone returns.\<close>

theorem list_requests_batch:
  assumes "reachable app_registry w"
  shows "\<exists>rows. list_requests f actorId lim off w =
      (Inr (rows, length (select_where (request_matches f actorId) (t_request_items (w_db w)))), w) \<and>
    map fst rows = page lim off (sort_key (\<lambda>r. - ri_created_at r)
      (select_where (request_matches f actorId) (t_request_items (w_db w)))) \<and>
    (\<forall>(r, approvals) \<in> set rows. getById (ri_id r) w = (Inr (Some (r, approvals)), w))"
proof -
  have "find_where (\<lambda>x. ri_id x = ri_id r) (t_request_items (w_db w)) = Some r"
    if "r \<in> set (request_page f actorId lim off (w_db w))" for r
    using request_page_subset [OF that] engine_invD(3) [OF app.reachable_inv [OF assms]] by blast
  then show ?thesis
    by (auto simp: list_requests_apply getById_apply request_page_def comp_def)
qed

theorem list_requests_batch_witness:
  "\<exists>rows. list_requests \<lparr>rf_type = None, rf_requester = None, rf_assignee = None,
      rf_status = None, rf_my_queue = False\<rparr> ''bob'' 10 0 w_approved = (Inr (rows, 1), w_approved) \<and>
     (\<forall>(r, approvals) \<in> set rows. getById (ri_id r) w_approved = (Inr (Some (r, approvals)), w_approved))"
proof -
  let ?f = "\<lparr>rf_type = None, rf_requester = None, rf_assignee = None, rf_status = None, rf_my_queue = False\<rparr>"
  have n: "length (select_where (request_matches ?f ''bob'') (t_request_items (w_db w_approved))) = 1"
    by (simp add: approved_items select_where_def request_matches_def)
  show ?thesis
    using list_requests_batch [OF approved_reachable, of ?f "''bob''" 10 0] unfolding n by blast
qed

section \<open>Completeness, and two ways around the separation of duties\<close>

text \<open>C10: An approval that is authorized goes through: if the request is open and of a
  registered type, the requester is not the separation-of-duties subject, and the actor or the
  delegator holds the step's permission, then approve returns the updated request.  No hook
  of the six types can make it fail.\<close>

theorem approve_complete:
  assumes "find_where (\<lambda>r. ri_id r = rid) (t_request_items (w_db w)) = Some r"
    and "open_status (ri_status r)" and "map_of app_registry (ri_type r) = Some def"
    and "deleg = find_where (delegation_active (ac_sub actor) (w_now w)) (t_delegations (w_db w))"
    and "ri_requester r \<noteq> sod_subject actor deleg"
    and "holds (w_db w) (w_now w) (ac_sub actor) (step_permission def (ri_current_step r)) \<or>
      (\<exists>g. deleg = Some g \<and> holds (w_db w) (w_now w) (ad_from g) (step_permission def (ri_current_step r)))"
    and "cache_sound w" and "\<not> w_perm_outage w"
  shows "\<exists>r' w'. approve app_registry rid note actor w = (Inr (Some r'), w') \<and> ri_id r' = rid \<and>
    ri_status r' = (if is_final_step def (ri_current_step r) then Req_approved else Req_in_review)"
proof -
  obtain ctx w1 where "approve_guard app_registry rid actor w = (Inr ctx, w1)"
    using app.approve_guard_complete [OF assms(1-4) _ assms(6-8)] assms(5) by blast
  then obtain row w' where run: "approve app_registry rid note actor w = (Inr row, w')"
    using app.approve_returns by blast
  from run obtain ctx nxt where may: "may_decide app_registry rid actor w ctx"
    and row: "row = Some (approved_row ctx note nxt (w_now w) (dx_request ctx))"
    by (rule app.approve_success) (rule that; assumption)
  have "dx_request ctx = r" and "dx_def ctx = def"
    using may assms(1,3) by (auto simp: may_decide_def)
  moreover have "ri_id r = rid"
    using find_where_SomeD [OF assms(1)] by simp
  ultimately show ?thesis
    using run row by (auto simp: approved_row_def Let_def)
qed

theorem approve_complete_witness:
  "\<exists>r' w'. approve app_registry ''d'' None (user ''root'') w_submitted = (Inr (Some r'), w') \<and> ri_status r' = Req_approved"
proof -
  have "holds (w_db w_submitted) (w_now w_submitted) (ac_sub (user ''root''))
      (step_permission catalog_request_def (ri_current_step alice_request))"
    by (simp add: submitted_simps holds_submitted user_def)
  then have "\<exists>r' w'. approve app_registry ''d'' None (user ''root'') w_submitted = (Inr (Some r'), w') \<and> ri_id r' = ''d'' \<and>
      ri_status r' = (if is_final_step catalog_request_def (ri_current_step alice_request) then Req_approved else Req_in_review)"
    by (intro approve_complete [where r = alice_request and deleg = None] disjI1 base_cache_sound)
      (simp_all add: submitted_simps alice_request_fields open_status_def catalog_registered sod_subject_def user_def)
  then show ?thesis
    by (auto simp: is_final_step_def catalog_fields)
qed

text \<open>Delegation lifts the separation of duties: a requester to whom an approver has
  delegated (an active delegation, the first one found) can approve the own request with the
  delegator's permission, because only the delegator is compared with the requester.  The
  approval is logged under the requester's own id.\<close>

theorem requester_approves_own_request:
  assumes "find_where (\<lambda>r. ri_id r = rid) (t_request_items (w_db w)) = Some r"
    and "open_status (ri_status r)" and "map_of app_registry (ri_type r) = Some def"
    and "find_where (delegation_active (ri_requester r) (w_now w)) (t_delegations (w_db w)) = Some g"
    and "ad_from g \<noteq> ri_requester r"
    and "holds (w_db w) (w_now w) (ad_from g) (step_permission def (ri_current_step r))"
    and "cache_sound w" and "\<not> w_perm_outage w" and "ac_sub actor = ri_requester r"
  shows "\<exists>row w' a. approve app_registry rid note actor w = (Inr row, w') \<and>
    t_request_approvals (w_db w') = t_request_approvals (w_db w) @ [a] \<and>
    ra_decision a = Dec_approved \<and> ra_approver a = ri_requester r"
proof -
  have "ri_requester r \<noteq> sod_subject actor (Some g)"
    using assms(5) by (simp add: sod_subject_def)
  then obtain ctx w1 where "approve_guard app_registry rid actor w = (Inr ctx, w1)"
    using app.approve_guard_complete [OF assms(1-3) refl _ _ assms(7,8), of actor] assms(4,6,9) by auto
  then obtain row w' where run: "approve app_registry rid note actor w = (Inr row, w')"
    using app.approve_returns by blast
  from run obtain ctx i where
    "t_request_approvals (w_db w') = t_request_approvals (w_db w) @ [decision_row ctx Dec_approved note actor i (w_now w)]"
    by (rule app.approve_success) (rule that, simp add: transition_def)
  with run assms(9) show ?thesis
    by (intro exI [of _ row] exI [of _ w'] exI [of _ "decision_row ctx Dec_approved note actor i (w_now w)"])
      (simp add: decision_row_def)
qed

theorem requester_approves_own_request_witness:
  "\<exists>row w' a. approve app_registry ''d'' None (user ''alice'') w_delegated = (Inr row, w') \<and>
     t_request_approvals (w_db w') = [a] \<and> ra_approver a = ''alice''"
proof -
  have "holds (w_db w_delegated) (w_now w_delegated) ''root'' (step_permission catalog_request_def (ri_current_step alice_request))"
    by (rule holds_delegated)
  then have "\<exists>row w' a. approve app_registry ''d'' None (user ''alice'') w_delegated = (Inr row, w') \<and>
     t_request_approvals (w_db w') = t_request_approvals (w_db w_delegated) @ [a] \<and>
     ra_decision a = Dec_approved \<and> ra_approver a = ri_requester alice_request"
    by (intro requester_approves_own_request [where def = catalog_request_def and g = root_delegation] base_cache_sound)
      (simp_all add: delegated_simps alice_request_fields open_status_def catalog_registered user_def
        root_delegation_def delegation_active_def)
  then show ?thesis
    by (auto simp: delegated_simps alice_request_fields)
qed

text \<open>The checks of an approval are not repeated inside its transaction: when two
  approvers pass the checks before either of them commits, both transactions commit and the
  log holds two approvals of the same step of the request.\<close>

theorem concurrent_approvals_both_commit:
  assumes "approve_guard app_registry rid a1 w = (Inr c1, w1)"
    and "approve_guard app_registry rid a2 w1 = (Inr c2, w2)"
  shows "\<exists>row1 w3 row2 w4 x y. approve_tx c1 n1 a1 w2 = (Inr row1, w3) \<and> approve_tx c2 n2 a2 w3 = (Inr row2, w4) \<and>
    t_request_approvals (w_db w4) = t_request_approvals (w_db w) @ [x, y] \<and>
    ra_request x = rid \<and> ra_request y = rid \<and> ra_step y = ra_step x \<and>
    ra_approver x = ac_sub a1 \<and> ra_approver y = ac_sub a2 \<and>
    ra_decision x = Dec_approved \<and> ra_decision y = Dec_approved"
  by (rule app.approve_twice [OF assms])

theorem concurrent_approvals_both_commit_witness:
  "\<exists>c1 c2 w2 row1 w3 row2 w4. approve_tx c1 None (user ''root'') w2 = (Inr row1, w3) \<and>
     approve_tx c2 None (user ''root'') w3 = (Inr row2, w4) \<and> length (t_request_approvals (w_db w4)) = 2"
proof -
  have guard: "\<exists>w'. approve_guard app_registry ''d'' (user ''root'') w = (Inr \<lparr>dx_request = alice_request,
        dx_def = catalog_request_def, dx_delegation = None\<rparr>, w') \<and> quiet w w' \<and> w_db w' = w_db w \<and>
        cache_sound w' \<and> \<not> w_perm_outage w'"
    if "w_db w = submitted_db" "cache_sound w" "\<not> w_perm_outage w" for w
    using that
    by (intro app.approve_guard_complete)
      (simp_all add: submitted_simps alice_request_fields open_status_def catalog_registered sod_subject_def
        holds_submitted user_def)
  obtain w1 where g1: "approve_guard app_registry ''d'' (user ''root'') w_submitted = (Inr \<lparr>dx_request = alice_request,
        dx_def = catalog_request_def, dx_delegation = None\<rparr>, w1)"
    and w1: "w_db w1 = submitted_db" "cache_sound w1" "\<not> w_perm_outage w1"
    using guard [of w_submitted] base_cache_sound by (auto simp: submitted_simps)
  obtain w2 where g2: "approve_guard app_registry ''d'' (user ''root'') w1 = (Inr \<lparr>dx_request = alice_request,
        dx_def = catalog_request_def, dx_delegation = None\<rparr>, w2)"
    using guard [OF w1] by blast
  from concurrent_approvals_both_commit [OF g1 g2, of None None] show ?thesis
    by (elim exE conjE) (intro exI conjI, assumption+, simp add: submitted_simps)
qed

end
