(* ===== verification/Authz_Claims.thy ===== *)
theory Authz_Claims
  imports Scenario
begin

text \<open>The properties of authorization and delegation, applied to the sample world.\<close>

lemma base_cold: "cold u base_world"
  by (simp add: cold_def cache_get_perms_def base_world_def empty_cache_def)

lemma base_fields:
  "w_db base_world = base_db" "w_now base_world = 1000" "w_perm_outage base_world = False"
  "c_enabled (w_cache base_world) = True"
  by (simp_all add: base_world_def empty_cache_def)

lemma holds_base: "holds base_db t ''root'' p"
  by (rule holds_root) simp_all

lemma not_holds_base: "\<not> holds base_db t ''alice'' p"
  by (simp add: holds_def base_db_def)

definition root_token :: jwt_payload where
  "root_token = \<lparr>jw_jti = ''s1'', jw_sub = ''root'', jw_email = ''root@x'', jw_roles = [''admin''], jw_name = ''Root'', jw_exp = 900\<rparr>"

section \<open>The permission check and its cache\<close>

text \<open>C12: The permission guard of a route lets a principal pass exactly when the principal has
  an unexpired assignment of a role that carries the permission or the wildcard, with a scope
  that covers the route's resource when the route names one; otherwise it answers the 403
  exception.  (No live cache entry, database available.)\<close>

theorem policy_guard_decides:
  assumes "cold (jw_sub v) w" and "\<not> w_perm_outage w"
  shows "fst (policy_guard (Some r) (Some v) w) =
     (if (case pr_scope_from r of
            None \<Rightarrow> holds (w_db w) (w_now w) (jw_sub v) (pr_permission r)
          | Some res \<Rightarrow> holds_on (w_db w) (w_now w) (jw_sub v) (pr_permission r) res v)
      then Inr True
      else Inl (PermissionDeniedException (''Missing permission: '' @ pr_permission r)))"
  by (rule policy_guard_cold [OF assms])

theorem policy_guard_decides_witness:
  "fst (policy_guard (Some \<lparr>pr_permission = ''assets.read'', pr_scope_from = None\<rparr>) (Some root_token) base_world) = Inr True"
  by (subst policy_guard_decides) (simp_all add: base_cold base_fields root_token_def holds_base)

text \<open>
  Any run of checks and writes: the history holds every state the tables have had, with its time.  In
  between, the clock moves and the tables change in any way, entries of the permission cache are kept or dropped (by
  an invalidation or by Redis), and the permission query may fail; any
  resolution, check or invalidation runs, for any user.  A lookup of the tables and the write of its
  result to the cache are one step.
\<close>

type_synonym history = "(timestamp \<times> db) list"

inductive perm_run :: "history \<Rightarrow> world \<Rightarrow> bool" where
  perm_start: "c_perms (w_cache w) = Map.empty \<Longrightarrow> perm_run [(w_now w, w_db w)] w"
| perm_write: "perm_run H w \<Longrightarrow> w_now w \<le> w_now w' \<Longrightarrow> c_enabled (w_cache w') = c_enabled (w_cache w) \<Longrightarrow>
    c_perms (w_cache w') \<subseteq>\<^sub>m c_perms (w_cache w) \<Longrightarrow> perm_run ((w_now w', w_db w') # H) w'"
| perm_resolve: "perm_run H w \<Longrightarrow> resolve u w = (r, w') \<Longrightarrow> perm_run H w'"
| perm_check: "perm_run H w \<Longrightarrow> check_on u p res usr w = (b, w') \<Longrightarrow> perm_run H w'"
| perm_invalidate: "perm_run H w \<Longrightarrow> invalidate u w = (x, w') \<Longrightarrow> perm_run H w'"

text \<open>Every entry is what the tables said when its time to live began.\<close>

definition entries_dated :: "history \<Rightarrow> world \<Rightarrow> bool" where
  "entries_dated H w \<longleftrightarrow> (w_now w, w_db w) \<in> set H \<and> (\<forall>(t, d) \<in> set H. t \<le> w_now w) \<and>
     (\<forall>u e until. c_perms (w_cache w) u = Some (e, until) \<longrightarrow>
        (\<exists>(t, d) \<in> set H. until = t + CACHE_TTL_SECONDS * 1000 \<and> e = group_rows (permission_rows u t d)))"

lemma dated_resolve:
  assumes "entries_dated H w" and "resolve u w = (r, w')"
  shows "entries_dated H w'"
  using assms
  by (auto simp: entries_dated_def resolve_def cache_get_perms_def cache_set_perms_def split: option.splits if_splits)
    (force+)?

lemma check_on_state: "snd (check_on u p res usr w) = snd (resolve u w)"
proof -
  obtain e c where r: "resolve u w = (Inr e, w\<lparr>w_cache := c\<rparr>)" by (rule resolve_total)
  show ?thesis
    by (simp add: check_on_def mbind_eq [where m = "resolve u", OF r] r Let_def split: option.split)
qed

lemma perm_run_dated: "perm_run H w \<Longrightarrow> entries_dated H w"
proof (induction rule: perm_run.induct)
  case (perm_start w)
  then show ?case by (simp add: entries_dated_def)
next
  case (perm_write H w w')
  have "\<exists>(t, d) \<in> set ((w_now w', w_db w') # H). until = t + CACHE_TTL_SECONDS * 1000 \<and> e = group_rows (permission_rows u t d)"
    if "c_perms (w_cache w') u = Some (e, until)" for u e until
  proof -
    have "c_perms (w_cache w) u = Some (e, until)"
      using perm_write.hyps(4) that unfolding map_le_def by (metis domI)
    then show ?thesis using perm_write.IH unfolding entries_dated_def by fastforce
  qed
  with perm_write show ?case
    by (auto simp: entries_dated_def)
next
  case (perm_check H w u p res usr b w')
  then have "resolve u w = (fst (resolve u w), w')"
    using check_on_state [of u p res usr w] by (simp add: prod_eq_iff)
  with perm_check.IH show ?case by (rule dated_resolve)
next
  case (perm_invalidate H w u x w')
  then show ?case
    by (auto simp: entries_dated_def invalidate_def split: if_splits)
qed (rule dated_resolve)

text \<open>C13: A permission answer is stale for less than five minutes.  After any run of checks,
  resolutions, invalidations and writes, the answer of a check is what the tables of some moment said
  that is less than 300 seconds ago (or no, when the permission query fails), however often
  the user was checked in between.\<close>

theorem permission_staleness_bound:
  assumes "perm_run H w" and "check u p w = (r, w')"
  shows "\<exists>b. r = Inr b \<and>
    ((\<exists>(t, d) \<in> set H. w_now w - 300 * 1000 < t \<and> t \<le> w_now w \<and> (b \<longleftrightarrow> holds d t u p)) \<or>
     (w_perm_outage w \<and> \<not> b))"
proof -
  have dated: "entries_dated H w" by (rule perm_run_dated [OF assms(1)])
  show ?thesis
  proof (cases "fst (cache_get_perms u w)")
    case (Inl x)
    then show ?thesis by (simp add: cache_get_perms_def)
  next
    case (Inr cached)
    show ?thesis
    proof (cases cached)
      case None
      with Inr have cold: "cold u w" by (simp add: cold_def)
      show ?thesis
      proof (cases "w_perm_outage w")
        case True
        then have "check u p w = (Inr False, w)"
          unfolding check_def by (rule check_fails_closed [OF cold])
        then have "r = Inr False" using assms(2) by simp
        with True show ?thesis by blast
      next
        case False
        have now: "(w_now w, w_db w) \<in> set H" using dated by (simp add: entries_dated_def)
        have "r = Inr (holds (w_db w) (w_now w) u p)"
          using check_cold [OF cold False, of p] assms(2) by simp
        with now show ?thesis by force
      qed
    next
      case (Some e)
      with Inr obtain until where entry: "c_perms (w_cache w) u = Some (e, until)" and live: "w_now w < until"
        by (auto simp: cache_get_perms_def split: if_splits option.splits)
      obtain t d where td: "(t, d) \<in> set H" "until = t + CACHE_TTL_SECONDS * 1000" "e = group_rows (permission_rows u t d)"
        using dated entry unfolding entries_dated_def by blast
      have le: "t \<le> w_now w" using dated td(1) unfolding entries_dated_def by blast
      have "fst (resolve u w) = Inr e"
        using Inr Some by (simp add: resolve_def cache_get_perms_def)
      from check_on_result [OF this, of p None None] have "fst (check u p w) = Inr (holds d t u p)"
        unfolding check_def td(3) by (simp only: Let_def holds_group split_conv option.case simp_thms)
      then have "r = Inr (holds d t u p)" using assms(2) by simp
      moreover have "w_now w - 300 * 1000 < t" using live td(2) by (simp add: CACHE_TTL_SECONDS_def)
      ultimately show ?thesis using td(1) le by blast
    qed
  qed
qed

theorem permission_staleness_bound_witness:
  "\<exists>w1. fst (check ''root'' ''x'' (w1\<lparr>w_db := empty_db, w_now := 400000\<rparr>)) = Inr False \<and> w_db w1 = base_db"
proof -
  obtain e c where r: "resolve ''root'' base_world = (Inr e, base_world\<lparr>w_cache := c\<rparr>)"
    by (rule resolve_total)
  let ?w1 = "base_world\<lparr>w_cache := c\<rparr>" and ?H = "[(400000, empty_db), (1000, base_db)]"
  let ?w2 = "?w1\<lparr>w_db := empty_db, w_now := 400000\<rparr>"
  have "perm_run [(w_now base_world, w_db base_world)] base_world"
    by (rule perm_start) (simp add: base_world_def empty_cache_def)
  from perm_write [OF perm_resolve [OF this r], of ?w2] have run: "perm_run ?H ?w2"
    by (simp add: base_fields)
  have "\<not> holds empty_db t ''root'' p" for t p
    by (simp add: holds_def empty_db_def)
  then have "fst (check ''root'' ''x'' ?w2) = Inr False"
    using permission_staleness_bound [OF run surjective_pairing, of "''root''" "''x''"] by auto
  then show ?thesis
    by (intro exI [of _ ?w1]) (simp add: base_fields)
qed

text \<open>An invalidation makes the next check answer from the tables as they are then,
  whatever the cache held before.\<close>

theorem invalidate_takes_effect:
  assumes "\<not> w_perm_outage w"
  shows "fst (mbind (invalidate u) (\<lambda>_. check u p) w) = Inr (holds (w_db w) (w_now w) u p)"
  using check_after_invalidate [OF assms, of u p]
  by (simp add: mbind_eq [where m = "invalidate u" and x = "()" and s' = "snd (invalidate u w)"]
      invalidate_returns prod_eq_iff)

theorem invalidate_takes_effect_witness:
  "fst (mbind (invalidate ''alice'') (\<lambda>_. check ''alice'' ''x'') base_world) = Inr False"
  by (subst invalidate_takes_effect) (simp_all add: base_fields not_holds_base)

text \<open>Authorization fails closed: when the permission query fails and nothing is cached,
  every check is negative, for any resource, and the guard of a route with a requirement
  refuses everybody, administrators included.\<close>

theorem authorization_fails_closed:
  assumes "w_perm_outage w" and "cold (jw_sub v) w"
  shows "check_on (jw_sub v) p res usr w = (Inr False, w) \<and>
    policy_guard (Some r) (Some v) w =
      (Inl (PermissionDeniedException (''Missing permission: '' @ pr_permission r)), w)"
  using check_fails_closed [OF assms(2,1)]
  by (simp add: policy_guard_def mbind_def)

theorem authorization_fails_closed_witness:
  "fst (check ''root'' ''x'' (base_world\<lparr>w_perm_outage := True\<rparr>)) = Inr False"
proof -
  have "cold (jw_sub root_token) (base_world\<lparr>w_perm_outage := True\<rparr>)"
    by (simp add: cold_def cache_get_perms_def base_world_def empty_cache_def)
  then have "check_on (jw_sub root_token) ''x'' None None (base_world\<lparr>w_perm_outage := True\<rparr>) =
      (Inr False, base_world\<lparr>w_perm_outage := True\<rparr>)"
    using authorization_fails_closed [of "base_world\<lparr>w_perm_outage := True\<rparr>" root_token "''x''" None None] by simp
  then show ?thesis
    by (simp add: check_def root_token_def)
qed

section \<open>Delegations\<close>

text \<open>Delegations stay well formed: a delegation is created only between two different
  users over a non-empty window, nobody but the delegating user can revoke one, and after any
  of the three operations every stored delegation is still between different users with its
  start before its end.\<close>

theorem delegations_stay_wf:
  assumes "delegations_wf (w_db w)"
  shows "delegations_wf (w_db (snd (delegation_create f t s e r w))) \<and>
    delegations_wf (w_db (snd (delegation_revoke i a w))) \<and>
    delegations_wf (w_db (snd (deleteExpiredBefore b w))) \<and>
    (delegation_create f t s e r w = (Inr row, w') \<longrightarrow> f \<noteq> t \<and> s < e \<and> row \<in> set (t_delegations (w_db w'))) \<and>
    (delegation_revoke i a w = (Inr u, w') \<longrightarrow>
       (\<exists>g \<in> set (t_delegations (w_db w)). ad_id g = i \<and> ad_from g = a) \<and>
       t_delegations (w_db w') = delete_where (\<lambda>g. ad_id g = i) (t_delegations (w_db w)))"
proof -
  have "delegation_create f t s e r w = (Inr row, w') \<longrightarrow> f \<noteq> t \<and> s < e \<and> row \<in> set (t_delegations (w_db w'))"
    by (auto simp: delegation_create_def Let_def split: if_splits)
  moreover have "delegation_revoke i a w = (Inr u, w') \<longrightarrow>
       (\<exists>g \<in> set (t_delegations (w_db w)). ad_id g = i \<and> ad_from g = a) \<and>
       t_delegations (w_db w') = delete_where (\<lambda>g. ad_id g = i) (t_delegations (w_db w))"
    by (auto simp: delegation_revoke_def dest!: find_where_SomeD split: option.splits if_splits)
  ultimately show ?thesis
    using delegation_create_wf [OF assms] delegation_revoke_wf [OF assms] deleteExpiredBefore_wf [OF assms] by blast
qed

theorem delegations_stay_wf_witness:
  "delegations_wf (w_db (snd (delegation_create ''root'' ''alice'' 0 5 None base_world)))"
proof -
  have "delegations_wf (w_db base_world)"
    by (simp add: delegations_wf_def base_world_def base_db_def empty_db_def)
  from delegations_stay_wf [OF this] show ?thesis by blast
qed

text \<open>The delegation the engine acts on is addressed to the actor, comes from somebody
  else, and its window covers the present moment; and the retention purge of delegations that
  ended earlier never changes which delegation that is.\<close>

theorem active_delegation_sound:
  assumes "delegations_wf (w_db w)" and "before \<le> w_now w"
    and "deleteExpiredBefore before w = (Inr n, w')"
  shows "fst (findActiveDelegationTo a w') = fst (findActiveDelegationTo a w) \<and>
    (\<forall>g. fst (findActiveDelegationTo a w) = Inr (Some g) \<longrightarrow>
       ad_to g = a \<and> ad_from g \<noteq> a \<and> ad_starts_at g \<le> w_now w \<and> w_now w < ad_ends_at g)"
  using purge_keeps_active [OF assms(2,3), of a] delegation_active_holder [OF assms(1), of a _ w] by auto

theorem active_delegation_sound_witness:
  "fst (findActiveDelegationTo ''alice'' (snd (deleteExpiredBefore 500 w_delegated))) = Inr (Some root_delegation)"
proof -
  have wf: "delegations_wf (w_db w_delegated)"
    by (simp add: delegations_wf_def delegated_simps) (simp add: root_delegation_def)
  have run: "deleteExpiredBefore 500 w_delegated = (Inr 0, snd (deleteExpiredBefore 500 w_delegated))"
    by (simp add: deleteExpiredBefore_def delegated_simps root_delegation_def select_where_def)
  have "fst (findActiveDelegationTo ''alice'' (snd (deleteExpiredBefore 500 w_delegated))) =
      fst (findActiveDelegationTo ''alice'' w_delegated)"
    using active_delegation_sound [OF wf _ run, of "''alice''"] by (simp add: delegated_simps)
  then show ?thesis
    by (simp add: delegated_simps root_delegation_def delegation_active_def)
qed

end
