(* ===== verification/Access_Requests.thy ===== *)
theory Access_Requests
  imports Engine_Domain
begin

text \<open>
  Privileged access (\<^verbatim>\<open>libs/modules/access-requests\<close>): the service over its repository.  A
  request is a row of the module, linked to a request of the engine; the grant is inserted
  by the hook of the engine's last approval, or directly for rows without a link.  The
  definitions whose names start with \<open>access_repo\<close> are the repository's.
\<close>

section \<open>Numbers as text\<close>

text \<open>
  \<^verbatim>\<open>String(n)\<close> is \<open>int_str\<close>; \<^verbatim>\<open>Number(s)\<close> is needed on the decimal integers that were written
  that way, anything else reads as not-a-number.
\<close>

definition js_number :: "string \<Rightarrow> int option" where
  "js_number s =
     (case s of
        [] \<Rightarrow> None
      | c # cs \<Rightarrow>
          if c = CHR ''-'' then (if cs = [] then None else map_option (\<lambda>n. - int n) (digits_value 0 cs))
          else map_option int (digits_value 0 s))"

lemma digit_of_nth: "k < 10 \<Longrightarrow> digit_of (''0123456789'' ! k) = Some k"
  by (cases k rule: nat.exhaust) (auto simp: digit_of_def less_Suc_eq numeral_eq_Suc)

lemma digits_value_append:
  "digits_value acc (s @ t) = (case digits_value acc s of None \<Rightarrow> None | Some a \<Rightarrow> digits_value a t)"
  by (induction s arbitrary: acc) (auto split: option.split)

lemma nat_str_nonempty: "nat_str n \<noteq> []"
  by (subst nat_str.simps) simp

lemma digits_value_nat_str: "digits_value 0 (nat_str n) = Some n"
proof (induction n rule: nat_str.induct)
  case (1 n)
  show ?case
  proof (cases "n < 10")
    case True
    then show ?thesis by (simp add: digit_of_nth)
  next
    case False
    then have "nat_str n = nat_str (n div 10) @ [''0123456789'' ! (n mod 10)]"
      by (subst nat_str.simps) simp
    then show ?thesis
      using 1 False by (simp add: digits_value_append digit_of_nth)
  qed
qed

lemma digit_of_minus: "digit_of (CHR ''-'') = None"
  by (simp add: digit_of_def upt_rec)

lemma hd_nat_str: "hd (nat_str n) \<noteq> CHR ''-''"
proof (induction n rule: nat_str.induct)
  case (1 n)
  show ?case
  proof (cases "n < 10")
    case True
    then have "digit_of (hd (nat_str n)) = Some n" by (simp add: digit_of_nth)
    then show ?thesis using digit_of_minus by auto
  next
    case False
    then have "nat_str n = nat_str (n div 10) @ [''0123456789'' ! (n mod 10)]"
      by (subst nat_str.simps) simp
    with 1 False nat_str_nonempty show ?thesis by simp
  qed
qed

lemma js_number_int_str: "js_number (int_str n) = Some n"
proof (cases "n < 0")
  case True
  then show ?thesis
    by (simp add: js_number_def int_str_def nat_str_nonempty digits_value_nat_str)
next
  case False
  then have s: "int_str n = nat_str (nat n)" by (simp add: int_str_def)
  moreover obtain c cs where "nat_str (nat n) = c # cs"
    using nat_str_nonempty by (cases "nat_str (nat n)") auto
  moreover from this have "c \<noteq> CHR ''-''"
    using hd_nat_str [of "nat n"] by simp
  ultimately show ?thesis
    using digits_value_nat_str [of "nat n"] False by (simp add: js_number_def del: digits_value.simps)
qed

section \<open>The service\<close>

record access_input =
  ai_access_type :: string
  ai_target :: string
  ai_justification :: string
  ai_duration_hours :: int

record access_filters =
  af_requester :: "uuid option"
  af_status :: "access_request_status option"

definition new_access_request :: "uuid \<Rightarrow> timestamp \<Rightarrow> access_input \<Rightarrow> uuid \<Rightarrow> access_request" where
  "new_access_request newRowId t input requesterId =
     \<lparr>ar_id = newRowId, ar_requester = requesterId, ar_access_type = ai_access_type input,
      ar_target = ai_target input, ar_justification = ai_justification input,
      ar_duration_hours = int_str (ai_duration_hours input), ar_status = Acc_pending,
      ar_reviewer = None, ar_review_note = None, ar_reviewed_at = None,
      ar_created_at = t, ar_updated_at = t, ar_request = None\<rparr>"

definition access_create :: "access_input \<Rightarrow> uuid \<Rightarrow> access_request svc" where
  "access_create input requesterId =
     mbind newId (\<lambda>rowId. mbind now (\<lambda>t.
     let row = new_access_request rowId t input requesterId in
     mbind (exec (t_access_requests_update (insert_row row))) (\<lambda>_. mret row)))"

definition access_payload :: "access_request \<Rightarrow> access_input \<Rightarrow> actor \<Rightarrow> jobject" where
  "access_payload domainRow input actor =
     [(''accessRequestId'', JStr (ar_id domainRow)), (''requesterId'', JStr (ac_sub actor)),
      (''accessType'', JStr (ai_access_type input)), (''target'', JStr (ai_target input)),
      (''justification'', JStr (ai_justification input)), (''durationHours'', JNum (ai_duration_hours input))]"

definition access_submit :: "access_input \<Rightarrow> actor \<Rightarrow> access_request svc" where
  "access_submit input actor =
     mbind (access_create input (ac_sub actor)) (\<lambda>domainRow.
     mbind now (\<lambda>t.
     mbind (submit app_registry ''access_request'' (access_payload domainRow input actor) actor
              (no_options\<lparr>so_expires_at := Some (t + 168 * 3600000)\<rparr>)) (\<lambda>engineItem.
     mbind (exec (t_access_requests_update (update_where (\<lambda>r. ar_id r = ar_id domainRow)
              (\<lambda>r. r\<lparr>ar_request := Some (ri_id engineItem)\<rparr>)))) (\<lambda>_.
     mbind (audit_record (Some (ac_sub actor)) (Some (ac_email actor)) ''access_request.submitted''
              ''access_request'' (Some (ar_id domainRow)) []
              [(''accessType'', JStr (ai_access_type input)), (''target'', JStr (ai_target input)),
               (''engineRequestId'', JStr (ri_id engineItem))]) (\<lambda>_.
     mret (domainRow\<lparr>ar_request := Some (ri_id engineItem)\<rparr>))))))"

definition access_getById :: "uuid \<Rightarrow> access_request svc" where
  "access_getById rowId =
     mbind (query (\<lambda>d. find_where (\<lambda>r. ar_id r = rowId) (t_access_requests d))) (\<lambda>request.
     or_throw request (NotFoundException ACCESS_REQUEST_NOT_FOUND))"

definition access_matches :: "access_filters \<Rightarrow> access_request \<Rightarrow> bool" where
  "access_matches f r \<longleftrightarrow> opt_eq (af_requester f) (ar_requester r) \<and> opt_eq (af_status f) (ar_status r)"

definition access_list :: "access_filters \<Rightarrow> nat \<Rightarrow> nat \<Rightarrow> (access_request list \<times> nat) svc" where
  "access_list f lim off =
     mbind (query (\<lambda>d. page lim off (sort_key (\<lambda>r. - ar_created_at r)
              (select_where (access_matches f) (t_access_requests d))))) (\<lambda>rows.
     mbind (query (\<lambda>d. length (select_where (access_matches f) (t_access_requests d)))) (\<lambda>total.
     mret (rows, total)))"

definition access_repo_approve :: "uuid \<Rightarrow> uuid \<Rightarrow> string option \<Rightarrow> access_grant svc \<Rightarrow> unit svc" where
  "access_repo_approve requestId reviewerId note mk_grant =
     mbind now (\<lambda>t.
     mbind (exec (t_access_requests_update (update_where (\<lambda>r. ar_id r = requestId)
              (\<lambda>r. r\<lparr>ar_status := Acc_approved, ar_reviewer := Some reviewerId, ar_review_note := note,
                     ar_reviewed_at := Some t, ar_updated_at := t\<rparr>)))) (\<lambda>_.
     mbind mk_grant (\<lambda>grant.
     exec (t_access_grants_update (insert_row grant)))))"

definition access_repo_reject :: "uuid \<Rightarrow> uuid \<Rightarrow> string option \<Rightarrow> unit svc" where
  "access_repo_reject requestId reviewerId note =
     mbind now (\<lambda>t.
     exec (t_access_requests_update (update_where (\<lambda>r. ar_id r = requestId)
       (\<lambda>r. r\<lparr>ar_status := Acc_rejected, ar_reviewer := Some reviewerId, ar_review_note := note,
              ar_reviewed_at := Some t, ar_updated_at := t\<rparr>))))"

definition access_repo_revokeGrant :: "uuid \<Rightarrow> unit svc" where
  "access_repo_revokeGrant grantId =
     mbind now (\<lambda>t.
     exec (t_access_grants_update (update_where (\<lambda>g. ag_id g = grantId) (\<lambda>g. g\<lparr>ag_revoked_at := Some t\<rparr>))))"

definition access_repo_findGrantById :: "uuid \<Rightarrow> access_grant option svc" where
  "access_repo_findGrantById grantId = query (\<lambda>d. find_where (\<lambda>g. ag_id g = grantId) (t_access_grants d))"

lemmas access_repo_defs = access_repo_approve_def access_repo_reject_def access_repo_revokeGrant_def
  access_repo_findGrantById_def

text \<open>The grant of a row without a link; an unreadable duration makes an invalid date, which
  the driver refuses.\<close>

definition legacy_grant :: "access_request \<Rightarrow> uuid \<Rightarrow> timestamp \<Rightarrow> access_grant svc" where
  "legacy_grant request grantId t =
     mbind (or_throw (js_number (ar_duration_hours request)) (PlainError ''Invalid time value'')) (\<lambda>h.
     mret \<lparr>ag_id = grantId, ag_request = ar_id request, ag_grantee = ar_requester request,
           ag_access_type = ar_access_type request, ag_target = ar_target request,
           ag_granted_at = t, ag_expires_at = t + h * 3600000, ag_revoked_at = None\<rparr>)"

definition legacy_approve :: "access_request \<Rightarrow> string option \<Rightarrow> actor \<Rightarrow> unit svc" where
  "legacy_approve request note actor =
     mbind now (\<lambda>t.
     mbind newId (\<lambda>grantId.
     transaction (access_repo_approve (ar_id request) (ac_sub actor) note (legacy_grant request grantId t))))"

definition access_audit :: "actor \<Rightarrow> string \<Rightarrow> string \<Rightarrow> uuid \<Rightarrow> unit svc" where
  "access_audit actor action resourceType resourceId =
     audit_record (Some (ac_sub actor)) (Some (ac_email actor)) action resourceType (Some resourceId) [] []"

definition latest_grant :: "uuid \<Rightarrow> db \<Rightarrow> access_grant option" where
  "latest_grant rowId d =
     find_where (\<lambda>_. True) (sort_key (\<lambda>g. - ag_granted_at g) (select_where (\<lambda>g. ag_request g = rowId) (t_access_grants d)))"

definition access_approve :: "uuid \<Rightarrow> string option \<Rightarrow> actor \<Rightarrow> access_grant option svc" where
  "access_approve rowId note actor =
     mbind (access_getById rowId) (\<lambda>request.
     mbind (throw_if (ar_status request \<noteq> Acc_pending) (PreconditionFailedException ACCESS_REQUEST_NOT_PENDING)) (\<lambda>_.
     mbind (case ar_request request of
              Some q \<Rightarrow> mbind (approve app_registry q note actor) (\<lambda>_. mret ())
            | None \<Rightarrow> mbind (legacy_approve request note actor) (\<lambda>_.
                 access_audit actor ''access_request.approved'' ''access_request'' rowId)) (\<lambda>_.
     query (latest_grant rowId))))"

definition access_reject :: "uuid \<Rightarrow> string option \<Rightarrow> actor \<Rightarrow> access_request svc" where
  "access_reject rowId note actor =
     mbind (access_getById rowId) (\<lambda>request.
     mbind (throw_if (ar_status request \<noteq> Acc_pending) (PreconditionFailedException ACCESS_REQUEST_NOT_PENDING)) (\<lambda>_.
     mbind (case ar_request request of
              Some q \<Rightarrow> mbind (reject app_registry q note actor) (\<lambda>_. mret ())
            | None \<Rightarrow>
                mbind (access_repo_reject rowId (ac_sub actor) note) (\<lambda>_.
                access_audit actor ''access_request.rejected'' ''access_request'' rowId)) (\<lambda>_.
     access_getById rowId)))"

definition access_revokeGrant :: "uuid \<Rightarrow> actor \<Rightarrow> unit svc" where
  "access_revokeGrant grantId actor =
     mbind (access_repo_findGrantById grantId) (\<lambda>found.
     mbind (or_throw found (NotFoundException ACCESS_GRANT_NOT_FOUND)) (\<lambda>grant.
     mbind (throw_if (ag_revoked_at grant \<noteq> None) (PreconditionFailedException ACCESS_GRANT_NOT_ACTIVE)) (\<lambda>_.
     mbind (access_repo_revokeGrant grantId) (\<lambda>_.
     access_audit actor ''access_grant.revoked'' ''access_grant'' grantId))))"

definition grant_active :: "uuid \<Rightarrow> timestamp \<Rightarrow> access_grant \<Rightarrow> bool" where
  "grant_active granteeId t g \<longleftrightarrow> ag_grantee g = granteeId \<and> ag_revoked_at g = None \<and> t < ag_expires_at g"

definition access_listActiveGrants :: "uuid \<Rightarrow> access_grant list svc" where
  "access_listActiveGrants granteeId =
     mbind now (\<lambda>t. query (\<lambda>d. sort_key (\<lambda>g. - ag_granted_at g)
       (select_where (grant_active granteeId t) (t_access_grants d))))"

section \<open>Grants and approvals\<close>

text \<open>What a grant says of its request, and what an approved request says its grant must be.\<close>

type_synonym access_key = "uuid \<times> uuid \<times> string \<times> string \<times> int"

definition grant_key :: "access_grant \<Rightarrow> access_key" where
  "grant_key g = (ag_request g, ag_grantee g, ag_access_type g, ag_target g, ag_expires_at g - ag_granted_at g)"

definition payload_key :: "jobject \<Rightarrow> access_key" where
  "payload_key p = (jtext (jfield p ''accessRequestId''), jtext (jfield p ''requesterId''),
     jtext (jfield p ''accessType''), jtext (jfield p ''target''), jnum (jfield p ''durationHours'') * 3600000)"

definition access_granted :: "request_item \<Rightarrow> bool" where
  "access_granted r \<longleftrightarrow> ri_type r = ''access_request'' \<and> ri_status r = Req_approved"

text \<open>The grant that a row without a link is approved with, by what the row says.\<close>

definition row_key :: "access_request \<Rightarrow> access_key" where
  "row_key a = (ar_id a, ar_requester a, ar_access_type a, ar_target a,
     (case js_number (ar_duration_hours a) of None \<Rightarrow> 0 | Some h \<Rightarrow> h * 3600000))"

text \<open>The part of the module's tables the invariant looks at.\<close>

definition access_view :: "db \<Rightarrow> access_key list \<times> access_key list" where
  "access_view d = (map grant_key (t_access_grants d), map row_key (t_access_requests d))"

text \<open>
  Besides the grants \<open>L\<close> that were given to rows without a link, grants and approved access requests
  correspond one to one; and an access request is made in the name of its requester.
\<close>

definition access_part :: "access_key list \<Rightarrow> world \<Rightarrow> bool" where
  "access_part L w \<longleftrightarrow>
     mset (map grant_key (t_access_grants (w_db w))) =
       mset (map (payload_key \<circ> ri_payload) (filter access_granted (t_request_items (w_db w)))) + mset L \<and>
     (\<forall>r \<in> set (t_request_items (w_db w)). ri_type r = ''access_request'' \<longrightarrow>
        jtext (jfield (ri_payload r) ''requesterId'') = ri_requester r) \<and>
     set L \<subseteq> row_key ` set (t_access_requests (w_db w))"

definition access_inv :: "access_key list \<Rightarrow> world \<Rightarrow> bool" where
  "access_inv L w \<longleftrightarrow> engine_inv app_registry w \<and> access_part L w"

lemma row_key_fields:
  "row_key (a\<lparr>ar_request := q\<rparr>) = row_key a"
  "row_key (a\<lparr>ar_status := st, ar_reviewer := u, ar_review_note := n, ar_reviewed_at := t, ar_updated_at := t'\<rparr>) = row_key a"
  by (simp_all add: row_key_def)

lemma row_key_update: "(\<And>a. row_key (f a) = row_key a) \<Longrightarrow> row_key ` set (update_where p f t) = row_key ` set t"
  by (metis map_update_where set_map)

lemma access_view_rows: "access_view d' = access_view d \<Longrightarrow> row_key ` set (t_access_requests d') = row_key ` set (t_access_requests d)"
  unfolding access_view_def by (metis prod.inject set_map)

lemma access_part_same:
  assumes "access_view (w_db w') = access_view (w_db w)" and "t_request_items (w_db w') = t_request_items (w_db w)"
  shows "access_part S w' = access_part S w"
  using assms(1) unfolding access_part_def access_view_rows [OF assms(1)] assms(2) by (simp add: access_view_def)

lemma same_access_undisturbed: "undisturbed w w' \<Longrightarrow> access_view (w_db w') = access_view (w_db w)"
proof -
  assume "undisturbed w w'"
  moreover have "access_view (domain_view d) = access_view d" for d
    by (simp add: access_view_def domain_view_def)
  ultimately show ?thesis by (metis undisturbed_def)
qed

lemma domain_step_access:
  assumes "domain_step h w w'" and "keeps (same access_view) h"
  shows "access_view (w_db w') = access_view (w_db w)"
proof -
  obtain v v' where "undisturbed w v" "h v = (Inr (), v')" "undisturbed v' w'"
    using assms(1) unfolding domain_step_def by blast
  then show ?thesis
    using same_access_undisturbed keepsD [OF assms(2)] by (metis same_def)
qed

section \<open>What the hooks do to the grants\<close>

lemma access_hooks_links:
  "keeps (same access_view) (access_on_reject p r a)" "keeps (same access_view) (access_on_expire p r)"
  unfolding access_on_reject_def access_on_expire_def
  by (intro same_rules; simp add: access_view_def row_key_def update_where_def comp_def cong: map_cong)+

lemma other_approvals:
  "keeps (same access_view) (leave_on_approve p r a)" "keeps (same access_view) (leave_on_reject p r a)"
  "keeps (same access_view) (leave_on_expire p r)" "keeps (same access_view) (overtime_on_approve p r a)"
  "keeps (same access_view) (overtime_on_reject p r a)" "keeps (same access_view) (overtime_on_expire p r)"
  "keeps (same access_view) (offboarding_on_approve p r a)" "keeps (same access_view) (mret ())"
  unfolding leave_on_approve_def leave_on_reject_def leave_on_expire_def set_leave_def
    overtime_on_approve_def overtime_on_reject_def overtime_on_expire_def set_overtime_def
    offboarding_on_approve_def mark_returned_def Let_def
  by (intro same_rules; simp add: access_view_def grant_key_def row_key_def update_where_def comp_def cong: map_cong)+

lemma hooks_keep_access:
  assumes "def \<in> set app_types"
  shows "keeps (same access_view) (run_hook (td_on_reject def) (\<lambda>h. h p r a))"
    and "keeps (same access_view) (run_hook (td_on_cancel def) (\<lambda>h. h p r a))"
    and "keeps (same access_view) (run_hook (td_on_expire def) (\<lambda>h. h p r))"
    and "keeps (same access_view) (run_hook (td_on_submit def) (\<lambda>h. h p u))"
    and "td_type def \<noteq> ''access_request'' \<Longrightarrow> keeps (same access_view) (td_on_approve def p r a)"
  using assms
  by (auto simp: app_types_def type_defs run_hook_def access_hooks_links other_approvals)

lemma access_on_approve_view:
  assumes "access_on_approve p r a v = (Inr (), v')"
  shows "access_view (w_db v') = (fst (access_view (w_db v)) @ [payload_key p], snd (access_view (w_db v)))"
  using assms by (auto simp: access_on_approve_def access_view_def grant_key_def payload_key_def row_key_def
      update_where_def insert_row_def Let_def comp_def cong: map_cong)

lemma access_def_of_type: "map_of app_registry ''access_request'' = Some access_request_def"
  by (simp add: app_registry_lookup app_types_def)

lemma app_def_type: "map_of app_registry k = Some def \<Longrightarrow> def \<in> set app_types \<and> td_type def = k"
  by (auto simp: app_registry_lookup)

section \<open>The engine keeps the correspondence\<close>

lemma open_not_granted: "open_status (ri_status r) \<Longrightarrow> \<not> access_granted r"
  by (auto simp: access_granted_def open_status_def)

lemma access_part_update:
  assumes tr: "transition (update_where (\<lambda>x. ri_id x = rid) f) apps ev i pl w w'"
    and inv: "access_inv S w"
    and found: "find_where (\<lambda>x. ri_id x = rid) (t_request_items (w_db w)) = Some r"
    and st: "open_status (ri_status r)"
    and f: "\<And>x. ri_type (f x) = ri_type x \<and> ri_payload (f x) = ri_payload x \<and> ri_requester (f x) = ri_requester x"
    and view: "access_view (w_db w') =
      (fst (access_view (w_db w)) @ (if access_granted (f r) then [payload_key (ri_payload r)] else []), snd (access_view (w_db w)))"
  shows "access_part S w'"
proof -
  let ?T = "t_request_items (w_db w)"
  have T': "t_request_items (w_db w') = update_where (\<lambda>x. ri_id x = rid) f ?T"
    using tr by (simp add: transition_def)
  have "distinct (map ri_id ?T)"
    using inv by (simp add: access_inv_def engine_inv_def)
  from filter_update_key [where P = access_granted and k = ri_id, OF this found open_not_granted [OF st], of f]
  have "mset (map (payload_key \<circ> ri_payload) (filter access_granted (t_request_items (w_db w')))) =
      mset (map (payload_key \<circ> ri_payload) (filter access_granted ?T)) +
      mset (if access_granted (f r) then [payload_key (ri_payload r)] else [])"
    unfolding T' mset_map by (simp add: f)
  moreover have "mset (map grant_key (t_access_grants (w_db w'))) = mset (map grant_key (t_access_grants (w_db w))) +
      mset (if access_granted (f r) then [payload_key (ri_payload r)] else [])"
    using arg_cong [OF view, of "\<lambda>x. mset (fst x)"] by (simp add: access_view_def)
  moreover have "\<forall>x \<in> set (t_request_items (w_db w')). ri_type x = ''access_request'' \<longrightarrow>
      jtext (jfield (ri_payload x) ''requesterId'') = ri_requester x"
    using inv f unfolding T' set_update_where access_inv_def access_part_def by (auto split: if_splits)
  moreover have "snd (access_view (w_db w')) = snd (access_view (w_db w))"
    by (simp add: view)
  then have "row_key ` set (t_access_requests (w_db w')) = row_key ` set (t_access_requests (w_db w))"
    using access_view_rows [of "(w_db w')\<lparr>t_access_grants := []\<rparr>" "(w_db w)\<lparr>t_access_grants := []\<rparr>"]
    by (simp add: access_view_def)
  ultimately show ?thesis
    using inv by (simp add: access_inv_def access_part_def)
qed

lemma approve_access_part:
  assumes inv: "access_inv S w" and run: "approve app_registry rid note actor w = (Inr row, w')"
  shows "access_part S w'"
proof -
  from run obtain ctx nxt i where may: "may_decide app_registry rid actor w ctx"
    and tr: "transition (update_where (\<lambda>x. ri_id x = rid) (approved_row ctx note nxt (w_now w)))
       [decision_row ctx Dec_approved note actor i (w_now w)] (approval_event (dx_def ctx) (dx_request ctx)) rid
       (approval_payload (dx_def ctx) (dx_request ctx) actor) w w'"
    by (rule app.approve_success) (rule that; assumption)
  define r def where "r = dx_request ctx" and "def = dx_def ctx"
  have found: "find_where (\<lambda>x. ri_id x = rid) (t_request_items (w_db w)) = Some r"
    and st: "open_status (ri_status r)" and reg: "map_of app_registry (ri_type r) = Some def"
    using may by (simp_all add: may_decide_def r_def def_def)
  have app: "def \<in> set app_types" "td_type def = ri_type r"
    using app_def_type [OF reg] by auto
  have step: "domain_step (if is_final_step def (ri_current_step r)
      then td_on_approve def (ri_payload r) rid (ac_sub actor) else mret ()) w w'"
    using clean.approve_domain [OF run] found reg by auto
  have granted: "access_granted (approved_row ctx note nxt t r) \<longleftrightarrow>
      is_final_step def (ri_current_step r) \<and> ri_type r = ''access_request''" for t
    by (simp add: access_granted_def approved_row_def Let_def r_def def_def)
  have "access_view (w_db w') = (fst (access_view (w_db w)) @
      (if access_granted (approved_row ctx note nxt (w_now w) r) then [payload_key (ri_payload r)] else []),
      snd (access_view (w_db w)))"
  proof (cases "is_final_step def (ri_current_step r) \<and> ri_type r = ''access_request''")
    case True
    then have "def = access_request_def"
      using reg access_def_of_type by simp
    with True step obtain v v' where "undisturbed w v" "undisturbed v' w'"
      and "access_on_approve (ri_payload r) rid (ac_sub actor) v = (Inr (), v')"
      by (auto simp: domain_step_def access_request_def_def)
    then show ?thesis
      using access_on_approve_view same_access_undisturbed True by (simp add: granted)
  next
    case False
    then have "keeps (same access_view) (if is_final_step def (ri_current_step r)
        then td_on_approve def (ri_payload r) rid (ac_sub actor) else mret ())"
      using hooks_keep_access(5) [OF app(1)] app(2) other_approvals(8) by auto
    from domain_step_access [OF step this] False show ?thesis by (auto simp: granted)
  qed
  then show ?thesis
    by (intro access_part_update [OF tr inv found st]) (simp_all add: approved_row_def Let_def)
qed

lemma reject_access_part:
  assumes inv: "access_inv S w" and run: "reject app_registry rid note actor w = (Inr row, w')"
  shows "access_part S w'"
proof -
  from run obtain ctx i pl where may: "may_decide app_registry rid actor w ctx"
    and tr: "transition (update_where (\<lambda>x. ri_id x = rid) (rejected_row note (w_now w)))
       [decision_row ctx Dec_rejected note actor i (w_now w)] ''request.rejected'' rid pl w w'"
    by (rule app.reject_success) (rule that; assumption)
  have found: "find_where (\<lambda>x. ri_id x = rid) (t_request_items (w_db w)) = Some (dx_request ctx)"
    and st: "open_status (ri_status (dx_request ctx))"
    using may by (simp_all add: may_decide_def)
  have "access_view (w_db w') = access_view (w_db w)"
  proof -
    obtain r :: request_item and def where "map_of app_registry (ri_type r) = Some def"
      and step: "domain_step (run_hook (td_on_reject def) (\<lambda>h. h (ri_payload r) rid (ac_sub actor))) w w'"
      using clean.reject_domain [OF run] by blast
    then have "def \<in> set app_types" using app_def_type by blast
    from domain_step_access [OF step hooks_keep_access(1) [OF this]] show ?thesis .
  qed
  then show ?thesis
    by (intro access_part_update [OF tr inv found st]) (simp_all add: rejected_row_def access_granted_def)
qed

lemma closed_access_part:
  assumes inv: "access_inv S w"
    and "transition (update_where (\<lambda>x. ri_id x = rid) (closed_row st (w_now w))) [] ev rid pl w w'"
    and "find_where (\<lambda>x. ri_id x = rid) (t_request_items (w_db w)) = Some r" and "open_status (ri_status r)"
    and "st \<noteq> Req_approved" and "access_view (w_db w') = access_view (w_db w)"
  shows "access_part S w'"
  using assms(5,6)
  by (intro access_part_update [OF assms(2) inv assms(3,4)]) (simp_all add: closed_row_def access_granted_def)

lemma cancel_access_part:
  assumes inv: "access_inv S w" and run: "cancel app_registry rid actor w = (Inr row, w')"
  shows "access_part S w'"
proof -
  have "access_view (w_db w') = access_view (w_db w)"
  proof -
    obtain r :: request_item and def where "map_of app_registry (ri_type r) = Some def"
      and step: "domain_step (run_hook (td_on_cancel def) (\<lambda>h. h (ri_payload r) rid (ac_sub actor))) w w'"
      using clean.cancel_domain [OF run] by blast
    then have "def \<in> set app_types" using app_def_type by blast
    from domain_step_access [OF step hooks_keep_access(2) [OF this]] show ?thesis .
  qed
  note view = this
  from run show ?thesis
    by (rule app.cancel_success) (rule closed_access_part [OF inv], assumption+, simp, rule view)
qed

lemma expire_access_part:
  assumes inv: "access_inv S w" and run: "expire app_registry rid w = (Inr u, w')"
  shows "access_part S w'"
  using run
proof (cases rule: app.expire_success)
  case (noop r)
  with inv show ?thesis by (simp add: access_inv_def)
next
  case (expired r)
  obtain def where "map_of app_registry (ri_type r) = Some def"
    and step: "domain_step (run_hook (td_on_expire def) (\<lambda>h. h (ri_payload r) rid)) w w'"
    using clean.expire_domain [OF run] expired(1,2) by auto
  then have "def \<in> set app_types" using app_def_type by blast
  from domain_step_access [OF step hooks_keep_access(3) [OF this]] expired show ?thesis
    by (intro closed_access_part [OF inv expired(3) expired(1)]) simp_all
qed

lemma submit_access_part:
  assumes inv: "access_inv S w" and run: "submit app_registry type payload actor opts w = (Inr row, w')"
    and own: "type = ''access_request'' \<Longrightarrow> jtext (jfield payload ''requesterId'') = ac_sub actor"
  shows "access_part S w'"
proof -
  obtain def where def: "map_of app_registry type = Some def"
    and step: "domain_step (run_hook (td_on_submit def) (\<lambda>h. h payload (ac_sub actor))) w w'"
    using clean.submit_domain [OF run] by blast
  have view: "access_view (w_db w') = access_view (w_db w)"
    using domain_step_access [OF step] hooks_keep_access(4) app_def_type [OF def] by blast
  from request_hooks.submit_success [OF app.registered [OF def] def run] obtain n pl where
    row: "row = new_request (w_uuid w n) (w_now w) def type payload actor opts"
    and "transition (insert_row row) [] ''request.submitted'' (ri_id row) pl w w'"
    by blast
  then have T': "t_request_items (w_db w') = t_request_items (w_db w) @ [row]"
    by (simp add: transition_def insert_row_def)
  have new: "\<not> access_granted row" "ri_type row = type" "ri_payload row = payload" "ri_requester row = ac_sub actor"
    by (simp_all add: row access_granted_def new_request_def)
  show ?thesis
    using inv own view access_view_rows [OF view]
    by (auto simp: access_part_def access_inv_def access_view_def T' new)
qed

section \<open>Every operation of the system keeps it\<close>

text \<open>Steps that leave the engine and the grants alone and drop no row.\<close>

definition access_quiet :: "world \<Rightarrow> world \<Rightarrow> bool" where
  "access_quiet w w' \<longleftrightarrow> other_step w w' \<and> fst (access_view (w_db w')) = fst (access_view (w_db w)) \<and>
     set (snd (access_view (w_db w))) \<subseteq> set (snd (access_view (w_db w')))"

interpretation access_quiet: frame_rel access_quiet
  by unfold_locales (auto simp: access_quiet_def other_step_def)

lemma access_quiet_prim: "keeps access_quiet (query q)" "keeps access_quiet now" "keeps access_quiet newId"
  by (simp_all add: keeps_def access_quiet_def other_step_def)

lemma access_quiet_exec:
  "(\<And>d. t_request_items (u d) = t_request_items d \<and> t_request_approvals (u d) = t_request_approvals d \<and>
        fst (access_view (u d)) = fst (access_view d) \<and> set (snd (access_view d)) \<subseteq> set (snd (access_view (u d)))) \<Longrightarrow>
   keeps access_quiet (exec u)"
  by (simp add: keeps_def access_quiet_def other_step_def)

lemma access_quiet_audit: "keeps access_quiet (audit_record a b c r i ch m)"
  unfolding audit_record_def
  by (intro access_quiet.keeps_rules access_quiet_prim access_quiet_exec) (simp add: access_view_def)

lemma access_quiet_inv: "access_quiet w w' \<Longrightarrow> access_inv L w \<Longrightarrow> access_inv L w'"
  unfolding access_quiet_def access_inv_def
  using inv_other [of w w' app_registry] by (auto simp: other_step_def access_part_def access_view_def)

lemma maintains_quiet: "keeps access_quiet m \<Longrightarrow> maintains (access_inv S) m"
  unfolding keeps_def using access_quiet_inv by blast

lemma maintains_operation:
  assumes "atomic_failure m" and "keeps ids m" and "\<And>w r w'. m w = (r, w') \<Longrightarrow> engine_step app_registry w w'"
    and "\<And>x w w'. access_inv S w \<Longrightarrow> m w = (Inr x, w') \<Longrightarrow> access_part S w'"
  shows "maintains (access_inv S) m"
proof (rule keepsI, rule impI)
  fix w assume inv: "access_inv S w"
  obtain r w' where m: "m w = (r, w')" by (cases "m w")
  have "engine_inv app_registry w'"
    using app.step_inv [OF assms(3) [OF m]] inv by (simp add: access_inv_def)
  moreover have "access_part S w'"
  proof (cases r)
    case (Inl e)
    with atomic_failureD [OF assms(1)] m have "w_db w' = w_db w" by blast
    with inv access_part_same [of w' w] show ?thesis by (simp add: access_inv_def)
  next
    case (Inr x)
    with assms(4) [OF inv] m show ?thesis by blast
  qed
  ultimately show "access_inv S (snd (m w))"
    by (simp add: m access_inv_def)
qed

lemma maintains_approve: "maintains (access_inv S) (approve app_registry rid note actor)"
  by (intro maintains_operation approve_failure app.ids_approve) (blast intro: step_approve approve_access_part)+

lemma maintains_reject: "maintains (access_inv S) (reject app_registry rid note actor)"
  by (intro maintains_operation reject_failure app.ids_reject) (blast intro: step_reject reject_access_part)+

lemma maintains_cancel: "maintains (access_inv S) (cancel app_registry rid actor)"
  by (intro maintains_operation cancel_failure app.ids_cancel) (blast intro: step_cancel cancel_access_part)+

lemma maintains_expire: "maintains (access_inv S) (expire app_registry rid)"
  by (intro maintains_operation expire_failure app.ids_expire) (blast intro: step_expire expire_access_part)+

lemma maintains_submit:
  assumes "type = ''access_request'' \<Longrightarrow> jtext (jfield payload ''requesterId'') = ac_sub actor"
  shows "maintains (access_inv S) (submit app_registry type payload actor opts)"
  by (intro maintains_operation submit_failure app.ids_submit)
    (blast intro: step_submit submit_access_part [OF _ _ assms])+

lemma stamped_access:
  assumes "list_all2 stamped t t'"
  shows "map (payload_key \<circ> ri_payload) (filter access_granted t') = map (payload_key \<circ> ri_payload) (filter access_granted t)"
    and "(\<forall>r \<in> set t'. ri_type r = ''access_request'' \<longrightarrow> jtext (jfield (ri_payload r) ''requesterId'') = ri_requester r) \<longleftrightarrow>
      (\<forall>r \<in> set t. ri_type r = ''access_request'' \<longrightarrow> jtext (jfield (ri_payload r) ''requesterId'') = ri_requester r)"
  using assms by (induction rule: list_all2_induct) (auto simp: access_granted_def dest!: stamped_same)

lemma sla_access: "keeps (same access_view) sla_tick"
  unfolding sla_tick_def sla_breach_one_def Let_def
  by (intro same_rules same.keeps_try keeps_schedule; simp add: access_view_def)

lemma maintains_sla: "maintains (access_inv S) sla_tick"
proof (rule keepsI, rule impI)
  fix w assume inv: "access_inv S w"
  obtain r w' where m: "sla_tick w = (r, w')" by (cases "sla_tick w")
  have "distinct (map ri_id (t_request_items (w_db w)))"
    using inv by (simp add: access_inv_def engine_inv_def)
  from sla_tick_stamps [OF this] m have "list_all2 stamped (t_request_items (w_db w)) (t_request_items (w_db w'))"
    by (simp add: stamps_def)
  note items = stamped_access [OF this]
  have view: "access_view (w_db w') = access_view (w_db w)"
    using keepsD [OF sla_access m] by (simp add: same_def)
  have "access_part S w'"
    using inv items access_view_rows [OF view] view
    by (auto simp: access_inv_def access_part_def access_view_def)
  moreover have "engine_inv app_registry w'"
    using app.step_inv [OF step_sla [OF m]] inv by (simp add: access_inv_def)
  ultimately show "access_inv S (snd (sla_tick w))"
    by (simp add: m access_inv_def)
qed

text \<open>The service.  Its steps around the submission to the engine are quiet, wherever it is interrupted.\<close>

lemma access_quiet_create: "keeps access_quiet (access_create input u)"
  unfolding access_create_def Let_def
  by (intro access_quiet.keeps_rules access_quiet_prim access_quiet_exec) (auto simp: access_view_def)

lemma access_quiet_link: "keeps access_quiet (exec (t_access_requests_update (update_where p (\<lambda>r. r\<lparr>ar_request := q\<rparr>))))"
  by (intro access_quiet_exec) (simp add: access_view_def row_key_update row_key_fields)

lemma maintains_access_submit: "maintains (access_inv L) (access_submit input actor)"
  unfolding access_submit_def
  by (intro maintain.keeps_rules maintains_quiet [OF access_quiet_create] maintains_quiet [OF access_quiet_link]
      maintains_quiet [OF access_quiet_audit] maintains_quiet [OF access_quiet_prim(2)] maintains_submit)
    (simp add: access_payload_def)

lemma maintains_access_audit: "maintains (access_inv S) (access_audit a b c d)"
  unfolding access_audit_def by (rule maintains_quiet) (rule access_quiet_audit)

lemma maintains_query: "maintains (access_inv S) (query q)"
  by (rule maintains_quiet) (rule access_quiet_prim)

lemma maintains_getById: "maintains (access_inv S) (access_getById i)"
  unfolding access_getById_def by (intro maintain.keeps_rules maintains_query)

lemma access_getById_apply: "access_getById i w = (case find_where (\<lambda>a. ar_id a = i) (t_access_requests (w_db w)) of
    None \<Rightarrow> (Inl (NotFoundException ACCESS_REQUEST_NOT_FOUND), w) | Some a \<Rightarrow> (Inr a, w))"
  by (simp add: access_getById_def split: option.split)

text \<open>The approval of a linked row is the engine's; that of a row without link gives a grant of its own.\<close>

definition unlinked :: "uuid \<Rightarrow> world \<Rightarrow> bool" where
  "unlinked i w \<longleftrightarrow> (\<exists>a. find_where (\<lambda>a. ar_id a = i) (t_access_requests (w_db w)) = Some a \<and> ar_request a = None)"

definition new_grants :: "world \<Rightarrow> world \<Rightarrow> access_key list" where
  "new_grants w w' = drop (length (t_access_grants (w_db w))) (map grant_key (t_access_grants (w_db w')))"

lemma linked_approve:
  assumes "access_inv L w" and "\<not> unlinked i w"
  shows "access_inv L (snd (access_approve i note actor w))"
proof (cases "find_where (\<lambda>a. ar_id a = i) (t_access_requests (w_db w))")
  case None
  then have "snd (access_approve i note actor w) = w"
    by (simp add: access_approve_def mbind_def access_getById_apply)
  with assms(1) show ?thesis by simp
next
  case (Some a)
  then obtain q where q: "ar_request a = Some q"
    using assms(2) by (auto simp: unlinked_def)
  have "maintains (access_inv L) (mbind (throw_if b e) (\<lambda>_. mbind (mbind (approve app_registry q note actor) (\<lambda>_. mret ()))
      (\<lambda>_. query (latest_grant i))))" for b e
    by (intro maintain.keeps_rules maintains_approve maintains_query)
  then show ?thesis
    using assms(1) Some q
    by (simp add: access_approve_def mbind_eq [where m = "access_getById i" and x = a and s' = w] access_getById_apply keeps_def del: mbind_assoc)
qed

lemma legacy_approve_tables:
  assumes "js_number (ar_duration_hours a) = Some h"
  obtains w' where "legacy_approve a note actor w = (Inr (), w')" and "other_step w w'"
    and "access_view (w_db w') = (fst (access_view (w_db w)) @ [row_key a], snd (access_view (w_db w)))"
proof -
  have "fst (legacy_approve a note actor w) = Inr () \<and> other_step w (snd (legacy_approve a note actor w)) \<and>
      access_view (w_db (snd (legacy_approve a note actor w))) = (fst (access_view (w_db w)) @ [row_key a], snd (access_view (w_db w)))"
    using assms
    by (simp add: legacy_approve_def transaction_def access_repo_approve_def legacy_grant_def mbind_def other_step_def
        access_view_def row_key_def grant_key_def insert_row_def update_where_def comp_def cong: map_cong)
  then show thesis
    by (intro that [of "snd (legacy_approve a note actor w)"]) (auto simp: prod_eq_iff)
qed

lemma unlinked_approve:
  assumes "access_inv L w" and "unlinked i w" and "access_approve i note actor w = (r, w')"
  shows "access_inv (L @ new_grants w w') w'"
proof -
  obtain a where a: "find_where (\<lambda>a. ar_id a = i) (t_access_requests (w_db w)) = Some a" and link: "ar_request a = None"
    using assms(2) by (auto simp: unlinked_def)
  have run: "(r, w') = (if ar_status a \<noteq> Acc_pending then (Inl (PreconditionFailedException ACCESS_REQUEST_NOT_PENDING), w)
      else mbind (legacy_approve a note actor) (\<lambda>_. mbind (access_audit actor ''access_request.approved'' ''access_request'' i)
        (\<lambda>_. query (latest_grant i))) w)"
    unfolding assms(3) [symmetric] using a link
    by (simp add: access_approve_def mbind_eq [where m = "access_getById i" and x = a and s' = w] access_getById_apply)
  show ?thesis
  proof (cases "ar_status a \<noteq> Acc_pending")
    case True
    with run assms(1) show ?thesis by (simp add: new_grants_def)
  next
    case pending: False
    show ?thesis
    proof (cases "js_number (ar_duration_hours a)")
      case None
      then have "\<exists>e. legacy_approve a note actor w = (Inl e, w\<lparr>w_next := Suc (w_next w)\<rparr>)"
        by (simp add: legacy_approve_def transaction_def access_repo_approve_def legacy_grant_def mbind_def)
      then have w': "w' = w\<lparr>w_next := Suc (w_next w)\<rparr>"
        using run pending by (auto simp: mbind_def)
      have "access_quiet w w'" by (simp add: w' access_quiet_def other_step_def)
      with assms(1) show ?thesis
        using access_quiet_inv by (simp add: new_grants_def w')
    next
      case (Some h)
      then obtain v where v: "legacy_approve a note actor w = (Inr (), v)" "other_step w v"
        "access_view (w_db v) = (fst (access_view (w_db w)) @ [row_key a], snd (access_view (w_db w)))"
        by (rule legacy_approve_tables)
      have row: "row_key a \<in> row_key ` set (t_access_requests (w_db w))"
        using find_where_SomeD [OF a] by simp
      have rows: "row_key ` set (t_access_requests (w_db v)) = row_key ` set (t_access_requests (w_db w))"
        using arg_cong [OF v(3), of "\<lambda>x. set (snd x)"] by (simp add: access_view_def)
      have grants: "map grant_key (t_access_grants (w_db v)) = map grant_key (t_access_grants (w_db w)) @ [row_key a]"
        using v(3) by (simp add: access_view_def)
      have "access_inv (L @ [row_key a]) v"
        using assms(1) inv_other [OF v(2)] v(2) row rows
        by (simp add: access_inv_def access_part_def grants other_step_def)
      moreover have tail: "access_quiet v w'"
      proof -
        have "keeps access_quiet (mbind (audit_record b c d e f g h) (\<lambda>_. query (latest_grant i)))" for b c d e f g h
          by (intro access_quiet.keeps_bind access_quiet_audit access_quiet_prim)
        moreover have "mbind (access_audit actor ''access_request.approved'' ''access_request'' i) (\<lambda>_. query (latest_grant i)) v = (r, w')"
          using run pending by (simp add: mbind_eq [where m = "legacy_approve a note actor", OF v(1)])
        ultimately show ?thesis
          unfolding access_audit_def by (rule keepsD)
      qed
      moreover have "new_grants w w' = [row_key a]"
        using tail grants by (simp add: access_quiet_def access_view_def new_grants_def)
      ultimately show ?thesis using access_quiet_inv by simp
    qed
  qed
qed

lemma maintains_access_reject: "maintains (access_inv L) (access_reject i note actor)"
proof -
  have reject_row: "maintains (access_inv L) (access_repo_reject i u note)" for u
    unfolding access_repo_reject_def
    by (intro maintains_quiet access_quiet.keeps_rules access_quiet_prim access_quiet_exec)
      (simp add: access_view_def row_key_update row_key_fields)
  show ?thesis
    unfolding access_reject_def
    by (intro maintain.keeps_rules maintains_reject maintains_getById reject_row maintains_access_audit)
qed

lemma maintains_access_revoke: "maintains (access_inv S) (access_revokeGrant g actor)"
  unfolding access_revokeGrant_def access_repo_defs
  by (intro maintain.keeps_rules maintains_access_audit maintains_quiet access_quiet_prim access_quiet_exec)
    (simp add: access_view_def update_where_def comp_def grant_key_def cong: map_cong)

section \<open>Reachable states\<close>

text \<open>
  Runs of the module among the rest of the system.  A submission may also be interrupted after each of its three
  writes (the row, the request of the engine, the link): the row is written and the link is set by quiet
  steps, and a request of the engine is submitted on its own.  The index collects the grants that were given to
  rows while these had no link.
\<close>

inductive access_step :: "world \<Rightarrow> access_key list \<Rightarrow> world \<Rightarrow> bool" where
  acc_submit: "access_submit input actor w = (r1, w') \<Longrightarrow> access_step w [] w'"
| acc_approve: "\<not> unlinked i w \<Longrightarrow> access_approve i note actor w = (r2, w') \<Longrightarrow> access_step w [] w'"
| acc_legacy: "unlinked i w \<Longrightarrow> access_approve i note actor w = (r2, w') \<Longrightarrow> access_step w (new_grants w w') w'"
| acc_reject: "access_reject i note actor w = (r3, w') \<Longrightarrow> access_step w [] w'"
| acc_revoke: "access_revokeGrant g actor w = (r4, w') \<Longrightarrow> access_step w [] w'"
| acc_inbox_approve: "approve app_registry rid note actor w = (r5, w') \<Longrightarrow> access_step w [] w'"
| acc_inbox_reject: "reject app_registry rid note actor w = (r6, w') \<Longrightarrow> access_step w [] w'"
| acc_inbox_cancel: "cancel app_registry rid actor w = (r7, w') \<Longrightarrow> access_step w [] w'"
| acc_expire: "expire app_registry rid w = (r8, w') \<Longrightarrow> access_step w [] w'"
| acc_sla: "sla_tick w = (r9, w') \<Longrightarrow> access_step w [] w'"
| acc_create: "access_create input u w = (r10, w') \<Longrightarrow> access_step w [] w'"
| acc_engine: "(type = ''access_request'' \<Longrightarrow> payload = access_payload row input actor) \<Longrightarrow>
    submit app_registry type payload actor opts w = (r11, w') \<Longrightarrow> access_step w [] w'"
| acc_link: "exec (t_access_requests_update (update_where (\<lambda>r. ar_id r = i) (\<lambda>r. r\<lparr>ar_request := Some q\<rparr>))) w = (r12, w') \<Longrightarrow>
    access_step w [] w'"
| acc_other: "access_quiet w w' \<Longrightarrow> access_step w [] w'"

inductive access_reachable :: "access_key list \<Rightarrow> world \<Rightarrow> bool" where
  acc_init: "t_request_items (w_db w) = [] \<Longrightarrow> t_request_approvals (w_db w) = [] \<Longrightarrow>
    t_access_requests (w_db w) = [] \<Longrightarrow> t_access_grants (w_db w) = [] \<Longrightarrow> inj (w_uuid w) \<Longrightarrow> access_reachable [] w"
| acc_next: "access_reachable L w \<Longrightarrow> access_step w N w' \<Longrightarrow> access_reachable (L @ N) w'"

lemma access_step_inv:
  assumes "access_step w N w'" and "access_inv L w"
  shows "access_inv (L @ N) w'"
  using assms(1)
proof (cases rule: access_step.cases)
  case acc_submit
  then show ?thesis using maintainsD [OF maintains_access_submit assms(2)] by simp
next
  case acc_approve
  then show ?thesis using linked_approve [OF assms(2)] by (metis append_Nil2 snd_conv)
next
  case acc_legacy
  then show ?thesis using unlinked_approve [OF assms(2)] by simp
next
  case acc_reject
  then show ?thesis using maintainsD [OF maintains_access_reject assms(2)] by simp
next
  case acc_revoke
  then show ?thesis using maintainsD [OF maintains_access_revoke assms(2)] by simp
next
  case acc_inbox_approve
  then show ?thesis using maintainsD [OF maintains_approve assms(2)] by simp
next
  case acc_inbox_reject
  then show ?thesis using maintainsD [OF maintains_reject assms(2)] by simp
next
  case acc_inbox_cancel
  then show ?thesis using maintainsD [OF maintains_cancel assms(2)] by simp
next
  case acc_expire
  then show ?thesis using maintainsD [OF maintains_expire assms(2)] by simp
next
  case acc_sla
  then show ?thesis using maintainsD [OF maintains_sla assms(2)] by simp
next
  case acc_create
  then show ?thesis using maintainsD [OF maintains_quiet [OF access_quiet_create] assms(2)] by simp
next
  case (acc_engine type payload row input actor)
  have "type = ''access_request'' \<Longrightarrow> jtext (jfield payload ''requesterId'') = ac_sub actor"
    using acc_engine(2) by (simp add: access_payload_def)
  from maintainsD [OF maintains_submit [OF this] assms(2) acc_engine(3)] acc_engine(1) show ?thesis by simp
next
  case acc_link
  from maintainsD [OF maintains_quiet [OF access_quiet_link] assms(2) acc_link(2)] acc_link(1) show ?thesis by simp
next
  case acc_other
  then show ?thesis using access_quiet_inv [OF _ assms(2)] by simp
qed

lemma access_reachable_inv: "access_reachable L w \<Longrightarrow> access_inv L w"
proof (induction rule: access_reachable.induct)
  case (acc_init w)
  then have "engine_inv app_registry w"
    by (intro app.reachable_inv reach_init)
  with acc_init show ?case by (simp add: access_inv_def access_part_def)
next
  case (acc_next L w N w')
  show ?case using acc_next.hyps(2) acc_next.IH by (rule access_step_inv)
qed

end
