(* ===== verification/Access_Sample.thy ===== *)
theory Access_Sample
  imports Access_Requests Scenario
begin

text \<open>
  A concrete privileged-access request through its two approvals, evaluated step by step: the
  states the properties of \<open>Access_Claims\<close> are applied to.
\<close>

section \<open>A sample run\<close>

definition vpn :: access_input where
  "vpn = \<lparr>ai_access_type = ''vpn'', ai_target = ''t'', ai_justification = ''j'', ai_duration_hours = 2\<rparr>"

lemma access_def_fields:
  "td_permission access_request_def = ''access_request.approve''" "td_allow_self access_request_def = False"
  "td_expiry_hours access_request_def = Some 168" "td_sla_hours access_request_def = Some 72"
  "td_steps access_request_def = Some [
       \<lparr>sd_step = 1, sd_permission = ''access_request.approve'', sd_resolver = None\<rparr>,
       \<lparr>sd_step = 2, sd_permission = ''access_request.security_approve'', sd_resolver = None\<rparr>]"
  "td_on_submit access_request_def = None" "td_on_approve access_request_def = access_on_approve"
  "td_on_step_approved access_request_def = Some access_on_step_approved"
  "td_after_approve access_request_def = None"
  by (simp_all add: access_request_def_def)

lemmas run_access = access_submit_def access_create_def new_access_request_def access_payload_def
  access_approve_def access_getById_def latest_grant_def audit_record_def vpn_def
  access_on_approve_def access_on_step_approved_def access_def_fields access_registered

text \<open>
  Between the operations the rows of the outbox, the audit log and the notifications are
  dropped again, a step of other components, so that the worlds stay small.
\<close>

definition alice_access :: access_request where
  "alice_access = \<lparr>ar_id = ''d'', ar_requester = ''alice'', ar_access_type = ''vpn'', ar_target = ''t'',
     ar_justification = ''j'', ar_duration_hours = ''2'', ar_status = Acc_pending, ar_reviewer = None,
     ar_review_note = None, ar_reviewed_at = None, ar_created_at = 1000, ar_updated_at = 1000, ar_request = Some ''id''\<rparr>"

definition access_item :: request_item where
  "access_item = \<lparr>ri_id = ''id'', ri_type = ''access_request'', ri_requester = ''alice'', ri_assignee = None,
     ri_status = Req_pending, ri_priority = Prio_normal,
     ri_payload = [(''accessRequestId'', JStr ''d''), (''requesterId'', JStr ''alice''), (''accessType'', JStr ''vpn''),
       (''target'', JStr ''t''), (''justification'', JStr ''j''), (''durationHours'', JNum 2)],
     ri_resolution_note = None, ri_submitted_at = 1000, ri_resolved_at = None, ri_expires_at = Some 604801000,
     ri_sla_hours = Some 72, ri_sla_deadline = Some 259201000, ri_sla_breached_at = None, ri_current_step = 1,
     ri_total_steps = 2, ri_created_at = 1000, ri_updated_at = 1000\<rparr>"

definition acc_world :: "request_item \<Rightarrow> request_approval list \<Rightarrow> access_request \<Rightarrow> access_grant list \<Rightarrow> nat \<Rightarrow> world" where
  "acc_world r as a gs n = base_world\<lparr>w_next := n, w_db := base_db\<lparr>t_request_items := [r], t_request_approvals := as,
     t_access_requests := [a], t_access_grants := gs\<rparr>\<rparr>"

definition access_reviewed :: request_item where
  "access_reviewed = access_item\<lparr>ri_status := Req_in_review, ri_current_step := 2\<rparr>"

definition access_done :: request_item where
  "access_done = access_reviewed\<lparr>ri_status := Req_approved, ri_resolved_at := Some 1000\<rparr>"

definition access_log :: "uuid \<Rightarrow> int \<Rightarrow> request_approval" where
  "access_log i k = \<lparr>ra_id = i, ra_request = ''id'', ra_step = k, ra_approver = ''root'', ra_decision = Dec_approved,
     ra_note = None, ra_delegated_from = None, ra_decided_at = 1000\<rparr>"

definition access_tables :: "db \<Rightarrow> request_item list \<times> request_approval list \<times> access_request list \<times> access_grant list" where
  "access_tables d = (t_request_items d, t_request_approvals d, t_access_requests d, t_access_grants d)"

definition run_summary :: "('e + 'a) \<times> world \<Rightarrow> ('e + 'a) \<times> _" where
  "run_summary x = (fst x, access_tables (w_db (snd x)), w_next (snd x), w_uuid (snd x))"

lemmas run_sample = run_access run_db run_authz run_engine run_base acc_world_def access_item_def access_reviewed_def
  access_done_def access_log_def alice_access_def access_tables_def run_summary_def

lemma submit_sample:
  "run_summary (access_submit vpn (user ''alice'') base_world) =
     (Inr alice_access, ([access_item], [], [alice_access], []), 4, sample_uuid)"
  by (simp add: run_sample del: mbind_assoc cong: mbind_weak_cong)

lemma first_sample:
  "run_summary (access_approve ''d'' None (user ''root'') (acc_world access_item [] alice_access [] 5)) =
     (Inr None, ([access_reviewed], [access_log ''iiiiid'' 1], [alice_access], []), 8, sample_uuid)"
  by (simp add: run_sample del: mbind_assoc cong: mbind_weak_cong)

definition alice_grant :: access_grant where
  "alice_grant = \<lparr>ag_id = ''iiiiiiiiid'', ag_request = ''d'', ag_grantee = ''alice'', ag_access_type = ''vpn'', ag_target = ''t'',
     ag_granted_at = 1000, ag_expires_at = 7201000, ag_revoked_at = None\<rparr>"

lemma second_sample:
  "run_summary (access_approve ''d'' None (user ''root'') (acc_world access_reviewed [access_log ''iiiiid'' 1] alice_access [] 8)) =
     (Inr (Some alice_grant), ([access_done], [access_log ''iiiiid'' 1, access_log ''iiiiiiiid'' 2],
      [alice_access\<lparr>ar_status := Acc_approved, ar_reviewer := Some ''root'', ar_reviewed_at := Some 1000\<rparr>], [alice_grant]), 12, sample_uuid)"
  by (simp add: run_sample alice_grant_def del: mbind_assoc cong: mbind_weak_cong)


lemma sample_clean:
  assumes "run_summary y = (x, ([r], as, [a], gs), n, sample_uuid)" and "n \<le> k"
  shows "access_quiet (snd y) (acc_world r as a gs k)"
proof -
  have tables: "t_access_requests (w_db (snd y)) = [a]" "t_access_grants (w_db (snd y)) = gs"
    using assms(1) by (simp_all add: run_summary_def access_tables_def)
  have "access_view (w_db (acc_world r as a gs k)) = access_view (w_db (snd y))"
    by (simp only: access_view_def tables) (simp add: acc_world_def base_world_def)
  moreover have "other_step (snd y) (acc_world r as a gs k)"
    using assms by (auto simp: run_summary_def other_step_def access_tables_def acc_world_def base_world_def)
  ultimately show ?thesis by (simp add: access_quiet_def)
qed

lemma acc_base: "access_reachable [] base_world"
  by (rule acc_init) (simp_all add: run_base inj_sample_uuid)

lemma acc_submitted: "access_reachable [] (acc_world access_item [] alice_access [] 5)"
proof -
  have "access_reachable ([] @ []) (snd (access_submit vpn (user ''alice'') base_world))"
    by (rule acc_next [OF acc_base]) (rule acc_submit, rule prod.collapse [symmetric])
  from acc_next [OF this acc_other [OF sample_clean [OF submit_sample]]] show ?thesis by simp
qed

lemma sample_linked: "\<not> unlinked ''d'' (acc_world r as alice_access gs n)"
  by (simp add: unlinked_def acc_world_def run_base alice_access_def)

lemma acc_reviewed: "access_reachable [] (acc_world access_reviewed [access_log ''iiiiid'' 1] alice_access [] 8)"
proof -
  have "access_reachable ([] @ []) (snd (access_approve ''d'' None (user ''root'') (acc_world access_item [] alice_access [] 5)))"
    by (rule acc_next [OF acc_submitted]) (rule acc_approve [OF sample_linked], rule prod.collapse [symmetric])
  from acc_next [OF this acc_other [OF sample_clean [OF first_sample]]] show ?thesis by simp
qed

lemma acc_granted: "access_reachable [] (snd (access_approve ''d'' None (user ''root'')
    (acc_world access_reviewed [access_log ''iiiiid'' 1] alice_access [] 8)))"
proof -
  have "access_step (acc_world access_reviewed [access_log ''iiiiid'' 1] alice_access [] 8) [] (snd (access_approve ''d'' None (user ''root'')
    (acc_world access_reviewed [access_log ''iiiiid'' 1] alice_access [] 8)))"
    by (rule acc_approve [OF sample_linked], rule prod.collapse [symmetric])
  from acc_next [OF acc_reviewed this] show ?thesis by simp
qed

end
