(* ===== verification/Access_Claims.thy ===== *)
theory Access_Claims
  imports Access_Sample
begin

text \<open>
  The properties of privileged access: which grants exist, what a revocation does, and two
  places where the service and its documentation part ways.
\<close>

section \<open>Which grants exist\<close>



section \<open>Revocation\<close>

text \<open>When a revocation returns, the grant existed and was not revoked; it is now revoked at the
  present time, the lists of active grants of every user are what they were without it, and
  revoking it again is refused.\<close>

theorem revoke_takes_effect:
  assumes "access_revokeGrant g actor w = (Inr (), w')"
  shows "(\<exists>x \<in> set (t_access_grants (w_db w)). ag_id x = g \<and> ag_revoked_at x = None) \<and>
    (\<forall>x \<in> set (t_access_grants (w_db w')). ag_id x = g \<longrightarrow> ag_revoked_at x = Some (w_now w)) \<and>
    fst (access_listActiveGrants u w') =
      map_sum id (filter (\<lambda>x. ag_id x \<noteq> g)) (fst (access_listActiveGrants u w)) \<and>
    fst (access_revokeGrant g actor' w') = Inl (PreconditionFailedException ACCESS_GRANT_NOT_ACTIVE)"
proof -
  from assms obtain x where x: "find_where (\<lambda>x. ag_id x = g) (t_access_grants (w_db w)) = Some x" "ag_revoked_at x = None"
    by (auto simp: access_revokeGrant_def access_repo_defs split: option.splits if_splits)
  define upd :: "access_grant list \<Rightarrow> access_grant list" where "upd = update_where (\<lambda>x. ag_id x = g) (\<lambda>x. x\<lparr>ag_revoked_at := Some (w_now w)\<rparr>)"
  have T: "t_access_grants (w_db w') = upd (t_access_grants (w_db w))" and now: "w_now w' = w_now w"
    using assms x by (auto simp: access_revokeGrant_def access_repo_defs access_audit_def audit_record_def upd_def)
  have active: "select_where (grant_active u t) (upd l) = filter (\<lambda>x. ag_id x \<noteq> g) (select_where (grant_active u t) l)" for t l
    by (induction l) (auto simp: upd_def select_where_def grant_active_def)
  have filter_sort: "filter p (sort_key k l) = sort_key k (filter p l)" for p and k :: "access_grant \<Rightarrow> int" and l
    by (simp add: filter_sort)
  have "find_where (\<lambda>x. ag_id x = g) (t_access_grants (w_db w')) = Some (x\<lparr>ag_revoked_at := Some (w_now w)\<rparr>)"
    unfolding T upd_def using x(1) by (simp add: find_where_update_key)
  then have "fst (access_revokeGrant g actor' w') = Inl (PreconditionFailedException ACCESS_GRANT_NOT_ACTIVE)"
    by (simp add: access_revokeGrant_def access_repo_defs)
  moreover have "fst (access_listActiveGrants u w') =
      map_sum id (filter (\<lambda>x. ag_id x \<noteq> g)) (fst (access_listActiveGrants u w))"
    by (simp add: access_listActiveGrants_def now T active filter_sort)
  moreover have "\<forall>x \<in> set (t_access_grants (w_db w')). ag_id x = g \<longrightarrow> ag_revoked_at x = Some (w_now w)"
  proof -
    have "\<forall>x \<in> set (upd l). ag_id x = g \<longrightarrow> ag_revoked_at x = Some (w_now w)" for l
      by (induction l) (simp_all add: upd_def)
    then show ?thesis unfolding T by blast
  qed
  moreover have "\<exists>x \<in> set (t_access_grants (w_db w)). ag_id x = g \<and> ag_revoked_at x = None"
    using find_where_SomeD [OF x(1)] x(2) by (intro bexI [of _ x]) auto
  ultimately show ?thesis by (intro conjI)
qed

definition granted_world :: world where
  "granted_world = acc_world access_done [] alice_access [alice_grant] 9"

theorem revoke_takes_effect_witness:
  "fst (access_listActiveGrants ''alice'' granted_world) = Inr [alice_grant] \<and>
   fst (access_listActiveGrants ''alice'' (snd (access_revokeGrant ''iiiiiiiiid'' (user ''root'') granted_world))) = Inr []"
proof -
  have list: "fst (access_listActiveGrants ''alice'' granted_world) = Inr [alice_grant]"
    by (simp add: access_listActiveGrants_def granted_world_def acc_world_def base_world_def select_where_def
        grant_active_def alice_grant_def)
  have "fst (access_revokeGrant ''iiiiiiiiid'' (user ''root'') granted_world) = Inr ()"
    by (simp add: access_revokeGrant_def access_repo_defs granted_world_def acc_world_def base_world_def alice_grant_def
        access_audit_def audit_record_def)
  then have "access_revokeGrant ''iiiiiiiiid'' (user ''root'') granted_world =
      (Inr (), snd (access_revokeGrant ''iiiiiiiiid'' (user ''root'') granted_world))"
    by (simp add: prod_eq_iff)
  from revoke_takes_effect [OF this, of "''alice''"] list show ?thesis
    by (simp add: alice_grant_def)
qed

section \<open>Durations as text\<close>

text \<open>The duration of a request is stored as text and read back as a number when a row without
  an engine link is approved: what is read is what was submitted, for every whole number of
  hours.\<close>

theorem duration_roundtrip:
  "js_number (ar_duration_hours (new_access_request i t input u)) = Some (ai_duration_hours input)"
  by (simp add: new_access_request_def js_number_int_str)

section \<open>Where service and contract part\<close>

text \<open>A row that has no engine link yet (between its insertion and its link, and for good when the
  engine submission fails) is approved at once by any caller, its own requester included: the
  grant is written and returned, no engine request is decided and nothing is added to the
  approval log.\<close>

theorem unlinked_row_single_approval:
  assumes "access_create input u w = (Inr row, w1)"
    and "\<forall>a \<in> set (t_access_requests (w_db w)). ar_id a \<noteq> ar_id row"
    and "\<forall>g \<in> set (t_access_grants (w_db w)). ag_request g \<noteq> ar_id row"
  shows "\<exists>g w2. access_approve (ar_id row) note actor w1 = (Inr (Some g), w2) \<and>
    ag_grantee g = u \<and> ag_target g = ai_target input \<and>
    ag_expires_at g = w_now w + ai_duration_hours input * 3600000 \<and>
    t_request_items (w_db w2) = t_request_items (w_db w) \<and>
    t_request_approvals (w_db w2) = t_request_approvals (w_db w)"
proof -
  have row: "row = new_access_request (w_uuid w (w_next w)) (w_now w) input u"
    and w1: "w1 = w\<lparr>w_next := Suc (w_next w), w_db := t_access_requests_update (insert_row row) (w_db w)\<rparr>"
    using assms(1) by (auto simp: access_create_def Let_def)
  have none: "find_where (\<lambda>a. ar_id a = ar_id row) (t_access_requests (w_db w)) = None"
    using assms(2) by (simp add: find_where_None_iff)
  have get: "access_getById (ar_id row) w1 = (Inr row, w1)"
    by (simp add: access_getById_def w1 none)
  have grants: "select_where (\<lambda>g. ag_request g = ar_id row) (t_access_grants (w_db w)) = []"
    using assms(3) by (simp add: select_where_empty_iff)
  have fields: "ar_status row = Acc_pending" "ar_request row = None" "ar_requester row = u" "ar_target row = ai_target input"
    "js_number (ar_duration_hours row) = Some (ai_duration_hours input)"
    by (simp_all add: row new_access_request_def js_number_int_str)
  show ?thesis
    unfolding access_approve_def mbind_eq [where m = "access_getById (ar_id row)", OF get]
    by (simp add: fields legacy_approve_def legacy_grant_def access_repo_defs transaction_def access_audit_def audit_record_def latest_grant_def grants w1 mbind_def)
qed

theorem unlinked_row_single_approval_witness:
  "\<exists>g w2. access_approve ''d'' None (user ''alice'') (snd (access_create vpn ''alice'' base_world)) = (Inr (Some g), w2) \<and>
    ag_grantee g = ''alice''"
proof -
  let ?row = "new_access_request ''d'' 1000 vpn ''alice''"
  have "access_create vpn ''alice'' base_world = (Inr ?row, snd (access_create vpn ''alice'' base_world))"
    by (simp add: access_create_def base_world_def sample_uuid_def Let_def)
  from unlinked_row_single_approval [OF this, of None "user ''alice''"] show ?thesis
    by (auto simp: run_base new_access_request_def)
qed

text \<open>The first of the two approvals of an access request makes the service answer that there is
  no grant, although its declared result is a grant: on the sample the manager's approval has
  moved the engine's request to its second step, the row of the module still says pending, and
  the returned value is absent (the controller then reads a property of it).\<close>

theorem first_approval_returns_no_grant:
  "run_summary (access_approve ''d'' None (user ''root'') (acc_world access_item [] alice_access [] 5)) =
     (Inr None, ([access_reviewed], [access_log ''iiiiid'' 1], [alice_access], []), 8, sample_uuid)"
  by (rule first_sample)

end
