(* ===== verification/Sql_Text.thy ===== *)
theory Sql_Text
  imports Schema
begin

text \<open>
  What the repositories use of Postgres beyond whole-row comparisons: one page of an ordered
  selection with its count, ILIKE patterns, the input syntax of the type uuid; and calls that
  leave the process, whose outcome is a parameter.
\<close>

section \<open>Calls that leave the process\<close>

definition outside_call :: "(timestamp \<Rightarrow> exn + 'a) \<Rightarrow> 'a svc" where
  "outside_call f w = (f (w_now w), w)"

section \<open>Pages\<close>

text \<open>\<^verbatim>\<open>orderBy(desc(k)).limit(lim).offset(off)\<close> beside \<^verbatim>\<open>count(*)\<close> of the same condition.\<close>

definition page_of :: "('r \<Rightarrow> bool) \<Rightarrow> ('r \<Rightarrow> int) \<Rightarrow> nat \<Rightarrow> nat \<Rightarrow> 'r list \<Rightarrow> 'r list \<times> nat" where
  "page_of p k lim off t = (page lim off (sort_key (\<lambda>r. - k r) (select_where p t)), length (select_where p t))"

section \<open>ILIKE\<close>

text \<open>\<^verbatim>\<open>toLowerCase()\<close>, on ASCII letters.\<close>

definition lower_char :: "char \<Rightarrow> char" where
  "lower_char c = (if of_char c \<in> {65..<91::nat} then char_of (of_char c + 32 :: nat) else c)"

definition toLowerCase :: "string \<Rightarrow> string" where
  "toLowerCase s = map lower_char s"

text \<open>A percent sign stands for any text, an underscore for one character, a backslash for the next character itself.\<close>

fun like :: "string \<Rightarrow> string \<Rightarrow> bool" where
  "like [] t = (t = [])"
| "like (p # ps) t =
     (if p = CHR ''%'' then like ps t \<or> (case t of [] \<Rightarrow> False | _ # cs \<Rightarrow> like (p # ps) cs)
      else if p = CHR 0x5C then (case ps of [] \<Rightarrow> False | q # qs \<Rightarrow>
             (case t of [] \<Rightarrow> False | c # cs \<Rightarrow> c = q \<and> like qs cs))
      else (case t of [] \<Rightarrow> False | c # cs \<Rightarrow> (p = CHR ''_'' \<or> p = c) \<and> like ps cs))"

text \<open>\<^verbatim>\<open>ilike(col, `%${search}%`)\<close>; a null column never matches.\<close>

definition ilike_part :: "string \<Rightarrow> string \<Rightarrow> bool" where
  "ilike_part search col = like (''%'' @ toLowerCase search @ ''%'') (toLowerCase col)"

definition ilike_null :: "string \<Rightarrow> string option \<Rightarrow> bool" where
  "ilike_null search col = (case col of None \<Rightarrow> False | Some t \<Rightarrow> ilike_part search t)"

text \<open>\<^verbatim>\<open>f ? condition : undefined\<close> for a text filter: the empty text is no filter either.\<close>

definition opt_text :: "string option \<Rightarrow> (string \<Rightarrow> bool) \<Rightarrow> bool" where
  "opt_text f condition = (case f of None \<Rightarrow> True | Some [] \<Rightarrow> True | Some s \<Rightarrow> condition s)"

section \<open>Text that Postgres reads as a uuid\<close>

text \<open>
  32 hexadecimal digits, a hyphen allowed after every fourth, all of it optionally in braces.
  \<open>uuid_bytes k\<close> reads the last \<open>k\<close> of the sixteen bytes.
\<close>

definition hex_digit :: "char \<Rightarrow> bool" where
  "hex_digit c \<longleftrightarrow> c \<in> set ''0123456789abcdefABCDEF''"

definition skip_hyphen :: "nat \<Rightarrow> string \<Rightarrow> string" where
  "skip_hyphen k s = (if even k \<and> k > 0 \<and> s \<noteq> [] \<and> hd s = CHR ''-'' then tl s else s)"

fun uuid_bytes :: "nat \<Rightarrow> string \<Rightarrow> string option" where
  "uuid_bytes 0 s = Some s"
| "uuid_bytes (Suc k) (a # b # s) =
     (if hex_digit a \<and> hex_digit b then uuid_bytes k (skip_hyphen k s) else None)"
| "uuid_bytes (Suc k) s = None"

definition uuid_text :: "string \<Rightarrow> bool" where
  "uuid_text s = (if s \<noteq> [] \<and> hd s = CHR ''{'' then uuid_bytes 16 (tl s) = Some ''}'' else uuid_bytes 16 s = Some [])"

definition uuid_param :: "string \<Rightarrow> unit svc" where
  "uuid_param s = throw_if (\<not> uuid_text s) (PlainError ''invalid input syntax for type uuid'')"

text \<open>A slash is no part of such a text.\<close>

lemma slash_no_digit: "hex_digit c \<Longrightarrow> c \<noteq> CHR ''/''"
  by (auto simp: hex_digit_def)

lemma slash_skip_hyphen: "CHR ''/'' \<in> set s \<Longrightarrow> CHR ''/'' \<in> set (skip_hyphen k s)"
  by (cases s) (auto simp: skip_hyphen_def)

lemma uuid_bytes_slash: "uuid_bytes k s = Some r \<Longrightarrow> CHR ''/'' \<in> set s \<Longrightarrow> CHR ''/'' \<in> set r"
proof (induction k s rule: uuid_bytes.induct)
  case (2 k a b s)
  then show ?case
    using slash_no_digit [of a] slash_no_digit [of b] slash_skip_hyphen [of s k] by (simp split: if_splits)
qed simp_all

lemma uuid_text_no_slash: "CHR ''/'' \<in> set s \<Longrightarrow> \<not> uuid_text s"
  using uuid_bytes_slash [of 16 s "[]"] uuid_bytes_slash [of 16 "tl s" "''}''"]
  by (cases s) (auto simp: uuid_text_def simp del: uuid_bytes.simps)

text \<open>\<^verbatim>\<open>x ?? y\<close>.\<close>

definition or_else :: "'a option \<Rightarrow> 'a option \<Rightarrow> 'a option" where
  "or_else a b = (case a of None \<Rightarrow> b | Some x \<Rightarrow> Some x)"

text \<open>A column of a partial update: an absent property keeps it.\<close>

definition patched :: "'a option \<Rightarrow> 'a \<Rightarrow> 'a" where
  "patched new old = (case new of None \<Rightarrow> old | Some v \<Rightarrow> v)"

end
