(* ===== verification/Workforce.thy ===== *)
theory Workforce
  imports Engine_Domain Sql_Text
begin

text \<open>
  Workforce (\<^verbatim>\<open>libs/modules/workforce\<close>): timesheets, leave, overtime, shift logs and the
  submission of onboarding and offboarding requests.  The first section is the repository, the
  second the service; leave documents are in \<open>Documents\<close>.  A calendar day is its number, also
  inside a payload; hours are in hundredths.
\<close>

section \<open>Inputs and filters\<close>

record timesheet_input =
  ti_work_date :: int
  ti_minutes :: int
  ti_note :: "string option"

record leave_input =
  li_leave_type :: leave_type
  li_start :: int
  li_end :: int
  li_reason :: "string option"

record overtime_input =
  oi_work_date :: int
  oi_hours :: int
  oi_reason :: string

record shift_input =
  shi_shift_type :: shift_type
  shi_starts_at :: timestamp
  shi_ends_at :: timestamp
  shi_note :: "string option"

record onboarding_input =
  bi_employee :: uuid
  bi_email :: string
  bi_start :: int
  bi_department :: "string option"
  bi_job_title :: "string option"
  bi_manager_name :: "string option"
  bi_equipment_type :: "string option"
  bi_preferred_os :: "string option"
  bi_equipment_note :: "string option"
  bi_access_needs :: "string list option"

record offboarding_input =
  ofi_employee :: uuid
  ofi_email :: string
  ofi_reason :: "string option"

record 'k workforce_filters =
  wf_employee :: "uuid option"
  wf_kind :: "'k option" \<comment> \<open>the status, for shift logs the shift type\<close>

section \<open>The repository\<close>

definition createTimesheet_row :: "timesheet_input \<Rightarrow> uuid \<Rightarrow> timesheet svc" where
  "createTimesheet_row input employeeId =
     mbind newId (\<lambda>rowId. mbind now (\<lambda>t.
     let row = \<lparr>ts_id = rowId, ts_employee = employeeId, ts_work_date = ti_work_date input,
                ts_minutes = ti_minutes input, ts_note = ti_note input, ts_status = Ts_draft,
                ts_submitted_at = None, ts_approved_by = None, ts_created_at = t, ts_updated_at = t\<rparr> in
     mbind (exec (t_timesheets_update (insert_row row))) (\<lambda>_. mret row)))"

definition findTimesheetById :: "uuid \<Rightarrow> timesheet option svc" where
  "findTimesheetById rowId = query (\<lambda>d. find_where (\<lambda>r. ts_id r = rowId) (t_timesheets d))"

definition listTimesheets :: "timesheet_status workforce_filters \<Rightarrow> nat \<Rightarrow> nat \<Rightarrow> (timesheet list \<times> nat) svc" where
  "listTimesheets f lim off = query (\<lambda>d.
     page_of (\<lambda>r. opt_eq (wf_employee f) (ts_employee r) \<and> opt_eq (wf_kind f) (ts_status r)) ts_work_date lim off
       (t_timesheets d))"

definition setTimesheetStatus :: "uuid \<Rightarrow> timesheet_status \<Rightarrow> uuid option \<Rightarrow> timesheet option svc" where
  "setTimesheetStatus rowId status approvedBy =
     mbind now (\<lambda>t.
     mbind (exec (t_timesheets_update (update_where (\<lambda>r. ts_id r = rowId)
       (\<lambda>r. r\<lparr>ts_status := status,
              ts_approved_by := (if status = Ts_approved then approvedBy else None),
              ts_submitted_at := (if status = Ts_submitted then Some t else ts_submitted_at r),
              ts_updated_at := t\<rparr>)))) (\<lambda>_.
     findTimesheetById rowId))"

definition createLeave_row :: "leave_input \<Rightarrow> uuid \<Rightarrow> leave_request svc" where
  "createLeave_row input employeeId =
     mbind newId (\<lambda>rowId. mbind now (\<lambda>t.
     let row = \<lparr>lr_id = rowId, lr_employee = employeeId, lr_leave_type = li_leave_type input,
                lr_start = li_start input, lr_end = li_end input, lr_reason = li_reason input,
                lr_document_key = None, lr_status = Lv_pending, lr_reviewer = None, lr_reviewed_at = None,
                lr_created_at = t, lr_request = None\<rparr> in
     mbind (exec (t_leave_requests_update (insert_row row))) (\<lambda>_. mret row)))"

definition findLeaveById :: "uuid \<Rightarrow> leave_request option svc" where
  "findLeaveById rowId = query (\<lambda>d. find_where (\<lambda>r. lr_id r = rowId) (t_leave_requests d))"

definition listLeave :: "leave_status workforce_filters \<Rightarrow> nat \<Rightarrow> nat \<Rightarrow> (leave_request list \<times> nat) svc" where
  "listLeave f lim off = query (\<lambda>d.
     page_of (\<lambda>r. opt_eq (wf_employee f) (lr_employee r) \<and> opt_eq (wf_kind f) (lr_status r)) lr_start lim off
       (t_leave_requests d))"

definition setLeaveStatus :: "uuid \<Rightarrow> leave_status \<Rightarrow> uuid option \<Rightarrow> leave_request option svc" where
  "setLeaveStatus rowId status reviewerId =
     mbind now (\<lambda>t.
     let reviewed = status = Lv_approved \<or> status = Lv_rejected in
     mbind (exec (t_leave_requests_update (update_where (\<lambda>r. lr_id r = rowId)
       (\<lambda>r. r\<lparr>lr_status := status, lr_reviewer := (if reviewed then reviewerId else None),
              lr_reviewed_at := (if reviewed then Some t else None)\<rparr>)))) (\<lambda>_.
     findLeaveById rowId))"

definition setLeaveRequestId :: "uuid \<Rightarrow> uuid \<Rightarrow> unit svc" where
  "setLeaveRequestId rowId requestId = exec (t_leave_requests_update (update_where (\<lambda>r. lr_id r = rowId)
     (\<lambda>r. r\<lparr>lr_request := Some requestId\<rparr>)))"

definition leave_active :: "leave_request \<Rightarrow> bool" where
  "leave_active r \<longleftrightarrow> lr_status r = Lv_pending \<or> lr_status r = Lv_approved"

definition hasOverlappingLeave :: "uuid \<Rightarrow> int \<Rightarrow> int \<Rightarrow> bool svc" where
  "hasOverlappingLeave employeeId startDate endDate = query (\<lambda>d.
     length (select_where (\<lambda>r. lr_employee r = employeeId \<and> leave_active r \<and> lr_start r \<le> endDate \<and> startDate \<le> lr_end r)
       (t_leave_requests d)) > 0)"

definition createOvertime_row :: "overtime_input \<Rightarrow> uuid \<Rightarrow> overtime_entry svc" where
  "createOvertime_row input employeeId =
     mbind newId (\<lambda>rowId. mbind now (\<lambda>t.
     let row = \<lparr>ot_id = rowId, ot_employee = employeeId, ot_work_date = oi_work_date input,
                ot_hours = oi_hours input, ot_reason = oi_reason input, ot_status = Ot_pending,
                ot_reviewer = None, ot_reviewed_at = None, ot_created_at = t, ot_request = None\<rparr> in
     mbind (exec (t_overtime_entries_update (insert_row row))) (\<lambda>_. mret row)))"

definition findOvertimeById :: "uuid \<Rightarrow> overtime_entry option svc" where
  "findOvertimeById rowId = query (\<lambda>d. find_where (\<lambda>r. ot_id r = rowId) (t_overtime_entries d))"

definition listOvertime :: "overtime_status workforce_filters \<Rightarrow> nat \<Rightarrow> nat \<Rightarrow> (overtime_entry list \<times> nat) svc" where
  "listOvertime f lim off = query (\<lambda>d.
     page_of (\<lambda>r. opt_eq (wf_employee f) (ot_employee r) \<and> opt_eq (wf_kind f) (ot_status r)) ot_work_date lim off
       (t_overtime_entries d))"

definition setOvertimeStatus :: "uuid \<Rightarrow> overtime_status \<Rightarrow> uuid option \<Rightarrow> overtime_entry option svc" where
  "setOvertimeStatus rowId status reviewerId =
     mbind now (\<lambda>t.
     let reviewed = status = Ot_approved \<or> status = Ot_rejected in
     mbind (exec (t_overtime_entries_update (update_where (\<lambda>r. ot_id r = rowId)
       (\<lambda>r. r\<lparr>ot_status := status, ot_reviewer := (if reviewed then reviewerId else None),
              ot_reviewed_at := (if reviewed then Some t else None)\<rparr>)))) (\<lambda>_.
     findOvertimeById rowId))"

definition setOvertimeRequestId :: "uuid \<Rightarrow> uuid \<Rightarrow> unit svc" where
  "setOvertimeRequestId rowId requestId = exec (t_overtime_entries_update (update_where (\<lambda>r. ot_id r = rowId)
     (\<lambda>r. r\<lparr>ot_request := Some requestId\<rparr>)))"

definition createShiftLog_row :: "shift_input \<Rightarrow> uuid \<Rightarrow> shift_log svc" where
  "createShiftLog_row input employeeId =
     mbind newId (\<lambda>rowId. mbind now (\<lambda>t.
     let row = \<lparr>sl_id = rowId, sl_employee = employeeId, sl_shift_type = shi_shift_type input,
                sl_starts_at = shi_starts_at input, sl_ends_at = shi_ends_at input, sl_note = shi_note input,
                sl_created_at = t\<rparr> in
     mbind (exec (t_shift_logs_update (insert_row row))) (\<lambda>_. mret row)))"

definition findShiftLogById :: "uuid \<Rightarrow> shift_log option svc" where
  "findShiftLogById rowId = query (\<lambda>d. find_where (\<lambda>r. sl_id r = rowId) (t_shift_logs d))"

definition listShiftLogs :: "shift_type workforce_filters \<Rightarrow> nat \<Rightarrow> nat \<Rightarrow> (shift_log list \<times> nat) svc" where
  "listShiftLogs f lim off = query (\<lambda>d.
     page_of (\<lambda>r. opt_eq (wf_employee f) (sl_employee r) \<and> opt_eq (wf_kind f) (sl_shift_type r)) sl_starts_at lim off
       (t_shift_logs d))"

section \<open>The service\<close>

definition workforce_audit :: "actor \<Rightarrow> string \<Rightarrow> string \<Rightarrow> uuid \<Rightarrow> jobject \<Rightarrow> unit svc" where
  "workforce_audit actor action resourceType resourceId metadata =
     audit_record (Some (ac_sub actor)) (Some (ac_email actor)) action resourceType (Some resourceId) [] metadata"

definition createTimesheet :: "timesheet_input \<Rightarrow> actor \<Rightarrow> timesheet svc" where
  "createTimesheet input actor = createTimesheet_row input (ac_sub actor)"

definition getTimesheet :: "uuid \<Rightarrow> timesheet svc" where
  "getTimesheet rowId = mbind (findTimesheetById rowId) (\<lambda>t. or_throw t (NotFoundException TIMESHEET_NOT_FOUND))"

definition submitTimesheet :: "uuid \<Rightarrow> actor \<Rightarrow> timesheet option svc" where
  "submitTimesheet rowId actor =
     mbind (getTimesheet rowId) (\<lambda>t.
     mbind (throw_if (ts_status t \<noteq> Ts_draft \<and> ts_status t \<noteq> Ts_rejected)
              (PreconditionFailedException TIMESHEET_NOT_EDITABLE)) (\<lambda>_.
     setTimesheetStatus rowId Ts_submitted None))"

definition reviewTimesheet :: "uuid \<Rightarrow> bool \<Rightarrow> actor \<Rightarrow> timesheet option svc" where
  "reviewTimesheet rowId approved actor =
     mbind (getTimesheet rowId) (\<lambda>t.
     mbind (throw_if (ts_status t \<noteq> Ts_submitted) (PreconditionFailedException TIMESHEET_NOT_EDITABLE)) (\<lambda>_.
     mbind (setTimesheetStatus rowId (if approved then Ts_approved else Ts_rejected)
              (if approved then Some (ac_sub actor) else None)) (\<lambda>updated.
     mbind (workforce_audit actor (if approved then ''timesheet.approved'' else ''timesheet.rejected'')
              ''timesheet'' rowId []) (\<lambda>_.
     mret updated))))"

definition leave_payload :: "leave_request \<Rightarrow> actor \<Rightarrow> jobject" where
  "leave_payload leave actor =
     [(''leaveRequestId'', JStr (lr_id leave)), (''employeeId'', JStr (ac_sub actor)),
      (''leaveType'', JStr (leave_type_name (lr_leave_type leave))), (''startDate'', JNum (lr_start leave)),
      (''endDate'', JNum (lr_end leave)), (''reason'', jstr_or_null (lr_reason leave))]"

definition createLeave :: "leave_input \<Rightarrow> actor \<Rightarrow> leave_request svc" where
  "createLeave input actor =
     mbind (throw_if (li_start input > li_end input) (PreconditionFailedException PRECONDITION_FAILED)) (\<lambda>_.
     mbind (hasOverlappingLeave (ac_sub actor) (li_start input) (li_end input)) (\<lambda>overlaps.
     mbind (throw_if overlaps (ConflictException LEAVE_OVERLAPPING)) (\<lambda>_.
     mbind (createLeave_row input (ac_sub actor)) (\<lambda>leave.
     mbind now (\<lambda>t.
     mbind (submit app_registry ''leave_request'' (leave_payload leave actor) actor
              (no_options\<lparr>so_expires_at := Some (t + 72 * 3600000)\<rparr>)) (\<lambda>engineItem.
     mbind (setLeaveRequestId (lr_id leave) (ri_id engineItem)) (\<lambda>_.
     mbind (workforce_audit actor ''leave.requested'' ''leave_request'' (lr_id leave)
              [(''leaveType'', JStr (leave_type_name (lr_leave_type leave))), (''startDate'', JNum (lr_start leave)),
               (''endDate'', JNum (lr_end leave)), (''engineRequestId'', JStr (ri_id engineItem))]) (\<lambda>_.
     mret (leave\<lparr>lr_request := Some (ri_id engineItem)\<rparr>)))))))))"

definition getLeave :: "uuid \<Rightarrow> leave_request svc" where
  "getLeave rowId = mbind (findLeaveById rowId) (\<lambda>l. or_throw l (NotFoundException LEAVE_REQUEST_NOT_FOUND))"

definition reviewLeave :: "uuid \<Rightarrow> bool \<Rightarrow> actor \<Rightarrow> leave_request option svc" where
  "reviewLeave rowId approved actor =
     mbind (getLeave rowId) (\<lambda>l.
     mbind (throw_if (lr_status l \<noteq> Lv_pending) (PreconditionFailedException LEAVE_REQUEST_NOT_PENDING)) (\<lambda>_.
     case lr_request l of
       Some q \<Rightarrow>
         mbind (if approved then approve app_registry q None actor else reject app_registry q None actor) (\<lambda>_.
         mbind (getLeave rowId) (\<lambda>l'. mret (Some l')))
     | None \<Rightarrow>
         mbind (setLeaveStatus rowId (if approved then Lv_approved else Lv_rejected) (Some (ac_sub actor))) (\<lambda>updated.
         mbind (workforce_audit actor (if approved then ''leave.approved'' else ''leave.rejected'')
                  ''leave_request'' rowId []) (\<lambda>_.
         mret updated))))"

definition cancelLeave :: "uuid \<Rightarrow> actor \<Rightarrow> leave_request option svc" where
  "cancelLeave rowId actor =
     mbind (getLeave rowId) (\<lambda>l.
     mbind (throw_if (lr_status l \<noteq> Lv_pending \<and> lr_status l \<noteq> Lv_approved)
              (PreconditionFailedException LEAVE_REQUEST_NOT_PENDING)) (\<lambda>_.
     setLeaveStatus rowId Lv_cancelled None))"

definition overtime_payload :: "overtime_entry \<Rightarrow> overtime_input \<Rightarrow> actor \<Rightarrow> jobject" where
  "overtime_payload entry input actor =
     [(''overtimeId'', JStr (ot_id entry)), (''employeeId'', JStr (ac_sub actor)),
      (''workDate'', JNum (ot_work_date entry)), (''hours'', JNum (oi_hours input)),
      (''reason'', JStr (ot_reason entry))]"

definition createOvertime :: "overtime_input \<Rightarrow> actor \<Rightarrow> overtime_entry svc" where
  "createOvertime input actor =
     mbind (createOvertime_row input (ac_sub actor)) (\<lambda>entry.
     mbind now (\<lambda>t.
     mbind (submit app_registry ''overtime'' (overtime_payload entry input actor) actor
              (no_options\<lparr>so_expires_at := Some (t + 72 * 3600000)\<rparr>)) (\<lambda>engineItem.
     mbind (setOvertimeRequestId (ot_id entry) (ri_id engineItem)) (\<lambda>_.
     mret (entry\<lparr>ot_request := Some (ri_id engineItem)\<rparr>)))))"

definition getOvertime :: "uuid \<Rightarrow> overtime_entry svc" where
  "getOvertime rowId = mbind (findOvertimeById rowId) (\<lambda>e. or_throw e (NotFoundException OVERTIME_NOT_FOUND))"

definition reviewOvertime :: "uuid \<Rightarrow> bool \<Rightarrow> actor \<Rightarrow> overtime_entry option svc" where
  "reviewOvertime rowId approved actor =
     mbind (getOvertime rowId) (\<lambda>e.
     mbind (throw_if (ot_status e \<noteq> Ot_pending) (PreconditionFailedException PRECONDITION_FAILED)) (\<lambda>_.
     case ot_request e of
       Some q \<Rightarrow>
         mbind (if approved then approve app_registry q None actor else reject app_registry q None actor) (\<lambda>_.
         mbind (getOvertime rowId) (\<lambda>e'. mret (Some e')))
     | None \<Rightarrow>
         mbind (setOvertimeStatus rowId (if approved then Ot_approved else Ot_rejected) (Some (ac_sub actor))) (\<lambda>updated.
         mbind (workforce_audit actor (if approved then ''overtime.approved'' else ''overtime.rejected'')
                  ''overtime_entry'' rowId []) (\<lambda>_.
         mret updated))))"

definition createShiftLog :: "shift_input \<Rightarrow> actor \<Rightarrow> shift_log svc" where
  "createShiftLog input actor =
     mbind (throw_if (shi_starts_at input \<ge> shi_ends_at input) (PreconditionFailedException PRECONDITION_FAILED)) (\<lambda>_.
     createShiftLog_row input (ac_sub actor))"

definition getShiftLog :: "uuid \<Rightarrow> shift_log svc" where
  "getShiftLog rowId = mbind (findShiftLogById rowId) (\<lambda>s. or_throw s (NotFoundException SHIFT_LOG_NOT_FOUND))"

text \<open>\<^verbatim>\<open>...(x && { k: x })\<close>: an absent or empty text adds no property.\<close>

definition opt_field :: "string \<Rightarrow> string option \<Rightarrow> jobject" where
  "opt_field k x = (case x of None \<Rightarrow> [] | Some s \<Rightarrow> if s = [] then [] else [(k, JStr s)])"

definition opt_list_field :: "string \<Rightarrow> string list option \<Rightarrow> jobject" where
  "opt_list_field k x = (case x of None \<Rightarrow> [] | Some s \<Rightarrow> if s = [] then [] else [(k, JArr (map JStr s))])"

definition onboarding_payload :: "onboarding_input \<Rightarrow> jobject" where
  "onboarding_payload input =
     [(''employeeId'', JStr (bi_employee input)), (''employeeEmail'', JStr (bi_email input)),
      (''startDate'', JNum (bi_start input))]
     @ opt_field ''department'' (bi_department input)
     @ opt_field ''jobTitle'' (bi_job_title input)
     @ opt_field ''managerName'' (bi_manager_name input)
     @ opt_field ''equipmentType'' (bi_equipment_type input)
     @ opt_field ''preferredOs'' (bi_preferred_os input)
     @ opt_field ''equipmentNote'' (bi_equipment_note input)
     @ opt_list_field ''accessNeeds'' (bi_access_needs input)"

definition submitOnboarding :: "onboarding_input \<Rightarrow> actor \<Rightarrow> uuid svc" where
  "submitOnboarding input actor =
     mbind (submit app_registry ''onboarding'' (onboarding_payload input) actor no_options) (\<lambda>item.
     mbind (workforce_audit actor ''workforce.onboarding_submitted'' ''employee'' (bi_employee input)
              [(''requestId'', JStr (ri_id item)), (''startDate'', JNum (bi_start input))]) (\<lambda>_.
     mret (ri_id item)))"

definition offboarding_payload :: "offboarding_input \<Rightarrow> jobject" where
  "offboarding_payload input =
     [(''employeeId'', JStr (ofi_employee input)), (''employeeEmail'', JStr (ofi_email input))]
     @ opt_field ''reason'' (ofi_reason input)"

definition submitOffboarding :: "offboarding_input \<Rightarrow> actor \<Rightarrow> uuid svc" where
  "submitOffboarding input actor =
     mbind (submit app_registry ''offboarding'' (offboarding_payload input) actor no_options) (\<lambda>item.
     mbind (workforce_audit actor ''workforce.offboarding_submitted'' ''employee'' (ofi_employee input)
              ((''requestId'', JStr (ri_id item)) #
               (case ofi_reason input of None \<Rightarrow> [] | Some s \<Rightarrow> [(''reason'', JStr s)]))) (\<lambda>_.
     mret (ri_id item)))"

end
