(* ===== verification/Offboarding.thy ===== *)
theory Offboarding
  imports Type_Defs
begin

text \<open>
  What the approval of an offboarding does to the tables: the effect of the type's hook in
  closed form, shared by the properties of the workforce module and of the assets.
\<close>

text \<open>The loop that returns the assets, in one step.\<close>

lemma mark_returned_loop:
  "mfor ls (mark_returned t) v = (Inr (), v\<lparr>w_db := t_assets_update
     (update_where (\<lambda>a. as_id a \<in> set ls) (\<lambda>a. a\<lparr>as_status := As_in_stock, as_updated_at := t\<rparr>)) (w_db v)\<rparr>)"
proof (induction ls arbitrary: v)
  case Nil
  show ?case by (simp add: update_where_def)
next
  case (Cons i ls)
  let ?f = "\<lambda>a. a\<lparr>as_status := As_in_stock, as_updated_at := t\<rparr>"
  have "update_where (\<lambda>a. as_id a \<in> set ls) ?f (update_where (\<lambda>a. as_id a = i) ?f l) =
      update_where (\<lambda>a. as_id a = i \<or> as_id a \<in> set ls) ?f l" for l
    by (induction l) auto
  then have eq: "(\<lambda>l. update_where (\<lambda>a. as_id a \<in> set ls) ?f (update_where (\<lambda>a. as_id a = i) ?f l)) =
      update_where (\<lambda>a. as_id a = i \<or> as_id a \<in> set ls) ?f"
    by (rule ext)
  show ?case
    by (simp add: mark_returned_def [of t i] Cons.IH comp_def eq)
qed

definition open_assignment :: "uuid \<Rightarrow> asset_assignment \<Rightarrow> bool" where
  "open_assignment e a \<longleftrightarrow> aa_employee a = e \<and> aa_returned_at a = None"

lemma offboarding_effect:
  assumes "offboarding_on_approve p q a v = (Inr (), v')" and "e = jtext (jfield p ''employeeId'')"
  shows "t_employees (w_db v') = update_where (\<lambda>x. emp_id x = e) (\<lambda>x. x\<lparr>emp_status := Emp_offboarded, emp_updated_at := w_now v\<rparr>) (t_employees (w_db v))"
    and "t_role_assignments (w_db v') = delete_where (\<lambda>x. ura_user x = e) (t_role_assignments (w_db v))"
    and "t_access_grants (w_db v') = update_where (\<lambda>g. ag_grantee g = e \<and> ag_revoked_at g = None) (\<lambda>g. g\<lparr>ag_revoked_at := Some (w_now v)\<rparr>) (t_access_grants (w_db v))"
    and "t_asset_assignments (w_db v') = update_where (open_assignment e) (\<lambda>x. x\<lparr>aa_returned_at := Some (w_now v)\<rparr>) (t_asset_assignments (w_db v))"
    and "t_assets (w_db v') = update_where (\<lambda>x. as_id x \<in> aa_asset ` {y \<in> set (t_asset_assignments (w_db v)). open_assignment e y})
      (\<lambda>x. x\<lparr>as_status := As_in_stock, as_updated_at := w_now v\<rparr>) (t_assets (w_db v))"
    and "t_refresh_tokens (w_db v') = update_where (\<lambda>r. rt_employee r = e \<and> \<not> rt_revoked r) (\<lambda>r. r\<lparr>rt_revoked := True\<rparr>) (t_refresh_tokens (w_db v))"
    and "w_cache v' = w_cache v"
  using assms by (auto simp: offboarding_on_approve_def Let_def mbind_eq [OF mark_returned_loop] open_assignment_def [abs_def])


lemma update_where_all:
  "(\<And>x. q x \<Longrightarrow> g (f x)) \<Longrightarrow> (\<And>x. \<not> q x \<Longrightarrow> g x) \<Longrightarrow> \<forall>x \<in> set (update_where q f t). g x"
  by (induction t) auto

lemma update_where_all_in:
  "(\<And>x. x \<in> set t \<Longrightarrow> q x \<Longrightarrow> g (f x)) \<Longrightarrow> (\<And>x. x \<in> set t \<Longrightarrow> \<not> q x \<Longrightarrow> g x) \<Longrightarrow> \<forall>x \<in> set (update_where q f t). g x"
  by (induction t) auto

lemma update_where_others: "(\<And>x. p x \<Longrightarrow> \<not> q x) \<Longrightarrow> (\<And>x. q x \<Longrightarrow> \<not> p (f x)) \<Longrightarrow> filter p (update_where q f t) = filter p t"
  by (induction t) auto

text \<open>What is left of an employee in the tables once the offboarding is through.\<close>

definition offboarded :: "uuid \<Rightarrow> db \<Rightarrow> bool" where
  "offboarded e d \<longleftrightarrow>
     (\<forall>x \<in> set (t_employees d). emp_id x = e \<longrightarrow> emp_status x = Emp_offboarded) \<and>
     (\<forall>x \<in> set (t_role_assignments d). ura_user x \<noteq> e) \<and>
     (\<forall>x \<in> set (t_access_grants d). ag_grantee x = e \<longrightarrow> ag_revoked_at x \<noteq> None) \<and>
     (\<forall>x \<in> set (t_asset_assignments d). aa_employee x = e \<longrightarrow> aa_returned_at x \<noteq> None) \<and>
     (\<forall>x \<in> set (t_refresh_tokens d). rt_employee x = e \<longrightarrow> rt_revoked x)"

text \<open>The rows of everybody else.\<close>

definition others_rows :: "uuid \<Rightarrow> db \<Rightarrow> employee list \<times> role_assignment list \<times> access_grant list \<times> asset_assignment list \<times> refresh_token list" where
  "others_rows e d = (filter (\<lambda>x. emp_id x \<noteq> e) (t_employees d), filter (\<lambda>x. ura_user x \<noteq> e) (t_role_assignments d),
     filter (\<lambda>x. ag_grantee x \<noteq> e) (t_access_grants d), filter (\<lambda>x. aa_employee x \<noteq> e) (t_asset_assignments d),
     filter (\<lambda>x. rt_employee x \<noteq> e) (t_refresh_tokens d))"

lemma offboarding_done:
  assumes "offboarding_on_approve p q a v = (Inr (), v')" and "e = jtext (jfield p ''employeeId'')"
  shows "offboarded e (w_db v')" and "others_rows e (w_db v') = others_rows e (w_db v)"
    and "\<forall>y \<in> set (t_asset_assignments (w_db v)). open_assignment e y \<longrightarrow>
      (\<forall>x \<in> set (t_assets (w_db v')). as_id x = aa_asset y \<longrightarrow> as_status x = As_in_stock)"
proof -
  note eff = offboarding_effect [OF assms]
  show "offboarded e (w_db v')"
    unfolding offboarded_def eff
    by (intro conjI update_where_all; simp add: open_assignment_def)
  show "others_rows e (w_db v') = others_rows e (w_db v)"
    unfolding others_rows_def eff
    by (intro arg_cong2 [where f = Pair] update_where_others; simp add: open_assignment_def delete_where_def)
  show "\<forall>y \<in> set (t_asset_assignments (w_db v)). open_assignment e y \<longrightarrow>
      (\<forall>x \<in> set (t_assets (w_db v')). as_id x = aa_asset y \<longrightarrow> as_status x = As_in_stock)"
    unfolding eff by (intro ballI impI [of "open_assignment e y" for y] update_where_all) auto
qed

end
