(* ===== verification/Workforce_Claims.thy ===== *)
theory Workforce_Claims
  imports Workforce Offboarding Scenario
begin

text \<open>
  The properties of the workforce module: the life of a timesheet, the calendar of leave, the
  completeness of an offboarding, and what a cancelled leave may still become.
\<close>

section \<open>The life of a timesheet\<close>

inductive ts_flow :: "timesheet_status \<Rightarrow> timesheet_status \<Rightarrow> bool" where
  flow_submit: "ts_flow Ts_draft Ts_submitted"
| flow_resubmit: "ts_flow Ts_rejected Ts_submitted"
| flow_accept: "ts_flow Ts_submitted Ts_approved"
| flow_refuse: "ts_flow Ts_submitted Ts_rejected"

inductive_simps ts_flow_final: "ts_flow Ts_approved s"

definition timesheet_ok :: "timesheet \<Rightarrow> bool" where
  "timesheet_ok r \<longleftrightarrow> (ts_status r = Ts_approved \<longleftrightarrow> ts_approved_by r \<noteq> None) \<and>
     (ts_status r \<noteq> Ts_draft \<longrightarrow> ts_submitted_at r \<noteq> None)"

definition timesheet_core :: "timesheet \<Rightarrow> uuid \<times> uuid \<times> int \<times> int \<times> string option \<times> timestamp" where
  "timesheet_core r = (ts_id r, ts_employee r, ts_work_date r, ts_minutes r, ts_note r, ts_created_at r)"

definition ts_evolves :: "timesheet \<Rightarrow> timesheet \<Rightarrow> bool" where
  "ts_evolves r r' \<longleftrightarrow> timesheet_core r' = timesheet_core r \<and> ts_flow\<^sup>*\<^sup>* (ts_status r) (ts_status r') \<and>
     (ts_status r = Ts_approved \<longrightarrow> r' = r)"

text \<open>A step of the module, or of any component that has no business with timesheets.\<close>

inductive ts_step :: "world \<Rightarrow> world \<Rightarrow> bool" where
  ts_create: "createTimesheet input actor w = (r1, w') \<Longrightarrow> ts_step w w'"
| ts_submit: "submitTimesheet i actor w = (r2, w') \<Longrightarrow> ts_step w w'"
| ts_review: "reviewTimesheet i approved actor w = (r3, w') \<Longrightarrow> ts_step w w'"
| ts_other: "t_timesheets (w_db w') = t_timesheets (w_db w) \<Longrightarrow> w_uuid w' = w_uuid w \<Longrightarrow> w_next w \<le> w_next w' \<Longrightarrow>
    ts_step w w'"

definition ts_inv :: "world \<Rightarrow> bool" where
  "ts_inv w \<longleftrightarrow> keyed ts_id (t_timesheets (w_db w)) w \<and> (\<forall>r \<in> set (t_timesheets (w_db w)). timesheet_ok r)"

lemma ts_approved_final: "ts_flow\<^sup>*\<^sup>* Ts_approved s \<Longrightarrow> s = Ts_approved"
  by (erule converse_rtranclpE) (auto simp: ts_flow_final)

lemma ts_evolves_refl: "ts_evolves r r"
  by (simp add: ts_evolves_def)

lemma ts_evolves_trans: "ts_evolves r s \<Longrightarrow> ts_evolves s u \<Longrightarrow> ts_evolves r u"
  unfolding ts_evolves_def by (metis rtranclp_trans)

text \<open>What the one update of the table does to the one row that passed the check.\<close>

lemma set_status_step:
  assumes inv: "ts_inv w" and found: "find_where (\<lambda>r. ts_id r = i) (t_timesheets (w_db w)) = Some r"
    and flow: "ts_flow (ts_status r) st" and who: "st = Ts_approved \<longleftrightarrow> who \<noteq> None"
    and run: "setTimesheetStatus i st who w = (res, w')"
  shows "ts_inv w' \<and> (\<forall>x \<in> set (t_timesheets (w_db w)). \<exists>y \<in> set (t_timesheets (w_db w')). ts_evolves x y)"
proof -
  define f :: "timesheet \<Rightarrow> timesheet" where "f = (\<lambda>r. r\<lparr>ts_status := st, ts_approved_by := (if st = Ts_approved then who else None),
      ts_submitted_at := (if st = Ts_submitted then Some (w_now w) else ts_submitted_at r), ts_updated_at := w_now w\<rparr>)"
  have w': "w' = w\<lparr>w_db := t_timesheets_update (update_where (\<lambda>r. ts_id r = i) f) (w_db w)\<rparr>"
    using run by (auto simp: setTimesheetStatus_def findTimesheetById_def f_def)
  have r: "r \<in> set (t_timesheets (w_db w))" "ts_id r = i"
    using find_where_SomeD [OF found] by auto
  have only: "x = r" if "x \<in> set (t_timesheets (w_db w))" "ts_id x = i" for x
    using that inv r keyed_only by (fastforce simp: ts_inv_def)
  have "timesheet_ok r"
    using inv r by (simp add: ts_inv_def)
  with flow who have ok: "timesheet_ok (f r)"
    by cases (simp_all add: timesheet_ok_def f_def)
  have "ts_status r \<noteq> Ts_approved"
    using flow by (auto simp: ts_flow_final)
  with r_into_rtranclp [of ts_flow, OF flow] have evo: "ts_evolves r (f r)"
    by (simp add: ts_evolves_def timesheet_core_def f_def)
  have "keyed ts_id (update_where (\<lambda>r. ts_id r = i) f (t_timesheets (w_db w))) w"
    using inv by (intro keyed_update) (simp_all add: ts_inv_def f_def)
  then have "ts_inv w'"
    using inv ok only by (auto simp: ts_inv_def w' set_update_where intro: keyed_later)
  moreover have "\<exists>y \<in> set (t_timesheets (w_db w')). ts_evolves x y" if "x \<in> set (t_timesheets (w_db w))" for x
    using that only evo ts_evolves_refl by (cases "ts_id x = i") (auto simp: w' set_update_where)
  ultimately show ?thesis by blast
qed

definition ts_quiet :: "world \<Rightarrow> world \<Rightarrow> bool" where
  "ts_quiet w w' \<longleftrightarrow> t_timesheets (w_db w') = t_timesheets (w_db w) \<and> w_uuid w' = w_uuid w \<and> w_next w \<le> w_next w'"

lemma workforce_audit_quiet: "workforce_audit a b c d e w = (x, w') \<Longrightarrow> x = Inr () \<and> ts_quiet w w'"
  by (auto simp: workforce_audit_def audit_record_def ts_quiet_def)

lemma setTimesheetStatus_total: "never_fails (setTimesheetStatus i st who)"
  unfolding setTimesheetStatus_def findTimesheetById_def by (intro never_rules)

lemma reviewTimesheet_cases:
  assumes "reviewTimesheet i approved actor w = (res, w')"
  shows "w' = w \<or> (\<exists>r x w1. find_where (\<lambda>r. ts_id r = i) (t_timesheets (w_db w)) = Some r \<and> ts_status r = Ts_submitted \<and>
     setTimesheetStatus i (if approved then Ts_approved else Ts_rejected) (if approved then Some (ac_sub actor) else None) w = (x, w1) \<and>
     ts_quiet w1 w')"
proof (cases "find_where (\<lambda>r. ts_id r = i) (t_timesheets (w_db w))")
  case None
  with assms show ?thesis by (simp add: reviewTimesheet_def getTimesheet_def findTimesheetById_def)
next
  case (Some r)
  show ?thesis
  proof (cases "ts_status r = Ts_submitted")
    case True
    obtain x w1 where s: "setTimesheetStatus i (if approved then Ts_approved else Ts_rejected)
        (if approved then Some (ac_sub actor) else None) w = (Inr x, w1)"
      using never_failsD [OF setTimesheetStatus_total] by blast
    obtain y w2 where a: "workforce_audit actor (if approved then ''timesheet.approved'' else ''timesheet.rejected'')
        ''timesheet'' i [] w1 = (y, w2)"
      by (rule prod.exhaust)
    note a' = workforce_audit_quiet [OF a]
    have "w' = w2"
      using assms Some True s a a'
      by (simp add: reviewTimesheet_def getTimesheet_def findTimesheetById_def mbind_def)
    with Some True s a' show ?thesis by blast
  next
    case False
    with assms Some show ?thesis by (simp add: reviewTimesheet_def getTimesheet_def findTimesheetById_def)
  qed
qed

lemma ts_step_evolves:
  assumes "ts_step w w'" and inv: "ts_inv w"
  shows "ts_inv w' \<and> (\<forall>x \<in> set (t_timesheets (w_db w)). \<exists>y \<in> set (t_timesheets (w_db w')). ts_evolves x y)"
  using assms(1)
proof (cases rule: ts_step.cases)
  case (ts_create input actor r1)
  define row where "row = projr r1"
  have row: "ts_id row = w_uuid w (w_next w)" "timesheet_ok row"
    and w': "w' = w\<lparr>w_next := Suc (w_next w), w_db := t_timesheets_update (insert_row row) (w_db w)\<rparr>"
    using ts_create by (auto simp: createTimesheet_def createTimesheet_row_def Let_def timesheet_ok_def row_def)
  have "keyed ts_id (insert_row row (t_timesheets (w_db w))) w'"
    using inv row by (intro keyed_insert [where n = "w_next w"]) (simp_all add: ts_inv_def w')
  then have "ts_inv w'"
    using inv row by (simp add: ts_inv_def w')
  then show ?thesis
    using ts_evolves_refl by (auto simp: w' insert_row_def)
next
  case (ts_submit i actor r2)
  then consider (moved) r where "find_where (\<lambda>r. ts_id r = i) (t_timesheets (w_db w)) = Some r"
      "ts_flow (ts_status r) Ts_submitted" "setTimesheetStatus i Ts_submitted None w = (r2, w')"
    | (refused) "w' = w"
    by (auto simp: submitTimesheet_def getTimesheet_def findTimesheetById_def ts_flow.simps mbind_def
        split: option.splits if_splits)
  then show ?thesis
  proof cases
    case (moved r)
    then show ?thesis by (intro set_status_step [OF inv moved(1,2) _ moved(3)]) simp
  qed (use inv ts_evolves_refl in auto)
next
  case (ts_review i approved actor r3)
  then consider (moved) r x w1 where "find_where (\<lambda>r. ts_id r = i) (t_timesheets (w_db w)) = Some r"
      "ts_status r = Ts_submitted"
      "setTimesheetStatus i (if approved then Ts_approved else Ts_rejected) (if approved then Some (ac_sub actor) else None) w = (x, w1)"
      "ts_quiet w1 w'"
    | (refused) "w' = w"
    by (metis reviewTimesheet_cases)
  then show ?thesis
  proof cases
    case (moved r x w1)
    from moved(2) have "ts_flow (ts_status r) (if approved then Ts_approved else Ts_rejected)"
      by (simp add: ts_flow.simps)
    from set_status_step [OF inv moved(1) this _ moved(3)]
    have "ts_inv w1 \<and> (\<forall>x \<in> set (t_timesheets (w_db w)). \<exists>y \<in> set (t_timesheets (w_db w1)). ts_evolves x y)"
      by simp
    with moved(4) show ?thesis
      by (auto simp: ts_inv_def ts_quiet_def intro: keyed_later)
  qed (use inv ts_evolves_refl in auto)
next
  case ts_other
  then show ?thesis
    using inv ts_evolves_refl by (auto simp: ts_inv_def intro: keyed_later)
qed

inductive ts_reachable :: "world \<Rightarrow> bool" where
  ts_init: "t_timesheets (w_db w) = [] \<Longrightarrow> inj (w_uuid w) \<Longrightarrow> ts_reachable w"
| ts_next: "ts_reachable w \<Longrightarrow> ts_step w w' \<Longrightarrow> ts_reachable w'"

lemma ts_reachable_inv: "ts_reachable w \<Longrightarrow> ts_inv w"
proof (induction rule: ts_reachable.induct)
  case (ts_init w)
  then show ?case by (simp add: ts_inv_def keyed_def)
next
  case (ts_next w w')
  then show ?case using ts_step_evolves by blast
qed

lemma ts_run_evolves:
  assumes "ts_step\<^sup>*\<^sup>* w w'" and "ts_inv w" and "x \<in> set (t_timesheets (w_db w))"
  shows "ts_inv w' \<and> (\<exists>y \<in> set (t_timesheets (w_db w')). ts_evolves x y)"
  using assms(1)
proof (induction rule: rtranclp_induct)
  case base
  show ?case using assms ts_evolves_refl by blast
next
  case (step u v)
  then obtain y where "y \<in> set (t_timesheets (w_db u))" "ts_evolves x y" by blast
  with step ts_step_evolves show ?case by (blast intro: ts_evolves_trans)
qed

text \<open>C16: Timesheets follow the life cycle draft, submitted, approved or rejected, with a rejected one
  submitted again: along any run from a reachable state, whatever the calls and their outcomes,
  a timesheet never disappears, its employee, day, minutes and note never change, its status
  only moves along the cycle, an approved timesheet never changes again, and it names an
  approver exactly when it is approved and a submission time once it has left the draft.\<close>

theorem timesheet_lifecycle:
  assumes "ts_reachable w" and "ts_step\<^sup>*\<^sup>* w w'" and "r \<in> set (t_timesheets (w_db w))"
  shows "\<exists>r' \<in> set (t_timesheets (w_db w')). timesheet_core r' = timesheet_core r \<and>
    ts_flow\<^sup>*\<^sup>* (ts_status r) (ts_status r') \<and> (ts_status r = Ts_approved \<longrightarrow> r' = r) \<and> timesheet_ok r'"
proof -
  from ts_run_evolves [OF assms(2) ts_reachable_inv [OF assms(1)] assms(3)]
  obtain r' where "ts_inv w'" "r' \<in> set (t_timesheets (w_db w'))" "ts_evolves r r'" by blast
  then show ?thesis by (auto simp: ts_inv_def ts_evolves_def)
qed

definition day_sheet :: timesheet_input where
  "day_sheet = \<lparr>ti_work_date = 20000, ti_minutes = 480, ti_note = None\<rparr>"

definition w_sheet :: world where
  "w_sheet = snd (createTimesheet day_sheet (user ''alice'') base_world)"

definition w_sheet_submitted :: world where
  "w_sheet_submitted = snd (submitTimesheet ''d'' (user ''alice'') w_sheet)"

theorem timesheet_lifecycle_witness:
  "\<exists>r' \<in> set (t_timesheets (w_db w_sheet_submitted)). ts_minutes r' = 480 \<and> ts_flow\<^sup>*\<^sup>* Ts_draft (ts_status r')"
proof -
  have base: "ts_reachable base_world"
    by (rule ts_init) (simp_all add: run_base inj_sample_uuid)
  have "ts_step base_world w_sheet"
    unfolding w_sheet_def by (rule ts_create) (rule prod.collapse [symmetric])
  with base have "ts_reachable w_sheet" by (rule ts_next)
  moreover have "ts_step w_sheet w_sheet_submitted"
    unfolding w_sheet_submitted_def by (rule ts_submit) (rule prod.collapse [symmetric])
  then have "ts_step\<^sup>*\<^sup>* w_sheet w_sheet_submitted" ..
  moreover define r where "r = hd (t_timesheets (w_db w_sheet))"
  have t: "t_timesheets (w_db w_sheet) = [r]" and r: "ts_minutes r = 480" "ts_status r = Ts_draft"
    by (simp_all add: r_def w_sheet_def createTimesheet_def createTimesheet_row_def Let_def insert_row_def run_base day_sheet_def)
  ultimately show ?thesis
    using timesheet_lifecycle [of w_sheet w_sheet_submitted r] by (auto simp: t r timesheet_core_def)
qed

section \<open>The leave calendar\<close>

definition leave_apart :: "leave_request \<Rightarrow> leave_request \<Rightarrow> bool" where
  "leave_apart a b \<longleftrightarrow> lr_employee a = lr_employee b \<longrightarrow> leave_active a \<longrightarrow> leave_active b \<longrightarrow>
     lr_end a < lr_start b \<or> lr_end b < lr_start a"

definition leave_disjoint :: "leave_request list \<Rightarrow> bool" where
  "leave_disjoint t \<longleftrightarrow> sorted_wrt leave_apart t \<and> (\<forall>r \<in> set t. lr_start r \<le> lr_end r)"

text \<open>A change of the rows that activates none and moves none keeps the calendar.\<close>

lemma leave_disjoint_map:
  assumes "leave_disjoint t"
    and "\<And>r. lr_employee (f r) = lr_employee r \<and> lr_start (f r) = lr_start r \<and> lr_end (f r) = lr_end r"
    and "\<And>r. leave_active (f r) \<Longrightarrow> leave_active r"
  shows "leave_disjoint (map f t)"
  using assms(1) unfolding leave_disjoint_def sorted_wrt_map
  by (auto simp: assms(2) leave_apart_def intro!: sorted_wrt_mono_rel [of t leave_apart] dest: assms(3))

lemma leave_disjoint_insert:
  assumes "leave_disjoint t" and "lr_start l \<le> lr_end l"
    and "select_where (\<lambda>r. lr_employee r = lr_employee l \<and> leave_active r \<and> lr_start r \<le> lr_end l \<and> lr_start l \<le> lr_end r) t = []"
  shows "leave_disjoint (insert_row l t)"
  using assms by (auto simp: leave_disjoint_def insert_row_def sorted_wrt_append leave_apart_def select_where_empty_iff)

text \<open>A creation, by the outcome of its two checks.\<close>

lemma submit_leaves_leave:
  assumes "submit app_registry k payload actor opts w = (Inr row, w')"
  shows "t_leave_requests (w_db w') = t_leave_requests (w_db w) \<and> w_uuid w' = w_uuid w \<and> w_next w \<le> w_next w' \<and> w_now w' = w_now w"
  using app_submit_undisturbed [OF assms] by (metis undisturbed_def domain_view_tables(5))

definition overlapping :: "leave_input \<Rightarrow> uuid \<Rightarrow> leave_request \<Rightarrow> bool" where
  "overlapping input u r \<longleftrightarrow> lr_employee r = u \<and> leave_active r \<and> lr_start r \<le> li_end input \<and> li_start input \<le> lr_end r"

lemma createLeave_accepted:
  assumes "li_start input \<le> li_end input" and "\<forall>r \<in> set (t_leave_requests (w_db w)). \<not> overlapping input (ac_sub actor) r"
  shows "\<exists>l item w1 w'. createLeave input actor w = (Inr (l\<lparr>lr_request := Some (ri_id item)\<rparr>), w') \<and>
    createLeave_row input (ac_sub actor) w = (Inr l, w1) \<and>
    (\<exists>w2. submit app_registry ''leave_request'' (leave_payload l actor) actor
        (no_options\<lparr>so_expires_at := Some (w_now w + 72 * 3600000)\<rparr>) w1 = (Inr item, w2) \<and>
      t_leave_requests (w_db w') = update_where (\<lambda>r. lr_id r = lr_id l) (\<lambda>r. r\<lparr>lr_request := Some (ri_id item)\<rparr>)
        (insert_row l (t_leave_requests (w_db w))) \<and>
      t_request_items (w_db w') = t_request_items (w_db w2))"
proof -
  obtain l w1 where l: "createLeave_row input (ac_sub actor) w = (Inr l, w1)"
    and T1: "t_leave_requests (w_db w1) = insert_row l (t_leave_requests (w_db w))" and now: "w_now w1 = w_now w"
    by (auto simp: createLeave_row_def Let_def)
  let ?submit = "submit app_registry ''leave_request'' (leave_payload l actor) actor
      (no_options\<lparr>so_expires_at := Some (w_now w + 72 * 3600000)\<rparr>)"
  have "never_fails ?submit"
    by (rule app_submit_total) (simp add: app_types_def)
  then obtain item w2 where s: "?submit w1 = (Inr item, w2)"
    using never_failsD by blast
  have overlap: "hasOverlappingLeave (ac_sub actor) (li_start input) (li_end input) w = (Inr False, w)"
    using assms(2) by (auto simp: hasOverlappingLeave_def overlapping_def select_where_empty_iff)
  have "createLeave input actor w = mbind (setLeaveRequestId (lr_id l) (ri_id item)) (\<lambda>_.
     mbind (workforce_audit actor ''leave.requested'' ''leave_request'' (lr_id l)
              [(''leaveType'', JStr (leave_type_name (lr_leave_type l))), (''startDate'', JNum (lr_start l)),
               (''endDate'', JNum (lr_end l)), (''engineRequestId'', JStr (ri_id item))]) (\<lambda>_.
     mret (l\<lparr>lr_request := Some (ri_id item)\<rparr>))) w2"
    unfolding createLeave_def mbind_throw_if
      mbind_eq [where m = "hasOverlappingLeave (ac_sub actor) (li_start input) (li_end input)", OF overlap]
      mbind_eq [where m = "createLeave_row input (ac_sub actor)", OF l] mbind_now now
      mbind_eq [where m = ?submit, OF s]
    using assms(1) by simp
  then show ?thesis
    using l s T1 submit_leaves_leave [OF s]
    by (auto simp: setLeaveRequestId_def workforce_audit_def audit_record_def)
qed

text \<open>C17: A leave request is refused with a precondition error when it ends before it starts and with
  a conflict when a pending or approved leave of the employee overlaps it, changing nothing;
  otherwise it is recorded as pending under a new identifier and linked to a new pending
  request of the engine that carries its identifier and expires after three days.\<close>

theorem create_leave_contract:
  assumes "createLeave input actor w = (r, w')" and "keyed lr_id (t_leave_requests (w_db w)) w"
  shows "if li_end input < li_start input then r = Inl (PreconditionFailedException PRECONDITION_FAILED) \<and> w' = w
    else if \<exists>x \<in> set (t_leave_requests (w_db w)). overlapping input (ac_sub actor) x
      then r = Inl (ConflictException LEAVE_OVERLAPPING) \<and> w' = w
    else \<exists>l item. r = Inr l \<and> t_leave_requests (w_db w') = t_leave_requests (w_db w) @ [l] \<and>
      lr_employee l = ac_sub actor \<and> lr_start l = li_start input \<and> lr_end l = li_end input \<and> lr_status l = Lv_pending \<and>
      t_request_items (w_db w') = t_request_items (w_db w) @ [item] \<and> lr_request l = Some (ri_id item) \<and>
      ri_requester item = ac_sub actor \<and> ri_status item = Req_pending \<and>
      jtext (jfield (ri_payload item) ''leaveRequestId'') = lr_id l \<and> ri_expires_at item = Some (w_now w + 259200000)"
proof -
  consider (backwards) "li_end input < li_start input"
    | (overlap) "\<not> li_end input < li_start input" "\<exists>x \<in> set (t_leave_requests (w_db w)). overlapping input (ac_sub actor) x"
    | (fine) "\<not> li_end input < li_start input" "\<forall>x \<in> set (t_leave_requests (w_db w)). \<not> overlapping input (ac_sub actor) x"
    by blast
  then show ?thesis
  proof cases
    case backwards
    with assms(1) show ?thesis by (simp add: createLeave_def)
  next
    case overlap
    then have "select_where (\<lambda>r. lr_employee r = ac_sub actor \<and> leave_active r \<and> lr_start r \<le> li_end input \<and> li_start input \<le> lr_end r)
        (t_leave_requests (w_db w)) \<noteq> []"
      unfolding select_where_empty_iff overlapping_def by blast
    with overlap assms(1) show ?thesis by (simp add: createLeave_def hasOverlappingLeave_def)
  next
    case fine
    then have "li_start input \<le> li_end input" by simp
    from createLeave_accepted [OF this fine(2)] obtain l w1 w2 w'' and item :: request_item where
      run: "createLeave input actor w = (Inr (l\<lparr>lr_request := Some (ri_id item)\<rparr>), w'')"
      and l: "createLeave_row input (ac_sub actor) w = (Inr l, w1)"
      and s: "submit app_registry ''leave_request'' (leave_payload l actor) actor
        (no_options\<lparr>so_expires_at := Some (w_now w + 72 * 3600000)\<rparr>) w1 = (Inr item, w2)"
      and T: "t_leave_requests (w_db w'') = update_where (\<lambda>r. lr_id r = lr_id l) (\<lambda>r. r\<lparr>lr_request := Some (ri_id item)\<rparr>)
        (insert_row l (t_leave_requests (w_db w)))"
      and I: "t_request_items (w_db w'') = t_request_items (w_db w2)"
      by blast
    have lf: "lr_id l = w_uuid w (w_next w)" "lr_employee l = ac_sub actor" "lr_start l = li_start input"
        "lr_end l = li_end input" "lr_status l = Lv_pending" "t_request_items (w_db w1) = t_request_items (w_db w)"
      using l by (auto simp: createLeave_row_def Let_def)
    have "lr_id l \<notin> lr_id ` set (t_leave_requests (w_db w))"
      using keyed_fresh [OF assms(2) order.refl] lf(1) by simp
    then have "update_where (\<lambda>r. lr_id r = lr_id l) (\<lambda>r. r\<lparr>lr_request := Some (ri_id item)\<rparr>) (t_leave_requests (w_db w))
        = t_leave_requests (w_db w)"
      by (intro update_where_id) (metis image_eqI)
    then have "t_leave_requests (w_db w'') = t_leave_requests (w_db w) @ [l\<lparr>lr_request := Some (ri_id item)\<rparr>]"
      unfolding T by (simp add: insert_row_def)
    moreover obtain def n where "item = new_request (w_uuid w1 n) (w_now w1) def ''leave_request'' (leave_payload l actor) actor
        (no_options\<lparr>so_expires_at := Some (w_now w + 72 * 3600000)\<rparr>)"
      and "t_request_items (w_db w2) = t_request_items (w_db w1) @ [item]"
      using app_submit_new [OF s] by blast
    ultimately show ?thesis
      using fine run assms(1) I lf
      by (intro if_not_P [THEN iffD2]) (auto simp: new_request_def leave_payload_def)
  qed
qed

definition spring :: leave_input where
  "spring = \<lparr>li_leave_type = Leave_annual, li_start = 20000, li_end = 20004, li_reason = None\<rparr>"

theorem create_leave_contract_witness:
  "\<exists>l. fst (createLeave spring (user ''alice'') base_world) = Inr l \<and> lr_status l = Lv_pending \<and>
     fst (createLeave (spring\<lparr>li_end := 19999\<rparr>) (user ''alice'') base_world) = Inl (PreconditionFailedException PRECONDITION_FAILED)"
proof -
  have k: "keyed lr_id (t_leave_requests (w_db base_world)) base_world"
    by (simp add: keyed_def run_base inj_sample_uuid)
  from create_leave_contract [OF prod.collapse [symmetric] k, of spring "user ''alice''"]
    create_leave_contract [OF prod.collapse [symmetric] k, of "spring\<lparr>li_end := 19999\<rparr>" "user ''alice''"]
  show ?thesis by (auto simp: spring_def run_base)
qed



section \<open>A cancelled leave\<close>

text \<open>Cancelling a leave request leaves its request in the engine open: after a cancellation by
  anybody, a reviewer who finds the request in the inbox can still approve it, and that
  approval turns the cancelled leave into an approved one.\<close>

theorem cancelled_leave_revives:
  assumes "cancelLeave i actor w = (Inr x, w1)"
    and "find_where (\<lambda>r. ri_id r = q) (t_request_items (w_db w)) = Some r" and "open_status (ri_status r)"
    and "ri_type r = ''leave_request''" and "jtext (jfield (ri_payload r) ''leaveRequestId'') = i"
    and "find_where (delegation_active (ac_sub boss) (w_now w)) (t_delegations (w_db w)) = None"
    and "ri_requester r \<noteq> ac_sub boss" and "holds (w_db w) (w_now w) (ac_sub boss) ''workforce.leave.review''"
    and "cache_sound w" and "\<not> w_perm_outage w"
  shows "(\<exists>l \<in> set (t_leave_requests (w_db w1)). lr_id l = i \<and> lr_status l = Lv_cancelled) \<and>
    (\<exists>row w2. approve app_registry q note boss w1 = (Inr row, w2) \<and>
      (\<exists>l \<in> set (t_leave_requests (w_db w2)). lr_id l = i \<and> lr_status l = Lv_approved \<and> lr_reviewer l = Some (ac_sub boss)))"
proof -
  obtain l where l: "find_where (\<lambda>l. lr_id l = i) (t_leave_requests (w_db w)) = Some l"
    and w1: "w1 = w\<lparr>w_db := t_leave_requests_update (update_where (\<lambda>l. lr_id l = i)
      (\<lambda>l. l\<lparr>lr_status := Lv_cancelled, lr_reviewer := None, lr_reviewed_at := None\<rparr>)) (w_db w)\<rparr>"
    using assms(1)
    by (auto simp: cancelLeave_def getLeave_def findLeaveById_def setLeaveStatus_def split: option.splits if_splits)
  then have l1: "l\<lparr>lr_status := Lv_cancelled, lr_reviewer := None, lr_reviewed_at := None\<rparr> \<in> set (t_leave_requests (w_db w1))"
    "lr_id l = i"
    using find_where_SomeD [OF l] by (auto simp: set_update_where)
  have def: "map_of app_registry ''leave_request'' = Some leave_request_def"
    by (simp add: app_registry_lookup app_types_def)
  have final: "is_final_step leave_request_def c" "step_permission leave_request_def c = ''workforce.leave.review''" for c
    by (simp_all add: is_final_step_def step_permission_def leave_request_def_def)
  have "holds (w_db w1) (w_now w1) (ac_sub boss) ''workforce.leave.review''" and "cache_sound w1"
    using assms(8,9) by (simp_all add: w1 holds_def cache_sound_def cache_get_perms_def permission_rows_def cong: option.case_cong)
  with assms obtain row w2 where run: "approve app_registry q note boss w1 = (Inr row, w2)"
    using app_approve_authorized [of q w1 r leave_request_def boss "note"] by (auto simp: w1 def final)
  have step: "domain_step (leave_on_approve (ri_payload r) q (ac_sub boss)) w1 w2"
    using clean.approve_domain [OF run] assms(2,4) final by (auto simp: w1 def leave_request_def_def)
  then obtain v v' where v: "undisturbed w1 v" "leave_on_approve (ri_payload r) q (ac_sub boss) v = (Inr (), v')" "undisturbed v' w2"
    by (auto simp: domain_step_def)
  have "t_leave_requests (w_db v) = t_leave_requests (w_db w1)" "t_leave_requests (w_db w2) = t_leave_requests (w_db v')"
    using v by (metis undisturbed_def domain_view_tables(5))+
  with v(2) assms(5) have "t_leave_requests (w_db w2) = update_where (\<lambda>l. lr_id l = i)
      (\<lambda>l. l\<lparr>lr_status := Lv_approved, lr_reviewer := Some (ac_sub boss), lr_reviewed_at := Some (w_now v)\<rparr>) (t_leave_requests (w_db w1))"
    by (auto simp: leave_on_approve_def set_leave_def)
  then have l2: "l\<lparr>lr_status := Lv_approved, lr_reviewer := Some (ac_sub boss), lr_reviewed_at := Some (w_now v)\<rparr> \<in> set (t_leave_requests (w_db w2))"
    using update_where_in [OF l1(1), of "\<lambda>l. lr_id l = i" "\<lambda>l. l\<lparr>lr_status := Lv_approved,
      lr_reviewer := Some (ac_sub boss), lr_reviewed_at := Some (w_now v)\<rparr>"] l1(2) by simp
  show ?thesis
    using l1(2) run by (intro conjI exI [of _ row] exI [of _ w2] rev_bexI [OF l1(1)] rev_bexI [OF l2]) simp_all
qed

definition alice_leave :: leave_request where
  "alice_leave = \<lparr>lr_id = ''l'', lr_employee = ''alice'', lr_leave_type = Leave_annual, lr_start = 20000, lr_end = 20004,
     lr_reason = None, lr_document_key = None, lr_status = Lv_pending, lr_reviewer = None, lr_reviewed_at = None,
     lr_created_at = 0, lr_request = Some ''d''\<rparr>"

definition leave_world :: world where
  "leave_world = base_world\<lparr>w_db := base_db\<lparr>t_leave_requests := [alice_leave],
     t_request_items := [alice_request\<lparr>ri_type := ''leave_request'', ri_payload := [(''leaveRequestId'', JStr ''l'')]\<rparr>]\<rparr>\<rparr>"

theorem cancelled_leave_revives_witness:
  "\<exists>row w2. approve app_registry ''d'' None (user ''root'') (snd (cancelLeave ''l'' (user ''mallory'') leave_world)) = (Inr row, w2) \<and>
     (\<exists>l \<in> set (t_leave_requests (w_db w2)). lr_id l = ''l'' \<and> lr_status l = Lv_approved)"
proof -
  have cancel: "cancelLeave ''l'' (user ''mallory'') leave_world =
      (Inr (Some (alice_leave\<lparr>lr_status := Lv_cancelled\<rparr>)), snd (cancelLeave ''l'' (user ''mallory'') leave_world))"
    by (simp add: cancelLeave_def getLeave_def findLeaveById_def setLeaveStatus_def leave_world_def base_world_def alice_leave_def)
  have "holds (w_db leave_world) (w_now leave_world) (ac_sub (user ''root'')) ''workforce.leave.review''"
    unfolding user_def by (simp, rule holds_root) (simp_all add: leave_world_def)
  from cancelled_leave_revives [OF cancel _ _ _ _ _ _ this, of "''d''"
      "alice_request\<lparr>ri_type := ''leave_request'', ri_payload := [(''leaveRequestId'', JStr ''l'')]\<rparr>" None]
  show ?thesis
    by (auto simp: leave_world_def base_world_def base_db_def empty_db_def alice_request_def open_status_def
        user_def base_cache_sound)
qed

section \<open>Offboarding\<close>

text \<open>C15: when the approval of an offboarding request succeeds, the employee is marked offboarded and
  keeps nothing: no role assignment of any scope (so no permission can be resolved for them from the
  tables any more), no unrevoked access grant, no asset assignment that is still open and no usable
  refresh token; every asset they held is back in stock.  The employee, role, grant, assignment and
  token rows of everybody else are unchanged.\<close>

theorem offboarding_complete:
  assumes "approve app_registry q note boss w = (Inr row, w')"
    and "find_where (\<lambda>r. ri_id r = q) (t_request_items (w_db w)) = Some r" and "ri_type r = ''offboarding''"
    and "e = jtext (jfield (ri_payload r) ''employeeId'')"
  shows "offboarded e (w_db w') \<and> (\<forall>t. permission_rows e t (w_db w') = []) \<and>
    (\<forall>y \<in> set (t_asset_assignments (w_db w)). aa_employee y = e \<and> aa_returned_at y = None \<longrightarrow>
      (\<forall>x \<in> set (t_assets (w_db w')). as_id x = aa_asset y \<longrightarrow> as_status x = As_in_stock)) \<and>
    others_rows e (w_db w') = others_rows e (w_db w)"
proof -
  have def: "map_of app_registry ''offboarding'' = Some offboarding_def"
    by (simp add: app_registry_lookup app_types_def)
  have "domain_step (offboarding_on_approve (ri_payload r) q (ac_sub boss)) w w'"
    using clean.approve_domain [OF assms(1)] assms(2,3)
    by (auto simp: def is_final_step_def offboarding_def_def)
  then obtain v v' where v: "undisturbed w v" "offboarding_on_approve (ri_payload r) q (ac_sub boss) v = (Inr (), v')" "undisturbed v' w'"
    by (auto simp: domain_step_def)
  have view: "domain_view (w_db v) = domain_view (w_db w)" "domain_view (w_db w') = domain_view (w_db v')"
    using v by (simp_all add: undisturbed_def)
  note tables = view [THEN arg_cong [where f = t_employees]] view [THEN arg_cong [where f = t_role_assignments]]
    view [THEN arg_cong [where f = t_access_grants]] view [THEN arg_cong [where f = t_asset_assignments]]
    view [THEN arg_cong [where f = t_refresh_tokens]] view [THEN arg_cong [where f = t_assets]]
  note fin = offboarding_done [OF v(2) assms(4)]
  have off: "offboarded e (w_db w')"
    using fin(1) tables by (simp add: offboarded_def)
  moreover have "permission_rows e t (w_db w') = []" for t
    using off by (auto simp: permission_rows_def offboarded_def)
  moreover have "others_rows e (w_db w') = others_rows e (w_db w)"
    using fin(2) tables by (simp add: others_rows_def)
  ultimately show ?thesis
    using fin(3) tables by (simp add: open_assignment_def)
qed

definition carol_leaves :: request_item where
  "carol_leaves = alice_request\<lparr>ri_type := ''offboarding'', ri_payload := [(''employeeId'', JStr ''carol'')]\<rparr>"

definition leaving_world :: world where
  "leaving_world = base_world\<lparr>w_db := base_db\<lparr>t_request_items := [carol_leaves],
     t_role_assignments := \<lparr>ura_id = ''c'', ura_user = ''carol'', ura_role = ''admin'', ura_scope_type = Scope_global,
       ura_scope_id = None, ura_granted_by = ''root'', ura_expires_at = None, ura_created_at = 0\<rparr> # t_role_assignments base_db\<rparr>\<rparr>"

theorem offboarding_complete_witness:
  "\<exists>row w'. approve app_registry ''d'' None (user ''root'') leaving_world = (Inr row, w') \<and> offboarded ''carol'' (w_db w') \<and>
     \<not> offboarded ''carol'' (w_db leaving_world)"
proof -
  have found: "find_where (\<lambda>r. ri_id r = ''d'') (t_request_items (w_db leaving_world)) = Some carol_leaves"
    by (simp add: leaving_world_def carol_leaves_def alice_request_def)
  have "holds (w_db leaving_world) (w_now leaving_world) (ac_sub (user ''root''))
      (step_permission offboarding_def (ri_current_step carol_leaves))"
    unfolding user_def holds_def by (simp add: leaving_world_def base_db_def not_expired_def WILDCARD_PERMISSION_def)
  moreover have "open_status (ri_status carol_leaves)" "ri_requester carol_leaves \<noteq> ac_sub (user ''root'')"
    "map_of app_registry (ri_type carol_leaves) = Some offboarding_def"
    by (simp_all add: carol_leaves_def alice_request_def open_status_def user_def app_registry_lookup app_types_def)
  moreover have "find_where (delegation_active (ac_sub (user ''root'')) (w_now leaving_world))
      (t_delegations (w_db leaving_world)) = None" "cache_sound leaving_world" "\<not> w_perm_outage leaving_world"
    by (simp_all add: leaving_world_def base_world_def base_db_def empty_db_def base_cache_sound)
  ultimately obtain row w' where run: "approve app_registry ''d'' None (user ''root'') leaving_world = (Inr row, w')"
    using app_approve_authorized [OF found] by blast
  have "offboarded ''carol'' (w_db w')"
    by (rule offboarding_complete [OF run found, THEN conjunct1]) (simp_all add: carol_leaves_def)
  moreover have "\<not> offboarded ''carol'' (w_db leaving_world)"
    by (simp add: offboarded_def leaving_world_def)
  ultimately show ?thesis
    using run by blast
qed

text \<open>An approved offboarding does not end the sessions: as long as the permission cache of the
  employee lives, an access token that was valid before is still accepted and still has the
  cached permissions, although the tables grant the employee nothing any more.\<close>

theorem offboarded_session_lives:
  assumes "offboarding_on_approve p q approver w = (Inr (), w')" and "jtext (jfield p ''employeeId'') = jw_sub token"
    and "c_enabled (w_cache w)" and "c_perms (w_cache w) (jw_sub token) = Some (eff, until)" and "scopes_of eff perm \<noteq> []"
    and "\<not> mark_alive (w_now w) (c_revoked_session (w_cache w) (jw_jti token))"
    and "\<not> mark_alive (w_now w) (c_revoked_employee (w_cache w) (jw_sub token))"
    and "w_now w \<le> t" and "t < until"
  shows "jwt_validate token (w'\<lparr>w_now := t\<rparr>) = (Inr token, w'\<lparr>w_now := t\<rparr>) \<and>
    check (jw_sub token) perm (w'\<lparr>w_now := t\<rparr>) = (Inr True, w'\<lparr>w_now := t\<rparr>) \<and>
    (\<forall>any. \<not> holds (w_db w') t (jw_sub token) any)"
proof -
  note eff = offboarding_effect [OF assms(1) refl]
  have dead: "\<not> mark_alive t m" if "\<not> mark_alive (w_now w) m" for m
    using that assms(8) by (auto simp: mark_alive_def split: option.splits)
  have "jwt_validate token (w'\<lparr>w_now := t\<rparr>) = (Inr token, w'\<lparr>w_now := t\<rparr>)"
    using dead [OF assms(6)] dead [OF assms(7)] by (simp add: jwt_validate_def eff(7))
  moreover have "check (jw_sub token) perm (w'\<lparr>w_now := t\<rparr>) = (Inr True, w'\<lparr>w_now := t\<rparr>)"
    using assms(3-5,9) by (simp add: check_def check_on_def resolve_def cache_get_perms_def eff(7) Let_def)
  moreover have "\<not> holds (w_db w') t (jw_sub token) any" for any
    using assms(2) by (auto simp: holds_def eff(2))
  ultimately show ?thesis by blast
qed

definition carol_token :: jwt_payload where
  "carol_token = \<lparr>jw_jti = ''s'', jw_sub = ''carol'', jw_email = ''carol@x'', jw_roles = [], jw_name = ''Carol'', jw_exp = 900\<rparr>"

definition carol_online :: world where
  "carol_online = base_world\<lparr>w_cache := empty_cache\<lparr>c_perms := [''carol'' \<mapsto>
     ([(''assets.manage'', [\<lparr>sc_type = Scope_global, sc_id = None\<rparr>])], 200000)]\<rparr>\<rparr>"

theorem offboarded_session_lives_witness:
  "\<exists>w'. offboarding_on_approve [(''employeeId'', JStr ''carol'')] ''q'' ''root'' carol_online = (Inr (), w') \<and>
     fst (check ''carol'' ''assets.manage'' (w'\<lparr>w_now := 150000\<rparr>)) = Inr True"
proof -
  let ?w = "snd (offboarding_on_approve [(''employeeId'', JStr ''carol'')] ''q'' ''root'' carol_online)"
  have run: "offboarding_on_approve [(''employeeId'', JStr ''carol'')] ''q'' ''root'' carol_online = (Inr (), ?w)"
    by (simp add: offboarding_on_approve_def Let_def mbind_eq [OF mark_returned_loop])
  have "jtext (jfield [(''employeeId'', JStr ''carol'')] ''employeeId'') = jw_sub carol_token"
    "c_enabled (w_cache carol_online)"
    "c_perms (w_cache carol_online) (jw_sub carol_token) = Some ([(''assets.manage'', [\<lparr>sc_type = Scope_global, sc_id = None\<rparr>])], 200000)"
    "scopes_of [(''assets.manage'', [\<lparr>sc_type = Scope_global, sc_id = None\<rparr>])] ''assets.manage'' \<noteq> []"
    "\<not> mark_alive (w_now carol_online) (c_revoked_session (w_cache carol_online) (jw_jti carol_token))"
    "\<not> mark_alive (w_now carol_online) (c_revoked_employee (w_cache carol_online) (jw_sub carol_token))"
    "w_now carol_online \<le> 150000" "150000 < (200000::timestamp)"
    by (simp_all add: carol_token_def carol_online_def base_world_def empty_cache_def scopes_of_def mark_alive_def)
  from offboarded_session_lives [OF run this] run show ?thesis
    by (intro exI [of _ ?w]) (simp add: carol_token_def)
qed

end
