(* ===== verification/Relay.thy ===== *)
theory Relay
  imports Messaging
begin

text \<open>
  The outbox relay base class (\<^verbatim>\<open>libs/platform/src/outbox/abstract-outbox-relay.ts\<close>).  A subclass
  is a value of \<open>relay_def\<close>: its four methods and the two columns of a row the base class reads.
  The locale \<open>outbox\<close> states what a subclass promises about its table; inside it the pass of
  the base class is shown to refine an abstract delivery machine, to return, and to use up a
  credit of the table whenever it finds a row.
\<close>

section \<open>The base class\<close>

datatype relay_status = Rs_pending | Rs_failed

text \<open>\<open>rd_processRow\<close> may return a task that runs once the transaction has committed.\<close>

record 'r relay_def =
  rd_id :: "'r \<Rightarrow> uuid"
  rd_attempts :: "'r \<Rightarrow> nat"
  rd_maxAttempts :: nat
  rd_fetchBatch :: "'r list svc"
  rd_processRow :: "'r \<Rightarrow> unit svc option svc"
  rd_markSent :: "uuid \<Rightarrow> unit svc"
  rd_markFailed :: "uuid \<Rightarrow> nat \<Rightarrow> relay_status \<Rightarrow> string \<Rightarrow> unit svc"

text \<open>\<^verbatim>\<open>err.message\<close>, where the model keeps a message.\<close>

fun error_message :: "exn \<Rightarrow> string" where
  "error_message (DomainException c cat m) = (case m of None \<Rightarrow> [] | Some s \<Rightarrow> s)"
| "error_message (PlainError m) = m"
| "error_message (UniqueViolation i) = i"
| "error_message (HttpException st r) = ''Http Exception''"

definition relay_row :: "'r relay_def \<Rightarrow> 'r \<Rightarrow> unit svc list svc" where
  "relay_row def row =
     mtry (mbind (rd_processRow def row) (\<lambda>task.
           mbind (rd_markSent def (rd_id def row)) (\<lambda>_.
           mret (case task of None \<Rightarrow> [] | Some t \<Rightarrow> [t]))))
       (\<lambda>err.
         let newAttempts = rd_attempts def row + 1;
             newStatus = (if newAttempts \<ge> rd_maxAttempts def then Rs_failed else Rs_pending) in
         mbind (rd_markFailed def (rd_id def row) newAttempts newStatus (error_message err)) (\<lambda>_. mret []))"

primrec relay_rows :: "'r relay_def \<Rightarrow> 'r list \<Rightarrow> unit svc list svc" where
  "relay_rows def [] = mret []"
| "relay_rows def (row # rows) =
     mbind (relay_row def row) (\<lambda>ts. mbind (relay_rows def rows) (\<lambda>us. mret (ts @ us)))"

definition relay_tx :: "'r relay_def \<Rightarrow> unit svc list svc" where
  "relay_tx def = transaction (mbind (rd_fetchBatch def) (relay_rows def))"

definition run_tasks :: "unit svc list \<Rightarrow> unit svc" where
  "run_tasks tasks = mfor tasks (\<lambda>task. mtry task (\<lambda>err. mret ()))"

definition relay :: "'r relay_def \<Rightarrow> unit svc" where
  "relay def = mbind (relay_tx def) run_tasks"

primrec relay_passes :: "'r relay_def \<Rightarrow> nat \<Rightarrow> world \<Rightarrow> world" where
  "relay_passes def 0 w = w"
| "relay_passes def (Suc n) w = relay_passes def n (snd (relay def w))"

section \<open>The abstract delivery machine\<close>

datatype delivery = Waiting nat | Delivered | Dead

text \<open>One delivery attempt: it succeeds, is counted, or is the last one allowed.\<close>

inductive attempt :: "nat \<Rightarrow> delivery \<Rightarrow> delivery \<Rightarrow> bool" for m where
  succeeds: "n < m \<Longrightarrow> attempt m (Waiting n) Delivered"
| retries: "Suc n < m \<Longrightarrow> attempt m (Waiting n) (Waiting (Suc n))"
| gives_up: "Suc n = m \<Longrightarrow> attempt m (Waiting n) Dead"

inductive_simps attempt_final: "attempt m Delivered d" "attempt m Dead d"
inductive_cases attempt_waiting: "attempt m (Waiting n) d"

fun credit :: "nat \<Rightarrow> delivery \<Rightarrow> nat" where
  "credit m (Waiting n) = m - n"
| "credit m Delivered = 0"
| "credit m Dead = 0"

lemma attempt_credit: "attempt m d d' \<Longrightarrow> credit m d' < credit m d"
  by (induction rule: attempt.induct) auto

text \<open>The rows named by \<open>B\<close> make one attempt, all others are as before.\<close>

definition advanced :: "('t \<Rightarrow> uuid) \<Rightarrow> ('t \<Rightarrow> delivery) \<Rightarrow> nat \<Rightarrow> uuid set \<Rightarrow> 't list \<Rightarrow> 't list \<Rightarrow> bool" where
  "advanced key dl m B t t' \<longleftrightarrow> list_all2 (\<lambda>r r'. key r' = key r \<and>
     (if key r \<in> B then attempt m (dl r) (dl r') else r' = r)) t t'"

lemma advanced_none: "advanced key dl m {} t t' \<longleftrightarrow> t' = t"
  by (auto simp: advanced_def list_all2_conv_all_nth list_eq_iff_nth_eq)

lemma advanced_keys: "advanced key dl m B t t' \<Longrightarrow> map key t' = map key t"
  unfolding advanced_def by (induction rule: list_all2_induct) simp_all

lemma advanced_insert:
  assumes "advanced key dl m B (update_where (\<lambda>r. key r = i) f t) t'" and "i \<notin> B"
    and "\<And>r. key (f r) = key r" and "\<And>r. r \<in> set t \<Longrightarrow> key r = i \<Longrightarrow> attempt m (dl r) (dl (f r))"
  shows "advanced key dl m (insert i B) t t'"
proof -
  let ?P = "\<lambda>B r r'. key r' = key r \<and> (if key r \<in> B then attempt m (dl r) (dl r') else r' = r)"
  have len: "length t' = length t" and nth: "\<And>n. n < length t \<Longrightarrow> ?P B (if key (t ! n) = i then f (t ! n) else t ! n) (t' ! n)"
    using assms(1) by (auto simp: advanced_def list_all2_conv_all_nth update_where_def)
  have "?P (insert i B) (t ! n) (t' ! n)" if "n < length t" for n
    using nth [OF that] assms(2,3) assms(4) [of "t ! n"] that by (cases "key (t ! n) = i") auto
  then show ?thesis
    using len by (simp add: advanced_def list_all2_conv_all_nth)
qed

definition credits :: "('t \<Rightarrow> delivery) \<Rightarrow> nat \<Rightarrow> 't list \<Rightarrow> nat" where
  "credits dl m t = sum_list (map (\<lambda>r. credit m (dl r)) t)"

lemma advanced_credits:
  assumes "advanced key dl m B t t'"
  shows "credits dl m t' \<le> credits dl m t" and "r \<in> set t \<Longrightarrow> key r \<in> B \<Longrightarrow> credits dl m t' < credits dl m t"
proof -
  have le: "credits dl m t' \<le> credits dl m t" if "advanced key dl m B t t'" for t t'
    using that unfolding advanced_def credits_def
    by (induction rule: list_all2_induct) (auto dest!: attempt_credit split: if_splits)
  show "credits dl m t' \<le> credits dl m t"
    using le [OF assms] .
  show "credits dl m t' < credits dl m t" if "r \<in> set t" "key r \<in> B"
    using assms that unfolding advanced_def
  proof (induction rule: list_all2_induct)
    case (Cons a t a' t')
    have rest: "credits dl m t' \<le> credits dl m t"
      using Cons.hyps le [of t t'] by (simp add: advanced_def)
    have head: "credit m (dl a') \<le> credit m (dl a)" "key a \<in> B \<Longrightarrow> credit m (dl a') < credit m (dl a)"
      using Cons.hyps(1) by (auto dest!: attempt_credit split: if_splits)
    show ?case
    proof (cases "r \<in> set t")
      case True
      with Cons.IH Cons.prems head(1) show ?thesis by (simp add: credits_def)
    next
      case False
      with Cons.prems head(2) rest show ?thesis by (simp add: credits_def)
    qed
  qed simp
qed

section \<open>What a relay promises\<close>

locale outbox =
  fixes def :: "'r relay_def" and tab :: "db \<Rightarrow> 't list" and key :: "'t \<Rightarrow> uuid" and dl :: "'t \<Rightarrow> delivery"
  assumes fetch_reads: "\<exists>rows. rd_fetchBatch def w = (Inr rows, w)"
    and fetch_waiting: "rd_fetchBatch def w = (Inr rows, w) \<Longrightarrow> r \<in> set rows \<Longrightarrow>
      rd_attempts def r < rd_maxAttempts def \<and>
      (\<exists>t \<in> set (tab (w_db w)). key t = rd_id def r \<and> dl t = Waiting (rd_attempts def r))"
    and fetch_once: "distinct (map key (tab (w_db w))) \<Longrightarrow> rd_fetchBatch def w = (Inr rows, w) \<Longrightarrow>
      distinct (map (rd_id def) rows)"
    and process_frame: "keeps (same tab) (rd_processRow def r)"
    and task_frame: "rd_processRow def r w = (Inr (Some task), w') \<Longrightarrow> keeps (same tab) task"
    and sent: "\<exists>w' f. rd_markSent def i w = (Inr (), w') \<and>
      tab (w_db w') = update_where (\<lambda>t. key t = i) f (tab (w_db w)) \<and>
      (\<forall>t. key (f t) = key t \<and> dl (f t) = Delivered)"
    and failed: "\<exists>w' f. rd_markFailed def i n s msg w = (Inr (), w') \<and>
      tab (w_db w') = update_where (\<lambda>t. key t = i) f (tab (w_db w)) \<and>
      (\<forall>t. key (f t) = key t \<and> dl (f t) = (case s of Rs_failed \<Rightarrow> Dead | Rs_pending \<Rightarrow> Waiting n))"
begin

lemma row_result:
  assumes "rd_attempts def r < rd_maxAttempts def"
  obtains ts w' f where "relay_row def r w = (Inr ts, w')"
    and "tab (w_db w') = update_where (\<lambda>t. key t = rd_id def r) f (tab (w_db w))"
    and "\<And>t. key (f t) = key t"
    and "\<And>t. dl t = Waiting (rd_attempts def r) \<Longrightarrow> attempt (rd_maxAttempts def) (dl t) (dl (f t))"
    and "\<And>task. task \<in> set ts \<Longrightarrow> keeps (same tab) task"
proof -
  obtain res w1 where p: "rd_processRow def r w = (res, w1)"
    by (cases "rd_processRow def r w")
  have tab1: "tab (w_db w1) = tab (w_db w)"
    using keepsD [OF process_frame p] by (simp add: same_def)
  show ?thesis
  proof (cases res)
    case (Inr task)
    obtain w' f where s: "rd_markSent def (rd_id def r) w1 = (Inr (), w')"
      "tab (w_db w') = update_where (\<lambda>t. key t = rd_id def r) f (tab (w_db w1))"
      "\<And>t. key (f t) = key t" "\<And>t. dl (f t) = Delivered"
      using sent [of "rd_id def r" w1] by blast
    have run: "relay_row def r w = (Inr (case task of None \<Rightarrow> [] | Some t \<Rightarrow> [t]), w')"
      using p Inr s(1) by (simp add: relay_row_def mtry_def mbind_eq)
    show ?thesis
    proof (rule that [OF run])
      show "tab (w_db w') = update_where (\<lambda>t. key t = rd_id def r) f (tab (w_db w))"
        using s(2) tab1 by simp
      show "attempt (rd_maxAttempts def) (dl t) (dl (f t))" if "dl t = Waiting (rd_attempts def r)" for t
        using assms that s(4) by (simp add: attempt.succeeds)
      show "keeps (same tab) t" if "t \<in> set (case task of None \<Rightarrow> [] | Some t \<Rightarrow> [t])" for t
        using that task_frame [of r w _ w1] p Inr by (cases task) simp_all
    qed (rule s(3))
  next
    case (Inl err)
    define n where "n = rd_attempts def r + 1"
    define st where "st = (if n \<ge> rd_maxAttempts def then Rs_failed else Rs_pending)"
    obtain w' f where s: "rd_markFailed def (rd_id def r) n st (error_message err) w1 = (Inr (), w')"
      "tab (w_db w') = update_where (\<lambda>t. key t = rd_id def r) f (tab (w_db w1))"
      "\<And>t. key (f t) = key t" "\<And>t. dl (f t) = (case st of Rs_failed \<Rightarrow> Dead | Rs_pending \<Rightarrow> Waiting n)"
      using failed [of "rd_id def r" n st "error_message err" w1] by blast
    have run: "relay_row def r w = (Inr [], w')"
      using p Inl s(1) unfolding relay_row_def n_def [symmetric] st_def [symmetric] Let_def
      by (simp add: mtry_def mbind_eq mbind_eq_Inl)
    show ?thesis
    proof (rule that [OF run])
      show "tab (w_db w') = update_where (\<lambda>t. key t = rd_id def r) f (tab (w_db w))"
        using s(2) tab1 by simp
      show "attempt (rd_maxAttempts def) (dl t) (dl (f t))" if "dl t = Waiting (rd_attempts def r)" for t
        using assms that unfolding s(4) st_def n_def by (auto intro: attempt.intros)
    qed (simp_all add: s(3))
  qed
qed

lemma rows_result:
  assumes "distinct (map (rd_id def) rows)" and "\<forall>r \<in> set rows. rd_attempts def r < rd_maxAttempts def"
    and "\<forall>r \<in> set rows. \<forall>t \<in> set (tab (w_db w)). key t = rd_id def r \<longrightarrow> dl t = Waiting (rd_attempts def r)"
  shows "\<exists>ts w'. relay_rows def rows w = (Inr ts, w') \<and> (\<forall>task \<in> set ts. keeps (same tab) task) \<and>
    advanced key dl (rd_maxAttempts def) (rd_id def ` set rows) (tab (w_db w)) (tab (w_db w'))"
  using assms
proof (induction rows arbitrary: w)
  case Nil
  show ?case by (simp add: advanced_none)
next
  case (Cons r rows)
  obtain ts w1 f where r: "relay_row def r w = (Inr ts, w1)"
    "tab (w_db w1) = update_where (\<lambda>t. key t = rd_id def r) f (tab (w_db w))" "\<And>t. key (f t) = key t"
    "\<And>t. dl t = Waiting (rd_attempts def r) \<Longrightarrow> attempt (rd_maxAttempts def) (dl t) (dl (f t))"
    "\<And>task. task \<in> set ts \<Longrightarrow> keeps (same tab) task"
    using row_result [of r w] Cons.prems(2) by auto
  have "\<forall>q \<in> set rows. \<forall>t \<in> set (tab (w_db w1)). key t = rd_id def q \<longrightarrow> dl t = Waiting (rd_attempts def q)"
    using Cons.prems(1,3) r(3) unfolding r(2) by (auto simp: set_update_where split: if_splits)
  then obtain us w' where rs: "relay_rows def rows w1 = (Inr us, w')" "\<forall>task \<in> set us. keeps (same tab) task"
    "advanced key dl (rd_maxAttempts def) (rd_id def ` set rows) (tab (w_db w1)) (tab (w_db w'))"
    using Cons.IH [of w1] Cons.prems(1,2) by auto
  have "advanced key dl (rd_maxAttempts def) (insert (rd_id def r) (rd_id def ` set rows)) (tab (w_db w)) (tab (w_db w'))"
    by (rule advanced_insert [OF rs(3) [unfolded r(2)]]) (use Cons.prems(1,3) r(3,4) in auto)
  with r(1,5) rs(1,2) show ?case
    by (auto simp: mbind_eq)
qed

lemma keeps_run_tasks: "(\<And>task. task \<in> set ts \<Longrightarrow> keeps (same tab) task) \<Longrightarrow> keeps (same tab) (run_tasks ts)"
  unfolding run_tasks_def by (induction ts) (auto intro!: same_rules same.keeps_try)

lemma never_run_tasks: "never_fails (run_tasks ts)"
  unfolding run_tasks_def by (intro never_rules)

text \<open>A pass returns, and each row it fetched makes exactly one attempt.\<close>

lemma relay_pass:
  assumes "distinct (map key (tab (w_db w)))" and "rd_fetchBatch def w = (Inr rows, w)"
  shows "\<exists>w'. relay def w = (Inr (), w') \<and>
    advanced key dl (rd_maxAttempts def) (rd_id def ` set rows) (tab (w_db w)) (tab (w_db w'))"
proof -
  have "\<forall>r \<in> set rows. \<forall>t \<in> set (tab (w_db w)). key t = rd_id def r \<longrightarrow> dl t = Waiting (rd_attempts def r)"
    using fetch_waiting [OF assms(2)] assms(1) by (metis distinct_map inj_onD)
  then obtain ts w1 where rows: "relay_rows def rows w = (Inr ts, w1)" "\<And>task. task \<in> set ts \<Longrightarrow> keeps (same tab) task"
    "advanced key dl (rd_maxAttempts def) (rd_id def ` set rows) (tab (w_db w)) (tab (w_db w1))"
    using rows_result [OF fetch_once [OF assms]] fetch_waiting [OF assms(2)] by blast
  have "relay_tx def w = (Inr ts, w1)"
    using assms(2) rows(1) by (simp add: relay_tx_def transaction_Inr_iff mbind_eq)
  moreover obtain w' where tasks: "run_tasks ts w1 = (Inr (), w')"
    using never_failsD [OF never_run_tasks] by (metis (full_types) old.unit.exhaust)
  moreover have "tab (w_db w') = tab (w_db w1)"
    using keepsD [OF keeps_run_tasks [OF rows(2)] tasks] by (simp add: same_def)
  ultimately show ?thesis
    using rows(3) by (simp add: relay_def mbind_eq)
qed

text \<open>The number of passes that still find a row is bounded by the credits of the table.\<close>

lemma relay_drains:
  assumes "distinct (map key (tab (w_db w)))"
  shows "\<exists>n \<le> credits dl (rd_maxAttempts def) (tab (w_db w)).
    rd_fetchBatch def (relay_passes def n w) = (Inr [], relay_passes def n w)"
  using assms
proof (induction "credits dl (rd_maxAttempts def) (tab (w_db w))" arbitrary: w rule: less_induct)
  case less
  obtain rows where f: "rd_fetchBatch def w = (Inr rows, w)"
    using fetch_reads by blast
  obtain w' where w': "relay def w = (Inr (), w')"
    "advanced key dl (rd_maxAttempts def) (rd_id def ` set rows) (tab (w_db w)) (tab (w_db w'))"
    using relay_pass [OF less.prems f] by blast
  show ?case
  proof (cases rows)
    case Nil
    with f show ?thesis by (intro exI [of _ 0]) simp
  next
    case (Cons r rs)
    then obtain t where t: "t \<in> set (tab (w_db w))" "key t = rd_id def r"
      using fetch_waiting [OF f, of r] by auto
    have lt: "credits dl (rd_maxAttempts def) (tab (w_db w')) < credits dl (rd_maxAttempts def) (tab (w_db w))"
      using advanced_credits(2) [OF w'(2) t(1)] t(2) Cons by simp
    have "distinct (map key (tab (w_db w')))"
      using less.prems advanced_keys [OF w'(2)] by simp
    then obtain n where "n \<le> credits dl (rd_maxAttempts def) (tab (w_db w'))"
      "rd_fetchBatch def (relay_passes def n w') = (Inr [], relay_passes def n w')"
      using less.hyps [OF lt] by blast
    with lt w'(1) show ?thesis
      by (intro exI [of _ "Suc n"]) simp
  qed
qed

end

end
