(* ===== verification/Notifications.thy ===== *)
theory Notifications
  imports Relay Sql_Text
begin

text \<open>
  In-app notifications (\<^verbatim>\<open>libs/modules/notifications\<close>, \<^verbatim>\<open>libs/platform/src/notifications\<close>): the
  templates, the channel preferences and the notification service, each over its repository.
\<close>

section \<open>Templates\<close>

text \<open>A variable inside a template literal.\<close>

fun shown :: "json \<Rightarrow> string" where
  "shown (JStr s) = s"
| "shown (JNum n) = int_str n"
| "shown (JBool b) = (if b then ''true'' else ''false'')"
| "shown (JDate t) = int_str t"
| "shown j = ''null''"

definition var :: "jobject \<Rightarrow> string \<Rightarrow> string" where
  "var v k = (case map_of v k of None \<Rightarrow> ''undefined'' | Some j \<Rightarrow> shown j)"

definition reason_text :: "jobject \<Rightarrow> string" where
  "reason_text v = (case jstr (jfield v ''reason'') of Some r \<Rightarrow> if r = [] then [] else '' Reason: '' @ r | None \<Rightarrow> [])"

text \<open>
  Title and body.  The type column is free text: for a type without a template the function
  is undefined and the call throws.
\<close>

definition templates :: "(string \<times> (jobject \<Rightarrow> string \<times> string)) list" where
  "templates = [
     (''access_request.submitted'', \<lambda>v. (''Access request submitted'',
        ''Your request for access to \"'' @ var v ''resourceName'' @ ''\" is pending approval.'')),
     (''access_request.approved'', \<lambda>v. (''Access request approved '' @ [CHR 0xE2, CHR 0x9C, CHR 0x93],
        var v ''approverName'' @ '' approved your request for \"'' @ var v ''resourceName'' @ ''\".'')),
     (''access_request.denied'', \<lambda>v. (''Access request denied'',
        var v ''approverName'' @ '' denied your request for \"'' @ var v ''resourceName'' @ ''\".'' @ reason_text v)),
     (''asset.assigned'', \<lambda>v. (''Asset assigned to you'',
        var v ''assetName'' @ '' ('' @ var v ''assetTag'' @ '') has been assigned to you.'')),
     (''asset.unassigned'', \<lambda>v. (''Asset unassigned'',
        var v ''assetName'' @ '' ('' @ var v ''assetTag'' @ '') has been unassigned from you.'')),
     (''employee.offboarded'', \<lambda>v. (''Offboarding complete'',
        ''The offboarding process for '' @ var v ''employeeName'' @ '' has been completed.'')),
     (''request.sla_breach'', \<lambda>v. (''SLA breach warning'',
        ''Your '' @ var v ''requestType'' @ '' request ('' @ var v ''requestId'' @ '') has exceeded its SLA deadline of '' @
        var v ''deadline'' @ ''. Please take action.'')),
     (''request.delegation_created'', \<lambda>v. (''Approval delegation received'',
        var v ''delegatorName'' @ '' has delegated their approval authority to you until '' @ var v ''endsAt'' @ ''.'')),
     (''request.step_ready'', \<lambda>v. (''Action required: '' @ var v ''requestType'' @ '' approval (step '' @ var v ''nextStep'' @
        ''/'' @ var v ''totalSteps'' @ '')'',
        ''Step '' @ var v ''completedStep'' @ '' has been approved. Your review is now required (step '' @ var v ''nextStep'' @
        '' of '' @ var v ''totalSteps'' @ '').'')),
     (''request.submitted'', \<lambda>v. (''New '' @ var v ''requestType'' @ '' request awaiting review'',
        var v ''requesterEmail'' @ '' submitted a '' @ var v ''requestType'' @ '' request ('' @ var v ''requestId'' @
        '') that requires your approval.'')),
     (''request.approved'', \<lambda>v. (''Your '' @ var v ''requestType'' @ '' request was approved'',
        ''Your '' @ var v ''requestType'' @ '' request ('' @ var v ''requestId'' @ '') has been approved.'')),
     (''request.rejected'', \<lambda>v. (''Your '' @ var v ''requestType'' @ '' request was rejected'',
        ''Your '' @ var v ''requestType'' @ '' request ('' @ var v ''requestId'' @ '') has been rejected.'' @ reason_text v))]"

definition renderNotification :: "string \<Rightarrow> jobject \<Rightarrow> (string \<times> string) svc" where
  "renderNotification type vars = (case map_of templates type of
     None \<Rightarrow> mthrow (PlainError ''fn is not a function'')
   | Some fn \<Rightarrow> mret (fn vars))"

section \<open>Preferences\<close>

datatype notification_channel = In_app | Email

record preference_input =
  upi_user :: uuid
  upi_type :: string
  upi_in_app :: "bool option"
  upi_email :: "bool option"

definition pref_is :: "uuid \<Rightarrow> string \<Rightarrow> notification_preference \<Rightarrow> bool" where
  "pref_is userId type r \<longleftrightarrow> np_user r = userId \<and> np_type r = type"

definition listPreferences :: "uuid \<Rightarrow> notification_preference list svc" where
  "listPreferences userId = query (\<lambda>d. select_where (\<lambda>r. np_user r = userId) (t_notification_preferences d))"

definition findForCheck :: "uuid \<Rightarrow> string \<Rightarrow> notification_preference list svc" where
  "findForCheck userId type = query (\<lambda>d.
     select_where (\<lambda>r. np_user r = userId \<and> np_type r \<in> {type, ''*''}) (t_notification_preferences d))"

definition changed_preference :: "preference_input \<Rightarrow> timestamp \<Rightarrow> notification_preference \<Rightarrow> notification_preference" where
  "changed_preference input t r = r\<lparr>
     np_in_app := (case upi_in_app input of None \<Rightarrow> np_in_app r | Some b \<Rightarrow> b),
     np_email := (case upi_email input of None \<Rightarrow> np_email r | Some b \<Rightarrow> b), np_updated_at := t\<rparr>"

text \<open>\<^verbatim>\<open>insert .. onConflictDoUpdate\<close> on the unique pair of user and type.\<close>

definition upsert_preference :: "preference_input \<Rightarrow> notification_preference option svc" where
  "upsert_preference input =
     mbind newId (\<lambda>rowId. mbind now (\<lambda>t.
     mbind (query (\<lambda>d. find_where (pref_is (upi_user input) (upi_type input)) (t_notification_preferences d))) (\<lambda>old.
     mbind (exec (t_notification_preferences_update (\<lambda>tab.
       case old of
         None \<Rightarrow> insert_row \<lparr>np_id = rowId, np_user = upi_user input, np_type = upi_type input,
             np_in_app = (case upi_in_app input of None \<Rightarrow> True | Some b \<Rightarrow> b),
             np_email = (case upi_email input of None \<Rightarrow> True | Some b \<Rightarrow> b), np_updated_at = t\<rparr> tab
       | Some r \<Rightarrow> update_where (pref_is (upi_user input) (upi_type input)) (changed_preference input t) tab))) (\<lambda>_.
     query (\<lambda>d. find_where (pref_is (upi_user input) (upi_type input)) (t_notification_preferences d))))))"

definition reset_preference :: "uuid \<Rightarrow> string \<Rightarrow> unit svc" where
  "reset_preference userId type = exec (t_notification_preferences_update (delete_where (pref_is userId type)))"

definition channel_of :: "notification_channel \<Rightarrow> notification_preference \<Rightarrow> bool" where
  "channel_of channel r = (if channel = In_app then np_in_app r else np_email r)"

definition isEnabled :: "uuid \<Rightarrow> string \<Rightarrow> notification_channel \<Rightarrow> bool svc" where
  "isEnabled userId type channel =
     mbind (findForCheck userId type) (\<lambda>rows.
     case find_where (\<lambda>r. np_type r = type) rows of
       Some specific \<Rightarrow> mret (channel_of channel specific)
     | None \<Rightarrow> (case find_where (\<lambda>r. np_type r = ''*'') rows of
         Some wildcard \<Rightarrow> mret (channel_of channel wildcard)
       | None \<Rightarrow> mret True))"

definition isInAppEnabled :: "uuid \<Rightarrow> string \<Rightarrow> bool svc" where
  "isInAppEnabled userId type = isEnabled userId type In_app"

section \<open>Notifications\<close>

record notification_create =
  nc_recipient :: uuid
  nc_actor :: "uuid option"
  nc_type :: string
  nc_title :: string
  nc_body :: "string option"
  nc_resource_type :: "string option"
  nc_resource :: "uuid option"
  nc_metadata :: "jobject option"
  nc_source_event :: "string option"

definition existsBySourceEventId :: "string \<Rightarrow> bool svc" where
  "existsBySourceEventId s =
     mbind (uuid_param s) (\<lambda>_.
     query (\<lambda>d. find_where (\<lambda>r. ian_source_event r = Some s) (t_in_app_notifications d) \<noteq> None))"

definition notification_create_row :: "notification_create \<Rightarrow> in_app_notification svc" where
  "notification_create_row input =
     mbind (case nc_source_event input of None \<Rightarrow> mret () | Some s \<Rightarrow> uuid_param s) (\<lambda>_.
     mbind (query (\<lambda>d. find_where (\<lambda>r. ian_source_event r = nc_source_event input) (t_in_app_notifications d))) (\<lambda>dup.
     mbind (throw_if (nc_source_event input \<noteq> None \<and> dup \<noteq> None) (UniqueViolation ''uq_ian_source_event_id'')) (\<lambda>_.
     mbind newId (\<lambda>rowId. mbind now (\<lambda>t.
     let row = \<lparr>ian_id = rowId, ian_recipient = nc_recipient input, ian_actor = nc_actor input,
                ian_type = nc_type input, ian_title = nc_title input, ian_body = nc_body input,
                ian_resource_type = nc_resource_type input, ian_resource = nc_resource input,
                ian_metadata = (case nc_metadata input of None \<Rightarrow> [] | Some m \<Rightarrow> m),
                ian_is_read = False, ian_read_at = None, ian_created_at = t,
                ian_source_event = nc_source_event input\<rparr> in
     mbind (exec (t_in_app_notifications_update (insert_row row))) (\<lambda>_. mret row))))))"

definition notification_send :: "notification_create \<Rightarrow> in_app_notification option svc" where
  "notification_send input =
     mbind (case nc_source_event input of
              None \<Rightarrow> mret False
            | Some s \<Rightarrow> if s = [] then mret False else existsBySourceEventId s) (\<lambda>exists.
     if exists then mret None
     else mbind (notification_create_row input) (\<lambda>n. mret (Some n)))"

text \<open>
  The cursor is the base64 of \<^verbatim>\<open>createdAt.toISOString()\<close>; here it is that time.  One row more than
  the page is read to see whether another page exists.
\<close>

record notification_filters =
  nf_is_read :: "bool option"
  nf_limit :: nat
  nf_cursor :: "timestamp option"

definition listed :: "uuid \<Rightarrow> notification_filters \<Rightarrow> in_app_notification \<Rightarrow> bool" where
  "listed recipientId f r \<longleftrightarrow> ian_recipient r = recipientId \<and> opt_eq (nf_is_read f) (ian_is_read r) \<and>
     (case nf_cursor f of None \<Rightarrow> True | Some c \<Rightarrow> ian_created_at r < c)"

definition notifications_list :: "uuid \<Rightarrow> notification_filters \<Rightarrow> (in_app_notification list \<times> timestamp option) svc" where
  "notifications_list recipientId f = query (\<lambda>d.
     let rows = page (nf_limit f + 1) 0 (sort_key (\<lambda>r. - ian_created_at r)
                  (select_where (listed recipientId f) (t_in_app_notifications d)));
         hasMore = length rows > nf_limit f;
         items = take (nf_limit f) rows in
     (items, if hasMore then Some (ian_created_at (items ! (length items - 1))) else None))"

definition markRead :: "uuid \<Rightarrow> uuid \<Rightarrow> unit svc" where
  "markRead notificationId recipientId =
     mbind now (\<lambda>t. exec (t_in_app_notifications_update (update_where
       (\<lambda>r. ian_id r = notificationId \<and> ian_recipient r = recipientId)
       (\<lambda>r. r\<lparr>ian_is_read := True, ian_read_at := Some t\<rparr>))))"

definition markAllRead :: "uuid \<Rightarrow> unit svc" where
  "markAllRead recipientId =
     mbind now (\<lambda>t. exec (t_in_app_notifications_update (update_where
       (\<lambda>r. ian_recipient r = recipientId \<and> \<not> ian_is_read r)
       (\<lambda>r. r\<lparr>ian_is_read := True, ian_read_at := Some t\<rparr>))))"

definition unreadCount :: "uuid \<Rightarrow> nat svc" where
  "unreadCount recipientId = query (\<lambda>d.
     length (select_where (\<lambda>r. ian_recipient r = recipientId \<and> \<not> ian_is_read r) (t_in_app_notifications d)))"

end
