(* ===== verification/Relays.thy ===== *)
theory Relays
  imports Notifications
begin

text \<open>
  The three outbox relays (notifications, e-mail, webhooks), the e-mail scheduler and the webhook
  service.  What answers from outside (mail provider, subscriber endpoint, push channel) is a
  function of the message and the time; the rendered e-mail text is represented by the template's
  name and variables, and the JSON text of a webhook body by its value.
\<close>

section \<open>The settings of the base class\<close>

definition maxAttempts :: nat where
  "maxAttempts = 5"

definition batchSize :: nat where
  "batchSize = 50"

text \<open>The oldest rows that are due, at most one batch of them.\<close>

definition due_batch :: "(timestamp \<Rightarrow> 'r \<Rightarrow> bool) \<Rightarrow> ('r \<Rightarrow> timestamp) \<Rightarrow> (db \<Rightarrow> 'r list) \<Rightarrow> 'r list svc" where
  "due_batch due at tab =
     mbind now (\<lambda>t. query (\<lambda>d. page batchSize 0 (sort_key at (select_where (due t) (tab d)))))"

section \<open>E-mail\<close>

record email_payload =
  ep_to :: string
  ep_template :: string
  ep_vars :: jobject
  ep_idempotency_key :: "string option"

definition email_templates :: "string list" where
  "email_templates = [''access-request.submitted'', ''access-request.approved'', ''access-request.denied'',
     ''asset.assigned'', ''offboarding.complete'']"

text \<open>
  \<^verbatim>\<open>EmailSchedulerService.schedule\<close> names the column \<^verbatim>\<open>idempotency_key\<close> as the target of its
  \<^verbatim>\<open>onConflictDoNothing\<close>.  A target that no total unique index covers is an error of the statement, and the one index
  on that column is partial (\<^verbatim>\<open>WHERE idempotency_key IS NOT NULL\<close>).
\<close>

definition conflict_target :: "bool \<Rightarrow> unit svc" where
  "conflict_target partial = throw_if partial
     (PlainError ''there is no unique or exclusion constraint matching the ON CONFLICT specification'')"

definition uq_email_outbox_idempotency_partial :: bool where
  "uq_email_outbox_idempotency_partial = True"

definition schedule_email :: "string \<Rightarrow> string \<Rightarrow> jobject \<Rightarrow> string option \<Rightarrow> timestamp option \<Rightarrow> unit svc" where
  "schedule_email to template vars key at =
     mbind newId (\<lambda>rowId. mbind now (\<lambda>t. mbind (conflict_target uq_email_outbox_idempotency_partial) (\<lambda>_.
       exec (t_email_outbox_update (\<lambda>tab.
         if key \<noteq> None \<and> list_ex (\<lambda>r. em_idempotency_key r = key) tab then tab
         else insert_row \<lparr>em_id = rowId, em_to = to, em_template = template, em_vars = vars,
           em_status = Em_pending, em_attempts = 0, em_last_error = None, em_idempotency_key = key, em_recipient = None,
           em_scheduled_at = (case at of None \<Rightarrow> t | Some s \<Rightarrow> s), em_sent_at = None\<rparr> tab)))))"

lemma schedule_email_fails: "\<exists>e w'. schedule_email to template vars key at w = (Inl e, w') \<and> w_db w' = w_db w"
  by (simp add: schedule_email_def conflict_target_def uq_email_outbox_idempotency_partial_def)

definition sendTemplate :: "(email_payload \<Rightarrow> timestamp \<Rightarrow> exn + unit) \<Rightarrow> string \<Rightarrow> string \<Rightarrow> jobject \<Rightarrow> string option \<Rightarrow> unit svc" where
  "sendTemplate provider to template vars key =
     mbind (throw_if (template \<notin> set email_templates) (PlainError ''template is not a function'')) (\<lambda>_.
     outside_call (provider \<lparr>ep_to = to, ep_template = template, ep_vars = vars, ep_idempotency_key = key\<rparr>))"

definition email_due :: "timestamp \<Rightarrow> email_outbox_row \<Rightarrow> bool" where
  "email_due t r \<longleftrightarrow> em_status r = Em_pending \<and> em_attempts r < maxAttempts \<and> em_scheduled_at r \<le> t"

definition email_processRow :: "(email_payload \<Rightarrow> timestamp \<Rightarrow> exn + unit) \<Rightarrow> email_outbox_row \<Rightarrow> unit svc option svc" where
  "email_processRow provider r =
     mbind (sendTemplate provider (em_to r) (em_template r) (em_vars r)
              (Some (case em_idempotency_key r of None \<Rightarrow> em_id r | Some k \<Rightarrow> k))) (\<lambda>_. mret None)"

definition email_markSent :: "uuid \<Rightarrow> unit svc" where
  "email_markSent rowId = mbind now (\<lambda>t. exec (t_email_outbox_update (update_where (\<lambda>r. em_id r = rowId)
     (\<lambda>r. r\<lparr>em_status := Em_sent, em_sent_at := Some t\<rparr>))))"

definition email_markFailed :: "uuid \<Rightarrow> nat \<Rightarrow> relay_status \<Rightarrow> string \<Rightarrow> unit svc" where
  "email_markFailed rowId newAttempts newStatus lastError =
     exec (t_email_outbox_update (update_where (\<lambda>r. em_id r = rowId)
       (\<lambda>r. r\<lparr>em_attempts := newAttempts,
              em_status := (case newStatus of Rs_failed \<Rightarrow> Em_failed | Rs_pending \<Rightarrow> Em_pending),
              em_last_error := Some lastError\<rparr>)))"

definition email_relay :: "(email_payload \<Rightarrow> timestamp \<Rightarrow> exn + unit) \<Rightarrow> email_outbox_row relay_def" where
  "email_relay provider = \<lparr>rd_id = em_id, rd_attempts = em_attempts, rd_maxAttempts = maxAttempts,
     rd_fetchBatch = due_batch email_due em_scheduled_at t_email_outbox,
     rd_processRow = email_processRow provider, rd_markSent = email_markSent, rd_markFailed = email_markFailed\<rparr>"

section \<open>Notifications\<close>

record notification_push =
  pu_notification :: uuid
  pu_recipient :: uuid
  pu_type :: string
  pu_title :: string
  pu_body :: string
  pu_resource :: "uuid option"

definition notification_due :: "timestamp \<Rightarrow> notification_outbox_row \<Rightarrow> bool" where
  "notification_due t r \<longleftrightarrow> no_status r = No_pending \<and> no_attempts r < maxAttempts \<and> no_scheduled_at r \<le> t"

definition notification_processRow :: "(notification_push \<Rightarrow> timestamp \<Rightarrow> exn + unit) \<Rightarrow> notification_outbox_row
    \<Rightarrow> unit svc option svc" where
  "notification_processRow push r =
     mbind (isInAppEnabled (no_recipient r) (no_type r)) (\<lambda>inAppEnabled.
     if \<not> inAppEnabled then mret None
     else
       mbind (renderNotification (no_type r) (no_vars r)) (\<lambda>rendered.
       mbind (notification_send
         \<lparr>nc_recipient = no_recipient r, nc_actor = no_actor r, nc_type = no_type r, nc_title = fst rendered,
          nc_body = Some (snd rendered), nc_resource_type = None, nc_resource = no_resource r, nc_metadata = None,
          nc_source_event = Some (case no_idempotency_key r of None \<Rightarrow> no_id r | Some k \<Rightarrow> k)\<rparr>) (\<lambda>notification.
       case notification of
         None \<Rightarrow> mret None
       | Some n \<Rightarrow> mret (Some (outside_call (push
           \<lparr>pu_notification = ian_id n, pu_recipient = no_recipient r, pu_type = no_type r,
            pu_title = fst rendered, pu_body = snd rendered, pu_resource = no_resource r\<rparr>))))))"

definition notification_markSent :: "uuid \<Rightarrow> unit svc" where
  "notification_markSent rowId = mbind now (\<lambda>t. exec (t_notification_outbox_update (update_where (\<lambda>r. no_id r = rowId)
     (\<lambda>r. r\<lparr>no_status := No_dispatched, no_dispatched_at := Some t\<rparr>))))"

definition notification_markFailed :: "uuid \<Rightarrow> nat \<Rightarrow> relay_status \<Rightarrow> string \<Rightarrow> unit svc" where
  "notification_markFailed rowId newAttempts newStatus lastError =
     exec (t_notification_outbox_update (update_where (\<lambda>r. no_id r = rowId)
       (\<lambda>r. r\<lparr>no_attempts := newAttempts,
              no_status := (case newStatus of Rs_failed \<Rightarrow> No_dead | Rs_pending \<Rightarrow> No_pending),
              no_last_error := Some lastError\<rparr>)))"

definition notification_relay :: "(notification_push \<Rightarrow> timestamp \<Rightarrow> exn + unit) \<Rightarrow> notification_outbox_row relay_def" where
  "notification_relay push = \<lparr>rd_id = no_id, rd_attempts = no_attempts, rd_maxAttempts = maxAttempts,
     rd_fetchBatch = due_batch notification_due no_scheduled_at t_notification_outbox,
     rd_processRow = notification_processRow push, rd_markSent = notification_markSent,
     rd_markFailed = notification_markFailed\<rparr>"

section \<open>Webhooks\<close>

definition RETRY_DELAYS_SECONDS :: "int list" where
  "RETRY_DELAYS_SECONDS = [60, 300, 900, 3600]"

definition MAX_DELIVERY_ERROR_LENGTH :: nat where
  "MAX_DELIVERY_ERROR_LENGTH = 2000"

record delivery_row =
  dr_id :: uuid
  dr_subscription :: uuid
  dr_event_type :: string
  dr_payload :: jobject
  dr_attempts :: nat
  dr_url :: string
  dr_secret :: string

record webhook_post =
  wp_url :: string
  wp_body :: json
  wp_signature :: string
  wp_event :: string
  wp_delivery :: uuid

definition delivery_due :: "timestamp \<Rightarrow> webhook_delivery \<Rightarrow> bool" where
  "delivery_due t r \<longleftrightarrow> wd_status r = Wd_pending \<and> wd_attempts r < maxAttempts \<and> wd_next_attempt_at r \<le> t"

text \<open>The inner join with the active subscription of the row, looked up by primary key.\<close>

definition with_subscription :: "webhook_subscription list \<Rightarrow> webhook_delivery \<Rightarrow> delivery_row option" where
  "with_subscription subs r = map_option
     (\<lambda>s. \<lparr>dr_id = wd_id r, dr_subscription = wd_subscription r, dr_event_type = wd_event_type r,
           dr_payload = wd_payload r, dr_attempts = wd_attempts r, dr_url = ws_url s, dr_secret = ws_secret s\<rparr>)
     (find_where (\<lambda>s. wd_subscription r = ws_id s \<and> ws_active s) subs)"

definition webhook_fetchBatch :: "delivery_row list svc" where
  "webhook_fetchBatch = mbind now (\<lambda>t. query (\<lambda>d.
     page batchSize 0 (List.map_filter (with_subscription (t_webhook_subscriptions d))
       (sort_key wd_next_attempt_at (select_where (delivery_due t) (t_webhook_deliveries d))))))"

definition webhook_processRow :: "(string \<Rightarrow> json \<Rightarrow> string) \<Rightarrow> (webhook_post \<Rightarrow> timestamp \<Rightarrow> exn + nat) \<Rightarrow> delivery_row
    \<Rightarrow> unit svc option svc" where
  "webhook_processRow hmac http row =
     mbind now (\<lambda>timestamp.
     let body = JObj [(''id'', JStr (dr_id row)), (''eventType'', JStr (dr_event_type row)),
                      (''payload'', JObj (dr_payload row)), (''timestamp'', JDate timestamp)] in
     mbind (outside_call (http \<lparr>wp_url = dr_url row, wp_body = body,
              wp_signature = ''sha256='' @ hmac (dr_secret row) body,
              wp_event = dr_event_type row, wp_delivery = dr_id row\<rparr>)) (\<lambda>status.
     mbind (throw_if (\<not> (200 \<le> status \<and> status < 300)) (PlainError (''HTTP '' @ nat_str status))) (\<lambda>_.
     mret None)))"

definition webhook_markSent :: "uuid \<Rightarrow> unit svc" where
  "webhook_markSent rowId = mbind now (\<lambda>t. exec (t_webhook_deliveries_update (update_where (\<lambda>r. wd_id r = rowId)
     (\<lambda>r. r\<lparr>wd_status := Wd_delivered, wd_delivered_at := Some t\<rparr>))))"

definition retry_delay :: "nat \<Rightarrow> int" where
  "retry_delay newAttempts = (let i = min (newAttempts - 1) (length RETRY_DELAYS_SECONDS - 1) in RETRY_DELAYS_SECONDS ! i)"

definition webhook_markFailed :: "uuid \<Rightarrow> nat \<Rightarrow> relay_status \<Rightarrow> string \<Rightarrow> unit svc" where
  "webhook_markFailed rowId newAttempts newStatus err =
     mbind now (\<lambda>t.
     exec (t_webhook_deliveries_update (update_where (\<lambda>r. wd_id r = rowId)
       (\<lambda>r. r\<lparr>wd_status := (case newStatus of Rs_failed \<Rightarrow> Wd_failed | Rs_pending \<Rightarrow> Wd_pending),
              wd_attempts := newAttempts,
              wd_last_error := Some (take MAX_DELIVERY_ERROR_LENGTH err),
              wd_next_attempt_at := (if newStatus = Rs_failed then t else t + retry_delay newAttempts * 1000)\<rparr>))))"

definition webhook_relay :: "(string \<Rightarrow> json \<Rightarrow> string) \<Rightarrow> (webhook_post \<Rightarrow> timestamp \<Rightarrow> exn + nat) \<Rightarrow> delivery_row relay_def" where
  "webhook_relay hmac http = \<lparr>rd_id = dr_id, rd_attempts = dr_attempts, rd_maxAttempts = maxAttempts,
     rd_fetchBatch = webhook_fetchBatch, rd_processRow = webhook_processRow hmac http,
     rd_markSent = webhook_markSent, rd_markFailed = webhook_markFailed\<rparr>"

end
