(* ===== verification/Webhooks.thy ===== *)
theory Webhooks
  imports Relays
begin

text \<open>
  The webhook service (\<^verbatim>\<open>libs/modules/webhooks\<close>): subscriptions and the deliveries an operator
  lists and retries.  A subscription leaves the service without its signing secret.
\<close>

record subscription_view =
  sv_id :: uuid
  sv_url :: string
  sv_events :: "string list"
  sv_description :: "string option"
  sv_active :: bool
  sv_created_at :: timestamp
  sv_updated_at :: timestamp

definition rowToSubscription :: "webhook_subscription \<Rightarrow> subscription_view" where
  "rowToSubscription r = \<lparr>sv_id = ws_id r, sv_url = ws_url r, sv_events = ws_events r,
     sv_description = ws_description r, sv_active = ws_active r, sv_created_at = ws_created_at r,
     sv_updated_at = ws_updated_at r\<rparr>"

record subscription_input =
  si_url :: string
  si_secret :: string
  si_events :: "string list"
  si_description :: "string option"

definition webhook_create :: "subscription_input \<Rightarrow> subscription_view svc" where
  "webhook_create input =
     mbind newId (\<lambda>rowId. mbind now (\<lambda>t.
     let row = \<lparr>ws_id = rowId, ws_url = si_url input, ws_secret = si_secret input, ws_events = si_events input,
                ws_description = si_description input, ws_active = True, ws_created_at = t, ws_updated_at = t\<rparr> in
     mbind (exec (t_webhook_subscriptions_update (insert_row row))) (\<lambda>_. mret (rowToSubscription row))))"

definition webhook_list :: "subscription_view list svc" where
  "webhook_list = query (\<lambda>d. map rowToSubscription (t_webhook_subscriptions d))"

definition webhook_getById :: "uuid \<Rightarrow> subscription_view svc" where
  "webhook_getById subId =
     mbind (query (\<lambda>d. find_where (\<lambda>r. ws_id r = subId) (t_webhook_subscriptions d))) (\<lambda>row.
     mbind (or_throw row (NotFoundException WEBHOOK_NOT_FOUND)) (\<lambda>r. mret (rowToSubscription r)))"

definition webhook_setActive :: "uuid \<Rightarrow> bool \<Rightarrow> subscription_view svc" where
  "webhook_setActive subId active =
     mbind now (\<lambda>t.
     mbind (exec (t_webhook_subscriptions_update (update_where (\<lambda>r. ws_id r = subId)
              (\<lambda>r. r\<lparr>ws_active := active, ws_updated_at := t\<rparr>)))) (\<lambda>_.
     webhook_getById subId))"

definition webhook_delete :: "uuid \<Rightarrow> unit svc" where
  "webhook_delete subId = exec (t_webhook_subscriptions_update (delete_where (\<lambda>r. ws_id r = subId)))"

definition listDeliveries :: "uuid \<Rightarrow> webhook_delivery list svc" where
  "listDeliveries subId = query (\<lambda>d.
     page 100 0 (select_where (\<lambda>r. wd_subscription r = subId) (t_webhook_deliveries d)))"

definition retryDelivery :: "uuid \<Rightarrow> webhook_delivery svc" where
  "retryDelivery deliveryId =
     mbind now (\<lambda>t.
     mbind (exec (t_webhook_deliveries_update (update_where (\<lambda>r. wd_id r = deliveryId)
              (\<lambda>r. r\<lparr>wd_status := Wd_pending, wd_next_attempt_at := t, wd_last_error := None\<rparr>)))) (\<lambda>_.
     mbind (query (\<lambda>d. find_where (\<lambda>r. wd_id r = deliveryId) (t_webhook_deliveries d))) (\<lambda>row.
     or_throw row (NotFoundException DELIVERY_NOT_FOUND))))"

end
