(* ===== verification/Relay_Laws.thy ===== *)
theory Relay_Laws
  imports Webhooks
begin

text \<open>
  The three relays keep the promises of the locale \<open>outbox\<close>, and what a pass of each does to its
  table in closed form.
\<close>

section \<open>Delivery states of the three tables\<close>

definition email_delivery :: "email_outbox_row \<Rightarrow> delivery" where
  "email_delivery r = (case em_status r of Em_pending \<Rightarrow> Waiting (em_attempts r) | Em_sent \<Rightarrow> Delivered | Em_failed \<Rightarrow> Dead)"

definition notification_delivery :: "notification_outbox_row \<Rightarrow> delivery" where
  "notification_delivery r =
     (case no_status r of No_pending \<Rightarrow> Waiting (no_attempts r) | No_dispatched \<Rightarrow> Delivered | No_dead \<Rightarrow> Dead)"

definition webhook_delivery_state :: "webhook_delivery \<Rightarrow> delivery" where
  "webhook_delivery_state r =
     (case wd_status r of Wd_pending \<Rightarrow> Waiting (wd_attempts r) | Wd_delivered \<Rightarrow> Delivered | Wd_failed \<Rightarrow> Dead)"

section \<open>Batches\<close>

lemma outside_same: "keeps (same f) (outside_call g)"
  by (simp add: keeps_def outside_call_def same_def)

lemma due_batch_apply:
  "due_batch due at tab w = (Inr (page batchSize 0 (sort_key at (select_where (due (w_now w)) (tab (w_db w))))), w)"
  by (simp add: due_batch_def)

lemma page_subset: "set (page n k t) \<subseteq> set t"
  by (auto simp: page_def dest: in_set_takeD in_set_dropD)

lemma due_batch_member:
  "r \<in> set (page n k (sort_key at (select_where p t))) \<Longrightarrow> r \<in> set t \<and> p r"
  using page_subset by fastforce

lemma distinct_map_sort: "distinct (map k t) \<Longrightarrow> distinct (map k (sort_key at (select_where p t)))"
proof -
  assume "distinct (map k t)"
  then have "distinct t" "inj_on k (set t)" by (auto simp: distinct_map)
  then show "distinct (map k (sort_key at (select_where p t)))"
    by (auto simp: distinct_map select_where_def distinct_filter intro: inj_on_subset)
qed

lemma distinct_map_page: "distinct (map k t) \<Longrightarrow> distinct (map k (page n m t))"
  by (simp add: page_def take_map [symmetric] drop_map [symmetric] distinct_take distinct_drop)

text \<open>The joined rows keep the identifiers of the deliveries.\<close>

lemma with_subscription_id: "with_subscription subs r = Some q \<Longrightarrow> dr_id q = wd_id r \<and> dr_attempts q = wd_attempts r"
  by (auto simp: with_subscription_def)

lemma distinct_joined:
  "distinct (map wd_id t) \<Longrightarrow> distinct (map dr_id (List.map_filter (with_subscription subs) t)) \<and>
     dr_id ` set (List.map_filter (with_subscription subs) t) \<subseteq> wd_id ` set t"
proof (induction t)
  case (Cons r t)
  then show ?case
    using with_subscription_id [of subs r] by (cases "with_subscription subs r") (auto simp: map_filter_simps)
qed (simp add: map_filter_simps)

lemma joined_member:
  "q \<in> set (List.map_filter (with_subscription subs) t) \<Longrightarrow>
     \<exists>r \<in> set t. wd_id r = dr_id q \<and> wd_attempts r = dr_attempts q"
  by (induction t) (auto simp: map_filter_simps dest: with_subscription_id split: option.splits)

section \<open>The relays are outboxes\<close>

interpretation emails: outbox "email_relay provider" t_email_outbox em_id email_delivery for provider
proof
  fix w rows r
  show "\<exists>rows. rd_fetchBatch (email_relay provider) w = (Inr rows, w)"
    by (simp add: email_relay_def due_batch_apply)
  assume f: "rd_fetchBatch (email_relay provider) w = (Inr rows, w)"
  then have rows: "rows = page batchSize 0 (sort_key em_scheduled_at (select_where (email_due (w_now w)) (t_email_outbox (w_db w))))"
    by (simp add: email_relay_def due_batch_apply)
  show "rd_attempts (email_relay provider) r < rd_maxAttempts (email_relay provider) \<and>
      (\<exists>t \<in> set (t_email_outbox (w_db w)). em_id t = rd_id (email_relay provider) r \<and>
        email_delivery t = Waiting (rd_attempts (email_relay provider) r))" if "r \<in> set rows"
    using due_batch_member [OF that [unfolded rows]]
    by (auto simp: email_relay_def email_due_def email_delivery_def)
  show "distinct (map (rd_id (email_relay provider)) rows)" if "distinct (map em_id (t_email_outbox (w_db w)))"
    using that by (simp add: rows email_relay_def distinct_map_page distinct_map_sort)
next
  fix r
  show "keeps (same t_email_outbox) (rd_processRow (email_relay provider) r)"
    by (simp add: email_relay_def email_processRow_def sendTemplate_def)
      (intro same_rules outside_same)
next
  fix r w task w'
  show "rd_processRow (email_relay provider) r w = (Inr (Some task), w') \<Longrightarrow> keeps (same t_email_outbox) task"
    by (auto simp: email_relay_def email_processRow_def elim: mbind_InrE)
next
  fix i w
  show "\<exists>w' f. rd_markSent (email_relay provider) i w = (Inr (), w') \<and>
      t_email_outbox (w_db w') = update_where (\<lambda>t. em_id t = i) f (t_email_outbox (w_db w)) \<and>
      (\<forall>t. em_id (f t) = em_id t \<and> email_delivery (f t) = Delivered)"
    by (intro exI [of _ "\<lambda>r. r\<lparr>em_status := Em_sent, em_sent_at := Some (w_now w)\<rparr>"] exI conjI)
      (auto simp: email_relay_def email_markSent_def email_delivery_def)
next
  fix i n s msg w
  show "\<exists>w' f. rd_markFailed (email_relay provider) i n s msg w = (Inr (), w') \<and>
      t_email_outbox (w_db w') = update_where (\<lambda>t. em_id t = i) f (t_email_outbox (w_db w)) \<and>
      (\<forall>t. em_id (f t) = em_id t \<and> email_delivery (f t) = (case s of Rs_failed \<Rightarrow> Dead | Rs_pending \<Rightarrow> Waiting n))"
    by (auto simp: email_relay_def email_markFailed_def email_delivery_def split: relay_status.splits)
qed

lemma keeps_notification_process:
  "keeps (same t_notification_outbox) (notification_processRow push r)"
  unfolding notification_processRow_def isInAppEnabled_def isEnabled_def findForCheck_def renderNotification_def
    notification_send_def notification_create_row_def existsBySourceEventId_def uuid_param_def Let_def
  by (intro same_rules outside_same) (simp_all split: option.splits)

lemma notification_task:
  assumes "notification_processRow push r w = (Inr (Some task), w')"
  shows "keeps (same f) task"
proof -
  have "\<exists>g. task = outside_call g"
    using assms unfolding notification_processRow_def
    by (elim mbind_InrE) (auto split: if_splits option.splits elim!: mbind_InrE)
  then show ?thesis using outside_same by auto
qed

interpretation notifications: outbox "notification_relay push" t_notification_outbox no_id notification_delivery for push
proof
  fix w rows r
  show "\<exists>rows. rd_fetchBatch (notification_relay push) w = (Inr rows, w)"
    by (simp add: notification_relay_def due_batch_apply)
  assume f: "rd_fetchBatch (notification_relay push) w = (Inr rows, w)"
  then have rows: "rows = page batchSize 0 (sort_key no_scheduled_at
      (select_where (notification_due (w_now w)) (t_notification_outbox (w_db w))))"
    by (simp add: notification_relay_def due_batch_apply)
  show "rd_attempts (notification_relay push) r < rd_maxAttempts (notification_relay push) \<and>
      (\<exists>t \<in> set (t_notification_outbox (w_db w)). no_id t = rd_id (notification_relay push) r \<and>
        notification_delivery t = Waiting (rd_attempts (notification_relay push) r))" if "r \<in> set rows"
    using due_batch_member [OF that [unfolded rows]]
    by (auto simp: notification_relay_def notification_due_def notification_delivery_def)
  show "distinct (map (rd_id (notification_relay push)) rows)" if "distinct (map no_id (t_notification_outbox (w_db w)))"
    using that by (simp add: rows notification_relay_def distinct_map_page distinct_map_sort)
next
  fix r
  show "keeps (same t_notification_outbox) (rd_processRow (notification_relay push) r)"
    by (simp add: notification_relay_def keeps_notification_process)
next
  fix r w task w'
  show "rd_processRow (notification_relay push) r w = (Inr (Some task), w') \<Longrightarrow> keeps (same t_notification_outbox) task"
    by (auto simp: notification_relay_def intro: notification_task)
next
  fix i w
  show "\<exists>w' f. rd_markSent (notification_relay push) i w = (Inr (), w') \<and>
      t_notification_outbox (w_db w') = update_where (\<lambda>t. no_id t = i) f (t_notification_outbox (w_db w)) \<and>
      (\<forall>t. no_id (f t) = no_id t \<and> notification_delivery (f t) = Delivered)"
    by (intro exI [of _ "\<lambda>r. r\<lparr>no_status := No_dispatched, no_dispatched_at := Some (w_now w)\<rparr>"] exI conjI)
      (auto simp: notification_relay_def notification_markSent_def notification_delivery_def)
next
  fix i n s msg w
  show "\<exists>w' f. rd_markFailed (notification_relay push) i n s msg w = (Inr (), w') \<and>
      t_notification_outbox (w_db w') = update_where (\<lambda>t. no_id t = i) f (t_notification_outbox (w_db w)) \<and>
      (\<forall>t. no_id (f t) = no_id t \<and> notification_delivery (f t) = (case s of Rs_failed \<Rightarrow> Dead | Rs_pending \<Rightarrow> Waiting n))"
    by (auto simp: notification_relay_def notification_markFailed_def notification_delivery_def split: relay_status.splits)
qed

lemma webhook_fetch_apply:
  "webhook_fetchBatch w = (Inr (page batchSize 0 (List.map_filter (with_subscription (t_webhook_subscriptions (w_db w)))
     (sort_key wd_next_attempt_at (select_where (delivery_due (w_now w)) (t_webhook_deliveries (w_db w)))))), w)"
  by (simp add: webhook_fetchBatch_def)

interpretation webhooks: outbox "webhook_relay hmac http" t_webhook_deliveries wd_id webhook_delivery_state for hmac http
proof
  fix w rows r
  show "\<exists>rows. rd_fetchBatch (webhook_relay hmac http) w = (Inr rows, w)"
    by (simp add: webhook_relay_def webhook_fetch_apply)
  let ?due = "sort_key wd_next_attempt_at (select_where (delivery_due (w_now w)) (t_webhook_deliveries (w_db w)))"
  assume f: "rd_fetchBatch (webhook_relay hmac http) w = (Inr rows, w)"
  then have rows: "rows = page batchSize 0 (List.map_filter (with_subscription (t_webhook_subscriptions (w_db w))) ?due)"
    by (simp add: webhook_relay_def webhook_fetch_apply)
  show "rd_attempts (webhook_relay hmac http) r < rd_maxAttempts (webhook_relay hmac http) \<and>
      (\<exists>t \<in> set (t_webhook_deliveries (w_db w)). wd_id t = rd_id (webhook_relay hmac http) r \<and>
        webhook_delivery_state t = Waiting (rd_attempts (webhook_relay hmac http) r))" if "r \<in> set rows"
  proof -
    have "r \<in> set (List.map_filter (with_subscription (t_webhook_subscriptions (w_db w))) ?due)"
      using that page_subset unfolding rows by fast
    then obtain t where "t \<in> set ?due" "wd_id t = dr_id r" "wd_attempts t = dr_attempts r"
      using joined_member by blast
    then show ?thesis
      by (auto simp: webhook_relay_def delivery_due_def webhook_delivery_state_def intro!: bexI [of _ t])
  qed
  show "distinct (map (rd_id (webhook_relay hmac http)) rows)" if "distinct (map wd_id (t_webhook_deliveries (w_db w)))"
    by (auto simp: rows webhook_relay_def intro!: distinct_map_page distinct_joined [THEN conjunct1] distinct_map_sort that)
next
  fix r
  show "keeps (same t_webhook_deliveries) (rd_processRow (webhook_relay hmac http) r)"
    by (simp add: webhook_relay_def webhook_processRow_def Let_def) (intro same_rules outside_same)
next
  fix r w task w'
  show "rd_processRow (webhook_relay hmac http) r w = (Inr (Some task), w') \<Longrightarrow> keeps (same t_webhook_deliveries) task"
    by (auto simp: webhook_relay_def webhook_processRow_def Let_def elim!: mbind_InrE)
next
  fix i w
  show "\<exists>w' f. rd_markSent (webhook_relay hmac http) i w = (Inr (), w') \<and>
      t_webhook_deliveries (w_db w') = update_where (\<lambda>t. wd_id t = i) f (t_webhook_deliveries (w_db w)) \<and>
      (\<forall>t. wd_id (f t) = wd_id t \<and> webhook_delivery_state (f t) = Delivered)"
    by (intro exI [of _ "\<lambda>r. r\<lparr>wd_status := Wd_delivered, wd_delivered_at := Some (w_now w)\<rparr>"] exI conjI)
      (auto simp: webhook_relay_def webhook_markSent_def webhook_delivery_state_def)
next
  fix i n s msg w
  show "\<exists>w' f. rd_markFailed (webhook_relay hmac http) i n s msg w = (Inr (), w') \<and>
      t_webhook_deliveries (w_db w') = update_where (\<lambda>t. wd_id t = i) f (t_webhook_deliveries (w_db w)) \<and>
      (\<forall>t. wd_id (f t) = wd_id t \<and> webhook_delivery_state (f t) = (case s of Rs_failed \<Rightarrow> Dead | Rs_pending \<Rightarrow> Waiting n))"
    by (auto simp: webhook_relay_def webhook_markFailed_def webhook_delivery_state_def split: relay_status.splits)
qed

end
