(* ===== verification/Notification_Flow.thy ===== *)
theory Notification_Flow
  imports Relay_Laws Engine_Domain
begin

text \<open>
  The way of a notification from the engine to the recipient.  Every producer gives its outbox
  row an idempotency key, the relay passes that key on as the \<^verbatim>\<open>sourceEventId\<close> of the
  notification, and that column has the type uuid.
\<close>

section \<open>Rows no relay pass can turn into a notification\<close>

definition unsendable :: "notification_outbox_row \<Rightarrow> bool" where
  "unsendable r \<longleftrightarrow> (case no_idempotency_key r of None \<Rightarrow> False | Some k \<Rightarrow> \<not> uuid_text k)"

definition stuck :: "world \<Rightarrow> bool" where
  "stuck w \<longleftrightarrow> t_in_app_notifications (w_db w) = [] \<and> (\<forall>r \<in> set (t_notification_outbox (w_db w)). unsendable r)"

lemma stuck_exec:
  "(\<And>d. t_in_app_notifications (u d) = t_in_app_notifications d) \<Longrightarrow>
   (\<And>d. t_notification_outbox (u d) = t_notification_outbox d) \<Longrightarrow> maintains stuck (exec u)"
  by (simp add: keeps_def stuck_def)

lemma stuck_prim: "maintains stuck (query q)" "maintains stuck now" "maintains stuck newId"
  by (simp_all add: keeps_def stuck_def)

lemma stuck_transaction: "maintains stuck m \<Longrightarrow> maintains stuck (transaction m)"
  unfolding keeps_def transaction_def
  by (auto split: prod.splits sum.splits simp: stuck_def)

lemma stuck_same: "keeps (same (\<lambda>d. d)) m \<Longrightarrow> maintains stuck m"
  by (auto simp: keeps_def same_def stuck_def)

lemma stuck_schedule:
  "ni_idempotency_key i = Some k \<Longrightarrow> \<not> uuid_text k \<Longrightarrow> maintains stuck (schedule i)"
  by (simp add: keeps_def schedule_def stuck_def unsendable_def)

lemma stuck_messaging: "maintains stuck (enqueue a i e p)" "maintains stuck (fanout e p)"
  unfolding enqueue_def fanout_def deliver_def
  by (intro maintain.keeps_rules stuck_prim stuck_exec; simp)+

lemma keyed_text: "\<not> uuid_text (''request_submitted:'' @ x)" "\<not> uuid_text (''request_approved:'' @ x)"
    "\<not> uuid_text (''request_rejected:'' @ x)" "\<not> uuid_text (''step_ready:'' @ x)"
    "\<not> uuid_text (''sla_breach:'' @ x)" "\<not> uuid_text (''ar_step'' @ x)"
  by (simp_all add: uuid_text_def hex_digit_def numeral_eq_Suc)

lemmas stuck_rules = maintain.keeps_rules stuck_prim stuck_exec stuck_transaction stuck_messaging

section \<open>Producers\<close>

lemma stuck_check: "maintains stuck (check u p)"
  using keeps_check by (rule stuck_same)

lemma stuck_read: "maintains stuck (getOrFail rid)" "maintains stuck (registry_get reg k)"
    "maintains stuck (findActiveDelegationTo a)" "maintains stuck (assertApprovable st)"
    "maintains stuck (delegator_check g p)"
  unfolding getOrFail_def registry_get_def findActiveDelegationTo_def assertApprovable_def delegator_check_def
  by (intro stuck_rules stuck_check)+

lemmas stuck_guards = stuck_rules stuck_read stuck_check

lemma stuck_approve_guard: "maintains stuck (approve_guard reg rid actor)"
  unfolding approve_guard_def Let_def by (intro stuck_guards)

lemma stuck_reject_guard: "maintains stuck (reject_guard reg rid actor)"
  unfolding reject_guard_def Let_def by (intro stuck_guards)

lemma stuck_mark: "maintains stuck (mark_returned t a)"
  unfolding mark_returned_def by (intro stuck_exec) simp_all

lemma stuck_approve_hook: "def \<in> set app_types \<Longrightarrow> maintains stuck (td_on_approve def p r a)"
  by (auto simp: app_types_def type_defs access_on_approve_def leave_on_approve_def overtime_on_approve_def
      offboarding_on_approve_def set_leave_def set_overtime_def Let_def intro!: stuck_rules stuck_mark)

lemma stuck_step_hook: "def \<in> set app_types \<Longrightarrow> td_on_step_approved def = Some h \<Longrightarrow> maintains stuck (h p r s s' n a)"
  by (auto simp: app_types_def type_defs access_on_step_approved_def
      intro!: stuck_schedule [OF _ keyed_text(6)])

lemma stuck_close_hook:
  "def \<in> set app_types \<Longrightarrow> td_on_reject def = Some h \<Longrightarrow> maintains stuck (h p r a)"
  "def \<in> set app_types \<Longrightarrow> td_on_expire def = Some h' \<Longrightarrow> maintains stuck (h' p r)"
  "def \<in> set app_types \<Longrightarrow> td_on_cancel def = None"
  by (auto simp: app_types_def type_defs access_on_reject_def access_on_expire_def leave_on_reject_def
      leave_on_expire_def overtime_on_reject_def overtime_on_expire_def set_leave_def set_overtime_def Let_def
      intro!: stuck_rules)

lemma stuck_graph: "maintains stuck (graph_patch c)"
  unfolding graph_patch_def by (intro stuck_rules maintain.keeps_modify) (simp add: stuck_def)

lemma stuck_after_hook: "def \<in> set app_types \<Longrightarrow> td_after_approve def = Some h \<Longrightarrow> maintains stuck (h p r a)"
  by (auto simp: app_types_def type_defs onboarding_after_approve_def offboarding_after_approve_def
      enableEntraUser_def disableEntraUser_def intro!: stuck_rules stuck_graph)

text \<open>Every transition of the application's engine, and the SLA tick.\<close>

lemma stuck_run_hook: "(\<And>h. hook = Some h \<Longrightarrow> maintains stuck (call h)) \<Longrightarrow> maintains stuck (run_hook hook call)"
  by (cases hook) (simp_all add: run_hook_def maintain.keeps_ret)

lemma stuck_hooks:
  assumes "def \<in> set app_types"
  shows "maintains stuck (run_hook (td_on_submit def) f)"
    and "maintains stuck (run_hook (td_on_step_approved def) (\<lambda>h. h p r s s' n a))"
    and "maintains stuck (run_hook (td_on_reject def) (\<lambda>h. h p r a))"
    and "maintains stuck (run_hook (td_on_cancel def) g)"
    and "maintains stuck (run_hook (td_on_expire def) (\<lambda>h. h p r))"
    and "maintains stuck (run_hook (td_after_approve def) (\<lambda>h. mtry (h p r a) (\<lambda>_. mret ())))"
  by (rule stuck_run_hook; use app_on_submit [OF assms] stuck_step_hook [OF assms] stuck_close_hook [OF assms]
    stuck_after_hook [OF assms] in \<open>auto intro!: maintain.keeps_try maintain.keeps_ret\<close>)+

lemma stuck_bind_registry:
  assumes "\<And>def. def \<in> set app_types \<Longrightarrow> maintains stuck (f def)"
  shows "maintains stuck (mbind (registry_get app_registry k) f)"
  by (rule maintain.keeps_bind_val [OF stuck_read(2)])
    (use assms in \<open>auto simp: registry_get_success app_registry_lookup keeps_def\<close>)

lemma stuck_bind_guard:
  assumes "\<And>ctx. dx_def ctx \<in> set app_types \<Longrightarrow> maintains stuck (f ctx)"
  shows "maintains stuck (mbind (approve_guard app_registry rid actor) f)"
    and "maintains stuck (mbind (reject_guard app_registry rid actor) f)"
  by (rule maintain.keeps_bind_val [OF stuck_approve_guard] maintain.keeps_bind_val [OF stuck_reject_guard];
    use assms in \<open>auto dest!: approve_guard_success reject_guard_success simp: may_decide_def app_registry_lookup keeps_def\<close>)+

lemma stuck_submit: "maintains stuck (submit app_registry k payload actor opts)"
  unfolding submit_def Let_def
  by (intro stuck_bind_registry stuck_rules stuck_hooks stuck_schedule [OF _ keyed_text(1)]; simp)

lemma stuck_approve_tx:
  assumes "dx_def ctx \<in> set app_types"
  shows "maintains stuck (approve_tx ctx note actor)"
  unfolding approve_tx_def final_approval_def step_approval_def Let_def app_next_assignee [OF assms]
  by (intro stuck_rules stuck_approve_hook stuck_hooks assms
      stuck_schedule [OF _ keyed_text(2)] stuck_schedule [OF _ keyed_text(4)]; simp)

lemma stuck_after_approve: "dx_def ctx \<in> set app_types \<Longrightarrow> maintains stuck (after_approve ctx actor)"
  unfolding after_approve_def Let_def by (intro stuck_rules stuck_hooks)

lemma stuck_approve: "maintains stuck (approve app_registry rid note actor)"
  unfolding approve_def
  by (intro stuck_bind_guard(1) maintain.keeps_bind stuck_approve_tx stuck_after_approve maintain.keeps_ret)

lemma stuck_reject: "maintains stuck (reject app_registry rid note actor)"
  unfolding reject_def reject_tx_def Let_def
  by (intro stuck_bind_guard(2) stuck_rules stuck_hooks stuck_schedule [OF _ keyed_text(3)]; simp)

lemma stuck_cancel: "maintains stuck (cancel app_registry rid actor)"
  unfolding cancel_def cancel_tx_def Let_def
  by (intro stuck_bind_registry stuck_guards stuck_hooks; simp)

lemma stuck_expire: "maintains stuck (expire app_registry rid)"
  unfolding expire_def expire_tx_def Let_def
  by (intro stuck_bind_registry stuck_guards stuck_hooks; simp)

lemma stuck_sla: "maintains stuck sla_tick"
  unfolding sla_tick_def sla_breach_one_def
  by (intro stuck_rules maintain.keeps_try stuck_schedule [OF _ keyed_text(5)]; simp)

section \<open>The relay\<close>

text \<open>No unsendable row becomes a notification: the lookup of the source event throws first.\<close>

lemma unsendable_send:
  assumes "nc_source_event input = Some k" and "\<not> uuid_text k"
  shows "\<exists>e. notification_send input w = (Inl e, w)"
  using assms by (auto simp: notification_send_def notification_create_row_def existsBySourceEventId_def uuid_param_def mbind_def)

lemma unsendable_process:
  assumes "unsendable r"
  shows "\<exists>res. notification_processRow push r w = (res, w) \<and> (\<forall>task. res \<noteq> Inr (Some task))"
proof -
  obtain k where k: "no_idempotency_key r = Some k" "\<not> uuid_text k"
    using assms by (auto simp: unsendable_def split: option.splits)
  have pref: "\<exists>b. isInAppEnabled u t w = (Inr b, w)" for u t
    by (auto simp: isInAppEnabled_def isEnabled_def findForCheck_def split: option.splits)
  then obtain b where b: "isInAppEnabled (no_recipient r) (no_type r) w = (Inr b, w)" by blast
  show ?thesis
  proof (cases "map_of templates (no_type r)")
    case None
    then show ?thesis
      by (simp add: notification_processRow_def mbind_eq [where m = "isInAppEnabled (no_recipient r) (no_type r)", OF b] renderNotification_def)
  next
    case (Some fn)
    define input where "input = \<lparr>nc_recipient = no_recipient r, nc_actor = no_actor r, nc_type = no_type r,
      nc_title = fst (fn (no_vars r)), nc_body = Some (snd (fn (no_vars r))), nc_resource_type = None,
      nc_resource = no_resource r, nc_metadata = None, nc_source_event = Some k\<rparr>"
    obtain e where e: "notification_send input w = (Inl e, w)"
      using unsendable_send [of input k w] k(2) by (auto simp: input_def)
    show ?thesis
      using Some k(1)
      by (simp add: mbind_eq_Inl [where m = "notification_send input", OF e, unfolded input_def] notification_processRow_def mbind_eq [where m = "isInAppEnabled (no_recipient r) (no_type r)", OF b] renderNotification_def input_def)
  qed
qed

lemma stuck_row:
  assumes "unsendable r"
  shows "maintains stuck (relay_row (notification_relay push) r)"
    and "relay_row (notification_relay push) r w = (Inr ts, w') \<Longrightarrow> ts = []"
proof -
  have mark: "maintains stuck (notification_markSent i)" "maintains stuck (notification_markFailed i n s msg)" for i n s msg
    by (auto simp: keeps_def notification_markSent_def notification_markFailed_def stuck_def set_update_where unsendable_def)
  have one: "relay_row (notification_relay push) r w = (res, w') \<Longrightarrow> (stuck w \<longrightarrow> stuck w') \<and> (\<forall>ts. res = Inr ts \<longrightarrow> ts = [])" for w w' res
  proof -
    assume run: "relay_row (notification_relay push) r w = (res, w')"
    obtain pr where pr: "notification_processRow push r w = (pr, w)" "\<forall>task. pr \<noteq> Inr (Some task)"
      using unsendable_process [OF assms] by blast
    show "(stuck w \<longrightarrow> stuck w') \<and> (\<forall>ts. res = Inr ts \<longrightarrow> ts = [])"
    proof (cases pr)
      case (Inr task)
      with pr run have "res = Inr []" "w' = snd (notification_markSent (no_id r) w)"
        by (auto simp: relay_row_def notification_relay_def mtry_def mbind_eq notification_markSent_def)
      with mark(1) [of "no_id r"] show ?thesis by (simp add: keeps_def)
    next
      case (Inl e)
      with pr run have "res = Inr []" "\<exists>n s. w' = snd (notification_markFailed (no_id r) n s (error_message e) w)"
        by (auto simp: relay_row_def notification_relay_def mtry_def mbind_eq_Inl notification_markFailed_def Let_def)
      with mark(2) [of "no_id r" _ _ "error_message e"] show ?thesis by (auto simp: keeps_def)
    qed
  qed
  show "maintains stuck (relay_row (notification_relay push) r)"
    unfolding keeps_def using one by (metis prod.collapse)
  show "relay_row (notification_relay push) r w = (Inr ts, w') \<Longrightarrow> ts = []"
    using one by blast
qed

lemma stuck_relay: "maintains stuck (relay (notification_relay push))"
proof -
  have rows: "stuck w' \<and> ts = []"
    if "stuck w" "\<forall>r \<in> set rows. unsendable r" "relay_rows (notification_relay push) rows w = (Inr ts, w')" for rows w ts w'
    using that
  proof (induction rows arbitrary: w ts)
    case (Cons r rows)
    from Cons.prems obtain t1 w1 t2 where run: "relay_row (notification_relay push) r w = (Inr t1, w1)"
      "relay_rows (notification_relay push) rows w1 = (Inr t2, w')" "ts = t1 @ t2"
      by (auto elim!: mbind_InrE)
    have "stuck w1" "t1 = []"
      using maintainsD [OF stuck_row(1) Cons.prems(1) run(1)] stuck_row(2) [OF _ run(1)] Cons.prems(2) by auto
    with Cons.IH [OF _ _ run(2)] Cons.prems(2) run(3) show ?case by simp
  qed simp
  show ?thesis
  proof (rule keepsI, rule impI)
    fix w :: world
    assume stuck: "stuck w"
    obtain batch where f: "rd_fetchBatch (notification_relay push) w = (Inr batch, w)"
      using notifications.fetch_reads by blast
    have un: "\<forall>r \<in> set batch. unsendable r"
    proof
      fix r assume "r \<in> set batch"
      then have "r \<in> set (t_notification_outbox (w_db w))"
        using f by (auto simp: notification_relay_def due_batch_apply dest!: due_batch_member)
      with stuck show "unsendable r" by (simp add: stuck_def)
    qed
    obtain res w1 where run: "relay_rows (notification_relay push) batch w = (res, w1)"
      by (cases "relay_rows (notification_relay push) batch w")
    show "stuck (snd (relay (notification_relay push) w))"
    proof (cases res)
      case (Inr ts)
      with rows [OF stuck un] run have "stuck w1" "ts = []" by auto
      then show ?thesis
        using run Inr by (simp add: relay_def relay_tx_def mbind_def transaction_def f run_tasks_def)
    next
      case (Inl e)
      then show ?thesis
        using run stuck by (simp add: relay_def relay_tx_def mbind_def transaction_def f stuck_def)
    qed
  qed
qed

section \<open>Reachability\<close>

text \<open>
  The engine, the SLA tick and the relay, interleaved with anything that leaves the two
  notification tables alone (the other services, the clock, the preferences).
\<close>

inductive notify_step :: "world \<Rightarrow> world \<Rightarrow> bool" where
  ns_submit: "notify_step w (snd (submit app_registry k payload actor opts w))"
| ns_approve: "notify_step w (snd (approve app_registry rid note actor w))"
| ns_reject: "notify_step w (snd (reject app_registry rid note actor w))"
| ns_cancel: "notify_step w (snd (cancel app_registry rid actor w))"
| ns_expire: "notify_step w (snd (expire app_registry rid w))"
| ns_sla: "notify_step w (snd (sla_tick w))"
| ns_relay: "notify_step w (snd (relay (notification_relay push) w))"
| ns_other: "t_in_app_notifications (w_db w') = t_in_app_notifications (w_db w) \<Longrightarrow>
    t_notification_outbox (w_db w') = t_notification_outbox (w_db w) \<Longrightarrow> notify_step w w'"

inductive notify_reachable :: "world \<Rightarrow> bool" where
  nr_init: "t_in_app_notifications (w_db w) = [] \<Longrightarrow> t_notification_outbox (w_db w) = [] \<Longrightarrow> notify_reachable w"
| nr_step: "notify_reachable w \<Longrightarrow> notify_step w w' \<Longrightarrow> notify_reachable w'"

lemma stuck_step: "notify_step w w' \<Longrightarrow> stuck w \<Longrightarrow> stuck w'"
proof (induction rule: notify_step.induct)
  case (ns_other w' w)
  then show ?case by (simp add: stuck_def)
qed (use stuck_submit stuck_approve stuck_reject stuck_cancel stuck_expire stuck_sla stuck_relay in \<open>auto simp: keeps_def\<close>)

lemma notify_reachable_stuck: "notify_reachable w \<Longrightarrow> stuck w"
  by (induction rule: notify_reachable.induct) (auto intro: stuck_step, simp add: stuck_def)

end
