(* ===== verification/Relay_Claims.thy ===== *)
theory Relay_Claims
  imports Notification_Flow Scenario
begin

text \<open>
  The properties of the relays: each pass is a step of the delivery machine, the passes come to an
  end, and the two ways in which a delivery the code means to make never happens.
\<close>

section \<open>Refinement of the delivery machine\<close>

text \<open>A table after a pass: every fetched row made exactly one attempt, every other row is untouched.\<close>

definition pass_of :: "'r relay_def \<Rightarrow> (db \<Rightarrow> 't list) \<Rightarrow> ('t \<Rightarrow> uuid) \<Rightarrow> ('t \<Rightarrow> delivery) \<Rightarrow> world \<Rightarrow> bool" where
  "pass_of def tab key dl w \<longleftrightarrow> (\<exists>rows w'. rd_fetchBatch def w = (Inr rows, w) \<and> relay def w = (Inr (), w') \<and>
     advanced key dl 5 (rd_id def ` set rows) (tab (w_db w)) (tab (w_db w')))"

text \<open>C19: Refinement: one pass of each relay (e-mail, notifications, webhooks) always returns and is
  a step of the abstract delivery machine on its table.  Every row of the fetched batch makes
  exactly one attempt (it becomes delivered, or its attempt is counted, or it is dead after the
  fifth), every other row of the table is as before, and no row appears or vanishes.\<close>

theorem outbox_passes_refine:
  assumes "distinct (map em_id (t_email_outbox (w_db w)))" and "distinct (map no_id (t_notification_outbox (w_db w)))"
    and "distinct (map wd_id (t_webhook_deliveries (w_db w)))"
  shows "pass_of (email_relay provider) t_email_outbox em_id email_delivery w \<and>
    pass_of (notification_relay push) t_notification_outbox no_id notification_delivery w \<and>
    pass_of (webhook_relay hmac http) t_webhook_deliveries wd_id webhook_delivery_state w"
proof (intro conjI)
  have max: "rd_maxAttempts (email_relay provider) = 5" "rd_maxAttempts (notification_relay push) = 5"
    "rd_maxAttempts (webhook_relay hmac http) = 5"
    by (simp_all add: email_relay_def notification_relay_def webhook_relay_def maxAttempts_def)
  show "pass_of (email_relay provider) t_email_outbox em_id email_delivery w"
    using emails.fetch_reads [of provider w] emails.relay_pass [OF assms(1), of provider]
    unfolding pass_of_def max by blast
  show "pass_of (notification_relay push) t_notification_outbox no_id notification_delivery w"
    using notifications.fetch_reads [of push w] notifications.relay_pass [OF assms(2), of push]
    unfolding pass_of_def max by blast
  show "pass_of (webhook_relay hmac http) t_webhook_deliveries wd_id webhook_delivery_state w"
    using webhooks.fetch_reads [of hmac http w] webhooks.relay_pass [OF assms(3), of hmac http]
    unfolding pass_of_def max by blast
qed

definition welcome_mail :: email_outbox_row where
  "welcome_mail = \<lparr>em_id = ''m'', em_to = ''alice@x'', em_template = ''asset.assigned'', em_vars = [],
     em_status = Em_pending, em_attempts = 0, em_last_error = None, em_idempotency_key = None, em_recipient = None,
     em_scheduled_at = 0, em_sent_at = None\<rparr>"

definition mail_world :: world where
  "mail_world = base_world\<lparr>w_db := base_db\<lparr>t_email_outbox := [welcome_mail]\<rparr>\<rparr>"

lemma mail_tables:
  "t_email_outbox (w_db mail_world) = [welcome_mail]" "t_notification_outbox (w_db mail_world) = []"
  "t_webhook_deliveries (w_db mail_world) = []"
  by (simp_all add: mail_world_def base_db_def empty_db_def)

theorem outbox_passes_refine_witness:
  "pass_of (email_relay (\<lambda>m t. Inl (PlainError ''refused''))) t_email_outbox em_id email_delivery mail_world"
  using outbox_passes_refine [of mail_world "\<lambda>m t. Inl (PlainError ''refused'')"
      "\<lambda>p t. Inr ()" "\<lambda>s b. []" "\<lambda>p t. Inr 200"]
  by (simp add: mail_tables)

section \<open>Termination\<close>

lemma credits_bound: "credits dl m t \<le> m * length t"
proof (induction t)
  case (Cons r t)
  have "credit m (dl r) \<le> m" by (cases "dl r") simp_all
  with Cons show ?case by (simp add: credits_def)
qed (simp add: credits_def)



section \<open>A retried webhook delivery\<close>

lemma exhausted_not_fetched:
  assumes "distinct (map wd_id (t_webhook_deliveries (w_db w)))" and "r \<in> set (t_webhook_deliveries (w_db w))"
    and "maxAttempts \<le> wd_attempts r"
  shows "r \<in> set (t_webhook_deliveries (w_db (snd (relay (webhook_relay hmac http) w)))) \<and>
    distinct (map wd_id (t_webhook_deliveries (w_db (snd (relay (webhook_relay hmac http) w)))))"
proof -
  obtain rows where f: "rd_fetchBatch (webhook_relay hmac http) w = (Inr rows, w)"
    using webhooks.fetch_reads by blast
  obtain w' where w': "relay (webhook_relay hmac http) w = (Inr (), w')" "advanced wd_id webhook_delivery_state
      (rd_maxAttempts (webhook_relay hmac http)) (rd_id (webhook_relay hmac http) ` set rows)
      (t_webhook_deliveries (w_db w)) (t_webhook_deliveries (w_db w'))"
    using webhooks.relay_pass [OF assms(1) f] by blast
  have "wd_id r \<notin> rd_id (webhook_relay hmac http) ` set rows"
  proof
    assume "wd_id r \<in> rd_id (webhook_relay hmac http) ` set rows"
    then obtain q where q: "q \<in> set rows" "wd_id r = rd_id (webhook_relay hmac http) q" by blast
    obtain t where t: "t \<in> set (t_webhook_deliveries (w_db w))" "wd_id t = rd_id (webhook_relay hmac http) q"
      "webhook_delivery_state t = Waiting (rd_attempts (webhook_relay hmac http) q)"
      "rd_attempts (webhook_relay hmac http) q < maxAttempts"
      using webhooks.fetch_waiting [OF f q(1)] by (auto simp: webhook_relay_def)
    then have "t = r"
      using assms(1,2) q(2) by (metis distinct_map inj_onD)
    with t(3,4) assms(3) show False
      by (auto simp: webhook_delivery_state_def split: delivery_status.splits)
  qed
  then have "r \<in> set (t_webhook_deliveries (w_db w'))"
    using w'(2) assms(2) unfolding advanced_def by (fastforce simp: list_all2_conv_all_nth in_set_conv_nth)
  then show ?thesis
    using w'(1) advanced_keys [OF w'(2)] assms(1) by simp
qed

text \<open>A delivery that has used up its five attempts (which is how the relay leaves a failed one)
  can be retried by an operator, and the service answers that it is pending again; but the retry
  does not reset the attempts, so however many relay passes follow, and whatever the subscriber
  would answer, the row stays exactly as the retry left it: pending, never sent.\<close>

theorem retried_delivery_stuck:
  assumes "distinct (map wd_id (t_webhook_deliveries (w_db w)))" and "r \<in> set (t_webhook_deliveries (w_db w))"
    and "wd_id r = i" and "maxAttempts \<le> wd_attempts r"
  shows "\<exists>row w1. retryDelivery i w = (Inr row, w1) \<and> wd_status row = Wd_pending \<and>
    (\<forall>n. row \<in> set (t_webhook_deliveries (w_db (relay_passes (webhook_relay hmac http) n w1))))"
proof -
  define row where "row = r\<lparr>wd_status := Wd_pending, wd_next_attempt_at := w_now w, wd_last_error := None\<rparr>"
  define f :: "webhook_delivery \<Rightarrow> webhook_delivery"
    where "f = (\<lambda>r. r\<lparr>wd_status := Wd_pending, wd_next_attempt_at := w_now w, wd_last_error := None\<rparr>)"
  define w1 where "w1 = w\<lparr>w_db := t_webhook_deliveries_update (update_where (\<lambda>r. wd_id r = i) f) (w_db w)\<rparr>"
  have found: "find_where (\<lambda>r. wd_id r = i) (t_webhook_deliveries (w_db w)) = Some r"
    using find_where_distinct [OF assms(1,2)] assms(3) by simp
  have keep: "wd_id (f x) = wd_id x" for x by (simp add: f_def)
  have run: "retryDelivery i w = (Inr row, w1)"
    using found find_where_update_key [where k = wd_id and f = f and x = i, OF keep]
    by (simp add: retryDelivery_def w1_def f_def row_def)
  have dist: "distinct (map wd_id (t_webhook_deliveries (w_db w1)))"
    using assms(1) by (simp add: w1_def map_update_where [where k = wd_id and f = f, OF keep])
  have row: "row \<in> set (t_webhook_deliveries (w_db w1))" "maxAttempts \<le> wd_attempts row"
    using update_where_in [OF assms(2), of "\<lambda>r. wd_id r = i" f] assms(3,4) by (simp_all add: w1_def row_def f_def)
  have "row \<in> set (t_webhook_deliveries (w_db (relay_passes (webhook_relay hmac http) n v)))"
    if "distinct (map wd_id (t_webhook_deliveries (w_db v)))" "row \<in> set (t_webhook_deliveries (w_db v))" for n v
    using that
    by (induction n arbitrary: v) (simp_all add: exhausted_not_fetched [OF _ _ row(2)])
  with run dist row(1) show ?thesis
    by (intro exI [of _ row] exI [of _ w1]) (simp add: row_def)
qed

definition failed_delivery :: webhook_delivery where
  "failed_delivery = \<lparr>wd_id = ''x'', wd_subscription = ''s'', wd_event_type = ''request.approved'', wd_payload = [],
     wd_status = Wd_failed, wd_attempts = 5, wd_next_attempt_at = 0, wd_delivered_at = None,
     wd_last_error = Some ''HTTP 503'', wd_created_at = 0\<rparr>"

theorem retried_delivery_stuck_witness:
  "\<exists>row w1. retryDelivery ''x'' (base_world\<lparr>w_db := base_db\<lparr>t_webhook_deliveries := [failed_delivery]\<rparr>\<rparr>) = (Inr row, w1) \<and>
     wd_status row = Wd_pending \<and>
     (\<forall>n. row \<in> set (t_webhook_deliveries (w_db (relay_passes (webhook_relay (\<lambda>s b. []) (\<lambda>p t. Inr 200)) n w1))))"
  by (rule retried_delivery_stuck [of _ failed_delivery])
    (simp_all add: failed_delivery_def maxAttempts_def)

section \<open>Notifications of the engine\<close>

text \<open>C21: Whatever the engine, the SLA tick and the notification relay do, in any order and
  interleaved with every other service, no in-app notification is ever created: each producer
  schedules its row under an idempotency key that is not the text of a uuid, the relay uses that
  key as the source event of the notification, and the database refuses it for the uuid column.\<close>

theorem notifications_never_arrive:
  assumes "notify_reachable w"
  shows "t_in_app_notifications (w_db w) = [] \<and>
    (\<forall>r \<in> set (t_notification_outbox (w_db w)). \<exists>k. no_idempotency_key r = Some k \<and> \<not> uuid_text k)"
  using notify_reachable_stuck [OF assms]
  by (auto simp: stuck_def unsendable_def split: option.splits)

theorem notifications_never_arrive_witness:
  "t_in_app_notifications (w_db (snd (relay (notification_relay (\<lambda>p t. Inr ()))
     (snd (approve app_registry ''d'' None (user ''root'') w_submitted))))) = []"
proof (rule notifications_never_arrive [THEN conjunct1])
  have "notify_reachable base_world"
    by (rule nr_init) (simp_all add: base_world_def base_db_def empty_db_def)
  then have "notify_reachable w_submitted"
    unfolding w_submitted_def by (rule nr_step) (rule ns_submit)
  then show "notify_reachable (snd (relay (notification_relay (\<lambda>p t. Inr ()))
     (snd (approve app_registry ''d'' None (user ''root'') w_submitted))))"
    by (intro nr_step [OF nr_step [OF _ ns_approve] ns_relay])
qed

end
