(* ===== verification/Authz_Admin.thy ===== *)
theory Authz_Admin
  imports Engine_Domain "HOL-Library.List_Lexorder" "HOL-Library.Char_ord"
begin

text \<open>
  Role administration (\<^verbatim>\<open>libs/modules/authz\<close>): the role repository, the repository of scoped role
  assignments and the administration service with its privilege-escalation guard.  Roles and
  permissions are ordered by the bytes of their keys.
\<close>

section \<open>Roles\<close>

record role_view =
  rv_id :: uuid
  rv_key :: string
  rv_name :: string
  rv_system :: bool
  rv_updated_at :: timestamp
  rv_permissions :: "string list"

record role_input =
  rin_key :: string
  rin_name :: string
  rin_permissions :: "string list"

definition permsFor :: "uuid \<Rightarrow> db \<Rightarrow> string list" where
  "permsFor roleId d = map rp_permission (select_where (\<lambda>p. rp_role p = roleId) (t_role_permissions d))"

definition role_toDomain :: "role_row \<Rightarrow> string list \<Rightarrow> role_view" where
  "role_toDomain row perms = \<lparr>rv_id = ro_id row, rv_key = ro_key row, rv_name = ro_name row,
     rv_system = ro_system row, rv_updated_at = ro_updated_at row, rv_permissions = perms\<rparr>"

definition role_list :: "role_view list svc" where
  "role_list = query (\<lambda>d. map (\<lambda>r. role_toDomain r (permsFor (ro_id r) d)) (sort_key ro_key (t_roles d)))"

definition role_find :: "(role_row \<Rightarrow> bool) \<Rightarrow> role_view option svc" where
  "role_find p = query (\<lambda>d. map_option (\<lambda>r. role_toDomain r (permsFor (ro_id r) d)) (find_where p (t_roles d)))"

definition role_findById :: "uuid \<Rightarrow> role_view option svc" where
  "role_findById roleId = role_find (\<lambda>r. ro_id r = roleId)"

definition role_findByKey :: "string \<Rightarrow> role_view option svc" where
  "role_findByKey key = role_find (\<lambda>r. ro_key r = key)"

text \<open>The primary key of \<^verbatim>\<open>role_permissions\<close> refuses a permission named twice.\<close>

definition insert_permissions :: "uuid \<Rightarrow> string list \<Rightarrow> unit svc" where
  "insert_permissions roleId keys =
     mbind (throw_if (\<not> distinct keys) (UniqueViolation ''role_permissions_pkey'')) (\<lambda>_.
     exec (t_role_permissions_update (\<lambda>t. t @ map (\<lambda>k. \<lparr>rp_role = roleId, rp_permission = k\<rparr>) keys)))"

definition role_create :: "role_input \<Rightarrow> role_view svc" where
  "role_create input = transaction (
     mbind newId (\<lambda>rowId. mbind now (\<lambda>t.
     let row = \<lparr>ro_id = rowId, ro_key = rin_key input, ro_name = rin_name input, ro_system = False, ro_updated_at = t\<rparr> in
     mbind (exec (t_roles_update (insert_row row))) (\<lambda>_.
     mbind (insert_permissions rowId (rin_permissions input)) (\<lambda>_.
     mret (role_toDomain row (rin_permissions input)))))))"

definition role_setPermissions :: "uuid \<Rightarrow> string list \<Rightarrow> unit svc" where
  "role_setPermissions roleId keys = transaction (
     mbind (exec (t_role_permissions_update (delete_where (\<lambda>p. rp_role p = roleId)))) (\<lambda>_.
     mbind (insert_permissions roleId keys) (\<lambda>_.
     mbind now (\<lambda>t.
     exec (t_roles_update (update_where (\<lambda>r. ro_id r = roleId) (\<lambda>r. r\<lparr>ro_updated_at := t\<rparr>)))))))"

text \<open>The foreign keys cascade: the role's permissions and assignments go with it.\<close>

definition role_delete :: "uuid \<Rightarrow> unit svc" where
  "role_delete roleId = exec (\<lambda>d.
     t_roles_update (delete_where (\<lambda>r. ro_id r = roleId))
      (t_role_permissions_update (delete_where (\<lambda>p. rp_role p = roleId))
        (t_role_assignments_update (delete_where (\<lambda>a. ura_role a = roleId)) d)))"

definition listPermissions :: "permission_row list svc" where
  "listPermissions = query (\<lambda>d. sort_key pm_key (t_permissions d))"

section \<open>Assignments\<close>

record assign_input =
  ain_user :: uuid
  ain_role :: uuid
  ain_scope_type :: scope_type
  ain_scope_id :: "string option"
  ain_granted_by :: uuid
  ain_expires_at :: "timestamp option"

definition listForUser :: "uuid \<Rightarrow> role_assignment list svc" where
  "listForUser userId = query (\<lambda>d.
     sort_key (\<lambda>a. - ura_created_at a) (select_where (\<lambda>a. ura_user a = userId) (t_role_assignments d)))"

definition assignment_findById :: "uuid \<Rightarrow> role_assignment option svc" where
  "assignment_findById assignmentId = query (\<lambda>d. find_where (\<lambda>a. ura_id a = assignmentId) (t_role_assignments d))"

definition equivalent_to :: "assign_input \<Rightarrow> role_assignment \<Rightarrow> bool" where
  "equivalent_to input a \<longleftrightarrow> ura_user a = ain_user input \<and> ura_role a = ain_role input \<and>
     ura_scope_type a = ain_scope_type input \<and> ura_scope_id a = ain_scope_id input"

definition findEquivalent :: "assign_input \<Rightarrow> role_assignment option svc" where
  "findEquivalent input = query (\<lambda>d. find_where (equivalent_to input) (t_role_assignments d))"

definition assignment_assign :: "assign_input \<Rightarrow> role_assignment svc" where
  "assignment_assign input =
     mbind (findEquivalent input) (\<lambda>existing.
     case existing of
       Some a \<Rightarrow> mret a
     | None \<Rightarrow>
         mbind newId (\<lambda>rowId. mbind now (\<lambda>t.
         let row = \<lparr>ura_id = rowId, ura_user = ain_user input, ura_role = ain_role input,
                    ura_scope_type = ain_scope_type input, ura_scope_id = ain_scope_id input,
                    ura_granted_by = ain_granted_by input, ura_expires_at = ain_expires_at input,
                    ura_created_at = t\<rparr> in
         mbind (exec (t_role_assignments_update (insert_row row))) (\<lambda>_. mret row))))"

definition assignment_revoke :: "uuid \<Rightarrow> unit svc" where
  "assignment_revoke assignmentId = exec (t_role_assignments_update (delete_where (\<lambda>a. ura_id a = assignmentId)))"

text \<open>The distinct keys of the roles the user holds now, sorted, written to \<^verbatim>\<open>employees.roles\<close>.\<close>

definition active_role_keys :: "uuid \<Rightarrow> timestamp \<Rightarrow> db \<Rightarrow> string list" where
  "active_role_keys userId t d = sort (remdups (concat (map
     (\<lambda>a. map ro_key (filter (\<lambda>r. ro_id r = ura_role a) (t_roles d)))
     (filter (\<lambda>a. ura_user a = userId \<and> not_expired t a) (t_role_assignments d)))))"

definition syncEmployeeRoleClaims :: "uuid \<Rightarrow> string list svc" where
  "syncEmployeeRoleClaims userId =
     mbind now (\<lambda>t.
     mbind (query (active_role_keys userId t)) (\<lambda>keys.
     mbind (exec (t_employees_update (update_where (\<lambda>e. emp_id e = userId)
              (\<lambda>e. e\<lparr>emp_roles := keys, emp_updated_at := t\<rparr>)))) (\<lambda>_.
     mret keys)))"

section \<open>The administration service\<close>

definition jtexts :: "string list \<Rightarrow> json" where
  "jtexts xs = JArr (map JStr xs)"

definition authz_audit :: "actor \<Rightarrow> string \<Rightarrow> string \<Rightarrow> uuid \<Rightarrow> jobject \<Rightarrow> jobject \<Rightarrow> unit svc" where
  "authz_audit actor action resourceType resourceId changes metadata =
     audit_record (Some (ac_sub actor)) (Some (ac_email actor)) action resourceType (Some resourceId) changes metadata"

definition getRole :: "uuid \<Rightarrow> role_view svc" where
  "getRole roleId = mbind (role_findById roleId) (\<lambda>r. or_throw r (NotFoundException ROLE_NOT_FOUND))"

definition assertPermissionsExist :: "string list \<Rightarrow> unit svc" where
  "assertPermissionsExist keys =
     (if keys = [] then mret ()
      else mbind listPermissions (\<lambda>catalog.
           let unknown = filter (\<lambda>k. k \<notin> set (map pm_key catalog)) keys in
           throw_if (unknown \<noteq> []) (ValidationException PERMISSION_NOT_FOUND)))"

definition createRole :: "role_input \<Rightarrow> actor \<Rightarrow> role_view svc" where
  "createRole input actor =
     mbind (role_findByKey (rin_key input)) (\<lambda>taken.
     mbind (throw_if (taken \<noteq> None) (ConflictException ROLE_KEY_TAKEN)) (\<lambda>_.
     mbind (assertPermissionsExist (rin_permissions input)) (\<lambda>_.
     mbind (role_create input) (\<lambda>role.
     mbind (authz_audit actor ''authz.role.created'' ''role'' (rv_id role) []
              [(''key'', JStr (rv_key role)), (''permissions'', jtexts (rv_permissions role))]) (\<lambda>_.
     mret role)))))"

definition setRolePermissions :: "uuid \<Rightarrow> string list \<Rightarrow> actor \<Rightarrow> role_view svc" where
  "setRolePermissions roleId permissionKeys actor =
     mbind (getRole roleId) (\<lambda>role.
     mbind (assertPermissionsExist permissionKeys) (\<lambda>_.
     mbind (role_setPermissions roleId permissionKeys) (\<lambda>_.
     mbind (authz_audit actor ''authz.role.permissions_updated'' ''role'' roleId
              [(''before'', jtexts (rv_permissions role)), (''after'', jtexts permissionKeys)] []) (\<lambda>_.
     getRole roleId))))"

definition deleteRole :: "uuid \<Rightarrow> actor \<Rightarrow> unit svc" where
  "deleteRole roleId actor =
     mbind (getRole roleId) (\<lambda>role.
     mbind (throw_if (rv_system role) (ValidationException ROLE_IMMUTABLE)) (\<lambda>_.
     mbind (role_delete roleId) (\<lambda>_.
     authz_audit actor ''authz.role.deleted'' ''role'' roleId [] [(''key'', JStr (rv_key role))])))"

text \<open>\<^verbatim>\<open>missing.join(', ')\<close>\<close>

fun join_comma :: "string list \<Rightarrow> string" where
  "join_comma [] = []"
| "join_comma [x] = x"
| "join_comma (x # y # xs) = x @ '', '' @ join_comma (y # xs)"

definition assertCanGrantRole :: "actor \<Rightarrow> role_view \<Rightarrow> unit svc" where
  "assertCanGrantRole actor role =
     mbind (resolve (ac_sub actor)) (\<lambda>effective.
     let actorPerms = map fst effective in
     if WILDCARD_PERMISSION \<in> set actorPerms then mret ()
     else let missing = filter (\<lambda>p. p \<notin> set actorPerms) (rv_permissions role) in
          throw_if (missing \<noteq> []) (PermissionDeniedException
            (''Cannot grant role '' @ [CHR 0x27] @ rv_key role @ [CHR 0x27] @ '': it includes permissions you do not hold ('' @
             join_comma missing @ '').'')))"

record assign_command =
  acm_user :: uuid
  acm_role :: uuid
  acm_scope_type :: "scope_type option"
  acm_scope_id :: "string option"
  acm_expires_at :: "timestamp option"

definition unscoped :: "scope_type \<Rightarrow> bool" where
  "unscoped s \<longleftrightarrow> s = Scope_global \<or> s = Scope_self"

definition assignRole :: "assign_command \<Rightarrow> actor \<Rightarrow> role_assignment svc" where
  "assignRole command actor =
     mbind (role_findById (acm_role command)) (\<lambda>r.
     mbind (or_throw r (NotFoundException ROLE_NOT_FOUND)) (\<lambda>role.
     mbind (assertCanGrantRole actor role) (\<lambda>_.
     let scopeType = (case acm_scope_type command of None \<Rightarrow> Scope_global | Some s \<Rightarrow> s);
         scopeId = (if unscoped scopeType then None else acm_scope_id command) in
     mbind (throw_if (\<not> unscoped scopeType \<and> (scopeId = None \<or> scopeId = Some [])) (ValidationException VALIDATION_FAILED)) (\<lambda>_.
     mbind (assignment_assign \<lparr>ain_user = acm_user command, ain_role = acm_role command,
              ain_scope_type = scopeType, ain_scope_id = scopeId, ain_granted_by = ac_sub actor,
              ain_expires_at = acm_expires_at command\<rparr>) (\<lambda>assignment.
     mbind (syncEmployeeRoleClaims (acm_user command)) (\<lambda>_.
     mbind (invalidate (acm_user command)) (\<lambda>_.
     mbind (authz_audit actor ''authz.role.assigned'' ''role_assignment'' (ura_id assignment) []
              [(''userId'', JStr (acm_user command)), (''roleKey'', JStr (rv_key role)),
               (''scopeType'', JStr (scope_type_name scopeType)), (''scopeId'', jstr_or_null scopeId),
               (''expiresAt'', case ura_expires_at assignment of None \<Rightarrow> JNull | Some e \<Rightarrow> JDate e)]) (\<lambda>_.
     mret assignment))))))))"

definition global_input :: "uuid \<Rightarrow> actor \<Rightarrow> uuid \<Rightarrow> assign_input" where
  "global_input userId actor roleId = \<lparr>ain_user = userId, ain_role = roleId, ain_scope_type = Scope_global,
     ain_scope_id = None, ain_granted_by = ac_sub actor, ain_expires_at = None\<rparr>"

text \<open>The roles named by known keys, each once, in the order of the keys.\<close>

definition desired_roles :: "role_view list \<Rightarrow> string list \<Rightarrow> uuid list" where
  "desired_roles allRoles roleKeys = rev (remdups (rev (List.map_filter
     (map_of (rev (map (\<lambda>r. (rv_key r, rv_id r)) allRoles))) roleKeys)))"

definition syncUserRolesByKeys :: "uuid \<Rightarrow> string list \<Rightarrow> actor \<Rightarrow> string list svc" where
  "syncUserRolesByKeys userId roleKeys actor =
     mbind role_list (\<lambda>allRoles.
     let desired = desired_roles allRoles roleKeys in
     mbind (listForUser userId) (\<lambda>current.
     let currentGlobal = filter (\<lambda>a. ura_scope_type a = Scope_global) current;
         currentRoleIds = map ura_role currentGlobal in
     mbind (mfor (filter (\<lambda>r. r \<notin> set currentRoleIds) desired)
              (\<lambda>r. mbind (assignment_assign (global_input userId actor r)) (\<lambda>_. mret ()))) (\<lambda>_.
     mbind (mfor (filter (\<lambda>a. ura_role a \<notin> set desired) currentGlobal) (\<lambda>a. assignment_revoke (ura_id a))) (\<lambda>_.
     mbind (syncEmployeeRoleClaims userId) (\<lambda>finalKeys.
     mbind (invalidate userId) (\<lambda>_.
     let granted = List.map_filter (map_of (rev (map (\<lambda>r. (rv_id r, rv_key r)) allRoles))) desired in
     mbind (authz_audit actor ''authz.role.synced'' ''employee'' userId []
              [(''requestedKeys'', jtexts roleKeys), (''appliedRoles'', jtexts granted),
               (''effectiveClaims'', jtexts finalKeys)]) (\<lambda>_.
     mret finalKeys)))))))"

definition revokeAssignment :: "uuid \<Rightarrow> actor \<Rightarrow> unit svc" where
  "revokeAssignment assignmentId actor =
     mbind (assignment_findById assignmentId) (\<lambda>a.
     mbind (or_throw a (NotFoundException ROLE_ASSIGNMENT_NOT_FOUND)) (\<lambda>assignment.
     mbind (assignment_revoke assignmentId) (\<lambda>_.
     mbind (syncEmployeeRoleClaims (ura_user assignment)) (\<lambda>_.
     mbind (invalidate (ura_user assignment)) (\<lambda>_.
     authz_audit actor ''authz.role.revoked'' ''role_assignment'' assignmentId []
       [(''userId'', JStr (ura_user assignment)), (''roleId'', JStr (ura_role assignment))])))))"

end
