(* ===== verification/Authz_Admin_Claims.thy ===== *)
theory Authz_Admin_Claims
  imports Authz_Admin Scenario
begin

text \<open>
  Properties of role administration: what a successful grant needs and does, the expired grant
  that cannot be renewed, and the reconciliation with the roles of the identity provider.
\<close>

section \<open>Grants\<close>

lemma can_grant_sound:
  assumes "cache_sound w" and "\<not> w_perm_outage w" and "assertCanGrantRole actor role w = (Inr u, w')"
  shows "(\<exists>c. w' = w\<lparr>w_cache := c\<rparr>) \<and> (\<forall>p \<in> set (rv_permissions role). holds (w_db w) (w_now w) (ac_sub actor) p)"
proof -
  obtain c where c: "resolve (ac_sub actor) w =
      (Inr (group_rows (permission_rows (ac_sub actor) (w_now w) (w_db w))), w\<lparr>w_cache := c\<rparr>)"
    using resolve_sound [OF assms(1,2)] by blast
  let ?keys = "fst ` set (permission_rows (ac_sub actor) (w_now w) (w_db w))"
  have "w' = w\<lparr>w_cache := c\<rparr> \<and> (WILDCARD_PERMISSION \<in> ?keys \<or> (\<forall>p \<in> set (rv_permissions role). p \<in> ?keys))"
    using assms(3) keys_group_rows [of "permission_rows (ac_sub actor) (w_now w) (w_db w)"]
    by (auto simp: assertCanGrantRole_def mbind_eq [where m = "resolve (ac_sub actor)", OF c] Let_def filter_empty_conv
        split: if_splits)
  moreover have "holds (w_db w) (w_now w) (ac_sub actor) p" if "p \<in> ?keys \<or> WILDCARD_PERMISSION \<in> ?keys" for p
    using that by (force simp: set_permission_rows holds_def)
  ultimately show ?thesis by blast
qed

lemma assign_cases:
  "assignment_assign input w = (Inr a, w') \<longleftrightarrow>
     (case find_where (equivalent_to input) (t_role_assignments (w_db w)) of
        Some b \<Rightarrow> a = b \<and> w' = w
      | None \<Rightarrow> a = \<lparr>ura_id = w_uuid w (w_next w), ura_user = ain_user input, ura_role = ain_role input,
             ura_scope_type = ain_scope_type input, ura_scope_id = ain_scope_id input,
             ura_granted_by = ain_granted_by input, ura_expires_at = ain_expires_at input, ura_created_at = w_now w\<rparr> \<and>
          w' = w\<lparr>w_next := Suc (w_next w), w_db := t_role_assignments_update (insert_row a) (w_db w)\<rparr>)"
  by (auto simp: assignment_assign_def findEquivalent_def Let_def split: option.splits)

lemma sync_claims_apply:
  "syncEmployeeRoleClaims u w = (Inr (active_role_keys u (w_now w) (w_db w)), w\<lparr>w_db := t_employees_update
     (update_where (\<lambda>e. emp_id e = u) (\<lambda>e. e\<lparr>emp_roles := active_role_keys u (w_now w) (w_db w), emp_updated_at := w_now w\<rparr>)) (w_db w)\<rparr>)"
  by (simp add: syncEmployeeRoleClaims_def)

text \<open>The part of a grant after the checks: the row, the claims, the cache and the audit entry.\<close>

definition grant_rest :: "actor \<Rightarrow> assign_input \<Rightarrow> (role_assignment \<Rightarrow> jobject) \<Rightarrow> role_assignment svc" where
  "grant_rest actor input meta = mbind (assignment_assign input) (\<lambda>a.
     mbind (syncEmployeeRoleClaims (ain_user input)) (\<lambda>_.
     mbind (invalidate (ain_user input)) (\<lambda>_.
     mbind (authz_audit actor ''authz.role.assigned'' ''role_assignment'' (ura_id a) [] (meta a)) (\<lambda>_. mret a))))"

lemma active_role_keys_frame:
  "active_role_keys u t (t_audit_logs_update f d) = active_role_keys u t d"
  "active_role_keys u t (t_employees_update g d) = active_role_keys u t d"
  by (simp_all add: active_role_keys_def)

lemma grant_rest_effect:
  assumes "grant_rest actor input meta w = (Inr a, w')"
  obtains w1 where "assignment_assign input w = (Inr a, w1)"
    and "t_role_assignments (w_db w') = t_role_assignments (w_db w1)" and "t_role_permissions (w_db w') = t_role_permissions (w_db w)"
    and "t_roles (w_db w') = t_roles (w_db w)" and "cold (ain_user input) w'" and "w_now w' = w_now w"
    and "t_employees (w_db w') = update_where (\<lambda>e. emp_id e = ain_user input)
      (\<lambda>e. e\<lparr>emp_roles := active_role_keys (ain_user input) (w_now w) (w_db w'), emp_updated_at := w_now w\<rparr>) (t_employees (w_db w))"
proof -
  obtain b w1 where b: "assignment_assign input w = (Inr b, w1)"
    using assms unfolding grant_rest_def by (rule mbind_InrE)
  have w1: "w_now w1 = w_now w" "t_role_permissions (w_db w1) = t_role_permissions (w_db w)" "t_roles (w_db w1) = t_roles (w_db w)"
    "t_employees (w_db w1) = t_employees (w_db w)"
    using b by (auto simp: assign_cases split: option.splits)
  have eq: "grant_rest actor input meta w = mbind (invalidate (ain_user input)) (\<lambda>_.
     mbind (authz_audit actor ''authz.role.assigned'' ''role_assignment'' (ura_id b) [] (meta b)) (\<lambda>_. mret b))
     (snd (syncEmployeeRoleClaims (ain_user input) w1))"
    by (simp add: grant_rest_def mbind_eq [where m = "assignment_assign input", OF b]
        mbind_eq [where m = "syncEmployeeRoleClaims (ain_user input)", OF sync_claims_apply] sync_claims_apply)
  have "a = b" "w_cache w' = w_cache (snd (invalidate (ain_user input) w1))" "w_now w' = w_now w1"
    "t_role_assignments (w_db w') = t_role_assignments (w_db w1)" "t_role_permissions (w_db w') = t_role_permissions (w_db w1)"
    "t_roles (w_db w') = t_roles (w_db w1)" "t_employees (w_db w') = t_employees (w_db (snd (syncEmployeeRoleClaims (ain_user input) w1)))"
    using assms unfolding eq
    by (auto simp: invalidate_def authz_audit_def audit_record_def sync_claims_apply split: if_splits)
  then show thesis
    using invalidate_cold [of "ain_user input" w1] b w1
    by (intro that [of w1]) (simp_all add: cold_def cache_get_perms_def sync_claims_apply active_role_keys_def invalidate_def
        split: if_splits)
qed

definition command_scope :: "assign_command \<Rightarrow> scope_type" where
  "command_scope command = (case acm_scope_type command of None \<Rightarrow> Scope_global | Some s \<Rightarrow> s)"

definition command_input :: "assign_command \<Rightarrow> actor \<Rightarrow> assign_input" where
  "command_input command actor = \<lparr>ain_user = acm_user command, ain_role = acm_role command,
     ain_scope_type = command_scope command,
     ain_scope_id = (if unscoped (command_scope command) then None else acm_scope_id command),
     ain_granted_by = ac_sub actor, ain_expires_at = acm_expires_at command\<rparr>"

lemma assignRole_success:
  assumes "assignRole command actor w = (Inr a, w')"
  obtains r w0 meta where "find_where (\<lambda>r. ro_id r = acm_role command) (t_roles (w_db w)) = Some r"
    and "assertCanGrantRole actor (role_toDomain r (permsFor (acm_role command) (w_db w))) w = (Inr (), w0)"
    and "grant_rest actor (command_input command actor) meta w0 = (Inr a, w')"
proof -
  obtain r where r: "find_where (\<lambda>r. ro_id r = acm_role command) (t_roles (w_db w)) = Some r"
  proof (cases "find_where (\<lambda>r. ro_id r = acm_role command) (t_roles (w_db w))")
    case None
    with assms show thesis by (simp add: assignRole_def role_findById_def role_find_def)
  qed
  have rid: "ro_id r = acm_role command" using find_where_SomeD [OF r] by simp
  have "assignRole command actor w = mbind (assertCanGrantRole actor (role_toDomain r (permsFor (acm_role command) (w_db w)))) (\<lambda>_.
      let scopeId = ain_scope_id (command_input command actor) in
      mbind (throw_if (\<not> unscoped (command_scope command) \<and> (scopeId = None \<or> scopeId = Some [])) (ValidationException VALIDATION_FAILED)) (\<lambda>_.
      grant_rest actor (command_input command actor) (\<lambda>assignment.
              [(''userId'', JStr (acm_user command)), (''roleKey'', JStr (ro_key r)),
               (''scopeType'', JStr (scope_type_name (command_scope command))), (''scopeId'', jstr_or_null scopeId),
               (''expiresAt'', case ura_expires_at assignment of None \<Rightarrow> JNull | Some e \<Rightarrow> JDate e)]))) w"
    unfolding assignRole_def role_findById_def role_find_def mbind_query r option.map mbind_or_throw option.case
    by (simp only: role_toDomain_def role_view.simps Let_def grant_rest_def command_input_def command_scope_def
        assign_input.simps rid)
  with assms show thesis
    by (auto elim!: mbind_InrE simp: Let_def split: if_splits intro: that [OF r])
qed

text \<open>An expired assignment of the same role and scope is found as the equivalent one: the command
  succeeds, returns the expired row and gives nothing.\<close>

lemma expired_grant_not_renewed:
  assumes "assignRole command actor w = (Inr a, w')"
    and "find_where (equivalent_to (command_input command actor)) (t_role_assignments (w_db w)) = Some b"
    and "cache_sound w" and "\<not> w_perm_outage w"
  shows "a = b \<and> t_role_assignments (w_db w') = t_role_assignments (w_db w)"
proof -
  obtain r w0 meta where g: "assertCanGrantRole actor (role_toDomain r (permsFor (acm_role command) (w_db w))) w = (Inr (), w0)"
    and rest: "grant_rest actor (command_input command actor) meta w0 = (Inr a, w')"
    using assms(1) by (rule assignRole_success)
  have "w_db w0 = w_db w"
    using can_grant_sound [OF assms(3,4) g] by auto
  moreover obtain w1 where "assignment_assign (command_input command actor) w0 = (Inr a, w1)"
    and "t_role_assignments (w_db w') = t_role_assignments (w_db w1)"
    using grant_rest_effect [OF rest] by auto
  ultimately show ?thesis
    using assms(2) by (simp add: assign_cases)
qed


lemmas run_admin = assignRole_def role_findById_def role_find_def role_toDomain_def permsFor_def assertCanGrantRole_def
  assignment_assign_def findEquivalent_def equivalent_to_def syncEmployeeRoleClaims_def active_role_keys_def unscoped_def
  authz_audit_def audit_record_def invalidate_def

text \<open>Mallory administers one team, and grants herself the role everywhere.\<close>

definition team_world :: world where
  "team_world = base_world\<lparr>w_db := base_db\<lparr>
     t_roles := [\<lparr>ro_id = ''admin'', ro_key = ''admin'', ro_name = ''Admin'', ro_system = True, ro_updated_at = 0\<rparr>],
     t_role_assignments := [\<lparr>ura_id = ''t'', ura_user = ''mallory'', ura_role = ''admin'', ura_scope_type = Scope_team,
       ura_scope_id = Some ''x'', ura_granted_by = ''root'', ura_expires_at = None, ura_created_at = 0\<rparr>]\<rparr>\<rparr>"

definition global_admin :: assign_command where
  "global_admin = \<lparr>acm_user = ''mallory'', acm_role = ''admin'', acm_scope_type = None, acm_scope_id = None, acm_expires_at = None\<rparr>"

lemma team_grant: "\<exists>a. fst (assignRole global_admin (user ''mallory'') team_world) = Inr a"
  by (simp add: run_db run_authz run_admin run_base team_world_def global_admin_def user_def
      del: mbind_assoc cong: mbind_weak_cong)


end
