(* ===== verification/Storage.thy ===== *)
theory Storage
  imports Sql_Text
begin

text \<open>
  The storage service (\<^verbatim>\<open>libs/platform/src/storage\<close>): presigned uploads to S3 with one
  \<^verbatim>\<open>stored_files\<close> row per file.  The S3 SDK and the configuration are the parameter \<open>s3\<close>; a
  requested deletion of an object is recorded in the world.
\<close>

section \<open>Rules\<close>

record resource_rule =
  allowedMimeTypes :: "string list"
  maxSizeBytes :: int

definition MB :: int where
  "MB = 1024 * 1024"

definition RESOURCE_RULES :: "(string \<times> resource_rule) list" where
  "RESOURCE_RULES = [
     (''employee-avatar'', \<lparr>allowedMimeTypes = [''image/jpeg'', ''image/png'', ''image/webp''], maxSizeBytes = 5 * MB\<rparr>),
     (''asset-photo'', \<lparr>allowedMimeTypes = [''image/jpeg'', ''image/png'', ''image/webp''], maxSizeBytes = 10 * MB\<rparr>),
     (''leave-document'', \<lparr>allowedMimeTypes = [''application/pdf'', ''image/jpeg'', ''image/png''], maxSizeBytes = 10 * MB\<rparr>),
     (''access-request-document'', \<lparr>allowedMimeTypes = [''application/pdf'',
        ''application/vnd.openxmlformats-officedocument.wordprocessingml.document''], maxSizeBytes = 10 * MB\<rparr>),
     (''compliance-report'', \<lparr>allowedMimeTypes = [''application/pdf'', ''text/csv'',
        ''application/vnd.openxmlformats-officedocument.spreadsheetml.sheet''], maxSizeBytes = 50 * MB\<rparr>)]"

definition UPLOAD_URL_TTL_SECONDS :: int where
  "UPLOAD_URL_TTL_SECONDS = 300"

definition DOWNLOAD_URL_TTL_SECONDS :: int where
  "DOWNLOAD_URL_TTL_SECONDS = 900"

definition ORPHAN_CUTOFF_HOURS :: int where
  "ORPHAN_CUTOFF_HOURS = 24"

record presign_input =
  pin_file_name :: string
  pin_mime_type :: string
  pin_size_bytes :: int
  pin_resource_type :: string
  pin_linked_type :: "string option"
  pin_linked_id :: "uuid option"

record presign_result =
  pre_file :: uuid
  pre_url :: string
  pre_key :: string

section \<open>The outside\<close>

text \<open>
  The outcome of a call of the SDK under the resilience policy: the content length of a head
  request (absent when the header is), a signed URL, or an exception.
\<close>

record s3 =
  s3_cdn :: "string option"
  s3_bucket :: "string option"
  s3_head :: "string \<Rightarrow> timestamp \<Rightarrow> exn + int option"
  s3_sign_put :: "string \<Rightarrow> string \<Rightarrow> int \<Rightarrow> int \<Rightarrow> timestamp \<Rightarrow> exn + string"
  s3_sign_get :: "string \<Rightarrow> int \<Rightarrow> timestamp \<Rightarrow> exn + string"

definition bucket :: "s3 \<Rightarrow> string" where
  "bucket s3 = (case s3_bucket s3 of None \<Rightarrow> [] | Some b \<Rightarrow> b)"

text \<open>One trailing slash is dropped; an empty base counts as none.\<close>

definition cdnBaseUrl :: "s3 \<Rightarrow> string option" where
  "cdnBaseUrl s3 = (let s = (case s3_cdn s3 of None \<Rightarrow> [] | Some u \<Rightarrow> u);
                        base = (if s \<noteq> [] \<and> last s = CHR ''/'' then butlast s else s) in
                    if base = [] then None else Some base)"

definition deleteObject :: "string \<Rightarrow> unit svc" where
  "deleteObject key = mmodify (w_s3_deletes_update (\<lambda>ks. ks @ [key]))"

definition headObject :: "s3 \<Rightarrow> string \<Rightarrow> int option svc" where
  "headObject s3 key = mtry
     (mbind (outside_call (s3_head s3 key)) (\<lambda>len. mret (Some (case len of None \<Rightarrow> 0 | Some n \<Rightarrow> n))))
     (\<lambda>_. mret None)"

text \<open>
  \<^verbatim>\<open>resolveUrl\<close> is not asynchronous: with a bucket and without a CDN it returns the promise of
  a URL under a cast to string.
\<close>

datatype url_value = Url string | UrlPromise "timestamp \<Rightarrow> exn + string"

definition resolveUrl :: "s3 \<Rightarrow> string \<Rightarrow> url_value" where
  "resolveUrl s3 key = (case cdnBaseUrl s3 of
     Some base \<Rightarrow> Url (base @ ''/'' @ key)
   | None \<Rightarrow> if bucket s3 = [] then Url (''/dev/files/'' @ key)
             else UrlPromise (s3_sign_get s3 key DOWNLOAD_URL_TTL_SECONDS))"

text \<open>What an asynchronous caller that returns the value hands on.\<close>

definition awaited :: "url_value \<Rightarrow> string svc" where
  "awaited v = (case v of Url u \<Rightarrow> mret u | UrlPromise p \<Rightarrow> outside_call p)"

record confirm_result =
  cr_file :: uuid
  cr_key :: string
  cr_url :: url_value

section \<open>Operations\<close>

text \<open>The extension: a dot and the lower-cased text after the last dot, nothing without a dot.\<close>

definition file_ext :: "string \<Rightarrow> string" where
  "file_ext fileName =
     (if CHR ''.'' \<in> set fileName
      then CHR ''.'' # toLowerCase (rev (takeWhile (\<lambda>c. c \<noteq> CHR ''.'') (rev fileName))) else [])"

definition presignUpload :: "s3 \<Rightarrow> presign_input \<Rightarrow> uuid \<Rightarrow> presign_result svc" where
  "presignUpload s3 input uploaderId =
     mbind (or_throw (map_of RESOURCE_RULES (pin_resource_type input)) (ValidationException FILE_TYPE_NOT_ALLOWED)) (\<lambda>rules.
     mbind (throw_if (pin_mime_type input \<notin> set (allowedMimeTypes rules)) (ValidationException FILE_TYPE_NOT_ALLOWED)) (\<lambda>_.
     mbind (throw_if (pin_size_bytes input > maxSizeBytes rules) (ValidationException FILE_TOO_LARGE)) (\<lambda>_.
     mbind newId (\<lambda>keyId.
     let key = pin_resource_type input @ ''/'' @ uploaderId @ ''/'' @ keyId @ file_ext (pin_file_name input) in
     mbind newId (\<lambda>fileId. mbind now (\<lambda>t.
     mbind (exec (t_stored_files_update (insert_row
       \<lparr>sf_id = fileId, sf_key = key, sf_original_name = pin_file_name input, sf_mime_type = pin_mime_type input,
        sf_size_bytes = pin_size_bytes input, sf_resource_type = pin_resource_type input, sf_status = Sf_pending,
        sf_uploader = uploaderId, sf_linked_type = pin_linked_type input, sf_linked_id = pin_linked_id input,
        sf_created_at = t, sf_confirmed_at = None\<rparr>))) (\<lambda>_.
     mbind (outside_call (s3_sign_put s3 key (pin_mime_type input) (pin_size_bytes input) UPLOAD_URL_TTL_SECONDS)) (\<lambda>uploadUrl.
     mret \<lparr>pre_file = fileId, pre_url = uploadUrl, pre_key = key\<rparr>))))))))"

definition own_file :: "uuid \<Rightarrow> uuid \<Rightarrow> stored_file \<Rightarrow> bool" where
  "own_file fileId uploaderId f \<longleftrightarrow> sf_id f = fileId \<and> sf_uploader f = uploaderId"

definition mark_deleted :: "stored_file \<Rightarrow> stored_file" where
  "mark_deleted f = f\<lparr>sf_status := Sf_deleted\<rparr>"

definition confirmUpload :: "s3 \<Rightarrow> uuid \<Rightarrow> uuid \<Rightarrow> confirm_result svc" where
  "confirmUpload s3 fileId uploaderId =
     mbind (query (\<lambda>d. find_where (own_file fileId uploaderId) (t_stored_files d))) (\<lambda>found.
     mbind (or_throw found (NotFoundException FILE_NOT_FOUND)) (\<lambda>file.
     if sf_status file = Sf_completed
     then mret \<lparr>cr_file = sf_id file, cr_key = sf_key file, cr_url = resolveUrl s3 (sf_key file)\<rparr>
     else mbind (throw_if (sf_status file = Sf_deleted) (ValidationException FILE_NOT_FOUND)) (\<lambda>_.
          mbind (headObject s3 (sf_key file)) (\<lambda>head.
          mbind (or_throw head (ValidationException FILE_NOT_UPLOADED)) (\<lambda>contentLength.
          if contentLength \<noteq> sf_size_bytes file
          then mbind (exec (t_stored_files_update (update_where (\<lambda>f. sf_id f = fileId) mark_deleted))) (\<lambda>_.
               mthrow (ValidationException FILE_SIZE_MISMATCH))
          else mbind now (\<lambda>t.
               mbind (exec (t_stored_files_update (update_where (\<lambda>f. sf_id f = fileId)
                 (\<lambda>f. f\<lparr>sf_status := Sf_completed, sf_confirmed_at := Some t\<rparr>)))) (\<lambda>_.
               mret \<lparr>cr_file = sf_id file, cr_key = sf_key file, cr_url = resolveUrl s3 (sf_key file)\<rparr>)))))))"

definition getDownloadUrl :: "s3 \<Rightarrow> uuid \<Rightarrow> string svc" where
  "getDownloadUrl s3 fileId =
     mbind (query (\<lambda>d. find_where (\<lambda>f. sf_id f = fileId \<and> sf_status f = Sf_completed) (t_stored_files d))) (\<lambda>found.
     mbind (or_throw found (NotFoundException FILE_NOT_FOUND)) (\<lambda>file.
     awaited (resolveUrl s3 (sf_key file))))"

definition deleteFile :: "uuid \<Rightarrow> uuid \<Rightarrow> unit svc" where
  "deleteFile fileId uploaderId =
     mbind (query (\<lambda>d. find_where (own_file fileId uploaderId) (t_stored_files d))) (\<lambda>found.
     mbind (or_throw found (NotFoundException FILE_NOT_FOUND)) (\<lambda>file.
     mbind (exec (t_stored_files_update (update_where (\<lambda>f. sf_id f = fileId) mark_deleted))) (\<lambda>_.
     deleteObject (sf_key file))))"

definition orphaned :: "timestamp \<Rightarrow> stored_file \<Rightarrow> bool" where
  "orphaned cutoff f \<longleftrightarrow> sf_status f = Sf_pending \<and> sf_created_at f < cutoff"

definition purgeOrphanedUploads :: "nat svc" where
  "purgeOrphanedUploads =
     mbind now (\<lambda>t.
     let cutoff = t - ORPHAN_CUTOFF_HOURS * 3600000 in
     mbind (query (\<lambda>d. select_where (orphaned cutoff) (t_stored_files d))) (\<lambda>rows.
     if rows = [] then mret 0
     else mbind (mfor rows (\<lambda>r. deleteObject (sf_key r))) (\<lambda>_.
          mbind (exec (t_stored_files_update (update_where (orphaned cutoff) mark_deleted))) (\<lambda>_.
          mret (length rows)))))"

definition presignGet :: "s3 \<Rightarrow> string \<Rightarrow> string svc" where
  "presignGet s3 key = awaited (resolveUrl s3 key)"

definition storage_findById :: "string \<Rightarrow> stored_file option svc" where
  "storage_findById fileId =
     mbind (uuid_param fileId) (\<lambda>_. query (\<lambda>d. find_where (\<lambda>f. sf_id f = fileId) (t_stored_files d)))"

text \<open>The hourly sweep.\<close>

definition storage_cleanup_tick :: "unit svc" where
  "storage_cleanup_tick = mbind purgeOrphanedUploads (\<lambda>_. mret ())"

text \<open>
  \<^verbatim>\<open>if (key)\<close>: null and the empty text count as no key.  The three domain services replace a stored key alike: the old file is looked up under its
  storage key and deleted in the background, whose failure nobody sees.
\<close>

definition no_key :: "string option \<Rightarrow> bool" where
  "no_key key \<longleftrightarrow> key = None \<or> key = Some []"

definition drop_file :: "string option \<Rightarrow> unit svc" where
  "drop_file key =
     (if no_key key then mret ()
      else mbind (storage_findById (the key)) (\<lambda>old.
           case old of None \<Rightarrow> mret ()
           | Some f \<Rightarrow> mtry (deleteFile (sf_id f) (sf_uploader f)) (\<lambda>_. mret ())))"

end
