(* ===== verification/Employees.thy ===== *)
theory Employees
  imports Storage Messaging
begin

text \<open>
  The employee directory (\<^verbatim>\<open>libs/modules/identity\<close>): the employee repository, the repository of
  refresh tokens and the employee service with status changes and avatars.
\<close>

section \<open>Repositories\<close>

record employee_input =
  ei_email :: string
  ei_display_name :: string
  ei_department :: "string option"
  ei_job_title :: "string option"
  ei_manager :: "uuid option"
  ei_roles :: "string list"
  ei_entra_oid :: "string option"

text \<open>An absent property is \<open>None\<close>, a property set to null is \<open>Some None\<close>.\<close>

record employee_patch =
  ep_display_name :: "string option"
  ep_department :: "string option option"
  ep_job_title :: "string option option"
  ep_manager :: "uuid option option"

record employee_filters =
  ef_status :: "employee_status option"
  ef_department :: "string option"
  ef_search :: "string option"

definition findEmployeeById :: "uuid \<Rightarrow> employee option svc" where
  "findEmployeeById employeeId = query (\<lambda>d. find_where (\<lambda>e. emp_id e = employeeId) (t_employees d))"

definition findByEmail :: "string \<Rightarrow> employee option svc" where
  "findByEmail email = query (\<lambda>d. find_where (\<lambda>e. emp_email e = toLowerCase email) (t_employees d))"

definition findByEntraOid :: "string \<Rightarrow> employee option svc" where
  "findByEntraOid oid = query (\<lambda>d. find_where (\<lambda>e. emp_entra_oid e = Some oid) (t_employees d))"

text \<open>The unique indexes on the address and on the Entra identifier.\<close>

definition email_free :: "string \<Rightarrow> (employee \<Rightarrow> bool) \<Rightarrow> unit svc" where
  "email_free email others =
     mbind (query (\<lambda>d. find_where (\<lambda>e. others e \<and> emp_email e = email) (t_employees d))) (\<lambda>taken.
     throw_if (taken \<noteq> None) (UniqueViolation ''uq_employee_email''))"

definition createEmployee_row :: "employee_input \<Rightarrow> employee svc" where
  "createEmployee_row input =
     mbind (email_free (ei_email input) (\<lambda>_. True)) (\<lambda>_.
     mbind (query (\<lambda>d. find_where (\<lambda>e. emp_entra_oid e = ei_entra_oid input) (t_employees d))) (\<lambda>dup.
     mbind (throw_if (ei_entra_oid input \<noteq> None \<and> dup \<noteq> None) (UniqueViolation ''uq_employee_entra_oid'')) (\<lambda>_.
     mbind newId (\<lambda>rowId. mbind now (\<lambda>t.
     let row = \<lparr>emp_id = rowId, emp_entra_oid = ei_entra_oid input, emp_email = ei_email input,
                emp_display_name = ei_display_name input, emp_department = ei_department input,
                emp_job_title = ei_job_title input, emp_manager = ei_manager input, emp_roles = ei_roles input,
                emp_status = Emp_active, emp_photo_key = None, emp_created_at = t, emp_updated_at = t\<rparr> in
     mbind (exec (t_employees_update (insert_row row))) (\<lambda>_. mret row))))))"

definition upsertByEntraOid :: "string \<Rightarrow> string \<Rightarrow> string \<Rightarrow> employee option svc" where
  "upsertByEntraOid oid email displayName =
     mbind (findByEntraOid oid) (\<lambda>existing.
     mbind now (\<lambda>t.
     case existing of
       Some _ \<Rightarrow>
         mbind (email_free (toLowerCase email) (\<lambda>e. emp_entra_oid e \<noteq> Some oid)) (\<lambda>_.
         mbind (exec (t_employees_update (update_where (\<lambda>e. emp_entra_oid e = Some oid)
                  (\<lambda>e. e\<lparr>emp_display_name := displayName, emp_email := toLowerCase email, emp_updated_at := t\<rparr>)))) (\<lambda>_.
         findByEntraOid oid))
     | None \<Rightarrow>
         mbind (findByEmail (toLowerCase email)) (\<lambda>byEmail.
         case byEmail of
           Some e0 \<Rightarrow>
             mbind (exec (t_employees_update (update_where (\<lambda>e. emp_id e = emp_id e0)
                      (\<lambda>e. e\<lparr>emp_entra_oid := Some oid, emp_display_name := displayName, emp_updated_at := t\<rparr>)))) (\<lambda>_.
             findEmployeeById (emp_id e0))
         | None \<Rightarrow>
             mbind (createEmployee_row \<lparr>ei_email = email, ei_display_name = displayName, ei_department = None,
                      ei_job_title = None, ei_manager = None, ei_roles = [], ei_entra_oid = Some oid\<rparr>) (\<lambda>e.
             mret (Some e)))))"

definition updateEmployee_row :: "uuid \<Rightarrow> employee_patch \<Rightarrow> employee option svc" where
  "updateEmployee_row employeeId input =
     mbind now (\<lambda>t.
     mbind (exec (t_employees_update (update_where (\<lambda>e. emp_id e = employeeId)
       (\<lambda>e. e\<lparr>emp_display_name := patched (ep_display_name input) (emp_display_name e),
              emp_department := patched (ep_department input) (emp_department e),
              emp_job_title := patched (ep_job_title input) (emp_job_title e),
              emp_manager := patched (ep_manager input) (emp_manager e), emp_updated_at := t\<rparr>)))) (\<lambda>_.
     findEmployeeById employeeId))"

definition updateStatus_row :: "uuid \<Rightarrow> employee_status \<Rightarrow> employee option svc" where
  "updateStatus_row employeeId status =
     mbind now (\<lambda>t.
     mbind (exec (t_employees_update (update_where (\<lambda>e. emp_id e = employeeId)
       (\<lambda>e. e\<lparr>emp_status := status, emp_updated_at := t\<rparr>)))) (\<lambda>_.
     findEmployeeById employeeId))"

definition employee_matches :: "employee_filters \<Rightarrow> employee \<Rightarrow> bool" where
  "employee_matches f e \<longleftrightarrow> opt_eq (ef_status f) (emp_status e) \<and>
     opt_text (ef_department f) (\<lambda>s. emp_department e = Some s) \<and>
     opt_text (ef_search f) (\<lambda>s. ilike_part s (emp_display_name e) \<or> ilike_part s (emp_email e))"

definition listEmployees :: "employee_filters \<Rightarrow> nat \<Rightarrow> nat \<Rightarrow> (employee list \<times> nat) svc" where
  "listEmployees f lim off = query (\<lambda>d. page_of (employee_matches f) emp_created_at lim off (t_employees d))"

definition updatePhoto :: "uuid \<Rightarrow> string option \<Rightarrow> unit svc" where
  "updatePhoto employeeId key =
     mbind now (\<lambda>t.
     exec (t_employees_update (update_where (\<lambda>e. emp_id e = employeeId)
       (\<lambda>e. e\<lparr>emp_photo_key := key, emp_updated_at := t\<rparr>))))"

definition revoked_token :: "refresh_token \<Rightarrow> refresh_token" where
  "revoked_token r = r\<lparr>rt_revoked := True\<rparr>"

definition token_create :: "uuid \<Rightarrow> uuid \<Rightarrow> string \<Rightarrow> uuid \<Rightarrow> timestamp \<Rightarrow> unit svc" where
  "token_create rowId employeeId tokenHash familyId expiresAt =
     mbind (query (\<lambda>d. find_where (\<lambda>r. rt_hash r = tokenHash) (t_refresh_tokens d))) (\<lambda>dup.
     mbind (throw_if (dup \<noteq> None) (UniqueViolation ''uq_refresh_token_hash'')) (\<lambda>_.
     mbind now (\<lambda>t.
     exec (t_refresh_tokens_update (insert_row
       \<lparr>rt_id = rowId, rt_employee = employeeId, rt_hash = tokenHash, rt_family = familyId, rt_revoked = False,
        rt_expires_at = expiresAt, rt_created_at = t\<rparr>)))))"

definition findByHash :: "string \<Rightarrow> refresh_token option svc" where
  "findByHash h = query (\<lambda>d. find_where (\<lambda>r. rt_hash r = h) (t_refresh_tokens d))"

definition revokeById :: "uuid \<Rightarrow> unit svc" where
  "revokeById rowId = exec (t_refresh_tokens_update (update_where (\<lambda>r. rt_id r = rowId) revoked_token))"

definition revokeFamily :: "uuid \<Rightarrow> unit svc" where
  "revokeFamily familyId = exec (t_refresh_tokens_update (update_where (\<lambda>r. rt_family r = familyId) revoked_token))"

definition revokeAllForEmployee :: "uuid \<Rightarrow> unit svc" where
  "revokeAllForEmployee employeeId =
     exec (t_refresh_tokens_update (update_where (\<lambda>r. rt_employee r = employeeId) revoked_token))"

definition tokens_deleteExpiredBefore :: "timestamp \<Rightarrow> unit svc" where
  "tokens_deleteExpiredBefore date =
     exec (t_refresh_tokens_update (delete_where (\<lambda>r. rt_expires_at r < date \<and> rt_revoked r)))"

section \<open>The employee service\<close>

definition SEC_PER_DAY :: int where
  "SEC_PER_DAY = 86400"

fun employee_status_name :: "employee_status \<Rightarrow> string" where
  "employee_status_name Emp_active = ''active''"
| "employee_status_name Emp_on_leave = ''on_leave''"
| "employee_status_name Emp_offboarded = ''offboarded''"

text \<open>The revocation keys in Redis: \<^verbatim>\<open>setex\<close> and \<^verbatim>\<open>del\<close>, nothing while the cache is disabled.\<close>

definition cache_revoke_employee :: "uuid \<Rightarrow> int \<Rightarrow> unit svc" where
  "cache_revoke_employee employeeId ttlSeconds =
     mbind now (\<lambda>t. mmodify (w_cache_update (\<lambda>c.
       if c_enabled c then c\<lparr>c_revoked_employee := (c_revoked_employee c)(employeeId \<mapsto> t + ttlSeconds * 1000)\<rparr> else c)))"

definition cache_clear_employee :: "uuid \<Rightarrow> unit svc" where
  "cache_clear_employee employeeId = mmodify (w_cache_update (\<lambda>c.
     if c_enabled c then c\<lparr>c_revoked_employee := (c_revoked_employee c)(employeeId := None)\<rparr> else c))"

definition identity_audit :: "actor \<Rightarrow> string \<Rightarrow> uuid \<Rightarrow> jobject \<Rightarrow> unit svc" where
  "identity_audit actor action employeeId changes =
     audit_record (Some (ac_sub actor)) (Some (ac_email actor)) action ''employee'' (Some employeeId) changes []"

definition createEmployee :: "employee_input \<Rightarrow> actor \<Rightarrow> employee svc" where
  "createEmployee input actor =
     mbind (findByEmail (toLowerCase (ei_email input))) (\<lambda>existing.
     mbind (throw_if (existing \<noteq> None) (ConflictException CONFLICT)) (\<lambda>_.
     mbind (createEmployee_row (input\<lparr>ei_email := toLowerCase (ei_email input)\<rparr>)) (\<lambda>employee.
     mbind (identity_audit actor ''employee.created'' (emp_id employee)
       [(''email'', JStr (emp_email employee)), (''displayName'', JStr (emp_display_name employee)),
        (''roles'', JArr (map JStr (emp_roles employee)))]) (\<lambda>_.
     mret employee))))"

definition getEmployee :: "uuid \<Rightarrow> employee svc" where
  "getEmployee employeeId =
     mbind (findEmployeeById employeeId) (\<lambda>e. or_throw e (NotFoundException EMPLOYEE_NOT_FOUND))"

definition patch_json :: "employee_patch \<Rightarrow> jobject" where
  "patch_json p = concat [
     (case ep_display_name p of None \<Rightarrow> [] | Some v \<Rightarrow> [(''displayName'', JStr v)]),
     (case ep_department p of None \<Rightarrow> [] | Some v \<Rightarrow> [(''department'', jstr_or_null v)]),
     (case ep_job_title p of None \<Rightarrow> [] | Some v \<Rightarrow> [(''jobTitle'', jstr_or_null v)]),
     (case ep_manager p of None \<Rightarrow> [] | Some v \<Rightarrow> [(''managerId'', jstr_or_null v)])]"

definition updateEmployee :: "uuid \<Rightarrow> employee_patch \<Rightarrow> actor \<Rightarrow> employee option svc" where
  "updateEmployee employeeId input actor =
     mbind (getEmployee employeeId) (\<lambda>_.
     mbind (updateEmployee_row employeeId input) (\<lambda>updated.
     mbind (identity_audit actor ''employee.updated'' employeeId (patch_json input)) (\<lambda>_.
     mret updated)))"

definition updateStatus :: "uuid \<Rightarrow> employee_status \<Rightarrow> actor \<Rightarrow> employee option svc" where
  "updateStatus employeeId status actor =
     mbind (getEmployee employeeId) (\<lambda>employee.
     if emp_status employee = status then mret (Some employee)
     else
       mbind (updateStatus_row employeeId status) (\<lambda>updated.
       mbind (if status = Emp_offboarded
              then mbind (revokeAllForEmployee employeeId) (\<lambda>_. cache_revoke_employee employeeId SEC_PER_DAY)
              else if status = Emp_active then cache_clear_employee employeeId
              else mret ()) (\<lambda>_.
       mbind (identity_audit actor ''employee.status_changed'' employeeId
         [(''from'', JStr (employee_status_name (emp_status employee))), (''to'', JStr (employee_status_name status))]) (\<lambda>_.
       mret updated))))"

definition presignAvatar :: "s3 \<Rightarrow> uuid \<Rightarrow> string \<Rightarrow> string \<Rightarrow> int \<Rightarrow> actor \<Rightarrow> presign_result svc" where
  "presignAvatar s3 employeeId fileName mimeType sizeBytes actor =
     mbind (getEmployee employeeId) (\<lambda>_.
     presignUpload s3 \<lparr>pin_file_name = fileName, pin_mime_type = mimeType, pin_size_bytes = sizeBytes,
       pin_resource_type = ''employee-avatar'', pin_linked_type = Some ''employee'', pin_linked_id = Some employeeId\<rparr>
       (ac_sub actor))"

definition confirmAvatar :: "s3 \<Rightarrow> uuid \<Rightarrow> uuid \<Rightarrow> actor \<Rightarrow> url_value svc" where
  "confirmAvatar s3 employeeId fileId actor =
     mbind (getEmployee employeeId) (\<lambda>employee.
     mbind (confirmUpload s3 fileId (ac_sub actor)) (\<lambda>result.
     mbind (drop_file (emp_photo_key employee)) (\<lambda>_.
     mbind (updatePhoto employeeId (Some (cr_key result))) (\<lambda>_.
     mbind (identity_audit actor ''employee.avatar_updated'' employeeId []) (\<lambda>_.
     mret (cr_url result))))))"

definition getAvatarUrl :: "s3 \<Rightarrow> uuid \<Rightarrow> string option svc" where
  "getAvatarUrl s3 employeeId =
     mbind (getEmployee employeeId) (\<lambda>employee.
     if no_key (emp_photo_key employee) then mret None
     else mbind (presignGet s3 (the (emp_photo_key employee))) (\<lambda>url. mret (Some url)))"

definition deleteAvatar :: "uuid \<Rightarrow> actor \<Rightarrow> unit svc" where
  "deleteAvatar employeeId actor =
     mbind (getEmployee employeeId) (\<lambda>employee.
     if no_key (emp_photo_key employee) then mret ()
     else mbind (drop_file (emp_photo_key employee)) (\<lambda>_.
          mbind (updatePhoto employeeId None) (\<lambda>_.
          identity_audit actor ''employee.avatar_deleted'' employeeId [])))"

end
