(* ===== verification/Assets.thy ===== *)
theory Assets
  imports Employees
begin

text \<open>
  Assets (\<^verbatim>\<open>libs/modules/assets\<close>): the repository of assets and their assignments, and the asset
  service with custody changes, retirement and photos.
\<close>

section \<open>Repository\<close>

record asset_input =
  asi_tag :: string
  asi_type :: asset_type
  asi_manufacturer :: "string option"
  asi_model :: "string option"
  asi_serial :: "string option"
  asi_mdm_device :: "string option"
  asi_purchase_date :: "string option"
  asi_warranty_expiry :: "string option"
  asi_specs :: "jobject option"

record asset_filters =
  af_status :: "asset_status option"
  af_type :: "asset_type option"
  af_assigned_to :: "uuid option"
  af_search :: "string option"

definition asset_insert :: "asset_input \<Rightarrow> asset svc" where
  "asset_insert input =
     mbind (query (\<lambda>d. find_where (\<lambda>a. as_tag a = asi_tag input) (t_assets d))) (\<lambda>dup.
     mbind (throw_if (dup \<noteq> None) (UniqueViolation ''uq_asset_tag'')) (\<lambda>_.
     mbind newId (\<lambda>rowId. mbind now (\<lambda>t.
     let row = \<lparr>as_id = rowId, as_tag = asi_tag input, as_type = asi_type input, as_status = As_in_stock,
                as_manufacturer = asi_manufacturer input, as_model = asi_model input, as_serial = asi_serial input,
                as_mdm_device = asi_mdm_device input, as_purchase_date = asi_purchase_date input,
                as_warranty_expiry = asi_warranty_expiry input,
                as_specs = (case asi_specs input of None \<Rightarrow> [] | Some s \<Rightarrow> s), as_assigned_to = None,
                as_photo_key = None, as_created_at = t, as_updated_at = t\<rparr> in
     mbind (exec (t_assets_update (insert_row row))) (\<lambda>_. mret row)))))"

definition findAssetById :: "uuid \<Rightarrow> asset option svc" where
  "findAssetById assetId = query (\<lambda>d. find_where (\<lambda>a. as_id a = assetId) (t_assets d))"

definition findByTag :: "string \<Rightarrow> asset option svc" where
  "findByTag tag = query (\<lambda>d. find_where (\<lambda>a. as_tag a = tag) (t_assets d))"

definition asset_matches :: "asset_filters \<Rightarrow> asset \<Rightarrow> bool" where
  "asset_matches f a \<longleftrightarrow> opt_eq (af_status f) (as_status a) \<and> opt_eq (af_type f) (as_type a) \<and>
     opt_text (af_assigned_to f) (\<lambda>e. as_assigned_to a = Some e) \<and>
     opt_text (af_search f) (\<lambda>s. ilike_part s (as_tag a) \<or> ilike_null s (as_serial a) \<or> ilike_null s (as_model a))"

definition asset_list :: "asset_filters \<Rightarrow> nat \<Rightarrow> nat \<Rightarrow> (asset list \<times> nat) svc" where
  "asset_list f lim off = query (\<lambda>d. page_of (asset_matches f) as_created_at lim off (t_assets d))"

definition open_on :: "uuid \<Rightarrow> asset_assignment \<Rightarrow> bool" where
  "open_on assetId r \<longleftrightarrow> aa_asset r = assetId \<and> aa_returned_at r = None"

definition asset_assign_rows :: "uuid \<Rightarrow> uuid \<Rightarrow> string option \<Rightarrow> unit svc" where
  "asset_assign_rows assetId employeeId comment =
     mbind now (\<lambda>t.
     mbind (exec (t_assets_update (update_where (\<lambda>a. as_id a = assetId)
       (\<lambda>a. a\<lparr>as_status := As_assigned, as_assigned_to := Some employeeId, as_updated_at := t\<rparr>)))) (\<lambda>_.
     mbind newId (\<lambda>rowId.
     exec (t_asset_assignments_update (insert_row
       \<lparr>aa_id = rowId, aa_asset = assetId, aa_employee = employeeId, aa_assigned_at = t, aa_returned_at = None,
        aa_notes = comment\<rparr>)))))"

definition asset_unassign_rows :: "uuid \<Rightarrow> unit svc" where
  "asset_unassign_rows assetId =
     mbind now (\<lambda>t.
     mbind (exec (t_assets_update (update_where (\<lambda>a. as_id a = assetId)
       (\<lambda>a. a\<lparr>as_status := As_in_stock, as_assigned_to := None, as_updated_at := t\<rparr>)))) (\<lambda>_.
     exec (t_asset_assignments_update (update_where (open_on assetId) (\<lambda>r. r\<lparr>aa_returned_at := Some t\<rparr>)))))"

definition asset_retire_row :: "uuid \<Rightarrow> unit svc" where
  "asset_retire_row assetId =
     mbind now (\<lambda>t.
     exec (t_assets_update (update_where (\<lambda>a. as_id a = assetId)
       (\<lambda>a. a\<lparr>as_status := As_retired, as_assigned_to := None, as_updated_at := t\<rparr>))))"

definition asset_assignments :: "uuid \<Rightarrow> asset_assignment list svc" where
  "asset_assignments assetId = query (\<lambda>d.
     sort_key (\<lambda>r. - aa_assigned_at r) (select_where (\<lambda>r. aa_asset r = assetId) (t_asset_assignments d)))"

definition asset_updatePhoto :: "uuid \<Rightarrow> string option \<Rightarrow> unit svc" where
  "asset_updatePhoto assetId key =
     mbind now (\<lambda>t.
     exec (t_assets_update (update_where (\<lambda>a. as_id a = assetId)
       (\<lambda>a. a\<lparr>as_photo_key := key, as_updated_at := t\<rparr>))))"

section \<open>Service\<close>

definition asset_audit :: "actor \<Rightarrow> string \<Rightarrow> uuid \<Rightarrow> jobject \<Rightarrow> unit svc" where
  "asset_audit actor action assetId metadata =
     audit_record (Some (ac_sub actor)) (Some (ac_email actor)) action ''asset'' (Some assetId) [] metadata"

definition asset_create :: "asset_input \<Rightarrow> actor \<Rightarrow> asset svc" where
  "asset_create input actor =
     mbind (findByTag (asi_tag input)) (\<lambda>existing.
     mbind (throw_if (existing \<noteq> None) (ConflictException ASSET_TAG_TAKEN)) (\<lambda>_.
     mbind (asset_insert input) (\<lambda>asset.
     mbind (asset_audit actor ''asset.created'' (as_id asset)
              [(''assetTag'', JStr (as_tag asset)), (''type'', JStr (asset_type_name (as_type asset)))]) (\<lambda>_.
     mret asset))))"

definition getAsset :: "uuid \<Rightarrow> asset svc" where
  "getAsset assetId = mbind (findAssetById assetId) (\<lambda>a. or_throw a (NotFoundException ASSET_NOT_FOUND))"

definition asset_assign :: "uuid \<Rightarrow> uuid \<Rightarrow> string option \<Rightarrow> actor \<Rightarrow> asset svc" where
  "asset_assign assetId employeeId comment actor =
     mbind (getAsset assetId) (\<lambda>asset.
     mbind (throw_if (as_status asset = As_retired \<or> as_status asset = As_lost)
              (PreconditionFailedException ASSET_RETIRED)) (\<lambda>_.
     mbind (throw_if (\<not> no_key (as_assigned_to asset)) (ConflictException ASSET_ALREADY_ASSIGNED)) (\<lambda>_.
     mbind (getEmployee employeeId) (\<lambda>_.
     mbind (transaction (
       mbind (asset_assign_rows assetId employeeId comment) (\<lambda>_.
       enqueue ''asset'' assetId ''asset.assigned''
         [(''assetId'', JStr assetId), (''employeeId'', JStr employeeId)]))) (\<lambda>_.
     mbind (asset_audit actor ''asset.assigned'' assetId [(''employeeId'', JStr employeeId)]) (\<lambda>_.
     getAsset assetId))))))"

definition asset_unassign :: "uuid \<Rightarrow> actor \<Rightarrow> asset svc" where
  "asset_unassign assetId actor =
     mbind (getAsset assetId) (\<lambda>asset.
     mbind (throw_if (no_key (as_assigned_to asset)) (PreconditionFailedException ASSET_NOT_ASSIGNED)) (\<lambda>_.
     mbind (transaction (
       mbind (asset_unassign_rows assetId) (\<lambda>_.
       enqueue ''asset'' assetId ''asset.unassigned''
         [(''assetId'', JStr assetId), (''previousEmployeeId'', jstr_or_null (as_assigned_to asset))]))) (\<lambda>_.
     mbind (asset_audit actor ''asset.unassigned'' assetId []) (\<lambda>_.
     getAsset assetId))))"

definition asset_retire :: "uuid \<Rightarrow> actor \<Rightarrow> asset svc" where
  "asset_retire assetId actor =
     mbind (getAsset assetId) (\<lambda>asset.
     mbind (throw_if (as_status asset = As_retired) (PreconditionFailedException ASSET_RETIRED)) (\<lambda>_.
     mbind (throw_if (as_status asset = As_assigned) (PreconditionFailedException ASSET_ALREADY_ASSIGNED)) (\<lambda>_.
     mbind (asset_retire_row assetId) (\<lambda>_.
     mbind (transaction (enqueue ''asset'' assetId ''asset.retired'' [(''assetId'', JStr assetId)])) (\<lambda>_.
     mbind (asset_audit actor ''asset.retired'' assetId []) (\<lambda>_.
     getAsset assetId))))))"

definition asset_listAssignments :: "uuid \<Rightarrow> asset_assignment list svc" where
  "asset_listAssignments assetId = mbind (getAsset assetId) (\<lambda>_. asset_assignments assetId)"

definition presignPhoto :: "s3 \<Rightarrow> uuid \<Rightarrow> string \<Rightarrow> string \<Rightarrow> int \<Rightarrow> actor \<Rightarrow> presign_result svc" where
  "presignPhoto s3 assetId fileName mimeType sizeBytes actor =
     mbind (getAsset assetId) (\<lambda>_.
     presignUpload s3 \<lparr>pin_file_name = fileName, pin_mime_type = mimeType, pin_size_bytes = sizeBytes,
       pin_resource_type = ''asset-photo'', pin_linked_type = Some ''asset'', pin_linked_id = Some assetId\<rparr>
       (ac_sub actor))"

definition confirmPhoto :: "s3 \<Rightarrow> uuid \<Rightarrow> uuid \<Rightarrow> actor \<Rightarrow> url_value svc" where
  "confirmPhoto s3 assetId fileId actor =
     mbind (getAsset assetId) (\<lambda>asset.
     mbind (confirmUpload s3 fileId (ac_sub actor)) (\<lambda>result.
     mbind (drop_file (as_photo_key asset)) (\<lambda>_.
     mbind (asset_updatePhoto assetId (Some (cr_key result))) (\<lambda>_.
     mbind (asset_audit actor ''asset.photo_updated'' assetId []) (\<lambda>_.
     mret (cr_url result))))))"

definition getPhotoUrl :: "s3 \<Rightarrow> uuid \<Rightarrow> string option svc" where
  "getPhotoUrl s3 assetId =
     mbind (getAsset assetId) (\<lambda>asset.
     if no_key (as_photo_key asset) then mret None
     else mbind (presignGet s3 (the (as_photo_key asset))) (\<lambda>url. mret (Some url)))"

end
