(* ===== verification/Asset_Claims.thy ===== *)
theory Asset_Claims
  imports Assets Offboarding Scenario
begin

text \<open>
  Properties of asset custody: the asset row and the open assignment agree as long as only the
  asset service changes them, offboarding breaks the agreement, and a photo is never replaced.
\<close>

section \<open>Custody\<close>

text \<open>
  \<open>custody_row R a\<close>: the status and the holder of the asset agree with each other and with the
  open assignments in \<open>R\<close>.
\<close>

definition custody_row :: "asset_assignment list \<Rightarrow> asset \<Rightarrow> bool" where
  "custody_row R a \<longleftrightarrow> (as_status a = As_assigned \<longleftrightarrow> as_assigned_to a \<noteq> None) \<and> as_assigned_to a \<noteq> Some [] \<and>
     map aa_employee (select_where (open_on (as_id a)) R) = (case as_assigned_to a of None \<Rightarrow> [] | Some e \<Rightarrow> [e])"

definition custody_tables :: "asset list \<Rightarrow> asset_assignment list \<Rightarrow> bool" where
  "custody_tables A R \<longleftrightarrow> (\<forall>a \<in> set A. custody_row R a) \<and>
     (\<forall>r \<in> set R. aa_returned_at r = None \<longrightarrow> aa_asset r \<in> as_id ` set A)"

definition custody :: "world \<Rightarrow> bool" where
  "custody w \<longleftrightarrow> keyed as_id (t_assets (w_db w)) w \<and> (\<forall>e \<in> set (t_employees (w_db w)). emp_id e \<noteq> []) \<and>
     custody_tables (t_assets (w_db w)) (t_asset_assignments (w_db w))"

lemma custody_insert:
  assumes "custody_tables A R" and "as_id a \<notin> as_id ` set A" and "as_status a = As_in_stock" and "as_assigned_to a = None"
  shows "custody_tables (insert_row a A) R"
proof -
  have "\<not> open_on (as_id a) r" if "r \<in> set R" for r
    using assms(1,2) that unfolding open_on_def custody_tables_def by metis
  then show ?thesis
    using assms by (auto simp: custody_tables_def custody_row_def select_where_empty_iff)
qed

text \<open>An update of one asset, with the assignments of the other assets as they were.\<close>

lemma custody_update:
  assumes "custody_tables A R" and "\<And>a. as_id (f a) = as_id a"
    and "\<And>a. a \<in> set A \<Longrightarrow> as_id a = i \<Longrightarrow> custody_row R' (f a)"
    and "\<And>j. j \<noteq> i \<Longrightarrow> select_where (open_on j) R' = select_where (open_on j) R"
    and "\<And>r. r \<in> set R' \<Longrightarrow> aa_returned_at r = None \<Longrightarrow> aa_asset r \<in> as_id ` set A"
  shows "custody_tables (update_where (\<lambda>a. as_id a = i) f A) R'"
proof -
  have "as_id ` set (update_where (\<lambda>a. as_id a = i) f A) = as_id ` set A"
    using map_update_where [of as_id f "\<lambda>a. as_id a = i" A] assms(2) by (metis set_map)
  with assms show ?thesis
    by (auto simp: custody_tables_def set_update_where custody_row_def)
qed

lemma custody_assign:
  assumes "custody_tables A R" and "a \<in> set A" and "as_id a = i" and "distinct (map as_id A)"
    and "as_assigned_to a = None" and "e \<noteq> []"
  shows "custody_tables (update_where (\<lambda>a. as_id a = i)
      (\<lambda>a. a\<lparr>as_status := As_assigned, as_assigned_to := Some e, as_updated_at := t\<rparr>) A)
    (insert_row \<lparr>aa_id = k, aa_asset = i, aa_employee = e, aa_assigned_at = t, aa_returned_at = None, aa_notes = c\<rparr> R)"
proof (rule custody_update [OF assms(1)])
  fix b assume "b \<in> set A" "as_id b = i"
  with assms(2-4) have "b = a" by (metis distinct_map inj_onD)
  with assms show "custody_row (insert_row \<lparr>aa_id = k, aa_asset = i, aa_employee = e, aa_assigned_at = t,
      aa_returned_at = None, aa_notes = c\<rparr> R) (b\<lparr>as_status := As_assigned, as_assigned_to := Some e, as_updated_at := t\<rparr>)"
    by (auto simp: custody_tables_def custody_row_def open_on_def)
qed (use assms in \<open>auto simp: open_on_def custody_tables_def\<close>)

lemma select_update_other:
  "(\<And>r. p r \<Longrightarrow> \<not> q r) \<Longrightarrow> (\<And>r. p r \<Longrightarrow> \<not> q (f r)) \<Longrightarrow> select_where q (update_where p f t) = select_where q t"
  by (induction t) (auto simp: select_where_def)

lemma custody_unassign:
  assumes "custody_tables A R"
  shows "custody_tables (update_where (\<lambda>a. as_id a = i)
      (\<lambda>a. a\<lparr>as_status := As_in_stock, as_assigned_to := None, as_updated_at := t\<rparr>) A)
    (update_where (open_on i) (\<lambda>r. r\<lparr>aa_returned_at := Some t\<rparr>) R)"
proof (rule custody_update [OF assms])
  fix a :: asset assume "as_id a = i"
  then show "custody_row (update_where (open_on i) (\<lambda>r. r\<lparr>aa_returned_at := Some t\<rparr>) R)
      (a\<lparr>as_status := As_in_stock, as_assigned_to := None, as_updated_at := t\<rparr>)"
    by (auto simp: custody_row_def select_where_empty_iff set_update_where open_on_def)
next
  fix j assume "j \<noteq> i"
  then show "select_where (open_on j) (update_where (open_on i) (\<lambda>r. r\<lparr>aa_returned_at := Some t\<rparr>) R) = select_where (open_on j) R"
    by (intro select_update_other) (auto simp: open_on_def)
next
  fix r assume "r \<in> set (update_where (open_on i) (\<lambda>r. r\<lparr>aa_returned_at := Some t\<rparr>) R)" "aa_returned_at r = None"
  with assms show "aa_asset r \<in> as_id ` set A"
    by (auto simp: set_update_where custody_tables_def split: if_splits)
qed simp

lemma custody_touch:
  assumes "custody_tables A R" and "\<And>a. as_id (f a) = as_id a"
    and "\<And>a. a \<in> set A \<Longrightarrow> as_id a = i \<Longrightarrow> custody_row R a \<Longrightarrow> custody_row R (f a)"
  shows "custody_tables (update_where (\<lambda>a. as_id a = i) f A) R"
  by (rule custody_update [OF assms(1)]) (use assms in \<open>auto simp: custody_tables_def\<close>)

text \<open>The world after an operation that drew identifiers and changed the custody tables.\<close>

lemma custody_world:
  assumes "custody w" and "keyed as_id (t_assets (w_db w')) w'" and "t_employees (w_db w') = t_employees (w_db w)"
    and "custody_tables (t_assets (w_db w')) (t_asset_assignments (w_db w'))"
  shows "custody w'"
  using assms by (simp add: custody_def)

lemma custodyD:
  assumes "custody w" and "find_where (\<lambda>a. as_id a = i) (t_assets (w_db w)) = Some a"
  shows "a \<in> set (t_assets (w_db w))" and "as_id a = i" and "custody_row (t_asset_assignments (w_db w)) a"
    and "distinct (map as_id (t_assets (w_db w)))"
  using assms by (auto simp: custody_def keyed_def custody_tables_def dest!: find_where_SomeD)

lemmas run_asset = findAssetById_def getAsset_def asset_audit_def audit_record_def enqueue_def transaction_def mbind_def
  getEmployee_def findEmployeeById_def findByTag_def

lemma keyed_insert_next:
  "keyed k t w \<Longrightarrow> k r = w_uuid w (w_next w) \<Longrightarrow> w_uuid w' = w_uuid w \<Longrightarrow> w_next w < w_next w' \<Longrightarrow> keyed k (insert_row r t) w'"
  by (rule keyed_insert [of k t w r "w_next w"]) simp_all

lemma asset_create_custody: "maintains custody (asset_create input actor)"
proof (rule keepsI, rule impI)
  fix w assume c: "custody w"
  let ?id = "w_uuid w (w_next w)"
  have k: "keyed as_id (t_assets (w_db w)) w" and T: "custody_tables (t_assets (w_db w)) (t_asset_assignments (w_db w))"
    using c by (simp_all add: custody_def)
  note fresh = keyed_fresh [OF k order_refl]
  show "custody (snd (asset_create input actor w))"
  proof (cases "find_where (\<lambda>a. as_tag a = asi_tag input) (t_assets (w_db w))")
    case None
    then show ?thesis
      by (intro custody_world [OF c])
        (use k T fresh in \<open>auto simp: asset_create_def run_asset asset_insert_def Let_def
          intro!: custody_insert keyed_insert_next\<close>)
  qed (use c in \<open>simp add: asset_create_def findByTag_def\<close>)
qed

lemma asset_assign_custody: "maintains custody (asset_assign i e c actor)"
proof (rule keepsI, rule impI)
  fix w assume cu: "custody w"
  have k: "keyed as_id (t_assets (w_db w)) w" and T: "custody_tables (t_assets (w_db w)) (t_asset_assignments (w_db w))"
    using cu by (simp_all add: custody_def)
  show "custody (snd (asset_assign i e c actor w))"
  proof (cases "find_where (\<lambda>a. as_id a = i) (t_assets (w_db w))")
    case None
    with cu show ?thesis by (simp add: asset_assign_def getAsset_def findAssetById_def)
  next
    case (Some a)
    note a = custodyD [OF cu Some]
    show ?thesis
    proof (cases "as_status a = As_retired \<or> as_status a = As_lost \<or> \<not> no_key (as_assigned_to a) \<or>
        find_where (\<lambda>x. emp_id x = e) (t_employees (w_db w)) = None")
      case True
      with Some cu show ?thesis
        by (auto simp: asset_assign_def getAsset_def findAssetById_def getEmployee_def findEmployeeById_def)
    next
      case False
      then have free: "as_assigned_to a = None" and "e \<noteq> []"
        using a(3) cu by (auto simp: no_key_def custody_row_def custody_def dest!: find_where_SomeD)
      note T' = custody_assign [OF T a(1,2,4) this]
      show ?thesis
        by (intro custody_world [OF cu])
          (use False Some T' k in \<open>auto simp: asset_assign_def run_asset asset_assign_rows_def find_where_update_key
            intro!: keyed_update keyed_later [OF k] split: option.splits\<close>)
    qed
  qed
qed

lemma asset_unassign_custody: "maintains custody (asset_unassign i actor)"
proof (rule keepsI, rule impI)
  fix w assume cu: "custody w"
  have k: "keyed as_id (t_assets (w_db w)) w" and T: "custody_tables (t_assets (w_db w)) (t_asset_assignments (w_db w))"
    using cu by (simp_all add: custody_def)
  show "custody (snd (asset_unassign i actor w))"
  proof (cases "\<exists>a. find_where (\<lambda>a. as_id a = i) (t_assets (w_db w)) = Some a \<and> \<not> no_key (as_assigned_to a)")
    case True
    then show ?thesis
      by (intro custody_world [OF cu])
        (use custody_unassign [OF T] k in \<open>auto simp: asset_unassign_def run_asset asset_unassign_rows_def find_where_update_key
          intro!: keyed_update keyed_later [OF k]\<close>)
  next
    case False
    with cu show ?thesis
      by (cases "find_where (\<lambda>a. as_id a = i) (t_assets (w_db w))")
        (auto simp: asset_unassign_def getAsset_def findAssetById_def)
  qed
qed

lemma asset_retire_custody: "maintains custody (asset_retire i actor)"
proof (rule keepsI, rule impI)
  fix w assume cu: "custody w"
  have k: "keyed as_id (t_assets (w_db w)) w" and T: "custody_tables (t_assets (w_db w)) (t_asset_assignments (w_db w))"
    using cu by (simp_all add: custody_def)
  show "custody (snd (asset_retire i actor w))"
  proof (cases "\<exists>a. find_where (\<lambda>a. as_id a = i) (t_assets (w_db w)) = Some a \<and> as_status a \<noteq> As_retired \<and> as_status a \<noteq> As_assigned")
    case True
    then obtain a where a: "find_where (\<lambda>a. as_id a = i) (t_assets (w_db w)) = Some a" "as_status a \<noteq> As_retired" "as_status a \<noteq> As_assigned"
      by blast
    have only: "b = a" if "b \<in> set (t_assets (w_db w))" "as_id b = i" for b
      using that custodyD [OF cu a(1)] by (metis distinct_map inj_onD)
    have "custody_tables (update_where (\<lambda>a. as_id a = i) (\<lambda>a. a\<lparr>as_status := As_retired, as_assigned_to := None, as_updated_at := t\<rparr>)
        (t_assets (w_db w))) (t_asset_assignments (w_db w))" for t
      by (rule custody_touch [OF T]) (use a only in \<open>auto simp: custody_row_def\<close>)
    with a show ?thesis
      by (intro custody_world [OF cu])
        (use k in \<open>auto simp: asset_retire_def run_asset asset_retire_row_def find_where_update_key
          intro!: keyed_update keyed_later [OF k]\<close>)
  next
    case False
    with cu show ?thesis
      by (cases "find_where (\<lambda>a. as_id a = i) (t_assets (w_db w))")
        (auto simp: asset_retire_def getAsset_def findAssetById_def)
  qed
qed

text \<open>Photos do not touch custody: the storage service changes its own table only.\<close>

definition custody_view :: "world \<Rightarrow> world \<Rightarrow> bool" where
  "custody_view w w' \<longleftrightarrow> t_assets (w_db w') = t_assets (w_db w) \<and> t_asset_assignments (w_db w') = t_asset_assignments (w_db w) \<and>
     t_employees (w_db w') = t_employees (w_db w) \<and> w_uuid w' = w_uuid w \<and> w_next w \<le> w_next w'"

interpretation custody_view: frame_rel custody_view
  by unfold_locales (auto simp: custody_view_def)

lemma custody_view_steps:
  "keeps custody_view (outside_call f)" "keeps custody_view (uuid_param s)" "keeps custody_view (query q)" "keeps custody_view now"
  "keeps custody_view newId" "keeps custody_view (deleteObject key)" "keeps custody_view (headObject s3 key)"
  "keeps custody_view (exec (t_stored_files_update u))" "keeps custody_view (audit_record ac em an rt re ch me)"
  by (auto simp: keeps_def custody_view_def outside_call_def uuid_param_def deleteObject_def headObject_def mtry_def mbind_def
      audit_record_def split: sum.splits option.splits)

lemmas custody_view_rules = custody_view_steps custody_view.keeps_rules custody_view.keeps_try

lemma storage_custody_view:
  "keeps custody_view (confirmUpload s3 fileId u)" "keeps custody_view (drop_file key)" "keeps custody_view (presignUpload s3 input u)"
  unfolding confirmUpload_def drop_file_def deleteFile_def storage_findById_def presignUpload_def Let_def
  by (intro custody_view_rules)+

lemma custody_viewD: "custody w \<Longrightarrow> custody_view w w' \<Longrightarrow> custody w'"
  unfolding custody_def custody_view_def by (metis keyed_later)

lemma maintains_custody_view: "keeps custody_view m \<Longrightarrow> maintains custody m"
  by (auto simp: keeps_def intro: custody_viewD)

lemma getAsset_same: "snd (getAsset i w) = w"
  by (simp add: getAsset_def findAssetById_def split: option.split)

lemma asset_updatePhoto_custody: "maintains custody (asset_updatePhoto i key)"
proof (rule keepsI, rule impI)
  fix w assume cu: "custody w"
  have k: "keyed as_id (t_assets (w_db w)) w" and T: "custody_tables (t_assets (w_db w)) (t_asset_assignments (w_db w))"
    using cu by (simp_all add: custody_def)
  have "custody_tables (update_where (\<lambda>a. as_id a = i) (\<lambda>a. a\<lparr>as_photo_key := key, as_updated_at := t\<rparr>) (t_assets (w_db w)))
      (t_asset_assignments (w_db w))" for t
    by (rule custody_touch [OF T]) (simp_all add: custody_row_def)
  then show "custody (snd (asset_updatePhoto i key w))"
    by (intro custody_world [OF cu])
      (use k in \<open>auto simp: asset_updatePhoto_def intro!: keyed_update keyed_later [OF k]\<close>)
qed

lemma getAsset_custody: "maintains custody (getAsset i)"
  by (simp add: keeps_def getAsset_same)

lemma photo_custody: "maintains custody (confirmPhoto s3 i f actor)" "maintains custody (presignPhoto s3 i n mt sz actor)"
  unfolding confirmPhoto_def presignPhoto_def asset_audit_def
  by (intro maintain.keeps_bind maintain.keeps_ret getAsset_custody asset_updatePhoto_custody
      maintains_custody_view storage_custody_view custody_view_steps)+

section \<open>Runs of the asset service\<close>

inductive asset_step :: "world \<Rightarrow> world \<Rightarrow> bool" where
  step_create: "asset_step w (snd (asset_create input actor w))"
| step_assign: "asset_step w (snd (asset_assign i e c actor w))"
| step_unassign: "asset_step w (snd (asset_unassign i actor w))"
| step_retire: "asset_step w (snd (asset_retire i actor w))"
| step_presign: "asset_step w (snd (presignPhoto s3 i n mt sz actor w))"
| step_confirm: "asset_step w (snd (confirmPhoto s3 i f actor w))"
| step_clock: "asset_step w (w\<lparr>w_now := t\<rparr>)"

lemma asset_step_custody: "asset_step w w' \<Longrightarrow> custody w \<Longrightarrow> custody w'"
proof (induction rule: asset_step.induct)
  case (step_clock w t)
  then show ?case by (simp add: custody_def keyed_def)
qed (use asset_create_custody asset_assign_custody asset_unassign_custody asset_retire_custody photo_custody
  in \<open>auto simp: keeps_def\<close>)

lemma asset_run_custody: "asset_step\<^sup>*\<^sup>* w w' \<Longrightarrow> custody w \<Longrightarrow> custody w'"
  by (induction rule: rtranclp_induct) (auto intro: asset_step_custody)

text \<open>C23: Custody stays consistent while assets are changed through their service only: whatever
  creations, assignments, returns, retirements and photo uploads were attempted, by anybody and
  in any order, every asset with a holder is in status assigned and has exactly one open
  assignment, of that holder; every other asset is in another status and has none.\<close>

theorem asset_custody:
  assumes "asset_step\<^sup>*\<^sup>* w w'" and "custody w" and "a \<in> set (t_assets (w_db w'))"
  shows "(as_status a = As_assigned \<longleftrightarrow> as_assigned_to a \<noteq> None) \<and>
    map aa_employee (select_where (open_on (as_id a)) (t_asset_assignments (w_db w'))) =
      (case as_assigned_to a of None \<Rightarrow> [] | Some e \<Rightarrow> [e])"
  using asset_run_custody [OF assms(1,2)] assms(3) by (auto simp: custody_def custody_tables_def custody_row_def)

section \<open>Photos\<close>

text \<open>Every stored key, and so every linked key, contains a slash.\<close>

definition slashed :: "world \<Rightarrow> bool" where
  "slashed w \<longleftrightarrow> (\<forall>f \<in> set (t_stored_files (w_db w)). CHR ''/'' \<in> set (sf_key f)) \<and>
     (\<forall>a \<in> set (t_assets (w_db w)). \<forall>k. as_photo_key a = Some k \<longrightarrow> CHR ''/'' \<in> set k)"

lemma confirmUpload_key:
  "confirmUpload s3 f u w = (Inr r, w') \<Longrightarrow> \<exists>x \<in> set (t_stored_files (w_db w)). cr_key r = sf_key x"
  by (auto simp: confirmUpload_def headObject_def mtry_def outside_call_def mbind_def dest!: find_where_SomeD
      split: option.splits if_splits sum.splits prod.splits)

lemma drop_file_slashed: "CHR ''/'' \<in> set k \<Longrightarrow> \<exists>e. drop_file (Some k) w = (Inl e, w)"
  by (auto simp: drop_file_def no_key_def storage_findById_def uuid_param_def uuid_text_no_slash)

text \<open>\<open>no_new_key\<close>: neither a stored key nor a linked key appears that was not there.\<close>

definition no_new_key :: "world \<Rightarrow> world \<Rightarrow> bool" where
  "no_new_key w w' \<longleftrightarrow> sf_key ` set (t_stored_files (w_db w')) \<subseteq> sf_key ` set (t_stored_files (w_db w)) \<and>
     as_photo_key ` set (t_assets (w_db w')) \<subseteq> insert None (as_photo_key ` set (t_assets (w_db w)))"

lemma insert_subset_trans: "B \<subseteq> insert n A \<Longrightarrow> C \<subseteq> insert n B \<Longrightarrow> C \<subseteq> insert n A"
  by blast

lemma no_new_key_trans: "no_new_key w w1 \<Longrightarrow> no_new_key w1 w2 \<Longrightarrow> no_new_key w w2"
  unfolding no_new_key_def by (elim conjE) (rule conjI, erule (1) subset_trans [rotated], erule (1) insert_subset_trans)

interpretation no_new_key: frame_rel no_new_key
  by unfold_locales (simp add: no_new_key_def subset_insertI, rule no_new_key_trans)

lemma no_new_key_slashed: "no_new_key w w' \<Longrightarrow> slashed w \<Longrightarrow> slashed w'"
  unfolding no_new_key_def slashed_def by (fastforce simp: image_subset_iff)

lemma keeps_no_new_key_transaction: "keeps no_new_key m \<Longrightarrow> keeps no_new_key (transaction m)"
proof (rule keepsI)
  fix w assume m: "keeps no_new_key m"
  obtain r w1 where w1: "m w = (r, w1)" by (cases "m w")
  with keepsD [OF m w1] show "no_new_key w (snd (transaction m w))"
    by (cases r) (simp_all add: transaction_def no_new_key_def subset_insertI)
qed

lemma no_new_key_tables:
  "(\<And>a. as_photo_key (g a) = as_photo_key a) \<Longrightarrow> keeps no_new_key (exec (t_assets_update (update_where p g)))"
  "as_photo_key a = None \<Longrightarrow> keeps no_new_key (exec (t_assets_update (insert_row a)))"
  "(\<And>f. sf_key (h f) = sf_key f) \<Longrightarrow> keeps no_new_key (exec (t_stored_files_update (update_where q h)))"
  "keeps no_new_key (exec (t_asset_assignments_update u))"
  by (auto simp: keeps_def no_new_key_def set_update_where)

lemma no_new_key_steps:
  "keeps no_new_key (outside_call f)" "keeps no_new_key (uuid_param s)" "keeps no_new_key (query q)" "keeps no_new_key now"
  "keeps no_new_key newId" "keeps no_new_key (deleteObject key)" "keeps no_new_key (headObject s3 key)"
  "keeps no_new_key (audit_record ac em an rt re ch me)" "keeps no_new_key (enqueue a b c d)"
  by (auto simp: keeps_def no_new_key_def outside_call_def uuid_param_def deleteObject_def headObject_def mtry_def mbind_def
      audit_record_def enqueue_def split: sum.splits option.splits)

lemmas no_new_key_rules = no_new_key_steps keeps_no_new_key_transaction no_new_key_tables
  no_new_key.keeps_rules no_new_key.keeps_try

lemma asset_ops_no_new_key:
  "keeps no_new_key (asset_create input actor)" "keeps no_new_key (asset_assign i e c actor)"
  "keeps no_new_key (asset_unassign i actor)" "keeps no_new_key (asset_retire i actor)"
  unfolding asset_create_def asset_assign_def asset_unassign_def asset_retire_def getAsset_def findAssetById_def asset_audit_def
    findByTag_def asset_insert_def asset_assign_rows_def asset_unassign_rows_def asset_retire_row_def getEmployee_def
    findEmployeeById_def Let_def
  by (intro no_new_key_rules; simp)+

lemma storage_no_new_key: "keeps no_new_key (confirmUpload s3 fileId u)" "keeps no_new_key (drop_file key)"
  unfolding confirmUpload_def drop_file_def deleteFile_def storage_findById_def Let_def
  by (intro no_new_key_rules; simp add: mark_deleted_def)+

lemma maintains_no_new_key: "keeps no_new_key m \<Longrightarrow> maintains slashed m"
  by (auto simp: keeps_def intro: no_new_key_slashed)

lemma presignUpload_slashed: "maintains slashed (presignUpload s3 input u)"
  by (rule keepsI)
    (auto simp: presignUpload_def slashed_def Let_def outside_call_def mbind_def or_throw_def throw_if_def
      split: option.splits sum.splits)

lemma presignPhoto_slashed: "maintains slashed (presignPhoto s3 i n mt sz actor)"
  unfolding presignPhoto_def
  by (intro maintain.keeps_bind presignUpload_slashed maintains_no_new_key)
    (simp add: keeps_def getAsset_same no_new_key_def subset_insertI)

lemma confirmPhoto_slashed: "maintains slashed (confirmPhoto s3 i f actor)"
  unfolding confirmPhoto_def
proof (rule maintain.keeps_bind)
  show "maintains slashed (getAsset i)"
    by (simp add: keeps_def getAsset_same)
  fix asset
  show "maintains slashed (mbind (confirmUpload s3 f (ac_sub actor)) (\<lambda>result.
     mbind (drop_file (as_photo_key asset)) (\<lambda>_.
     mbind (asset_updatePhoto i (Some (cr_key result))) (\<lambda>_.
     mbind (asset_audit actor ''asset.photo_updated'' i []) (\<lambda>_.
     mret (cr_url result))))))" (is "maintains slashed (mbind _ ?rest)")
  proof (rule keepsI, rule impI)
    fix w assume sl: "slashed w"
    obtain r w1 where run: "confirmUpload s3 f (ac_sub actor) w = (r, w1)" by fastforce
    have sl1: "slashed w1"
      using keepsD [OF storage_no_new_key(1) run] sl by (rule no_new_key_slashed)
    show "slashed (snd (mbind (confirmUpload s3 f (ac_sub actor)) ?rest w))"
    proof (cases r)
      case (Inl e)
      with run sl1 show ?thesis by (simp add: mbind_eq_Inl [where m = "confirmUpload s3 f (ac_sub actor)"])
    next
      case (Inr res)
      have key: "CHR ''/'' \<in> set (cr_key res)"
        using confirmUpload_key [OF run [unfolded Inr]] sl by (auto simp: slashed_def)
      have upd: "maintains slashed (asset_updatePhoto i (Some (cr_key res)))"
        using key by (auto simp: keeps_def asset_updatePhoto_def slashed_def set_update_where)
      have "maintains slashed (?rest res)"
        unfolding asset_audit_def
        by (intro maintain.keeps_bind maintain.keeps_ret upd maintains_no_new_key storage_no_new_key no_new_key_steps)
      with run sl1 show ?thesis
        by (simp add: Inr keeps_def mbind_eq [where m = "confirmUpload s3 f (ac_sub actor)"])
    qed
  qed
qed

lemma asset_step_slashed: "asset_step w w' \<Longrightarrow> slashed w \<Longrightarrow> slashed w'"
proof (induction rule: asset_step.induct)
  case (step_clock w t)
  then show ?case by (simp add: slashed_def)
qed (use asset_ops_no_new_key [THEN maintains_no_new_key] presignPhoto_slashed confirmPhoto_slashed in \<open>auto simp: keeps_def\<close>)

lemma asset_run_slashed: "asset_step\<^sup>*\<^sup>* w w' \<Longrightarrow> slashed w \<Longrightarrow> slashed w'"
  by (induction rule: rtranclp_induct) (auto intro: asset_step_slashed)

text \<open>The photo of an asset can be set once and never replaced: the previous file is looked up
  under its storage key in a column of type uuid, so every confirmation for an asset that has a
  photo throws and leaves every asset as it was; but the upload itself, if it is complete, has
  been marked as such and stays behind.\<close>

theorem photo_never_replaced:
  assumes "asset_step\<^sup>*\<^sup>* w0 w" and "slashed w0"
    and "find_where (\<lambda>a. as_id a = i) (t_assets (w_db w)) = Some a" and "as_photo_key a \<noteq> None"
  shows "\<exists>e w'. confirmPhoto s3 i f actor w = (Inl e, w') \<and> t_assets (w_db w') = t_assets (w_db w) \<and>
    (\<forall>x. find_where (own_file f (ac_sub actor)) (t_stored_files (w_db w)) = Some x \<and> sf_status x = Sf_pending \<and>
         s3_head s3 (sf_key x) (w_now w) = Inr (Some (sf_size_bytes x)) \<longrightarrow>
       x\<lparr>sf_status := Sf_completed, sf_confirmed_at := Some (w_now w)\<rparr> \<in> set (t_stored_files (w_db w')))"
proof -
  obtain k where k: "as_photo_key a = Some k" "CHR ''/'' \<in> set k"
    using asset_run_slashed [OF assms(1,2)] assms(3,4) by (auto simp: slashed_def dest!: find_where_SomeD)
  obtain r w1 where run: "confirmUpload s3 f (ac_sub actor) w = (r, w1)" by fastforce
  have same: "t_assets (w_db w1) = t_assets (w_db w)"
    using keepsD [OF storage_custody_view(1) run] by (simp add: custody_view_def)
  obtain e where e: "confirmPhoto s3 i f actor w = (Inl e, w1)"
  proof (cases r)
    case (Inl e)
    with run assms(3) show thesis
      by (intro that [of e]) (simp add: confirmPhoto_def getAsset_def findAssetById_def
          mbind_eq_Inl [where m = "confirmUpload s3 f (ac_sub actor)"])
  next
    case (Inr res)
    obtain e where "drop_file (Some k) w1 = (Inl e, w1)"
      using drop_file_slashed [OF k(2)] by blast
    with run assms(3) k show thesis
      by (intro that [of e]) (simp add: Inr confirmPhoto_def getAsset_def findAssetById_def
          mbind_eq [where m = "confirmUpload s3 f (ac_sub actor)"] mbind_eq_Inl [where m = "drop_file (Some k)"])
  qed
  have "x\<lparr>sf_status := Sf_completed, sf_confirmed_at := Some (w_now w)\<rparr> \<in> set (t_stored_files (w_db w1))"
    if "find_where (own_file f (ac_sub actor)) (t_stored_files (w_db w)) = Some x" "sf_status x = Sf_pending"
      "s3_head s3 (sf_key x) (w_now w) = Inr (Some (sf_size_bytes x))" for x
    using run that find_where_SomeD [OF that(1)]
    by (auto simp: confirmUpload_def headObject_def mtry_def outside_call_def mbind_def own_file_def
        intro!: update_where_in [where f = "\<lambda>f. f\<lparr>sf_status := Sf_completed, sf_confirmed_at := Some (w_now w)\<rparr>"])
  with e same show ?thesis by blast
qed

section \<open>Offboarding breaks custody\<close>

text \<open>Offboarding leaves the assets of the employee in limbo: an asset that was in the
  employee's custody is back in stock with no open assignment, but its row still names the
  employee as holder, so handing it to anybody else is refused as already assigned.\<close>

theorem offboarded_asset_stuck:
  assumes "offboarding_on_approve p q approver w = (Inr (), w')" and "custody w"
    and "a \<in> set (t_assets (w_db w))" and "as_assigned_to a = Some (jtext (jfield p ''employeeId''))"
  shows "\<exists>a'. find_where (\<lambda>x. as_id x = as_id a) (t_assets (w_db w')) = Some a' \<and>
    as_status a' = As_in_stock \<and> as_assigned_to a' = as_assigned_to a \<and>
    select_where (open_on (as_id a)) (t_asset_assignments (w_db w')) = [] \<and>
    asset_assign (as_id a) e2 comment actor w' = (Inl (ConflictException ASSET_ALREADY_ASSIGNED), w')"
proof -
  let ?e = "jtext (jfield p ''employeeId'')" and ?A = "t_assets (w_db w)" and ?R = "t_asset_assignments (w_db w)"
  note eff = offboarding_effect [OF assms(1) refl]
  have row: "custody_row ?R a" and dist: "distinct (map as_id ?A)"
    using assms(2,3) by (auto simp: custody_def custody_tables_def keyed_def)
  then have only: "map aa_employee (select_where (open_on (as_id a)) ?R) = [?e]" and ne: "?e \<noteq> []"
    using assms(4) by (auto simp: custody_row_def)
  then obtain y where y': "select_where (open_on (as_id a)) ?R = [y]" "aa_employee y = ?e"
    by auto
  then have "y \<in> {r \<in> set ?R. open_on (as_id a) r}"
    unfolding set_select_where [symmetric] by simp
  with y' have y: "y \<in> set ?R" "open_on (as_id a) y" "aa_employee y = ?e" by simp_all
  have hit: "as_id a \<in> aa_asset ` {y \<in> set ?R. open_assignment ?e y}"
    using y by (auto simp: open_on_def open_assignment_def intro!: image_eqI [of _ _ y])
  have "find_where (\<lambda>x. as_id x = as_id a) ?A = Some a"
    using find_where_distinct [OF dist assms(3)] by simp
  then have found: "find_where (\<lambda>x. as_id x = as_id a) (t_assets (w_db w')) =
      Some (a\<lparr>as_status := As_in_stock, as_updated_at := w_now w\<rparr>)"
    unfolding eff(5) using hit by (subst find_where_update) simp_all
  have owner: "open_assignment ?e x" if "x \<in> set ?R" "open_on (as_id a) x" for x
  proof -
    have "aa_employee x \<in> set (map aa_employee (select_where (open_on (as_id a)) ?R))"
      using that by simp
    with only that show ?thesis by (simp add: open_assignment_def open_on_def)
  qed
  have "\<forall>x \<in> set (t_asset_assignments (w_db w')). \<not> open_on (as_id a) x"
    unfolding eff(4) by (rule update_where_all_in) (simp add: open_on_def, use owner in blast)
  then have "select_where (open_on (as_id a)) (t_asset_assignments (w_db w')) = []"
    by (simp add: select_where_empty_iff)
  moreover have "asset_assign (as_id a) e2 comment actor w' = (Inl (ConflictException ASSET_ALREADY_ASSIGNED), w')"
    using assms(4) ne by (simp add: asset_assign_def getAsset_def findAssetById_def found no_key_def)
  ultimately show ?thesis
    using found by simp
qed

section \<open>Witnesses\<close>

text \<open>Carol holds a laptop that has a photo.\<close>

definition laptop :: asset where
  "laptop = \<lparr>as_id = sample_uuid 0, as_tag = ''L1'', as_type = Asset_laptop, as_status = As_assigned, as_manufacturer = None,
     as_model = None, as_serial = None, as_mdm_device = None, as_purchase_date = None, as_warranty_expiry = None,
     as_specs = [], as_assigned_to = Some ''carol'', as_photo_key = Some ''asset-photo/root/x.png'',
     as_created_at = 0, as_updated_at = 0\<rparr>"

definition laptop_world :: world where
  "laptop_world = base_world\<lparr>w_next := 1, w_db := base_db\<lparr>t_assets := [laptop],
     t_asset_assignments := [\<lparr>aa_id = ''s'', aa_asset = sample_uuid 0, aa_employee = ''carol'', aa_assigned_at = 0,
       aa_returned_at = None, aa_notes = None\<rparr>]\<rparr>\<rparr>"

lemma laptop_custody: "custody laptop_world"
  by (auto simp: custody_def laptop_world_def laptop_def base_world_def base_db_def empty_db_def keyed_def inj_sample_uuid
      custody_tables_def custody_row_def open_on_def select_where_def)

theorem asset_custody_witness:
  "custody laptop_world \<and> asset_step\<^sup>*\<^sup>* laptop_world (snd (asset_unassign (sample_uuid 0) (user ''root'') laptop_world)) \<and>
   list_all (\<lambda>a. as_status a = As_assigned \<longleftrightarrow> as_assigned_to a \<noteq> None)
     (t_assets (w_db (snd (asset_unassign (sample_uuid 0) (user ''root'') laptop_world))))"
  unfolding list_all_iff
  using laptop_custody asset_custody [OF _ laptop_custody] r_into_rtranclp [of asset_step, OF step_unassign] by blast

definition bare_s3 :: s3 where
  "bare_s3 = \<lparr>s3_cdn = None, s3_bucket = None, s3_head = (\<lambda>key t. Inr (Some 1200)),
     s3_sign_put = (\<lambda>key mime size ttl t. Inr key), s3_sign_get = (\<lambda>key ttl t. Inr key)\<rparr>"

theorem photo_never_replaced_witness:
  "\<exists>e w'. confirmPhoto bare_s3 (sample_uuid 0) ''f'' (user ''root'') laptop_world = (Inl e, w')"
proof -
  have "slashed laptop_world" "find_where (\<lambda>a. as_id a = sample_uuid 0) (t_assets (w_db laptop_world)) = Some laptop"
    "as_photo_key laptop \<noteq> None"
    by (auto simp: slashed_def laptop_world_def laptop_def base_world_def base_db_def empty_db_def)
  from photo_never_replaced [OF rtranclp.rtrancl_refl this] show ?thesis by blast
qed

theorem offboarded_asset_stuck_witness:
  "\<exists>w'. offboarding_on_approve [(''employeeId'', JStr ''carol'')] ''q'' ''root'' laptop_world = (Inr (), w') \<and>
     fst (asset_assign (sample_uuid 0) ''dave'' None (user ''root'') w') = Inl (ConflictException ASSET_ALREADY_ASSIGNED)"
proof -
  let ?w = "snd (offboarding_on_approve [(''employeeId'', JStr ''carol'')] ''q'' ''root'' laptop_world)"
  have run: "offboarding_on_approve [(''employeeId'', JStr ''carol'')] ''q'' ''root'' laptop_world = (Inr (), ?w)"
    by (simp add: offboarding_on_approve_def Let_def mbind_eq [OF mark_returned_loop])
  have "laptop \<in> set (t_assets (w_db laptop_world))" "as_assigned_to laptop = Some (jtext (jfield [(''employeeId'', JStr ''carol'')] ''employeeId''))"
    by (simp_all add: laptop_world_def laptop_def)
  from offboarded_asset_stuck [OF run laptop_custody this, of "''dave''" None "user ''root''"] run show ?thesis
    by (intro exI [of _ ?w]) (auto simp: laptop_def)
qed

end
