(* ===== verification/Licenses.thy ===== *)
theory Licenses
  imports Employees
begin

text \<open>
  Software licenses (\<^verbatim>\<open>libs/modules/license\<close>): the repository of licenses and seat assignments and
  the license service with its seat limit.
\<close>

section \<open>Repository\<close>

record license_input =
  lin_name :: string
  lin_vendor :: string
  lin_type :: license_type
  lin_seat_count :: "int option"
  lin_cost_cents :: "int option"
  lin_renewal_date :: "string option"
  lin_notes :: "string option"
  lin_external_id :: "string option"

record license_patch =
  lp_name :: "string option"
  lp_vendor :: "string option"
  lp_type :: "license_type option"
  lp_seat_count :: "int option option"
  lp_cost_cents :: "int option option"
  lp_renewal_date :: "string option option"
  lp_status :: "license_status option"
  lp_notes :: "string option option"
  lp_external_id :: "string option option"

record license_filters =
  lf_status :: "license_status option"
  lf_vendor :: "string option"
  lf_search :: "string option"

definition license_insert :: "license_input \<Rightarrow> software_license svc" where
  "license_insert input =
     mbind newId (\<lambda>rowId. mbind now (\<lambda>t.
     let row = \<lparr>sw_id = rowId, sw_name = lin_name input, sw_vendor = lin_vendor input, sw_type = lin_type input,
                sw_seat_count = lin_seat_count input, sw_cost_cents = lin_cost_cents input,
                sw_renewal_date = lin_renewal_date input, sw_status = Lis_active, sw_notes = lin_notes input,
                sw_external_id = lin_external_id input, sw_created_at = t, sw_updated_at = t\<rparr> in
     mbind (exec (t_software_licenses_update (insert_row row))) (\<lambda>_. mret row)))"

definition findLicenseById :: "uuid \<Rightarrow> software_license option svc" where
  "findLicenseById licenseId = query (\<lambda>d. find_where (\<lambda>l. sw_id l = licenseId) (t_software_licenses d))"

definition license_matches :: "license_filters \<Rightarrow> software_license \<Rightarrow> bool" where
  "license_matches f l \<longleftrightarrow> opt_eq (lf_status f) (sw_status l) \<and>
     opt_text (lf_vendor f) (\<lambda>s. ilike_part s (sw_vendor l)) \<and> opt_text (lf_search f) (\<lambda>s. ilike_part s (sw_name l))"

definition license_list :: "license_filters \<Rightarrow> nat \<Rightarrow> nat \<Rightarrow> (software_license list \<times> nat) svc" where
  "license_list f lim off = query (\<lambda>d.
     let rows = select_where (license_matches f) (t_software_licenses d) in (page lim off rows, length rows))"

definition patched_license :: "license_patch \<Rightarrow> timestamp \<Rightarrow> software_license \<Rightarrow> software_license" where
  "patched_license p t l = l\<lparr>sw_name := patched (lp_name p) (sw_name l), sw_vendor := patched (lp_vendor p) (sw_vendor l),
     sw_type := patched (lp_type p) (sw_type l), sw_seat_count := patched (lp_seat_count p) (sw_seat_count l),
     sw_cost_cents := patched (lp_cost_cents p) (sw_cost_cents l),
     sw_renewal_date := patched (lp_renewal_date p) (sw_renewal_date l),
     sw_status := patched (lp_status p) (sw_status l), sw_notes := patched (lp_notes p) (sw_notes l),
     sw_external_id := patched (lp_external_id p) (sw_external_id l), sw_updated_at := t\<rparr>"

definition license_update_row :: "uuid \<Rightarrow> license_patch \<Rightarrow> software_license option svc" where
  "license_update_row licenseId input =
     mbind now (\<lambda>t.
     mbind (exec (t_software_licenses_update (update_where (\<lambda>l. sw_id l = licenseId) (patched_license input t)))) (\<lambda>_.
     findLicenseById licenseId))"

definition license_delete_row :: "uuid \<Rightarrow> unit svc" where
  "license_delete_row licenseId = exec (t_software_licenses_update (delete_where (\<lambda>l. sw_id l = licenseId)))"

definition seat_insert :: "uuid \<Rightarrow> uuid \<Rightarrow> string option \<Rightarrow> license_assignment svc" where
  "seat_insert licenseId employeeId comment =
     mbind newId (\<lambda>rowId. mbind now (\<lambda>t.
     let row = \<lparr>la_id = rowId, la_license = licenseId, la_employee = employeeId, la_assigned_at = t,
                la_revoked_at = None, la_notes = comment\<rparr> in
     mbind (exec (t_license_assignments_update (insert_row row))) (\<lambda>_. mret row)))"

definition seat_revoke :: "uuid \<Rightarrow> unit svc" where
  "seat_revoke assignmentId =
     mbind now (\<lambda>t.
     exec (t_license_assignments_update (update_where (\<lambda>a. la_id a = assignmentId) (\<lambda>a. a\<lparr>la_revoked_at := Some t\<rparr>))))"

definition seats :: "uuid \<Rightarrow> bool \<Rightarrow> license_assignment list svc" where
  "seats licenseId includeRevoked = query (\<lambda>d.
     select_where (\<lambda>a. la_license a = licenseId \<and> (includeRevoked \<or> la_revoked_at a = None)) (t_license_assignments d))"

definition findActiveAssignment :: "uuid \<Rightarrow> uuid \<Rightarrow> license_assignment option svc" where
  "findActiveAssignment licenseId employeeId = query (\<lambda>d.
     find_where (\<lambda>a. la_license a = licenseId \<and> la_employee a = employeeId \<and> la_revoked_at a = None)
       (t_license_assignments d))"

definition active_seat :: "uuid \<Rightarrow> license_assignment \<Rightarrow> bool" where
  "active_seat licenseId a \<longleftrightarrow> la_license a = licenseId \<and> la_revoked_at a = None"

definition countActiveSeats :: "uuid \<Rightarrow> nat svc" where
  "countActiveSeats licenseId = query (\<lambda>d. length (select_where (active_seat licenseId) (t_license_assignments d)))"

record license_utilization =
  ut_license :: uuid
  ut_name :: string
  ut_vendor :: string
  ut_seat_count :: "int option"
  ut_used :: int
  ut_available :: "int option"
  ut_pct :: "int option"
  ut_spend_cents :: "int option"

text \<open>\<^verbatim>\<open>Math.round((used / seats) * 100)\<close>, halves upwards, without the rounding of doubles.\<close>

definition percent :: "int \<Rightarrow> int \<Rightarrow> int" where
  "percent used seatCount = (200 * used + seatCount) div (2 * seatCount)"

definition utilization :: "db \<Rightarrow> software_license \<Rightarrow> license_utilization" where
  "utilization d l =
     (let used = int (length (select_where (active_seat (sw_id l)) (t_license_assignments d))) in
      \<lparr>ut_license = sw_id l, ut_name = sw_name l, ut_vendor = sw_vendor l, ut_seat_count = sw_seat_count l,
       ut_used = used, ut_available = map_option (\<lambda>n. n - used) (sw_seat_count l),
       ut_pct = (case sw_seat_count l of None \<Rightarrow> None | Some n \<Rightarrow> if n > 0 then Some (percent used n) else None),
       ut_spend_cents = map_option (\<lambda>c. used * c) (sw_cost_cents l)\<rparr>)"

definition license_getUtilization :: "license_utilization list svc" where
  "license_getUtilization = query (\<lambda>d. map (utilization d) (t_software_licenses d))"

section \<open>Service\<close>

definition license_audit :: "actor \<Rightarrow> string \<Rightarrow> string \<Rightarrow> uuid \<Rightarrow> jobject \<Rightarrow> unit svc" where
  "license_audit actor action resourceType resourceId metadata =
     audit_record (Some (ac_sub actor)) (Some (ac_email actor)) action resourceType (Some resourceId) [] metadata"

definition license_create :: "license_input \<Rightarrow> actor \<Rightarrow> software_license svc" where
  "license_create input actor =
     mbind (license_insert input) (\<lambda>license.
     mbind (license_audit actor ''license.created'' ''software_license'' (sw_id license)
              [(''name'', JStr (sw_name license)), (''vendor'', JStr (sw_vendor license))]) (\<lambda>_.
     mret license))"

definition getLicense :: "uuid \<Rightarrow> software_license svc" where
  "getLicense licenseId = mbind (findLicenseById licenseId) (\<lambda>l. or_throw l (NotFoundException NOT_FOUND))"

definition license_update :: "uuid \<Rightarrow> license_patch \<Rightarrow> actor \<Rightarrow> software_license svc" where
  "license_update licenseId input actor =
     mbind (getLicense licenseId) (\<lambda>_.
     mbind (license_update_row licenseId input) (\<lambda>row.
     mbind (or_throw row (NotFoundException NOT_FOUND)) (\<lambda>updated.
     mbind (license_audit actor ''license.updated'' ''software_license'' licenseId []) (\<lambda>_.
     mret updated))))"

definition license_delete :: "uuid \<Rightarrow> actor \<Rightarrow> unit svc" where
  "license_delete licenseId actor =
     mbind (getLicense licenseId) (\<lambda>_.
     mbind (countActiveSeats licenseId) (\<lambda>usedSeats.
     mbind (throw_if (usedSeats > 0) (PreconditionFailedException PRECONDITION_FAILED)) (\<lambda>_.
     mbind (license_delete_row licenseId) (\<lambda>_.
     license_audit actor ''license.deleted'' ''software_license'' licenseId []))))"

definition license_assign :: "uuid \<Rightarrow> uuid \<Rightarrow> string option \<Rightarrow> actor \<Rightarrow> license_assignment svc" where
  "license_assign licenseId employeeId comment actor =
     mbind (getLicense licenseId) (\<lambda>license.
     mbind (findActiveAssignment licenseId employeeId) (\<lambda>existing.
     mbind (throw_if (existing \<noteq> None) (ConflictException CONFLICT)) (\<lambda>_.
     mbind (case sw_seat_count license of
              None \<Rightarrow> mret ()
            | Some n \<Rightarrow> mbind (countActiveSeats licenseId) (\<lambda>used.
                throw_if (int used \<ge> n) (PreconditionFailedException PRECONDITION_FAILED))) (\<lambda>_.
     mbind (seat_insert licenseId employeeId comment) (\<lambda>assignment.
     mbind (license_audit actor ''license.seat_assigned'' ''license_assignment'' (la_id assignment)
              [(''licenseId'', JStr licenseId), (''employeeId'', JStr employeeId)]) (\<lambda>_.
     mret assignment))))))"

definition license_revoke :: "uuid \<Rightarrow> actor \<Rightarrow> unit svc" where
  "license_revoke assignmentId actor =
     mbind (seat_revoke assignmentId) (\<lambda>_.
     license_audit actor ''license.seat_revoked'' ''license_assignment'' assignmentId [])"

definition license_listAssignments :: "uuid \<Rightarrow> bool \<Rightarrow> license_assignment list svc" where
  "license_listAssignments licenseId includeRevoked =
     mbind (getLicense licenseId) (\<lambda>_. seats licenseId includeRevoked)"

end
