(* ===== verification/License_Claims.thy ===== *)
theory License_Claims
  imports Licenses Scenario "HOL-Library.Sublist"
begin

text \<open>
  The seat limit of licenses: no sequence of operations oversubscribes a license or gives an
  employee two seats of it, except a lowering of the limit itself.
\<close>

definition used_seats :: "uuid \<Rightarrow> license_assignment list \<Rightarrow> nat" where
  "used_seats i S = length (select_where (active_seat i) S)"

definition seats_fit :: "software_license list \<Rightarrow> license_assignment list \<Rightarrow> bool" where
  "seats_fit L S \<longleftrightarrow>
     (\<forall>l \<in> set L. \<forall>n. sw_seat_count l = Some n \<longrightarrow> int (used_seats (sw_id l) S) \<le> max 0 n) \<and>
     (\<forall>i. distinct (map la_employee (select_where (active_seat i) S)))"

definition seats_ok :: "world \<Rightarrow> bool" where
  "seats_ok w \<longleftrightarrow> keyed sw_id (t_software_licenses (w_db w)) w \<and>
     la_license ` set (t_license_assignments (w_db w)) \<subseteq> w_uuid w ` {..<w_next w} \<and>
     seats_fit (t_software_licenses (w_db w)) (t_license_assignments (w_db w))"

lemma used_insert: "used_seats i (insert_row a S) = used_seats i S + (if active_seat i a then 1 else 0)"
  by (simp add: used_seats_def)

text \<open>An update that frees seats only: what is left is a subsequence of what there was.\<close>

lemma update_subseq:
  assumes "\<And>a. q (f a) \<Longrightarrow> q a" and "\<And>a. k (f a) = k a"
  shows "subseq (map k (select_where q (update_where p f S))) (map k (select_where q S))"
  unfolding select_where_def using assms by (induction S) auto

lemma distinct_subseq: "subseq xs ys \<Longrightarrow> distinct ys \<Longrightarrow> distinct xs"
  by (induction rule: list_emb.induct) (auto dest: list_emb_set)

lemma seats_fit_insert_license: "seats_fit L S \<Longrightarrow> used_seats (sw_id l) S = 0 \<Longrightarrow> seats_fit (insert_row l L) S"
  by (auto simp: seats_fit_def)

lemma seats_fit_update_license:
  "seats_fit L S \<Longrightarrow> (\<And>l. l \<in> set L \<Longrightarrow> sw_id (f l) = sw_id l) \<Longrightarrow>
   (\<And>l n. l \<in> set L \<Longrightarrow> p l \<Longrightarrow> sw_seat_count (f l) = Some n \<Longrightarrow> int (used_seats (sw_id l) S) \<le> max 0 n) \<Longrightarrow>
   seats_fit (update_where p f L) S"
  by (auto simp: seats_fit_def set_update_where)

lemma seats_fit_delete: "seats_fit L S \<Longrightarrow> seats_fit (delete_where p L) S"
  by (auto simp: seats_fit_def)

lemma seats_fit_revoke:
  assumes "seats_fit L S"
  shows "seats_fit L (update_where p (\<lambda>a. a\<lparr>la_revoked_at := Some t\<rparr>) S)" (is "seats_fit L ?S")
proof -
  have sub: "subseq (map la_employee (select_where (active_seat i) ?S)) (map la_employee (select_where (active_seat i) S))" for i
    by (rule update_subseq) (simp_all add: active_seat_def)
  have le: "int (used_seats i ?S) \<le> int (used_seats i S)" for i
    using list_emb_length [OF sub] by (simp add: used_seats_def)
  have "distinct (map la_employee (select_where (active_seat i) ?S))" for i
    using assms distinct_subseq [OF sub] by (simp add: seats_fit_def)
  with assms show ?thesis
    unfolding seats_fit_def by (blast intro: order_trans [OF le])
qed

lemma seats_fit_assign:
  assumes "seats_fit L S" and "l \<in> set L" and "sw_id l = i" and "distinct (map sw_id L)"
    and "\<And>n. sw_seat_count l = Some n \<Longrightarrow> int (used_seats i S) < n" and "la_license a = i"
    and "\<And>x. x \<in> set S \<Longrightarrow> active_seat i x \<Longrightarrow> la_employee x \<noteq> la_employee a"
  shows "seats_fit L (insert_row a S)"
proof -
  have "int (used_seats (sw_id m) (insert_row a S)) \<le> max 0 n" if "m \<in> set L" "sw_seat_count m = Some n" for m n
  proof (cases "sw_id m = i")
    case True
    with assms that have "m = l" by (metis distinct_map inj_onD)
    with assms that show ?thesis by (fastforce simp: used_insert)
  next
    case False
    with assms that show ?thesis by (auto simp: used_insert seats_fit_def active_seat_def)
  qed
  moreover have "distinct (map la_employee (select_where (active_seat j) (insert_row a S)))" for j
  proof (cases "active_seat j a")
    case True
    then have "j = i" using assms(6) by (simp add: active_seat_def)
    then have "la_employee a \<notin> la_employee ` set (select_where (active_seat j) S)"
      using assms(7) unfolding set_select_where by force
    with assms(1) show ?thesis by (simp add: seats_fit_def del: set_select_where)
  qed (use assms(1) in \<open>simp add: seats_fit_def\<close>)
  ultimately show ?thesis by (simp add: seats_fit_def)
qed

section \<open>The operations\<close>

lemma seats_world:
  assumes "seats_ok w" and "keyed sw_id (t_software_licenses (w_db w')) w'" and "w_uuid w' = w_uuid w" and "w_next w \<le> w_next w'"
    and "la_license ` set (t_license_assignments (w_db w')) \<subseteq> w_uuid w ` {..<w_next w}"
    and "seats_fit (t_software_licenses (w_db w')) (t_license_assignments (w_db w'))"
  shows "seats_ok w'"
proof -
  have "w_uuid w ` {..<w_next w} \<subseteq> w_uuid w' ` {..<w_next w'}"
    using assms(3,4) by (auto intro!: imageI)
  with assms show ?thesis unfolding seats_ok_def by blast
qed

lemmas run_license = license_audit_def audit_record_def mbind_def getLicense_def findLicenseById_def

lemma license_create_seats: "maintains seats_ok (license_create input actor)"
proof (rule keepsI, rule impI)
  fix w assume ok: "seats_ok w"
  let ?L = "t_software_licenses (w_db w)" and ?S = "t_license_assignments (w_db w)"
  have k: "keyed sw_id ?L w" and refs: "la_license ` set ?S \<subseteq> w_uuid w ` {..<w_next w}" and fit: "seats_fit ?L ?S"
    using ok by (simp_all add: seats_ok_def)
  have "inj (w_uuid w)" using k by (simp add: keyed_def)
  then have "w_uuid w (w_next w) \<notin> la_license ` set ?S"
    using refs by (auto dest!: subsetD dest: injD)
  then have "\<forall>r \<in> set ?S. la_license r \<noteq> w_uuid w (w_next w)"
    by (metis image_eqI)
  then have "used_seats (w_uuid w (w_next w)) ?S = 0"
    by (auto simp: used_seats_def select_where_empty_iff active_seat_def)
  then show "seats_ok (snd (license_create input actor w))"
    by (intro seats_world [OF ok])
      (use k refs fit in \<open>auto simp: license_create_def license_insert_def run_license Let_def
        intro!: seats_fit_insert_license keyed_insert [OF k, where n = "w_next w"]\<close>)
qed

lemma license_revoke_seats: "maintains seats_ok (license_revoke i actor)"
proof (rule keepsI, rule impI)
  fix w assume ok: "seats_ok w"
  then have k: "keyed sw_id (t_software_licenses (w_db w)) w" by (simp add: seats_ok_def)
  show "seats_ok (snd (license_revoke i actor w))"
    by (intro seats_world [OF ok])
      (use ok in \<open>auto simp: license_revoke_def seat_revoke_def run_license seats_ok_def set_update_where
        intro!: seats_fit_revoke keyed_later [OF k]\<close>)
qed

lemma license_delete_seats: "maintains seats_ok (license_delete i actor)"
proof (rule keepsI, rule impI)
  fix w assume ok: "seats_ok w"
  then have k: "keyed sw_id (t_software_licenses (w_db w)) w" by (simp add: seats_ok_def)
  then have k': "keyed sw_id (delete_where (\<lambda>l. sw_id l = i) (t_software_licenses (w_db w))) w"
    by (auto simp: keyed_def delete_where_def distinct_map_filter)
  show "seats_ok (snd (license_delete i actor w))"
  proof (cases "find_where (\<lambda>l. sw_id l = i) (t_software_licenses (w_db w)) = None \<or> used_seats i (t_license_assignments (w_db w)) > 0")
    case True
    with ok show ?thesis
      by (cases "find_where (\<lambda>l. sw_id l = i) (t_software_licenses (w_db w))")
        (auto simp: license_delete_def getLicense_def findLicenseById_def countActiveSeats_def used_seats_def)
  next
    case False
    then show ?thesis
      by (intro seats_world [OF ok])
        (use ok k' in \<open>auto simp: license_delete_def run_license countActiveSeats_def used_seats_def license_delete_row_def seats_ok_def
          intro!: seats_fit_delete keyed_later [OF k']\<close>)
  qed
qed

lemma license_assign_seats: "maintains seats_ok (license_assign i e c actor)"
proof (rule keepsI, rule impI)
  fix w assume ok: "seats_ok w"
  let ?L = "t_software_licenses (w_db w)" and ?S = "t_license_assignments (w_db w)"
  have k: "keyed sw_id ?L w" and refs: "la_license ` set ?S \<subseteq> w_uuid w ` {..<w_next w}" and fit: "seats_fit ?L ?S"
    using ok by (simp_all add: seats_ok_def)
  show "seats_ok (snd (license_assign i e c actor w))"
  proof (cases "find_where (\<lambda>l. sw_id l = i) ?L")
    case None
    with ok show ?thesis by (simp add: license_assign_def getLicense_def findLicenseById_def)
  next
    case (Some l)
    note l = find_where_SomeD [OF Some]
    show ?thesis
    proof (cases "find_where (\<lambda>a. la_license a = i \<and> la_employee a = e \<and> la_revoked_at a = None) ?S = None \<and>
        (\<forall>n. sw_seat_count l = Some n \<longrightarrow> int (used_seats i ?S) < n)")
      case True
      have fit': "seats_fit ?L (insert_row a ?S)" if "la_license a = i" "la_employee a = e" for a
        by (rule seats_fit_assign [OF fit, of l i])
          (use l k True that in \<open>auto simp: keyed_def find_where_None_iff active_seat_def\<close>)
      have "i \<in> w_uuid w ` {..<w_next w}"
        using k l by (auto simp: keyed_def)
      with True Some show ?thesis
        by (intro seats_world [OF ok])
          (use refs in \<open>auto simp: license_assign_def run_license findActiveAssignment_def countActiveSeats_def used_seats_def seat_insert_def
            throw_if_def Let_def intro!: fit' keyed_later [OF k] split: option.splits\<close>)
    next
      case False
      with Some ok show ?thesis
        by (auto simp: license_assign_def getLicense_def findLicenseById_def findActiveAssignment_def countActiveSeats_def
            used_seats_def split: option.splits)
    qed
  qed
qed

text \<open>An update may change the limit only to one that the seats in use fit.\<close>

lemma license_update_seats:
  assumes "\<And>n. lp_seat_count p = Some (Some n) \<Longrightarrow> int (used_seats i (t_license_assignments (w_db w))) \<le> max 0 n" and ok: "seats_ok w"
  shows "seats_ok (snd (license_update i p actor w))"
proof -
  have k: "keyed sw_id (t_software_licenses (w_db w)) w" and fit: "seats_fit (t_software_licenses (w_db w)) (t_license_assignments (w_db w))"
    using ok by (simp_all add: seats_ok_def)
  have fit': "seats_fit (update_where (\<lambda>l. sw_id l = i) (patched_license p t) (t_software_licenses (w_db w))) (t_license_assignments (w_db w))" for t
  proof (rule seats_fit_update_license [OF fit])
    fix l n assume l: "l \<in> set (t_software_licenses (w_db w))" "sw_id l = i" "sw_seat_count (patched_license p t l) = Some n"
    then show "int (used_seats (sw_id l) (t_license_assignments (w_db w))) \<le> max 0 n"
      using assms(1) [of n] fit by (cases "lp_seat_count p") (auto simp: patched_license_def patched_def seats_fit_def)
  qed (simp add: patched_license_def)
  show ?thesis
  proof (cases "find_where (\<lambda>l. sw_id l = i) (t_software_licenses (w_db w))")
    case None
    with ok show ?thesis by (simp add: license_update_def getLicense_def findLicenseById_def)
  next
    case (Some l)
    have keep: "sw_id (patched_license p t l) = sw_id l" for t l by (simp add: patched_license_def)
    show ?thesis
      by (intro seats_world [OF ok])
        (use Some ok fit' in \<open>auto simp: license_update_def license_update_row_def run_license seats_ok_def keep
          find_where_update_key [where k = sw_id, OF keep] intro!: keyed_update keyed_later [OF k]\<close>)
  qed
qed

section \<open>Runs of the license service\<close>

inductive license_step :: "world \<Rightarrow> world \<Rightarrow> bool" where
  lstep_create: "license_step w (snd (license_create input actor w))"
| lstep_assign: "license_step w (snd (license_assign i e c actor w))"
| lstep_revoke: "license_step w (snd (license_revoke a actor w))"
| lstep_delete: "license_step w (snd (license_delete i actor w))"
| lstep_update: "\<forall>n. lp_seat_count p = Some (Some n) \<longrightarrow> int (used_seats i (t_license_assignments (w_db w))) \<le> max 0 n \<Longrightarrow>
    license_step w (snd (license_update i p actor w))"
| lstep_clock: "license_step w (w\<lparr>w_now := t\<rparr>)"

lemma license_step_seats: "license_step w w' \<Longrightarrow> seats_ok w \<Longrightarrow> seats_ok w'"
proof (induction rule: license_step.induct)
  case (lstep_update p i w actor)
  then show ?case by (intro license_update_seats) simp_all
next
  case (lstep_clock w t)
  then show ?case by (simp add: seats_ok_def keyed_def)
qed (use license_create_seats license_assign_seats license_revoke_seats license_delete_seats in \<open>auto simp: keeps_def\<close>)

lemma license_run_seats: "license_step\<^sup>*\<^sup>* w w' \<Longrightarrow> seats_ok w \<Longrightarrow> seats_ok w'"
  by (induction rule: rtranclp_induct) (auto intro: license_step_seats)

lemma percent_bounds:
  assumes "0 < n" and "0 \<le> u" and "u \<le> n"
  shows "0 \<le> percent u n \<and> percent u n \<le> 100"
proof
  show "0 \<le> percent u n"
    using assms by (simp add: percent_def pos_imp_zdiv_nonneg_iff)
  have "percent u n \<le> (n + 100 * (2 * n)) div (2 * n)"
    unfolding percent_def using assms by (intro zdiv_mono1) simp_all
  also have "\<dots> = 100 + n div (2 * n)"
    using assms div_mult_self1 [of "2 * n" n 100] by simp
  finally show "percent u n \<le> 100"
    using assms by simp
qed


text \<open>A license with one seat, handed out.\<close>

definition editor :: software_license where
  "editor = \<lparr>sw_id = sample_uuid 0, sw_name = ''Editor'', sw_vendor = ''V'', sw_type = Lic_per_seat, sw_seat_count = Some 1,
     sw_cost_cents = None, sw_renewal_date = None, sw_status = Lis_active, sw_notes = None, sw_external_id = None,
     sw_created_at = 0, sw_updated_at = 0\<rparr>"

definition editor_world :: world where
  "editor_world = base_world\<lparr>w_next := 1, w_db := base_db\<lparr>t_software_licenses := [editor]\<rparr>\<rparr>"


end
