(* ===== verification/Auth.thy ===== *)
theory Auth
  imports Employees Authz_Admin
begin

text \<open>
  The authentication service (\<^verbatim>\<open>auth.service.ts\<close>): development login, login with an Entra
  identity token, rotation of refresh tokens and logout.  The hash, the random bytes, the
  verification and the signing of tokens are parameters, as is the configuration.
\<close>

section \<open>Settings and parameters\<close>

record token_claims =
  tcl_jti :: uuid
  tcl_sub :: uuid
  tcl_email :: string
  tcl_name :: string
  tcl_roles :: "string list"

record auth_env =
  au_hash :: "string \<Rightarrow> string"
  au_raw :: "nat \<Rightarrow> string"
  au_verify :: "string \<Rightarrow> timestamp \<Rightarrow> exn + jobject"
  au_sign :: "token_claims \<Rightarrow> timestamp \<Rightarrow> exn + string"
  au_tenant :: "string option"
  au_client :: "string option"
  au_refresh_days :: int
  au_access_expiry :: string

record token_result =
  to_access :: string
  to_expires_in :: int
  to_refresh :: string

definition SESSION_REVOKE_TTL :: int where
  "SESSION_REVOKE_TTL = 15 * 60"

definition unit_seconds :: "char \<Rightarrow> int option" where
  "unit_seconds c = map_of [(CHR ''s'', 1), (CHR ''m'', 60), (CHR ''h'', 3600), (CHR ''d'', 86400)] c"

text \<open>\<^verbatim>\<open>/^(\d+)(s|m|h|d)$/\<close> on the trimmed text: digits, at least one, and a unit.\<close>

definition parseExpiryToSeconds :: "string \<Rightarrow> int" where
  "parseExpiryToSeconds expiry =
     (let s = js_trim expiry in
      if length s < 2 then SESSION_REVOKE_TTL
      else case (digits_value 0 (butlast s), unit_seconds (last s)) of
             (Some n, Some u) \<Rightarrow> int n * u
           | _ \<Rightarrow> SESSION_REVOKE_TTL)"

definition randomToken :: "auth_env \<Rightarrow> string svc" where
  "randomToken env w = (Inr (au_raw env (w_next w)), w\<lparr>w_next := Suc (w_next w)\<rparr>)"

definition cache_revoke_session :: "uuid \<Rightarrow> int \<Rightarrow> unit svc" where
  "cache_revoke_session sessionId ttlSeconds =
     mbind now (\<lambda>t. mmodify (w_cache_update (\<lambda>c.
       if c_enabled c then c\<lparr>c_revoked_session := (c_revoked_session c)(sessionId \<mapsto> t + ttlSeconds * 1000)\<rparr> else c)))"

section \<open>The service\<close>

definition assertActive :: "employee \<Rightarrow> unit svc" where
  "assertActive employee = throw_if (emp_status employee = Emp_offboarded) (UnauthorizedException EMPLOYEE_INACTIVE)"

definition mintTokens :: "auth_env \<Rightarrow> employee \<Rightarrow> uuid \<Rightarrow> token_result svc" where
  "mintTokens env employee familyId =
     mbind newId (\<lambda>sessionId.
     mbind (randomToken env) (\<lambda>rawRefreshToken.
     mbind now (\<lambda>t.
     mbind (token_create sessionId (emp_id employee) (au_hash env rawRefreshToken) familyId
              (t + au_refresh_days env * 86400000)) (\<lambda>_.
     mbind (outside_call (au_sign env \<lparr>tcl_jti = sessionId, tcl_sub = emp_id employee, tcl_email = emp_email employee,
              tcl_name = emp_display_name employee, tcl_roles = emp_roles employee\<rparr>)) (\<lambda>accessToken.
     mret \<lparr>to_access = accessToken, to_expires_in = parseExpiryToSeconds (au_access_expiry env),
           to_refresh = rawRefreshToken\<rparr>)))))"

definition login_audit :: "string \<Rightarrow> employee \<Rightarrow> jobject \<Rightarrow> unit svc" where
  "login_audit action employee metadata =
     audit_record (Some (emp_id employee)) (Some (emp_email employee)) action ''session'' None [] metadata"

definition devLogin :: "auth_env \<Rightarrow> string \<Rightarrow> token_result svc" where
  "devLogin env email =
     mbind (findByEmail (toLowerCase email)) (\<lambda>found.
     mbind (or_throw found (UnauthorizedException AUTH_INVALID_CREDENTIALS)) (\<lambda>employee.
     mbind (assertActive employee) (\<lambda>_.
     mbind newId (\<lambda>familyId.
     mbind (mintTokens env employee familyId) (\<lambda>result.
     mbind (login_audit ''auth.login.dev'' employee [(''email'', JStr (emp_email employee))]) (\<lambda>_.
     mret result))))))"

text \<open>Claims are texts or absent; \<^verbatim>\<open>a ?? b\<close> takes the first that is present.\<close>

definition claim :: "jobject \<Rightarrow> string \<Rightarrow> string option" where
  "claim claims k = jstr (jfield claims k)"

definition entra_roles :: "jobject \<Rightarrow> string list" where
  "entra_roles claims = (case jfield claims ''roles'' of JArr xs \<Rightarrow> List.map_filter jstr xs | _ \<Rightarrow> [''employee''])"

definition entraLogin :: "auth_env \<Rightarrow> string \<Rightarrow> token_result svc" where
  "entraLogin env idToken =
     mbind (throw_if (no_key (au_tenant env) \<or> no_key (au_client env)) (UnauthorizedException AUTH_INVALID_CREDENTIALS)) (\<lambda>_.
     mbind (mtry (outside_call (au_verify env idToken)) (\<lambda>_. mthrow (UnauthorizedException AUTH_INVALID_CREDENTIALS))) (\<lambda>claims.
     let oid = claim claims ''oid'';
         email = or_else (claim claims ''preferred_username'') (or_else (claim claims ''email'') (claim claims ''upn''));
         displayName = claim claims ''name'' in
     mbind (throw_if (no_key oid \<or> no_key email) (UnauthorizedException AUTH_INVALID_CREDENTIALS)) (\<lambda>_.
     mbind (upsertByEntraOid (the oid) (toLowerCase (the email))
              (case displayName of Some n \<Rightarrow> n | None \<Rightarrow> takeWhile (\<lambda>c. c \<noteq> CHR ''@'') (the email))) (\<lambda>upserted.
     mbind (or_throw upserted (PlainError ''Cannot read properties of undefined'')) (\<lambda>employee.
     mbind (assertActive employee) (\<lambda>_.
     mbind (syncUserRolesByKeys (emp_id employee) (entra_roles claims)
              \<lparr>ac_sub = emp_id employee, ac_email = emp_email employee\<rparr>) (\<lambda>effectiveRoles.
     mbind newId (\<lambda>familyId.
     mbind (mintTokens env (employee\<lparr>emp_roles := effectiveRoles\<rparr>) familyId) (\<lambda>result.
     mbind (login_audit ''auth.login.sso'' employee
              [(''email'', JStr (emp_email employee)), (''entraOid'', JStr (the oid))]) (\<lambda>_.
     mret result))))))))))"

definition refresh :: "auth_env \<Rightarrow> string \<Rightarrow> token_result svc" where
  "refresh env rawToken =
     mbind (findByHash (au_hash env rawToken)) (\<lambda>found.
     mbind (or_throw found (UnauthorizedException AUTH_INVALID_CREDENTIALS)) (\<lambda>stored.
     if rt_revoked stored
     then mbind (revokeFamily (rt_family stored)) (\<lambda>_.
          mbind (audit_record (Some (rt_employee stored)) None ''auth.token_theft_detected'' ''session''
                   (Some (rt_family stored)) [] [(''familyId'', JStr (rt_family stored))]) (\<lambda>_.
          mthrow (UnauthorizedException AUTH_INVALID_CREDENTIALS)))
     else mbind now (\<lambda>t.
          mbind (throw_if (rt_expires_at stored < t) (UnauthorizedException AUTH_INVALID_CREDENTIALS)) (\<lambda>_.
          mbind (revokeById (rt_id stored)) (\<lambda>_.
          mbind (findEmployeeById (rt_employee stored)) (\<lambda>owner.
          mbind (or_throw owner (UnauthorizedException AUTH_INVALID_CREDENTIALS)) (\<lambda>employee.
          mbind (assertActive employee) (\<lambda>_.
          mintTokens env employee (rt_family stored)))))))))"

definition logout :: "auth_env \<Rightarrow> string \<Rightarrow> int option \<Rightarrow> unit svc" where
  "logout env rawToken accessTokenExp =
     mbind (findByHash (au_hash env rawToken)) (\<lambda>found.
     case found of
       None \<Rightarrow> mret ()
     | Some stored \<Rightarrow>
         if rt_revoked stored then mret ()
         else mbind (revokeById (rt_id stored)) (\<lambda>_.
              mbind now (\<lambda>t.
              let ttlSeconds = (case accessTokenExp of
                    None \<Rightarrow> SESSION_REVOKE_TTL
                  | Some e \<Rightarrow> if e = 0 then SESSION_REVOKE_TTL else max 1 (e - t div 1000)) in
              mbind (cache_revoke_session (rt_id stored) ttlSeconds) (\<lambda>_.
              audit_record (Some (rt_employee stored)) None ''auth.logout'' ''session'' (Some (rt_id stored)) []
                [(''sessionId'', JStr (rt_id stored))]))))"

section \<open>Running the parameters\<close>

lemma mbind_verified:
  "f (w_now w) = Inr x \<Longrightarrow> mbind (mtry (outside_call f) h) k w = k x w"
  "f (w_now w) = Inl e \<Longrightarrow> mbind (mtry (outside_call f) h) k w = mbind (h e) k w"
  by (simp_all add: mbind_def mtry_def outside_call_def)

lemma mbind_random: "mbind (randomToken env) k w = k (au_raw env (w_next w)) (w\<lparr>w_next := Suc (w_next w)\<rparr>)"
  by (simp add: mbind_def randomToken_def)

lemma mbind_outside: "mbind (outside_call (\<lambda>t. Inr x)) k w = k x w"
  by (simp add: mbind_def outside_call_def)

end
