(* ===== verification/Auth_Claims.thy ===== *)
theory Auth_Claims
  imports Auth Offboarding Scenario
begin

text \<open>
  Properties of the sessions: the rotation of refresh tokens keeps at most one live token per
  login, replaying a spent one ends the whole family, and a login through Entra makes the global
  roles of the user those of the token.
\<close>

section \<open>Families of refresh tokens\<close>

definition live :: "uuid \<Rightarrow> refresh_token list \<Rightarrow> refresh_token list" where
  "live F T = select_where (\<lambda>r. rt_family r = F \<and> \<not> rt_revoked r) T"

definition drawn :: "world \<Rightarrow> uuid set" where
  "drawn w = w_uuid w ` {..<w_next w}"

definition tokens_ok :: "world \<Rightarrow> bool" where
  "tokens_ok w \<longleftrightarrow> keyed rt_id (t_refresh_tokens (w_db w)) w \<and> rt_family ` set (t_refresh_tokens (w_db w)) \<subseteq> drawn w \<and>
     (\<forall>F. length (live F (t_refresh_tokens (w_db w))) \<le> 1)"

text \<open>A family that was used and has no live token.\<close>

definition dead :: "uuid \<Rightarrow> world \<Rightarrow> bool" where
  "dead F w \<longleftrightarrow> F \<in> drawn w \<and> live F (t_refresh_tokens (w_db w)) = []"

definition tok_evolves :: "world \<Rightarrow> world \<Rightarrow> bool" where
  "tok_evolves w w' \<longleftrightarrow> (tokens_ok w \<longrightarrow> tokens_ok w' \<and> (\<forall>F. dead F w \<longrightarrow> dead F w'))"

interpretation tok_evolves: frame_rel tok_evolves
  by unfold_locales (auto simp: tok_evolves_def)

lemma live_insert: "live F (insert_row r T) = live F T @ (if rt_family r = F \<and> \<not> rt_revoked r then [r] else [])"
  by (simp add: live_def)

lemma live_revoke: "live F (update_where p revoked_token T) = filter (\<lambda>r. \<not> p r) (live F T)"
  by (induction T) (auto simp: live_def select_where_def revoked_token_def)

lemma live_delete: "live F (delete_where (\<lambda>r. b r \<and> rt_revoked r) T) = live F T"
  by (induction T) (auto simp: live_def select_where_def delete_where_def)

lemma drawn_mono: "w_uuid w' = w_uuid w \<Longrightarrow> w_next w \<le> w_next w' \<Longrightarrow> drawn w \<subseteq> drawn w'"
  by (auto simp: drawn_def)

text \<open>Revoking tokens, deleting revoked ones and drawing identifiers are harmless.\<close>

lemma tokens_revoked:
  assumes "tokens_ok w" and "w_uuid w' = w_uuid w" and "w_next w \<le> w_next w'"
    and "t_refresh_tokens (w_db w') = update_where p revoked_token (t_refresh_tokens (w_db w))"
  shows "tokens_ok w' \<and> (\<forall>F. dead F w \<longrightarrow> dead F w')"
proof -
  have k: "keyed rt_id (t_refresh_tokens (w_db w)) w" using assms(1) by (simp add: tokens_ok_def)
  have "keyed rt_id (t_refresh_tokens (w_db w')) w'"
    unfolding assms(4) by (intro keyed_update keyed_later [OF k] assms(2,3)) (simp add: revoked_token_def)
  moreover have "rt_family ` set (t_refresh_tokens (w_db w')) = rt_family ` set (t_refresh_tokens (w_db w))"
    unfolding assms(4) using map_update_where [of rt_family revoked_token p "t_refresh_tokens (w_db w)"]
    by (simp add: revoked_token_def) (metis set_map)
  then have "rt_family ` set (t_refresh_tokens (w_db w')) \<subseteq> drawn w'"
    using assms(1) drawn_mono [OF assms(2,3)] unfolding tokens_ok_def by blast
  moreover have "length (live F (t_refresh_tokens (w_db w'))) \<le> 1" for F
    using assms(1) unfolding assms(4) live_revoke tokens_ok_def by (meson length_filter_le le_trans)
  ultimately show ?thesis
    using drawn_mono [OF assms(2,3)] by (auto simp: tokens_ok_def dead_def live_revoke assms(4))
qed

lemma tokens_same:
  assumes "tokens_ok w" and "w_uuid w' = w_uuid w" and "w_next w \<le> w_next w'"
    and "t_refresh_tokens (w_db w') = t_refresh_tokens (w_db w)"
  shows "tokens_ok w' \<and> (\<forall>F. dead F w \<longrightarrow> dead F w')"
  using tokens_revoked [OF assms(1-3), of "\<lambda>_. False"] assms(4) by (simp add: update_where_def)

lemma tokens_purged:
  assumes "tokens_ok w" and "t_refresh_tokens (w_db w') = delete_where (\<lambda>r. b r \<and> rt_revoked r) (t_refresh_tokens (w_db w))"
    and "w_uuid w' = w_uuid w" and "w_next w' = w_next w"
  shows "tokens_ok w' \<and> (\<forall>F. dead F w \<longrightarrow> dead F w')"
proof -
  have "distinct (map rt_id (delete_where q T))" if "distinct (map rt_id T)" for q T
    using that by (simp add: delete_where_def distinct_map_filter)
  with assms show ?thesis
    unfolding tokens_ok_def dead_def drawn_def keyed_def by (auto simp: live_delete)
qed

text \<open>A new token is welcome in a known family without a live one.\<close>

lemma tokens_minted:
  assumes "tokens_ok w" and "live F (t_refresh_tokens (w_db w)) = []" and "F \<in> drawn w" and "rt_family r = F"
    and "rt_id r = w_uuid w (w_next w)" and "w_uuid w' = w_uuid w" and "w_next w < w_next w'"
    and "t_refresh_tokens (w_db w') = insert_row r (t_refresh_tokens (w_db w))"
  shows "tokens_ok w'" and "dead G w \<Longrightarrow> G \<noteq> F \<Longrightarrow> dead G w'"
proof -
  have k: "keyed rt_id (t_refresh_tokens (w_db w)) w" using assms(1) by (simp add: tokens_ok_def)
  have sub: "drawn w \<subseteq> drawn w'" using drawn_mono assms(6,7) by simp
  have "keyed rt_id (t_refresh_tokens (w_db w')) w'"
    unfolding assms(8) by (rule keyed_insert [OF k assms(5)]) (use assms(6,7) in simp_all)
  then show "tokens_ok w'"
    using assms sub by (auto simp: tokens_ok_def live_insert)
  show "dead G w'" if "dead G w" "G \<noteq> F"
    using that assms(4) sub by (auto simp: dead_def assms(8) live_insert)
qed

section \<open>The steps of the services\<close>

text \<open>Steps that leave the tokens alone.\<close>

definition token_view :: "world \<Rightarrow> world \<Rightarrow> bool" where
  "token_view w w' \<longleftrightarrow> t_refresh_tokens (w_db w') = t_refresh_tokens (w_db w) \<and> w_uuid w' = w_uuid w \<and> w_next w \<le> w_next w'"

interpretation token_view: frame_rel token_view
  by unfold_locales (auto simp: token_view_def)

lemma token_view_evolves: "keeps token_view m \<Longrightarrow> keeps tok_evolves m"
  unfolding keeps_def token_view_def tok_evolves_def using tokens_same by blast

lemma token_view_transaction: "keeps token_view m \<Longrightarrow> keeps token_view (transaction m)"
proof (rule keepsI)
  fix w assume m: "keeps token_view m"
  obtain r w1 where w1: "m w = (r, w1)" by (cases "m w")
  with keepsD [OF m w1] show "token_view w (snd (transaction m w))"
    by (cases r) (simp_all add: transaction_def token_view_def)
qed

lemma token_view_exec: "(\<And>d. t_refresh_tokens (u d) = t_refresh_tokens d) \<Longrightarrow> keeps token_view (exec u)"
  by (simp add: keeps_def token_view_def)

lemma token_view_steps:
  "keeps token_view (outside_call f)" "keeps token_view (query q)" "keeps token_view now" "keeps token_view newId"
  "keeps token_view (audit_record ac em an rt re ch me)" "keeps token_view (mmodify (w_cache_update c))"
  by (auto simp: keeps_def token_view_def outside_call_def audit_record_def mbind_def)

lemmas token_view_rules = token_view_steps token_view_transaction token_view_exec token_view.keeps_rules token_view.keeps_try

lemma invalidate_token_view: "keeps token_view (invalidate u)"
  by (simp add: invalidate_def keeps_def token_view_def)

lemma admin_token_view:
  "keeps token_view (syncUserRolesByKeys u ks actor)" "keeps token_view (upsertByEntraOid oid email name)"
  unfolding syncUserRolesByKeys_def role_list_def listForUser_def assignment_assign_def findEquivalent_def assignment_revoke_def
    syncEmployeeRoleClaims_def authz_audit_def upsertByEntraOid_def findByEntraOid_def email_free_def findByEmail_def
    findEmployeeById_def createEmployee_row_def Let_def
  by (intro token_view_rules invalidate_token_view; simp)+

lemma directory_token_view:
  "keeps token_view (findByEmail e)" "keeps token_view (assertActive x)" "keeps token_view (findEmployeeById i)"
  "keeps token_view (updateStatus_row i st)" "keeps token_view (getEmployee i)" "keeps token_view (cache_revoke_employee i ttl)"
  "keeps token_view (cache_clear_employee i)" "keeps token_view (cache_revoke_session i ttl)" "keeps token_view (findByHash h)"
  unfolding findByEmail_def assertActive_def findEmployeeById_def updateStatus_row_def getEmployee_def cache_revoke_employee_def
    cache_clear_employee_def cache_revoke_session_def findByHash_def
  by (intro token_view_rules; simp)+

lemma revoking_steps:
  "keeps tok_evolves (revokeById i)" "keeps tok_evolves (revokeFamily F)" "keeps tok_evolves (revokeAllForEmployee i)"
  "keeps tok_evolves (tokens_deleteExpiredBefore t)"
  by (auto simp: keeps_def tok_evolves_def revokeById_def revokeFamily_def revokeAllForEmployee_def tokens_deleteExpiredBefore_def
      intro: tokens_revoked [THEN conjunct1] tokens_revoked [THEN conjunct2, rule_format]
        tokens_purged [THEN conjunct1] tokens_purged [THEN conjunct2, rule_format])

text \<open>Minting inserts one live token of the family, or nothing when its hash is taken.\<close>

lemma mint_effect:
  assumes "mintTokens env e F w = (r, w')"
  obtains (taken) "t_refresh_tokens (w_db w') = t_refresh_tokens (w_db w)" and "\<exists>x. r = Inl x" and "token_view w w'"
  | (minted) n where "t_refresh_tokens (w_db w') = insert_row n (t_refresh_tokens (w_db w))" and "w_uuid w' = w_uuid w"
      and "w_next w < w_next w'" and "rt_id n = w_uuid w (w_next w)" and "rt_family n = F" and "\<not> rt_revoked n"
      and "rt_employee n = emp_id e" and "rt_expires_at n = w_now w + au_refresh_days env * 86400000"
      and "\<And>x. r = Inr x \<Longrightarrow> rt_hash n = au_hash env (to_refresh x)"
  using assms
  by (auto simp: mintTokens_def randomToken_def token_create_def outside_call_def mbind_def token_view_def
      split: if_splits sum.splits option.splits)

lemma mint_known:
  assumes "mintTokens env e F w = (r, w')" and "tokens_ok w" and "live F (t_refresh_tokens (w_db w)) = []" and "F \<in> drawn w"
  shows "tokens_ok w' \<and> (\<forall>G. dead G w \<longrightarrow> G \<noteq> F \<longrightarrow> dead G w')"
  using assms(1)
proof (cases rule: mint_effect)
  case taken
  then show ?thesis using tokens_same [OF assms(2)] by (auto simp: token_view_def)
next
  case (minted n)
  then show ?thesis using tokens_minted [OF assms(2-4)] by blast
qed

lemma keeps_fresh_mint:
  assumes "\<And>x. keeps tok_evolves (k x)"
  shows "keeps tok_evolves (mbind newId (\<lambda>F. mbind (mintTokens env e F) k))"
proof (rule keepsI)
  fix w :: world
  let ?F = "w_uuid w (w_next w)" and ?w1 = "w\<lparr>w_next := Suc (w_next w)\<rparr>"
  obtain r w2 where run: "mintTokens env e ?F ?w1 = (r, w2)" by fastforce
  have "tok_evolves w w2"
    unfolding tok_evolves_def
  proof (rule impI)
    assume ok: "tokens_ok w"
    have inj: "inj (w_uuid w)" using ok by (simp add: tokens_ok_def keyed_def)
    then have fresh: "?F \<notin> drawn w" by (auto simp: drawn_def dest: injD)
    have ok1: "tokens_ok ?w1" "\<forall>G. dead G w \<longrightarrow> dead G ?w1"
      using tokens_same [OF ok, of ?w1] by simp_all
    have "live ?F (t_refresh_tokens (w_db ?w1)) = []"
      using ok fresh by (auto simp: tokens_ok_def live_def select_where_empty_iff)
    moreover have "?F \<in> drawn ?w1" by (auto simp: drawn_def)
    ultimately show "tokens_ok w2 \<and> (\<forall>G. dead G w \<longrightarrow> dead G w2)"
      using mint_known [OF run ok1(1)] ok1(2) fresh by (metis dead_def)
  qed
  moreover have "tok_evolves w2 (snd (mbind (mintTokens env e ?F) k ?w1))"
    using assms tok_evolves.rel_refl by (cases r) (simp_all add: mbind_def run keeps_def)
  ultimately show "tok_evolves w (snd (mbind newId (\<lambda>F. mbind (mintTokens env e F) k) w))"
    by (auto intro: tok_evolves.rel_trans)
qed

lemma live_known:
  assumes "tokens_ok w" and "r \<in> set (t_refresh_tokens (w_db w))" and "\<not> rt_revoked r"
  shows "live (rt_family r) (t_refresh_tokens (w_db w)) = [r]" and "rt_family r \<in> drawn w"
proof -
  have "r \<in> set (live (rt_family r) (t_refresh_tokens (w_db w)))"
    using assms(2,3) by (simp add: live_def)
  moreover have "length (live (rt_family r) (t_refresh_tokens (w_db w))) \<le> 1"
    using assms(1) by (simp add: tokens_ok_def)
  ultimately show "live (rt_family r) (t_refresh_tokens (w_db w)) = [r]"
    by (cases "live (rt_family r) (t_refresh_tokens (w_db w))") auto
  show "rt_family r \<in> drawn w"
    using assms(1,2) by (auto simp: tokens_ok_def)
qed

text \<open>The part of a rotation after the token was found usable.\<close>

definition rotate :: "auth_env \<Rightarrow> refresh_token \<Rightarrow> token_result svc" where
  "rotate env stored = mbind (revokeById (rt_id stored)) (\<lambda>_.
     mbind (findEmployeeById (rt_employee stored)) (\<lambda>owner.
     mbind (or_throw owner (UnauthorizedException AUTH_INVALID_CREDENTIALS)) (\<lambda>employee.
     mbind (assertActive employee) (\<lambda>_.
     mintTokens env employee (rt_family stored)))))"

lemma rotate_evolves:
  assumes "stored \<in> set (t_refresh_tokens (w_db w))" and "\<not> rt_revoked stored"
  shows "tok_evolves w (snd (rotate env stored w))"
  unfolding tok_evolves_def
proof (rule impI)
  assume ok: "tokens_ok w"
  let ?F = "rt_family stored"
  let ?w1 = "w\<lparr>w_db := t_refresh_tokens_update (update_where (\<lambda>r. rt_id r = rt_id stored) revoked_token) (w_db w)\<rparr>"
  note one = live_known [OF ok assms]
  have ok1: "tokens_ok ?w1" "\<forall>G. dead G w \<longrightarrow> dead G ?w1"
    using tokens_revoked [OF ok, of ?w1] by simp_all
  have gone: "live ?F (t_refresh_tokens (w_db ?w1)) = []"
    using one(1) by (simp add: live_revoke)
  have "drawn ?w1 = drawn w" by (simp add: drawn_def)
  then have goal: "tokens_ok w2 \<and> (\<forall>G. dead G w \<longrightarrow> dead G w2)" if "mintTokens env e ?F ?w1 = (r, w2)" for e r w2
    using mint_known [OF that ok1(1) gone] one ok1(2) by (auto simp: dead_def)
  show "tokens_ok (snd (rotate env stored w)) \<and> (\<forall>G. dead G w \<longrightarrow> dead G (snd (rotate env stored w)))"
  proof (cases "find_where (\<lambda>e. emp_id e = rt_employee stored) (t_employees (w_db w))")
    case None
    with ok1 show ?thesis by (simp add: rotate_def revokeById_def findEmployeeById_def)
  next
    case (Some e)
    show ?thesis
    proof (cases "emp_status e = Emp_offboarded")
      case True
      with Some ok1 show ?thesis by (simp add: rotate_def revokeById_def findEmployeeById_def assertActive_def)
    next
      case False
      obtain r w2 where "mintTokens env e ?F ?w1 = (r, w2)" by fastforce
      with goal [OF this] Some False show ?thesis
        by (simp add: rotate_def revokeById_def findEmployeeById_def assertActive_def)
    qed
  qed
qed

lemma refresh_eq:
  "refresh env raw w = (case find_where (\<lambda>r. rt_hash r = au_hash env raw) (t_refresh_tokens (w_db w)) of
     None \<Rightarrow> (Inl (UnauthorizedException AUTH_INVALID_CREDENTIALS), w)
   | Some stored \<Rightarrow>
       if rt_revoked stored
       then mbind (revokeFamily (rt_family stored)) (\<lambda>_.
            mbind (audit_record (Some (rt_employee stored)) None ''auth.token_theft_detected'' ''session''
                   (Some (rt_family stored)) [] [(''familyId'', JStr (rt_family stored))]) (\<lambda>_.
            mthrow (UnauthorizedException AUTH_INVALID_CREDENTIALS))) w
       else if rt_expires_at stored < w_now w then (Inl (UnauthorizedException AUTH_INVALID_CREDENTIALS), w)
       else rotate env stored w)"
  by (simp add: refresh_def findByHash_def rotate_def split: option.split)

lemma refresh_evolves: "keeps tok_evolves (refresh env raw)"
proof (rule keepsI)
  fix w
  show "tok_evolves w (snd (refresh env raw w))"
  proof (cases "find_where (\<lambda>r. rt_hash r = au_hash env raw) (t_refresh_tokens (w_db w))")
    case None
    then show ?thesis by (simp add: refresh_eq tok_evolves.rel_refl)
  next
    case (Some stored)
    have "keeps tok_evolves (mbind (revokeFamily (rt_family stored)) (\<lambda>_.
            mbind (audit_record (Some (rt_employee stored)) None ''auth.token_theft_detected'' ''session''
                   (Some (rt_family stored)) [] [(''familyId'', JStr (rt_family stored))]) (\<lambda>_.
            (mthrow (UnauthorizedException AUTH_INVALID_CREDENTIALS) :: token_result svc))))"
      by (intro tok_evolves.keeps_rules revoking_steps token_view_steps [THEN token_view_evolves])
    with Some rotate_evolves [of stored w env] find_where_SomeD [OF Some] show ?thesis
      by (simp add: refresh_eq keeps_def tok_evolves.rel_refl)
  qed
qed

lemmas view_evolves = token_view_steps [THEN token_view_evolves] directory_token_view [THEN token_view_evolves]
  admin_token_view [THEN token_view_evolves]

lemma logins_evolve: "keeps tok_evolves (devLogin env email)" "keeps tok_evolves (entraLogin env idToken)"
  unfolding devLogin_def entraLogin_def login_audit_def Let_def
  by (intro keeps_fresh_mint view_evolves tok_evolves.keeps_rules tok_evolves.keeps_try)+

lemma logout_evolves: "keeps tok_evolves (logout env raw exp)"
  unfolding logout_def Let_def
  by (intro view_evolves revoking_steps tok_evolves.keeps_rules)

lemma updateStatus_evolves: "keeps tok_evolves (updateStatus i st actor)"
  unfolding updateStatus_def identity_audit_def
  by (intro view_evolves revoking_steps tok_evolves.keeps_rules)

lemma offboarding_evolves: "keeps tok_evolves (offboarding_on_approve p q a)"
proof (rule keepsI)
  fix w
  obtain w' where run: "offboarding_on_approve p q a w = (Inr (), w')"
    by (simp add: offboarding_on_approve_def Let_def mbind_eq [OF mark_returned_loop])
  have world: "w_uuid w' = w_uuid w" "w_next w' = w_next w"
    using run by (auto simp: offboarding_on_approve_def Let_def mbind_eq [OF mark_returned_loop])
  have "(\<lambda>r. r\<lparr>rt_revoked := True\<rparr>) = revoked_token"
    by (simp add: revoked_token_def fun_eq_iff)
  with run show "tok_evolves w (snd (offboarding_on_approve p q a w))"
    using tokens_revoked [of w w'] world offboarding_effect(6) [OF run refl] by (simp add: tok_evolves_def)
qed

text \<open>Everything in the system that touches refresh tokens, at any time and in any order.\<close>

inductive auth_step :: "auth_env \<Rightarrow> world \<Rightarrow> world \<Rightarrow> bool" for env where
  astep_dev: "auth_step env w (snd (devLogin env email w))"
| astep_entra: "auth_step env w (snd (entraLogin env idToken w))"
| astep_refresh: "auth_step env w (snd (refresh env raw w))"
| astep_logout: "auth_step env w (snd (logout env raw exp w))"
| astep_status: "auth_step env w (snd (updateStatus i st actor w))"
| astep_offboarding: "auth_step env w (snd (offboarding_on_approve p q a w))"
| astep_purge: "auth_step env w (snd (tokens_deleteExpiredBefore t w))"
| astep_clock: "auth_step env w (w\<lparr>w_now := t\<rparr>)"

lemma auth_step_evolves: "auth_step env w w' \<Longrightarrow> tok_evolves w w'"
proof (induction rule: auth_step.induct)
  case (astep_clock w t)
  then show ?case using tokens_same [of w "w\<lparr>w_now := t\<rparr>"] by (simp add: tok_evolves_def)
qed (use logins_evolve refresh_evolves logout_evolves updateStatus_evolves offboarding_evolves revoking_steps in \<open>simp_all add: keeps_def\<close>)

lemma auth_run_evolves: "(auth_step env)\<^sup>*\<^sup>* w w' \<Longrightarrow> tok_evolves w w'"
  by (induction rule: rtranclp_induct) (auto intro: tok_evolves.rel_refl tok_evolves.rel_trans auth_step_evolves)

section \<open>Rotation and replay\<close>

lemma select_update_off:
  "(\<And>r. r \<in> set T \<Longrightarrow> p r \<Longrightarrow> \<not> q r \<and> \<not> q (f r)) \<Longrightarrow> select_where q (update_where p f T) = select_where q T"
  by (induction T) (auto simp: select_where_def)

text \<open>C25: Rotation: in every state that logins, refreshes, logouts, status changes, offboardings and
  purges can lead to, a login chain has at most one live refresh token.  A refresh that returns
  was given that token, unrevoked and not expired, of an employee who exists and is not
  offboarded; afterwards the live token of the chain is the one returned, for the same employee
  and the configured number of days, and the tokens of all other chains are as they were.\<close>

theorem refresh_rotates:
  assumes "(auth_step env)\<^sup>*\<^sup>* w0 w" and "tokens_ok w0"
  shows "length (live F (t_refresh_tokens (w_db w))) \<le> 1 \<and>
    (refresh env raw w = (Inr x, w') \<longrightarrow>
      (\<exists>old new e. live (rt_family old) (t_refresh_tokens (w_db w)) = [old] \<and> rt_hash old = au_hash env raw \<and>
        w_now w \<le> rt_expires_at old \<and> e \<in> set (t_employees (w_db w)) \<and> emp_id e = rt_employee old \<and>
        emp_status e \<noteq> Emp_offboarded \<and>
        live (rt_family old) (t_refresh_tokens (w_db w')) = [new] \<and> rt_family new = rt_family old \<and>
        rt_employee new = rt_employee old \<and> rt_hash new = au_hash env (to_refresh x) \<and>
        rt_expires_at new = w_now w + au_refresh_days env * 86400000 \<and>
        select_where (\<lambda>r. rt_family r \<noteq> rt_family old) (t_refresh_tokens (w_db w')) =
          select_where (\<lambda>r. rt_family r \<noteq> rt_family old) (t_refresh_tokens (w_db w))))"
proof (intro conjI impI)
  have ok: "tokens_ok w"
    using auth_run_evolves [OF assms(1)] assms(2) by (simp add: tok_evolves_def)
  then show "length (live F (t_refresh_tokens (w_db w))) \<le> 1" by (simp add: tokens_ok_def)
  assume run: "refresh env raw w = (Inr x, w')"
  let ?T = "t_refresh_tokens (w_db w)"
  obtain old where found: "find_where (\<lambda>r. rt_hash r = au_hash env raw) ?T = Some old" and usable: "\<not> rt_revoked old" "w_now w \<le> rt_expires_at old"
    and rot: "rotate env old w = (Inr x, w')"
    using run by (auto simp: refresh_eq audit_record_def revokeFamily_def split: option.splits if_splits)
  note old = find_where_SomeD [OF found]
  let ?w1 = "w\<lparr>w_db := t_refresh_tokens_update (update_where (\<lambda>r. rt_id r = rt_id old) revoked_token) (w_db w)\<rparr>"
  obtain e where e: "find_where (\<lambda>e. emp_id e = rt_employee old) (t_employees (w_db w)) = Some e" "emp_status e \<noteq> Emp_offboarded"
    and mint: "mintTokens env e (rt_family old) ?w1 = (Inr x, w')"
    using rot by (auto simp: rotate_def revokeById_def findEmployeeById_def assertActive_def split: option.splits if_splits)
  note one = live_known [OF ok conjunct1 [OF old] usable(1)]
  have only: "rt_family r = rt_family old" if "r \<in> set ?T" "rt_id r = rt_id old" for r
    using ok old that keyed_only [of rt_id ?T w r old] by (simp add: tokens_ok_def)
  have same: "select_where (\<lambda>r. rt_family r \<noteq> rt_family old) (update_where (\<lambda>r. rt_id r = rt_id old) revoked_token ?T) =
      select_where (\<lambda>r. rt_family r \<noteq> rt_family old) ?T"
    by (intro select_update_off) (simp add: revoked_token_def only)
  show "\<exists>old new e. live (rt_family old) ?T = [old] \<and> rt_hash old = au_hash env raw \<and>
        w_now w \<le> rt_expires_at old \<and> e \<in> set (t_employees (w_db w)) \<and> emp_id e = rt_employee old \<and>
        emp_status e \<noteq> Emp_offboarded \<and>
        live (rt_family old) (t_refresh_tokens (w_db w')) = [new] \<and> rt_family new = rt_family old \<and>
        rt_employee new = rt_employee old \<and> rt_hash new = au_hash env (to_refresh x) \<and>
        rt_expires_at new = w_now w + au_refresh_days env * 86400000 \<and>
        select_where (\<lambda>r. rt_family r \<noteq> rt_family old) (t_refresh_tokens (w_db w')) =
          select_where (\<lambda>r. rt_family r \<noteq> rt_family old) ?T"
    using mint
  proof (cases rule: mint_effect)
    case (minted n)
    with old usable(2) e find_where_SomeD [OF e(1)] one(1) same show ?thesis
      by (intro exI [of _ old] exI [of _ n] exI [of _ e]) (simp add: live_insert live_revoke)
  qed simp
qed

text \<open>C26: Replay: a refresh with a spent token is refused and ends the whole login chain for good: no
  token of that family, old or new, is accepted by any later refresh, whatever logins,
  refreshes, logouts and status changes come in between.\<close>

theorem replay_ends_family:
  assumes "tokens_ok w" and "find_where (\<lambda>r. rt_hash r = au_hash env raw) (t_refresh_tokens (w_db w)) = Some spent" and "rt_revoked spent"
    and "(auth_step env)\<^sup>*\<^sup>* (snd (refresh env raw w)) w''"
    and "find_where (\<lambda>r. rt_hash r = au_hash env raw') (t_refresh_tokens (w_db w'')) = Some r" and "rt_family r = rt_family spent"
  shows "fst (refresh env raw w) = Inl (UnauthorizedException AUTH_INVALID_CREDENTIALS) \<and>
    fst (refresh env raw' w'') = Inl (UnauthorizedException AUTH_INVALID_CREDENTIALS)"
proof -
  have spent: "rt_family spent \<in> drawn w"
    using assms(1,2) by (auto simp: tokens_ok_def dest!: find_where_SomeD)
  have run: "fst (refresh env raw w) = Inl (UnauthorizedException AUTH_INVALID_CREDENTIALS)"
    and T: "t_refresh_tokens (w_db (snd (refresh env raw w))) =
      update_where (\<lambda>r. rt_family r = rt_family spent) revoked_token (t_refresh_tokens (w_db w))"
    and W: "w_uuid (snd (refresh env raw w)) = w_uuid w" "w_next w \<le> w_next (snd (refresh env raw w))"
    using assms(2,3) by (simp_all add: refresh_eq revokeFamily_def audit_record_def)
  have "live (rt_family spent) (t_refresh_tokens (w_db (snd (refresh env raw w)))) = []"
    unfolding T live_revoke by (simp add: live_def select_where_def)
  moreover have "rt_family spent \<in> drawn (snd (refresh env raw w))"
    using spent drawn_mono [OF W] by blast
  ultimately have "dead (rt_family spent) (snd (refresh env raw w))"
    by (simp add: dead_def)
  moreover have "tokens_ok (snd (refresh env raw w))"
    using tokens_revoked [OF assms(1) W T] by simp
  ultimately have "dead (rt_family spent) w''"
    using auth_run_evolves [OF assms(4)] by (simp add: tok_evolves_def)
  then have "rt_revoked r"
    using find_where_SomeD [OF assms(5)] assms(6) by (auto simp: dead_def live_def select_where_empty_iff)
  with assms(5) run show ?thesis
    by (simp add: refresh_eq revokeFamily_def audit_record_def)
qed

section \<open>Witnesses\<close>

text \<open>One login of Alice; the hash is the identity.\<close>

definition plain_env :: auth_env where
  "plain_env = \<lparr>au_hash = (\<lambda>s. s), au_raw = (\<lambda>n. replicate n CHR ''r''), au_verify = (\<lambda>_ _. Inr []),
     au_sign = (\<lambda>_ _. Inr ''jwt''), au_tenant = None, au_client = None, au_refresh_days = 7, au_access_expiry = ''15m''\<rparr>"

definition session :: "bool \<Rightarrow> refresh_token" where
  "session spent = \<lparr>rt_id = sample_uuid 0, rt_employee = ''alice'', rt_hash = ''secret'', rt_family = sample_uuid 1,
     rt_revoked = spent, rt_expires_at = 5000, rt_created_at = 0\<rparr>"

definition session_world :: "bool \<Rightarrow> world" where
  "session_world spent = base_world\<lparr>w_next := 2, w_db := base_db\<lparr>t_refresh_tokens := [session spent],
     t_employees := [\<lparr>emp_id = ''alice'', emp_entra_oid = None, emp_email = ''alice@x'', emp_display_name = ''Alice'',
       emp_department = None, emp_job_title = None, emp_manager = None, emp_roles = [], emp_status = Emp_active,
       emp_photo_key = None, emp_created_at = 0, emp_updated_at = 0\<rparr>]\<rparr>\<rparr>"

lemma session_ok: "tokens_ok (session_world spent)"
  by (auto simp: tokens_ok_def session_world_def session_def base_world_def keyed_def inj_sample_uuid drawn_def live_def select_where_def)

lemma session_refresh: "\<exists>x. fst (refresh plain_env ''secret'' (session_world False)) = Inr x"
  by (simp add: refresh_eq rotate_def revokeById_def findEmployeeById_def assertActive_def mintTokens_def mbind_random mbind_outside
      token_create_def plain_env_def session_world_def session_def revoked_token_def base_world_def replicate_numeral)

theorem refresh_rotates_witness:
  "\<exists>x w' new. refresh plain_env ''secret'' (session_world False) = (Inr x, w') \<and>
     live (sample_uuid 1) (t_refresh_tokens (w_db w')) = [new] \<and> rt_hash new = to_refresh x \<and> rt_employee new = ''alice''"
proof -
  obtain x w' where run: "refresh plain_env ''secret'' (session_world False) = (Inr x, w')"
    using session_refresh by (metis prod.collapse)
  from refresh_rotates [where env = plain_env and F = "sample_uuid 1" and raw = "''secret''" and x = x and w' = w',
      OF rtranclp.rtrancl_refl session_ok] run
  obtain old new where old: "live (rt_family old) (t_refresh_tokens (w_db (session_world False))) = [old]"
    and new: "live (rt_family old) (t_refresh_tokens (w_db w')) = [new]" "rt_hash new = au_hash plain_env (to_refresh x)" "rt_employee new = rt_employee old"
    by blast
  from old have "old = session False"
    by (simp add: session_world_def live_def select_where_def split: if_splits)
  with new run show ?thesis
    by (intro exI [of _ x] exI [of _ w'] exI [of _ new]) (simp add: session_def plain_env_def)
qed

theorem replay_ends_family_witness:
  "fst (refresh plain_env ''secret'' (snd (refresh plain_env ''secret'' (session_world True)))) =
     Inl (UnauthorizedException AUTH_INVALID_CREDENTIALS)"
proof -
  have found: "find_where (\<lambda>r. rt_hash r = au_hash plain_env ''secret'') (t_refresh_tokens (w_db (session_world True))) = Some (session True)"
    "find_where (\<lambda>r. rt_hash r = au_hash plain_env ''secret'') (t_refresh_tokens (w_db (snd (refresh plain_env ''secret'' (session_world True))))) = Some (session True)"
    by (simp_all add: refresh_eq session_world_def session_def plain_env_def revokeFamily_def audit_record_def revoked_token_def)
  have "rt_revoked (session True)" by (simp add: session_def)
  from replay_ends_family [OF session_ok found(1) this rtranclp.rtrancl_refl found(2) refl] show ?thesis by blast
qed

end
