(* ===== verification/Sso_Claims.thy ===== *)
theory Sso_Claims
  imports Auth_Claims Authz_Admin_Claims
begin

text \<open>
  The login through Entra: the reconciliation of the user's global roles with the roles the
  identity token asserts.
\<close>

section \<open>The reconciliation\<close>

definition global_of :: "uuid \<Rightarrow> role_assignment \<Rightarrow> bool" where
  "global_of u a \<longleftrightarrow> ura_user a = u \<and> ura_scope_type a = Scope_global"

definition global_roles :: "uuid \<Rightarrow> role_assignment list \<Rightarrow> uuid set" where
  "global_roles u T = ura_role ` {a \<in> set T. global_of u a}"

lemma global_roles_add: "global_of u a \<Longrightarrow> global_roles u (T @ [a]) = insert (ura_role a) (global_roles u T)"
  by (auto simp: global_roles_def)

lemma assign_global:
  assumes "assignment_assign (global_input u actor r) w = (x, w')" and "keyed ura_id (t_role_assignments (w_db w)) w"
  obtains y rows where "x = Inr y" and "t_role_assignments (w_db w') = t_role_assignments (w_db w) @ rows"
    and "\<forall>a \<in> set rows. global_of u a \<and> ura_role a = r" and "global_roles u (t_role_assignments (w_db w')) = insert r (global_roles u (t_role_assignments (w_db w)))"
    and "keyed ura_id (t_role_assignments (w_db w')) w'" and "t_roles (w_db w') = t_roles (w_db w)" and "w_now w' = w_now w"
    and "t_employees (w_db w') = t_employees (w_db w)"
proof (cases "find_where (equivalent_to (global_input u actor r)) (t_role_assignments (w_db w))")
  case None
  define a :: role_assignment where "a = \<lparr>ura_id = w_uuid w (w_next w), ura_user = u, ura_role = r, ura_scope_type = Scope_global, ura_scope_id = None,
     ura_granted_by = ac_sub actor, ura_expires_at = None, ura_created_at = w_now w\<rparr>"
  have a: "ura_id a = w_uuid w (w_next w)" "global_of u a" "ura_role a = r"
    by (simp_all add: a_def global_of_def)
  have eq: "x = Inr a" "w' = w\<lparr>w_next := Suc (w_next w), w_db := t_role_assignments_update (insert_row a) (w_db w)\<rparr>"
    using assms(1) None by (simp_all add: assignment_assign_def findEquivalent_def global_input_def Let_def a_def)
  have "keyed ura_id (insert_row a (t_role_assignments (w_db w))) w'"
    by (rule keyed_insert [OF assms(2) a(1)]) (simp_all add: eq)
  with a global_roles_add [OF a(2)] show thesis
    by (intro that [of a "[a]"]) (simp_all add: eq insert_row_def)
next
  case (Some a)
  with assms(1) have "x = Inr a" "w' = w"
    by (simp_all add: assignment_assign_def findEquivalent_def)
  then show thesis
    using find_where_SomeD [OF Some] assms(2)
    by (intro that [of a "[]"]) (auto simp: global_roles_def global_of_def equivalent_to_def global_input_def)
qed

lemma assign_all:
  assumes "keyed ura_id (t_role_assignments (w_db w)) w"
  shows "\<exists>w' rows. mfor rs (\<lambda>r. mbind (assignment_assign (global_input u actor r)) (\<lambda>_. mret ())) w = (Inr (), w') \<and>
    t_role_assignments (w_db w') = t_role_assignments (w_db w) @ rows \<and> (\<forall>a \<in> set rows. global_of u a \<and> ura_role a \<in> set rs) \<and>
    global_roles u (t_role_assignments (w_db w')) = set rs \<union> global_roles u (t_role_assignments (w_db w)) \<and>
    keyed ura_id (t_role_assignments (w_db w')) w' \<and> t_roles (w_db w') = t_roles (w_db w) \<and> w_now w' = w_now w \<and>
    t_employees (w_db w') = t_employees (w_db w)"
  using assms
proof (induction rs arbitrary: w)
  case Nil
  then show ?case by (intro exI [of _ w] exI [of _ "[]"]) simp
next
  case (Cons r rs)
  obtain x w1 where run: "assignment_assign (global_input u actor r) w = (x, w1)" by fastforce
  from assign_global [OF run Cons.prems] obtain y rows where x: "x = Inr y"
    and step: "t_role_assignments (w_db w1) = t_role_assignments (w_db w) @ rows" "\<forall>a \<in> set rows. global_of u a \<and> ura_role a = r"
      "global_roles u (t_role_assignments (w_db w1)) = insert r (global_roles u (t_role_assignments (w_db w)))"
      "keyed ura_id (t_role_assignments (w_db w1)) w1" "t_roles (w_db w1) = t_roles (w_db w)" "w_now w1 = w_now w" "t_employees (w_db w1) = t_employees (w_db w)"
    by metis
  from Cons.IH [OF step(4)] obtain w2 rows' where
    "mfor rs (\<lambda>r. mbind (assignment_assign (global_input u actor r)) (\<lambda>_. mret ())) w1 = (Inr (), w2)"
    and "t_role_assignments (w_db w2) = t_role_assignments (w_db w1) @ rows'" "\<forall>a \<in> set rows'. global_of u a \<and> ura_role a \<in> set rs"
      "global_roles u (t_role_assignments (w_db w2)) = set rs \<union> global_roles u (t_role_assignments (w_db w1))"
      "keyed ura_id (t_role_assignments (w_db w2)) w2" "t_roles (w_db w2) = t_roles (w_db w1)" "w_now w2 = w_now w1" "t_employees (w_db w2) = t_employees (w_db w1)"
    by blast
  with run x step show ?case
    by (intro exI [of _ w2] exI [of _ "rows @ rows'"]) (auto simp: mbind_eq [where m = "assignment_assign (global_input u actor r)"] simp del: mret_apply)
qed

lemma revoke_all:
  "mfor L (\<lambda>a. assignment_revoke (ura_id a)) w =
     (Inr (), w\<lparr>w_db := t_role_assignments_update (delete_where (\<lambda>x. ura_id x \<in> ura_id ` set L)) (w_db w)\<rparr>)"
proof (induction L arbitrary: w)
  case Nil
  show ?case by (simp add: delete_where_def)
next
  case (Cons a L)
  have "delete_where (\<lambda>x. ura_id x \<in> ura_id ` set L) (delete_where (\<lambda>x. ura_id x = ura_id a) T) =
      delete_where (\<lambda>x. ura_id x = ura_id a \<or> ura_id x \<in> ura_id ` set L) T" for T :: "role_assignment list"
    by (simp add: delete_where_def conj_commute)
  then have "delete_where (\<lambda>x. ura_id x \<in> ura_id ` set L) \<circ> delete_where (\<lambda>x. ura_id x = ura_id a) =
      (delete_where (\<lambda>x. ura_id x = ura_id a \<or> ura_id x \<in> ura_id ` set L) :: role_assignment list \<Rightarrow> _)"
    by (simp add: fun_eq_iff)
  with Cons show ?case by (simp add: assignment_revoke_def comp_def)
qed

lemma map_filter_set: "set (List.map_filter f xs) = {y. \<exists>x \<in> set xs. f x = Some y}"
  by (auto simp: List.map_filter_def image_iff) force+

lemma set_desired_roles:
  assumes "distinct (map ro_key R)"
  shows "set (desired_roles (map (\<lambda>r. role_toDomain r (P r)) (sort_key ro_key R)) ks) = ro_id ` {r \<in> set R. ro_key r \<in> set ks}"
proof -
  let ?m = "rev (map (\<lambda>r. (rv_key r, rv_id r)) (map (\<lambda>r. role_toDomain r (P r)) (sort_key ro_key R)))"
  have "map fst ?m = rev (map ro_key (sort_key ro_key R))"
    by (simp add: role_toDomain_def rev_map comp_def)
  moreover have "distinct (map ro_key (sort_key ro_key R))"
    using assms by (simp add: distinct_map)
  ultimately have "map_of ?m k = Some i \<longleftrightarrow> (k, i) \<in> set ?m" for k i
    by (intro map_of_eq_Some_iff) (metis distinct_rev)
  then have "map_of ?m k = Some i \<longleftrightarrow> (\<exists>r \<in> set R. ro_key r = k \<and> ro_id r = i)" for k i
    by (auto simp: role_toDomain_def image_iff)
  then show ?thesis
    unfolding desired_roles_def by (auto simp: map_filter_set)
qed

text \<open>Granting the missing roles and dropping the undesired assignments leaves the desired roles.\<close>

lemma reconciled:
  assumes "\<forall>a \<in> N. g a \<and> role a \<in> D" and "role ` {a \<in> T \<union> N. g a} = (D - role ` {a \<in> T. g a}) \<union> role ` {a \<in> T. g a}"
  shows "role ` {a \<in> T \<union> N. g a \<and> \<not> (a \<in> T \<and> g a \<and> role a \<notin> D)} = D"
proof (intro equalityI subsetI)
  fix d assume "d \<in> D"
  then have "d \<in> role ` {a \<in> T \<union> N. g a}"
    unfolding assms(2) by blast
  with \<open>d \<in> D\<close> show "d \<in> role ` {a \<in> T \<union> N. g a \<and> \<not> (a \<in> T \<and> g a \<and> role a \<notin> D)}"
    by blast
qed (use assms(1) in blast)

lemma sync_effect:
  assumes "keyed ura_id (t_role_assignments (w_db w)) w" and "distinct (map ro_key (t_roles (w_db w)))"
  obtains keys w' where "syncUserRolesByKeys u ks actor w = (Inr keys, w')"
    and "global_roles u (t_role_assignments (w_db w')) = ro_id ` {r \<in> set (t_roles (w_db w)). ro_key r \<in> set ks}"
    and "select_where (\<lambda>a. \<not> global_of u a) (t_role_assignments (w_db w')) = select_where (\<lambda>a. \<not> global_of u a) (t_role_assignments (w_db w))"
    and "keys = active_role_keys u (w_now w) (w_db w')" and "cold u w'" and "w_now w' = w_now w"
    and "t_employees (w_db w') = update_where (\<lambda>e. emp_id e = u) (\<lambda>e. e\<lparr>emp_roles := keys, emp_updated_at := w_now w\<rparr>) (t_employees (w_db w))"
proof -
  let ?T = "t_role_assignments (w_db w)"
  let ?D = "desired_roles (map (\<lambda>r. role_toDomain r (permsFor (ro_id r) (w_db w))) (sort_key ro_key (t_roles (w_db w)))) ks"
  let ?cur = "filter (\<lambda>a. ura_scope_type a = Scope_global) (sort_key (\<lambda>a. - ura_created_at a) (select_where (\<lambda>a. ura_user a = u) ?T))"
  let ?new = "filter (\<lambda>r. r \<notin> set (map ura_role ?cur)) ?D"
  let ?old = "filter (\<lambda>a. ura_role a \<notin> set ?D) ?cur"
  have cur: "set ?cur = {a \<in> set ?T. global_of u a}"
    by (auto simp: global_of_def)
  note D = set_desired_roles [OF assms(2), where ks = ks and P = "\<lambda>r. permsFor (ro_id r) (w_db w)"]
  obtain w1 rows where
    one: "mfor ?new (\<lambda>r. mbind (assignment_assign (global_input u actor r)) (\<lambda>_. mret ())) w = (Inr (), w1)"
    and T1: "t_role_assignments (w_db w1) = ?T @ rows" "\<forall>a \<in> set rows. global_of u a \<and> ura_role a \<in> set ?new"
      "global_roles u (t_role_assignments (w_db w1)) = set ?new \<union> global_roles u ?T" "keyed ura_id (t_role_assignments (w_db w1)) w1"
    and keep: "t_roles (w_db w1) = t_roles (w_db w)" "w_now w1 = w_now w" "t_employees (w_db w1) = t_employees (w_db w)"
    using assign_all [OF assms(1), of ?new u actor] by (elim exE conjE) (rule that; assumption)
  let ?T2 = "delete_where (\<lambda>x. ura_id x \<in> ura_id ` set ?old) (?T @ rows)"
  have old: "a \<in> set ?old \<longleftrightarrow> a \<in> set ?T \<and> global_of u a \<and> ura_role a \<notin> set ?D" for a
    by (auto simp: global_of_def)
  have new: "set ?new = set ?D - ura_role ` {a \<in> set ?T. global_of u a}"
    by (auto simp: global_of_def)
  have gone: "ura_id x \<in> ura_id ` set ?old \<longleftrightarrow> x \<in> set ?old" if "x \<in> set (?T @ rows)" for x
  proof
    assume "ura_id x \<in> ura_id ` set ?old"
    then obtain y where "y \<in> set ?old" "ura_id x = ura_id y" by blast
    with keyed_only [OF T1(4), of x y] that old [of y] T1(1) show "x \<in> set ?old" by simp
  qed blast
  have "set ?T2 = {x \<in> set (?T @ rows). x \<notin> set ?old}"
    unfolding set_delete_where by (rule Collect_cong, rule conj_cong [OF refl]) (simp only: gone)
  then have T2: "set ?T2 = {x \<in> set ?T \<union> set rows. \<not> (x \<in> set ?T \<and> global_of u x \<and> ura_role x \<notin> set ?D)}"
    unfolding old set_append .
  have "global_roles u ?T2 = set ?D"
  proof -
    have "global_roles u ?T2 = ura_role ` {a \<in> set ?T \<union> set rows. global_of u a \<and> \<not> (a \<in> set ?T \<and> global_of u a \<and> ura_role a \<notin> set ?D)}"
      unfolding global_roles_def T2 by (rule arg_cong [of _ _ "image ura_role"]) blast
    also have "\<dots> = set ?D"
    proof (rule reconciled)
      show "\<forall>a \<in> set rows. global_of u a \<and> ura_role a \<in> set ?D" using T1(2) by simp
      show "ura_role ` {a \<in> set ?T \<union> set rows. global_of u a} =
          (set ?D - ura_role ` {a \<in> set ?T. global_of u a}) \<union> ura_role ` {a \<in> set ?T. global_of u a}"
        using T1(3) unfolding T1(1) global_roles_def set_append new .
    qed
    finally show ?thesis .
  qed
  moreover have "select_where (\<lambda>a. \<not> global_of u a) ?T2 = select_where (\<lambda>a. \<not> global_of u a) ?T"
  proof -
    have "filter (\<lambda>x. \<not> ura_id x \<in> ura_id ` set ?old \<and> \<not> global_of u x) (?T @ rows) = filter (\<lambda>x. \<not> global_of u x) (?T @ rows)"
      by (rule filter_cong [OF refl]) (simp only: gone old simp_thms, blast)
    moreover have "filter (\<lambda>x. \<not> global_of u x) rows = []"
      using T1(2) by simp
    ultimately show ?thesis
      unfolding select_where_def delete_where_def filter_filter by simp
  qed
  moreover
  define w2 where "w2 = w1\<lparr>w_db := t_role_assignments_update (delete_where (\<lambda>x. ura_id x \<in> ura_id ` set ?old)) (w_db w1)\<rparr>"
  define w3 where "w3 = snd (syncEmployeeRoleClaims u w2)"
  have T3: "t_role_assignments (w_db w3) = ?T2" and now3: "w_now w3 = w_now w"
    and E3: "t_employees (w_db w3) = update_where (\<lambda>e. emp_id e = u)
      (\<lambda>e. e\<lparr>emp_roles := active_role_keys u (w_now w2) (w_db w2), emp_updated_at := w_now w\<rparr>) (t_employees (w_db w))"
    and keys: "active_role_keys u (w_now w2) (w_db w2) = active_role_keys u (w_now w) (w_db w3)"
    using T1(1) keep by (simp_all add: w3_def sync_claims_apply w2_def active_role_keys_frame)
  obtain meta where "syncUserRolesByKeys u ks actor w = mbind (invalidate u) (\<lambda>_.
      mbind (authz_audit actor ''authz.role.synced'' ''employee'' u [] meta) (\<lambda>_. mret (active_role_keys u (w_now w2) (w_db w2)))) w3"
    by (rule that, unfold syncUserRolesByKeys_def role_list_def listForUser_def Let_def mbind_query
        mbind_eq [where m = "mfor ?new (\<lambda>r. mbind (assignment_assign (global_input u actor r)) (\<lambda>_. mret ()))", OF one]
        mbind_eq [where m = "mfor L (\<lambda>a. assignment_revoke (ura_id a))" for L, OF revoke_all] w2_def [symmetric]
        mbind_eq [where m = "syncEmployeeRoleClaims u", OF sync_claims_apply] w3_def sync_claims_apply snd_conv) (rule refl)
  then obtain w' where run: "syncUserRolesByKeys u ks actor w = (Inr (active_role_keys u (w_now w2) (w_db w2)), w')"
    and w': "t_role_assignments (w_db w') = t_role_assignments (w_db w3)" "t_roles (w_db w') = t_roles (w_db w3)"
      "w_now w' = w_now w3" "t_employees (w_db w') = t_employees (w_db w3)" "w_cache w' = w_cache (snd (invalidate u w3))"
    by (auto simp: invalidate_def authz_audit_def audit_record_def split: if_splits)
  have "cold u w'"
    using invalidate_cold [of u w3] w' by (simp add: cold_def cache_get_perms_def invalidate_def split: if_splits)
  moreover have "active_role_keys u (w_now w2) (w_db w2) = active_role_keys u (w_now w) (w_db w')"
    unfolding keys using w' by (simp add: active_role_keys_def)
  ultimately show thesis
    using D w' T3 now3 E3 by (intro that [OF run]) simp_all
qed

section \<open>The login\<close>

lemma upsert_effect:
  assumes "upsertByEntraOid oid email name w = (Inr (Some e), w')"
  shows "e \<in> set (t_employees (w_db w'))" and "emp_entra_oid e = Some oid" and "t_roles (w_db w') = t_roles (w_db w)"
    and "t_role_assignments (w_db w') = t_role_assignments (w_db w)" and "w_uuid w' = w_uuid w" and "w_next w \<le> w_next w'" and "w_now w' = w_now w"
proof -
  have "e \<in> set (t_employees (w_db w')) \<and> emp_entra_oid e = Some oid \<and> t_roles (w_db w') = t_roles (w_db w) \<and>
      t_role_assignments (w_db w') = t_role_assignments (w_db w) \<and> w_uuid w' = w_uuid w \<and> w_next w \<le> w_next w' \<and> w_now w' = w_now w"
  proof (cases "find_where (\<lambda>e. emp_entra_oid e = Some oid) (t_employees (w_db w))")
    case (Some a)
    with assms show ?thesis
      by (auto simp: upsertByEntraOid_def findByEntraOid_def email_free_def dest!: find_where_SomeD split: if_splits)
  next
    case None
    show ?thesis
    proof (cases "find_where (\<lambda>e. emp_email e = toLowerCase (toLowerCase email)) (t_employees (w_db w))")
      case (Some a)
      have "emp_id (b\<lparr>emp_entra_oid := Some oid, emp_display_name := name, emp_updated_at := t\<rparr>) = emp_id b" for b t by simp
      with assms None Some show ?thesis
        by (auto simp: upsertByEntraOid_def findByEntraOid_def findByEmail_def findEmployeeById_def find_where_update_key
            dest!: find_where_SomeD intro!: update_where_in)
    next
      case None': None
      with assms None show ?thesis
        by (auto simp: upsertByEntraOid_def findByEntraOid_def findByEmail_def createEmployee_row_def email_free_def Let_def mbind_def
            split: if_splits)
    qed
  qed
  then show "e \<in> set (t_employees (w_db w'))" "emp_entra_oid e = Some oid" "t_roles (w_db w') = t_roles (w_db w)"
    "t_role_assignments (w_db w') = t_role_assignments (w_db w)" "w_uuid w' = w_uuid w" "w_next w \<le> w_next w'" "w_now w' = w_now w"
    by simp_all
qed

definition roles_view :: "world \<Rightarrow> world \<Rightarrow> bool" where
  "roles_view w w' \<longleftrightarrow> t_role_assignments (w_db w') = t_role_assignments (w_db w) \<and> t_employees (w_db w') = t_employees (w_db w) \<and>
     t_roles (w_db w') = t_roles (w_db w) \<and> w_now w' = w_now w"

interpretation roles_view: frame_rel roles_view
  by unfold_locales (simp_all add: roles_view_def)

lemma session_roles_view: "keeps roles_view (mbind newId (\<lambda>F. mbind (mintTokens env e F) (\<lambda>result.
    mbind (login_audit action e' metadata) (\<lambda>_. mret result))))"
proof -
  have steps: "keeps roles_view newId" "keeps roles_view (randomToken env)" "keeps roles_view now" "keeps roles_view (query q)"
    "keeps roles_view (outside_call f)" "keeps roles_view (audit_record ac em an rt re ch me)"
    "keeps roles_view (exec (t_refresh_tokens_update u))" for q f ac em an rt re ch me u
    by (auto simp: keeps_def roles_view_def randomToken_def outside_call_def audit_record_def mbind_def)
  show ?thesis
    unfolding mintTokens_def token_create_def login_audit_def
    by (intro roles_view.keeps_rules steps)
qed

lemma entra_success:
  assumes "entraLogin env idToken w = (Inr r, w')"
  obtains claims oid e email name w1 keys w2 where "au_verify env idToken (w_now w) = Inr claims" and "claim claims ''oid'' = Some oid"
    and "upsertByEntraOid oid email name w = (Inr (Some e), w1)" and "emp_status e \<noteq> Emp_offboarded"
    and "syncUserRolesByKeys (emp_id e) (entra_roles claims) \<lparr>ac_sub = emp_id e, ac_email = emp_email e\<rparr> w1 = (Inr keys, w2)"
    and "roles_view w2 w'"
proof -
  let ?rest = "\<lambda>claims oid email name. mbind (upsertByEntraOid oid email name) (\<lambda>upserted.
     mbind (or_throw upserted (PlainError ''Cannot read properties of undefined'')) (\<lambda>employee.
     mbind (assertActive employee) (\<lambda>_.
     mbind (syncUserRolesByKeys (emp_id employee) (entra_roles claims)
              \<lparr>ac_sub = emp_id employee, ac_email = emp_email employee\<rparr>) (\<lambda>effectiveRoles.
     mbind newId (\<lambda>familyId.
     mbind (mintTokens env (employee\<lparr>emp_roles := effectiveRoles\<rparr>) familyId) (\<lambda>result.
     mbind (login_audit ''auth.login.sso'' employee
              [(''email'', JStr (emp_email employee)), (''entraOid'', JStr oid)]) (\<lambda>_.
     mret result)))))))"
  obtain claims where v: "au_verify env idToken (w_now w) = Inr claims"
    using assms by (cases "au_verify env idToken (w_now w)") (auto simp: entraLogin_def mbind_verified split: if_splits)
  obtain oid where oid: "claim claims ''oid'' = Some oid"
    using assms v by (cases "claim claims ''oid''") (auto simp: entraLogin_def mbind_verified Let_def no_key_def split: if_splits)
  obtain email name where "?rest claims oid email name w = (Inr r, w')"
    using assms v oid by (simp add: entraLogin_def mbind_verified Let_def split: if_splits)
  then obtain up w1 where up: "upsertByEntraOid oid email name w = (Inr up, w1)" and r1: "mbind (or_throw up (PlainError ''Cannot read properties of undefined'')) (\<lambda>employee.
     mbind (assertActive employee) (\<lambda>_.
     mbind (syncUserRolesByKeys (emp_id employee) (entra_roles claims)
              \<lparr>ac_sub = emp_id employee, ac_email = emp_email employee\<rparr>) (\<lambda>effectiveRoles.
     mbind newId (\<lambda>familyId.
     mbind (mintTokens env (employee\<lparr>emp_roles := effectiveRoles\<rparr>) familyId) (\<lambda>result.
     mbind (login_audit ''auth.login.sso'' employee
              [(''email'', JStr (emp_email employee)), (''entraOid'', JStr oid)]) (\<lambda>_.
     mret result)))))) w1 = (Inr r, w')"
    by (rule mbind_InrE)
  obtain e where e: "up = Some e" "emp_status e \<noteq> Emp_offboarded"
    using r1 by (cases up) (auto simp: assertActive_def split: if_splits)
  have r2: "mbind (syncUserRolesByKeys (emp_id e) (entra_roles claims) \<lparr>ac_sub = emp_id e, ac_email = emp_email e\<rparr>) (\<lambda>effectiveRoles.
     mbind newId (\<lambda>familyId.
     mbind (mintTokens env (e\<lparr>emp_roles := effectiveRoles\<rparr>) familyId) (\<lambda>result.
     mbind (login_audit ''auth.login.sso'' e [(''email'', JStr (emp_email e)), (''entraOid'', JStr oid)]) (\<lambda>_.
     mret result)))) w1 = (Inr r, w')"
    using r1 e by (simp add: assertActive_def)
  then obtain keys w2 where sync: "syncUserRolesByKeys (emp_id e) (entra_roles claims) \<lparr>ac_sub = emp_id e, ac_email = emp_email e\<rparr> w1 = (Inr keys, w2)"
    and r3: "mbind newId (\<lambda>familyId. mbind (mintTokens env (e\<lparr>emp_roles := keys\<rparr>) familyId) (\<lambda>result.
     mbind (login_audit ''auth.login.sso'' e [(''email'', JStr (emp_email e)), (''entraOid'', JStr oid)]) (\<lambda>_.
     mret result))) w2 = (Inr r, w')"
    by (rule mbind_InrE)
  show thesis
    by (rule that [OF v oid up [unfolded e(1)] e(2) sync keepsD [OF session_roles_view r3]])
qed

text \<open>C27: A login through Entra makes the global roles of the user exactly the known roles that the
  verified token asserts (the role employee when it asserts none): roles outside the token are
  taken away, unknown role keys are ignored, scoped assignments and everybody else's are as
  they were, the role claims of the user are the keys of all the roles now active, and the user is
  not offboarded.\<close>

theorem sso_login_reconciles:
  assumes "entraLogin env idToken w = (Inr r, w')" and "keyed ura_id (t_role_assignments (w_db w)) w"
    and "distinct (map ro_key (t_roles (w_db w)))"
  shows "\<exists>claims oid e. au_verify env idToken (w_now w) = Inr claims \<and> claim claims ''oid'' = Some oid \<and>
    e \<in> set (t_employees (w_db w')) \<and> emp_entra_oid e = Some oid \<and> emp_status e \<noteq> Emp_offboarded \<and>
    emp_roles e = active_role_keys (emp_id e) (w_now w) (w_db w') \<and>
    global_roles (emp_id e) (t_role_assignments (w_db w')) = ro_id ` {x \<in> set (t_roles (w_db w)). ro_key x \<in> set (entra_roles claims)} \<and>
    select_where (\<lambda>a. \<not> global_of (emp_id e) a) (t_role_assignments (w_db w')) =
      select_where (\<lambda>a. \<not> global_of (emp_id e) a) (t_role_assignments (w_db w))"
proof -
  obtain claims oid e email name w1 keys w2 where v: "au_verify env idToken (w_now w) = Inr claims" and oid: "claim claims ''oid'' = Some oid"
    and up: "upsertByEntraOid oid email name w = (Inr (Some e), w1)" and active: "emp_status e \<noteq> Emp_offboarded"
    and sync: "syncUserRolesByKeys (emp_id e) (entra_roles claims) \<lparr>ac_sub = emp_id e, ac_email = emp_email e\<rparr> w1 = (Inr keys, w2)"
    and V: "roles_view w2 w'"
    using assms(1) by (rule entra_success)
  note u = upsert_effect [OF up]
  have k1: "keyed ura_id (t_role_assignments (w_db w1)) w1"
    unfolding u(4) by (rule keyed_later [OF assms(2) u(5,6)])
  have d1: "distinct (map ro_key (t_roles (w_db w1)))"
    using assms(3) u(3) by simp
  obtain keys' w2' where sync': "syncUserRolesByKeys (emp_id e) (entra_roles claims) \<lparr>ac_sub = emp_id e, ac_email = emp_email e\<rparr> w1 = (Inr keys', w2')"
    and G': "global_roles (emp_id e) (t_role_assignments (w_db w2')) = ro_id ` {r \<in> set (t_roles (w_db w1)). ro_key r \<in> set (entra_roles claims)}"
    and O': "select_where (\<lambda>a. \<not> global_of (emp_id e) a) (t_role_assignments (w_db w2')) =
      select_where (\<lambda>a. \<not> global_of (emp_id e) a) (t_role_assignments (w_db w1))"
    and K': "keys' = active_role_keys (emp_id e) (w_now w1) (w_db w2')"
    and E': "t_employees (w_db w2') = update_where (\<lambda>x. emp_id x = emp_id e) (\<lambda>e. e\<lparr>emp_roles := keys', emp_updated_at := w_now w1\<rparr>) (t_employees (w_db w1))"
    by (rule sync_effect [OF k1 d1, of "emp_id e" "entra_roles claims" "\<lparr>ac_sub = emp_id e, ac_email = emp_email e\<rparr>"]) (rule that; assumption)
  from sync sync' have eq: "keys' = keys" "w2' = w2" by simp_all
  note G = G' [unfolded eq] and O = O' [unfolded eq] and K = K' [unfolded eq] and E = E' [unfolded eq]
  let ?e = "e\<lparr>emp_roles := keys, emp_updated_at := w_now w1\<rparr>"
  have "?e \<in> set (t_employees (w_db w2))"
    unfolding E by (rule update_where_in [OF u(1) refl, where f = "\<lambda>e. e\<lparr>emp_roles := keys, emp_updated_at := w_now w1\<rparr>"])
  with v oid active u G O K V show ?thesis
    by (intro exI [of _ claims] exI [of _ oid] exI [of _ ?e]) (simp add: active_role_keys_def roles_view_def)
qed

text \<open>Alice logs in for the second time; her token now says admin instead of hr.\<close>

definition sso_env :: auth_env where
  "sso_env = \<lparr>au_hash = (\<lambda>s. s), au_raw = (\<lambda>n. replicate n CHR ''r''),
     au_verify = (\<lambda>_ _. Inr [(''oid'', JStr ''o1''), (''email'', JStr ''alice@x''), (''roles'', JArr [JStr ''admin'', JStr ''ghost''])]),
     au_sign = (\<lambda>_ _. Inr ''jwt''), au_tenant = Some ''t'', au_client = Some ''c'', au_refresh_days = 7, au_access_expiry = ''15m''\<rparr>"

definition sso_world :: world where
  "sso_world = base_world\<lparr>w_next := 1, w_db := base_db\<lparr>
     t_roles := [\<lparr>ro_id = ''r1'', ro_key = ''admin'', ro_name = ''Admin'', ro_system = True, ro_updated_at = 0\<rparr>,
                 \<lparr>ro_id = ''r2'', ro_key = ''hr'', ro_name = ''HR'', ro_system = True, ro_updated_at = 0\<rparr>],
     t_role_assignments := [\<lparr>ura_id = sample_uuid 0, ura_user = ''alice'', ura_role = ''r2'', ura_scope_type = Scope_global,
       ura_scope_id = None, ura_granted_by = ''alice'', ura_expires_at = None, ura_created_at = 0\<rparr>],
     t_employees := [\<lparr>emp_id = ''alice'', emp_entra_oid = Some ''o1'', emp_email = ''alice@x'', emp_display_name = ''Alice'',
       emp_department = None, emp_job_title = None, emp_manager = None, emp_roles = [''hr''], emp_status = Emp_active,
       emp_photo_key = None, emp_created_at = 0, emp_updated_at = 0\<rparr>]\<rparr>\<rparr>"

lemma sso_ready: "keyed ura_id (t_role_assignments (w_db sso_world)) sso_world" "distinct (map ro_key (t_roles (w_db sso_world)))"
  by (auto simp: keyed_def sso_world_def base_world_def inj_sample_uuid)

lemma sso_login_runs: "\<exists>r. fst (entraLogin sso_env ''token'' sso_world) = Inr r"
proof -
  let ?e = "\<lparr>emp_id = ''alice'', emp_entra_oid = Some ''o1'', emp_email = ''alice@x'', emp_display_name = ''alice'',
       emp_department = None, emp_job_title = None, emp_manager = None, emp_roles = [''hr''], emp_status = Emp_active,
       emp_photo_key = None, emp_created_at = 0, emp_updated_at = 1000\<rparr>"
  have up: "upsertByEntraOid ''o1'' (toLowerCase ''alice@x'') ''alice'' sso_world =
      (Inr (Some ?e), sso_world\<lparr>w_db := t_employees_update (\<lambda>_. [?e]) (w_db sso_world)\<rparr>)" (is "_ = (_, ?w1)")
    by (simp add: upsertByEntraOid_def findByEntraOid_def email_free_def sso_world_def base_world_def toLowerCase_def lower_char_def)
  have ready: "keyed ura_id (t_role_assignments (w_db ?w1)) ?w1" "distinct (map ro_key (t_roles (w_db ?w1)))"
    using sso_ready by (simp_all add: keyed_def)
  obtain keys w2 where sync: "syncUserRolesByKeys ''alice'' [''admin'', ''ghost''] \<lparr>ac_sub = ''alice'', ac_email = ''alice@x''\<rparr> ?w1 = (Inr keys, w2)"
    by (rule sync_effect [OF ready, of "''alice''" "[''admin'', ''ghost'']" "\<lparr>ac_sub = ''alice'', ac_email = ''alice@x''\<rparr>"]) (rule that; assumption)
  have "t_refresh_tokens (w_db w2) = []"
    using keepsD [OF admin_token_view(1) sync] by (simp add: token_view_def sso_world_def base_world_def base_db_def empty_db_def)
  then show ?thesis
    by (simp add: entraLogin_def mbind_verified sso_env_def Let_def no_key_def claim_def or_else_def entra_roles_def List.map_filter_def
        mbind_eq [where m = "upsertByEntraOid ''o1'' (toLowerCase ''alice@x'') ''alice''", OF up] assertActive_def
        mbind_eq [where m = "syncUserRolesByKeys ''alice'' [''admin'', ''ghost''] \<lparr>ac_sub = ''alice'', ac_email = ''alice@x''\<rparr>", OF sync] mintTokens_def mbind_random token_create_def mbind_outside
        login_audit_def audit_record_def)
qed

theorem sso_login_reconciles_witness:
  "\<exists>r w' e. entraLogin sso_env ''token'' sso_world = (Inr r, w') \<and> e \<in> set (t_employees (w_db w')) \<and> emp_entra_oid e = Some ''o1'' \<and>
     global_roles (emp_id e) (t_role_assignments (w_db w')) = {''r1''}"
proof -
  obtain r w' where run: "entraLogin sso_env ''token'' sso_world = (Inr r, w')"
    using sso_login_runs by (metis prod.collapse)
  have roles: "ro_id ` {x \<in> set (t_roles (w_db sso_world)). ro_key x \<in> set [''admin'', ''ghost'']} = {''r1''}"
    by (force simp: sso_world_def)
  from sso_login_reconciles [OF run sso_ready] obtain claims oid e where
    "au_verify sso_env ''token'' (w_now sso_world) = Inr claims" "claim claims ''oid'' = Some oid"
    and e: "e \<in> set (t_employees (w_db w'))" "emp_entra_oid e = Some oid"
      "global_roles (emp_id e) (t_role_assignments (w_db w')) = ro_id ` {x \<in> set (t_roles (w_db sso_world)). ro_key x \<in> set (entra_roles claims)}"
    by blast
  then have "oid = ''o1''" "entra_roles claims = [''admin'', ''ghost'']"
    by (auto simp: sso_env_def claim_def entra_roles_def List.map_filter_def)
  with e roles run show ?thesis
    by (intro exI [of _ r] exI [of _ w'] exI [of _ e]) simp
qed

end
