(* ===== verification/Storage_Claims.thy ===== *)
theory Storage_Claims
  imports Storage Scenario
begin

text \<open>
  What every stored file satisfies: the rule of its resource type and, once it is confirmed, an
  object of exactly the declared size in the bucket at that moment.
\<close>

text \<open>The size a head request reports at a time, if it succeeds.\<close>

definition object_size :: "s3 \<Rightarrow> string \<Rightarrow> timestamp \<Rightarrow> int option" where
  "object_size s3 key t = (case s3_head s3 key t of Inl _ \<Rightarrow> None | Inr None \<Rightarrow> Some 0 | Inr (Some n) \<Rightarrow> Some n)"

lemma headObject_apply: "headObject s3 key w = (Inr (object_size s3 key (w_now w)), w)"
  by (simp add: headObject_def mtry_def outside_call_def mbind_def object_size_def split: sum.split option.split)

lemma mbind_headObject [simp]: "mbind (headObject s3 key) k w = k (object_size s3 key (w_now w)) w"
  by (simp add: mbind_eq [where m = "headObject s3 key", OF headObject_apply])

definition file_ok :: "s3 \<Rightarrow> stored_file \<Rightarrow> bool" where
  "file_ok s3 f \<longleftrightarrow>
     (\<exists>rule. map_of RESOURCE_RULES (sf_resource_type f) = Some rule \<and> sf_mime_type f \<in> set (allowedMimeTypes rule) \<and>
        sf_size_bytes f \<le> maxSizeBytes rule) \<and>
     (\<forall>t. sf_confirmed_at f = Some t \<longrightarrow> object_size s3 (sf_key f) t = Some (sf_size_bytes f)) \<and>
     (sf_status f = Sf_completed \<longrightarrow> sf_confirmed_at f \<noteq> None) \<and> (sf_status f = Sf_pending \<longrightarrow> sf_confirmed_at f = None)"

definition files_ok :: "s3 \<Rightarrow> world \<Rightarrow> bool" where
  "files_ok s3 w \<longleftrightarrow> keyed sf_id (t_stored_files (w_db w)) w \<and> (\<forall>f \<in> set (t_stored_files (w_db w)). file_ok s3 f)"

text \<open>A file is never withdrawn, its declaration never changes, and its status only moves forward.\<close>

definition file_rank :: "stored_file_status \<Rightarrow> nat" where
  "file_rank s = (case s of Sf_pending \<Rightarrow> 0 | Sf_completed \<Rightarrow> 1 | Sf_deleted \<Rightarrow> 2)"

definition declared :: "stored_file \<Rightarrow> stored_file" where
  "declared f = f\<lparr>sf_status := Sf_pending, sf_confirmed_at := None\<rparr>"

definition files_evolve :: "stored_file list \<Rightarrow> stored_file list \<Rightarrow> bool" where
  "files_evolve T T' \<longleftrightarrow> (\<forall>f \<in> set T. \<exists>f' \<in> set T'. declared f' = declared f \<and> file_rank (sf_status f) \<le> file_rank (sf_status f'))"

lemma files_evolve_refl: "files_evolve T T"
  by (auto simp: files_evolve_def)

lemma files_evolve_trans: "files_evolve T U \<Longrightarrow> files_evolve U V \<Longrightarrow> files_evolve T V"
  unfolding files_evolve_def by (metis le_trans)

lemma files_evolve_insert: "files_evolve T (insert_row f T)"
  by (auto simp: files_evolve_def)

lemma files_evolve_update:
  assumes "\<And>f. f \<in> set T \<Longrightarrow> p f \<Longrightarrow> declared (g f) = declared f \<and> file_rank (sf_status f) \<le> file_rank (sf_status (g f))"
  shows "files_evolve T (update_where p g T)"
  unfolding files_evolve_def set_update_where
proof
  fix f assume "f \<in> set T"
  with assms show "\<exists>f' \<in> (\<lambda>r. if p r then g r else r) ` set T. declared f' = declared f \<and> file_rank (sf_status f) \<le> file_rank (sf_status f')"
    by (intro bexI [of _ "if p f then g f else f"]) auto
qed

lemma snd_outside_ret: "snd (mbind (outside_call g) (\<lambda>x. mret (h x)) w) = w"
  by (simp add: mbind_def outside_call_def split: sum.split)

lemma mark_deleted_forward: "declared (mark_deleted f) = declared f \<and> file_rank (sf_status f) \<le> file_rank (sf_status (mark_deleted f))"
  by (simp add: mark_deleted_def declared_def file_rank_def split: stored_file_status.split)

lemma mark_deleted_ok: "file_ok s3 f \<Longrightarrow> file_ok s3 (mark_deleted f)"
  by (auto simp: file_ok_def mark_deleted_def)

definition files_step :: "s3 \<Rightarrow> world \<Rightarrow> world \<Rightarrow> bool" where
  "files_step s3 w w' \<longleftrightarrow> (files_ok s3 w \<longrightarrow> files_ok s3 w' \<and> files_evolve (t_stored_files (w_db w)) (t_stored_files (w_db w')))"

lemma files_step_update:
  assumes "t_stored_files (w_db w') = update_where p g (t_stored_files (w_db w))" and "w_uuid w' = w_uuid w" and "w_next w' = w_next w"
    and "\<And>f. f \<in> set (t_stored_files (w_db w)) \<Longrightarrow> p f \<Longrightarrow> declared (g f) = declared f \<and> file_rank (sf_status f) \<le> file_rank (sf_status (g f))"
    and "\<And>f. f \<in> set (t_stored_files (w_db w)) \<Longrightarrow> p f \<Longrightarrow> file_ok s3 f \<Longrightarrow> file_ok s3 (g f)"
    and "\<And>f. sf_id (g f) = sf_id f"
  shows "files_step s3 w w'"
  unfolding files_step_def
proof (intro impI conjI)
  assume ok: "files_ok s3 w"
  then have k: "keyed sf_id (t_stored_files (w_db w)) w" by (simp add: files_ok_def)
  have "keyed sf_id (t_stored_files (w_db w')) w'"
    unfolding assms(1) using assms(2,3,6) by (intro keyed_update keyed_later [OF k]) simp_all
  moreover have "\<forall>f \<in> set (t_stored_files (w_db w')). file_ok s3 f"
    unfolding assms(1) using ok assms(5) by (auto simp: set_update_where files_ok_def)
  ultimately show "files_ok s3 w'" by (simp add: files_ok_def)
  show "files_evolve (t_stored_files (w_db w)) (t_stored_files (w_db w'))"
    unfolding assms(1) by (rule files_evolve_update) (rule assms(4))
qed

lemma files_step_same:
  "t_stored_files (w_db w') = t_stored_files (w_db w) \<Longrightarrow> w_uuid w' = w_uuid w \<Longrightarrow> w_next w' = w_next w \<Longrightarrow> files_step s3 w w'"
  by (auto simp: files_step_def files_ok_def keyed_def files_evolve_refl)

lemma presign_step: "files_step s3 w (snd (presignUpload s3 input u w))"
proof (cases "\<exists>rule. map_of RESOURCE_RULES (pin_resource_type input) = Some rule \<and> pin_mime_type input \<in> set (allowedMimeTypes rule) \<and>
    pin_size_bytes input \<le> maxSizeBytes rule")
  case True
  then obtain rule where rule: "map_of RESOURCE_RULES (pin_resource_type input) = Some rule" "pin_mime_type input \<in> set (allowedMimeTypes rule)"
    "pin_size_bytes input \<le> maxSizeBytes rule" by blast
  define f :: stored_file where "f = \<lparr>sf_id = w_uuid w (Suc (w_next w)),
     sf_key = pin_resource_type input @ ''/'' @ u @ ''/'' @ w_uuid w (w_next w) @ file_ext (pin_file_name input),
     sf_original_name = pin_file_name input, sf_mime_type = pin_mime_type input, sf_size_bytes = pin_size_bytes input,
     sf_resource_type = pin_resource_type input, sf_status = Sf_pending, sf_uploader = u, sf_linked_type = pin_linked_type input,
     sf_linked_id = pin_linked_id input, sf_created_at = w_now w, sf_confirmed_at = None\<rparr>"
  have f: "file_ok s3 f" "sf_id f = w_uuid w (Suc (w_next w))"
    using rule by (simp_all add: f_def file_ok_def)
  have eff: "t_stored_files (w_db (snd (presignUpload s3 input u w))) = insert_row f (t_stored_files (w_db w))"
      "w_uuid (snd (presignUpload s3 input u w)) = w_uuid w" "w_next (snd (presignUpload s3 input u w)) = Suc (Suc (w_next w))"
    using rule by (simp_all add: presignUpload_def Let_def snd_outside_ret f_def not_less)
  show ?thesis
    unfolding files_step_def
  proof (intro impI conjI)
    assume ok: "files_ok s3 w"
    then have "keyed sf_id (insert_row f (t_stored_files (w_db w))) (snd (presignUpload s3 input u w))"
      by (intro keyed_insert [where k = sf_id and r = f and n = "Suc (w_next w)"]) (simp_all add: eff files_ok_def f(2))
    with ok f(1) show "files_ok s3 (snd (presignUpload s3 input u w))"
      by (simp add: files_ok_def eff)
    show "files_evolve (t_stored_files (w_db w)) (t_stored_files (w_db (snd (presignUpload s3 input u w))))"
      unfolding eff by (rule files_evolve_insert)
  qed
next
  case False
  then have "snd (presignUpload s3 input u w) = w"
    by (cases "map_of RESOURCE_RULES (pin_resource_type input)") (auto simp: presignUpload_def)
  then show ?thesis by (simp add: files_step_same)
qed

lemma confirm_step: "files_step s3 w (snd (confirmUpload s3 i u w))"
proof (cases "find_where (own_file i u) (t_stored_files (w_db w))")
  case None
  then show ?thesis by (simp add: confirmUpload_def files_step_same)
next
  case (Some f)
  note f = find_where_SomeD [OF Some]
  show ?thesis
  proof (cases "sf_status f = Sf_pending \<and> object_size s3 (sf_key f) (w_now w) \<noteq> None")
    case False
    with Some show ?thesis
      by (cases "sf_status f"; cases "object_size s3 (sf_key f) (w_now w)") (auto simp: confirmUpload_def files_step_same)
  next
    case True
    then obtain n where n: "sf_status f = Sf_pending" "object_size s3 (sf_key f) (w_now w) = Some n" by blast
    show ?thesis
    proof (cases "n = sf_size_bytes f")
      case False
      show ?thesis
        by (rule files_step_update [where p = "\<lambda>f. sf_id f = i" and g = mark_deleted])
          (use Some n False in \<open>simp_all add: confirmUpload_def mark_deleted_forward mark_deleted_ok mark_deleted_def [THEN arg_cong [of _ _ sf_id]]\<close>)
    next
      case True
      let ?g = "\<lambda>f. f\<lparr>sf_status := Sf_completed, sf_confirmed_at := Some (w_now w)\<rparr>"
      have T: "t_stored_files (w_db (snd (confirmUpload s3 i u w))) = update_where (\<lambda>f. sf_id f = i) ?g (t_stored_files (w_db w))"
        "w_uuid (snd (confirmUpload s3 i u w)) = w_uuid w" "w_next (snd (confirmUpload s3 i u w)) = w_next w"
        using Some n True by (simp_all add: confirmUpload_def)
      show ?thesis
        unfolding files_step_def
      proof (rule impI)
        assume ok: "files_ok s3 w"
        have only: "x = f" if "x \<in> set (t_stored_files (w_db w))" "sf_id x = i" for x
          using ok that f keyed_only [of sf_id "t_stored_files (w_db w)" w x f] by (simp add: files_ok_def own_file_def)
        have "files_step s3 w (snd (confirmUpload s3 i u w))"
          by (rule files_step_update [OF T])
            (use only n True in \<open>auto simp: declared_def file_rank_def file_ok_def split: stored_file_status.split\<close>)
        with ok show "files_ok s3 (snd (confirmUpload s3 i u w)) \<and>
            files_evolve (t_stored_files (w_db w)) (t_stored_files (w_db (snd (confirmUpload s3 i u w))))"
          by (simp add: files_step_def)
      qed
    qed
  qed
qed

lemma delete_step: "files_step s3 w (snd (deleteFile i u w))"
proof (cases "find_where (own_file i u) (t_stored_files (w_db w))")
  case None
  then show ?thesis by (simp add: deleteFile_def files_step_same)
next
  case (Some f)
  show ?thesis
    by (rule files_step_update [where p = "\<lambda>f. sf_id f = i" and g = mark_deleted])
      (use Some in \<open>simp_all add: deleteFile_def deleteObject_def mark_deleted_forward mark_deleted_ok mark_deleted_def [THEN arg_cong [of _ _ sf_id]]\<close>)
qed

lemma deletes_apply: "mfor L (\<lambda>r. deleteObject (k r)) w = (Inr (), w\<lparr>w_s3_deletes := w_s3_deletes w @ map k L\<rparr>)"
  by (induction L arbitrary: w) (simp_all add: deleteObject_def)

lemma purge_step: "files_step s3 w (snd (purgeOrphanedUploads w))"
proof (cases "select_where (orphaned (w_now w - ORPHAN_CUTOFF_HOURS * 3600000)) (t_stored_files (w_db w)) = []")
  case True
  then show ?thesis by (simp add: purgeOrphanedUploads_def Let_def files_step_same)
next
  case False
  show ?thesis
    by (rule files_step_update [where p = "orphaned (w_now w - ORPHAN_CUTOFF_HOURS * 3600000)" and g = mark_deleted])
      (use False in \<open>simp_all add: purgeOrphanedUploads_def Let_def deletes_apply
        mbind_eq [where m = "mfor L (\<lambda>r. deleteObject (sf_key r))" for L, OF deletes_apply]
        mark_deleted_forward mark_deleted_ok mark_deleted_def [THEN arg_cong [of _ _ sf_id]]\<close>)
qed

inductive storage_step :: "s3 \<Rightarrow> world \<Rightarrow> world \<Rightarrow> bool" for s3 where
  sstep_presign: "storage_step s3 w (snd (presignUpload s3 input u w))"
| sstep_confirm: "storage_step s3 w (snd (confirmUpload s3 i u w))"
| sstep_delete: "storage_step s3 w (snd (deleteFile i u w))"
| sstep_sweep: "storage_step s3 w (snd (storage_cleanup_tick w))"
| sstep_clock: "storage_step s3 w (w\<lparr>w_now := t\<rparr>)"

lemma storage_step_files: "storage_step s3 w w' \<Longrightarrow> files_step s3 w w'"
proof (induction rule: storage_step.induct)
  case (sstep_sweep w)
  obtain r w1 where run: "purgeOrphanedUploads w = (r, w1)" by fastforce
  then have "snd (storage_cleanup_tick w) = w1"
    by (cases r) (simp_all add: storage_cleanup_tick_def mbind_def)
  with purge_step [of s3 w] run show ?case by simp
qed (simp_all add: presign_step confirm_step delete_step files_step_same)

lemma storage_run_files: "(storage_step s3)\<^sup>*\<^sup>* w w' \<Longrightarrow> files_step s3 w w'"
  by (induction rule: rtranclp_induct)
    (auto simp: files_step_def files_evolve_refl intro: files_evolve_trans dest!: storage_step_files)

text \<open>C28: Every file row is well typed and verified: after any sequence of presigned uploads,
  confirmations, deletions and sweeps, each file satisfies the type and size rule of its resource
  type, and a confirmation time is that of an object of exactly the declared size in the bucket.
  A download URL is handed out for such confirmed files only.  Rows never disappear, their
  declarations never change, and their status only moves from pending over completed to deleted.\<close>

theorem stored_files_verified:
  assumes "(storage_step s3)\<^sup>*\<^sup>* w w'" and "files_ok s3 w"
  shows "(\<forall>f \<in> set (t_stored_files (w_db w')). file_ok s3 f) \<and>
    files_evolve (t_stored_files (w_db w)) (t_stored_files (w_db w')) \<and>
    (fst (getDownloadUrl s3 i w') = Inr url \<longrightarrow>
      (\<exists>f t. f \<in> set (t_stored_files (w_db w')) \<and> sf_id f = i \<and> sf_status f = Sf_completed \<and>
         sf_confirmed_at f = Some t \<and> object_size s3 (sf_key f) t = Some (sf_size_bytes f)))"
proof -
  have ok: "files_ok s3 w'" "files_evolve (t_stored_files (w_db w)) (t_stored_files (w_db w'))"
    using storage_run_files [OF assms(1)] assms(2) by (simp_all add: files_step_def)
  moreover have "\<exists>f t. f \<in> set (t_stored_files (w_db w')) \<and> sf_id f = i \<and> sf_status f = Sf_completed \<and>
         sf_confirmed_at f = Some t \<and> object_size s3 (sf_key f) t = Some (sf_size_bytes f)"
    if url: "fst (getDownloadUrl s3 i w') = Inr url"
  proof (cases "find_where (\<lambda>f. sf_id f = i \<and> sf_status f = Sf_completed) (t_stored_files (w_db w'))")
    case None
    with url show ?thesis by (simp add: getDownloadUrl_def)
  next
    case (Some f)
    note f = find_where_SomeD [OF Some]
    with ok(1) have "file_ok s3 f" by (simp add: files_ok_def)
    with f obtain t where "sf_confirmed_at f = Some t" "object_size s3 (sf_key f) t = Some (sf_size_bytes f)"
      by (auto simp: file_ok_def)
    with f show ?thesis by (intro exI [of _ f] exI [of _ t]) simp
  qed
  ultimately show ?thesis by (auto simp: files_ok_def)
qed

definition sample_s3 :: s3 where
  "sample_s3 = \<lparr>s3_cdn = Some ''https://cdn/'', s3_bucket = Some ''files'', s3_head = (\<lambda>key t. Inr (Some 1200)),
     s3_sign_put = (\<lambda>key mime size ttl t. Inr (''put:'' @ key)), s3_sign_get = (\<lambda>key ttl t. Inr (''get:'' @ key))\<rparr>"

definition photo_upload :: presign_input where
  "photo_upload = \<lparr>pin_file_name = ''Front.PNG'', pin_mime_type = ''image/png'', pin_size_bytes = 1200,
     pin_resource_type = ''asset-photo'', pin_linked_type = None, pin_linked_id = None\<rparr>"

definition uploaded_world :: world where
  "uploaded_world = snd (presignUpload sample_s3 photo_upload ''alice'' base_world)"

definition confirmed_world :: world where
  "confirmed_world = snd (confirmUpload sample_s3 (sample_uuid 1) ''alice'' uploaded_world)"

definition photo :: "timestamp option \<Rightarrow> stored_file_status \<Rightarrow> stored_file" where
  "photo t st = \<lparr>sf_id = sample_uuid 1, sf_key = ''asset-photo/alice/d.png'', sf_original_name = ''Front.PNG'', sf_mime_type = ''image/png'',
     sf_size_bytes = 1200, sf_resource_type = ''asset-photo'', sf_status = st, sf_uploader = ''alice'', sf_linked_type = None,
     sf_linked_id = None, sf_created_at = 1000, sf_confirmed_at = t\<rparr>"

lemma uploaded_world_eq:
  "uploaded_world = base_world\<lparr>w_db := base_db\<lparr>t_stored_files := [photo None Sf_pending]\<rparr>, w_next := 2\<rparr>"
proof -
  have "file_ext ''Front.PNG'' = ''.png''" by code_simp
  then show ?thesis
    by (simp add: uploaded_world_def presignUpload_def photo_upload_def sample_s3_def RESOURCE_RULES_def MB_def outside_call_def
      insert_row_def run_base sample_uuid_def photo_def Let_def mbind_def [of "outside_call g" for g])
qed

lemma confirmed_world_eq:
  "confirmed_world = uploaded_world\<lparr>w_db := base_db\<lparr>t_stored_files := [photo (Some 1000) Sf_completed]\<rparr>\<rparr>"
  by (simp add: confirmed_world_def uploaded_world_eq confirmUpload_def sample_s3_def object_size_def own_file_def run_base photo_def
    find_where_def update_where_def)

lemma base_files_ok: "files_ok s3 base_world"
  by (simp add: files_ok_def keyed_def base_world_def base_db_def empty_db_def inj_sample_uuid)

text \<open>A photo uploaded and confirmed: its download URL is the key under the CDN.\<close>

theorem stored_files_verified_witness:
  "fst (getDownloadUrl sample_s3 (sample_uuid 1) confirmed_world) = Inr ''https://cdn/asset-photo/alice/d.png'' \<and>
   (\<exists>f t. f \<in> set (t_stored_files (w_db confirmed_world)) \<and> sf_id f = sample_uuid 1 \<and> sf_confirmed_at f = Some t \<and>
      object_size sample_s3 (sf_key f) t = Some (sf_size_bytes f))"
proof -
  have url: "fst (getDownloadUrl sample_s3 (sample_uuid 1) confirmed_world) = Inr ''https://cdn/asset-photo/alice/d.png''"
    by (simp add: confirmed_world_eq getDownloadUrl_def sample_s3_def photo_def find_where_def resolveUrl_def cdnBaseUrl_def awaited_def)
  have "(storage_step sample_s3)\<^sup>*\<^sup>* base_world confirmed_world"
    unfolding confirmed_world_def uploaded_world_def
    by (rule rtranclp.rtrancl_into_rtrancl, rule r_into_rtranclp) (rule sstep_presign sstep_confirm)+
  from stored_files_verified [OF this base_files_ok] url show ?thesis by blast
qed

end
