(* ===== verification/Documents.thy ===== *)
theory Documents
  imports Storage Workforce
begin

text \<open>
  The supporting document of a leave request: the part of the workforce service that uses the
  storage service.
\<close>

definition updateLeaveDocument :: "uuid \<Rightarrow> string option \<Rightarrow> unit svc" where
  "updateLeaveDocument rowId key =
     exec (t_leave_requests_update (update_where (\<lambda>r. lr_id r = rowId) (\<lambda>r. r\<lparr>lr_document_key := key\<rparr>)))"

definition presignLeaveDocument :: "s3 \<Rightarrow> uuid \<Rightarrow> string \<Rightarrow> string \<Rightarrow> int \<Rightarrow> actor \<Rightarrow> presign_result svc" where
  "presignLeaveDocument s3 leaveId fileName mimeType sizeBytes actor =
     mbind (getLeave leaveId) (\<lambda>_.
     presignUpload s3 \<lparr>pin_file_name = fileName, pin_mime_type = mimeType, pin_size_bytes = sizeBytes,
       pin_resource_type = ''leave-document'', pin_linked_type = Some ''leave_request'', pin_linked_id = Some leaveId\<rparr>
       (ac_sub actor))"

definition confirmLeaveDocument :: "s3 \<Rightarrow> uuid \<Rightarrow> uuid \<Rightarrow> actor \<Rightarrow> url_value svc" where
  "confirmLeaveDocument s3 leaveId fileId actor =
     mbind (getLeave leaveId) (\<lambda>leave.
     mbind (confirmUpload s3 fileId (ac_sub actor)) (\<lambda>result.
     mbind (drop_file (lr_document_key leave)) (\<lambda>_.
     mbind (updateLeaveDocument leaveId (Some (cr_key result))) (\<lambda>_.
     mbind (workforce_audit actor ''leave.document_uploaded'' ''leave_request'' leaveId []) (\<lambda>_.
     mret (cr_url result))))))"

definition getLeaveDocumentUrl :: "s3 \<Rightarrow> uuid \<Rightarrow> string option svc" where
  "getLeaveDocumentUrl s3 leaveId =
     mbind (getLeave leaveId) (\<lambda>leave.
     if no_key (lr_document_key leave) then mret None
     else mbind (presignGet s3 (the (lr_document_key leave))) (\<lambda>url. mret (Some url)))"

end
