(* ===== verification/Compliance.thy ===== *)
theory Compliance
  imports Sql_Text Messaging
begin

text \<open>
  Compliance (\<^verbatim>\<open>libs/modules/compliance\<close>): the software catalog and the findings, the
  synchronisation of managed devices from Intune, the detection of shadow IT, and their timers.
  What Microsoft Graph answers is a parameter: a function from the link to a page.
\<close>

section \<open>Inputs and filters\<close>

record software_input =
  sin_name :: string
  sin_publisher :: "string option"
  sin_listing :: software_listing
  sin_notes :: "string option"

record software_patch =
  spt_name :: "string option"
  spt_publisher :: "string option option"
  spt_listing :: "software_listing option"
  spt_notes :: "string option option"

record software_filters =
  sfl_listing :: "software_listing option"
  sfl_search :: "string option"

record finding_input =
  fin_asset :: "uuid option"
  fin_employee :: "uuid option"
  fin_software :: string
  fin_version :: "string option"
  fin_severity :: finding_severity
  fin_source :: string
  fin_detected_at :: "timestamp option"

record finding_filters =
  ffl_status :: "finding_status option"
  ffl_severity :: "finding_severity option"
  ffl_asset :: "uuid option"
  ffl_employee :: "uuid option"

section \<open>Repository\<close>

definition name_free :: "string \<Rightarrow> (software_entry \<Rightarrow> bool) \<Rightarrow> unit svc" where
  "name_free name others =
     mbind (query (\<lambda>d. find_where (\<lambda>s. others s \<and> so_name s = name) (t_software_catalog d))) (\<lambda>taken.
     throw_if (taken \<noteq> None) (UniqueViolation ''uq_software_name''))"

definition createSoftware :: "software_input \<Rightarrow> software_entry svc" where
  "createSoftware input =
     mbind (name_free (sin_name input) (\<lambda>_. True)) (\<lambda>_.
     mbind newId (\<lambda>rowId. mbind now (\<lambda>t.
     let row = \<lparr>so_id = rowId, so_name = sin_name input, so_publisher = sin_publisher input,
                so_listing = sin_listing input, so_notes = sin_notes input, so_created_at = t, so_updated_at = t\<rparr> in
     mbind (exec (t_software_catalog_update (insert_row row))) (\<lambda>_. mret row))))"

definition findSoftwareById :: "uuid \<Rightarrow> software_entry option svc" where
  "findSoftwareById rowId = query (\<lambda>d. find_where (\<lambda>s. so_id s = rowId) (t_software_catalog d))"

definition findSoftwareByName :: "string \<Rightarrow> software_entry option svc" where
  "findSoftwareByName name = query (\<lambda>d. find_where (\<lambda>s. so_name s = name) (t_software_catalog d))"

definition patched_software :: "software_patch \<Rightarrow> timestamp \<Rightarrow> software_entry \<Rightarrow> software_entry" where
  "patched_software p t s = s\<lparr>so_name := patched (spt_name p) (so_name s),
     so_publisher := patched (spt_publisher p) (so_publisher s), so_listing := patched (spt_listing p) (so_listing s),
     so_notes := patched (spt_notes p) (so_notes s), so_updated_at := t\<rparr>"

definition updateSoftware_row :: "uuid \<Rightarrow> software_patch \<Rightarrow> software_entry option svc" where
  "updateSoftware_row rowId p =
     mbind (case spt_name p of None \<Rightarrow> mret () | Some n \<Rightarrow>
       mbind (query (\<lambda>d. find_where (\<lambda>s. so_id s = rowId) (t_software_catalog d))) (\<lambda>hit.
       mwhen (hit \<noteq> None) (name_free n (\<lambda>s. so_id s \<noteq> rowId)))) (\<lambda>_.
     mbind now (\<lambda>t.
     mbind (exec (t_software_catalog_update (update_where (\<lambda>s. so_id s = rowId) (patched_software p t)))) (\<lambda>_.
     query (\<lambda>d. find_where (\<lambda>s. so_id s = rowId) (t_software_catalog d)))))"

definition software_matches :: "software_filters \<Rightarrow> software_entry \<Rightarrow> bool" where
  "software_matches f s \<longleftrightarrow> opt_eq (sfl_listing f) (so_listing s) \<and> opt_text (sfl_search f) (\<lambda>x. ilike_part x (so_name s))"

definition listSoftware :: "software_filters \<Rightarrow> nat \<Rightarrow> nat \<Rightarrow> (software_entry list \<times> nat) svc" where
  "listSoftware f lim off = query (\<lambda>d. page_of (software_matches f) so_updated_at lim off (t_software_catalog d))"

text \<open>
  The insertion of a finding, with the lengths of its \<^verbatim>\<open>varchar\<close> columns: Postgres rejects a
  longer text.
\<close>

definition finding_fits :: "compliance_finding \<Rightarrow> bool" where
  "finding_fits f \<longleftrightarrow> length (cf_software f) \<le> 200 \<and> length (cf_source f) \<le> 60 \<and>
     (case cf_version f of None \<Rightarrow> True | Some v \<Rightarrow> length v \<le> 60)"

definition insert_finding :: "compliance_finding \<Rightarrow> unit svc" where
  "insert_finding f =
     mbind (throw_if (\<not> finding_fits f) (PlainError ''value too long for type character varying'')) (\<lambda>_.
     exec (t_findings_update (insert_row f)))"

definition createFinding :: "finding_input \<Rightarrow> compliance_finding svc" where
  "createFinding input =
     mbind newId (\<lambda>rowId. mbind now (\<lambda>t.
     let row = \<lparr>cf_id = rowId, cf_asset = fin_asset input, cf_employee = fin_employee input,
                cf_software = fin_software input, cf_version = fin_version input, cf_severity = fin_severity input,
                cf_status = Fi_open, cf_source = fin_source input,
                cf_detected_at = (case fin_detected_at input of None \<Rightarrow> t | Some d \<Rightarrow> d),
                cf_resolved_by = None, cf_note = None, cf_resolved_at = None\<rparr> in
     mbind (insert_finding row) (\<lambda>_. mret row)))"

definition findFindingById :: "uuid \<Rightarrow> compliance_finding option svc" where
  "findFindingById rowId = query (\<lambda>d. find_where (\<lambda>f. cf_id f = rowId) (t_findings d))"

definition finding_matches :: "finding_filters \<Rightarrow> compliance_finding \<Rightarrow> bool" where
  "finding_matches f r \<longleftrightarrow> opt_eq (ffl_status f) (cf_status r) \<and> opt_eq (ffl_severity f) (cf_severity r) \<and>
     opt_text (ffl_asset f) (\<lambda>a. cf_asset r = Some a) \<and> opt_text (ffl_employee f) (\<lambda>e. cf_employee r = Some e)"

definition listFindings :: "finding_filters \<Rightarrow> nat \<Rightarrow> nat \<Rightarrow> (compliance_finding list \<times> nat) svc" where
  "listFindings f lim off = query (\<lambda>d. page_of (finding_matches f) cf_detected_at lim off (t_findings d))"

definition finding_closed :: "finding_status \<Rightarrow> bool" where
  "finding_closed s \<longleftrightarrow> s = Fi_resolved \<or> s = Fi_risk_accepted"

definition setFindingStatus :: "uuid \<Rightarrow> finding_status \<Rightarrow> uuid option \<Rightarrow> string option \<Rightarrow> compliance_finding option svc" where
  "setFindingStatus rowId st resolvedBy comment =
     mbind now (\<lambda>t.
     mbind (exec (t_findings_update (update_where (\<lambda>f. cf_id f = rowId)
       (\<lambda>f. f\<lparr>cf_status := st, cf_resolved_by := (if finding_closed st then resolvedBy else None), cf_note := comment,
              cf_resolved_at := (if finding_closed st then Some t else None)\<rparr>)))) (\<lambda>_.
     findFindingById rowId))"

section \<open>Service\<close>

definition compliance_audit :: "actor \<Rightarrow> string \<Rightarrow> string \<Rightarrow> uuid \<Rightarrow> jobject \<Rightarrow> jobject \<Rightarrow> unit svc" where
  "compliance_audit actor action resourceType rowId changes metadata =
     audit_record (Some (ac_sub actor)) (Some (ac_email actor)) action resourceType (Some rowId) changes metadata"

definition listing_name :: "software_listing \<Rightarrow> string" where
  "listing_name l = (case l of Whitelisted \<Rightarrow> ''whitelisted'' | Blacklisted \<Rightarrow> ''blacklisted'' | Under_review \<Rightarrow> ''review'')"

definition addSoftware :: "software_input \<Rightarrow> actor \<Rightarrow> software_entry svc" where
  "addSoftware input actor =
     mbind (findSoftwareByName (sin_name input)) (\<lambda>existing.
     mbind (throw_if (existing \<noteq> None) (ConflictException CONFLICT)) (\<lambda>_.
     mbind (createSoftware input) (\<lambda>entry.
     mbind (compliance_audit actor ''software.added'' ''software_catalog'' (so_id entry) []
              [(''name'', JStr (so_name entry)), (''listing'', JStr (listing_name (so_listing entry)))]) (\<lambda>_.
     mret entry))))"

definition getSoftware :: "uuid \<Rightarrow> software_entry svc" where
  "getSoftware rowId = mbind (findSoftwareById rowId) (\<lambda>s. or_throw s (NotFoundException SOFTWARE_NOT_FOUND))"

text \<open>The patch as the audit log keeps it: the properties that are present.\<close>

definition software_changes :: "software_patch \<Rightarrow> jobject" where
  "software_changes p =
     (case spt_name p of None \<Rightarrow> [] | Some n \<Rightarrow> [(''name'', JStr n)]) @
     (case spt_publisher p of None \<Rightarrow> [] | Some x \<Rightarrow> [(''publisher'', jstr_or_null x)]) @
     (case spt_listing p of None \<Rightarrow> [] | Some l \<Rightarrow> [(''listing'', JStr (listing_name l))]) @
     (case spt_notes p of None \<Rightarrow> [] | Some x \<Rightarrow> [(''notes'', jstr_or_null x)])"

definition updateSoftware :: "uuid \<Rightarrow> software_patch \<Rightarrow> actor \<Rightarrow> software_entry svc" where
  "updateSoftware rowId p actor =
     mbind (getSoftware rowId) (\<lambda>_.
     mbind (updateSoftware_row rowId p) (\<lambda>updated.
     mbind (or_throw updated (NotFoundException SOFTWARE_NOT_FOUND)) (\<lambda>entry.
     mbind (compliance_audit actor ''software.updated'' ''software_catalog'' rowId (software_changes p) []) (\<lambda>_.
     mret entry))))"

definition getFinding :: "uuid \<Rightarrow> compliance_finding svc" where
  "getFinding rowId = mbind (findFindingById rowId) (\<lambda>f. or_throw f (NotFoundException FINDING_NOT_FOUND))"

definition resolveFinding :: "uuid \<Rightarrow> string option \<Rightarrow> bool \<Rightarrow> actor \<Rightarrow> compliance_finding svc" where
  "resolveFinding rowId comment riskAccepted actor =
     mbind (getFinding rowId) (\<lambda>finding.
     mbind (throw_if (cf_status finding = Fi_resolved \<or> cf_status finding = Fi_risk_accepted)
              (PreconditionFailedException FINDING_ALREADY_RESOLVED)) (\<lambda>_.
     mbind (setFindingStatus rowId (if riskAccepted then Fi_risk_accepted else Fi_resolved) (Some (ac_sub actor)) comment) (\<lambda>updated.
     mbind (or_throw updated (NotFoundException FINDING_NOT_FOUND)) (\<lambda>row.
     mbind (compliance_audit actor (if riskAccepted then ''finding.risk_accepted'' else ''finding.resolved'')
              ''compliance_finding'' rowId [] []) (\<lambda>_.
     mret row)))))"

definition acknowledgeFinding :: "uuid \<Rightarrow> actor \<Rightarrow> compliance_finding svc" where
  "acknowledgeFinding rowId actor =
     mbind (getFinding rowId) (\<lambda>finding.
     mbind (throw_if (cf_status finding \<noteq> Fi_open) (PreconditionFailedException PRECONDITION_FAILED)) (\<lambda>_.
     mbind (setFindingStatus rowId Fi_acknowledged None None) (\<lambda>updated.
     mbind (or_throw updated (NotFoundException FINDING_NOT_FOUND)) (\<lambda>row.
     mbind (compliance_audit actor ''finding.acknowledged'' ''compliance_finding'' rowId [] []) (\<lambda>_.
     mret row)))))"

section \<open>Pages of Microsoft Graph\<close>

record 'a graph_page =
  gp_value :: "'a list option"
  gp_next :: "string option"
  gp_delta :: "string option"

type_synonym 'a graph_api = "string \<Rightarrow> timestamp \<Rightarrow> exn + 'a graph_page"

definition page_rows :: "'a graph_page \<Rightarrow> 'a list" where
  "page_rows pg = (case gp_value pg of None \<Rightarrow> [] | Some xs \<Rightarrow> xs)"

definition no_url :: "string option \<Rightarrow> bool" where
  "no_url u \<longleftrightarrow> u = None \<or> u = Some []"

text \<open>
  \<^verbatim>\<open>while (url)\<close> over the links between the pages, with two running totals.  The service
  follows whatever link Graph answers with, so the loop need not end; \<open>None\<close> is that outcome.
\<close>

partial_function (option) page_loop ::
  "(string \<Rightarrow> (nat \<times> nat \<times> string option) svc) \<Rightarrow> string option \<Rightarrow> nat \<Rightarrow> nat \<Rightarrow> world \<Rightarrow> ((exn + nat \<times> nat) \<times> world) option" where
  "page_loop body url scanned found w =
     (if no_url url then Some (Inr (scanned, found), w)
      else (case body (the url) w of
              (Inl e, w') \<Rightarrow> Some (Inl e, w')
            | (Inr (n, k, url'), w') \<Rightarrow> page_loop body url' (scanned + n) (found + k) w'))"

section \<open>Managed devices\<close>

text \<open>\<^verbatim>\<open>Array.join(sep)\<close>.\<close>

fun join_with :: "string \<Rightarrow> string list \<Rightarrow> string" where
  "join_with sep [] = []"
| "join_with sep [x] = x"
| "join_with sep (x # y # xs) = x @ sep @ join_with sep (y # xs)"

record device =
  dv_id :: string
  dv_name :: "string option"
  dv_os_version :: "string option"
  dv_compliance :: "string option"
  dv_encrypted :: bool

text \<open>The issues of a device, in the alphabetical order \<^verbatim>\<open>sort()\<close> puts them in.\<close>

definition device_issues :: "device \<Rightarrow> string list" where
  "device_issues dv = (if dv_compliance dv = Some ''noncompliant'' then [''noncompliant''] else []) @
     (if dv_encrypted dv then [] else [''unencrypted''])"

definition device_source :: "device \<Rightarrow> string" where
  "device_source dv = ''intune:'' @ dv_id dv @ '':'' @ join_with '','' (device_issues dv)"

definition device_finding :: "uuid \<Rightarrow> timestamp \<Rightarrow> device \<Rightarrow> compliance_finding" where
  "device_finding rowId t dv = \<lparr>cf_id = rowId, cf_asset = None, cf_employee = None,
     cf_software = (case dv_name dv of None \<Rightarrow> ''device:'' @ dv_id dv | Some n \<Rightarrow> n), cf_version = dv_os_version dv,
     cf_severity = (if ''noncompliant'' \<in> set (device_issues dv) then Sev_high else Sev_medium), cf_status = Fi_open,
     cf_source = device_source dv, cf_detected_at = t, cf_resolved_by = None, cf_note = None, cf_resolved_at = None\<rparr>"

definition process_device :: "device \<Rightarrow> nat svc" where
  "process_device dv =
     (if device_issues dv = [] then mret 0
      else mbind (query (\<lambda>d. find_where (\<lambda>f. cf_source f = device_source dv) (t_findings d))) (\<lambda>existing.
           if existing \<noteq> None then mret 0
           else mbind newId (\<lambda>rowId. mbind now (\<lambda>t.
                mbind (insert_finding (device_finding rowId t dv)) (\<lambda>_. mret 1)))))"

fun sum_for :: "('a \<Rightarrow> nat svc) \<Rightarrow> 'a list \<Rightarrow> nat svc" where
  "sum_for f [] = mret 0"
| "sum_for f (x # xs) = mbind (f x) (\<lambda>n. mbind (sum_for f xs) (\<lambda>k. mret (n + k)))"

definition processDeviceBatch :: "device list \<Rightarrow> nat svc" where
  "processDeviceBatch devices = sum_for process_device devices"

definition keep_delta :: "string option \<Rightarrow> unit svc" where
  "keep_delta link = mwhen (\<not> no_url link) (mmodify (w_delta_link_update (\<lambda>_. link)))"

definition device_page :: "device graph_api \<Rightarrow> string \<Rightarrow> (nat \<times> nat \<times> string option) svc" where
  "device_page api url =
     mbind (outside_call (api url)) (\<lambda>pg.
     mbind (processDeviceBatch (page_rows pg)) (\<lambda>n.
     mbind (keep_delta (gp_delta pg)) (\<lambda>_.
     mret (length (page_rows pg), n, gp_next pg))))"

definition DEVICES_URL :: string where
  "DEVICES_URL = ''/deviceManagement/managedDevices/delta?$select=id,deviceName,operatingSystem,osVersion,complianceState,isEncrypted,userId,userPrincipalName,lastSyncDateTime''"

definition syncDevices :: "device graph_api \<Rightarrow> world \<Rightarrow> ((exn + nat \<times> nat) \<times> world) option" where
  "syncDevices api w =
     (if \<not> w_graph_enabled w then Some (Inr (0, 0), w)
      else page_loop (device_page api)
             (Some (case w_delta_link w of None \<Rightarrow> DEVICES_URL | Some link \<Rightarrow> link)) 0 0 w)"

section \<open>Shadow IT\<close>

record detected_app =
  da_id :: string
  da_name :: "string option"
  da_version :: "string option"

text \<open>Later entries of the catalog overwrite earlier ones of the same lower-cased name.\<close>

definition loadCatalog :: "(string \<times> software_listing) list svc" where
  "loadCatalog = query (\<lambda>d. rev (map (\<lambda>s. (toLowerCase (so_name s), so_listing s)) (t_software_catalog d)))"

definition app_name :: "detected_app \<Rightarrow> string" where
  "app_name a = (case da_name a of None \<Rightarrow> ''Unknown'' | Some n \<Rightarrow> n)"

definition app_source :: "detected_app \<Rightarrow> string" where
  "app_source a = ''shadow-it:'' @ da_id a"

definition app_finding :: "uuid \<Rightarrow> timestamp \<Rightarrow> software_listing option \<Rightarrow> detected_app \<Rightarrow> compliance_finding" where
  "app_finding rowId t listing a = \<lparr>cf_id = rowId, cf_asset = None, cf_employee = None, cf_software = app_name a,
     cf_version = da_version a, cf_severity = (if listing = Some Blacklisted then Sev_high else Sev_medium),
     cf_status = Fi_open, cf_source = app_source a, cf_detected_at = t, cf_resolved_by = None, cf_note = None,
     cf_resolved_at = None\<rparr>"

definition process_app :: "(string \<times> software_listing) list \<Rightarrow> detected_app \<Rightarrow> nat svc" where
  "process_app catalog a =
     (let listing = map_of catalog (toLowerCase (app_name a)) in
      if listing = Some Whitelisted then mret 0
      else mbind (query (\<lambda>d. find_where (\<lambda>f. cf_source f = app_source a \<and> cf_status f = Fi_open) (t_findings d))) (\<lambda>existing.
           if existing \<noteq> None then mret 0
           else mbind newId (\<lambda>rowId. mbind now (\<lambda>t.
                mbind (insert_finding (app_finding rowId t listing a)) (\<lambda>_. mret 1)))))"

definition processBatch :: "detected_app list \<Rightarrow> (string \<times> software_listing) list \<Rightarrow> nat svc" where
  "processBatch apps catalog = sum_for (process_app catalog) apps"

definition app_page :: "detected_app graph_api \<Rightarrow> (string \<times> software_listing) list \<Rightarrow> string \<Rightarrow> (nat \<times> nat \<times> string option) svc" where
  "app_page api catalog url =
     mbind (outside_call (api url)) (\<lambda>pg.
     mbind (processBatch (page_rows pg) catalog) (\<lambda>n.
     mret (length (page_rows pg), n, gp_next pg)))"

definition APPS_URL :: string where
  "APPS_URL = ''/deviceManagement/detectedApps?$top=100&$select=id,displayName,version,sizeInByte,deviceCount''"

definition detectShadowIt :: "detected_app graph_api \<Rightarrow> world \<Rightarrow> ((exn + nat \<times> nat) \<times> world) option" where
  "detectShadowIt api w =
     (if \<not> w_graph_enabled w then Some (Inr (0, 0), w)
      else (case loadCatalog w of
              (Inl e, w') \<Rightarrow> Some (Inl e, w')
            | (Inr catalog, w') \<Rightarrow> page_loop (app_page api catalog) (Some APPS_URL) 0 0 w'))"

definition listShadowItFindings :: "nat \<Rightarrow> compliance_finding list svc" where
  "listShadowItFindings lim = query (\<lambda>d.
     take lim (sort_key cf_detected_at (select_where (\<lambda>f. like ''shadow-it:%'' (cf_source f)) (t_findings d))))"

section \<open>Timers\<close>

text \<open>Both timers log a failure and end.\<close>

definition device_sync_tick :: "device graph_api \<Rightarrow> world \<Rightarrow> ((exn + unit) \<times> world) option" where
  "device_sync_tick api w =
     (if \<not> w_graph_enabled w then Some (Inr (), w)
      else map_option (\<lambda>(r, w'). (Inr (), w')) (syncDevices api w))"

definition shadow_it_tick :: "detected_app graph_api \<Rightarrow> world \<Rightarrow> ((exn + unit) \<times> world) option" where
  "shadow_it_tick api w =
     (if \<not> w_graph_enabled w then Some (Inr (), w)
      else map_option (\<lambda>(r, w'). (Inr (), w')) (detectShadowIt api w))"

end
