(* ===== verification/Compliance_Claims.thy ===== *)
theory Compliance_Claims
  imports Compliance Scenario
begin

text \<open>
  What the scans of Microsoft Graph find: a scan over finitely many pages returns and reports
  everything due, through one interface for the managed devices and the detected
  applications; what one malformed device does to it; and the consistency of the findings.
\<close>

section \<open>Scans\<close>

text \<open>The pages that following the links from \<open>u\<close> runs through, as one list of rows.\<close>

inductive page_chain :: "'a graph_api \<Rightarrow> timestamp \<Rightarrow> string option \<Rightarrow> 'a list \<Rightarrow> bool" for api t where
  chain_end: "no_url u \<Longrightarrow> page_chain api t u []"
| chain_page: "\<not> no_url u \<Longrightarrow> api (the u) t = Inr pg \<Longrightarrow> page_chain api t (gp_next pg) xs \<Longrightarrow>
    page_chain api t u (page_rows pg @ xs)"

definition appended :: "compliance_finding list \<Rightarrow> world \<Rightarrow> world \<Rightarrow> bool" where
  "appended new w w' \<longleftrightarrow> t_findings (w_db w') = t_findings (w_db w) @ new \<and> w_now w' = w_now w"

definition reported :: "('a \<Rightarrow> bool) \<Rightarrow> ('a \<Rightarrow> compliance_finding \<Rightarrow> bool) \<Rightarrow> 'a list \<Rightarrow> world \<Rightarrow> nat \<Rightarrow> world \<Rightarrow> bool" where
  "reported due tells xs w n w' \<longleftrightarrow>
     (\<exists>new. appended new w w' \<and> length new = n \<and> (\<forall>f \<in> set new. \<exists>x \<in> set xs. due x \<and> tells x f)) \<and>
     (\<forall>x \<in> set xs. due x \<longrightarrow> (\<exists>f \<in> set (t_findings (w_db w')). tells x f))"

lemma appended_now: "appended new w w' \<Longrightarrow> w_now w' = w_now w"
  by (simp add: appended_def)

lemma appended_refl: "appended [] w w"
  by (simp add: appended_def)

lemma reported_now: "reported due tells xs w n w' \<Longrightarrow> w_now w' = w_now w"
  by (auto simp: reported_def appended_def)

lemma reported_Nil: "reported due tells [] w 0 w"
  by (simp add: reported_def appended_refl)

lemma reported_append:
  assumes "reported due tells xs w n w1" and "reported due tells ys w1 k w2"
  shows "reported due tells (xs @ ys) w (n + k) w2"
proof -
  from assms obtain new new' where new: "appended new w w1" "length new = n" "\<forall>f \<in> set new. \<exists>x \<in> set xs. due x \<and> tells x f"
    and new': "appended new' w1 w2" "length new' = k" "\<forall>f \<in> set new'. \<exists>x \<in> set ys. due x \<and> tells x f"
    unfolding reported_def by blast
  have "appended (new @ new') w w2" "length (new @ new') = n + k"
    using new new' by (simp_all add: appended_def)
  moreover have "\<forall>f \<in> set (new @ new'). \<exists>x \<in> set (xs @ ys). due x \<and> tells x f"
    using new(3) new'(3) by auto
  moreover have "\<forall>x \<in> set (xs @ ys). due x \<longrightarrow> (\<exists>f \<in> set (t_findings (w_db w2)). tells x f)"
    using assms new'(1) by (fastforce simp: reported_def appended_def)
  ultimately show ?thesis
    unfolding reported_def by blast
qed

lemma reported_same: "reported due tells xs w n w1 \<Longrightarrow> appended [] w1 w2 \<Longrightarrow> reported due tells xs w n w2"
  by (auto simp: reported_def appended_def)

text \<open>
  The interface of a scan: what processing one row does to the findings, and what happens
  between two pages.
\<close>

locale scanner =
  fixes process :: "'a \<Rightarrow> nat svc" and after :: "'a graph_page \<Rightarrow> unit svc"
    and due :: "'a \<Rightarrow> bool" and tells :: "'a \<Rightarrow> compliance_finding \<Rightarrow> bool" and fits :: "'a \<Rightarrow> bool"
  assumes process_Inr: "process x w = (Inr n, w') \<Longrightarrow> reported due tells [x] w n w'"
    and process_Inl: "process x w = (Inl e, w') \<Longrightarrow> appended [] w w'"
    and process_fits: "fits x \<Longrightarrow> \<exists>n w'. process x w = (Inr n, w')"
    and after_run: "\<exists>w'. after pg w = (Inr (), w') \<and> appended [] w w'"
begin

definition scan_page :: "'a graph_api \<Rightarrow> string \<Rightarrow> (nat \<times> nat \<times> string option) svc" where
  "scan_page api url =
     mbind (outside_call (api url)) (\<lambda>pg.
     mbind (sum_for process (page_rows pg)) (\<lambda>n.
     mbind (after pg) (\<lambda>_. mret (length (page_rows pg), n, gp_next pg))))"

lemma sum_reports:
  assumes "\<forall>x \<in> set xs. fits x"
  shows "\<exists>n w'. sum_for process xs w = (Inr n, w') \<and> reported due tells xs w n w'"
  using assms
proof (induction xs arbitrary: w)
  case Nil
  then show ?case by (simp add: reported_Nil)
next
  case (Cons x xs)
  from Cons.prems process_fits obtain n w1 where one: "process x w = (Inr n, w1)" by fastforce
  from Cons obtain k w2 where rest: "sum_for process xs w1 = (Inr k, w2)" "reported due tells xs w1 k w2" by fastforce
  with reported_append [OF process_Inr [OF one] rest(2)] one show ?case
    by (intro exI [of _ "n + k"] exI [of _ w2]) (simp add: mbind_eq [where m = "process x", OF one] mbind_eq [where m = "sum_for process xs", OF rest(1)])
qed

lemma sum_stops:
  assumes "\<forall>y \<in> set xs. fits y" and "\<And>n w1. reported due tells xs w n w1 \<Longrightarrow> \<exists>e w2. process x w1 = (Inl e, w2)"
  shows "\<exists>e n w'. sum_for process (xs @ x # ys) w = (Inl e, w') \<and> reported due tells xs w n w'"
  using assms
proof (induction xs arbitrary: w)
  case Nil
  then obtain e w2 where stop: "process x w = (Inl e, w2)" using reported_Nil by blast
  then show ?case
    using reported_same [OF reported_Nil process_Inl [OF stop]]
    by (intro exI [of _ e] exI [of _ 0] exI [of _ w2]) (simp add: mbind_eq_Inl [where m = "process x", OF stop])
next
  case (Cons y xs)
  from Cons.prems(1) process_fits obtain n w1 where one: "process y w = (Inr n, w1)" by fastforce
  have "\<exists>e w2. process x v = (Inl e, w2)" if "reported due tells xs w1 k v" for k v
    using Cons.prems(2) reported_append [OF process_Inr [OF one] that] by simp
  with Cons obtain e k w2 where rest: "sum_for process (xs @ x # ys) w1 = (Inl e, w2)" "reported due tells xs w1 k w2"
    by (metis list.set_intros(2))
  with reported_append [OF process_Inr [OF one] rest(2)] show ?case
    by (intro exI [of _ e] exI [of _ "n + k"] exI [of _ w2])
      (simp add: mbind_eq [where m = "process y", OF one] mbind_eq_Inl [where m = "sum_for process (xs @ x # ys)", OF rest(1)])
qed

lemma scan_returns:
  assumes "page_chain api t u xs" and "w_now w = t" and "\<forall>x \<in> set xs. fits x"
  shows "\<exists>n w'. page_loop (scan_page api) u a b w = Some (Inr (a + length xs, b + n), w') \<and> reported due tells xs w n w'"
  using assms
proof (induction arbitrary: w a b rule: page_chain.induct)
  case (chain_end u)
  then show ?case
    by (intro exI [of _ 0] exI [of _ w]) (simp add: page_loop.simps reported_Nil)
next
  case (chain_page u pg xs)
  from chain_page.prems(2) obtain n w1 where rows: "sum_for process (page_rows pg) w = (Inr n, w1)"
    "reported due tells (page_rows pg) w n w1"
    using sum_reports [of "page_rows pg" w] by auto
  obtain w2 where w2: "after pg w1 = (Inr (), w2)" "appended [] w1 w2" using after_run by blast
  have this_page: "reported due tells (page_rows pg) w n w2" by (rule reported_same [OF rows(2) w2(2)])
  have body: "scan_page api (the u) w = (Inr (length (page_rows pg), n, gp_next pg), w2)"
    using chain_page.hyps(2) chain_page.prems(1) by (simp add: scan_page_def outside_call_def mbind_eq [where m = "outside_call (api (the u))" and s = w and x = pg and s' = w]
      mbind_eq [where m = "sum_for process (page_rows pg)", OF rows(1)] mbind_eq [where m = "after pg", OF w2(1)])
  have "w_now w2 = t" using reported_now [OF this_page] chain_page.prems(1) by simp
  from chain_page.IH [OF this] chain_page.prems(2)
  obtain k w3 where "page_loop (scan_page api) (gp_next pg) (a + length (page_rows pg)) (b + n) w2 =
      Some (Inr (a + length (page_rows pg) + length xs, b + n + k), w3)" "reported due tells xs w2 k w3"
    by fastforce
  with body reported_append [OF this_page] chain_page.hyps(1) show ?case
    by (intro exI [of _ "n + k"] exI [of _ w3]) (simp add: page_loop.simps [of _ u] add.assoc)
qed

lemma scan_stops:
  assumes "page_chain api t u (xs @ x # ys)" and "w_now w = t" and "\<forall>x \<in> set xs. fits x"
    and "\<And>n w1. reported due tells xs w n w1 \<Longrightarrow> \<exists>e w2. process x w1 = (Inl e, w2)"
  shows "\<exists>e n w'. page_loop (scan_page api) u a b w = Some (Inl e, w') \<and> reported due tells xs w n w'"
  using assms
proof (induction u "xs @ x # ys" arbitrary: w a b xs rule: page_chain.induct)
  case chain_end
  then show ?case by simp
next
  case (chain_page u pg rest)
  have api: "api (the u) (w_now w) = Inr pg" using chain_page.hyps(2) chain_page.prems(1) by simp
  obtain us where us: "page_rows pg = xs @ us \<and> us @ rest = x # ys \<or> page_rows pg @ us = xs \<and> rest = us @ x # ys"
    using chain_page.hyps(5) by (auto simp: append_eq_append_conv2)
  consider ys' where "page_rows pg = xs @ x # ys'" | xs' where "xs = page_rows pg @ xs'" "rest = xs' @ x # ys"
  proof (cases us)
    case Nil
    with us show thesis by (intro that(2) [of "[]"]) auto
  next
    case (Cons z zs)
    with us show thesis by (cases "page_rows pg = xs @ us") (auto intro: that)
  qed
  then show ?case
  proof cases
    case 1
    have "\<exists>e n w'. sum_for process (xs @ x # ys') w = (Inl e, w') \<and> reported due tells xs w n w'"
      by (rule sum_stops [OF chain_page.prems(2)]) (rule chain_page.prems(3))
    then obtain e n w1 where "sum_for process (page_rows pg) w = (Inl e, w1)" "reported due tells xs w n w1"
      unfolding 1 by blast
    with api chain_page.hyps(1) show ?thesis
      by (intro exI [of _ e] exI [of _ n] exI [of _ w1])
        (simp add: page_loop.simps [of _ u] scan_page_def outside_call_def mbind_eq [where m = "outside_call (api (the u))" and s = w and x = pg and s' = w]
          mbind_eq_Inl [where m = "sum_for process (page_rows pg)"])
  next
    case 2
    from chain_page.prems(2) 2 obtain n w1 where rows: "sum_for process (page_rows pg) w = (Inr n, w1)"
      "reported due tells (page_rows pg) w n w1"
      using sum_reports [of "page_rows pg" w] by auto
    obtain w2 where w2: "after pg w1 = (Inr (), w2)" "appended [] w1 w2" using after_run by blast
    have this_page: "reported due tells (page_rows pg) w n w2" by (rule reported_same [OF rows(2) w2(2)])
    have body: "scan_page api (the u) w = (Inr (length (page_rows pg), n, gp_next pg), w2)"
      using api by (simp add: scan_page_def outside_call_def mbind_eq [where m = "outside_call (api (the u))" and s = w and x = pg and s' = w]
        mbind_eq [where m = "sum_for process (page_rows pg)", OF rows(1)] mbind_eq [where m = "after pg", OF w2(1)])
    have "\<exists>e v'. process x v = (Inl e, v')" if "reported due tells xs' w2 k v" for k v
      using chain_page.prems(3) reported_append [OF this_page that] 2(1) by simp
    moreover have "w_now w2 = t" using reported_now [OF this_page] chain_page.prems(1) by simp
    ultimately obtain e k w3 where "page_loop (scan_page api) (gp_next pg) (a + length (page_rows pg)) (b + n) w2 = Some (Inl e, w3)"
      "reported due tells xs' w2 k w3"
      using chain_page.hyps(4) [OF 2(2), of w2] chain_page.prems(2) 2(1) by fastforce
    with body reported_append [OF this_page] chain_page.hyps(1) 2(1) show ?thesis
      by (intro exI [of _ e] exI [of _ "n + k"] exI [of _ w3]) (simp add: page_loop.simps [of _ u])
  qed
qed

end

section \<open>Devices and applications\<close>

definition tells_device :: "device \<Rightarrow> compliance_finding \<Rightarrow> bool" where
  "tells_device dv f \<longleftrightarrow> cf_source f = device_source dv"

definition device_fits :: "device \<Rightarrow> bool" where
  "device_fits dv \<longleftrightarrow> device_issues dv \<noteq> [] \<longrightarrow> finding_fits (device_finding [] 0 dv)"

definition tells_app :: "detected_app \<Rightarrow> compliance_finding \<Rightarrow> bool" where
  "tells_app a f \<longleftrightarrow> cf_source f = app_source a \<and> cf_status f = Fi_open"

definition app_fits :: "detected_app \<Rightarrow> bool" where
  "app_fits a \<longleftrightarrow> finding_fits (app_finding [] 0 None a)"

definition app_due :: "(string \<times> software_listing) list \<Rightarrow> detected_app \<Rightarrow> bool" where
  "app_due catalog a \<longleftrightarrow> map_of catalog (toLowerCase (app_name a)) \<noteq> Some Whitelisted"

lemma insert_finding_apply:
  "insert_finding f w = (if finding_fits f then (Inr (), w\<lparr>w_db := t_findings_update (insert_row f) (w_db w)\<rparr>)
     else (Inl (PlainError ''value too long for type character varying''), w))"
  by (simp add: insert_finding_def)

lemma fits_device_finding: "finding_fits (device_finding i t dv) = finding_fits (device_finding [] 0 dv)"
  by (simp add: finding_fits_def device_finding_def)

lemma fits_app_finding: "finding_fits (app_finding i t l a) = finding_fits (app_finding [] 0 None a)"
  by (simp add: finding_fits_def app_finding_def)

text \<open>Both scans of one row are this: nothing, one new finding, or a refused insertion.\<close>

definition report_row :: "bool \<Rightarrow> compliance_finding \<Rightarrow> nat svc" where
  "report_row needed f w =
     (if \<not> needed then (Inr 0, w)
      else if finding_fits f then (Inr 1, w\<lparr>w_next := Suc (w_next w), w_db := t_findings_update (insert_row f) (w_db w)\<rparr>)
      else (Inl (PlainError ''value too long for type character varying''), w\<lparr>w_next := Suc (w_next w)\<rparr>))"

lemma process_device_apply:
  "process_device dv w = report_row (device_issues dv \<noteq> [] \<and> find_where (tells_device dv) (t_findings (w_db w)) = None)
     (device_finding (w_uuid w (w_next w)) (w_now w) dv) w"
  by (simp add: process_device_def report_row_def tells_device_def [abs_def] mbind_def insert_finding_apply)

lemma process_app_apply:
  "process_app catalog a w = report_row (app_due catalog a \<and> find_where (tells_app a) (t_findings (w_db w)) = None)
     (app_finding (w_uuid w (w_next w)) (w_now w) (map_of catalog (toLowerCase (app_name a))) a) w"
  by (simp add: process_app_def app_due_def report_row_def tells_app_def [abs_def] Let_def mbind_def insert_finding_apply)

lemma report_row_Inr:
  assumes "report_row (due \<and> find_where p (t_findings (w_db w)) = None) f w = (Inr n, w')" and "p f"
  shows "reported (\<lambda>_. due) (\<lambda>_. p) [x] w n w'"
proof (cases "due \<and> find_where p (t_findings (w_db w)) = None")
  case True
  with assms show ?thesis
    by (auto simp: report_row_def reported_def appended_def insert_row_def split: if_splits)
next
  case False
  with assms show ?thesis
    by (auto simp: report_row_def reported_def appended_def dest: find_where_SomeD)
qed

lemma report_row_Inl: "report_row b f w = (Inl e, w') \<Longrightarrow> appended [] w w'"
  by (auto simp: report_row_def appended_def split: if_splits)

lemma report_row_fits: "(b \<Longrightarrow> finding_fits f) \<Longrightarrow> \<exists>n w'. report_row b f w = (Inr n, w')"
  by (simp add: report_row_def)

lemma keep_delta_run: "\<exists>w'. keep_delta link w = (Inr (), w') \<and> appended [] w w'"
  by (simp add: keep_delta_def mwhen_def appended_def)

interpretation devices: scanner process_device "\<lambda>pg. keep_delta (gp_delta pg)" "\<lambda>dv. device_issues dv \<noteq> []" tells_device device_fits
proof
  fix dv w n w'
  assume "process_device dv w = (Inr n, w')"
  then have "reported (\<lambda>_. device_issues dv \<noteq> []) (\<lambda>_. tells_device dv) [dv] w n w'"
    unfolding process_device_apply by (rule report_row_Inr) (simp add: tells_device_def device_finding_def)
  then show "reported (\<lambda>dv. device_issues dv \<noteq> []) tells_device [dv] w n w'"
    by (simp add: reported_def)
next
  fix dv w e w' show "process_device dv w = (Inl e, w') \<Longrightarrow> appended [] w w'"
    unfolding process_device_apply by (rule report_row_Inl)
next
  fix dv w show "device_fits dv \<Longrightarrow> \<exists>n w'. process_device dv w = (Inr n, w')"
    unfolding process_device_apply by (rule report_row_fits) (simp add: device_fits_def fits_device_finding [of "w_uuid w (w_next w)"])
qed (rule keep_delta_run)

interpretation apps: scanner "process_app catalog" "\<lambda>pg. mret ()" "app_due catalog" tells_app app_fits for catalog
proof
  fix a w n w'
  assume "process_app catalog a w = (Inr n, w')"
  then have "reported (\<lambda>_. app_due catalog a) (\<lambda>_. tells_app a) [a] w n w'"
    unfolding process_app_apply by (rule report_row_Inr) (simp add: tells_app_def app_finding_def)
  then show "reported (app_due catalog) tells_app [a] w n w'"
    by (simp add: reported_def)
next
  fix a w e w' show "process_app catalog a w = (Inl e, w') \<Longrightarrow> appended [] w w'"
    unfolding process_app_apply by (rule report_row_Inl)
next
  fix a w show "app_fits a \<Longrightarrow> \<exists>n w'. process_app catalog a w = (Inr n, w')"
    unfolding process_app_apply by (rule report_row_fits)
      (simp add: app_fits_def fits_app_finding [of "w_uuid w (w_next w)"])
qed (simp add: appended_refl)

lemma mbind_mret_unit: "mbind (mret x) k = k x"
  by (simp add: fun_eq_iff)

lemma device_page_scan: "device_page api = devices.scan_page api"
  by (simp add: fun_eq_iff device_page_def devices.scan_page_def processDeviceBatch_def)

lemma app_page_scan: "app_page api catalog = apps.scan_page catalog api"
  by (simp add: fun_eq_iff app_page_def apps.scan_page_def processBatch_def mbind_mret_unit del: mret_apply)

section \<open>Complete scans\<close>

definition sync_start :: "world \<Rightarrow> string option" where
  "sync_start w = Some (case w_delta_link w of None \<Rightarrow> DEVICES_URL | Some link \<Rightarrow> link)"

definition catalog_of :: "world \<Rightarrow> (string \<times> software_listing) list" where
  "catalog_of w = rev (map (\<lambda>s. (toLowerCase (so_name s), so_listing s)) (t_software_catalog (w_db w)))"

lemma syncDevices_eq: "w_graph_enabled w \<Longrightarrow> syncDevices api w = page_loop (devices.scan_page api) (sync_start w) 0 0 w"
  by (simp add: syncDevices_def sync_start_def device_page_scan)

lemma detectShadowIt_eq:
  "w_graph_enabled w \<Longrightarrow> detectShadowIt api w = page_loop (apps.scan_page (catalog_of w) api) (Some APPS_URL) 0 0 w"
  by (simp add: detectShadowIt_def loadCatalog_def catalog_of_def app_page_scan)


text \<open>One device that is both noncompliant and unencrypted, with an identifier of the usual 36
  characters, ends the synchronisation: the key of its finding has 68 characters and the column
  holds 60.  The insertion throws, the timer swallows the exception, and no device behind it, on this
  page or a later one, gets a finding.\<close>

theorem double_issue_blocks_sync:
  assumes "w_graph_enabled w" and "page_chain intune (w_now w) (sync_start w) (ds @ dv # rest)"
    and "\<forall>d \<in> set ds. device_fits d" and "dv_compliance dv = Some ''noncompliant''" and "\<not> dv_encrypted dv" and "length (dv_id dv) = 36"
    and "\<forall>f \<in> set (t_findings (w_db w)). length (cf_source f) \<le> 60"
  shows "\<exists>e w'. syncDevices intune w = Some (Inl e, w') \<and> device_sync_tick intune w = Some (Inr (), w') \<and>
    (\<forall>f \<in> set (t_findings (w_db w')). f \<in> set (t_findings (w_db w)) \<or> (\<exists>d \<in> set ds. cf_source f = device_source d))"
proof -
  have long: "length (device_source dv) = 68"
    using assms(4-6) by (simp add: device_source_def device_issues_def)
  have stop: "\<exists>e w2. process_device dv w1 = (Inl e, w2)"
    if run: "reported (\<lambda>dv. device_issues dv \<noteq> []) tells_device ds w n w1" for n w1
  proof -
    have short: "length (device_source d) \<le> 60" if "d \<in> set ds" "device_issues d \<noteq> []" for d
      using that assms(3) by (auto simp: device_fits_def finding_fits_def device_finding_def)
    obtain new where new: "t_findings (w_db w1) = t_findings (w_db w) @ new"
      "\<forall>f \<in> set new. \<exists>d \<in> set ds. device_issues d \<noteq> [] \<and> cf_source f = device_source d"
      using run by (auto simp: reported_def appended_def tells_device_def)
    have "length (cf_source f) \<le> 60" if "f \<in> set (t_findings (w_db w1))" for f
      using that new assms(7) short by (cases "f \<in> set new") force+
    then have "find_where (tells_device dv) (t_findings (w_db w1)) = None"
      using long by (fastforce simp: find_where_def find_None_iff tells_device_def)
    moreover have "device_issues dv \<noteq> []" using assms(4) by (simp add: device_issues_def)
    moreover have "\<not> finding_fits (device_finding (w_uuid w1 (w_next w1)) (w_now w1) dv)"
      using long by (simp add: finding_fits_def device_finding_def)
    ultimately show ?thesis by (simp add: process_device_apply report_row_def)
  qed
  have "\<exists>e n w'. page_loop (devices.scan_page intune) (sync_start w) 0 0 w = Some (Inl e, w') \<and>
      reported (\<lambda>dv. device_issues dv \<noteq> []) tells_device ds w n w'"
    by (rule devices.scan_stops [OF assms(2) refl assms(3)]) (rule stop)
  then obtain e n w' where
    "page_loop (devices.scan_page intune) (sync_start w) 0 0 w = Some (Inl e, w')" "reported (\<lambda>dv. device_issues dv \<noteq> []) tells_device ds w n w'"
    by blast
  with assms(1) show ?thesis
    by (intro exI [of _ e] exI [of _ w']) (auto simp: syncDevices_eq device_sync_tick_def reported_def appended_def tells_device_def)
qed

section \<open>Consistency of the findings\<close>

definition from_intune :: "compliance_finding \<Rightarrow> bool" where
  "from_intune f \<longleftrightarrow> take 7 (cf_source f) = ''intune:''"

definition open_shadow :: "compliance_finding \<Rightarrow> bool" where
  "open_shadow f \<longleftrightarrow> take 10 (cf_source f) = ''shadow-it:'' \<and> cf_status f = Fi_open"

definition findings_ok :: "world \<Rightarrow> bool" where
  "findings_ok w \<longleftrightarrow> keyed cf_id (t_findings (w_db w)) w \<and> distinct (map cf_source (filter from_intune (t_findings (w_db w)))) \<and>
     distinct (map cf_source (filter open_shadow (t_findings (w_db w)))) \<and>
     (\<forall>f \<in> set (t_findings (w_db w)). finding_closed (cf_status f) \<longleftrightarrow> cf_resolved_at f \<noteq> None)"

definition finding_rank :: "finding_status \<Rightarrow> nat" where
  "finding_rank s = (case s of Fi_open \<Rightarrow> 0 | Fi_acknowledged \<Rightarrow> 1 | _ \<Rightarrow> 2)"

definition detected_part :: "compliance_finding \<Rightarrow> compliance_finding" where
  "detected_part f = f\<lparr>cf_status := Fi_open, cf_resolved_by := None, cf_note := None, cf_resolved_at := None\<rparr>"

definition findings_evolve :: "compliance_finding list \<Rightarrow> compliance_finding list \<Rightarrow> bool" where
  "findings_evolve T T' \<longleftrightarrow> (\<forall>f \<in> set T. \<exists>f' \<in> set T'. detected_part f' = detected_part f \<and>
     finding_rank (cf_status f) \<le> finding_rank (cf_status f') \<and> (finding_closed (cf_status f) \<longrightarrow> f' = f))"

definition findings_step :: "world \<Rightarrow> world \<Rightarrow> bool" where
  "findings_step w w' \<longleftrightarrow> (findings_ok w \<longrightarrow> findings_ok w' \<and> findings_evolve (t_findings (w_db w)) (t_findings (w_db w')))"

lemma findings_evolve_refl: "findings_evolve T T"
  by (auto simp: findings_evolve_def)

lemma findings_evolve_trans:
  assumes "findings_evolve T U" and "findings_evolve U V"
  shows "findings_evolve T V"
  unfolding findings_evolve_def
proof
  fix f assume "f \<in> set T"
  with assms(1) obtain g where g: "g \<in> set U" "detected_part g = detected_part f" "finding_rank (cf_status f) \<le> finding_rank (cf_status g)"
    "finding_closed (cf_status f) \<longrightarrow> g = f" unfolding findings_evolve_def by blast
  with assms(2) obtain h where "h \<in> set V" "detected_part h = detected_part g" "finding_rank (cf_status g) \<le> finding_rank (cf_status h)"
    "finding_closed (cf_status g) \<longrightarrow> h = g" unfolding findings_evolve_def by blast
  with g show "\<exists>f' \<in> set V. detected_part f' = detected_part f \<and> finding_rank (cf_status f) \<le> finding_rank (cf_status f') \<and>
      (finding_closed (cf_status f) \<longrightarrow> f' = f)"
    by (intro bexI [of _ h]) auto
qed

lemma findings_evolve_append: "findings_evolve T (T @ U)"
  by (auto simp: findings_evolve_def)

interpretation findings: frame_rel findings_step
  by unfold_locales (auto simp: findings_step_def findings_evolve_refl intro: findings_evolve_trans)

lemma findings_same:
  "t_findings (w_db w') = t_findings (w_db w) \<Longrightarrow> w_uuid w' = w_uuid w \<Longrightarrow> w_next w \<le> w_next w' \<Longrightarrow> findings_step w w'"
  by (auto simp: findings_step_def findings_ok_def findings_evolve_refl intro: keyed_later)

lemma findings_append:
  assumes "cf_id f = w_uuid w (w_next w)" and "cf_status f = Fi_open" and "cf_resolved_at f = None"
    and "\<And>g. g \<in> set (t_findings (w_db w)) \<Longrightarrow> from_intune f \<Longrightarrow> cf_source g \<noteq> cf_source f"
    and "\<And>g. g \<in> set (t_findings (w_db w)) \<Longrightarrow> open_shadow f \<Longrightarrow> open_shadow g \<Longrightarrow> cf_source g \<noteq> cf_source f"
  shows "findings_step w (w\<lparr>w_next := Suc (w_next w), w_db := t_findings_update (insert_row f) (w_db w)\<rparr>)"
  unfolding findings_step_def
proof (rule impI)
  assume ok: "findings_ok w"
  let ?w = "w\<lparr>w_next := Suc (w_next w), w_db := t_findings_update (insert_row f) (w_db w)\<rparr>"
  have "keyed cf_id (insert_row f (t_findings (w_db w))) ?w"
    using ok by (intro keyed_insert [where k = cf_id and n = "w_next w" and w = w]) (simp_all add: findings_ok_def assms(1))
  moreover have "distinct (map cf_source (filter from_intune (t_findings (w_db w) @ [f])))"
    using ok assms(4) by (fastforce simp: findings_ok_def)
  moreover have "distinct (map cf_source (filter open_shadow (t_findings (w_db w) @ [f])))"
    using ok assms(5) by (fastforce simp: findings_ok_def)
  ultimately have "findings_ok ?w"
    using ok assms(2,3) by (simp add: findings_ok_def insert_row_def finding_closed_def)
  then show "findings_ok ?w \<and> findings_evolve (t_findings (w_db w)) (t_findings (w_db ?w))"
    by (simp add: insert_row_def findings_evolve_append)
qed

lemma process_device_step: "keeps findings_step (process_device dv)"
proof (rule keepsI)
  fix w
  show "findings_step w (snd (process_device dv w))"
    unfolding process_device_apply report_row_def
    by (auto simp: findings_same tells_device_def device_finding_def from_intune_def open_shadow_def device_source_def find_where_def find_None_iff
        intro!: findings_append)
qed

lemma process_app_step: "keeps findings_step (process_app catalog a)"
proof (rule keepsI)
  fix w
  show "findings_step w (snd (process_app catalog a w))"
    unfolding process_app_apply report_row_def
    by (auto simp: findings_same tells_app_def app_finding_def from_intune_def open_shadow_def app_source_def find_where_def find_None_iff
        intro!: findings_append)
qed

lemma sum_for_step: "(\<And>x. keeps findings_step (f x)) \<Longrightarrow> keeps findings_step (sum_for f xs)"
  by (induction xs) (simp_all add: findings.keeps_ret findings.keeps_bind)

lemma outside_call_step: "keeps findings_step (outside_call g)"
  by (simp add: keeps_def outside_call_def findings.rel_refl)

lemma device_page_step: "keeps findings_step (device_page api u)"
  unfolding device_page_def processDeviceBatch_def keep_delta_def
  by (intro findings.keeps_rules findings.keeps_modify outside_call_step sum_for_step process_device_step) (simp add: findings_same)

lemma app_page_step: "keeps findings_step (app_page api catalog u)"
  unfolding app_page_def processBatch_def
  by (intro findings.keeps_rules outside_call_step sum_for_step process_app_step)

lemma page_loop_step:
  assumes "page_loop body u a b w = Some y" and "\<And>u. keeps findings_step (body u)"
  shows "findings_step w (snd y)"
proof -
  have "(\<forall>u. keeps findings_step (body u)) \<longrightarrow> findings_step w (snd y)"
  proof (rule page_loop.raw_induct [where P = "\<lambda>body u a b w y. (\<forall>u. keeps findings_step (body u)) \<longrightarrow> findings_step w (snd y)", OF _ assms(1)])
    fix loop and body :: "string \<Rightarrow> (nat \<times> nat \<times> string option) svc" and u a b and w :: world and y
    assume IH: "\<And>body u a b w y. loop body u a b w = Some y \<Longrightarrow> (\<forall>u. keeps findings_step (body u)) \<longrightarrow> findings_step w (snd y)"
      and run: "(if no_url u then Some (Inr (a, b), w) else case body (the u) w of (Inl e, w') \<Rightarrow> Some (Inl e, w')
         | (Inr (n, k, url'), w') \<Rightarrow> loop body url' (a + n) (b + k) w') = Some y"
    show "(\<forall>u. keeps findings_step (body u)) \<longrightarrow> findings_step w (snd y)"
    proof
      assume step: "\<forall>u. keeps findings_step (body u)"
      obtain r w1 where one: "body (the u) w = (r, w1)" by fastforce
      with step have w1: "findings_step w w1" by (auto dest: keepsD)
      show "findings_step w (snd y)"
      proof (cases "no_url u")
        case True
        with run show ?thesis by (auto simp: findings.rel_refl)
      next
        case False
        show ?thesis
        proof (cases r)
          case (Inl e)
          with run one False w1 show ?thesis by auto
        next
          case (Inr x)
          obtain n k url' where x: "x = (n, k, url')" by (cases x)
          with run one False Inr have "loop body url' (a + n) (b + k) w1 = Some y" by simp
          with IH step have "findings_step w1 (snd y)" by blast
          with w1 show ?thesis by (rule findings.rel_trans)
        qed
      qed
    qed
  qed
  with assms(2) show ?thesis by blast
qed

lemma syncDevices_step: "syncDevices api w = Some (r, w') \<Longrightarrow> findings_step w w'"
  by (auto simp: syncDevices_def findings.rel_refl split: if_splits dest!: page_loop_step [OF _ device_page_step])

lemma detectShadowIt_step: "detectShadowIt api w = Some (r, w') \<Longrightarrow> findings_step w w'"
  by (auto simp: detectShadowIt_def loadCatalog_def findings.rel_refl split: if_splits dest!: page_loop_step [OF _ app_page_step])

text \<open>A decision about one finding.\<close>

definition decided :: "finding_status \<Rightarrow> uuid option \<Rightarrow> string option \<Rightarrow> timestamp \<Rightarrow> compliance_finding \<Rightarrow> compliance_finding" where
  "decided st by_whom comment t f = f\<lparr>cf_status := st, cf_resolved_by := (if finding_closed st then by_whom else None), cf_note := comment,
     cf_resolved_at := (if finding_closed st then Some t else None)\<rparr>"

lemma decided_step:
  assumes "find_where (\<lambda>f. cf_id f = i) (t_findings (w_db w)) = Some f"
    and "\<not> finding_closed (cf_status f)" and "finding_rank (cf_status f) \<le> finding_rank st" and "st \<noteq> Fi_open"
    and "t_findings (w_db w') = update_where (\<lambda>f. cf_id f = i) (decided st by_whom comment t) (t_findings (w_db w))"
    and "w_uuid w' = w_uuid w" and "w_next w \<le> w_next w'"
  shows "findings_step w w'"
  unfolding findings_step_def
proof (rule impI)
  assume ok: "findings_ok w"
  let ?T = "t_findings (w_db w)" and ?g = "decided st by_whom comment t"
  note f = find_where_SomeD [OF assms(1)]
  have k: "keyed cf_id ?T w" using ok by (simp add: findings_ok_def)
  have only: "x = f" if "x \<in> set ?T" "cf_id x = i" for x
    using keyed_only [OF k that(1), of f] f that(2) by simp
  have src: "cf_source (?g x) = cf_source x" "cf_id (?g x) = cf_id x" for x
    by (simp_all add: decided_def)
  have "keyed cf_id (t_findings (w_db w')) w'"
    unfolding assms(5) using keyed_later [OF k assms(6,7)] by (rule keyed_update) (simp add: decided_def)
  moreover have "distinct (map cf_source (filter from_intune (t_findings (w_db w'))))"
  proof -
    have "map cf_source (filter from_intune (update_where (\<lambda>f. cf_id f = i) ?g T)) = map cf_source (filter from_intune T)" for T
      unfolding update_where_def by (induction T) (simp_all add: src from_intune_def)
    with ok show ?thesis by (simp add: findings_ok_def assms(5))
  qed
  moreover have "distinct (map cf_source (filter open_shadow (t_findings (w_db w'))))"
  proof -
    have "filter open_shadow (update_where (\<lambda>f. cf_id f = i) ?g T) = filter (\<lambda>x. cf_id x \<noteq> i) (filter open_shadow T)" for T
      unfolding update_where_def using assms(4) by (induction T) (simp_all add: src open_shadow_def decided_def)
    with ok show ?thesis by (simp add: findings_ok_def assms(5) distinct_map_filter del: filter_filter)
  qed
  moreover have "finding_closed (cf_status x) \<longleftrightarrow> cf_resolved_at x \<noteq> None" if "x \<in> set (t_findings (w_db w'))" for x
    using that ok unfolding assms(5) by (auto simp: set_update_where findings_ok_def decided_def split: if_splits)
  ultimately have "findings_ok w'" by (simp add: findings_ok_def)
  moreover have "findings_evolve ?T (t_findings (w_db w'))"
    unfolding findings_evolve_def assms(5) set_update_where
  proof
    fix x assume x: "x \<in> set ?T"
    show "\<exists>x' \<in> (\<lambda>r. if cf_id r = i then ?g r else r) ` set ?T. detected_part x' = detected_part x \<and>
        finding_rank (cf_status x) \<le> finding_rank (cf_status x') \<and> (finding_closed (cf_status x) \<longrightarrow> x' = x)"
      using x only [OF x] assms(2,3)
      by (intro bexI [of _ "if cf_id x = i then ?g x else x"]) (auto simp: decided_def detected_part_def)
  qed
  ultimately show "findings_ok w' \<and> findings_evolve ?T (t_findings (w_db w'))" by simp
qed

lemma audit_step: "findings_step w (snd (compliance_audit actor a rt i c m w))"
  by (simp add: compliance_audit_def audit_record_def findings_same)

lemma setFindingStatus_run:
  "setFindingStatus i st by_whom comment w =
     (let w1 = w\<lparr>w_db := t_findings_update (update_where (\<lambda>f. cf_id f = i) (decided st by_whom comment (w_now w))) (w_db w)\<rparr> in
      (Inr (find_where (\<lambda>f. cf_id f = i) (t_findings (w_db w1))), w1))"
  by (simp add: setFindingStatus_def findFindingById_def decided_def [abs_def] Let_def)

lemma decide_step:
  assumes "find_where (\<lambda>f. cf_id f = i) (t_findings (w_db w)) = Some f"
    and "\<not> finding_closed (cf_status f)" and "finding_rank (cf_status f) \<le> finding_rank st" and "st \<noteq> Fi_open"
  shows "findings_step w (snd (mbind (setFindingStatus i st by_whom comment) (\<lambda>updated.
     mbind (or_throw updated e) (\<lambda>row. mbind (compliance_audit actor a rt i c m) (\<lambda>_. mret row))) w))"
proof -
  let ?w = "w\<lparr>w_db := t_findings_update (update_where (\<lambda>f. cf_id f = i) (decided st by_whom comment (w_now w))) (w_db w)\<rparr>"
  have one: "findings_step w ?w" by (rule decided_step [OF assms]) simp_all
  have rest: "findings_step ?w (snd (mbind (or_throw u e) (\<lambda>row. mbind (compliance_audit actor a rt i c m) (\<lambda>_. mret row)) ?w))" for u
    by (cases u) (simp_all add: findings.rel_refl compliance_audit_def audit_record_def findings_same)
  show ?thesis
    unfolding mbind_eq [where m = "setFindingStatus i st by_whom comment", OF setFindingStatus_run [unfolded Let_def]]
    by (rule findings.rel_trans [OF one rest])
qed

lemma resolveFinding_step: "findings_step w (snd (resolveFinding i comment accepted actor w))"
proof (cases "find_where (\<lambda>f. cf_id f = i) (t_findings (w_db w))")
  case None
  then show ?thesis by (simp add: resolveFinding_def getFinding_def findFindingById_def findings.rel_refl)
next
  case (Some f)
  show ?thesis
  proof (cases "finding_closed (cf_status f)")
    case True
    with Some show ?thesis
      by (simp add: resolveFinding_def getFinding_def findFindingById_def findings.rel_refl finding_closed_def)
  next
    case False
    then have "finding_rank (cf_status f) \<le> 2" by (simp add: finding_rank_def split: finding_status.split)
    with Some False show ?thesis
      by (simp add: resolveFinding_def getFinding_def findFindingById_def finding_closed_def decide_step finding_rank_def)
  qed
qed

lemma acknowledgeFinding_step: "findings_step w (snd (acknowledgeFinding i actor w))"
proof (cases "find_where (\<lambda>f. cf_id f = i) (t_findings (w_db w))")
  case None
  then show ?thesis by (simp add: acknowledgeFinding_def getFinding_def findFindingById_def findings.rel_refl)
next
  case (Some f)
  then show ?thesis
    by (cases "cf_status f = Fi_open")
      (simp_all add: acknowledgeFinding_def getFinding_def findFindingById_def findings.rel_refl decide_step finding_closed_def finding_rank_def)
qed

lemma software_step: "keeps findings_step (addSoftware input actor)" "keeps findings_step (updateSoftware i p actor)"
  unfolding addSoftware_def updateSoftware_def findSoftwareByName_def createSoftware_def name_free_def compliance_audit_def audit_record_def
    getSoftware_def findSoftwareById_def updateSoftware_row_def Let_def now_def newId_def query_def exec_def
  by (intro findings.keeps_rules findings.keeps_modify keepsI; simp add: findings_same)+

inductive finding_step :: "world \<Rightarrow> world \<Rightarrow> bool" where
  fstep_add: "finding_step w (snd (addSoftware input actor w))"
| fstep_update: "finding_step w (snd (updateSoftware i p actor w))"
| fstep_resolve: "finding_step w (snd (resolveFinding i comment accepted actor w))"
| fstep_acknowledge: "finding_step w (snd (acknowledgeFinding i actor w))"
| fstep_devices: "syncDevices intune w = Some (r, w') \<Longrightarrow> finding_step w w'"
| fstep_apps: "detectShadowIt detected w = Some (r, w') \<Longrightarrow> finding_step w w'"
| fstep_clock: "finding_step w (w\<lparr>w_now := t\<rparr>)"

lemma finding_run: "finding_step\<^sup>*\<^sup>* w w' \<Longrightarrow> findings_step w w'"
proof (induction rule: rtranclp_induct)
  case base
  show ?case by (rule findings.rel_refl)
next
  case (step u v)
  from step.hyps(2) have "findings_step u v"
    by (cases rule: finding_step.cases)
      (auto simp: resolveFinding_step acknowledgeFinding_step syncDevices_step detectShadowIt_step findings_same
        intro: software_step [unfolded keeps_def, rule_format])
  with step.IH show ?case by (rule findings.rel_trans)
qed

text \<open>C30: Findings stay consistent under any sequence of scans, whatever Microsoft Graph answers and
  however they end, decisions and catalog changes: no two findings carry the same device key,
  no two open ones the same application key, a resolution time is present exactly on the
  resolved and the accepted ones; no finding disappears or changes what was detected, statuses
  only move forward, and a closed finding never changes again.\<close>

theorem findings_consistent:
  assumes "finding_step\<^sup>*\<^sup>* w w'" and "findings_ok w"
  shows "distinct (map cf_source (filter from_intune (t_findings (w_db w')))) \<and>
    distinct (map cf_source (filter open_shadow (t_findings (w_db w')))) \<and>
    (\<forall>f \<in> set (t_findings (w_db w')). finding_closed (cf_status f) \<longleftrightarrow> cf_resolved_at f \<noteq> None) \<and>
    findings_evolve (t_findings (w_db w)) (t_findings (w_db w'))"
  using finding_run [OF assms(1)] assms(2) by (simp add: findings_step_def findings_ok_def)

text \<open>Three devices on one page, the second with both issues.\<close>

definition laptop_id :: "char \<Rightarrow> string" where
  "laptop_id c = replicate 36 c"

definition intune_devices :: "device list" where
  "intune_devices = [
     \<lparr>dv_id = laptop_id CHR ''a'', dv_name = Some ''pc-a'', dv_os_version = None, dv_compliance = Some ''noncompliant'', dv_encrypted = True\<rparr>,
     \<lparr>dv_id = laptop_id CHR ''b'', dv_name = Some ''pc-b'', dv_os_version = None, dv_compliance = Some ''noncompliant'', dv_encrypted = False\<rparr>,
     \<lparr>dv_id = laptop_id CHR ''c'', dv_name = None, dv_os_version = None, dv_compliance = None, dv_encrypted = False\<rparr>]"

definition one_page :: "device list \<Rightarrow> device graph_api" where
  "one_page ds url t = Inr \<lparr>gp_value = Some ds, gp_next = None, gp_delta = Some ''delta''\<rparr>"

definition graph_world :: world where
  "graph_world = base_world\<lparr>w_graph_enabled := True\<rparr>"

lemma one_page_chain: "page_chain (one_page ds) t (sync_start graph_world) ds"
proof -
  have "page_chain (one_page ds) t (Some DEVICES_URL) (page_rows \<lparr>gp_value = Some ds, gp_next = None, gp_delta = Some ''delta''\<rparr> @ [])"
    by (rule chain_page) (auto simp: no_url_def DEVICES_URL_def one_page_def intro: chain_end)
  then show ?thesis by (simp add: sync_start_def graph_world_def base_world_def page_rows_def)
qed

lemma graph_world_facts: "w_graph_enabled graph_world" "t_findings (w_db graph_world) = []"
  by (simp_all add: graph_world_def base_world_def base_db_def empty_db_def)

lemmas device_eval = device_fits_def finding_fits_def device_finding_def device_source_def device_issues_def laptop_id_def


theorem double_issue_blocks_sync_witness:
  "\<exists>e w'. syncDevices (one_page intune_devices) graph_world = Some (Inl e, w') \<and>
     list_all (\<lambda>f. cf_source f = device_source (intune_devices ! 0)) (t_findings (w_db w'))"
proof -
  have ds: "intune_devices = [intune_devices ! 0] @ intune_devices ! 1 # [intune_devices ! 2]"
    by (simp add: intune_devices_def)
  have chain: "page_chain (one_page intune_devices) (w_now graph_world) (sync_start graph_world)
      ([intune_devices ! 0] @ intune_devices ! 1 # [intune_devices ! 2])"
    using one_page_chain [of intune_devices] ds by simp
  have "\<forall>d \<in> set [intune_devices ! 0]. device_fits d" "dv_compliance (intune_devices ! 1) = Some ''noncompliant''"
    "\<not> dv_encrypted (intune_devices ! 1)" "length (dv_id (intune_devices ! 1)) = 36"
    by (simp_all add: intune_devices_def device_eval)
  from double_issue_blocks_sync [OF graph_world_facts(1) chain this] show ?thesis
    by (auto simp: graph_world_facts list_all_iff)
qed

theorem findings_consistent_witness:
  "\<exists>n w'. syncDevices (one_page [intune_devices ! 0, intune_devices ! 2]) graph_world = Some (Inr (2, n), w') \<and>
     distinct (map cf_source (filter from_intune (t_findings (w_db w'))))"
proof -
  let ?ds = "[intune_devices ! 0, intune_devices ! 2]"
  have "\<forall>dv \<in> set ?ds. device_fits dv"
    by (simp add: intune_devices_def device_eval)
  from devices.scan_returns [OF one_page_chain refl this, where w = graph_world and a = 0 and b = 0] obtain n w' where
    run: "syncDevices (one_page ?ds) graph_world = Some (Inr (2, n), w')"
    by (auto simp: syncDevices_eq graph_world_facts numeral_2_eq_2)
  have "findings_ok graph_world"
    by (simp add: findings_ok_def keyed_def graph_world_def base_world_def base_db_def empty_db_def inj_sample_uuid)
  from findings_consistent [OF r_into_rtranclp [where r = finding_step, OF fstep_devices [OF run]] this] run show ?thesis by blast
qed

end
