(* ===== verification/Catalog.thy ===== *)
theory Catalog
  imports Engine_Domain Sql_Text "HOL-Library.List_Lexorder" "HOL-Library.Char_ord"
begin

text \<open>
  The service catalog (\<^verbatim>\<open>libs/modules/catalog\<close>): items that administrators configure and
  the requests that employees submit for them to the request engine.
\<close>

section \<open>Repository\<close>

record catalog_input =
  cin_name :: string
  cin_description :: "string option"
  cin_category :: string
  cin_icon :: "string option"
  cin_permission :: string
  cin_sla_hours :: "int option"
  cin_sort :: "int option"

record catalog_patch =
  cpt_name :: "string option"
  cpt_description :: "string option option"
  cpt_category :: "string option"
  cpt_icon :: "string option option"
  cpt_permission :: "string option"
  cpt_sla_hours :: "int option option"
  cpt_active :: "bool option"
  cpt_sort :: "int option"

text \<open>The default icon, a clipboard, in UTF-8.\<close>

definition CLIPBOARD :: string where
  "CLIPBOARD = [CHR 0xF0, CHR 0x9F, CHR 0x93, CHR 0x8B]"

definition catalog_insert :: "catalog_input \<Rightarrow> catalog_item svc" where
  "catalog_insert input =
     mbind newId (\<lambda>rowId. mbind now (\<lambda>t.
     let row = \<lparr>ci_id = rowId, ci_name = cin_name input, ci_description = cin_description input, ci_category = cin_category input,
                ci_icon = Some (case cin_icon input of None \<Rightarrow> CLIPBOARD | Some i \<Rightarrow> i), ci_permission = cin_permission input,
                ci_sla_hours = cin_sla_hours input, ci_active = True,
                ci_sort = (case cin_sort input of None \<Rightarrow> 0 | Some n \<Rightarrow> n), ci_created_at = t, ci_updated_at = t\<rparr> in
     mbind (exec (t_catalog_items_update (insert_row row))) (\<lambda>_. mret row)))"

definition findItemById :: "uuid \<Rightarrow> catalog_item option svc" where
  "findItemById rowId = query (\<lambda>d. find_where (\<lambda>c. ci_id c = rowId) (t_catalog_items d))"

text \<open>Ordered by \<^verbatim>\<open>sortOrder\<close>, then by name.\<close>

definition catalog_list :: "bool \<Rightarrow> catalog_item list svc" where
  "catalog_list includeInactive = query (\<lambda>d.
     sort_key ci_sort (sort_key ci_name (select_where (\<lambda>c. includeInactive \<or> ci_active c) (t_catalog_items d))))"

definition patched_item :: "catalog_patch \<Rightarrow> timestamp \<Rightarrow> catalog_item \<Rightarrow> catalog_item" where
  "patched_item p t c = c\<lparr>ci_name := patched (cpt_name p) (ci_name c), ci_description := patched (cpt_description p) (ci_description c),
     ci_category := patched (cpt_category p) (ci_category c), ci_icon := patched (cpt_icon p) (ci_icon c),
     ci_permission := patched (cpt_permission p) (ci_permission c), ci_sla_hours := patched (cpt_sla_hours p) (ci_sla_hours c),
     ci_active := patched (cpt_active p) (ci_active c), ci_sort := patched (cpt_sort p) (ci_sort c), ci_updated_at := t\<rparr>"

definition catalog_update_row :: "uuid \<Rightarrow> catalog_patch \<Rightarrow> catalog_item option svc" where
  "catalog_update_row rowId p =
     mbind now (\<lambda>t.
     mbind (exec (t_catalog_items_update (update_where (\<lambda>c. ci_id c = rowId) (patched_item p t)))) (\<lambda>_.
     findItemById rowId))"

definition catalog_delete_row :: "uuid \<Rightarrow> unit svc" where
  "catalog_delete_row rowId = exec (t_catalog_items_update (delete_where (\<lambda>c. ci_id c = rowId)))"

section \<open>Service\<close>

definition catalog_audit :: "actor \<Rightarrow> string \<Rightarrow> string \<Rightarrow> uuid \<Rightarrow> jobject \<Rightarrow> unit svc" where
  "catalog_audit actor action resourceType rowId metadata =
     audit_record (Some (ac_sub actor)) (Some (ac_email actor)) action resourceType (Some rowId) [] metadata"

definition createItem :: "catalog_input \<Rightarrow> actor \<Rightarrow> catalog_item svc" where
  "createItem input actor =
     mbind (catalog_insert input) (\<lambda>item.
     mbind (catalog_audit actor ''catalog.item_created'' ''catalog_item'' (ci_id item)
              [(''name'', JStr (ci_name item)), (''category'', JStr (ci_category item))]) (\<lambda>_.
     mret item))"

definition getItem :: "uuid \<Rightarrow> catalog_item svc" where
  "getItem rowId = mbind (findItemById rowId) (\<lambda>c. or_throw c (NotFoundException NOT_FOUND))"

definition updateItem :: "uuid \<Rightarrow> catalog_patch \<Rightarrow> actor \<Rightarrow> catalog_item svc" where
  "updateItem rowId p actor =
     mbind (getItem rowId) (\<lambda>_.
     mbind (catalog_update_row rowId p) (\<lambda>updated.
     mbind (or_throw updated (NotFoundException NOT_FOUND)) (\<lambda>item.
     mbind (catalog_audit actor ''catalog.item_updated'' ''catalog_item'' rowId []) (\<lambda>_. mret item))))"

definition deleteItem :: "uuid \<Rightarrow> actor \<Rightarrow> unit svc" where
  "deleteItem rowId actor =
     mbind (getItem rowId) (\<lambda>_.
     mbind (catalog_delete_row rowId) (\<lambda>_.
     catalog_audit actor ''catalog.item_deleted'' ''catalog_item'' rowId []))"

text \<open>\<^verbatim>\<open>item.slaHours && { expiresAt }\<close>: zero hours count as none.\<close>

definition catalog_options :: "catalog_item \<Rightarrow> timestamp \<Rightarrow> submit_options" where
  "catalog_options item t = no_options\<lparr>so_expires_at :=
     (case ci_sla_hours item of None \<Rightarrow> None | Some n \<Rightarrow> if n = 0 then None else Some (t + n * 3600 * 1000))\<rparr>"

definition submitRequest :: "uuid \<Rightarrow> string \<Rightarrow> actor \<Rightarrow> uuid svc" where
  "submitRequest catalogItemId reason actor =
     mbind (getItem catalogItemId) (\<lambda>item.
     mbind (throw_if (\<not> ci_active item) (NotFoundException NOT_FOUND)) (\<lambda>_.
     mbind now (\<lambda>t.
     mbind (submit app_registry ''catalog_request''
              [(''catalogItemId'', JStr (ci_id item)), (''catalogItemName'', JStr (ci_name item)), (''reason'', JStr reason)]
              actor (catalog_options item t)) (\<lambda>engineItem.
     mbind (catalog_audit actor ''catalog.request_submitted'' ''catalog_request'' (ri_id engineItem)
              [(''catalogItemId'', JStr catalogItemId), (''catalogItemName'', JStr (ci_name item)), (''reason'', JStr reason)]) (\<lambda>_.
     mret (ri_id engineItem))))))"

end
