(* ===== verification/Catalog_Claims.thy ===== *)
theory Catalog_Claims
  imports Catalog Scenario
begin

text \<open>What becomes of a request made through the service catalog.\<close>

lemma submitRequest_run:
  assumes "submitRequest i reason actor w = (Inr q, w')" and "find_where (\<lambda>c. ci_id c = i) (t_catalog_items (w_db w)) = Some item"
  obtains r w1 where "ci_active item" and "ri_id r = q"
    and "submit app_registry ''catalog_request'' [(''catalogItemId'', JStr (ci_id item)), (''catalogItemName'', JStr (ci_name item)),
       (''reason'', JStr reason)] actor (catalog_options item (w_now w)) w = (Inr r, w1)"
    and "t_request_items (w_db w') = t_request_items (w_db w1)"
proof -
  let ?submit = "submit app_registry ''catalog_request'' [(''catalogItemId'', JStr (ci_id item)), (''catalogItemName'', JStr (ci_name item)),
       (''reason'', JStr reason)] actor (catalog_options item (w_now w))"
  have active: "ci_active item"
    using assms by (simp add: submitRequest_def getItem_def findItemById_def throw_if_def split: if_splits)
  with assms have "mbind ?submit (\<lambda>engineItem.
      mbind (catalog_audit actor ''catalog.request_submitted'' ''catalog_request'' (ri_id engineItem)
              [(''catalogItemId'', JStr i), (''catalogItemName'', JStr (ci_name item)), (''reason'', JStr reason)]) (\<lambda>_.
      mret (ri_id engineItem))) w = (Inr q, w')"
    by (simp add: submitRequest_def getItem_def findItemById_def)
  then show thesis
    by (rule mbind_InrE) (use active in \<open>auto simp: catalog_audit_def audit_record_def intro: that\<close>)
qed

text \<open>The approval permission and the service level of a catalog item do not reach the request that
  is made for it.  Whatever permission the item names, everybody else who holds
  \<^verbatim>\<open>requests.approve\<close> can approve the request; and the hours of the item, documented as the time
  for its fulfilment, become the time after which the request expires, while the deadline
  of the service level is always 24 hours away.\<close>

theorem catalog_policy_ignored:
  assumes "submitRequest i reason actor w = (Inr q, w')" and "find_where (\<lambda>c. ci_id c = i) (t_catalog_items (w_db w)) = Some item"
    and "keyed ri_id (t_request_items (w_db w)) w"
    and "ac_sub boss \<noteq> ac_sub actor" and "holds (w_db w') (w_now w') (ac_sub boss) ''requests.approve''"
    and "find_where (delegation_active (ac_sub boss) (w_now w')) (t_delegations (w_db w')) = None"
    and "cache_sound w'" and "\<not> w_perm_outage w'"
  shows "\<exists>r row w''. find_where (\<lambda>r. ri_id r = q) (t_request_items (w_db w')) = Some r \<and> ri_requester r = ac_sub actor \<and>
    ri_sla_deadline r = Some (w_now w + 24 * 3600000) \<and>
    ri_expires_at r = Some (w_now w + (case ci_sla_hours item of Some n \<Rightarrow> if n = 0 then 72 else n | None \<Rightarrow> 72) * 3600000) \<and>
    approve app_registry q comment boss w' = (Inr row, w'')"
proof -
  from assms(1,2) obtain r w1 where q: "ri_id r = q"
    and run: "submit app_registry ''catalog_request'' [(''catalogItemId'', JStr (ci_id item)), (''catalogItemName'', JStr (ci_name item)),
       (''reason'', JStr reason)] actor (catalog_options item (w_now w)) w = (Inr r, w1)"
    and items: "t_request_items (w_db w') = t_request_items (w_db w1)"
    by (rule submitRequest_run)
  have known: "map_of app_registry ''catalog_request'' = Some catalog_request_def"
    by (simp add: app_registry_lookup app_types_def type_defs)
  from request_hooks.submit_success [OF app.registered [OF known] known run] obtain n where n: "w_next w \<le> n"
    and r: "r = new_request (w_uuid w n) (w_now w) catalog_request_def ''catalog_request''
      [(''catalogItemId'', JStr (ci_id item)), (''catalogItemName'', JStr (ci_name item)), (''reason'', JStr reason)] actor (catalog_options item (w_now w))"
    and T: "t_request_items (w_db w1) = insert_row r (t_request_items (w_db w))"
    by (auto simp: transition_def)
  have "q \<notin> ri_id ` set (t_request_items (w_db w))"
    using keyed_fresh [OF assms(3) n] q r by (simp add: new_request_def)
  then have "find_where (\<lambda>r. ri_id r = q) (t_request_items (w_db w)) = None"
    by (force simp: find_where_def find_None_iff)
  with q have found: "find_where (\<lambda>r. ri_id r = q) (t_request_items (w_db w')) = Some r"
    by (simp add: items T)
  have "ri_status r = Req_pending" "ri_type r = ''catalog_request''" "ri_requester r = ac_sub actor"
    by (simp_all add: r new_request_def)
  moreover have "step_permission catalog_request_def (ri_current_step r) = ''requests.approve''"
    by (simp add: step_permission_def catalog_request_def_def)
  ultimately have "\<exists>row w''. approve app_registry q comment boss w' = (Inr row, w'')"
    using app_approve_authorized [OF found _ _ assms(6) _ _ assms(7,8)] known assms(4,5)
    by (simp add: open_status_def)
  moreover have "ri_sla_deadline r = Some (w_now w + 24 * 3600000)"
    "ri_expires_at r = Some (w_now w + (case ci_sla_hours item of Some n \<Rightarrow> if n = 0 then 72 else n | None \<Rightarrow> 72) * 3600000)"
    by (simp_all add: r new_request_def catalog_request_def_def hours_after_def catalog_options_def no_options_def split: option.split)
  moreover have "ri_requester r = ac_sub actor" by (simp add: r new_request_def)
  ultimately show ?thesis using found by blast
qed

definition new_laptop :: catalog_item where
  "new_laptop = \<lparr>ci_id = ''c'', ci_name = ''Laptop'', ci_description = None, ci_category = ''hardware'', ci_icon = None,
     ci_permission = ''assets.manage'', ci_sla_hours = Some 8, ci_active = True, ci_sort = 0, ci_created_at = 0, ci_updated_at = 0\<rparr>"

text \<open>An approver who holds \<^verbatim>\<open>requests.approve\<close> and nothing else.\<close>

definition shop_world :: world where
  "shop_world = base_world\<lparr>w_db := base_db\<lparr>t_catalog_items := [new_laptop],
     t_role_permissions := [\<lparr>rp_role = ''admin'', rp_permission = ''requests.approve''\<rparr>]\<rparr>\<rparr>"

theorem catalog_policy_ignored_witness:
  "\<exists>q w' r row w''. submitRequest ''c'' ''broken screen'' (user ''alice'') shop_world = (Inr q, w') \<and>
     find_where (\<lambda>r. ri_id r = q) (t_request_items (w_db w')) = Some r \<and> ri_expires_at r = Some (1000 + 8 * 3600000) \<and>
     approve app_registry q None (user ''root'') w' = (Inr row, w'')"
proof -
  have "\<exists>q w'. submitRequest ''c'' ''broken screen'' (user ''alice'') shop_world = (Inr q, w') \<and> w_cache w' = empty_cache \<and>
      w_perm_outage w' = False \<and> w_now w' = 1000 \<and> t_delegations (w_db w') = [] \<and>
      t_role_assignments (w_db w') = t_role_assignments base_db \<and>
      t_role_permissions (w_db w') = [\<lparr>rp_role = ''admin'', rp_permission = ''requests.approve''\<rparr>]"
    by (simp add: submitRequest_def getItem_def findItemById_def catalog_audit_def audit_record_def shop_world_def new_laptop_def catalog_options_def
        run_db run_engine run_base catalog_fields catalog_registered del: mbind_assoc cong: mbind_weak_cong)
  then obtain q w' where run: "submitRequest ''c'' ''broken screen'' (user ''alice'') shop_world = (Inr q, w')"
    and cache: "w_cache w' = empty_cache" and live: "\<not> w_perm_outage w'" "w_now w' = 1000" "t_delegations (w_db w') = []"
    and roles: "t_role_assignments (w_db w') = t_role_assignments base_db"
      "t_role_permissions (w_db w') = [\<lparr>rp_role = ''admin'', rp_permission = ''requests.approve''\<rparr>]" by auto
  have "holds (w_db w') (w_now w') (ac_sub (user ''root'')) ''requests.approve''"
    unfolding holds_def roles user_def by (simp add: base_db_def not_expired_def)
  moreover have "cache_sound w'"
    by (simp add: cache_sound_def cache_get_perms_def cache empty_cache_def)
  moreover have "find_where (\<lambda>c. ci_id c = ''c'') (t_catalog_items (w_db shop_world)) = Some new_laptop" "keyed ri_id (t_request_items (w_db shop_world)) shop_world"
    "w_now shop_world = 1000"
    by (simp_all add: shop_world_def new_laptop_def base_world_def base_db_def empty_db_def keyed_def inj_sample_uuid)
  ultimately show ?thesis
    using catalog_policy_ignored [OF run, of new_laptop "user ''root''" None] live run
    by (auto simp: new_laptop_def user_def)
qed

end
