(* ===== verification/Maintenance.thy ===== *)
theory Maintenance
  imports Authz Messaging Sql_Text
begin

text \<open>
  Background work beside the request timers: the relay of domain events to SQS
  (\<^verbatim>\<open>apps/worker/src/outbox\<close>), the purge of old delegations, and the listing and retention of
  the audit log (\<^verbatim>\<open>libs/modules/audit\<close>).
\<close>

section \<open>The outbox of domain events\<close>

text \<open>The queue: its URL, if one is configured, and the outcome of sending a message.\<close>

record sqs =
  sqs_url :: "string option"
  sqs_send :: "jobject \<Rightarrow> timestamp \<Rightarrow> exn + unit"

definition BATCH_SIZE :: nat where
  "BATCH_SIZE = 50"

definition event_message :: "outbox_event \<Rightarrow> jobject" where
  "event_message e = [(''id'', JStr (oe_id e)), (''aggregateType'', JStr (oe_aggregate_type e)),
     (''aggregateId'', JStr (oe_aggregate_id e)), (''eventType'', JStr (oe_event_type e)), (''payload'', JObj (oe_payload e))]"

definition no_queue :: "sqs \<Rightarrow> bool" where
  "no_queue q \<longleftrightarrow> sqs_url q = None \<or> sqs_url q = Some []"

definition publish :: "sqs \<Rightarrow> outbox_event \<Rightarrow> unit svc" where
  "publish q e =
     (if no_queue q then mret ()
      else mbind (outside_call (sqs_send q (event_message e))) (\<lambda>_.
           mmodify (w_sqs_update (\<lambda>ms. ms @ [event_message e]))))"

definition mark_published :: "timestamp \<Rightarrow> outbox_event \<Rightarrow> outbox_event" where
  "mark_published t e = e\<lparr>oe_published := True, oe_published_at := Some t\<rparr>"

definition relay_event :: "sqs \<Rightarrow> outbox_event \<Rightarrow> unit svc" where
  "relay_event q e =
     mbind (publish q e) (\<lambda>_. mbind now (\<lambda>t.
     exec (t_outbox_events_update (update_where (\<lambda>x. oe_id x = oe_id e) (mark_published t)))))"

definition unpublished_batch :: "db \<Rightarrow> outbox_event list" where
  "unpublished_batch d = take BATCH_SIZE (sort_key oe_created_at (select_where (\<lambda>e. \<not> oe_published e) (t_outbox_events d)))"

definition outbox_tick :: "sqs \<Rightarrow> unit svc" where
  "outbox_tick q = mtry (mbind (query unpublished_batch) (\<lambda>batch. mfor batch (relay_event q))) (\<lambda>_. mret ())"

section \<open>Delegations\<close>

definition DELEGATION_RETENTION_DAYS :: int where
  "DELEGATION_RETENTION_DAYS = 7"

definition MS_PER_DAY :: int where
  "MS_PER_DAY = 86400000"

definition delegation_expiry_tick :: "unit svc" where
  "delegation_expiry_tick =
     mbind now (\<lambda>t.
     mbind (deleteExpiredBefore (t - DELEGATION_RETENTION_DAYS * MS_PER_DAY)) (\<lambda>_. mret ()))"

section \<open>The audit log\<close>

record audit_filters =
  auf_actor :: "uuid option"
  auf_resource_type :: "string option"
  auf_resource :: "uuid option"
  auf_action :: "string option"

definition audit_matches :: "audit_filters \<Rightarrow> audit_log \<Rightarrow> bool" where
  "audit_matches f a \<longleftrightarrow> opt_text (auf_actor f) (\<lambda>u. al_actor a = Some u) \<and>
     opt_text (auf_resource_type f) (\<lambda>k. al_resource_type a = k) \<and>
     opt_text (auf_resource f) (\<lambda>i. al_resource a = Some i) \<and> opt_text (auf_action f) (\<lambda>x. al_action a = x)"

definition audit_list :: "audit_filters \<Rightarrow> nat \<Rightarrow> nat \<Rightarrow> (audit_log list \<times> nat) svc" where
  "audit_list f lim off = query (\<lambda>d. page_of (audit_matches f) al_occurred_at lim off (t_audit_logs d))"

definition deleteOlderThan :: "timestamp \<Rightarrow> nat svc" where
  "deleteOlderThan before =
     mbind (query (\<lambda>d. length (select_where (\<lambda>a. al_occurred_at a < before) (t_audit_logs d)))) (\<lambda>n.
     mbind (exec (t_audit_logs_update (delete_where (\<lambda>a. al_occurred_at a < before)))) (\<lambda>_. mret n))"

text \<open>The retention in days comes from the environment; the default is 730.\<close>

definition purgeExpiredRecords :: "int \<Rightarrow> unit svc" where
  "purgeExpiredRecords retentionDays =
     mtry (mbind now (\<lambda>t.
       mbind (deleteOlderThan (t - retentionDays * MS_PER_DAY)) (\<lambda>_. mret ()))) (\<lambda>_. mret ())"

end
