(* ===== verification/Maintenance_Claims.thy ===== *)
theory Maintenance_Claims
  imports Maintenance Scenario
begin

text \<open>What one tick of the relay of domain events does.\<close>

definition accepted :: "sqs \<Rightarrow> timestamp \<Rightarrow> outbox_event \<Rightarrow> bool" where
  "accepted q t e \<longleftrightarrow> no_queue q \<or> \<not> isl (sqs_send q (event_message e) t)"

definition relayed :: "sqs \<Rightarrow> outbox_event list \<Rightarrow> world \<Rightarrow> world" where
  "relayed q sent w = w\<lparr>w_sqs := w_sqs w @ (if no_queue q then [] else map event_message sent),
     w_db := t_outbox_events_update (update_where (\<lambda>x. oe_id x \<in> oe_id ` set sent) (mark_published (w_now w))) (w_db w)\<rparr>"

lemma relay_event_apply:
  "relay_event q e w = (if accepted q (w_now w) e then (Inr (), relayed q [e] w) else (Inl (projl (sqs_send q (event_message e) (w_now w))), w))"
  by (auto simp: relay_event_def publish_def accepted_def relayed_def outside_call_def mbind_def split: sum.splits)

lemma update_where_twice:
  "(\<And>x. k (g x) = k x) \<Longrightarrow> (\<And>x. g (g x) = g x) \<Longrightarrow>
     update_where (\<lambda>x. k x \<in> A) g (update_where (\<lambda>x. k x \<in> B) g T) = update_where (\<lambda>x. k x \<in> A \<union> B) g T"
  by (auto simp: update_where_def)

lemma relayed_relayed: "relayed q es (relayed q [e] w) = relayed q (e # es) w"
proof -
  have "update_where (\<lambda>x. oe_id x \<in> oe_id ` set es) (mark_published t) (update_where (\<lambda>x. oe_id x \<in> {oe_id e}) (mark_published t) T) =
      update_where (\<lambda>x. oe_id x \<in> oe_id ` set es \<union> {oe_id e}) (mark_published t) T" for t T
    by (rule update_where_twice) (simp_all add: mark_published_def)
  then show ?thesis by (simp add: relayed_def)
qed

lemma relay_events:
  "\<exists>r. mfor es (relay_event q) w = (r, relayed q (takeWhile (accepted q (w_now w)) es) w)"
proof (induction es arbitrary: w)
  case Nil
  show ?case by (simp add: relayed_def update_where_def)
next
  case (Cons e es)
  show ?case
  proof (cases "accepted q (w_now w) e")
    case True
    then have one: "relay_event q e w = (Inr (), relayed q [e] w)" by (simp add: relay_event_apply)
    have "w_now (relayed q [e] w) = w_now w" by (simp add: relayed_def)
    with Cons [of "relayed q [e] w"] True show ?thesis
      by (simp add: mbind_eq [where m = "relay_event q e", OF one] relayed_relayed)
  next
    case False
    then have "relay_event q e w = (Inl (projl (sqs_send q (event_message e) (w_now w))), w)" by (simp add: relay_event_apply)
    with False show ?thesis
      by (simp add: mbind_eq_Inl [where m = "relay_event q e"] relayed_def update_where_def)
  qed
qed


definition event :: "string \<Rightarrow> timestamp \<Rightarrow> outbox_event" where
  "event i t = \<lparr>oe_id = i, oe_aggregate_type = ''request'', oe_aggregate_id = ''r'', oe_event_type = ''request.approved'',
     oe_payload = [], oe_published = False, oe_created_at = t, oe_published_at = None\<rparr>"

text \<open>A queue that refuses one message, and two events stored in the opposite order of their creation.\<close>

definition picky_queue :: sqs where
  "picky_queue = \<lparr>sqs_url = Some ''q'', sqs_send = (\<lambda>m t. if jfield m ''id'' = JStr ''late'' then Inl (PlainError ''refused'') else Inr ())\<rparr>"

definition two_events :: world where
  "two_events = base_world\<lparr>w_db := base_db\<lparr>t_outbox_events := [event ''late'' 20, event ''early'' 10]\<rparr>\<rparr>"


end
