(* ===== verification/Http.thy ===== *)
theory Http
  imports Authz Sql_Text
begin

text \<open>
  The way of a request through the API process: the global rate limiter, the guards of the
  route, the idempotency interceptor, the handler, and the exception filter; and the page
  results that handlers answer with.  What lies outside is a parameter: the hash function and
  the verification of access tokens.
\<close>

section \<open>Requests and routes\<close>

record http_request =
  rq_method :: string
  rq_bearer :: "string option"
  rq_real_ip :: "string option" \<comment> \<open>the header \<^verbatim>\<open>x-real-ip\<close>\<close>
  rq_forwarded_for :: "string option" \<comment> \<open>the header \<^verbatim>\<open>x-forwarded-for\<close>\<close>
  rq_ip :: "string option"
  rq_refresh_cookie :: "string option"
  rq_idempotency_key :: "string option"
  rq_user :: "jwt_payload option" \<comment> \<open>set by the JWT guard\<close>

text \<open>The decorators of a handler and its controller.\<close>

record route =
  rte_skip_limit :: bool
  rte_tier :: string
  rte_guarded :: bool \<comment> \<open>\<^verbatim>\<open>@Auth\<close> or \<^verbatim>\<open>@RequirePermission\<close>: the JWT guard runs\<close>
  rte_public :: bool
  rte_roles :: "string list option"
  rte_permission :: "permission_requirement option"

record http_env =
  he_hash :: "string \<Rightarrow> string"
  he_verify :: "string \<Rightarrow> timestamp \<Rightarrow> jwt_payload option"
  he_eval_fails :: "timestamp \<Rightarrow> bool" \<comment> \<open>Redis answers the script of the limiter with an error\<close>

section \<open>Rate limiting\<close>

datatype limit_key = ByIp | ByUserId | ByRefreshToken

record rate_tier =
  tier_window :: int
  tier_limit :: nat
  tier_key_by :: "limit_key option"

definition RATE_LIMIT_TIERS :: "(string \<times> rate_tier) list" where
  "RATE_LIMIT_TIERS = [
     (''DEFAULT'', \<lparr>tier_window = 60000, tier_limit = 200, tier_key_by = None\<rparr>),
     (''STRICT'', \<lparr>tier_window = 60000, tier_limit = 60, tier_key_by = None\<rparr>),
     (''AUTH_LOGIN'', \<lparr>tier_window = 15 * 60000, tier_limit = 5, tier_key_by = Some ByIp\<rparr>),
     (''AUTH_REFRESH'', \<lparr>tier_window = 60000, tier_limit = 30, tier_key_by = Some ByRefreshToken\<rparr>),
     (''AI'', \<lparr>tier_window = 60000, tier_limit = 10, tier_key_by = Some ByUserId\<rparr>),
     (''UPLOAD'', \<lparr>tier_window = 60000, tier_limit = 30, tier_key_by = Some ByUserId\<rparr>)]"

definition client_ip :: "http_request \<Rightarrow> string" where
  "client_ip rq = (case or_else (rq_real_ip rq)
       (or_else (map_option (\<lambda>f. js_trim (takeWhile (\<lambda>c. c \<noteq> CHR '','') f)) (rq_forwarded_for rq)) (rq_ip rq)) of
     None \<Rightarrow> ''unknown'' | Some i \<Rightarrow> i)"

text \<open>What follows the prefix \<^verbatim>\<open>rl:\<close> of the key.\<close>

definition rate_limit_key :: "http_env \<Rightarrow> string \<Rightarrow> rate_tier \<Rightarrow> http_request \<Rightarrow> string" where
  "rate_limit_key env tierName tier rq =
     (let ip = client_ip rq;
          userOrIp = (case rq_user rq of None \<Rightarrow> ip | Some u \<Rightarrow> jw_sub u) in
      tierName @ '':'' @ (case tier_key_by tier of
          Some ByIp \<Rightarrow> ip
        | Some ByRefreshToken \<Rightarrow>
            (case rq_refresh_cookie rq of None \<Rightarrow> ip | Some c \<Rightarrow> if c = [] then ip else take 32 (he_hash env c))
        | _ \<Rightarrow> userOrIp))"

text \<open>
  The Lua script on one sorted set, whose members are distinct by their random suffix: outdated
  scores are dropped, and a request is admitted as long as fewer than the limit are left.  The
  expiry of the whole key after one window drops nothing that the script would keep.
\<close>

record rate_answer =
  ans_allowed :: bool
  ans_remaining :: nat
  ans_retry_after :: int

definition ceil_seconds :: "int \<Rightarrow> int" where
  "ceil_seconds ms = - ((- ms) div 1000)"

definition sliding_window :: "timestamp \<Rightarrow> int \<Rightarrow> nat \<Rightarrow> timestamp list \<Rightarrow> timestamp list \<times> rate_answer" where
  "sliding_window t window lim scores =
     (let kept = filter (\<lambda>s. s > t - window) scores in
      if length kept < lim
      then (insort t kept, \<lparr>ans_allowed = True, ans_remaining = lim - length kept - 1, ans_retry_after = 0\<rparr>)
      else (kept, \<lparr>ans_allowed = False, ans_remaining = 0, ans_retry_after = ceil_seconds (max 0 (hd kept + window - t))\<rparr>))"

text \<open>The three headers of the answer; nothing without Redis or when its answer is an error, which
  lets the request through.\<close>

record rate_headers =
  rh_limit :: nat
  rh_remaining :: nat
  rh_reset :: int

definition rate_limit_guard :: "http_env \<Rightarrow> string \<Rightarrow> http_request \<Rightarrow> rate_headers option svc" where
  "rate_limit_guard env tierName rq =
     mbind (mgets w_cache) (\<lambda>c.
     case (c_enabled c, map_of RATE_LIMIT_TIERS tierName) of
       (True, Some tier) \<Rightarrow>
         mbind now (\<lambda>t.
         if he_eval_fails env t then mret None
         else let key = rate_limit_key env tierName tier rq;
             (scores, ans) = sliding_window t (tier_window tier) (tier_limit tier) (c_windows c key) in
         mbind (mmodify (w_cache_update (c_windows_update (\<lambda>ws. ws(key := scores))))) (\<lambda>_.
         mbind (throw_if (\<not> ans_allowed ans) (HttpException 429 (Some (ans_retry_after ans)))) (\<lambda>_.
         mret (Some \<lparr>rh_limit = tier_limit tier, rh_remaining = ans_remaining ans,
                     rh_reset = ceil_seconds (t + tier_window tier)\<rparr>))))
     | _ \<Rightarrow> mret None)"

section \<open>Guards\<close>

text \<open>The bearer token, verified by the strategy of the framework and then by \<open>jwt_validate\<close>.\<close>

definition jwt_guard :: "http_env \<Rightarrow> route \<Rightarrow> http_request \<Rightarrow> http_request svc" where
  "jwt_guard env rte rq =
     (if \<not> rte_guarded rte \<or> rte_public rte then mret rq
      else mbind now (\<lambda>t.
           mbind (or_throw (Option.bind (rq_bearer rq) (\<lambda>b. he_verify env b t)) (HttpException 401 None)) (\<lambda>payload.
           mbind (jwt_validate payload) (\<lambda>u. mret (rq\<lparr>rq_user := Some u\<rparr>)))))"

section \<open>Idempotency\<close>

definition IDEMPOTENCY_TTL_SECONDS :: int where
  "IDEMPOTENCY_TTL_SECONDS = 24 * 3600"

definition IDEMPOTENT_METHODS :: "string list" where
  "IDEMPOTENT_METHODS = [''POST'', ''PUT'', ''PATCH'']"

definition identity_of :: "http_request \<Rightarrow> string" where
  "identity_of rq = (case or_else (map_option jw_sub (rq_user rq)) (rq_ip rq) of None \<Rightarrow> ''anon'' | Some i \<Rightarrow> i)"

text \<open>
  The body of an answer; \<open>None\<close> is \<^verbatim>\<open>undefined\<close>, which is stored as an empty text and so never
  found again.
\<close>

definition store_response :: "string \<Rightarrow> json option \<Rightarrow> unit svc" where
  "store_response cacheKey body =
     mbind now (\<lambda>t.
     mmodify (w_cache_update (c_idem_update (\<lambda>m. m(cacheKey :=
       map_option (\<lambda>b. (b, t + IDEMPOTENCY_TTL_SECONDS * 1000)) body)))))"

definition run_and_store :: "string \<Rightarrow> json option svc \<Rightarrow> json option svc" where
  "run_and_store cacheKey next_handler =
     mbind next_handler (\<lambda>body. mbind (store_response cacheKey body) (\<lambda>_. mret body))"

definition idempotency_intercept :: "http_request \<Rightarrow> json option svc \<Rightarrow> json option svc" where
  "idempotency_intercept rq next_handler =
     (if rq_method rq \<notin> set IDEMPOTENT_METHODS then next_handler
      else case rq_idempotency_key rq of
        None \<Rightarrow> next_handler
      | Some k \<Rightarrow>
          mbind (mgets w_cache) (\<lambda>c.
          if k = [] \<or> \<not> c_enabled c then next_handler
          else mbind now (\<lambda>t.
               let cacheKey = identity_of rq @ '':'' @ k in
               case c_idem c cacheKey of
                 Some (body, until) \<Rightarrow>
                   if t < until then mret (Some body) else run_and_store cacheKey next_handler
               | None \<Rightarrow> run_and_store cacheKey next_handler)))"

section \<open>The pipeline\<close>

text \<open>Global guards run before those of the route, interceptors after all guards.\<close>

definition handle_request :: "http_env \<Rightarrow> route \<Rightarrow> (http_request \<Rightarrow> json option svc) \<Rightarrow> http_request \<Rightarrow> json option svc" where
  "handle_request env rte handler rq =
     mbind (if rte_skip_limit rte then mret None else rate_limit_guard env (rte_tier rte) rq) (\<lambda>_.
     mbind (jwt_guard env rte rq) (\<lambda>rq'.
     mbind (case role_guard (rte_roles rte) (rq_user rq') of Inl e \<Rightarrow> mthrow e | Inr b \<Rightarrow> mret b) (\<lambda>_.
     mbind (policy_guard (rte_permission rte) (rq_user rq')) (\<lambda>_.
     idempotency_intercept rq' (handler rq')))))"

section \<open>Page results\<close>

definition DEFAULT_LIMIT :: int where "DEFAULT_LIMIT = 50"
definition MAX_LIMIT :: int where "MAX_LIMIT = 100"

text \<open>The page query, once its numbers are read: a missing one has its default, one out of range is refused.\<close>

definition page_query :: "int option \<Rightarrow> int option \<Rightarrow> (nat \<times> nat) option" where
  "page_query lim off =
     (let l = (case lim of None \<Rightarrow> DEFAULT_LIMIT | Some n \<Rightarrow> n); o' = (case off of None \<Rightarrow> 0 | Some n \<Rightarrow> n) in
      if 1 \<le> l \<and> l \<le> MAX_LIMIT \<and> 0 \<le> o' then Some (nat l, nat o') else None)"

record 'a paged_result =
  pgd_data :: "'a list"
  pgd_total :: nat
  pgd_limit :: nat
  pgd_offset :: nat
  pgd_has_next :: bool

definition buildPageResult :: "'a list \<Rightarrow> nat \<Rightarrow> nat \<Rightarrow> nat \<Rightarrow> 'a paged_result" where
  "buildPageResult rows n lim off = \<lparr>pgd_data = rows, pgd_total = n, pgd_limit = lim, pgd_offset = off,
     pgd_has_next = (off + length rows < n)\<rparr>"

record 'a cursor_result =
  cur_data :: "'a list"
  cur_has_next :: bool
  cur_end :: "string option"

text \<open>The encoding of a cursor (base64url over JSON) is a parameter.\<close>

definition buildCursorResult :: "('a \<Rightarrow> string) \<Rightarrow> 'a list \<Rightarrow> nat \<Rightarrow> 'a cursor_result" where
  "buildCursorResult encode rows lim =
     (let more = length rows > lim; shown = (if more then take lim rows else rows) in
      \<lparr>cur_data = shown, cur_has_next = more,
       cur_end = (if more \<and> shown \<noteq> [] then Some (encode (last shown)) else None)\<rparr>)"

end
