(* ===== verification/Http_Claims.thy ===== *)
theory Http_Claims
  imports Http Scenario
begin

text \<open>What the rate limiter and the idempotency interceptor guarantee, and what they do not.\<close>

section \<open>Rate limiting\<close>

definition recent :: "int \<Rightarrow> timestamp \<Rightarrow> timestamp list \<Rightarrow> timestamp list" where
  "recent window t scores = filter (\<lambda>s. s > t - window) scores"

definition with_window :: "string \<Rightarrow> timestamp list \<Rightarrow> world \<Rightarrow> world" where
  "with_window key scores w = w\<lparr>w_cache := (w_cache w)\<lparr>c_windows := (c_windows (w_cache w))(key := scores)\<rparr>\<rparr>"

lemma rate_limit_apply:
  assumes "c_enabled (w_cache w)" and "map_of RATE_LIMIT_TIERS tn = Some tier" and "key = rate_limit_key env tn tier rq"
    and "\<not> he_eval_fails env (w_now w)" and "S = recent (tier_window tier) (w_now w) (c_windows (w_cache w) key)"
  shows "rate_limit_guard env tn rq w =
    (if length S < tier_limit tier
     then (Inr (Some \<lparr>rh_limit = tier_limit tier, rh_remaining = tier_limit tier - length S - 1, rh_reset = ceil_seconds (w_now w + tier_window tier)\<rparr>),
           with_window key (insort (w_now w) S) w)
     else (Inl (HttpException 429 (Some (ceil_seconds (max 0 (hd S + tier_window tier - w_now w))))), with_window key S w))"
  using assms by (simp add: rate_limit_guard_def Let_def sliding_window_def recent_def with_window_def)

lemma rate_limit_failed:
  assumes "he_eval_fails env (w_now w)"
  shows "rate_limit_guard env tn rq w = (Inr None, w)"
  using assms by (simp add: rate_limit_guard_def split: option.split bool.split)

text \<open>The times at which a request that is repeated at the times \<open>ts\<close> is admitted.\<close>

primrec admissions :: "http_env \<Rightarrow> string \<Rightarrow> http_request \<Rightarrow> timestamp list \<Rightarrow> world \<Rightarrow> timestamp list" where
  "admissions env tn rq [] w = []"
| "admissions env tn rq (t # ts) w =
     (case rate_limit_guard env tn rq (w\<lparr>w_now := t\<rparr>) of
        (Inl e, w') \<Rightarrow> admissions env tn rq ts w'
      | (Inr h, w') \<Rightarrow> t # admissions env tn rq ts w')"

text \<open>Those of them at which the script decided.\<close>

definition decided :: "http_env \<Rightarrow> timestamp list \<Rightarrow> timestamp list" where
  "decided env ts = filter (\<lambda>t. \<not> he_eval_fails env t) ts"

lemma decided_simps [simp]:
  "decided env [] = []" "decided env (t # ts) = (if he_eval_fails env t then decided env ts else t # decided env ts)"
  by (simp_all add: decided_def)

definition in_window :: "int \<Rightarrow> timestamp \<Rightarrow> timestamp list \<Rightarrow> timestamp list" where
  "in_window window t as = filter (\<lambda>s. t - window < s \<and> s \<le> t) as"

lemma tier_window_pos: "map_of RATE_LIMIT_TIERS tn = Some tier \<Longrightarrow> 0 < tier_window tier \<and> 0 < tier_limit tier"
  by (auto simp: RATE_LIMIT_TIERS_def split: if_splits)

lemma recent_subset:
  assumes "mset (recent window t0 A) \<subseteq># mset S" and "t0 \<le> t"
  shows "mset (recent window t A) \<subseteq># mset (recent window t S)"
proof -
  have again: "recent window t A = recent window t (recent window t0 A)"
    using assms(2) by (auto simp: recent_def intro: filter_cong)
  have "mset (recent window t (recent window t0 A)) \<subseteq># mset (recent window t S)"
    unfolding recent_def [of window t] mset_filter by (rule multiset_filter_mono [OF assms(1)])
  then show ?thesis by (simp only: again)
qed

lemma admit_one:
  assumes "\<forall>T. length (in_window window T A) \<le> lim" and "\<forall>a \<in> set A. a \<le> t" and "length (recent window t A) < lim" and "0 < window"
  shows "length (in_window window T (A @ [t])) \<le> lim"
proof (cases "T - window < t \<and> t \<le> T")
  case True
  have "length (in_window window T A) \<le> length (recent window t A)"
    unfolding in_window_def recent_def using True by (induction A) auto
  with True assms(3) show ?thesis by (simp add: in_window_def)
next
  case False
  with assms(1) show ?thesis by (auto simp: in_window_def)
qed

lemma admissions_bounded:
  assumes "map_of RATE_LIMIT_TIERS tn = Some tier" and "c_enabled (w_cache w)" and "sorted (t0 # ts)"
    and "mset (recent (tier_window tier) t0 A) \<subseteq># mset (c_windows (w_cache w) (rate_limit_key env tn tier rq))"
    and "\<forall>a \<in> set A. a \<le> t0" and "\<forall>T. length (in_window (tier_window tier) T A) \<le> tier_limit tier"
  shows "length (in_window (tier_window tier) T (A @ decided env (admissions env tn rq ts w))) \<le> tier_limit tier"
  using assms(2-6)
proof (induction ts arbitrary: t0 w A)
  case Nil
  then show ?case by simp
next
  case (Cons t ts)
  let ?win = "tier_window tier" and ?key = "rate_limit_key env tn tier rq" and ?w = "w\<lparr>w_now := t\<rparr>"
  define S where "S = recent ?win t (c_windows (w_cache w) ?key)"
  have le: "t0 \<le> t" and rest: "sorted (t # ts)" using Cons.prems(2) by auto
  have sub: "mset (recent ?win t A) \<subseteq># mset S"
    unfolding S_def by (rule recent_subset [OF Cons.prems(3) le])
  have pos: "0 < ?win" using tier_window_pos [OF assms(1)] by simp
  have old: "\<forall>a \<in> set A. a \<le> t" using Cons.prems(4) le by auto
  show ?case
  proof (cases "he_eval_fails env t")
    case True
    have "mset (recent ?win t A) \<subseteq># mset (c_windows (w_cache ?w) ?key)"
      using sub multiset_filter_subset [of "\<lambda>s. s > t - ?win"] by (auto simp: S_def recent_def intro: subset_mset.order_trans)
    from Cons.IH [OF _ rest this old Cons.prems(5)] Cons.prems(1) True show ?thesis
      by (simp add: rate_limit_failed)
  next
    case works: False
  have guard: "rate_limit_guard env tn rq ?w = (if length S < tier_limit tier
     then (Inr (Some \<lparr>rh_limit = tier_limit tier, rh_remaining = tier_limit tier - length S - 1, rh_reset = ceil_seconds (t + ?win)\<rparr>),
           with_window ?key (insort t S) ?w)
     else (Inl (HttpException 429 (Some (ceil_seconds (max 0 (hd S + ?win - t))))), with_window ?key S ?w))"
    using rate_limit_apply [of ?w tn tier ?key env rq S] Cons.prems(1) assms(1) works by (simp add: S_def)
  show ?thesis
  proof (cases "length S < tier_limit tier")
    case False
    have "mset (recent ?win t A) \<subseteq># mset (c_windows (w_cache (with_window ?key S ?w)) ?key)"
      using sub by (simp add: with_window_def)
    from Cons.IH [OF _ rest this old Cons.prems(5)] Cons.prems(1) guard False works show ?thesis
      by (simp add: with_window_def)
  next
    case True
    have "mset (recent ?win t (A @ [t])) \<subseteq># mset (c_windows (w_cache (with_window ?key (insort t S) ?w)) ?key)"
      using sub pos by (simp add: with_window_def recent_def)
    moreover have "length (recent ?win t A) < tier_limit tier"
      using size_mset_mono [OF sub] True by simp
    then have "\<forall>T. length (in_window ?win T (A @ [t])) \<le> tier_limit tier"
      using admit_one [OF Cons.prems(5) old _ pos] by blast
    ultimately show ?thesis
      using Cons.IH [of "with_window ?key (insort t S) ?w" t "A @ [t]"] Cons.prems(1) rest old guard True works
      by (simp add: with_window_def)
  qed
  qed
qed

lemma retry_admitted:
  assumes "map_of RATE_LIMIT_TIERS tn = Some tier" and "c_enabled (w_cache w)"
    and "sorted (c_windows (w_cache w) (rate_limit_key env tn tier rq))" and "length (c_windows (w_cache w) (rate_limit_key env tn tier rq)) \<le> tier_limit tier"
    and "rate_limit_guard env tn rq w = (Inl (HttpException 429 (Some s)), w')"
  shows "\<exists>h w''. rate_limit_guard env tn rq (w'\<lparr>w_now := w_now w + s * 1000\<rparr>) = (Inr h, w'')"
proof -
  let ?win = "tier_window tier" and ?key = "rate_limit_key env tn tier rq"
  define S where "S = recent ?win (w_now w) (c_windows (w_cache w) ?key)"
  note pos = tier_window_pos [OF assms(1)]
  have works: "\<not> he_eval_fails env (w_now w)"
    using assms(5) rate_limit_failed [of env w tn rq] by auto
  from assms(5) have full: "tier_limit tier \<le> length S" and s: "s = ceil_seconds (max 0 (hd S + ?win - w_now w))" and w': "w' = with_window ?key S w"
    unfolding rate_limit_apply [OF assms(2,1) refl works S_def] by (auto split: if_splits)
  have "length S \<le> tier_limit tier" "sorted S"
    using assms(3,4) le_trans [OF length_filter_le] unfolding S_def recent_def by (auto intro: sorted_wrt_filter)
  obtain x xs where S: "S = x # xs" using full pos by (cases S) auto
  let ?t = "w_now w + s * 1000"
  have "x + ?win - w_now w \<le> s * 1000"
    unfolding s S by (simp add: ceil_seconds_def)
  then have "recent ?win ?t S = recent ?win ?t xs" by (simp add: S recent_def)
  then have "length (recent ?win ?t S) < tier_limit tier"
    using \<open>length S \<le> tier_limit tier\<close> le_less_trans [OF length_filter_le, of xs] by (simp add: S recent_def)
  moreover have "c_windows (w_cache (w'\<lparr>w_now := ?t\<rparr>)) ?key = S" "c_enabled (w_cache (w'\<lparr>w_now := ?t\<rparr>))"
    using assms(2) by (simp_all add: w' with_window_def)
  ultimately show ?thesis
    using rate_limit_apply [OF _ assms(1) refl _ refl, of "w'\<lparr>w_now := ?t\<rparr>" env rq]
      rate_limit_failed [of env "w'\<lparr>w_now := ?t\<rparr>" tn rq]
    by (cases "he_eval_fails env ?t") simp_all
qed

text \<open>The world after the requests, and what stays true of the window of their key.\<close>

primrec after_requests :: "http_env \<Rightarrow> string \<Rightarrow> http_request \<Rightarrow> timestamp list \<Rightarrow> world \<Rightarrow> world" where
  "after_requests env tn rq [] w = w"
| "after_requests env tn rq (t # ts) w = after_requests env tn rq ts (snd (rate_limit_guard env tn rq (w\<lparr>w_now := t\<rparr>)))"

definition window_ok :: "string \<Rightarrow> nat \<Rightarrow> world \<Rightarrow> bool" where
  "window_ok key lim w \<longleftrightarrow> c_enabled (w_cache w) \<and> sorted (c_windows (w_cache w) key) \<and> length (c_windows (w_cache w) key) \<le> lim"

lemma window_ok_step:
  assumes "map_of RATE_LIMIT_TIERS tn = Some tier" and "window_ok (rate_limit_key env tn tier rq) (tier_limit tier) w"
  shows "window_ok (rate_limit_key env tn tier rq) (tier_limit tier) (snd (rate_limit_guard env tn rq (w\<lparr>w_now := t\<rparr>)))"
proof -
  let ?key = "rate_limit_key env tn tier rq"
  define S where "S = recent (tier_window tier) (w_now (w\<lparr>w_now := t\<rparr>)) (c_windows (w_cache (w\<lparr>w_now := t\<rparr>)) ?key)"
  have en: "c_enabled (w_cache (w\<lparr>w_now := t\<rparr>))" using assms(2) by (simp add: window_ok_def)
  have "sorted S" "length S \<le> tier_limit tier"
    using assms(2) le_trans [OF length_filter_le] unfolding S_def recent_def window_ok_def by (auto intro: sorted_wrt_filter)
  then show ?thesis
    using rate_limit_apply [OF en assms(1) refl _ S_def] rate_limit_failed [of env "w\<lparr>w_now := t\<rparr>" tn rq] en assms(2)
    by (cases "he_eval_fails env t") (auto simp: window_ok_def with_window_def sorted_insort)
qed

lemma window_ok_after:
  assumes "map_of RATE_LIMIT_TIERS tn = Some tier" and "window_ok (rate_limit_key env tn tier rq) (tier_limit tier) w"
  shows "window_ok (rate_limit_key env tn tier rq) (tier_limit tier) (after_requests env tn rq ts w)"
  using assms(2) by (induction ts arbitrary: w) (simp_all add: window_ok_step [OF assms(1)])

definition sample_env :: http_env where
  "sample_env = \<lparr>he_hash = (\<lambda>c. rev c), he_verify = (\<lambda>b t. if b = ''good'' then Some
     \<lparr>jw_jti = ''j'', jw_sub = ''root'', jw_email = ''root@x'', jw_roles = [''admin''], jw_name = ''Root'', jw_exp = 900\<rparr> else None),
     he_eval_fails = (\<lambda>t. t = 90)\<rparr>"

definition sample_request :: http_request where
  "sample_request = \<lparr>rq_method = ''POST'', rq_bearer = Some ''good'', rq_real_ip = None, rq_forwarded_for = Some ''10.0.0.1, 10.0.0.2'',
     rq_ip = Some ''10.0.0.9'', rq_refresh_cookie = None, rq_idempotency_key = Some ''k1'', rq_user = None\<rparr>"

text \<open>C32: the limiter keeps its limit and its promise.  Whatever the window of a key held before,
  the requests of one client at the times \<open>ts\<close> are never admitted more often than the limit of
  the tier within any window of the tier's length, not counting those at whose time the evaluation of the
  script fails (which are let through); and starting from an empty window, a request
  that is refused after them at time \<open>t\<close> with \<open>Retry-After: s\<close> is admitted when it is repeated
  \<open>s\<close> seconds later with no other request in between.
\<close>

theorem rate_limit:
  assumes "map_of RATE_LIMIT_TIERS tn = Some tier" and "c_enabled (w_cache w)" and "sorted ts"
  shows "length (in_window (tier_window tier) T (decided env (admissions env tn rq ts w))) \<le> tier_limit tier \<and>
    (c_windows (w_cache w) (rate_limit_key env tn tier rq) = [] \<longrightarrow>
     (case rate_limit_guard env tn rq ((after_requests env tn rq ts w)\<lparr>w_now := t\<rparr>) of
        (Inl (HttpException n (Some s)), w') \<Rightarrow>
          n = 429 \<and> (\<exists>h w''. rate_limit_guard env tn rq (w'\<lparr>w_now := t + s * 1000\<rparr>) = (Inr h, w''))
      | (Inl _, _) \<Rightarrow> False
      | (Inr _, _) \<Rightarrow> True))" (is "_ \<and> (_ \<longrightarrow> ?second)")
proof (intro conjI impI)
  have "sorted ((case ts of [] \<Rightarrow> 0 | t # _ \<Rightarrow> t) # ts)" using assms(3) by (cases ts) auto
  from admissions_bounded [OF assms(1,2) this, of "[]" env rq T]
  show "length (in_window (tier_window tier) T (decided env (admissions env tn rq ts w))) \<le> tier_limit tier"
    by (simp add: recent_def in_window_def)
next
  let ?v = "(after_requests env tn rq ts w)\<lparr>w_now := t\<rparr>" and ?key = "rate_limit_key env tn tier rq"
  assume "c_windows (w_cache w) ?key = []"
  then have "window_ok ?key (tier_limit tier) (after_requests env tn rq ts w)"
    using assms(2) by (intro window_ok_after [OF assms(1)]) (simp add: window_ok_def)
  then have ok: "c_enabled (w_cache ?v)" "sorted (c_windows (w_cache ?v) ?key)" "length (c_windows (w_cache ?v) ?key) \<le> tier_limit tier"
    by (simp_all add: window_ok_def)
  show ?second
    using retry_admitted [OF assms(1) ok] rate_limit_failed [of env ?v tn rq]
      rate_limit_apply [OF ok(1) assms(1) refl _ refl, where env = env and rq = rq]
    by (cases "he_eval_fails env (w_now ?v)") auto
qed

definition login_tier :: rate_tier where
  "login_tier = \<lparr>tier_window = 900000, tier_limit = 5, tier_key_by = Some ByIp\<rparr>"

lemma login_tier: "map_of RATE_LIMIT_TIERS ''AUTH_LOGIN'' = Some login_tier"
  by (simp add: RATE_LIMIT_TIERS_def login_tier_def)

lemma login_fields: "tier_window login_tier = 900000" "tier_limit login_tier = 5"
  by (simp_all add: login_tier_def)

lemma base_window: "c_enabled (w_cache base_world)" "c_windows (w_cache base_world) key = []"
  by (simp_all add: base_world_def empty_cache_def)

text \<open>One admitted request, as an equation for running a sequence of them.\<close>

lemma limiter_step:
  assumes "map_of RATE_LIMIT_TIERS tn = Some tier" and "length (recent (tier_window tier) t S) < tier_limit tier"
    and "c_enabled (w_cache w)" and "\<not> he_eval_fails env t"
  shows "snd (rate_limit_guard env tn rq ((with_window (rate_limit_key env tn tier rq) S w)\<lparr>w_now := t\<rparr>)) =
    (with_window (rate_limit_key env tn tier rq) (insort t (recent (tier_window tier) t S)) w)\<lparr>w_now := t\<rparr>"
proof -
  let ?key = "rate_limit_key env tn tier rq"
  let ?w = "(with_window ?key S w)\<lparr>w_now := t\<rparr>"
  have "c_enabled (w_cache ?w)" "recent (tier_window tier) t S = recent (tier_window tier) (w_now ?w) (c_windows (w_cache ?w) ?key)"
    using assms(3) by (simp_all add: with_window_def)
  from rate_limit_apply [OF this(1) assms(1) refl _ this(2)] assms(2,4) show ?thesis
    by (simp add: with_window_def)
qed

lemma sixth_login_refused:
  "\<exists>s w'. rate_limit_guard sample_env ''AUTH_LOGIN'' sample_request
     ((after_requests sample_env ''AUTH_LOGIN'' sample_request [0, 1, 2, 3, 4] base_world)\<lparr>w_now := 6\<rparr>) = (Inl (HttpException 429 (Some s)), w')"
proof -
  let ?key = "rate_limit_key sample_env ''AUTH_LOGIN'' login_tier sample_request"
  have start: "base_world = (with_window ?key [] base_world)\<lparr>w_now := w_now base_world\<rparr>"
    by (simp add: with_window_def base_window(2) fun_upd_idem)
  have later: "((with_window k S v)\<lparr>w_now := t\<rparr>)\<lparr>w_now := t'\<rparr> = (with_window k S v)\<lparr>w_now := t'\<rparr>" for k S and v :: world and t t'
    by simp
  have "after_requests sample_env ''AUTH_LOGIN'' sample_request [0, 1, 2, 3, 4] base_world = (with_window ?key [0, 1, 2, 3, 4] base_world)\<lparr>w_now := 4\<rparr>"
    by (subst start) (simp add: later limiter_step [OF login_tier] base_window(1) login_fields recent_def sample_env_def)
  then show ?thesis
    using rate_limit_apply [OF _ login_tier refl _ refl, of "(with_window ?key [0, 1, 2, 3, 4] base_world)\<lparr>w_now := 6\<rparr>" sample_env sample_request]
    by (simp add: with_window_def base_window(1) login_fields recent_def sample_env_def)
qed

lemma rate_limit_witness:
  "length (in_window 900000 5 (decided sample_env (admissions sample_env ''AUTH_LOGIN'' sample_request [0, 1, 2, 3, 4] base_world))) \<le> 5 \<and>
   (\<exists>s w' h w''. rate_limit_guard sample_env ''AUTH_LOGIN'' sample_request
      ((after_requests sample_env ''AUTH_LOGIN'' sample_request [0, 1, 2, 3, 4] base_world)\<lparr>w_now := 6\<rparr>) = (Inl (HttpException 429 (Some s)), w') \<and>
      rate_limit_guard sample_env ''AUTH_LOGIN'' sample_request (w'\<lparr>w_now := 6 + s * 1000\<rparr>) = (Inr h, w''))"
proof -
  obtain s w' where refused: "rate_limit_guard sample_env ''AUTH_LOGIN'' sample_request
     ((after_requests sample_env ''AUTH_LOGIN'' sample_request [0, 1, 2, 3, 4] base_world)\<lparr>w_now := 6\<rparr>) = (Inl (HttpException 429 (Some s)), w')"
    using sixth_login_refused by blast
  have "sorted [0, 1, 2, 3, 4 :: timestamp]" by simp
  from rate_limit [OF login_tier base_window(1) this, of 5 sample_env sample_request 6] refused
  show ?thesis by (simp add: base_window(2) login_tier_def)
qed

text \<open>The buckets per user are buckets per address.  The limiter is a global guard and runs
  before the guards of the route, so it never sees the user that the JWT guard reads from the
  token: in every tier but the one of the refresh cookie, once the limit of one client address
  is used up, every request from that address is answered with 429, whatever its bearer token
  and for every route of the tier; and every other request, also one that is then
  refused for its token, takes one place of the window of its address.
\<close>

theorem limit_not_per_user:
  assumes "map_of RATE_LIMIT_TIERS (rte_tier rte) = Some tier" and "tier_key_by tier \<noteq> Some ByRefreshToken"
    and "\<not> rte_skip_limit rte" and "rte_guarded rte" and "\<not> rte_public rte" and "c_enabled (w_cache w)" and "rq_user rq = None"
    and "key = rte_tier rte @ '':'' @ client_ip rq"
    and "\<not> he_eval_fails env (w_now w)"
    and "S = filter (\<lambda>s. s > w_now w - tier_window tier) (c_windows (w_cache w) key)"
  shows "if tier_limit tier \<le> length S
    then \<exists>s w'. \<forall>token. handle_request env rte handler (rq\<lparr>rq_bearer := token\<rparr>) w = (Inl (HttpException 429 (Some s)), w')
    else \<exists>v. c_windows (w_cache v) key = insort (w_now w) S \<and>
           (\<forall>b. he_verify env b (w_now w) = None \<longrightarrow>
            handle_request env rte handler (rq\<lparr>rq_bearer := Some b\<rparr>) w = (Inl (HttpException 401 None), v))"
proof -
  have key: "key = rate_limit_key env (rte_tier rte) tier (rq\<lparr>rq_bearer := token\<rparr>)" for token
    using assms(2,7) by (simp add: assms(8) rate_limit_key_def client_ip_def Let_def split: option.splits limit_key.splits)
  note guard = rate_limit_apply [OF assms(6,1) key assms(9,10) [folded recent_def]]
  show ?thesis
  proof (cases "tier_limit tier \<le> length S")
    case True
    with assms(3) show ?thesis
      by (simp add: handle_request_def mbind_def guard)
  next
    case False
    have "c_windows (w_cache (with_window key (insort (w_now w) S) w)) key = insort (w_now w) S"
      by (simp add: with_window_def)
    moreover have "handle_request env rte handler (rq\<lparr>rq_bearer := Some b\<rparr>) w =
        (Inl (HttpException 401 None), with_window key (insort (w_now w) S) w)" if "he_verify env b (w_now w) = None" for b
      using that False assms(3,4,5)
      by (simp add: handle_request_def mbind_def guard jwt_guard_def with_window_def)
    ultimately show ?thesis using False by auto
  qed
qed

definition ai_route :: route where
  "ai_route = \<lparr>rte_skip_limit = False, rte_tier = ''AI'', rte_guarded = True, rte_public = False, rte_roles = None, rte_permission = None\<rparr>"

definition ai_tier :: rate_tier where
  "ai_tier = \<lparr>tier_window = 60000, tier_limit = 10, tier_key_by = Some ByUserId\<rparr>"

definition ai_window :: "timestamp list" where
  "ai_window = [991, 992, 993, 994, 995, 996, 997, 998, 999, 1000]"

lemma sample_client: "client_ip (sample_request\<lparr>rq_bearer := b\<rparr>) = ''10.0.0.1''" "client_ip sample_request = ''10.0.0.1''"
  by (simp_all add: client_ip_def sample_request_def or_else_def js_trim_def js_space_def)

lemma limit_not_per_user_witness:
  "(\<exists>v. c_windows (w_cache v) ''AI:10.0.0.1'' = [1000] \<and>
     handle_request sample_env ai_route (\<lambda>rq. mret None) (sample_request\<lparr>rq_bearer := Some ''bad''\<rparr>) base_world = (Inl (HttpException 401 None), v)) \<and>
   (\<exists>s w'. \<forall>token. handle_request sample_env ai_route (\<lambda>rq. mret None) (sample_request\<lparr>rq_bearer := token\<rparr>)
     (with_window ''AI:10.0.0.1'' ai_window base_world) = (Inl (HttpException 429 (Some s)), w'))"
proof -
  have route: "map_of RATE_LIMIT_TIERS (rte_tier ai_route) = Some ai_tier" "tier_key_by ai_tier \<noteq> Some ByRefreshToken"
    "\<not> rte_skip_limit ai_route" "rte_guarded ai_route" "\<not> rte_public ai_route"
    by (simp_all add: RATE_LIMIT_TIERS_def ai_route_def ai_tier_def)
  have worlds: "c_enabled (w_cache (with_window ''AI:10.0.0.1'' ai_window base_world))"
    "rq_user sample_request = None" "''AI:10.0.0.1'' = rte_tier ai_route @ '':'' @ client_ip sample_request"
    by (simp_all add: base_window with_window_def sample_request_def ai_route_def sample_client [unfolded sample_request_def])
  note claim = limit_not_per_user [OF route _ worlds(2,3) _ refl, where env = sample_env and handler = "\<lambda>rq. mret None"]
  have bad: "he_verify sample_env ''bad'' t = None" for t by (simp add: sample_env_def)
  have fields: "tier_window ai_tier = 60000" "tier_limit ai_tier = 10" "w_now base_world = 1000"
    "\<not> he_eval_fails sample_env 1000" "w_now (with_window k S base_world) = 1000" for k S
    by (simp_all add: ai_tier_def base_world_def sample_env_def with_window_def)
  have "\<exists>s w'. \<forall>token. handle_request sample_env ai_route (\<lambda>rq. mret None) (sample_request\<lparr>rq_bearer := token\<rparr>)
     (with_window ''AI:10.0.0.1'' ai_window base_world) = (Inl (HttpException 429 (Some s)), w')"
    using claim [OF worlds(1)] by (simp add: ai_window_def with_window_def fields)
  moreover have "\<exists>v. c_windows (w_cache v) ''AI:10.0.0.1'' = [1000] \<and>
     handle_request sample_env ai_route (\<lambda>rq. mret None) (sample_request\<lparr>rq_bearer := Some ''bad''\<rparr>) base_world = (Inl (HttpException 401 None), v)"
    using claim [OF base_window(1)] bad by (auto simp: base_window(2) fields)
  ultimately show ?thesis by blast
qed

text \<open>C33: the key of a repeated request decides alone.  Once a request with an idempotency key has
  been answered with a body, every request by the same identity with that key within the next
  24 hours is answered with that body and changes nothing, whatever its handler, its
  route and its payload; but an operation that answers without a body is run again each time.
\<close>

theorem idempotent_replay:
  assumes "rq_method rq \<in> set IDEMPOTENT_METHODS" and "rq_method rq' \<in> set IDEMPOTENT_METHODS"
    and "rq_idempotency_key rq = Some k" and "rq_idempotency_key rq' = Some k" and "k \<noteq> []" and "identity_of rq' = identity_of rq"
    and "c_enabled (w_cache w)" and "c_enabled (w_cache v)"
    and "c_idem (w_cache w) (identity_of rq @ '':'' @ k) = None"
    and "idempotency_intercept rq handler w = (Inr body, w1)"
    and "c_idem (w_cache v) (identity_of rq @ '':'' @ k) = c_idem (w_cache w1) (identity_of rq @ '':'' @ k)"
    and "w_now v < w_now w1 + 24 * 60 * 60 * 1000"
  shows "idempotency_intercept rq' handler' v =
    (case body of Some b \<Rightarrow> (Inr (Some b), v)
     | None \<Rightarrow> run_and_store (identity_of rq @ '':'' @ k) handler' v)"
proof -
  let ?key = "identity_of rq @ '':'' @ k"
  have "run_and_store ?key handler w = (Inr body, w1)"
    using assms(1,3,5,7,9,10) by (simp add: idempotency_intercept_def Let_def)
  then have "c_idem (w_cache w1) ?key = map_option (\<lambda>b. (b, w_now w1 + IDEMPOTENCY_TTL_SECONDS * 1000)) body"
    by (auto simp: run_and_store_def store_response_def elim!: mbind_InrE)
  with assms(2,4,5,6,8,11,12) show ?thesis
    by (auto simp: idempotency_intercept_def Let_def IDEMPOTENCY_TTL_SECONDS_def split: option.splits)
qed

lemma idempotent_replay_witness:
  "idempotency_intercept sample_request (mret (Some (JStr ''second''))) (snd (idempotency_intercept sample_request (mret (Some (JStr ''first''))) base_world)) =
     (Inr (Some (JStr ''first'')), snd (idempotency_intercept sample_request (mret (Some (JStr ''first''))) base_world))"
proof -
  let ?key = "identity_of sample_request @ '':'' @ ''k1''" and ?first = "mret (Some (JStr ''first'')) :: json option svc"
  obtain w1 where run: "idempotency_intercept sample_request ?first base_world = (Inr (Some (JStr ''first'')), w1)"
    and w1: "w_now w1 = w_now base_world" "c_enabled (w_cache w1)"
    by (simp add: idempotency_intercept_def sample_request_def IDEMPOTENT_METHODS_def run_and_store_def store_response_def
        base_world_def empty_cache_def Let_def)
  have rq: "rq_method sample_request \<in> set IDEMPOTENT_METHODS" "rq_idempotency_key sample_request = Some ''k1''" "''k1'' \<noteq> []"
    by (simp_all add: sample_request_def IDEMPOTENT_METHODS_def)
  have "c_idem (w_cache base_world) ?key = None" "w_now w1 < w_now w1 + 24 * 60 * 60 * 1000"
    by (simp_all add: base_world_def empty_cache_def)
  from idempotent_replay [OF rq(1,1,2,2,3) refl base_window(1) w1(2) this(1) run refl this(2)]
  show ?thesis by (simp add: run)
qed

end
