(* ===== verification/Api.thy ===== *)
theory Api
  imports Http Messaging Storage
begin

text \<open>
  What the controllers share: endpoints with the decorators of their routes, the pipes that read
  parameters, queries and bodies, the audit entry of a controller, and the JSON of the answers.
  A body arrives parsed: its properties have their types, and the schemas below add the bounds of
  the DTO classes.  An audit entry that the code does not wait for is written before the answer.
\<close>

section \<open>Endpoints\<close>

record endpoint =
  ep_method :: string
  ep_path :: string
  ep_route :: route
  ep_handler :: "http_request \<Rightarrow> json option svc"

definition open_route :: route where
  "open_route = \<lparr>rte_skip_limit = False, rte_tier = ''DEFAULT'', rte_guarded = False, rte_public = False,
     rte_roles = None, rte_permission = None\<rparr>"

text \<open>\<^verbatim>\<open>@Auth()\<close>, \<^verbatim>\<open>@RequirePermission(p)\<close>, \<^verbatim>\<open>@Public()\<close> and \<^verbatim>\<open>@RateLimit(tier)\<close>.\<close>

definition Auth :: route where
  "Auth = open_route\<lparr>rte_guarded := True\<rparr>"

definition RequirePermission :: "string \<Rightarrow> route" where
  "RequirePermission p = open_route\<lparr>rte_guarded := True,
     rte_permission := Some \<lparr>pr_permission = p, pr_scope_from = None\<rparr>\<rparr>"

definition Public :: route where
  "Public = open_route\<lparr>rte_public := True\<rparr>"

definition RateLimit :: "string \<Rightarrow> route \<Rightarrow> route" where
  "RateLimit tier rte = rte\<lparr>rte_tier := tier\<rparr>"

definition endpoint :: "string \<Rightarrow> string \<Rightarrow> route \<Rightarrow> (http_request \<Rightarrow> json option svc) \<Rightarrow> endpoint" where
  "endpoint verb path rte handler = \<lparr>ep_method = verb, ep_path = path, ep_route = rte, ep_handler = handler\<rparr>"

text \<open>A request that the router has matched with the endpoint.\<close>

definition serve :: "http_env \<Rightarrow> endpoint \<Rightarrow> http_request \<Rightarrow> json option svc" where
  "serve env ep rq = handle_request env (ep_route ep) (ep_handler ep) (rq\<lparr>rq_method := ep_method ep, rq_user := None\<rparr>)"

section \<open>Parameters\<close>

text \<open>\<^verbatim>\<open>@CurrentUser()\<close>; without a user the first access of a property throws.\<close>

definition CurrentUser :: "http_request \<Rightarrow> (jwt_payload \<Rightarrow> 'a svc) \<Rightarrow> 'a svc" where
  "CurrentUser rq f = (case rq_user rq of None \<Rightarrow> mthrow (PlainError ''Cannot read properties of undefined'') | Some u \<Rightarrow> f u)"

definition actor_of :: "jwt_payload \<Rightarrow> actor" where
  "actor_of u = \<lparr>ac_sub = jw_sub u, ac_email = jw_email u\<rparr>"

text \<open>\<^verbatim>\<open>ParseUUIDPipe\<close>: hexadecimal digits in groups of 8, 4, 4, 4 and 12.\<close>

fun hex_groups :: "nat list \<Rightarrow> string \<Rightarrow> bool" where
  "hex_groups [] s = (s = [])"
| "hex_groups [n] s = (length s = n \<and> list_all hex_digit s)"
| "hex_groups (n # m # ns) s =
     (length s > n \<and> list_all hex_digit (take n s) \<and> s ! n = CHR ''-'' \<and> hex_groups (m # ns) (drop (Suc n) s))"

definition ParseUUIDPipe :: "string \<Rightarrow> unit svc" where
  "ParseUUIDPipe s = throw_if (\<not> hex_groups [8, 4, 4, 4, 12] s) (HttpException 400 None)"

text \<open>A body or query that its schema refuses.\<close>

definition zod :: "bool \<Rightarrow> unit svc" where
  "zod valid = throw_if (\<not> valid) (HttpException 422 None)"

definition text_between :: "nat \<Rightarrow> nat \<Rightarrow> string \<Rightarrow> bool" where
  "text_between lo hi s \<longleftrightarrow> lo \<le> length s \<and> length s \<le> hi"

definition opt_max :: "nat \<Rightarrow> string option \<Rightarrow> bool" where
  "opt_max hi s = (case s of None \<Rightarrow> True | Some x \<Rightarrow> length x \<le> hi)"

text \<open>A nullable property of a patch: absent, null or a text.\<close>

definition opt_null_max :: "nat \<Rightarrow> string option option \<Rightarrow> bool" where
  "opt_null_max hi s = (case s of None \<Rightarrow> True | Some x \<Rightarrow> opt_max hi x)"

definition opt_between :: "nat \<Rightarrow> nat \<Rightarrow> string option \<Rightarrow> bool" where
  "opt_between lo hi s = (case s of None \<Rightarrow> True | Some x \<Rightarrow> text_between lo hi x)"

section \<open>Answers\<close>

definition jtime_or_null :: "timestamp option \<Rightarrow> json" where
  "jtime_or_null t = (case t of None \<Rightarrow> JNull | Some x \<Rightarrow> JDate x)"

definition jnum_or_null :: "int option \<Rightarrow> json" where
  "jnum_or_null n = (case n of None \<Rightarrow> JNull | Some x \<Rightarrow> JNum x)"

definition answer :: "jobject \<Rightarrow> json option svc" where
  "answer props = mret (Some (JObj props))"

definition answer_list :: "('a \<Rightarrow> jobject) \<Rightarrow> 'a list svc \<Rightarrow> json option svc" where
  "answer_list dto rows = mbind rows (\<lambda>xs. mret (Some (JArr (map (\<lambda>x. JObj (dto x)) xs))))"

definition answer_one :: "('a \<Rightarrow> jobject) \<Rightarrow> 'a svc \<Rightarrow> json option svc" where
  "answer_one dto row = mbind row (\<lambda>x. answer (dto x))"

text \<open>A row that the service may not have found again; its first property access throws then.\<close>

definition answer_present :: "('a \<Rightarrow> jobject) \<Rightarrow> 'a option \<Rightarrow> json option svc" where
  "answer_present dto x = mbind (or_throw x (PlainError ''Cannot read properties of null'')) (\<lambda>v. answer (dto v))"

text \<open>A handler of type \<^verbatim>\<open>Promise<void>\<close>.\<close>

definition no_content :: "unit svc \<Rightarrow> json option svc" where
  "no_content m = mbind m (\<lambda>_. mret None)"

definition page_json :: "('a \<Rightarrow> jobject) \<Rightarrow> 'a paged_result \<Rightarrow> json" where
  "page_json dto p = JObj [(''data'', JArr (map (\<lambda>x. JObj (dto x)) (pgd_data p))),
     (''pageInfo'', JObj [(''total'', JNum (int (pgd_total p))), (''limit'', JNum (int (pgd_limit p))),
       (''offset'', JNum (int (pgd_offset p))), (''hasNextPage'', JBool (pgd_has_next p))])]"

text \<open>A list endpoint: the query is read, one page is fetched and wrapped.\<close>

definition answer_page :: "int option \<Rightarrow> int option \<Rightarrow> (nat \<Rightarrow> nat \<Rightarrow> ('a list \<times> nat) svc) \<Rightarrow> ('a \<Rightarrow> jobject) \<Rightarrow> json option svc" where
  "answer_page lim off fetch dto =
     mbind (or_throw (page_query lim off) (HttpException 422 None)) (\<lambda>(l, k).
     mbind (fetch l k) (\<lambda>(rows, n).
     mret (Some (page_json dto (buildPageResult rows n l k)))))"

text \<open>
  A handler that may wait for ever.  A request that is never answered stands here as one that failed,
  and what it wrote on its way is left out.
\<close>

definition answered :: "(world \<Rightarrow> ((exn + json option) \<times> world) option) \<Rightarrow> json option svc" where
  "answered m w = (case m w of None \<Rightarrow> (Inl (PlainError ''no answer''), w) | Some r \<Rightarrow> r)"

section \<open>Audit\<close>

definition audit_by :: "jwt_payload \<Rightarrow> string \<Rightarrow> string \<Rightarrow> uuid \<Rightarrow> jobject \<Rightarrow> unit svc" where
  "audit_by u action resourceType rowId metadata =
     audit_record (Some (jw_sub u)) (Some (jw_email u)) action resourceType (Some rowId) [] metadata"

section \<open>Files\<close>

text \<open>The body of a presign request, which the services take apart.\<close>

record presign_dto =
  psd_file_name :: string
  psd_mime_type :: string
  psd_size_bytes :: int

definition IMAGE_TYPES :: "string list" where
  "IMAGE_TYPES = [''image/jpeg'', ''image/png'', ''image/webp'']"

definition presign_fits :: "string list \<Rightarrow> int \<Rightarrow> presign_dto \<Rightarrow> bool" where
  "presign_fits types megabytes d \<longleftrightarrow> text_between 1 255 (psd_file_name d) \<and> psd_mime_type d \<in> set types \<and>
     0 < psd_size_bytes d \<and> psd_size_bytes d \<le> megabytes * 1024 * 1024"

definition presign_answer :: "presign_result \<Rightarrow> jobject" where
  "presign_answer p = [(''fileId'', JStr (pre_file p)), (''uploadUrl'', JStr (pre_url p)), (''key'', JStr (pre_key p))]"

text \<open>A promise that nobody awaited is written as an empty object.\<close>

definition url_answer :: "string \<Rightarrow> url_value \<Rightarrow> jobject" where
  "url_answer name url = [(name, case url of Url s \<Rightarrow> JStr s | UrlPromise p \<Rightarrow> JObj [])]"

definition link_answer :: "string \<Rightarrow> string option \<Rightarrow> jobject" where
  "link_answer name url = [(name, jstr_or_null url)]"

section \<open>What an endpoint lets through\<close>

lemma keeps_pair: "(\<And>a b. keeps R (f a b)) \<Longrightarrow> keeps R (case p of (a, b) \<Rightarrow> f a b)"
  by (cases p) simp

text \<open>The limiter moves nothing but the windows of its keys.\<close>

definition windowed :: "(string \<Rightarrow> timestamp list) \<Rightarrow> world \<Rightarrow> world" where
  "windowed ws w = w\<lparr>w_cache := (w_cache w)\<lparr>c_windows := ws\<rparr>\<rparr>"

lemma windowed_simps [simp]:
  "w_db (windowed ws w) = w_db w" "w_now (windowed ws w) = w_now w" "w_perm_outage (windowed ws w) = w_perm_outage w"
  "c_enabled (w_cache (windowed ws w)) = c_enabled (w_cache w)" "c_perms (w_cache (windowed ws w)) = c_perms (w_cache w)"
  "c_revoked_session (w_cache (windowed ws w)) = c_revoked_session (w_cache w)"
  "c_revoked_employee (w_cache (windowed ws w)) = c_revoked_employee (w_cache w)"
  by (simp_all add: windowed_def)

lemma cold_windowed [simp]: "cold u (windowed ws w) = cold u w"
  by (simp add: cold_def cache_get_perms_def split: option.split)

lemma windows_update: "w_cache_update (c_windows_update f) w = windowed (f (c_windows (w_cache w))) w"
  by (cases w, cases "w_cache w") (simp add: windowed_def)

lemma windowed_same: "w = windowed (c_windows (w_cache w)) w"
  by (cases w, cases "w_cache w") (simp add: windowed_def)

lemma rate_limit_windowed: "rate_limit_guard env tn rq w = (r, w') \<Longrightarrow> \<exists>ws. w' = windowed ws w"
  using windowed_same [of w]
  by (fastforce simp: rate_limit_guard_def windows_update Let_def sliding_window_def split: option.splits bool.splits if_splits)

lemma jwt_validate_keeps: "jwt_validate u w = (r, w') \<Longrightarrow> w' = w \<and> (\<forall>v. r = Inr v \<longrightarrow> v = u)"
  by (auto simp: jwt_validate_def split: if_splits)

lemma jwt_guard_passed:
  assumes "jwt_guard env rte rq w = (r, w')"
  shows "w' = w" "r = Inr rq' \<Longrightarrow> rte_guarded rte \<Longrightarrow> \<not> rte_public rte \<Longrightarrow>
    \<exists>b u. rq_bearer rq = Some b \<and> he_verify env b (w_now w) = Some u \<and> rq' = rq\<lparr>rq_user := Some u\<rparr> \<and> jwt_validate u w = (Inr u, w)"
  using assms jwt_validate_keeps
  by (auto simp: jwt_guard_def mbind_def split: if_splits option.splits prod.splits sum.splits Option.bind_splits)

lemma policy_guard_result: "fst (policy_guard r u w) = Inr b \<Longrightarrow> b"
  by (auto simp: policy_guard_def mbind_def split: option.splits prod.splits sum.splits if_splits)

lemma keeps_check_on: "keeps (same f) (check_on u p res usr)"
proof (rule keepsI)
  fix w
  obtain b c where "check_on u p res usr w = (Inr b, w\<lparr>w_cache := c\<rparr>)"
    by (rule check_on_total)
  then show "same f w (snd (check_on u p res usr w))"
    by (simp add: same_def)
qed

lemma keeps_policy_guard: "keeps (same f) (policy_guard r u)"
  unfolding policy_guard_def or_throw_def by (intro same_rules keeps_check_on)

text \<open>
  The stages of the pipeline: a guarded request ends in a guard, with all tables as they were, or it
  runs the interceptor around the handler, with the user of its verified token and the
  permission of its route.
\<close>

lemma handle_request_stages:
  assumes run: "handle_request env rte handler rq w = (r, w')" and guarded: "rte_guarded rte" "\<not> rte_public rte"
  shows "(\<exists>e. r = Inl e) \<and> w_db w' = w_db w \<or>
    (\<exists>b u ws w2. rq_bearer rq = Some b \<and> he_verify env b (w_now w) = Some u \<and> jwt_validate u (windowed ws w) = (Inr u, windowed ws w) \<and>
       policy_guard (rte_permission rte) (Some u) (windowed ws w) = (Inr True, w2) \<and> w_db w2 = w_db w \<and>
       idempotency_intercept (rq\<lparr>rq_user := Some u\<rparr>) (handler (rq\<lparr>rq_user := Some u\<rparr>)) w2 = (r, w'))"
proof -
  define limiter where "limiter = (if rte_skip_limit rte then mret None else rate_limit_guard env (rte_tier rte) rq)"
  define rest where "rest rq' = mbind (policy_guard (rte_permission rte) (rq_user rq')) (\<lambda>_. idempotency_intercept rq' (handler rq'))" for rq' :: http_request
  define roles where "roles rq' = ((case role_guard (rte_roles rte) (rq_user rq') of Inl e \<Rightarrow> mthrow e | Inr b \<Rightarrow> mret b) :: bool svc)" for rq' :: http_request
  have stages: "handle_request env rte handler rq = mbind limiter (\<lambda>_. mbind (jwt_guard env rte rq) (\<lambda>rq'. mbind (roles rq') (\<lambda>_. rest rq')))"
    by (simp add: handle_request_def limiter_def rest_def roles_def)
  obtain l w1 where limit: "limiter w = (l, w1)" by fastforce
  obtain ws where w1: "w1 = windowed ws w"
    using limit rate_limit_windowed [of env "rte_tier rte" rq w l w1] windowed_same [of w] by (auto simp: limiter_def split: if_splits)
  obtain j w2 where jwt: "jwt_guard env rte rq w1 = (j, w2)" by fastforce
  note passed = jwt_guard_passed [OF jwt]
  show ?thesis
  proof (cases l)
    case (Inl e)
    then have "r = Inl e" "w' = w1" using run limit by (simp_all add: stages mbind_def)
    then show ?thesis using w1 by simp
  next
    case (Inr h)
    note l = this
    show ?thesis
    proof (cases j)
      case (Inl e)
      then have "r = Inl e" "w' = w1" using run limit l jwt passed(1) by (simp_all add: stages mbind_def)
      then show ?thesis using w1 by simp
    next
      case (Inr rq')
      obtain b u where u: "rq_bearer rq = Some b" "he_verify env b (w_now w) = Some u" "rq' = rq\<lparr>rq_user := Some u\<rparr>" "jwt_validate u w1 = (Inr u, w1)"
        using passed(2) [OF Inr guarded] w1 by auto
      have after: "(r, w') = mbind (roles rq') (\<lambda>_. rest rq') w1"
        using run limit l jwt Inr passed(1) by (simp add: stages mbind_def)
      obtain p w3 where policy: "policy_guard (rte_permission rte) (Some u) w1 = (p, w3)" by fastforce
      have w3: "w_db w3 = w_db w" using sameD [OF keeps_policy_guard policy] w1 by simp
      show ?thesis
      proof (cases "role_guard (rte_roles rte) (rq_user rq')")
        case (Inl e)
        with after have "r = Inl e" "w' = w1" by (simp_all add: roles_def mbind_def)
        then show ?thesis using w1 by simp
      next
        case (Inr c)
        show ?thesis
        proof (cases p)
          case (Inl e)
          with after Inr policy u(3) have "r = Inl e" "w' = w3" by (simp_all add: roles_def rest_def mbind_def)
          then show ?thesis using w3 by simp
        next
          case (Inr ok)
          then have "policy_guard (rte_permission rte) (Some u) w1 = (Inr True, w3)"
            using policy policy_guard_result [of "rte_permission rte" "Some u" w1 ok] by simp
          moreover have "idempotency_intercept rq' (handler rq') w3 = (r, w')"
            using after \<open>role_guard _ _ = Inr c\<close> policy Inr u(3) by (simp add: roles_def rest_def mbind_def)
          ultimately show ?thesis using u w1 w3 by blast
        qed
      qed
    qed
  qed
qed

end
