(* ===== verification/Api_Requests.thy ===== *)
theory Api_Requests
  imports Api Catalog Access_Requests
begin

text \<open>
  The controllers of requests (\<^verbatim>\<open>libs/modules/requests\<close>), of access requests and of the service
  catalog: the answers as JSON, the handlers, and the endpoints with their decorators.
\<close>

section \<open>Requests\<close>

fun request_status_name :: "request_status \<Rightarrow> string" where
  "request_status_name Req_pending = ''pending''"
| "request_status_name Req_in_review = ''in_review''"
| "request_status_name Req_approved = ''approved''"
| "request_status_name Req_rejected = ''rejected''"
| "request_status_name Req_cancelled = ''cancelled''"
| "request_status_name Req_expired = ''expired''"

fun decision_name :: "decision \<Rightarrow> string" where
  "decision_name Dec_approved = ''approved''"
| "decision_name Dec_rejected = ''rejected''"
| "decision_name Dec_delegated = ''delegated''"

definition approval_dto :: "request_approval \<Rightarrow> jobject" where
  "approval_dto a = [(''id'', JStr (ra_id a)), (''requestId'', JStr (ra_request a)), (''step'', JNum (ra_step a)),
     (''approverId'', JStr (ra_approver a)), (''decision'', JStr (decision_name (ra_decision a))),
     (''note'', jstr_or_null (ra_note a)), (''delegatedFromId'', jstr_or_null (ra_delegated_from a)),
     (''decidedAt'', JDate (ra_decided_at a))]"

definition request_dto :: "request_item \<times> request_approval list \<Rightarrow> jobject" where
  "request_dto item = (case item of (r, approvals) \<Rightarrow>
     [(''id'', JStr (ri_id r)), (''type'', JStr (ri_type r)), (''requesterId'', JStr (ri_requester r)),
      (''assigneeId'', jstr_or_null (ri_assignee r)), (''status'', JStr (request_status_name (ri_status r))),
      (''priority'', JStr (priority_name (ri_priority r))), (''payload'', JObj (ri_payload r)),
      (''resolutionNote'', jstr_or_null (ri_resolution_note r)), (''submittedAt'', JDate (ri_submitted_at r)),
      (''resolvedAt'', jtime_or_null (ri_resolved_at r)), (''expiresAt'', jtime_or_null (ri_expires_at r)),
      (''slaHours'', jnum_or_null (ri_sla_hours r)), (''slaDeadline'', jtime_or_null (ri_sla_deadline r)),
      (''slaBreachedAt'', jtime_or_null (ri_sla_breached_at r)), (''currentStep'', JNum (ri_current_step r)),
      (''totalSteps'', JNum (ri_total_steps r)), (''createdAt'', JDate (ri_created_at r)), (''updatedAt'', JDate (ri_updated_at r)),
      (''approvals'', JArr (map (\<lambda>a. JObj (approval_dto a)) approvals))])"

definition comment_dto :: "request_comment \<Rightarrow> jobject" where
  "comment_dto c = [(''id'', JStr (rc_id c)), (''requestId'', JStr (rc_request c)), (''authorId'', JStr (rc_author c)),
     (''body'', JStr (rc_body c)), (''editedAt'', jtime_or_null (rc_edited_at c)), (''createdAt'', JDate (rc_created_at c))]"

definition mustGetById :: "uuid \<Rightarrow> (request_item \<times> request_approval list) svc" where
  "mustGetById rowId = mbind (getById rowId) (\<lambda>item. or_throw item (NotFoundException REQUEST_NOT_FOUND))"

definition requests_list :: "request_filters \<Rightarrow> int option \<Rightarrow> int option \<Rightarrow> jwt_payload \<Rightarrow> json option svc" where
  "requests_list f lim off u =
     answer_page (or_else lim (Some 20)) off (list_requests (f\<lparr>rf_assignee := None\<rparr>) (jw_sub u)) request_dto"

definition requests_get :: "uuid \<Rightarrow> json option svc" where
  "requests_get rowId = mbind (ParseUUIDPipe rowId) (\<lambda>_. answer_one request_dto (mustGetById rowId))"

definition note_fits :: "string option \<Rightarrow> bool" where
  "note_fits n = opt_max 1000 n"

definition requests_approve :: "uuid \<Rightarrow> string option \<Rightarrow> jwt_payload \<Rightarrow> json option svc" where
  "requests_approve rowId comment u =
     mbind (ParseUUIDPipe rowId) (\<lambda>_. mbind (zod (note_fits comment)) (\<lambda>_.
     mbind (approve app_registry rowId comment (actor_of u)) (\<lambda>_.
     mbind (audit_by u ''request.approved'' ''request'' rowId [(''note'', jstr_or_null comment)]) (\<lambda>_.
     answer_one request_dto (mustGetById rowId)))))"

definition requests_reject :: "uuid \<Rightarrow> string option \<Rightarrow> jwt_payload \<Rightarrow> json option svc" where
  "requests_reject rowId comment u =
     mbind (ParseUUIDPipe rowId) (\<lambda>_. mbind (zod (note_fits comment)) (\<lambda>_.
     mbind (reject app_registry rowId comment (actor_of u)) (\<lambda>_.
     mbind (audit_by u ''request.rejected'' ''request'' rowId [(''note'', jstr_or_null comment)]) (\<lambda>_.
     answer_one request_dto (mustGetById rowId)))))"

definition requests_cancel :: "uuid \<Rightarrow> string option \<Rightarrow> jwt_payload \<Rightarrow> json option svc" where
  "requests_cancel rowId comment u =
     mbind (ParseUUIDPipe rowId) (\<lambda>_. mbind (zod (note_fits comment)) (\<lambda>_.
     mbind (cancel app_registry rowId (actor_of u)) (\<lambda>_.
     mbind (audit_by u ''request.cancelled'' ''request'' rowId []) (\<lambda>_.
     answer_one request_dto (mustGetById rowId)))))"

definition requests_comments :: "uuid \<Rightarrow> json option svc" where
  "requests_comments rowId =
     mbind (ParseUUIDPipe rowId) (\<lambda>_. mbind (mustGetById rowId) (\<lambda>_. answer_list comment_dto (listComments rowId)))"

definition requests_add_comment :: "uuid \<Rightarrow> string \<Rightarrow> jwt_payload \<Rightarrow> json option svc" where
  "requests_add_comment rowId body u =
     mbind (ParseUUIDPipe rowId) (\<lambda>_. mbind (zod (text_between 1 5000 body)) (\<lambda>_.
     mbind (addComment rowId body (actor_of u)) (\<lambda>comment.
     mbind (audit_by u ''request.comment_added'' ''request'' rowId [(''commentId'', JStr (rc_id comment))]) (\<lambda>_.
     answer (comment_dto comment)))))"

datatype requests_op =
    RequestsList request_filters "int option" "int option"
  | RequestsGet uuid
  | RequestsApprove uuid "string option"
  | RequestsReject uuid "string option"
  | RequestsCancel uuid "string option"
  | RequestsComments uuid
  | RequestsAddComment uuid string

fun requests_endpoint :: "requests_op \<Rightarrow> endpoint" where
  "requests_endpoint (RequestsList f lim off) = endpoint ''GET'' ''requests'' Auth (\<lambda>rq. CurrentUser rq (requests_list f lim off))"
| "requests_endpoint (RequestsGet i) = endpoint ''GET'' ''requests/:id'' Auth (\<lambda>rq. requests_get i)"
| "requests_endpoint (RequestsApprove i n) = endpoint ''POST'' ''requests/:id/approve'' Auth (\<lambda>rq. CurrentUser rq (requests_approve i n))"
| "requests_endpoint (RequestsReject i n) = endpoint ''POST'' ''requests/:id/reject'' Auth (\<lambda>rq. CurrentUser rq (requests_reject i n))"
| "requests_endpoint (RequestsCancel i n) = endpoint ''POST'' ''requests/:id/cancel'' Auth (\<lambda>rq. CurrentUser rq (requests_cancel i n))"
| "requests_endpoint (RequestsComments i) = endpoint ''GET'' ''requests/:id/comments'' Auth (\<lambda>rq. requests_comments i)"
| "requests_endpoint (RequestsAddComment i b) = endpoint ''POST'' ''requests/:id/comments'' Auth (\<lambda>rq. CurrentUser rq (requests_add_comment i b))"

section \<open>Access requests\<close>

fun access_status_name :: "access_request_status \<Rightarrow> string" where
  "access_status_name Acc_pending = ''pending''"
| "access_status_name Acc_approved = ''approved''"
| "access_status_name Acc_rejected = ''rejected''"
| "access_status_name Acc_expired = ''expired''"
| "access_status_name Acc_revoked = ''revoked''"

definition access_dto :: "access_request \<Rightarrow> jobject" where
  "access_dto r = [(''id'', JStr (ar_id r)), (''requesterId'', JStr (ar_requester r)), (''accessType'', JStr (ar_access_type r)),
     (''target'', JStr (ar_target r)), (''justification'', JStr (ar_justification r)), (''durationHours'', JStr (ar_duration_hours r)),
     (''status'', JStr (access_status_name (ar_status r))), (''reviewerId'', jstr_or_null (ar_reviewer r)),
     (''reviewNote'', jstr_or_null (ar_review_note r)), (''reviewedAt'', jtime_or_null (ar_reviewed_at r)),
     (''createdAt'', JDate (ar_created_at r))]"

definition grant_dto :: "access_grant \<Rightarrow> jobject" where
  "grant_dto g = [(''id'', JStr (ag_id g)), (''requestId'', JStr (ag_request g)), (''granteeId'', JStr (ag_grantee g)),
     (''accessType'', JStr (ag_access_type g)), (''target'', JStr (ag_target g)), (''grantedAt'', JDate (ag_granted_at g)),
     (''expiresAt'', JDate (ag_expires_at g)), (''revokedAt'', jtime_or_null (ag_revoked_at g))]"

definition access_input_fits :: "access_input \<Rightarrow> bool" where
  "access_input_fits d \<longleftrightarrow> ai_access_type d \<in> {''local_admin'', ''pim_role'', ''app_admin'', ''vpn'', ''other''} \<and>
     text_between 1 200 (ai_target d) \<and> 10 \<le> length (ai_justification d) \<and> 1 \<le> ai_duration_hours d \<and> ai_duration_hours d \<le> 720"

definition accesses_list :: "access_filters \<Rightarrow> int option \<Rightarrow> int option \<Rightarrow> json option svc" where
  "accesses_list f lim off = answer_page lim off (access_list f) access_dto"

definition accesses_get :: "uuid \<Rightarrow> json option svc" where
  "accesses_get rowId = answer_one access_dto (access_getById rowId)"

definition accesses_submit :: "access_input \<Rightarrow> jwt_payload \<Rightarrow> json option svc" where
  "accesses_submit d u =
     mbind (zod (access_input_fits d)) (\<lambda>_.
     mbind (access_submit d (actor_of u)) (\<lambda>result.
     mbind (audit_by u ''access_request.submitted'' ''access_request'' (ar_id result)
              [(''accessType'', JStr (ai_access_type d)), (''target'', JStr (ai_target d)), (''durationHours'', JNum (ai_duration_hours d))]) (\<lambda>_.
     answer (access_dto result))))"

text \<open>The service answers without a grant after an intermediate step; \<^verbatim>\<open>grant.id\<close> throws then.\<close>

definition accesses_approve :: "uuid \<Rightarrow> string option \<Rightarrow> jwt_payload \<Rightarrow> json option svc" where
  "accesses_approve rowId comment u =
     mbind (zod (note_fits comment)) (\<lambda>_.
     mbind (access_approve rowId comment (actor_of u)) (\<lambda>result.
     mbind (or_throw result (PlainError ''Cannot read properties of undefined'')) (\<lambda>grant.
     mbind (audit_by u ''access_request.approved'' ''access_request'' rowId [(''grantId'', JStr (ag_id grant)), (''note'', jstr_or_null comment)]) (\<lambda>_.
     answer (grant_dto grant)))))"

definition accesses_reject :: "uuid \<Rightarrow> string option \<Rightarrow> jwt_payload \<Rightarrow> json option svc" where
  "accesses_reject rowId comment u =
     mbind (zod (note_fits comment)) (\<lambda>_.
     mbind (access_reject rowId comment (actor_of u)) (\<lambda>result.
     mbind (audit_by u ''access_request.rejected'' ''access_request'' rowId [(''note'', jstr_or_null comment)]) (\<lambda>_.
     answer (access_dto result))))"

definition accesses_revoke :: "uuid \<Rightarrow> jwt_payload \<Rightarrow> json option svc" where
  "accesses_revoke grantId u =
     mbind (access_revokeGrant grantId (actor_of u)) (\<lambda>_.
     mbind (audit_by u ''access_request.grant_revoked'' ''access_grant'' grantId []) (\<lambda>_.
     answer [(''status'', JStr ''revoked'')]))"

definition accesses_my_grants :: "jwt_payload \<Rightarrow> json option svc" where
  "accesses_my_grants u = answer_list grant_dto (access_listActiveGrants (jw_sub u))"

datatype access_op =
    AccessList access_filters "int option" "int option"
  | AccessGet uuid
  | AccessSubmit access_input
  | AccessApprove uuid "string option"
  | AccessReject uuid "string option"
  | AccessRevoke uuid
  | AccessMyGrants

fun access_endpoint :: "access_op \<Rightarrow> endpoint" where
  "access_endpoint (AccessList f lim off) = endpoint ''GET'' ''access-requests'' Auth (\<lambda>rq. accesses_list f lim off)"
| "access_endpoint (AccessGet i) = endpoint ''GET'' ''access-requests/:id'' Auth (\<lambda>rq. accesses_get i)"
| "access_endpoint (AccessSubmit d) = endpoint ''POST'' ''access-requests'' Auth (\<lambda>rq. CurrentUser rq (accesses_submit d))"
| "access_endpoint (AccessApprove i n) = endpoint ''POST'' ''access-requests/:id/approve''
     (RequirePermission ''access_request.security_approve'') (\<lambda>rq. CurrentUser rq (accesses_approve i n))"
| "access_endpoint (AccessReject i n) = endpoint ''POST'' ''access-requests/:id/reject''
     (RequirePermission ''access_request.security_approve'') (\<lambda>rq. CurrentUser rq (accesses_reject i n))"
| "access_endpoint (AccessRevoke i) = endpoint ''POST'' ''access-requests/grants/:grantId/revoke''
     (RequirePermission ''access_request.security_approve'') (\<lambda>rq. CurrentUser rq (accesses_revoke i))"
| "access_endpoint AccessMyGrants = endpoint ''GET'' ''access-requests/grants/me/active'' Auth (\<lambda>rq. CurrentUser rq accesses_my_grants)"

section \<open>Service catalog\<close>

definition item_dto :: "catalog_item \<Rightarrow> jobject" where
  "item_dto c = [(''id'', JStr (ci_id c)), (''name'', JStr (ci_name c)), (''description'', jstr_or_null (ci_description c)),
     (''category'', JStr (ci_category c)), (''iconEmoji'', jstr_or_null (ci_icon c)), (''approvalPermission'', JStr (ci_permission c)),
     (''slaHours'', jnum_or_null (ci_sla_hours c)), (''isActive'', JBool (ci_active c)), (''sortOrder'', JNum (ci_sort c)),
     (''createdAt'', JDate (ci_created_at c))]"

definition opt_positive :: "int option \<Rightarrow> bool" where
  "opt_positive n = (case n of None \<Rightarrow> True | Some k \<Rightarrow> 0 < k)"

definition opt_natural :: "int option \<Rightarrow> bool" where
  "opt_natural n = (case n of None \<Rightarrow> True | Some k \<Rightarrow> 0 \<le> k)"

definition catalog_input_fits :: "catalog_input \<Rightarrow> bool" where
  "catalog_input_fits d \<longleftrightarrow> text_between 1 150 (cin_name d) \<and> opt_max 1000 (cin_description d) \<and> text_between 1 80 (cin_category d) \<and>
     opt_max 10 (cin_icon d) \<and> text_between 1 100 (cin_permission d) \<and> opt_positive (cin_sla_hours d) \<and> opt_natural (cin_sort d)"

definition catalog_patch_fits :: "catalog_patch \<Rightarrow> bool" where
  "catalog_patch_fits d \<longleftrightarrow> opt_between 1 150 (cpt_name d) \<and> opt_null_max 1000 (cpt_description d) \<and> opt_between 1 80 (cpt_category d) \<and>
     opt_null_max 10 (cpt_icon d) \<and> opt_between 1 100 (cpt_permission d) \<and>
     (case cpt_sla_hours d of None \<Rightarrow> True | Some n \<Rightarrow> opt_positive n) \<and> opt_natural (cpt_sort d)"

text \<open>Only catalog managers see inactive items.\<close>

definition catalogs_list :: "string option \<Rightarrow> jwt_payload \<Rightarrow> json option svc" where
  "catalogs_list includeInactive u =
     mbind (if includeInactive = Some ''true'' then check (jw_sub u) ''catalog.manage'' else mret False) (\<lambda>showAll.
     answer_list item_dto (catalog_list showAll))"

definition catalogs_create :: "catalog_input \<Rightarrow> jwt_payload \<Rightarrow> json option svc" where
  "catalogs_create d u = mbind (zod (catalog_input_fits d)) (\<lambda>_. answer_one item_dto (createItem d (actor_of u)))"

definition catalogs_get :: "uuid \<Rightarrow> json option svc" where
  "catalogs_get rowId = answer_one item_dto (getItem rowId)"

definition catalogs_update :: "uuid \<Rightarrow> catalog_patch \<Rightarrow> jwt_payload \<Rightarrow> json option svc" where
  "catalogs_update rowId d u = mbind (zod (catalog_patch_fits d)) (\<lambda>_. answer_one item_dto (updateItem rowId d (actor_of u)))"

definition catalogs_delete :: "uuid \<Rightarrow> jwt_payload \<Rightarrow> json option svc" where
  "catalogs_delete rowId u = no_content (deleteItem rowId (actor_of u))"

definition catalogs_request :: "uuid \<Rightarrow> string \<Rightarrow> jwt_payload \<Rightarrow> json option svc" where
  "catalogs_request rowId reason u =
     mbind (zod (text_between 10 1000 reason)) (\<lambda>_.
     mbind (submitRequest rowId reason (actor_of u)) (\<lambda>requestId. answer [(''requestId'', JStr requestId)]))"

datatype catalog_op =
    CatalogList "string option"
  | CatalogCreate catalog_input
  | CatalogGet uuid
  | CatalogUpdate uuid catalog_patch
  | CatalogDelete uuid
  | CatalogRequest uuid string

fun catalog_endpoint :: "catalog_op \<Rightarrow> endpoint" where
  "catalog_endpoint (CatalogList a) = endpoint ''GET'' ''catalog'' Auth (\<lambda>rq. CurrentUser rq (catalogs_list a))"
| "catalog_endpoint (CatalogCreate d) = endpoint ''POST'' ''catalog'' (RequirePermission ''catalog.manage'') (\<lambda>rq. CurrentUser rq (catalogs_create d))"
| "catalog_endpoint (CatalogGet i) = endpoint ''GET'' ''catalog/:id'' Auth (\<lambda>rq. catalogs_get i)"
| "catalog_endpoint (CatalogUpdate i d) = endpoint ''PATCH'' ''catalog/:id'' (RequirePermission ''catalog.manage'') (\<lambda>rq. CurrentUser rq (catalogs_update i d))"
| "catalog_endpoint (CatalogDelete i) = endpoint ''DELETE'' ''catalog/:id'' (RequirePermission ''catalog.manage'') (\<lambda>rq. CurrentUser rq (catalogs_delete i))"
| "catalog_endpoint (CatalogRequest i r) = endpoint ''POST'' ''catalog/:id/request'' Auth (\<lambda>rq. CurrentUser rq (catalogs_request i r))"

end
