(* ===== verification/Api_Workforce.thy ===== *)
theory Api_Workforce
  imports Api Documents Employees
begin

text \<open>
  The controller of \<^verbatim>\<open>libs/modules/workforce\<close>: timesheets, leave, overtime, shift logs, on- and
  offboarding, leave documents.  Dates are the numbers of their days, hours are in hundredths.
\<close>

section \<open>Answers\<close>

fun timesheet_status_name :: "timesheet_status \<Rightarrow> string" where
  "timesheet_status_name Ts_draft = ''draft''"
| "timesheet_status_name Ts_submitted = ''submitted''"
| "timesheet_status_name Ts_approved = ''approved''"
| "timesheet_status_name Ts_rejected = ''rejected''"

fun leave_status_name :: "leave_status \<Rightarrow> string" where
  "leave_status_name Lv_pending = ''pending''"
| "leave_status_name Lv_approved = ''approved''"
| "leave_status_name Lv_rejected = ''rejected''"
| "leave_status_name Lv_cancelled = ''cancelled''"

fun overtime_status_name :: "overtime_status \<Rightarrow> string" where
  "overtime_status_name Ot_pending = ''pending''"
| "overtime_status_name Ot_approved = ''approved''"
| "overtime_status_name Ot_rejected = ''rejected''"

fun shift_type_name :: "shift_type \<Rightarrow> string" where
  "shift_type_name Shift_night = ''night''"
| "shift_type_name Shift_on_call = ''on_call''"
| "shift_type_name Shift_weekend = ''weekend''"

definition timesheet_dto :: "timesheet \<Rightarrow> jobject" where
  "timesheet_dto t = [(''id'', JStr (ts_id t)), (''employeeId'', JStr (ts_employee t)), (''workDate'', JNum (ts_work_date t)),
     (''minutesWorked'', JNum (ts_minutes t)), (''note'', jstr_or_null (ts_note t)), (''status'', JStr (timesheet_status_name (ts_status t))),
     (''submittedAt'', jtime_or_null (ts_submitted_at t)), (''approvedBy'', jstr_or_null (ts_approved_by t)), (''createdAt'', JDate (ts_created_at t))]"

definition leave_dto :: "leave_request \<Rightarrow> jobject" where
  "leave_dto l = [(''id'', JStr (lr_id l)), (''employeeId'', JStr (lr_employee l)), (''leaveType'', JStr (leave_type_name (lr_leave_type l))),
     (''startDate'', JNum (lr_start l)), (''endDate'', JNum (lr_end l)), (''reason'', jstr_or_null (lr_reason l)),
     (''status'', JStr (leave_status_name (lr_status l))), (''reviewerId'', jstr_or_null (lr_reviewer l)),
     (''reviewedAt'', jtime_or_null (lr_reviewed_at l)), (''createdAt'', JDate (lr_created_at l))]"

definition overtime_dto :: "overtime_entry \<Rightarrow> jobject" where
  "overtime_dto r = [(''id'', JStr (ot_id r)), (''employeeId'', JStr (ot_employee r)), (''workDate'', JNum (ot_work_date r)),
     (''hours'', JNum (ot_hours r)), (''reason'', JStr (ot_reason r)), (''status'', JStr (overtime_status_name (ot_status r))),
     (''reviewerId'', jstr_or_null (ot_reviewer r)), (''reviewedAt'', jtime_or_null (ot_reviewed_at r)), (''createdAt'', JDate (ot_created_at r))]"

definition shift_dto :: "shift_log \<Rightarrow> jobject" where
  "shift_dto s = [(''id'', JStr (sl_id s)), (''employeeId'', JStr (sl_employee s)), (''shiftType'', JStr (shift_type_name (sl_shift_type s))),
     (''startsAt'', JDate (sl_starts_at s)), (''endsAt'', JDate (sl_ends_at s)), (''note'', jstr_or_null (sl_note s)), (''createdAt'', JDate (sl_created_at s))]"

section \<open>Bodies\<close>

definition timesheet_input_fits :: "timesheet_input \<Rightarrow> bool" where
  "timesheet_input_fits d \<longleftrightarrow> 0 \<le> ti_minutes d \<and> ti_minutes d \<le> 1440 \<and> opt_max 500 (ti_note d)"

definition leave_input_fits :: "leave_input \<Rightarrow> bool" where
  "leave_input_fits d \<longleftrightarrow> opt_max 1000 (li_reason d) \<and> li_start d \<le> li_end d"

definition overtime_input_fits :: "overtime_input \<Rightarrow> bool" where
  "overtime_input_fits d \<longleftrightarrow> 25 \<le> oi_hours d \<and> oi_hours d \<le> 2400 \<and> text_between 1 1000 (oi_reason d)"

definition shift_input_fits :: "shift_input \<Rightarrow> bool" where
  "shift_input_fits d \<longleftrightarrow> opt_max 500 (shi_note d) \<and> shi_starts_at d < shi_ends_at d"

text \<open>The e-mail address comes from the directory, not from the body.\<close>

definition onboarding_fits :: "onboarding_input \<Rightarrow> bool" where
  "onboarding_fits d \<longleftrightarrow> opt_max 120 (bi_department d) \<and> opt_max 120 (bi_job_title d) \<and> opt_max 120 (bi_manager_name d) \<and>
     (case bi_equipment_type d of None \<Rightarrow> True | Some k \<Rightarrow> k \<in> {''laptop'', ''desktop'', ''remote_only'', ''byod''}) \<and>
     (case bi_preferred_os d of None \<Rightarrow> True | Some k \<Rightarrow> k \<in> {''windows'', ''macos'', ''linux''}) \<and>
     opt_max 500 (bi_equipment_note d) \<and>
     (case bi_access_needs d of None \<Rightarrow> True | Some xs \<Rightarrow> list_all (\<lambda>x. length x \<le> 80) xs \<and> length xs \<le> 20)"

definition DOCUMENT_TYPES :: "string list" where
  "DOCUMENT_TYPES = [''application/pdf'', ''image/jpeg'', ''image/png'']"

section \<open>Handlers\<close>

definition timesheets_list :: "timesheet_status workforce_filters \<Rightarrow> int option \<Rightarrow> int option \<Rightarrow> json option svc" where
  "timesheets_list f lim off = answer_page lim off (listTimesheets f) timesheet_dto"

definition timesheets_create :: "timesheet_input \<Rightarrow> jwt_payload \<Rightarrow> json option svc" where
  "timesheets_create d u =
     mbind (zod (timesheet_input_fits d)) (\<lambda>_. mbind (createTimesheet d (actor_of u)) (\<lambda>ts.
     mbind (audit_by u ''workforce.timesheet_created'' ''timesheet'' (ts_id ts)
              [(''workDate'', JNum (ti_work_date d)), (''minutesWorked'', JNum (ti_minutes d))]) (\<lambda>_.
     answer (timesheet_dto ts))))"

definition timesheets_submit :: "uuid \<Rightarrow> jwt_payload \<Rightarrow> json option svc" where
  "timesheets_submit rowId u =
     mbind (submitTimesheet rowId (actor_of u)) (\<lambda>ts.
     mbind (audit_by u ''workforce.timesheet_submitted'' ''timesheet'' rowId []) (\<lambda>_. answer_present timesheet_dto ts))"

definition timesheets_review :: "uuid \<Rightarrow> bool \<Rightarrow> jwt_payload \<Rightarrow> json option svc" where
  "timesheets_review rowId ok u =
     mbind (reviewTimesheet rowId ok (actor_of u)) (\<lambda>ts.
     mbind (audit_by u (if ok then ''workforce.timesheet_approved'' else ''workforce.timesheet_rejected'') ''timesheet'' rowId []) (\<lambda>_.
     answer_present timesheet_dto ts))"

definition leaves_list :: "leave_status workforce_filters \<Rightarrow> int option \<Rightarrow> int option \<Rightarrow> json option svc" where
  "leaves_list f lim off = answer_page lim off (listLeave f) leave_dto"

definition leaves_create :: "leave_input \<Rightarrow> jwt_payload \<Rightarrow> json option svc" where
  "leaves_create d u =
     mbind (zod (leave_input_fits d)) (\<lambda>_. mbind (createLeave d (actor_of u)) (\<lambda>leave.
     mbind (audit_by u ''workforce.leave_requested'' ''leave_request'' (lr_id leave)
              [(''leaveType'', JStr (leave_type_name (li_leave_type d))), (''startDate'', JNum (li_start d)), (''endDate'', JNum (li_end d))]) (\<lambda>_.
     answer (leave_dto leave))))"

definition leaves_review :: "uuid \<Rightarrow> bool \<Rightarrow> jwt_payload \<Rightarrow> json option svc" where
  "leaves_review rowId ok u =
     mbind (reviewLeave rowId ok (actor_of u)) (\<lambda>leave.
     mbind (audit_by u (if ok then ''workforce.leave_approved'' else ''workforce.leave_rejected'') ''leave_request'' rowId []) (\<lambda>_.
     answer_present leave_dto leave))"

definition leaves_cancel :: "uuid \<Rightarrow> jwt_payload \<Rightarrow> json option svc" where
  "leaves_cancel rowId u =
     mbind (cancelLeave rowId (actor_of u)) (\<lambda>leave.
     mbind (audit_by u ''workforce.leave_cancelled'' ''leave_request'' rowId []) (\<lambda>_. answer_present leave_dto leave))"

definition overtimes_list :: "overtime_status workforce_filters \<Rightarrow> int option \<Rightarrow> int option \<Rightarrow> json option svc" where
  "overtimes_list f lim off = answer_page lim off (listOvertime f) overtime_dto"

definition overtimes_create :: "overtime_input \<Rightarrow> jwt_payload \<Rightarrow> json option svc" where
  "overtimes_create d u =
     mbind (zod (overtime_input_fits d)) (\<lambda>_. mbind (createOvertime d (actor_of u)) (\<lambda>entry.
     mbind (audit_by u ''workforce.overtime_logged'' ''overtime_entry'' (ot_id entry)
              [(''workDate'', JNum (oi_work_date d)), (''hours'', JNum (oi_hours d))]) (\<lambda>_.
     answer (overtime_dto entry))))"

definition overtimes_review :: "uuid \<Rightarrow> bool \<Rightarrow> jwt_payload \<Rightarrow> json option svc" where
  "overtimes_review rowId ok u =
     mbind (reviewOvertime rowId ok (actor_of u)) (\<lambda>entry.
     mbind (audit_by u (if ok then ''workforce.overtime_approved'' else ''workforce.overtime_rejected'') ''overtime_entry'' rowId []) (\<lambda>_.
     answer_present overtime_dto entry))"

definition shifts_list :: "shift_type workforce_filters \<Rightarrow> int option \<Rightarrow> int option \<Rightarrow> json option svc" where
  "shifts_list f lim off = answer_page lim off (listShiftLogs f) shift_dto"

definition shifts_create :: "shift_input \<Rightarrow> jwt_payload \<Rightarrow> json option svc" where
  "shifts_create d u =
     mbind (zod (shift_input_fits d)) (\<lambda>_. mbind (createShiftLog d (actor_of u)) (\<lambda>shift.
     mbind (audit_by u ''workforce.shift_logged'' ''shift_log'' (sl_id shift)
              [(''shiftType'', JStr (shift_type_name (shi_shift_type d))), (''startsAt'', JDate (shi_starts_at d)), (''endsAt'', JDate (shi_ends_at d))]) (\<lambda>_.
     answer (shift_dto shift))))"

definition onboarding_submit :: "onboarding_input \<Rightarrow> jwt_payload \<Rightarrow> json option svc" where
  "onboarding_submit d u =
     mbind (zod (onboarding_fits d)) (\<lambda>_. mbind (getEmployee (bi_employee d)) (\<lambda>employee.
     mbind (submitOnboarding (d\<lparr>bi_employee := emp_id employee, bi_email := emp_email employee\<rparr>) (actor_of u)) (\<lambda>requestId.
     answer [(''requestId'', JStr requestId)])))"

definition offboarding_submit :: "offboarding_input \<Rightarrow> jwt_payload \<Rightarrow> json option svc" where
  "offboarding_submit d u =
     mbind (zod (opt_max 1000 (ofi_reason d))) (\<lambda>_. mbind (getEmployee (ofi_employee d)) (\<lambda>employee.
     mbind (submitOffboarding (d\<lparr>ofi_employee := emp_id employee, ofi_email := emp_email employee\<rparr>) (actor_of u)) (\<lambda>requestId.
     answer [(''requestId'', JStr requestId)])))"

definition document_presign :: "s3 \<Rightarrow> uuid \<Rightarrow> presign_dto \<Rightarrow> jwt_payload \<Rightarrow> json option svc" where
  "document_presign s3 rowId d u =
     mbind (zod (presign_fits DOCUMENT_TYPES 10 d)) (\<lambda>_.
     answer_one presign_answer (presignLeaveDocument s3 rowId (psd_file_name d) (psd_mime_type d) (psd_size_bytes d) (actor_of u)))"

definition document_confirm :: "s3 \<Rightarrow> uuid \<Rightarrow> uuid \<Rightarrow> jwt_payload \<Rightarrow> json option svc" where
  "document_confirm s3 rowId fileId u =
     answer_one (url_answer ''documentUrl'') (confirmLeaveDocument s3 rowId fileId (actor_of u))"

definition document_url :: "s3 \<Rightarrow> uuid \<Rightarrow> json option svc" where
  "document_url s3 rowId = answer_one (link_answer ''documentUrl'') (getLeaveDocumentUrl s3 rowId)"

section \<open>Endpoints\<close>

datatype workforce_op =
    TimesheetsList "timesheet_status workforce_filters" "int option" "int option"
  | TimesheetsCreate timesheet_input
  | TimesheetsSubmit uuid
  | TimesheetsReview uuid bool
  | LeavesList "leave_status workforce_filters" "int option" "int option"
  | LeavesCreate leave_input
  | LeavesReview uuid bool
  | LeavesCancel uuid
  | OvertimesList "overtime_status workforce_filters" "int option" "int option"
  | OvertimesCreate overtime_input
  | OvertimesReview uuid bool
  | ShiftsList "shift_type workforce_filters" "int option" "int option"
  | ShiftsCreate shift_input
  | OnboardingSubmit onboarding_input
  | OffboardingSubmit offboarding_input
  | DocumentPresign uuid presign_dto
  | DocumentConfirm uuid uuid
  | DocumentUrl uuid

fun workforce_endpoint :: "s3 \<Rightarrow> workforce_op \<Rightarrow> endpoint" where
  "workforce_endpoint s3 (TimesheetsList f lim off) = endpoint ''GET'' ''workforce/timesheets'' Auth (\<lambda>rq. timesheets_list f lim off)"
| "workforce_endpoint s3 (TimesheetsCreate d) = endpoint ''POST'' ''workforce/timesheets'' Auth (\<lambda>rq. CurrentUser rq (timesheets_create d))"
| "workforce_endpoint s3 (TimesheetsSubmit i) = endpoint ''POST'' ''workforce/timesheets/:id/submit'' Auth (\<lambda>rq. CurrentUser rq (timesheets_submit i))"
| "workforce_endpoint s3 (TimesheetsReview i b) = endpoint ''POST'' ''workforce/timesheets/:id/review''
     (RequirePermission ''workforce.approve'') (\<lambda>rq. CurrentUser rq (timesheets_review i b))"
| "workforce_endpoint s3 (LeavesList f lim off) = endpoint ''GET'' ''workforce/leave'' Auth (\<lambda>rq. leaves_list f lim off)"
| "workforce_endpoint s3 (LeavesCreate d) = endpoint ''POST'' ''workforce/leave'' Auth (\<lambda>rq. CurrentUser rq (leaves_create d))"
| "workforce_endpoint s3 (LeavesReview i b) = endpoint ''POST'' ''workforce/leave/:id/review''
     (RequirePermission ''workforce.approve'') (\<lambda>rq. CurrentUser rq (leaves_review i b))"
| "workforce_endpoint s3 (LeavesCancel i) = endpoint ''POST'' ''workforce/leave/:id/cancel'' Auth (\<lambda>rq. CurrentUser rq (leaves_cancel i))"
| "workforce_endpoint s3 (OvertimesList f lim off) = endpoint ''GET'' ''workforce/overtime'' Auth (\<lambda>rq. overtimes_list f lim off)"
| "workforce_endpoint s3 (OvertimesCreate d) = endpoint ''POST'' ''workforce/overtime'' Auth (\<lambda>rq. CurrentUser rq (overtimes_create d))"
| "workforce_endpoint s3 (OvertimesReview i b) = endpoint ''POST'' ''workforce/overtime/:id/review''
     (RequirePermission ''workforce.approve'') (\<lambda>rq. CurrentUser rq (overtimes_review i b))"
| "workforce_endpoint s3 (ShiftsList f lim off) = endpoint ''GET'' ''workforce/shifts'' Auth (\<lambda>rq. shifts_list f lim off)"
| "workforce_endpoint s3 (ShiftsCreate d) = endpoint ''POST'' ''workforce/shifts'' Auth (\<lambda>rq. CurrentUser rq (shifts_create d))"
| "workforce_endpoint s3 (OnboardingSubmit d) = endpoint ''POST'' ''workforce/onboarding''
     (RequirePermission ''onboarding.approve'') (\<lambda>rq. CurrentUser rq (onboarding_submit d))"
| "workforce_endpoint s3 (OffboardingSubmit d) = endpoint ''POST'' ''workforce/offboarding''
     (RequirePermission ''offboarding.approve'') (\<lambda>rq. CurrentUser rq (offboarding_submit d))"
| "workforce_endpoint s3 (DocumentPresign i d) = endpoint ''POST'' ''workforce/leave-requests/:id/document/presign'' Auth
     (\<lambda>rq. CurrentUser rq (document_presign s3 i d))"
| "workforce_endpoint s3 (DocumentConfirm i k) = endpoint ''POST'' ''workforce/leave-requests/:id/document/confirm'' Auth
     (\<lambda>rq. CurrentUser rq (document_confirm s3 i k))"
| "workforce_endpoint s3 (DocumentUrl i) = endpoint ''GET'' ''workforce/leave-requests/:id/document'' Auth (\<lambda>rq. document_url s3 i)"

end
