(* ===== verification/Api_Inventory.thy ===== *)
theory Api_Inventory
  imports Api Assets Licenses Compliance
begin

text \<open>
  The controllers of assets, licenses and compliance.  The immediate scan of shadow IT is a
  handler, but no endpoint in the sense of \<open>serve\<close>, because it need not return (theory \<open>Compliance\<close>).
\<close>

section \<open>Assets\<close>

fun asset_status_name :: "asset_status \<Rightarrow> string" where
  "asset_status_name As_in_stock = ''in_stock''"
| "asset_status_name As_assigned = ''assigned''"
| "asset_status_name As_in_repair = ''in_repair''"
| "asset_status_name As_retired = ''retired''"
| "asset_status_name As_lost = ''lost''"

definition asset_dto :: "asset \<Rightarrow> jobject" where
  "asset_dto a = [(''id'', JStr (as_id a)), (''assetTag'', JStr (as_tag a)), (''type'', JStr (asset_type_name (as_type a))),
     (''status'', JStr (asset_status_name (as_status a))), (''manufacturer'', jstr_or_null (as_manufacturer a)),
     (''model'', jstr_or_null (as_model a)), (''serialNumber'', jstr_or_null (as_serial a)), (''mdmDeviceId'', jstr_or_null (as_mdm_device a)),
     (''purchaseDate'', jstr_or_null (as_purchase_date a)), (''warrantyExpiry'', jstr_or_null (as_warranty_expiry a)),
     (''specs'', JObj (as_specs a)), (''assignedTo'', jstr_or_null (as_assigned_to a)),
     (''photoStorageKey'', jstr_or_null (as_photo_key a)), (''createdAt'', JDate (as_created_at a))]"

definition asset_assignment_dto :: "asset_assignment \<Rightarrow> jobject" where
  "asset_assignment_dto a = [(''id'', JStr (aa_id a)), (''assetId'', JStr (aa_asset a)), (''employeeId'', JStr (aa_employee a)),
     (''assignedAt'', JDate (aa_assigned_at a)), (''returnedAt'', jtime_or_null (aa_returned_at a)), (''notes'', jstr_or_null (aa_notes a))]"

definition asset_input_fits :: "asset_input \<Rightarrow> bool" where
  "asset_input_fits d \<longleftrightarrow> text_between 1 50 (asi_tag d) \<and> opt_max 120 (asi_manufacturer d) \<and> opt_max 120 (asi_model d) \<and>
     opt_max 120 (asi_serial d) \<and> opt_max 128 (asi_mdm_device d)"

definition assets_list :: "asset_filters \<Rightarrow> int option \<Rightarrow> int option \<Rightarrow> json option svc" where
  "assets_list f lim off = answer_page lim off (asset_list f) asset_dto"

definition assets_get :: "uuid \<Rightarrow> json option svc" where
  "assets_get rowId = answer_one asset_dto (getAsset rowId)"

definition assets_assignments :: "uuid \<Rightarrow> json option svc" where
  "assets_assignments rowId = answer_list asset_assignment_dto (asset_listAssignments rowId)"

definition assets_create :: "asset_input \<Rightarrow> jwt_payload \<Rightarrow> json option svc" where
  "assets_create d u =
     mbind (zod (asset_input_fits d)) (\<lambda>_. mbind (asset_create d (actor_of u)) (\<lambda>a.
     mbind (audit_by u ''asset.created'' ''asset'' (as_id a)
              [(''assetTag'', JStr (as_tag a)), (''type'', JStr (asset_type_name (as_type a)))]) (\<lambda>_.
     answer (asset_dto a))))"

definition assets_assign :: "uuid \<Rightarrow> uuid \<Rightarrow> string option \<Rightarrow> jwt_payload \<Rightarrow> json option svc" where
  "assets_assign rowId employeeId notes u =
     mbind (zod (opt_max 500 notes)) (\<lambda>_. mbind (asset_assign rowId employeeId notes (actor_of u)) (\<lambda>a.
     mbind (audit_by u ''asset.assigned'' ''asset'' rowId [(''employeeId'', JStr employeeId)]) (\<lambda>_.
     answer (asset_dto a))))"

definition assets_unassign :: "uuid \<Rightarrow> jwt_payload \<Rightarrow> json option svc" where
  "assets_unassign rowId u =
     mbind (asset_unassign rowId (actor_of u)) (\<lambda>a.
     mbind (audit_by u ''asset.unassigned'' ''asset'' rowId []) (\<lambda>_. answer (asset_dto a)))"

definition assets_retire :: "uuid \<Rightarrow> jwt_payload \<Rightarrow> json option svc" where
  "assets_retire rowId u =
     mbind (asset_retire rowId (actor_of u)) (\<lambda>a.
     mbind (audit_by u ''asset.retired'' ''asset'' rowId []) (\<lambda>_. answer (asset_dto a)))"

definition photo_presign :: "s3 \<Rightarrow> uuid \<Rightarrow> presign_dto \<Rightarrow> jwt_payload \<Rightarrow> json option svc" where
  "photo_presign s3 rowId d u =
     mbind (zod (presign_fits IMAGE_TYPES 10 d)) (\<lambda>_.
     answer_one presign_answer (presignPhoto s3 rowId (psd_file_name d) (psd_mime_type d) (psd_size_bytes d) (actor_of u)))"

definition photo_confirm :: "s3 \<Rightarrow> uuid \<Rightarrow> uuid \<Rightarrow> jwt_payload \<Rightarrow> json option svc" where
  "photo_confirm s3 rowId fileId u = answer_one (url_answer ''photoUrl'') (confirmPhoto s3 rowId fileId (actor_of u))"

definition photo_url :: "s3 \<Rightarrow> uuid \<Rightarrow> json option svc" where
  "photo_url s3 rowId = answer_one (link_answer ''photoUrl'') (getPhotoUrl s3 rowId)"

datatype assets_op =
    AssetsList asset_filters "int option" "int option"
  | AssetsGet uuid
  | AssetsAssignments uuid
  | AssetsCreate asset_input
  | AssetsAssign uuid uuid "string option"
  | AssetsUnassign uuid
  | AssetsRetire uuid
  | PhotoPresign uuid presign_dto
  | PhotoConfirm uuid uuid
  | PhotoUrl uuid

fun assets_endpoint :: "s3 \<Rightarrow> assets_op \<Rightarrow> endpoint" where
  "assets_endpoint s3 (AssetsList f lim off) = endpoint ''GET'' ''assets'' Auth (\<lambda>rq. assets_list f lim off)"
| "assets_endpoint s3 (AssetsGet i) = endpoint ''GET'' ''assets/:id'' Auth (\<lambda>rq. assets_get i)"
| "assets_endpoint s3 (AssetsAssignments i) = endpoint ''GET'' ''assets/:id/assignments'' Auth (\<lambda>rq. assets_assignments i)"
| "assets_endpoint s3 (AssetsCreate d) = endpoint ''POST'' ''assets'' (RequirePermission ''asset.write'') (\<lambda>rq. CurrentUser rq (assets_create d))"
| "assets_endpoint s3 (AssetsAssign i e n) = endpoint ''POST'' ''assets/:id/assign''
     (RequirePermission ''asset.reassign'') (\<lambda>rq. CurrentUser rq (assets_assign i e n))"
| "assets_endpoint s3 (AssetsUnassign i) = endpoint ''POST'' ''assets/:id/unassign''
     (RequirePermission ''asset.reassign'') (\<lambda>rq. CurrentUser rq (assets_unassign i))"
| "assets_endpoint s3 (AssetsRetire i) = endpoint ''POST'' ''assets/:id/retire''
     (RequirePermission ''asset.write'') (\<lambda>rq. CurrentUser rq (assets_retire i))"
| "assets_endpoint s3 (PhotoPresign i d) = endpoint ''POST'' ''assets/:id/photo/presign''
     (RateLimit ''UPLOAD'' (RequirePermission ''asset.write'')) (\<lambda>rq. CurrentUser rq (photo_presign s3 i d))"
| "assets_endpoint s3 (PhotoConfirm i k) = endpoint ''POST'' ''assets/:id/photo/confirm''
     (RateLimit ''UPLOAD'' (RequirePermission ''asset.write'')) (\<lambda>rq. CurrentUser rq (photo_confirm s3 i k))"
| "assets_endpoint s3 (PhotoUrl i) = endpoint ''GET'' ''assets/:id/photo'' Auth (\<lambda>rq. photo_url s3 i)"

section \<open>Licenses\<close>

fun license_type_name :: "license_type \<Rightarrow> string" where
  "license_type_name Lic_perpetual = ''perpetual''"
| "license_type_name Lic_subscription = ''subscription''"
| "license_type_name Lic_per_seat = ''per_seat''"
| "license_type_name Lic_concurrent = ''concurrent''"

fun license_status_name :: "license_status \<Rightarrow> string" where
  "license_status_name Lis_active = ''active''"
| "license_status_name Lis_expiring_soon = ''expiring_soon''"
| "license_status_name Lis_expired = ''expired''"
| "license_status_name Lis_cancelled = ''cancelled''"

definition license_dto :: "software_license \<Rightarrow> jobject" where
  "license_dto l = [(''id'', JStr (sw_id l)), (''name'', JStr (sw_name l)), (''vendor'', JStr (sw_vendor l)),
     (''licenseType'', JStr (license_type_name (sw_type l))), (''seatCount'', jnum_or_null (sw_seat_count l)),
     (''costPerSeatCents'', jnum_or_null (sw_cost_cents l)), (''renewalDate'', jstr_or_null (sw_renewal_date l)),
     (''status'', JStr (license_status_name (sw_status l))), (''notes'', jstr_or_null (sw_notes l)),
     (''externalId'', jstr_or_null (sw_external_id l)), (''createdAt'', JDate (sw_created_at l)), (''updatedAt'', JDate (sw_updated_at l))]"

definition seat_dto :: "license_assignment \<Rightarrow> jobject" where
  "seat_dto a = [(''id'', JStr (la_id a)), (''licenseId'', JStr (la_license a)), (''employeeId'', JStr (la_employee a)),
     (''assignedAt'', JDate (la_assigned_at a)), (''revokedAt'', jtime_or_null (la_revoked_at a)), (''notes'', jstr_or_null (la_notes a))]"

definition utilization_dto :: "license_utilization \<Rightarrow> jobject" where
  "utilization_dto u = [(''licenseId'', JStr (ut_license u)), (''name'', JStr (ut_name u)), (''vendor'', JStr (ut_vendor u)),
     (''seatCount'', jnum_or_null (ut_seat_count u)), (''usedSeats'', JNum (ut_used u)), (''availableSeats'', jnum_or_null (ut_available u)),
     (''utilizationPct'', jnum_or_null (ut_pct u)), (''monthlySpendCents'', jnum_or_null (ut_spend_cents u))]"

definition opt_at_least :: "int \<Rightarrow> int option \<Rightarrow> bool" where
  "opt_at_least lo n = (case n of None \<Rightarrow> True | Some k \<Rightarrow> lo \<le> k)"

definition opt_null_at_least :: "int \<Rightarrow> int option option \<Rightarrow> bool" where
  "opt_null_at_least lo n = (case n of None \<Rightarrow> True | Some k \<Rightarrow> opt_at_least lo k)"

definition license_input_fits :: "license_input \<Rightarrow> bool" where
  "license_input_fits d \<longleftrightarrow> text_between 1 150 (lin_name d) \<and> text_between 1 120 (lin_vendor d) \<and> opt_at_least 1 (lin_seat_count d) \<and>
     opt_at_least 0 (lin_cost_cents d) \<and> opt_max 2000 (lin_notes d) \<and> opt_max 200 (lin_external_id d)"

definition license_patch_fits :: "license_patch \<Rightarrow> bool" where
  "license_patch_fits d \<longleftrightarrow> opt_between 1 150 (lp_name d) \<and> opt_between 1 120 (lp_vendor d) \<and> opt_null_at_least 1 (lp_seat_count d) \<and>
     opt_null_at_least 0 (lp_cost_cents d) \<and> opt_null_max 2000 (lp_notes d) \<and> opt_null_max 200 (lp_external_id d)"

text \<open>\<^verbatim>\<open>z.coerce.boolean()\<close> on the text of a query parameter: every text but the empty one is true.\<close>

definition coerce_boolean :: "string option \<Rightarrow> bool" where
  "coerce_boolean v = (case v of None \<Rightarrow> False | Some s \<Rightarrow> s \<noteq> [])"

definition licenses_list :: "license_filters \<Rightarrow> int option \<Rightarrow> int option \<Rightarrow> json option svc" where
  "licenses_list f lim off = answer_page lim off (license_list f) license_dto"

definition licenses_create :: "license_input \<Rightarrow> jwt_payload \<Rightarrow> json option svc" where
  "licenses_create d u = mbind (zod (license_input_fits d)) (\<lambda>_. answer_one license_dto (license_create d (actor_of u)))"

definition licenses_utilization :: "json option svc" where
  "licenses_utilization = answer_list utilization_dto license_getUtilization"

definition licenses_get :: "uuid \<Rightarrow> json option svc" where
  "licenses_get rowId = answer_one license_dto (getLicense rowId)"

definition licenses_update :: "uuid \<Rightarrow> license_patch \<Rightarrow> jwt_payload \<Rightarrow> json option svc" where
  "licenses_update rowId d u = mbind (zod (license_patch_fits d)) (\<lambda>_. answer_one license_dto (license_update rowId d (actor_of u)))"

definition licenses_delete :: "uuid \<Rightarrow> jwt_payload \<Rightarrow> json option svc" where
  "licenses_delete rowId u = no_content (license_delete rowId (actor_of u))"

definition licenses_assignments :: "uuid \<Rightarrow> string option \<Rightarrow> json option svc" where
  "licenses_assignments rowId includeRevoked = answer_list seat_dto (license_listAssignments rowId (coerce_boolean includeRevoked))"

definition licenses_assign :: "uuid \<Rightarrow> uuid \<Rightarrow> string option \<Rightarrow> jwt_payload \<Rightarrow> json option svc" where
  "licenses_assign rowId employeeId notes u =
     mbind (zod (opt_max 500 notes)) (\<lambda>_. answer_one seat_dto (license_assign rowId employeeId notes (actor_of u)))"

definition licenses_revoke :: "uuid \<Rightarrow> jwt_payload \<Rightarrow> json option svc" where
  "licenses_revoke assignmentId u = no_content (license_revoke assignmentId (actor_of u))"

datatype licenses_op =
    LicensesList license_filters "int option" "int option"
  | LicensesCreate license_input
  | LicensesUtilization
  | LicensesGet uuid
  | LicensesUpdate uuid license_patch
  | LicensesDelete uuid
  | LicensesAssignments uuid "string option"
  | LicensesAssign uuid uuid "string option"
  | LicensesRevoke uuid

fun licenses_endpoint :: "licenses_op \<Rightarrow> endpoint" where
  "licenses_endpoint (LicensesList f lim off) = endpoint ''GET'' ''licenses''
     (RateLimit ''STRICT'' (RequirePermission ''license.read'')) (\<lambda>rq. licenses_list f lim off)"
| "licenses_endpoint (LicensesCreate d) = endpoint ''POST'' ''licenses''
     (RateLimit ''STRICT'' (RequirePermission ''license.manage'')) (\<lambda>rq. CurrentUser rq (licenses_create d))"
| "licenses_endpoint LicensesUtilization = endpoint ''GET'' ''licenses/utilization'' (RequirePermission ''license.read'') (\<lambda>rq. licenses_utilization)"
| "licenses_endpoint (LicensesGet i) = endpoint ''GET'' ''licenses/:id'' (RequirePermission ''license.read'') (\<lambda>rq. licenses_get i)"
| "licenses_endpoint (LicensesUpdate i d) = endpoint ''PATCH'' ''licenses/:id''
     (RequirePermission ''license.manage'') (\<lambda>rq. CurrentUser rq (licenses_update i d))"
| "licenses_endpoint (LicensesDelete i) = endpoint ''DELETE'' ''licenses/:id''
     (RequirePermission ''license.manage'') (\<lambda>rq. CurrentUser rq (licenses_delete i))"
| "licenses_endpoint (LicensesAssignments i v) = endpoint ''GET'' ''licenses/:id/assignments''
     (RequirePermission ''license.read'') (\<lambda>rq. licenses_assignments i v)"
| "licenses_endpoint (LicensesAssign i e n) = endpoint ''POST'' ''licenses/:id/assignments''
     (RequirePermission ''license.manage'') (\<lambda>rq. CurrentUser rq (licenses_assign i e n))"
| "licenses_endpoint (LicensesRevoke i) = endpoint ''DELETE'' ''licenses/assignments/:assignmentId''
     (RequirePermission ''license.manage'') (\<lambda>rq. CurrentUser rq (licenses_revoke i))"

section \<open>Compliance\<close>

fun finding_status_name :: "finding_status \<Rightarrow> string" where
  "finding_status_name Fi_open = ''open''"
| "finding_status_name Fi_acknowledged = ''acknowledged''"
| "finding_status_name Fi_resolved = ''resolved''"
| "finding_status_name Fi_risk_accepted = ''risk_accepted''"

fun finding_severity_name :: "finding_severity \<Rightarrow> string" where
  "finding_severity_name Sev_low = ''low''"
| "finding_severity_name Sev_medium = ''medium''"
| "finding_severity_name Sev_high = ''high''"
| "finding_severity_name Sev_critical = ''critical''"

definition software_dto :: "software_entry \<Rightarrow> jobject" where
  "software_dto s = [(''id'', JStr (so_id s)), (''name'', JStr (so_name s)), (''publisher'', jstr_or_null (so_publisher s)),
     (''listing'', JStr (listing_name (so_listing s))), (''notes'', jstr_or_null (so_notes s)),
     (''createdAt'', JDate (so_created_at s)), (''updatedAt'', JDate (so_updated_at s))]"

definition finding_dto :: "compliance_finding \<Rightarrow> jobject" where
  "finding_dto f = [(''id'', JStr (cf_id f)), (''assetId'', jstr_or_null (cf_asset f)), (''employeeId'', jstr_or_null (cf_employee f)),
     (''softwareName'', JStr (cf_software f)), (''softwareVersion'', jstr_or_null (cf_version f)),
     (''severity'', JStr (finding_severity_name (cf_severity f))), (''status'', JStr (finding_status_name (cf_status f))),
     (''source'', JStr (cf_source f)), (''detectedAt'', JDate (cf_detected_at f)), (''resolvedBy'', jstr_or_null (cf_resolved_by f)),
     (''resolutionNote'', jstr_or_null (cf_note f)), (''resolvedAt'', jtime_or_null (cf_resolved_at f))]"

definition software_input_fits :: "software_input \<Rightarrow> bool" where
  "software_input_fits d \<longleftrightarrow> text_between 1 200 (sin_name d) \<and> opt_max 200 (sin_publisher d) \<and> opt_max 2000 (sin_notes d)"

definition software_patch_fits :: "software_patch \<Rightarrow> bool" where
  "software_patch_fits d \<longleftrightarrow> opt_between 1 200 (spt_name d) \<and> opt_null_max 200 (spt_publisher d) \<and> opt_null_max 2000 (spt_notes d)"

definition softwares_list :: "software_filters \<Rightarrow> int option \<Rightarrow> int option \<Rightarrow> json option svc" where
  "softwares_list f lim off = mbind (zod (opt_max 200 (sfl_search f))) (\<lambda>_. answer_page lim off (listSoftware f) software_dto)"

definition softwares_get :: "uuid \<Rightarrow> json option svc" where
  "softwares_get rowId = answer_one software_dto (getSoftware rowId)"

definition softwares_add :: "software_input \<Rightarrow> jwt_payload \<Rightarrow> json option svc" where
  "softwares_add d u =
     mbind (zod (software_input_fits d)) (\<lambda>_. mbind (addSoftware d (actor_of u)) (\<lambda>entry.
     mbind (audit_by u ''compliance.software_added'' ''software_catalog'' (so_id entry)
              [(''name'', JStr (so_name entry)), (''listing'', JStr (listing_name (so_listing entry)))]) (\<lambda>_.
     answer (software_dto entry))))"

definition softwares_update :: "uuid \<Rightarrow> software_patch \<Rightarrow> jwt_payload \<Rightarrow> json option svc" where
  "softwares_update rowId d u =
     mbind (zod (software_patch_fits d)) (\<lambda>_. mbind (updateSoftware rowId d (actor_of u)) (\<lambda>entry.
     mbind (audit_by u ''compliance.software_updated'' ''software_catalog'' rowId [(''changes'', JObj (software_changes d))]) (\<lambda>_.
     answer (software_dto entry))))"

definition findings_list :: "finding_filters \<Rightarrow> int option \<Rightarrow> int option \<Rightarrow> json option svc" where
  "findings_list f lim off = answer_page lim off (listFindings f) finding_dto"

definition findings_get :: "uuid \<Rightarrow> json option svc" where
  "findings_get rowId = answer_one finding_dto (getFinding rowId)"

definition findings_acknowledge :: "uuid \<Rightarrow> jwt_payload \<Rightarrow> json option svc" where
  "findings_acknowledge rowId u =
     mbind (acknowledgeFinding rowId (actor_of u)) (\<lambda>f.
     mbind (audit_by u ''compliance.finding_acknowledged'' ''compliance_finding'' rowId []) (\<lambda>_. answer (finding_dto f)))"

definition findings_resolve :: "uuid \<Rightarrow> string option \<Rightarrow> bool \<Rightarrow> jwt_payload \<Rightarrow> json option svc" where
  "findings_resolve rowId comment riskAccepted u =
     mbind (zod (opt_max 1000 comment)) (\<lambda>_. mbind (resolveFinding rowId comment riskAccepted (actor_of u)) (\<lambda>f.
     mbind (audit_by u ''compliance.finding_resolved'' ''compliance_finding'' rowId
              [(''riskAccepted'', JBool riskAccepted), (''note'', jstr_or_null comment)]) (\<lambda>_.
     answer (finding_dto f))))"

definition shadow_it_list :: "json option svc" where
  "shadow_it_list =
     mbind (listShadowItFindings 100) (\<lambda>fs.
     answer [(''findings'', JArr (map (\<lambda>f. JObj (finding_dto f)) fs)), (''total'', JNum (int (length fs)))])"

definition shadow_it_scan :: "detected_app graph_api \<Rightarrow> jwt_payload \<Rightarrow> world \<Rightarrow> ((exn + json option) \<times> world) option" where
  "shadow_it_scan api u w =
     (case detectShadowIt api w of
        None \<Rightarrow> None
      | Some (Inl e, w') \<Rightarrow> Some (Inl e, w')
      | Some (Inr (scanned, found), w') \<Rightarrow>
          let counts = [(''scanned'', JNum (int scanned)), (''newFindings'', JNum (int found))] in
          Some (mbind (audit_by u ''compliance.shadow_it_scan_triggered'' ''compliance'' ''shadow-it'' counts) (\<lambda>_. answer counts) w'))"

datatype compliance_op =
    SoftwaresList software_filters "int option" "int option"
  | SoftwaresGet uuid
  | SoftwaresAdd software_input
  | SoftwaresUpdate uuid software_patch
  | FindingsList finding_filters "int option" "int option"
  | FindingsGet uuid
  | FindingsAcknowledge uuid
  | FindingsResolve uuid "string option" bool
  | ShadowItList
  | ShadowItScan "detected_app graph_api"

fun compliance_endpoint :: "compliance_op \<Rightarrow> endpoint" where
  "compliance_endpoint (SoftwaresList f lim off) = endpoint ''GET'' ''compliance/software'' Auth (\<lambda>rq. softwares_list f lim off)"
| "compliance_endpoint (SoftwaresGet i) = endpoint ''GET'' ''compliance/software/:id'' Auth (\<lambda>rq. softwares_get i)"
| "compliance_endpoint (SoftwaresAdd d) = endpoint ''POST'' ''compliance/software''
     (RequirePermission ''compliance.manage'') (\<lambda>rq. CurrentUser rq (softwares_add d))"
| "compliance_endpoint (SoftwaresUpdate i d) = endpoint ''PATCH'' ''compliance/software/:id''
     (RequirePermission ''compliance.manage'') (\<lambda>rq. CurrentUser rq (softwares_update i d))"
| "compliance_endpoint (FindingsList f lim off) = endpoint ''GET'' ''compliance/findings''
     (RequirePermission ''compliance.read'') (\<lambda>rq. findings_list f lim off)"
| "compliance_endpoint (FindingsGet i) = endpoint ''GET'' ''compliance/findings/:id'' (RequirePermission ''compliance.read'') (\<lambda>rq. findings_get i)"
| "compliance_endpoint (FindingsAcknowledge i) = endpoint ''POST'' ''compliance/findings/:id/acknowledge''
     (RequirePermission ''compliance.manage'') (\<lambda>rq. CurrentUser rq (findings_acknowledge i))"
| "compliance_endpoint (FindingsResolve i n b) = endpoint ''POST'' ''compliance/findings/:id/resolve''
     (RequirePermission ''compliance.manage'') (\<lambda>rq. CurrentUser rq (findings_resolve i n b))"
| "compliance_endpoint ShadowItList = endpoint ''GET'' ''compliance/shadow-it'' (RequirePermission ''compliance.read'') (\<lambda>rq. shadow_it_list)"
| "compliance_endpoint (ShadowItScan api) = endpoint ''POST'' ''compliance/shadow-it/scan''
     (RequirePermission ''compliance.manage'') (\<lambda>rq. CurrentUser rq (\<lambda>u. answered (shadow_it_scan api u)))"

end
