(* ===== verification/Api_Admin.thy ===== *)
theory Api_Admin
  imports Api Authz_Admin Maintenance Webhooks
begin

text \<open>The controllers of authorization, audit logs and webhooks.\<close>

section \<open>Roles, assignments and delegations\<close>

definition permission_dto :: "permission_row \<Rightarrow> jobject" where
  "permission_dto p = [(''key'', JStr (pm_key p)), (''description'', JStr (pm_description p))]"

definition role_dto :: "role_view \<Rightarrow> jobject" where
  "role_dto r = [(''id'', JStr (rv_id r)), (''key'', JStr (rv_key r)), (''name'', JStr (rv_name r)), (''system'', JBool (rv_system r)),
     (''permissions'', jtexts (rv_permissions r)), (''updatedAt'', JDate (rv_updated_at r))]"

definition role_assignment_dto :: "role_assignment \<Rightarrow> jobject" where
  "role_assignment_dto a = [(''id'', JStr (ura_id a)), (''userId'', JStr (ura_user a)), (''roleId'', JStr (ura_role a)),
     (''scopeType'', JStr (scope_type_name (ura_scope_type a))), (''scopeId'', jstr_or_null (ura_scope_id a)),
     (''grantedBy'', JStr (ura_granted_by a)), (''expiresAt'', jtime_or_null (ura_expires_at a)), (''createdAt'', JDate (ura_created_at a))]"

definition delegation_dto :: "approval_delegation \<Rightarrow> jobject" where
  "delegation_dto d = [(''id'', JStr (ad_id d)), (''fromUserId'', JStr (ad_from d)), (''toUserId'', JStr (ad_to d)),
     (''startsAt'', JDate (ad_starts_at d)), (''endsAt'', JDate (ad_ends_at d)), (''reason'', jstr_or_null (ad_reason d)),
     (''createdAt'', JDate (ad_created_at d))]"

definition key_char :: "char \<Rightarrow> bool" where
  "key_char c \<longleftrightarrow> c \<in> set ''abcdefghijklmnopqrstuvwxyz0123456789-''"

definition permissions_fit :: "string list \<Rightarrow> bool" where
  "permissions_fit ps = list_all (\<lambda>p. length p \<le> 120) ps"

definition role_input_fits :: "role_input \<Rightarrow> bool" where
  "role_input_fits d \<longleftrightarrow> text_between 2 64 (rin_key d) \<and> list_all key_char (rin_key d) \<and> text_between 1 120 (rin_name d) \<and>
     permissions_fit (rin_permissions d)"

definition assign_body :: "assign_command \<Rightarrow> assign_command" where
  "assign_body d = d\<lparr>acm_scope_type := or_else (acm_scope_type d) (Some Scope_global)\<rparr>"

definition permissions_list :: "json option svc" where
  "permissions_list = answer_list permission_dto listPermissions"

definition roles_list :: "json option svc" where
  "roles_list = answer_list role_dto role_list"

definition roles_get :: "uuid \<Rightarrow> json option svc" where
  "roles_get rowId = answer_one role_dto (getRole rowId)"

definition roles_create :: "role_input \<Rightarrow> jwt_payload \<Rightarrow> json option svc" where
  "roles_create d u =
     mbind (zod (role_input_fits d)) (\<lambda>_. mbind (createRole d (actor_of u)) (\<lambda>role.
     mbind (audit_by u ''rbac.role_created'' ''role'' (rv_id role) [(''key'', JStr (rv_key role)), (''name'', JStr (rv_name role))]) (\<lambda>_.
     answer (role_dto role))))"

definition roles_set_permissions :: "uuid \<Rightarrow> string list \<Rightarrow> jwt_payload \<Rightarrow> json option svc" where
  "roles_set_permissions rowId ps u =
     mbind (zod (permissions_fit ps)) (\<lambda>_. mbind (setRolePermissions rowId ps (actor_of u)) (\<lambda>role.
     mbind (audit_by u ''rbac.role_permissions_updated'' ''role'' rowId [(''permissions'', jtexts ps)]) (\<lambda>_.
     answer (role_dto role))))"

definition roles_delete :: "uuid \<Rightarrow> jwt_payload \<Rightarrow> json option svc" where
  "roles_delete rowId u =
     no_content (mbind (deleteRole rowId (actor_of u)) (\<lambda>_. audit_by u ''rbac.role_deleted'' ''role'' rowId []))"

definition user_assignments :: "uuid \<Rightarrow> json option svc" where
  "user_assignments userId = answer_list role_assignment_dto (listForUser userId)"

definition assignments_create :: "assign_command \<Rightarrow> jwt_payload \<Rightarrow> json option svc" where
  "assignments_create d u =
     mbind (zod (opt_max 120 (acm_scope_id d))) (\<lambda>_. mbind (assignRole (assign_body d) (actor_of u)) (\<lambda>a.
     mbind (audit_by u ''rbac.role_assigned'' ''role_assignment'' (ura_id a)
              [(''userId'', JStr (acm_user d)), (''roleId'', JStr (acm_role d)),
               (''scopeType'', JStr (scope_type_name (the (acm_scope_type (assign_body d))))), (''scopeId'', jstr_or_null (acm_scope_id d))]) (\<lambda>_.
     answer (role_assignment_dto a))))"

definition assignments_revoke :: "uuid \<Rightarrow> jwt_payload \<Rightarrow> json option svc" where
  "assignments_revoke rowId u =
     no_content (mbind (revokeAssignment rowId (actor_of u)) (\<lambda>_. audit_by u ''rbac.role_assignment_revoked'' ''role_assignment'' rowId []))"

definition delegations_create :: "uuid \<Rightarrow> timestamp \<Rightarrow> timestamp \<Rightarrow> string option \<Rightarrow> jwt_payload \<Rightarrow> json option svc" where
  "delegations_create toUserId startsAt endsAt reason u =
     mbind (zod (opt_max 500 reason)) (\<lambda>_. mbind (delegation_create (jw_sub u) toUserId startsAt endsAt reason) (\<lambda>d.
     mbind (audit_by u ''rbac.delegation_created'' ''delegation'' (ad_id d)
              [(''toUserId'', JStr toUserId), (''startsAt'', JDate startsAt), (''endsAt'', JDate endsAt)]) (\<lambda>_.
     answer (delegation_dto d))))"

text \<open>\<^verbatim>\<open>direction=to\<close> or, by default, \<^verbatim>\<open>from\<close>.\<close>

definition delegations_list :: "bool \<Rightarrow> jwt_payload \<Rightarrow> json option svc" where
  "delegations_list received u =
     answer_list delegation_dto (if received then delegation_list_to (jw_sub u) else delegation_list_from (jw_sub u))"

definition delegations_revoke :: "uuid \<Rightarrow> jwt_payload \<Rightarrow> json option svc" where
  "delegations_revoke rowId u =
     no_content (mbind (ParseUUIDPipe rowId) (\<lambda>_. mbind (delegation_revoke rowId (jw_sub u)) (\<lambda>_.
       audit_by u ''rbac.delegation_revoked'' ''delegation'' rowId [])))"

datatype authz_op =
    PermissionsList
  | RolesList
  | RolesGet uuid
  | RolesCreate role_input
  | RolesSetPermissions uuid "string list"
  | RolesDelete uuid
  | UserAssignments uuid
  | AssignmentsCreate assign_command
  | AssignmentsRevoke uuid
  | DelegationsCreate uuid timestamp timestamp "string option"
  | DelegationsList bool
  | DelegationsRevoke uuid

fun authz_endpoint :: "authz_op \<Rightarrow> endpoint" where
  "authz_endpoint PermissionsList = endpoint ''GET'' ''authz/permissions'' (RequirePermission ''rbac.read'') (\<lambda>rq. permissions_list)"
| "authz_endpoint RolesList = endpoint ''GET'' ''authz/roles'' (RequirePermission ''rbac.read'') (\<lambda>rq. roles_list)"
| "authz_endpoint (RolesGet i) = endpoint ''GET'' ''authz/roles/:id'' (RequirePermission ''rbac.read'') (\<lambda>rq. roles_get i)"
| "authz_endpoint (RolesCreate d) = endpoint ''POST'' ''authz/roles'' (RequirePermission ''rbac.manage'') (\<lambda>rq. CurrentUser rq (roles_create d))"
| "authz_endpoint (RolesSetPermissions i ps) = endpoint ''PUT'' ''authz/roles/:id/permissions''
     (RequirePermission ''rbac.manage'') (\<lambda>rq. CurrentUser rq (roles_set_permissions i ps))"
| "authz_endpoint (RolesDelete i) = endpoint ''DELETE'' ''authz/roles/:id'' (RequirePermission ''rbac.manage'') (\<lambda>rq. CurrentUser rq (roles_delete i))"
| "authz_endpoint (UserAssignments i) = endpoint ''GET'' ''authz/users/:userId/assignments'' (RequirePermission ''rbac.read'') (\<lambda>rq. user_assignments i)"
| "authz_endpoint (AssignmentsCreate d) = endpoint ''POST'' ''authz/assignments'' (RequirePermission ''role.assign'') (\<lambda>rq. CurrentUser rq (assignments_create d))"
| "authz_endpoint (AssignmentsRevoke i) = endpoint ''DELETE'' ''authz/assignments/:id'' (RequirePermission ''role.assign'') (\<lambda>rq. CurrentUser rq (assignments_revoke i))"
| "authz_endpoint (DelegationsCreate i s e r) = endpoint ''POST'' ''authz/delegations'' Auth (\<lambda>rq. CurrentUser rq (delegations_create i s e r))"
| "authz_endpoint (DelegationsList b) = endpoint ''GET'' ''authz/delegations'' Auth (\<lambda>rq. CurrentUser rq (delegations_list b))"
| "authz_endpoint (DelegationsRevoke i) = endpoint ''DELETE'' ''authz/delegations/:id'' Auth (\<lambda>rq. CurrentUser rq (delegations_revoke i))"

section \<open>Audit logs\<close>

definition audit_dto :: "audit_log \<Rightarrow> jobject" where
  "audit_dto a = [(''id'', JStr (al_id a)), (''actorId'', jstr_or_null (al_actor a)), (''actorEmail'', jstr_or_null (al_actor_email a)),
     (''action'', JStr (al_action a)), (''resourceType'', JStr (al_resource_type a)), (''resourceId'', jstr_or_null (al_resource a)),
     (''changes'', JObj (al_changes a)), (''metadata'', JObj (al_metadata a)), (''occurredAt'', JDate (al_occurred_at a))]"

definition audits_list :: "audit_filters \<Rightarrow> int option \<Rightarrow> int option \<Rightarrow> json option svc" where
  "audits_list f lim off = answer_page lim off (audit_list f) audit_dto"

definition audits_endpoint :: "audit_filters \<Rightarrow> int option \<Rightarrow> int option \<Rightarrow> endpoint" where
  "audits_endpoint f lim off = endpoint ''GET'' ''audit-logs'' (RateLimit ''STRICT'' (RequirePermission ''audit.read'')) (\<lambda>rq. audits_list f lim off)"

section \<open>Webhooks\<close>

fun delivery_status_name :: "delivery_status \<Rightarrow> string" where
  "delivery_status_name Wd_pending = ''pending''"
| "delivery_status_name Wd_delivered = ''delivered''"
| "delivery_status_name Wd_failed = ''failed''"

text \<open>The secret is in no answer.\<close>

definition subscription_dto :: "subscription_view \<Rightarrow> jobject" where
  "subscription_dto s = [(''id'', JStr (sv_id s)), (''url'', JStr (sv_url s)), (''events'', jtexts (sv_events s)),
     (''description'', jstr_or_null (sv_description s)), (''active'', JBool (sv_active s)),
     (''createdAt'', JDate (sv_created_at s)), (''updatedAt'', JDate (sv_updated_at s))]"

definition delivery_dto :: "webhook_delivery \<Rightarrow> jobject" where
  "delivery_dto d = [(''id'', JStr (wd_id d)), (''subscriptionId'', JStr (wd_subscription d)), (''eventType'', JStr (wd_event_type d)),
     (''payload'', JObj (wd_payload d)), (''status'', JStr (delivery_status_name (wd_status d))), (''attempts'', JNum (int (wd_attempts d))),
     (''nextAttemptAt'', JDate (wd_next_attempt_at d)), (''deliveredAt'', jtime_or_null (wd_delivered_at d)),
     (''lastError'', jstr_or_null (wd_last_error d)), (''createdAt'', JDate (wd_created_at d))]"

definition SUPPORTED_WEBHOOK_EVENTS :: "string list" where
  "SUPPORTED_WEBHOOK_EVENTS = [''request.submitted'', ''request.step_approved'', ''request.approved'', ''request.rejected'',
     ''request.cancelled'', ''request.expired'']"

definition subscription_fits :: "subscription_input \<Rightarrow> bool" where
  "subscription_fits d \<longleftrightarrow> length (si_url d) \<le> 2048 \<and> text_between 16 255 (si_secret d) \<and>
     si_events d \<noteq> [] \<and> list_all (\<lambda>e. e \<in> set SUPPORTED_WEBHOOK_EVENTS) (si_events d) \<and> opt_max 500 (si_description d)"

definition webhooks_create :: "subscription_input \<Rightarrow> jwt_payload \<Rightarrow> json option svc" where
  "webhooks_create d u =
     mbind (zod (subscription_fits d)) (\<lambda>_. mbind (webhook_create d) (\<lambda>sub.
     mbind (audit_by u ''webhooks.subscription_created'' ''webhook_subscription'' (sv_id sub)
              [(''url'', JStr (si_url d)), (''events'', jtexts (si_events d))]) (\<lambda>_.
     answer (subscription_dto sub))))"

definition webhooks_list :: "json option svc" where
  "webhooks_list = answer_list subscription_dto webhook_list"

definition webhooks_get :: "uuid \<Rightarrow> json option svc" where
  "webhooks_get rowId = mbind (ParseUUIDPipe rowId) (\<lambda>_. answer_one subscription_dto (webhook_getById rowId))"

definition webhooks_set_active :: "uuid \<Rightarrow> bool \<Rightarrow> jwt_payload \<Rightarrow> json option svc" where
  "webhooks_set_active rowId active u =
     mbind (ParseUUIDPipe rowId) (\<lambda>_. mbind (webhook_setActive rowId active) (\<lambda>sub.
     mbind (audit_by u (if active then ''webhooks.subscription_enabled'' else ''webhooks.subscription_disabled'') ''webhook_subscription'' rowId []) (\<lambda>_.
     answer (subscription_dto sub))))"

definition webhooks_delete :: "uuid \<Rightarrow> jwt_payload \<Rightarrow> json option svc" where
  "webhooks_delete rowId u =
     no_content (mbind (ParseUUIDPipe rowId) (\<lambda>_. mbind (webhook_delete rowId) (\<lambda>_.
       audit_by u ''webhooks.subscription_deleted'' ''webhook_subscription'' rowId [])))"

definition webhooks_deliveries :: "uuid \<Rightarrow> json option svc" where
  "webhooks_deliveries rowId = mbind (ParseUUIDPipe rowId) (\<lambda>_. answer_list delivery_dto (listDeliveries rowId))"

definition webhooks_retry :: "uuid \<Rightarrow> jwt_payload \<Rightarrow> json option svc" where
  "webhooks_retry rowId u =
     mbind (ParseUUIDPipe rowId) (\<lambda>_. mbind (retryDelivery rowId) (\<lambda>delivery.
     mbind (audit_by u ''webhooks.delivery_retried'' ''webhook_delivery'' rowId []) (\<lambda>_. answer (delivery_dto delivery))))"

datatype webhooks_op =
    WebhooksCreate subscription_input
  | WebhooksList
  | WebhooksGet uuid
  | WebhooksSetActive uuid bool
  | WebhooksDelete uuid
  | WebhooksDeliveries uuid
  | WebhooksRetry uuid

fun webhooks_endpoint :: "webhooks_op \<Rightarrow> endpoint" where
  "webhooks_endpoint (WebhooksCreate d) = endpoint ''POST'' ''webhooks/subscriptions'' (RequirePermission ''rbac.manage'') (\<lambda>rq. CurrentUser rq (webhooks_create d))"
| "webhooks_endpoint WebhooksList = endpoint ''GET'' ''webhooks/subscriptions'' (RequirePermission ''rbac.manage'') (\<lambda>rq. webhooks_list)"
| "webhooks_endpoint (WebhooksGet i) = endpoint ''GET'' ''webhooks/subscriptions/:id'' (RequirePermission ''rbac.manage'') (\<lambda>rq. webhooks_get i)"
| "webhooks_endpoint (WebhooksSetActive i b) = endpoint ''PATCH'' ''webhooks/subscriptions/:id/active''
     (RequirePermission ''rbac.manage'') (\<lambda>rq. CurrentUser rq (webhooks_set_active i b))"
| "webhooks_endpoint (WebhooksDelete i) = endpoint ''DELETE'' ''webhooks/subscriptions/:id''
     (RequirePermission ''rbac.manage'') (\<lambda>rq. CurrentUser rq (webhooks_delete i))"
| "webhooks_endpoint (WebhooksDeliveries i) = endpoint ''GET'' ''webhooks/subscriptions/:id/deliveries''
     (RequirePermission ''rbac.manage'') (\<lambda>rq. webhooks_deliveries i)"
| "webhooks_endpoint (WebhooksRetry i) = endpoint ''POST'' ''webhooks/deliveries/:id/retry''
     (RequirePermission ''rbac.manage'') (\<lambda>rq. CurrentUser rq (webhooks_retry i))"

end
