(* ===== verification/Api_Identity.thy ===== *)
theory Api_Identity
  imports Api Employees Auth Notifications
begin

text \<open>
  The controllers of the employee directory, of sessions and of notifications.
\<close>

section \<open>Employees\<close>

definition employee_dto :: "employee \<Rightarrow> jobject" where
  "employee_dto e = [(''id'', JStr (emp_id e)), (''email'', JStr (emp_email e)), (''displayName'', JStr (emp_display_name e)),
     (''department'', jstr_or_null (emp_department e)), (''jobTitle'', jstr_or_null (emp_job_title e)),
     (''managerId'', jstr_or_null (emp_manager e)), (''roles'', JArr (map JStr (emp_roles e))),
     (''status'', JStr (employee_status_name (emp_status e))), (''photoStorageKey'', jstr_or_null (emp_photo_key e)),
     (''createdAt'', JDate (emp_created_at e))]"

text \<open>Roles are not among the properties of the body.\<close>

definition employee_body :: "employee_input \<Rightarrow> employee_input" where
  "employee_body d = d\<lparr>ei_roles := []\<rparr>"

definition employee_input_fits :: "employee_input \<Rightarrow> bool" where
  "employee_input_fits d \<longleftrightarrow> text_between 1 200 (ei_display_name d) \<and> opt_max 120 (ei_department d) \<and>
     opt_max 120 (ei_job_title d) \<and> opt_max 64 (ei_entra_oid d)"

definition employee_patch_fits :: "employee_patch \<Rightarrow> bool" where
  "employee_patch_fits d \<longleftrightarrow> opt_between 1 200 (ep_display_name d) \<and> opt_null_max 120 (ep_department d) \<and>
     opt_null_max 120 (ep_job_title d)"

definition employees_list :: "employee_filters \<Rightarrow> int option \<Rightarrow> int option \<Rightarrow> json option svc" where
  "employees_list f lim off = answer_page lim off (listEmployees f) employee_dto"

definition employees_get :: "uuid \<Rightarrow> json option svc" where
  "employees_get rowId = answer_one employee_dto (getEmployee rowId)"

definition employees_create :: "employee_input \<Rightarrow> jwt_payload \<Rightarrow> json option svc" where
  "employees_create d u =
     mbind (zod (employee_input_fits d)) (\<lambda>_. mbind (createEmployee (employee_body d) (actor_of u)) (\<lambda>e.
     mbind (audit_by u ''employee.created'' ''employee'' (emp_id e)
              [(''email'', JStr (emp_email e)), (''department'', jstr_or_null (emp_department e))]) (\<lambda>_.
     answer (employee_dto e))))"

definition employees_update :: "uuid \<Rightarrow> employee_patch \<Rightarrow> jwt_payload \<Rightarrow> json option svc" where
  "employees_update rowId d u =
     mbind (zod (employee_patch_fits d)) (\<lambda>_. mbind (updateEmployee rowId d (actor_of u)) (\<lambda>e.
     mbind (audit_by u ''employee.updated'' ''employee'' rowId [(''changes'', JObj (patch_json d))]) (\<lambda>_.
     answer_present employee_dto e)))"

definition employees_status :: "uuid \<Rightarrow> employee_status \<Rightarrow> jwt_payload \<Rightarrow> json option svc" where
  "employees_status rowId st u =
     mbind (updateStatus rowId st (actor_of u)) (\<lambda>e.
     mbind (audit_by u ''employee.status_changed'' ''employee'' rowId [(''status'', JStr (employee_status_name st))]) (\<lambda>_.
     answer_present employee_dto e))"

definition avatar_presign :: "s3 \<Rightarrow> uuid \<Rightarrow> presign_dto \<Rightarrow> jwt_payload \<Rightarrow> json option svc" where
  "avatar_presign s3 rowId d u =
     mbind (zod (presign_fits IMAGE_TYPES 5 d)) (\<lambda>_.
     answer_one presign_answer (presignAvatar s3 rowId (psd_file_name d) (psd_mime_type d) (psd_size_bytes d) (actor_of u)))"

definition avatar_confirm :: "s3 \<Rightarrow> uuid \<Rightarrow> uuid \<Rightarrow> jwt_payload \<Rightarrow> json option svc" where
  "avatar_confirm s3 rowId fileId u = answer_one (url_answer ''avatarUrl'') (confirmAvatar s3 rowId fileId (actor_of u))"

definition avatar_url :: "s3 \<Rightarrow> uuid \<Rightarrow> json option svc" where
  "avatar_url s3 rowId = answer_one (link_answer ''avatarUrl'') (getAvatarUrl s3 rowId)"

definition avatar_delete :: "uuid \<Rightarrow> jwt_payload \<Rightarrow> json option svc" where
  "avatar_delete rowId u = no_content (deleteAvatar rowId (actor_of u))"

datatype employees_op =
    EmployeesList employee_filters "int option" "int option"
  | EmployeesGet uuid
  | EmployeesCreate employee_input
  | EmployeesUpdate uuid employee_patch
  | EmployeesStatus uuid employee_status
  | AvatarPresign uuid presign_dto
  | AvatarConfirm uuid uuid
  | AvatarUrl uuid
  | AvatarDelete uuid

fun employees_endpoint :: "s3 \<Rightarrow> employees_op \<Rightarrow> endpoint" where
  "employees_endpoint s3 (EmployeesList f lim off) = endpoint ''GET'' ''employees'' (RateLimit ''STRICT'' Auth) (\<lambda>rq. employees_list f lim off)"
| "employees_endpoint s3 (EmployeesGet i) = endpoint ''GET'' ''employees/:id'' Auth (\<lambda>rq. employees_get i)"
| "employees_endpoint s3 (EmployeesCreate d) = endpoint ''POST'' ''employees'' (RequirePermission ''employee.write'') (\<lambda>rq. CurrentUser rq (employees_create d))"
| "employees_endpoint s3 (EmployeesUpdate i d) = endpoint ''PATCH'' ''employees/:id'' (RequirePermission ''employee.write'') (\<lambda>rq. CurrentUser rq (employees_update i d))"
| "employees_endpoint s3 (EmployeesStatus i st) = endpoint ''PATCH'' ''employees/:id/status''
     (RequirePermission ''employee.write'') (\<lambda>rq. CurrentUser rq (employees_status i st))"
| "employees_endpoint s3 (AvatarPresign i d) = endpoint ''POST'' ''employees/:id/avatar/presign'' Auth (\<lambda>rq. CurrentUser rq (avatar_presign s3 i d))"
| "employees_endpoint s3 (AvatarConfirm i k) = endpoint ''POST'' ''employees/:id/avatar/confirm'' Auth (\<lambda>rq. CurrentUser rq (avatar_confirm s3 i k))"
| "employees_endpoint s3 (AvatarUrl i) = endpoint ''GET'' ''employees/:id/avatar'' Auth (\<lambda>rq. avatar_url s3 i)"
| "employees_endpoint s3 (AvatarDelete i) = endpoint ''DELETE'' ''employees/:id/avatar'' (RequirePermission ''employee.write'') (\<lambda>rq. CurrentUser rq (avatar_delete i))"

section \<open>Sessions\<close>

text \<open>
  Each handler answers with a body and with what it does to the cookie of the refresh token,
  whose text and age it sets.  (Without a cookie \<open>session_refresh\<close> also clears it before it throws.)
\<close>

datatype cookie = SetCookie string int | ClearCookie

definition refresh_max_age :: "auth_env \<Rightarrow> int" where
  "refresh_max_age env = au_refresh_days env * 24 * 60 * 60"

definition session_answer :: "auth_env \<Rightarrow> token_result \<Rightarrow> jobject \<times> cookie" where
  "session_answer env t = ([(''accessToken'', JStr (to_access t)), (''expiresIn'', JNum (to_expires_in t))],
     SetCookie (to_refresh t) (refresh_max_age env))"

definition session_entra_login :: "auth_env \<Rightarrow> string \<Rightarrow> (jobject \<times> cookie) svc" where
  "session_entra_login env idToken =
     mbind (zod (10 \<le> length idToken)) (\<lambda>_. mbind (entraLogin env idToken) (\<lambda>t. mret (session_answer env t)))"

definition session_dev_login :: "auth_env \<Rightarrow> bool \<Rightarrow> string \<Rightarrow> (jobject \<times> cookie) svc" where
  "session_dev_login env isProd email =
     mbind (throw_if isProd (PermissionDeniedException ''Dev login is disabled in production'')) (\<lambda>_.
     mbind (devLogin env email) (\<lambda>t. mret (session_answer env t)))"

definition session_refresh :: "auth_env \<Rightarrow> string option \<Rightarrow> (jobject \<times> cookie) svc" where
  "session_refresh env rawToken =
     (case rawToken of
        None \<Rightarrow> mthrow (UnauthorizedException AUTH_INVALID_CREDENTIALS)
      | Some raw \<Rightarrow>
          if raw = [] then mthrow (UnauthorizedException AUTH_INVALID_CREDENTIALS)
          else mbind (refresh env raw) (\<lambda>t. mret (session_answer env t)))"

definition session_logout :: "auth_env \<Rightarrow> string option \<Rightarrow> jwt_payload \<Rightarrow> cookie svc" where
  "session_logout env rawToken u =
     mbind (case rawToken of None \<Rightarrow> mret () | Some raw \<Rightarrow> mwhen (raw \<noteq> []) (logout env raw (Some (jw_exp u)))) (\<lambda>_.
     mret ClearCookie)"

definition session_me :: "jwt_payload \<Rightarrow> json option svc" where
  "session_me u =
     mbind (resolve (jw_sub u)) (\<lambda>effective.
     answer [(''sub'', JStr (jw_sub u)), (''email'', JStr (jw_email u)), (''name'', JStr (jw_name u)),
       (''roles'', JArr (map JStr (jw_roles u))), (''permissions'', JArr (map (\<lambda>(k, _). JStr k) effective))])"

definition body_of :: "(jobject \<times> cookie) svc \<Rightarrow> json option svc" where
  "body_of m = mbind m (\<lambda>(props, _). answer props)"

datatype session_op = EntraLogin string | DevLogin string | Refresh | Logout | Me

fun session_endpoint :: "auth_env \<Rightarrow> bool \<Rightarrow> session_op \<Rightarrow> endpoint" where
  "session_endpoint env isProd (EntraLogin idToken) = endpoint ''POST'' ''auth/entra-login'' (RateLimit ''AUTH_LOGIN'' Public)
     (\<lambda>rq. body_of (session_entra_login env idToken))"
| "session_endpoint env isProd (DevLogin email) = endpoint ''POST'' ''auth/dev-login'' (RateLimit ''AUTH_LOGIN'' Public)
     (\<lambda>rq. body_of (session_dev_login env isProd email))"
| "session_endpoint env isProd Refresh = endpoint ''POST'' ''auth/refresh'' (RateLimit ''AUTH_REFRESH'' Public)
     (\<lambda>rq. body_of (session_refresh env (rq_refresh_cookie rq)))"
| "session_endpoint env isProd Logout = endpoint ''POST'' ''auth/logout'' Auth
     (\<lambda>rq. CurrentUser rq (\<lambda>u. mbind (session_logout env (rq_refresh_cookie rq) u) (\<lambda>_. mret None)))"
| "session_endpoint env isProd Me = endpoint ''GET'' ''auth/me'' Auth (\<lambda>rq. CurrentUser rq session_me)"

section \<open>Notifications and preferences\<close>

definition notification_dto :: "in_app_notification \<Rightarrow> jobject" where
  "notification_dto n = [(''id'', JStr (ian_id n)), (''recipientId'', JStr (ian_recipient n)), (''actorId'', jstr_or_null (ian_actor n)),
     (''type'', JStr (ian_type n)), (''title'', JStr (ian_title n)), (''body'', jstr_or_null (ian_body n)),
     (''resourceType'', jstr_or_null (ian_resource_type n)), (''resourceId'', jstr_or_null (ian_resource n)),
     (''metadata'', JObj (ian_metadata n)), (''isRead'', JBool (ian_is_read n)), (''readAt'', jtime_or_null (ian_read_at n)),
     (''createdAt'', JDate (ian_created_at n)), (''sourceEventId'', jstr_or_null (ian_source_event n))]"

definition preference_dto :: "notification_preference \<Rightarrow> jobject" where
  "preference_dto p = [(''type'', JStr (np_type p)), (''inApp'', JBool (np_in_app p)), (''email'', JBool (np_email p)),
     (''updatedAt'', JDate (np_updated_at p))]"

definition inbox_list :: "bool option \<Rightarrow> int option \<Rightarrow> timestamp option \<Rightarrow> jwt_payload \<Rightarrow> json option svc" where
  "inbox_list isRead lim cursor u =
     mbind (or_throw (page_query (or_else lim (Some 20)) None) (HttpException 422 None)) (\<lambda>(l, _).
     mbind (notifications_list (jw_sub u) \<lparr>nf_is_read = isRead, nf_limit = l, nf_cursor = cursor\<rparr>) (\<lambda>(items, nextCursor).
     answer [(''items'', JArr (map (\<lambda>n. JObj (notification_dto n)) items)), (''nextCursor'', jtime_or_null nextCursor)]))"

definition inbox_unread_count :: "jwt_payload \<Rightarrow> json option svc" where
  "inbox_unread_count u = mbind (unreadCount (jw_sub u)) (\<lambda>n. answer [(''count'', JNum (int n))])"

definition inbox_mark_read :: "uuid \<Rightarrow> jwt_payload \<Rightarrow> json option svc" where
  "inbox_mark_read rowId u = no_content (mbind (ParseUUIDPipe rowId) (\<lambda>_. markRead rowId (jw_sub u)))"

definition inbox_mark_all_read :: "jwt_payload \<Rightarrow> json option svc" where
  "inbox_mark_all_read u = no_content (markAllRead (jw_sub u))"

definition preferences_list :: "jwt_payload \<Rightarrow> json option svc" where
  "preferences_list u = answer_list preference_dto (listPreferences (jw_sub u))"

definition preferences_upsert :: "string \<Rightarrow> bool option \<Rightarrow> bool option \<Rightarrow> jwt_payload \<Rightarrow> json option svc" where
  "preferences_upsert kind inApp email u =
     mbind (zod (inApp \<noteq> None \<or> email \<noteq> None)) (\<lambda>_.
     mbind (upsert_preference \<lparr>upi_user = jw_sub u, upi_type = kind, upi_in_app = inApp, upi_email = email\<rparr>) (\<lambda>pref.
     answer_present preference_dto pref))"

definition preferences_reset :: "string \<Rightarrow> jwt_payload \<Rightarrow> json option svc" where
  "preferences_reset kind u = no_content (reset_preference (jw_sub u) kind)"

datatype inbox_op =
    InboxList "bool option" "int option" "timestamp option"
  | InboxUnreadCount
  | InboxMarkRead uuid
  | InboxMarkAllRead
  | PreferencesList
  | PreferencesUpsert string "bool option" "bool option"
  | PreferencesReset string

fun inbox_endpoint :: "inbox_op \<Rightarrow> endpoint" where
  "inbox_endpoint (InboxList r lim c) = endpoint ''GET'' ''notifications'' Auth (\<lambda>rq. CurrentUser rq (inbox_list r lim c))"
| "inbox_endpoint InboxUnreadCount = endpoint ''GET'' ''notifications/unread-count'' Auth (\<lambda>rq. CurrentUser rq inbox_unread_count)"
| "inbox_endpoint (InboxMarkRead i) = endpoint ''PATCH'' ''notifications/:id/read'' Auth (\<lambda>rq. CurrentUser rq (inbox_mark_read i))"
| "inbox_endpoint InboxMarkAllRead = endpoint ''PATCH'' ''notifications/read-all'' Auth (\<lambda>rq. CurrentUser rq inbox_mark_all_read)"
| "inbox_endpoint PreferencesList = endpoint ''GET'' ''notifications/preferences'' Auth (\<lambda>rq. CurrentUser rq preferences_list)"
| "inbox_endpoint (PreferencesUpsert k a b) = endpoint ''PUT'' ''notifications/preferences/:type'' Auth (\<lambda>rq. CurrentUser rq (preferences_upsert k a b))"
| "inbox_endpoint (PreferencesReset k) = endpoint ''DELETE'' ''notifications/preferences/:type'' Auth (\<lambda>rq. CurrentUser rq (preferences_reset k))"

text \<open>
  The stream of events: what it does with the tables is to count the unread notifications for its first
  event.  The subscription that follows is the subject of \<open>Live_Stream\<close>.
\<close>

definition notifications_stream :: "jwt_payload \<Rightarrow> json option svc" where
  "notifications_stream u = mbind (unreadCount (jw_sub u)) (\<lambda>n. mret None)"

definition stream_endpoint :: endpoint where
  "stream_endpoint = endpoint ''GET'' ''notifications/stream'' Auth (\<lambda>rq. CurrentUser rq notifications_stream)"

section \<open>Probes\<close>

text \<open>
  What the readiness probe finds out at a time: the error of the query and of the round trip through
  Redis, if any; and the verdict of the health library over the two reports.  The probe key that it
  sets and deletes again is not among the entries of the cache of the model.
\<close>

record health_env =
  hl_postgres :: "timestamp \<Rightarrow> string option"
  hl_redis :: "timestamp \<Rightarrow> string option"
  hl_check :: "json list \<Rightarrow> exn + json"

definition indicator :: "string \<Rightarrow> string option \<Rightarrow> jobject \<Rightarrow> json" where
  "indicator name err info = JObj [(name, JObj (case err of
     None \<Rightarrow> (''status'', JStr ''up'') # info
   | Some e \<Rightarrow> [(''status'', JStr ''down''), (''error'', JStr e)]))]"

definition healthz :: "json option svc" where
  "healthz = answer [(''status'', JStr ''ok'')]"

definition readyz :: "health_env \<Rightarrow> json option svc" where
  "readyz env =
     mbind (mgets w_cache) (\<lambda>c.
     mbind (outside_call (\<lambda>t. hl_check env
       [indicator ''postgres'' (hl_postgres env t) [],
        (if \<not> c_enabled c then indicator ''redis'' None [(''note'', JStr ''disabled - REDIS_URL not configured'')]
         else indicator ''redis'' (hl_redis env t) [])])) (\<lambda>report.
     mret (Some report)))"

datatype health_op = Healthz | Readyz

fun health_endpoint :: "health_env \<Rightarrow> health_op \<Rightarrow> endpoint" where
  "health_endpoint env Healthz = endpoint ''GET'' ''healthz'' (Public\<lparr>rte_skip_limit := True\<rparr>) (\<lambda>rq. healthz)"
| "health_endpoint env Readyz = endpoint ''GET'' ''readyz'' (Public\<lparr>rte_skip_limit := True\<rparr>) (\<lambda>rq. readyz env)"

end
