(* ===== verification/Reports.thy ===== *)
theory Reports
  imports Api Api_Workforce Api_Inventory Api_Requests "HOL-Library.List_Lexorder" "HOL-Library.Char_ord" "HOL-Library.Product_Lexorder"
begin

text \<open>
  The reports of \<^verbatim>\<open>libs/modules/reports\<close>: SQL aggregates over requests, findings, assets, leave and
  overtime.  A \<^verbatim>\<open>numeric\<close> column rounded to n digits is an integer in units of the last digit; averages and
  percentiles are rounded from the exact quotient, where Postgres computes with many digits.
\<close>

section \<open>Grouping\<close>

text \<open>Postgres orders the values of an enum as they are declared.\<close>

instantiation request_status :: linorder
begin

primrec place_request_status :: "request_status \<Rightarrow> nat" where
  "place_request_status Req_pending = 0"
| "place_request_status Req_in_review = 1"
| "place_request_status Req_approved = 2"
| "place_request_status Req_rejected = 3"
| "place_request_status Req_cancelled = 4"
| "place_request_status Req_expired = 5"

definition less_eq_request_status :: "request_status \<Rightarrow> request_status \<Rightarrow> bool" where
  "less_eq_request_status x y \<longleftrightarrow> place_request_status x \<le> place_request_status y"

definition less_request_status :: "request_status \<Rightarrow> request_status \<Rightarrow> bool" where
  "less_request_status x y \<longleftrightarrow> place_request_status x < place_request_status y"

instance
proof
  fix x y :: request_status
  show "x = y" if "x \<le> y" "y \<le> x"
    using that by (cases x; cases y) (simp_all add: less_eq_request_status_def)
qed (auto simp: less_eq_request_status_def less_request_status_def)

end

instantiation leave_type :: linorder
begin

primrec place_leave_type :: "leave_type \<Rightarrow> nat" where
  "place_leave_type Leave_annual = 0"
| "place_leave_type Leave_sick = 1"
| "place_leave_type Leave_unpaid = 2"
| "place_leave_type Leave_parental = 3"
| "place_leave_type Leave_other = 4"

definition less_eq_leave_type :: "leave_type \<Rightarrow> leave_type \<Rightarrow> bool" where
  "less_eq_leave_type x y \<longleftrightarrow> place_leave_type x \<le> place_leave_type y"

definition less_leave_type :: "leave_type \<Rightarrow> leave_type \<Rightarrow> bool" where
  "less_leave_type x y \<longleftrightarrow> place_leave_type x < place_leave_type y"

instance
proof
  fix x y :: leave_type
  show "x = y" if "x \<le> y" "y \<le> x"
    using that by (cases x; cases y) (simp_all add: less_eq_leave_type_def)
qed (auto simp: less_eq_leave_type_def less_leave_type_def)

end

instantiation leave_status :: linorder
begin

primrec place_leave_status :: "leave_status \<Rightarrow> nat" where
  "place_leave_status Lv_pending = 0"
| "place_leave_status Lv_approved = 1"
| "place_leave_status Lv_rejected = 2"
| "place_leave_status Lv_cancelled = 3"

definition less_eq_leave_status :: "leave_status \<Rightarrow> leave_status \<Rightarrow> bool" where
  "less_eq_leave_status x y \<longleftrightarrow> place_leave_status x \<le> place_leave_status y"

definition less_leave_status :: "leave_status \<Rightarrow> leave_status \<Rightarrow> bool" where
  "less_leave_status x y \<longleftrightarrow> place_leave_status x < place_leave_status y"

instance
proof
  fix x y :: leave_status
  show "x = y" if "x \<le> y" "y \<le> x"
    using that by (cases x; cases y) (simp_all add: less_eq_leave_status_def)
qed (auto simp: less_eq_leave_status_def less_leave_status_def)

end

instantiation overtime_status :: linorder
begin

primrec place_overtime_status :: "overtime_status \<Rightarrow> nat" where
  "place_overtime_status Ot_pending = 0"
| "place_overtime_status Ot_approved = 1"
| "place_overtime_status Ot_rejected = 2"

definition less_eq_overtime_status :: "overtime_status \<Rightarrow> overtime_status \<Rightarrow> bool" where
  "less_eq_overtime_status x y \<longleftrightarrow> place_overtime_status x \<le> place_overtime_status y"

definition less_overtime_status :: "overtime_status \<Rightarrow> overtime_status \<Rightarrow> bool" where
  "less_overtime_status x y \<longleftrightarrow> place_overtime_status x < place_overtime_status y"

instance
proof
  fix x y :: overtime_status
  show "x = y" if "x \<le> y" "y \<le> x"
    using that by (cases x; cases y) (simp_all add: less_eq_overtime_status_def)
qed (auto simp: less_eq_overtime_status_def less_overtime_status_def)

end

instantiation finding_severity :: linorder
begin

primrec place_finding_severity :: "finding_severity \<Rightarrow> nat" where
  "place_finding_severity Sev_low = 0"
| "place_finding_severity Sev_medium = 1"
| "place_finding_severity Sev_high = 2"
| "place_finding_severity Sev_critical = 3"

definition less_eq_finding_severity :: "finding_severity \<Rightarrow> finding_severity \<Rightarrow> bool" where
  "less_eq_finding_severity x y \<longleftrightarrow> place_finding_severity x \<le> place_finding_severity y"

definition less_finding_severity :: "finding_severity \<Rightarrow> finding_severity \<Rightarrow> bool" where
  "less_finding_severity x y \<longleftrightarrow> place_finding_severity x < place_finding_severity y"

instance
proof
  fix x y :: finding_severity
  show "x = y" if "x \<le> y" "y \<le> x"
    using that by (cases x; cases y) (simp_all add: less_eq_finding_severity_def)
qed (auto simp: less_eq_finding_severity_def less_finding_severity_def)

end

instantiation asset_type :: linorder
begin

primrec place_asset_type :: "asset_type \<Rightarrow> nat" where
  "place_asset_type Asset_laptop = 0"
| "place_asset_type Asset_desktop = 1"
| "place_asset_type Asset_monitor = 2"
| "place_asset_type Asset_phone = 3"
| "place_asset_type Asset_tablet = 4"
| "place_asset_type Asset_peripheral = 5"
| "place_asset_type Asset_other = 6"

definition less_eq_asset_type :: "asset_type \<Rightarrow> asset_type \<Rightarrow> bool" where
  "less_eq_asset_type x y \<longleftrightarrow> place_asset_type x \<le> place_asset_type y"

definition less_asset_type :: "asset_type \<Rightarrow> asset_type \<Rightarrow> bool" where
  "less_asset_type x y \<longleftrightarrow> place_asset_type x < place_asset_type y"

instance
proof
  fix x y :: asset_type
  show "x = y" if "x \<le> y" "y \<le> x"
    using that by (cases x; cases y) (simp_all add: less_eq_asset_type_def)
qed (auto simp: less_eq_asset_type_def less_asset_type_def)

end

text \<open>\<^verbatim>\<open>groupBy(k).orderBy(k)\<close>: one group per value of the key, ascending.\<close>

definition group_by :: "('r \<Rightarrow> 'k::linorder) \<Rightarrow> 'r list \<Rightarrow> ('k \<times> 'r list) list" where
  "group_by k t = map (\<lambda>x. (x, filter (\<lambda>r. k r = x) t)) (sort (remdups (map k t)))"

text \<open>\<^verbatim>\<open>count(*) filter (where p)\<close>.\<close>

definition count_where :: "('r \<Rightarrow> bool) \<Rightarrow> 'r list \<Rightarrow> nat" where
  "count_where p t = length (filter p t)"

section \<open>Numbers\<close>

text \<open>\<^verbatim>\<open>round\<close> of a numeric: half away from zero.  The divisor is positive.\<close>

definition round_div :: "int \<Rightarrow> int \<Rightarrow> int" where
  "round_div a b = (if a \<ge> 0 then (2 * a + b) div (2 * b) else - ((- 2 * a + b) div (2 * b)))"

text \<open>
  \<^verbatim>\<open>percentile_cont(p/10)\<close> within the ascending values, times 10: the interpolation between the
  two rows around the position \<^verbatim>\<open>p/10 * (n - 1)\<close>.
\<close>

definition percentile_cont :: "nat \<Rightarrow> int list \<Rightarrow> int" where
  "percentile_cont p xs =
     (let vs = sort xs; pos = p * (length vs - 1); lo = pos div 10; rest = pos mod 10 in
      if rest = 0 then 10 * vs ! lo else 10 * vs ! lo + int rest * (vs ! Suc lo - vs ! lo))"

text \<open>
  The driver hands a \<^verbatim>\<open>numeric\<close> over as its text: \<open>numeric_text d n\<close> is n units of the d-th digit.
\<close>

definition pad_left :: "nat \<Rightarrow> string \<Rightarrow> string" where
  "pad_left d s = replicate (d - length s) CHR ''0'' @ s"

definition numeric_text :: "nat \<Rightarrow> int \<Rightarrow> string" where
  "numeric_text d n = (if n < 0 then ''-'' else []) @ nat_str (nat \<bar>n\<bar> div 10 ^ d) @ ''.'' @ pad_left d (nat_str (nat \<bar>n\<bar> mod 10 ^ d))"

section \<open>Requests\<close>

record report_range =
  rg_from :: timestamp
  rg_to :: timestamp
  rg_type :: "string option"

definition in_range :: "report_range \<Rightarrow> timestamp \<Rightarrow> bool" where
  "in_range p t \<longleftrightarrow> rg_from p \<le> t \<and> t \<le> rg_to p"

definition submitted_in :: "report_range \<Rightarrow> request_item \<Rightarrow> bool" where
  "submitted_in p r \<longleftrightarrow> in_range p (ri_submitted_at r) \<and> opt_text (rg_type p) (\<lambda>s. ri_type r = s)"

definition request_decided :: "request_item \<Rightarrow> bool" where
  "request_decided r \<longleftrightarrow> ri_status r \<in> {Req_approved, Req_rejected}"

record request_summary_row =
  rsr_type :: string
  rsr_status :: request_status
  rsr_count :: nat

definition getRequestSummary :: "report_range \<Rightarrow> request_summary_row list svc" where
  "getRequestSummary p = query (\<lambda>d.
     map (\<lambda>((ty, st), g). \<lparr>rsr_type = ty, rsr_status = st, rsr_count = length g\<rparr>)
       (group_by (\<lambda>r. (ri_type r, ri_status r)) (select_where (submitted_in p) (t_request_items d))))"

text \<open>Hours in hundredths.\<close>

record cycle_time_row =
  ctr_type :: string
  ctr_total :: nat
  ctr_avg_hours :: int
  ctr_p50_hours :: int
  ctr_p90_hours :: int

definition MS_PER_HOUR :: int where "MS_PER_HOUR = 3600000"

definition duration :: "request_item \<Rightarrow> int" where
  "duration r = (case ri_resolved_at r of None \<Rightarrow> 0 | Some t \<Rightarrow> t - ri_submitted_at r)"

definition cycle_time_of :: "string \<times> request_item list \<Rightarrow> cycle_time_row" where
  "cycle_time_of kg = (let ds = map duration (snd kg) in
     \<lparr>ctr_type = fst kg, ctr_total = length ds,
      ctr_avg_hours = round_div (100 * sum_list ds) (int (length ds) * MS_PER_HOUR),
      ctr_p50_hours = round_div (100 * percentile_cont 5 ds) (10 * MS_PER_HOUR),
      ctr_p90_hours = round_div (100 * percentile_cont 9 ds) (10 * MS_PER_HOUR)\<rparr>)"

definition getRequestCycleTime :: "report_range \<Rightarrow> cycle_time_row list svc" where
  "getRequestCycleTime p = query (\<lambda>d.
     map cycle_time_of (group_by ri_type
       (select_where (\<lambda>r. submitted_in p r \<and> ri_resolved_at r \<noteq> None \<and> request_decided r) (t_request_items d))))"

text \<open>The rate in tenths of a percent, null when nothing is decided.\<close>

record sla_compliance_row =
  scr_type :: string
  scr_total_with_sla :: nat
  scr_resolved :: nat
  scr_within_sla :: nat
  scr_breached :: nat
  scr_rate_pct :: "int option"

definition sla_compliance_of :: "string \<times> request_item list \<Rightarrow> sla_compliance_row" where
  "sla_compliance_of kg = (let g = snd kg;
       resolved = count_where request_decided g;
       within = count_where (\<lambda>r. request_decided r \<and> ri_sla_breached_at r = None) g in
     \<lparr>scr_type = fst kg, scr_total_with_sla = length g, scr_resolved = resolved, scr_within_sla = within,
      scr_breached = count_where (\<lambda>r. ri_sla_breached_at r \<noteq> None) g,
      scr_rate_pct = (if resolved = 0 then None else Some (round_div (1000 * int within) (int resolved)))\<rparr>)"

definition getRequestSlaCompliance :: "report_range \<Rightarrow> sla_compliance_row list svc" where
  "getRequestSlaCompliance p = query (\<lambda>d.
     map sla_compliance_of (group_by ri_type
       (select_where (\<lambda>r. submitted_in p r \<and> ri_sla_hours r \<noteq> None) (t_request_items d))))"

record queue_depth_row =
  qdr_type :: string
  qdr_pending :: nat
  qdr_in_review :: nat
  qdr_at_risk :: nat
  qdr_total :: nat

definition at_risk :: "timestamp \<Rightarrow> request_item \<Rightarrow> bool" where
  "at_risk t r \<longleftrightarrow> (case ri_sla_deadline r of None \<Rightarrow> False | Some l \<Rightarrow> l < t) \<and> ri_sla_breached_at r = None \<and>
     ri_status r \<in> {Req_pending, Req_in_review}"

definition queue_depth_of :: "timestamp \<Rightarrow> string \<times> request_item list \<Rightarrow> queue_depth_row" where
  "queue_depth_of t kg = (let g = snd kg in
     \<lparr>qdr_type = fst kg, qdr_pending = count_where (\<lambda>r. ri_status r = Req_pending) g,
      qdr_in_review = count_where (\<lambda>r. ri_status r = Req_in_review) g, qdr_at_risk = count_where (at_risk t) g,
      qdr_total = count_where (\<lambda>r. ri_status r \<in> {Req_pending, Req_in_review}) g\<rparr>)"

definition getRequestQueueDepth :: "queue_depth_row list svc" where
  "getRequestQueueDepth = mbind now (\<lambda>t. query (\<lambda>d.
     map (queue_depth_of t) (group_by ri_type
       (select_where (\<lambda>r. ri_status r \<in> {Req_pending, Req_in_review}) (t_request_items d)))))"

text \<open>
  Days are numbered from the epoch, in UTC, and written as \<^verbatim>\<open>YYYY-MM-DD\<close>: the Gregorian calendar in
  eras of 400 years, counted from the first of March of the year 0.
\<close>

definition day_of :: "timestamp \<Rightarrow> int" where
  "day_of t = t div 86400000"

definition civil_date :: "int \<Rightarrow> int \<times> int \<times> int" where
  "civil_date days =
     (let z = days + 719468; era = z div 146097; doe = z mod 146097;
          yoe = (doe - doe div 1460 + doe div 36524 - doe div 146096) div 365;
          doy = doe - (365 * yoe + yoe div 4 - yoe div 100); mp = (5 * doy + 2) div 153;
          month = (if mp < 10 then mp + 3 else mp - 9) in
      (yoe + era * 400 + (if month \<le> 2 then 1 else 0), month, doy - (153 * mp + 2) div 5 + 1))"

definition iso_day :: "int \<Rightarrow> string" where
  "iso_day days = (case civil_date days of (y, m, d) \<Rightarrow>
     pad_left 4 (int_str y) @ ''-'' @ pad_left 2 (int_str m) @ ''-'' @ pad_left 2 (int_str d))"

record throughput_point =
  tpp_day :: string
  tpp_submitted :: nat
  tpp_resolved :: nat

definition throughput_of :: "int \<times> request_item list \<Rightarrow> throughput_point" where
  "throughput_of kg = \<lparr>tpp_day = iso_day (fst kg), tpp_submitted = length (snd kg),
     tpp_resolved = count_where (\<lambda>r. ri_status r \<in> {Req_approved, Req_rejected, Req_cancelled}) (snd kg)\<rparr>"

definition getRequestThroughput :: "report_range \<Rightarrow> throughput_point list svc" where
  "getRequestThroughput p = query (\<lambda>d.
     map throughput_of (group_by (\<lambda>r. day_of (ri_submitted_at r)) (select_where (submitted_in p) (t_request_items d))))"

section \<open>Compliance, assets and workforce\<close>

record findings_summary_row =
  fsr_severity :: finding_severity
  fsr_open :: nat
  fsr_in_remediation :: nat
  fsr_resolved :: nat
  fsr_total :: nat

definition findings_summary_of :: "finding_severity \<times> compliance_finding list \<Rightarrow> findings_summary_row" where
  "findings_summary_of kg = (let g = snd kg in
     \<lparr>fsr_severity = fst kg, fsr_open = count_where (\<lambda>f. cf_status f = Fi_open) g,
      fsr_in_remediation = count_where (\<lambda>f. cf_status f = Fi_acknowledged) g,
      fsr_resolved = count_where (\<lambda>f. cf_status f = Fi_resolved) g, fsr_total = length g\<rparr>)"

definition getComplianceFindingsSummary :: "report_range \<Rightarrow> findings_summary_row list svc" where
  "getComplianceFindingsSummary p = query (\<lambda>d.
     map findings_summary_of (group_by cf_severity (select_where (\<lambda>f. in_range p (cf_detected_at f)) (t_findings d))))"

text \<open>The percentage in tenths; a group has at least one row, so nothing is divided by zero.\<close>

record asset_utilization_row =
  aur_type :: asset_type
  aur_in_stock :: nat
  aur_assigned :: nat
  aur_retired :: nat
  aur_in_repair :: nat
  aur_total :: nat
  aur_utilization_pct :: int

definition asset_utilization_of :: "asset_type \<times> asset list \<Rightarrow> asset_utilization_row" where
  "asset_utilization_of kg = (let g = snd kg; assigned = count_where (\<lambda>a. as_status a = As_assigned) g in
     \<lparr>aur_type = fst kg, aur_in_stock = count_where (\<lambda>a. as_status a = As_in_stock) g, aur_assigned = assigned,
      aur_retired = count_where (\<lambda>a. as_status a = As_retired) g,
      aur_in_repair = count_where (\<lambda>a. as_status a = As_in_repair) g, aur_total = length g,
      aur_utilization_pct = round_div (1000 * int assigned) (int (length g))\<rparr>)"

definition getAssetUtilization :: "asset_utilization_row list svc" where
  "getAssetUtilization = query (\<lambda>d. map asset_utilization_of (group_by as_type (t_assets d)))"

record leave_summary_row =
  lsr_leave_type :: leave_type
  lsr_status :: leave_status
  lsr_count :: nat

definition getLeaveSummary :: "report_range \<Rightarrow> leave_summary_row list svc" where
  "getLeaveSummary p = query (\<lambda>d.
     map (\<lambda>((ty, st), g). \<lparr>lsr_leave_type = ty, lsr_status = st, lsr_count = length g\<rparr>)
       (group_by (\<lambda>l. (lr_leave_type l, lr_status l)) (select_where (\<lambda>l. in_range p (lr_created_at l)) (t_leave_requests d))))"

record overtime_summary_row =
  osr_status :: overtime_status
  osr_count :: nat
  osr_total_hours :: int
  osr_avg_hours :: int

definition overtime_summary_of :: "overtime_status \<times> overtime_entry list \<Rightarrow> overtime_summary_row" where
  "overtime_summary_of kg = (let g = snd kg; hours = sum_list (map ot_hours g) in
     \<lparr>osr_status = fst kg, osr_count = length g, osr_total_hours = hours, osr_avg_hours = round_div hours (int (length g))\<rparr>)"

definition getOvertimeSummary :: "report_range \<Rightarrow> overtime_summary_row list svc" where
  "getOvertimeSummary p = query (\<lambda>d.
     map overtime_summary_of (group_by ot_status (select_where (\<lambda>r. in_range p (ot_created_at r)) (t_overtime_entries d))))"

section \<open>The controller\<close>

definition THIRTY_DAYS_MS :: int where
  "THIRTY_DAYS_MS = 30 * 24 * 60 * 60 * 1000"

text \<open>The times of the query, read from their texts; \<open>t\<close> is \<^verbatim>\<open>new Date()\<close>.\<close>

definition resolveDateRange :: "timestamp \<Rightarrow> timestamp option \<Rightarrow> timestamp option \<Rightarrow> timestamp \<times> timestamp" where
  "resolveDateRange t start stop =
     (let toDate = (case stop of None \<Rightarrow> t | Some x \<Rightarrow> x);
          fromDate = (case start of None \<Rightarrow> toDate - THIRTY_DAYS_MS | Some x \<Rightarrow> x) in (fromDate, toDate))"

record report_query =
  rpq_from :: "timestamp option"
  rpq_to :: "timestamp option"
  rpq_type :: "string option"

definition report_query_fits :: "report_query \<Rightarrow> bool" where
  "report_query_fits q \<longleftrightarrow> opt_between 1 100 (rpq_type q)"

definition jnat :: "nat \<Rightarrow> json" where "jnat n = JNum (int n)"

text \<open>A report over a range: the bounds and the rows, under \<^verbatim>\<open>rows\<close> or \<^verbatim>\<open>points\<close>.\<close>

definition ranged_report :: "report_query \<Rightarrow> string \<Rightarrow> (report_range \<Rightarrow> 'r list svc) \<Rightarrow> ('r \<Rightarrow> jobject) \<Rightarrow> json option svc" where
  "ranged_report q name fetch dto =
     mbind (zod (report_query_fits q)) (\<lambda>_. mbind now (\<lambda>t.
     let (start, stop) = resolveDateRange t (rpq_from q) (rpq_to q) in
     mbind (fetch \<lparr>rg_from = start, rg_to = stop, rg_type = rpq_type q\<rparr>) (\<lambda>rows.
     answer [(''from'', JDate start), (''to'', JDate stop), (name, JArr (map (\<lambda>r. JObj (dto r)) rows))])))"

definition current_report :: "'r list svc \<Rightarrow> ('r \<Rightarrow> jobject) \<Rightarrow> json option svc" where
  "current_report fetch dto =
     mbind fetch (\<lambda>rows. mbind now (\<lambda>t. answer [(''asOf'', JDate t), (''rows'', JArr (map (\<lambda>r. JObj (dto r)) rows))]))"

definition report_request_summary :: "report_query \<Rightarrow> json option svc" where
  "report_request_summary q = ranged_report q ''rows'' getRequestSummary
     (\<lambda>r. [(''type'', JStr (rsr_type r)), (''status'', JStr (request_status_name (rsr_status r))), (''count'', jnat (rsr_count r))])"

definition report_cycle_time :: "report_query \<Rightarrow> json option svc" where
  "report_cycle_time q = ranged_report q ''rows'' getRequestCycleTime
     (\<lambda>r. [(''type'', JStr (ctr_type r)), (''total'', jnat (ctr_total r)), (''avgHours'', JStr (numeric_text 2 (ctr_avg_hours r))),
           (''p50Hours'', JStr (numeric_text 2 (ctr_p50_hours r))), (''p90Hours'', JStr (numeric_text 2 (ctr_p90_hours r)))])"

definition report_sla_compliance :: "report_query \<Rightarrow> json option svc" where
  "report_sla_compliance q = ranged_report q ''rows'' getRequestSlaCompliance
     (\<lambda>r. [(''type'', JStr (scr_type r)), (''totalWithSla'', jnat (scr_total_with_sla r)), (''resolved'', jnat (scr_resolved r)),
           (''withinSla'', jnat (scr_within_sla r)), (''breached'', jnat (scr_breached r)),
           (''complianceRatePct'', case scr_rate_pct r of None \<Rightarrow> JNull | Some n \<Rightarrow> JStr (numeric_text 1 n))])"

definition report_queue_depth :: "json option svc" where
  "report_queue_depth = current_report getRequestQueueDepth
     (\<lambda>r. [(''type'', JStr (qdr_type r)), (''pending'', jnat (qdr_pending r)), (''inReview'', jnat (qdr_in_review r)),
           (''atRisk'', jnat (qdr_at_risk r)), (''total'', jnat (qdr_total r))])"

definition report_throughput :: "report_query \<Rightarrow> json option svc" where
  "report_throughput q = ranged_report q ''points'' getRequestThroughput
     (\<lambda>r. [(''day'', JStr (tpp_day r)), (''submitted'', jnat (tpp_submitted r)), (''resolved'', jnat (tpp_resolved r))])"

text \<open>The reports without a filter by type ignore \<open>rpq_type\<close>, which their query does not have.\<close>

definition report_findings :: "report_query \<Rightarrow> json option svc" where
  "report_findings q = ranged_report q ''rows'' getComplianceFindingsSummary
     (\<lambda>r. [(''severity'', JStr (finding_severity_name (fsr_severity r))), (''open'', jnat (fsr_open r)),
           (''inRemediation'', jnat (fsr_in_remediation r)), (''resolved'', jnat (fsr_resolved r)), (''total'', jnat (fsr_total r))])"

definition report_asset_utilization :: "json option svc" where
  "report_asset_utilization = current_report getAssetUtilization
     (\<lambda>r. [(''type'', JStr (asset_type_name (aur_type r))), (''inStock'', jnat (aur_in_stock r)), (''assigned'', jnat (aur_assigned r)),
           (''retired'', jnat (aur_retired r)), (''inRepair'', jnat (aur_in_repair r)), (''total'', jnat (aur_total r)),
           (''utilizationPct'', JStr (numeric_text 1 (aur_utilization_pct r)))])"

definition report_leave :: "report_query \<Rightarrow> json option svc" where
  "report_leave q = ranged_report q ''rows'' getLeaveSummary
     (\<lambda>r. [(''leaveType'', JStr (leave_type_name (lsr_leave_type r))), (''status'', JStr (leave_status_name (lsr_status r))),
           (''count'', jnat (lsr_count r))])"

definition report_overtime :: "report_query \<Rightarrow> json option svc" where
  "report_overtime q = ranged_report q ''rows'' getOvertimeSummary
     (\<lambda>r. [(''status'', JStr (overtime_status_name (osr_status r))), (''count'', jnat (osr_count r)),
           (''totalHours'', JStr (numeric_text 2 (osr_total_hours r))), (''avgHours'', JStr (numeric_text 2 (osr_avg_hours r)))])"

datatype reports_op =
    ReportRequestSummary report_query
  | ReportCycleTime report_query
  | ReportSlaCompliance report_query
  | ReportQueueDepth
  | ReportThroughput report_query
  | ReportFindings report_query
  | ReportAssetUtilization
  | ReportLeave report_query
  | ReportOvertime report_query

definition report_route :: route where
  "report_route = RequirePermission ''reports.read''"

fun reports_endpoint :: "reports_op \<Rightarrow> endpoint" where
  "reports_endpoint (ReportRequestSummary q) = endpoint ''GET'' ''reports/requests/summary'' report_route (\<lambda>rq. report_request_summary q)"
| "reports_endpoint (ReportCycleTime q) = endpoint ''GET'' ''reports/requests/cycle-time'' report_route (\<lambda>rq. report_cycle_time q)"
| "reports_endpoint (ReportSlaCompliance q) = endpoint ''GET'' ''reports/requests/sla-compliance'' report_route (\<lambda>rq. report_sla_compliance q)"
| "reports_endpoint ReportQueueDepth = endpoint ''GET'' ''reports/requests/queue'' report_route (\<lambda>rq. report_queue_depth)"
| "reports_endpoint (ReportThroughput q) = endpoint ''GET'' ''reports/requests/throughput'' report_route (\<lambda>rq. report_throughput q)"
| "reports_endpoint (ReportFindings q) = endpoint ''GET'' ''reports/compliance/findings'' report_route (\<lambda>rq. report_findings q)"
| "reports_endpoint ReportAssetUtilization = endpoint ''GET'' ''reports/assets/utilization'' report_route (\<lambda>rq. report_asset_utilization)"
| "reports_endpoint (ReportLeave q) = endpoint ''GET'' ''reports/workforce/leave'' report_route (\<lambda>rq. report_leave q)"
| "reports_endpoint (ReportOvertime q) = endpoint ''GET'' ''reports/workforce/overtime'' report_route (\<lambda>rq. report_overtime q)"

end
