(* ===== verification/Posture.thy ===== *)
theory Posture
  imports Reports
begin

text \<open>
  The security posture (\<^verbatim>\<open>libs/modules/security-posture\<close>): snapshots of the secure score and the baseline checks
  copied from Microsoft Graph, whose answers are a parameter.  Scores are in hundredths.
\<close>

section \<open>What Graph answers\<close>

record graph_secure_score =
  gss_created :: string
  gss_current :: int
  gss_max :: int

record graph_control =
  gct_title :: string
  gct_category :: "string option"
  gct_status :: "string option"
  gct_score :: int
  gct_max :: int

record posture_api =
  pa_scores :: "timestamp \<Rightarrow> exn + graph_secure_score list option"
  pa_controls :: "timestamp \<Rightarrow> exn + graph_control list option"

section \<open>Synchronisation\<close>

text \<open>\<^verbatim>\<open>(current / max) * 100\<close> to two digits; quotients of scores that are not negative.\<close>

definition score_percentage :: "graph_secure_score \<Rightarrow> int" where
  "score_percentage s = (if gss_max s > 0 then round_div (10000 * gss_current s) (gss_max s) else 0)"

text \<open>No unique constraint names the date, so \<^verbatim>\<open>onConflictDoNothing\<close> never applies.\<close>

definition syncSecureScore :: "posture_api \<Rightarrow> (int \<times> int \<times> int) option svc" where
  "syncSecureScore api =
     mbind (mgets w_graph_enabled) (\<lambda>enabled.
     if \<not> enabled then mret None
     else mbind (outside_call (pa_scores api)) (\<lambda>res.
          case res of
            None \<Rightarrow> mret None
          | Some [] \<Rightarrow> mret None
          | Some (latest # _) \<Rightarrow>
              mbind newId (\<lambda>rowId. mbind now (\<lambda>t.
              mbind (exec (t_score_snapshots_update (insert_row \<lparr>sn_id = rowId, sn_score = gss_current latest,
                       sn_max_score = gss_max latest, sn_percentage = score_percentage latest,
                       sn_date = takeWhile (\<lambda>c. c \<noteq> CHR ''T'') (gss_created latest), sn_created_at = t\<rparr>))) (\<lambda>_.
              mret (Some (gss_current latest, gss_max latest, score_percentage latest)))))))"

definition mapControlStatus :: "string option \<Rightarrow> string" where
  "mapControlStatus status =
     (if status = Some ''implemented'' then ''pass''
      else if status = Some ''notImplemented'' then ''fail''
      else if status = Some ''planned'' then ''warning''
      else if status = Some ''ignored'' then ''warning''
      else ''not_applicable'')"

text \<open>\<^verbatim>\<open>String.includes\<close>.\<close>

fun text_includes :: "string \<Rightarrow> string \<Rightarrow> bool" where
  "text_includes [] sub = (sub = [])"
| "text_includes (c # s) sub = (take (length sub) (c # s) = sub \<or> text_includes s sub)"

definition mapControlCategory :: "string option \<Rightarrow> string" where
  "mapControlCategory category =
     (let lower = (case category of None \<Rightarrow> [] | Some c \<Rightarrow> toLowerCase c) in
      if text_includes lower ''asr'' \<or> text_includes lower ''attack'' then ''asr''
      else if text_includes lower ''firewall'' \<or> text_includes lower ''network'' then ''firewall''
      else if text_includes lower ''encrypt'' then ''encryption''
      else if text_includes lower ''device'' \<or> text_includes lower ''endpoint'' then ''endpoint''
      else if text_includes lower ''identity'' \<or> text_includes lower ''account'' then ''identity''
      else ''other'')"

definition control_check :: "timestamp \<Rightarrow> graph_control \<Rightarrow> uuid \<Rightarrow> baseline_check" where
  "control_check t c rowId = \<lparr>bl_id = rowId, bl_category = mapControlCategory (gct_category c), bl_check_name = gct_title c,
     bl_status = mapControlStatus (gct_status c), bl_device = None, bl_device_name = None, bl_expected = Some (gct_max c),
     bl_actual = Some (gct_score c), bl_details = gct_category c, bl_checked_at = t\<rparr>"

fun control_checks :: "timestamp \<Rightarrow> graph_control list \<Rightarrow> baseline_check list svc" where
  "control_checks t [] = mret []"
| "control_checks t (c # cs) = mbind newId (\<lambda>rowId. mbind (control_checks t cs) (\<lambda>rows. mret (control_check t c rowId # rows)))"

text \<open>The name of a check has at most 300 characters; Postgres refuses the whole insert otherwise.\<close>

definition check_fits :: "baseline_check \<Rightarrow> bool" where
  "check_fits r \<longleftrightarrow> length (bl_check_name r) \<le> 300"

definition insert_checks :: "baseline_check list \<Rightarrow> unit svc" where
  "insert_checks rows =
     mbind (throw_if (\<not> list_all check_fits rows) (PlainError ''value too long'')) (\<lambda>_.
     exec (t_baseline_checks_update (\<lambda>t. t @ rows)))"

text \<open>The deletion and the insertion are two statements outside a transaction.\<close>

definition syncBaselineChecks :: "posture_api \<Rightarrow> nat svc" where
  "syncBaselineChecks api =
     mbind (mgets w_graph_enabled) (\<lambda>enabled.
     if \<not> enabled then mret 0
     else mbind (outside_call (pa_controls api)) (\<lambda>res.
          let controls = (case res of None \<Rightarrow> [] | Some cs \<Rightarrow> cs) in
          mbind now (\<lambda>t.
          mbind (exec (t_baseline_checks_update (\<lambda>_. []))) (\<lambda>_.
          mbind (control_checks t controls) (\<lambda>rows.
          mbind (mwhen (rows \<noteq> []) (insert_checks rows)) (\<lambda>_.
          mret (length rows)))))))"

text \<open>The timer: a failure is logged.\<close>

definition syncSecurityPosture :: "posture_api \<Rightarrow> unit svc" where
  "syncSecurityPosture api =
     mbind (mgets w_graph_enabled) (\<lambda>enabled.
     if \<not> enabled then mret ()
     else mtry (mbind (syncSecureScore api) (\<lambda>_. mbind (syncBaselineChecks api) (\<lambda>_. mret ()))) (\<lambda>_. mret ()))"

section \<open>Queries\<close>

definition getScoreHistory :: "nat \<Rightarrow> (string \<times> int) list svc" where
  "getScoreHistory days = mbind now (\<lambda>t.
     let cutoffDate = iso_day (day_of (t - int days * 86400000)) in
     query (\<lambda>d. map (\<lambda>s. (sn_date s, sn_percentage s))
       (take days (sort_key sn_date (select_where (\<lambda>s. cutoffDate \<le> sn_date s) (t_score_snapshots d))))))"

text \<open>\<^verbatim>\<open>orderBy(desc(scoreDate)).limit(1)\<close>: of several rows of the last date the first one.\<close>

definition getLatestScore :: "score_snapshot option svc" where
  "getLatestScore = query (\<lambda>d. case sort_key sn_date (t_score_snapshots d) of
     [] \<Rightarrow> None | xs \<Rightarrow> find_where (\<lambda>s. sn_date s = sn_date (last xs)) (t_score_snapshots d))"

definition getBaselineChecks :: "string option \<Rightarrow> baseline_check list svc" where
  "getBaselineChecks category = query (\<lambda>d. sort_key (\<lambda>r. (bl_category r, bl_check_name r))
     (select_where (\<lambda>r. opt_text category (\<lambda>c. bl_category r = c)) (t_baseline_checks d)))"

record baseline_counts =
  bc_pass :: nat
  bc_fail :: nat
  bc_warning :: nat
  bc_total :: nat

definition no_counts :: baseline_counts where
  "no_counts = \<lparr>bc_pass = 0, bc_fail = 0, bc_warning = 0, bc_total = 0\<rparr>"

definition count_check :: "string \<Rightarrow> baseline_counts \<Rightarrow> baseline_counts" where
  "count_check status n =
     (let n' = n\<lparr>bc_total := Suc (bc_total n)\<rparr> in
      if status = ''pass'' then n'\<lparr>bc_pass := Suc (bc_pass n)\<rparr>
      else if status = ''fail'' then n'\<lparr>bc_fail := Suc (bc_fail n)\<rparr>
      else if status = ''warning'' then n'\<lparr>bc_warning := Suc (bc_warning n)\<rparr>
      else n')"

text \<open>The object \<^verbatim>\<open>summary\<close>, its properties in the order in which they appear.\<close>

fun summarize :: "(string \<times> baseline_counts) list \<Rightarrow> baseline_check \<Rightarrow> (string \<times> baseline_counts) list" where
  "summarize [] r = [(bl_category r, count_check (bl_status r) no_counts)]"
| "summarize ((c, n) # rest) r =
     (if c = bl_category r then (c, count_check (bl_status r) n) # rest else (c, n) # summarize rest r)"

definition getBaselineSummary :: "(string \<times> baseline_counts) list svc" where
  "getBaselineSummary = query (\<lambda>d. foldl summarize [] (t_baseline_checks d))"

section \<open>The controller\<close>

definition js_hundredths :: "int \<Rightarrow> string" where
  "js_hundredths n = (let m = nat \<bar>n\<bar>; sign = (if n < 0 then ''-'' else []) in
     if m mod 100 = 0 then sign @ nat_str (m div 100)
     else if m mod 10 = 0 then sign @ nat_str (m div 100) @ ''.'' @ nat_str (m div 10 mod 10)
     else sign @ nat_str (m div 100) @ ''.'' @ pad_left 2 (nat_str (m mod 100)))"

definition snapshot_json :: "score_snapshot \<Rightarrow> json" where
  "snapshot_json s = JObj [(''id'', JStr (sn_id s)), (''score'', JStr (numeric_text 2 (sn_score s))),
     (''maxScore'', JStr (numeric_text 2 (sn_max_score s))), (''percentageScore'', JStr (numeric_text 2 (sn_percentage s))),
     (''scoreDate'', JStr (sn_date s)), (''createdAt'', JDate (sn_created_at s))]"

definition check_json :: "baseline_check \<Rightarrow> json" where
  "check_json r = JObj [(''id'', JStr (bl_id r)), (''category'', JStr (bl_category r)), (''checkName'', JStr (bl_check_name r)),
     (''status'', JStr (bl_status r)), (''deviceId'', jstr_or_null (bl_device r)), (''deviceName'', jstr_or_null (bl_device_name r)),
     (''expectedValue'', jstr_or_null (map_option js_hundredths (bl_expected r))),
     (''actualValue'', jstr_or_null (map_option js_hundredths (bl_actual r))), (''details'', jstr_or_null (bl_details r)),
     (''checkedAt'', JDate (bl_checked_at r))]"

definition counts_json :: "baseline_counts \<Rightarrow> json" where
  "counts_json n = JObj [(''pass'', jnat (bc_pass n)), (''fail'', jnat (bc_fail n)), (''warning'', jnat (bc_warning n)),
     (''total'', jnat (bc_total n))]"

definition posture_score :: "json option svc" where
  "posture_score = mbind getLatestScore (\<lambda>latest.
     answer [(''latest'', case latest of None \<Rightarrow> JNull | Some s \<Rightarrow> snapshot_json s)])"

text \<open>\<^verbatim>\<open>days\<close> is between 7 and 90, by default 30.\<close>

definition history_days :: "int option \<Rightarrow> nat option" where
  "history_days days = (let n = (case days of None \<Rightarrow> 30 | Some n \<Rightarrow> n) in if 7 \<le> n \<and> n \<le> 90 then Some (nat n) else None)"

definition posture_history :: "int option \<Rightarrow> json option svc" where
  "posture_history days =
     mbind (or_throw (history_days days) (HttpException 422 None)) (\<lambda>n.
     mbind (getScoreHistory n) (\<lambda>history.
     answer [(''history'', JArr (map (\<lambda>(date, percentage).
         JObj [(''scoreDate'', JStr date), (''percentageScore'', JStr (numeric_text 2 percentage))]) history)),
       (''days'', jnat n)]))"

definition BASELINE_CATEGORIES :: "string list" where
  "BASELINE_CATEGORIES = [''asr'', ''firewall'', ''encryption'', ''endpoint'', ''identity'', ''other'']"

definition posture_baseline :: "string option \<Rightarrow> json option svc" where
  "posture_baseline category =
     mbind (zod (case category of None \<Rightarrow> True | Some c \<Rightarrow> c \<in> set BASELINE_CATEGORIES)) (\<lambda>_.
     mbind (getBaselineChecks category) (\<lambda>checks. mbind getBaselineSummary (\<lambda>summary.
     answer [(''checks'', JArr (map check_json checks)), (''summary'', JObj (map (\<lambda>(c, n). (c, counts_json n)) summary))])))"

definition posture_sync :: "posture_api \<Rightarrow> json option svc" where
  "posture_sync api = mbind (syncSecurityPosture api) (\<lambda>_. answer [(''ok'', JBool True)])"

datatype posture_op = PostureScore | PostureHistory "int option" | PostureBaseline "string option" | PostureSync posture_api

fun posture_endpoint :: "posture_op \<Rightarrow> endpoint" where
  "posture_endpoint PostureScore = endpoint ''GET'' ''security-posture/score'' (RequirePermission ''security.view'') (\<lambda>rq. posture_score)"
| "posture_endpoint (PostureHistory n) = endpoint ''GET'' ''security-posture/score/history'' (RequirePermission ''security.view'')
     (\<lambda>rq. posture_history n)"
| "posture_endpoint (PostureBaseline c) = endpoint ''GET'' ''security-posture/baseline'' (RequirePermission ''security.view'')
     (\<lambda>rq. posture_baseline c)"
| "posture_endpoint (PostureSync api) = endpoint ''POST'' ''security-posture/sync'' (RequirePermission ''security.manage'')
     (\<lambda>rq. posture_sync api)"

end
