(* ===== verification/Assistant.thy ===== *)
theory Assistant
  imports Posture
begin

text \<open>
  The assistant (\<^verbatim>\<open>libs/modules/ai\<close>): the loop that asks a language model, which is a parameter, and runs
  the tools it calls.  The input of a tool follows the tool's schema; its result is kept as JSON, not as the text
  of it.
\<close>

section \<open>Conversations\<close>

record tool_input =
  ti_type :: "string option"
  ti_status :: "string option"
  ti_query :: "string option"
  ti_employee :: string
  ti_limit :: "nat option"

text \<open>\<open>OtherBlock\<close>: a block that is neither text nor the call of a tool.\<close>

datatype content_block =
    TextBlock string
  | ToolUse string string tool_input
  | OtherBlock json

datatype message_role = Role_user | Role_assistant

datatype ai_message =
    ChatText message_role string
  | AssistantTurn "content_block list"
  | ToolResults "(string \<times> json) list"

record ai_response =
  air_stop :: string
  air_content :: "content_block list"

text \<open>\<open>ai_create system messages\<close> is one call of the model, with the constant tools.\<close>

record ai_env =
  ai_key_set :: bool
  ai_create :: "string \<Rightarrow> ai_message list \<Rightarrow> timestamp \<Rightarrow> exn + ai_response"

definition NL :: string where
  "NL = [CHR 0x0A]"

definition buildSystemPrompt :: "uuid \<Rightarrow> string \<Rightarrow> timestamp \<Rightarrow> string" where
  "buildSystemPrompt actorId actorRole t =
     ''You are an AI assistant embedded in OpsHub, an enterprise IT operations platform used by '' @
     actorRole @
     '' staff.'' @ NL @
     NL @
     ''The current user'' @ [CHR 0x27] @ ''s employee ID is: '' @
     actorId @
     NL @
     ''Their role is: '' @
     actorRole @
     NL @
     NL @
     ''You help with:'' @ NL @
     ''- Checking pending approval requests and their status'' @ NL @
     ''- Reviewing device compliance findings and security issues'' @ NL @
     ''- Looking up employee information and access grants'' @ NL @
     ''- Answering questions about IT operations data'' @ NL @
     ''- Providing actionable summaries and recommendations'' @ NL @
     NL @
     ''Guidelines:'' @ NL @
     ''- Be concise and direct '' @ [CHR 0xE2, CHR 0x80, CHR 0x94] @ '' enterprise users value brevity'' @ NL @
     ''- When returning data from tools, summarize key points and highlight items needing urgent attention'' @ NL @
     ''- For compliance findings, prioritize by severity (encryption issues > noncompliance)'' @ NL @
     ''- Respect access boundaries: employees can see their own requests; admins can see all'' @ NL @
     ''- If you cannot find data, say so clearly rather than guessing'' @ NL @
     ''- Format numbers clearly (counts, dates in relative terms like '' @ [CHR 0x22] @ ''3 days ago'' @ [CHR 0x22] @ '')'' @ NL @
     ''- Suggest next actions when relevant ('' @ [CHR 0x22] @ ''You have 5 pending items '' @ [CHR 0xE2, CHR 0x80, CHR 0x94] @ '' want me to list them?'' @ [CHR 0x22] @ '')'' @ NL @
     NL @
     ''Today'' @ [CHR 0x27] @ ''s date is '' @ iso_day (day_of t) @ ''.''"

section \<open>Tools\<close>

definition tool_limit :: "tool_input \<Rightarrow> nat" where
  "tool_limit input = min (case ti_limit input of None \<Rightarrow> 10 | Some n \<Rightarrow> n) 20"

definition truthy :: "string option \<Rightarrow> string option" where
  "truthy s = (if s = Some [] then None else s)"

text \<open>A text compared with a column of an enum: Postgres refuses one that is no value of it.\<close>

definition enum_param :: "('e \<Rightarrow> string) \<Rightarrow> 'e list \<Rightarrow> string \<Rightarrow> 'e svc" where
  "enum_param name values s = or_throw (find_where (\<lambda>e. name e = s) values) (PlainError ''invalid input value for enum'')"

definition opt_enum_param :: "('e \<Rightarrow> string) \<Rightarrow> 'e list \<Rightarrow> string option \<Rightarrow> 'e option svc" where
  "opt_enum_param name values s =
     (case s of None \<Rightarrow> mret None | Some x \<Rightarrow> mbind (enum_param name values x) (\<lambda>e. mret (Some e)))"

definition REQUEST_STATUSES :: "request_status list" where
  "REQUEST_STATUSES = [Req_pending, Req_in_review, Req_approved, Req_rejected, Req_cancelled, Req_expired]"

definition FINDING_STATUSES :: "finding_status list" where
  "FINDING_STATUSES = [Fi_open, Fi_acknowledged, Fi_resolved, Fi_risk_accepted]"

definition EMPLOYEE_STATUSES :: "employee_status list" where
  "EMPLOYEE_STATUSES = [Emp_active, Emp_on_leave, Emp_offboarded]"

definition toolGetPendingRequests :: "tool_input \<Rightarrow> json svc" where
  "toolGetPendingRequests input =
     mbind (list_requests \<lparr>rf_type = truthy (ti_type input), rf_requester = None, rf_assignee = None, rf_status = Some Req_pending,
       rf_my_queue = False\<rparr> ''system'' (tool_limit input) 0) (\<lambda>(rows, n).
     mret (JObj [(''total'', jnat n), (''items'', JArr (map (\<lambda>(r, approvals). JObj [(''id'', JStr (ri_id r)), (''type'', JStr (ri_type r)),
       (''requesterId'', JStr (ri_requester r)), (''status'', JStr (request_status_name (ri_status r))),
       (''priority'', JStr (priority_name (ri_priority r))), (''submittedAt'', JDate (ri_submitted_at r)),
       (''slaDeadline'', jtime_or_null (ri_sla_deadline r)), (''slaBreachedAt'', jtime_or_null (ri_sla_breached_at r))]) rows))]))"

definition toolGetComplianceFindings :: "tool_input \<Rightarrow> json svc" where
  "toolGetComplianceFindings input =
     mbind (enum_param finding_status_name FINDING_STATUSES (case ti_status input of None \<Rightarrow> ''open'' | Some s \<Rightarrow> s)) (\<lambda>status.
     mbind (query (\<lambda>d. page (tool_limit input) 0 (sort_key (\<lambda>f. - cf_detected_at f)
       (select_where (\<lambda>f. cf_status f = status) (t_findings d))))) (\<lambda>rows.
     mret (JObj [(''count'', jnat (length rows)), (''items'', JArr (map (\<lambda>f. JObj [(''id'', JStr (cf_id f)),
       (''softwareName'', JStr (cf_software f)), (''severity'', JStr (finding_severity_name (cf_severity f))),
       (''status'', JStr (finding_status_name (cf_status f))), (''source'', JStr (cf_source f)), (''assetId'', jstr_or_null (cf_asset f)),
       (''employeeId'', jstr_or_null (cf_employee f)), (''detectedAt'', JDate (cf_detected_at f))]) rows))])))"

definition toolGetActiveAccessGrants :: "tool_input \<Rightarrow> json svc" where
  "toolGetActiveAccessGrants input =
     mbind now (\<lambda>t. mbind (uuid_param (ti_employee input)) (\<lambda>_.
     mbind (query (\<lambda>d. page 20 0 (sort_key (\<lambda>g. - ag_granted_at g) (select_where (\<lambda>g. ag_grantee g = ti_employee input \<and>
       ag_revoked_at g = None \<and> t \<le> ag_expires_at g) (t_access_grants d))))) (\<lambda>rows.
     mret (JObj [(''employeeId'', JStr (ti_employee input)), (''activeGrantCount'', jnat (length rows)),
       (''grants'', JArr (map (\<lambda>g. JObj [(''id'', JStr (ag_id g)), (''accessType'', JStr (ag_access_type g)), (''target'', JStr (ag_target g)),
         (''grantedAt'', JDate (ag_granted_at g)), (''expiresAt'', JDate (ag_expires_at g))]) rows))]))))"

text \<open>The search runs on the page that the limit has already cut, and leaves out \<^verbatim>\<open>department\<close>.\<close>

definition toolSearchEmployees :: "tool_input \<Rightarrow> json svc" where
  "toolSearchEmployees input =
     mbind (opt_enum_param employee_status_name EMPLOYEE_STATUSES (truthy (ti_status input))) (\<lambda>status.
     mbind (query (\<lambda>d. page (tool_limit input) 0 (sort_key (\<lambda>e. - emp_created_at e)
       (select_where (\<lambda>e. opt_eq status (emp_status e)) (t_employees d))))) (\<lambda>rows.
     let filtered = (case truthy (map_option toLowerCase (ti_query input)) of
         None \<Rightarrow> rows
       | Some q \<Rightarrow> filter (\<lambda>e. text_includes (toLowerCase (emp_display_name e)) q \<or> text_includes (toLowerCase (emp_email e)) q) rows) in
     mret (JObj [(''count'', jnat (length filtered)), (''employees'', JArr (map (\<lambda>e. JObj [(''id'', JStr (emp_id e)),
       (''displayName'', JStr (emp_display_name e)), (''email'', JStr (emp_email e)), (''department'', jstr_or_null (emp_department e)),
       (''jobTitle'', jstr_or_null (emp_job_title e)), (''status'', JStr (employee_status_name (emp_status e)))]) filtered))])))"

definition toolGetMyRequests :: "tool_input \<Rightarrow> uuid \<Rightarrow> json svc" where
  "toolGetMyRequests input actorId =
     mbind (opt_enum_param request_status_name REQUEST_STATUSES (truthy (ti_status input))) (\<lambda>status.
     mbind (list_requests \<lparr>rf_type = None, rf_requester = truthy (Some actorId), rf_assignee = None, rf_status = status, rf_my_queue = False\<rparr>
       actorId (tool_limit input) 0) (\<lambda>(rows, n).
     mret (JObj [(''total'', jnat n), (''items'', JArr (map (\<lambda>(r, approvals). JObj [(''id'', JStr (ri_id r)), (''type'', JStr (ri_type r)),
       (''status'', JStr (request_status_name (ri_status r))), (''priority'', JStr (priority_name (ri_priority r))),
       (''submittedAt'', JDate (ri_submitted_at r)), (''resolvedAt'', jtime_or_null (ri_resolved_at r))]) rows))])))"

text \<open>The tools are returned without \<^verbatim>\<open>await\<close>, so the handler of \<^verbatim>\<open>try\<close> does not see their failures.\<close>

definition executeTool :: "string \<Rightarrow> tool_input \<Rightarrow> uuid \<Rightarrow> json svc" where
  "executeTool name input actorId =
     (if name = ''get_pending_requests'' then toolGetPendingRequests input
      else if name = ''get_compliance_findings'' then toolGetComplianceFindings input
      else if name = ''get_active_access_grants'' then toolGetActiveAccessGrants input
      else if name = ''search_employees'' then toolSearchEmployees input
      else if name = ''get_my_requests'' then toolGetMyRequests input actorId
      else mret (JObj [(''error'', JStr (''Unknown tool: '' @ name))]))"

section \<open>The loop\<close>

definition text_blocks :: "content_block list \<Rightarrow> string list" where
  "text_blocks bs = concat (map (\<lambda>b. case b of TextBlock s \<Rightarrow> [s] | _ \<Rightarrow> []) bs)"

fun run_tools :: "uuid \<Rightarrow> content_block list \<Rightarrow> (string \<times> json) list svc" where
  "run_tools actorId [] = mret []"
| "run_tools actorId (ToolUse i name input # bs) =
     mbind (executeTool name input actorId) (\<lambda>r. mbind (run_tools actorId bs) (\<lambda>rs. mret ((i, r) # rs)))"
| "run_tools actorId (b # bs) = run_tools actorId bs"

definition MAX_ITERATIONS :: nat where
  "MAX_ITERATIONS = 5"

text \<open>The first argument counts the iterations that are left.\<close>

fun chat_loop :: "nat \<Rightarrow> ai_env \<Rightarrow> uuid \<Rightarrow> string \<Rightarrow> ai_message list \<Rightarrow> string \<Rightarrow> string svc" where
  "chat_loop 0 ai actorId actorRole messages lastText = mret lastText"
| "chat_loop (Suc n) ai actorId actorRole messages lastText =
     mbind now (\<lambda>t.
     mbind (outside_call (ai_create ai (buildSystemPrompt actorId actorRole t) messages)) (\<lambda>response.
     let texts = text_blocks (air_content response);
         lastText' = (if texts \<noteq> [] then join_with NL texts else lastText) in
     if air_stop response \<noteq> ''tool_use'' then mret lastText'
     else mbind (run_tools actorId (air_content response)) (\<lambda>toolResults.
       chat_loop n ai actorId actorRole (messages @ [AssistantTurn (air_content response), ToolResults toolResults]) lastText')))"

record chat_message =
  cm_role :: message_role
  cm_content :: string

definition chat :: "ai_env \<Rightarrow> chat_message list \<Rightarrow> uuid \<Rightarrow> string \<Rightarrow> string svc" where
  "chat ai messages actorId actorRole =
     mbind (throw_if (\<not> ai_key_set ai) (HttpException 503 None)) (\<lambda>_.
     chat_loop MAX_ITERATIONS ai actorId actorRole (map (\<lambda>m. ChatText (cm_role m) (cm_content m)) messages) [])"

section \<open>The controller\<close>

definition chat_fits :: "chat_message list \<Rightarrow> bool" where
  "chat_fits ms \<longleftrightarrow> 1 \<le> length ms \<and> length ms \<le> 50 \<and> list_all (\<lambda>m. text_between 1 4000 (cm_content m)) ms"

text \<open>The role handed to the service is the e-mail address of the user.\<close>

definition ai_chat :: "ai_env \<Rightarrow> chat_message list \<Rightarrow> jwt_payload \<Rightarrow> json option svc" where
  "ai_chat ai messages u =
     mbind (zod (chat_fits messages)) (\<lambda>_.
     mbind (chat ai messages (jw_sub u) (jw_email u)) (\<lambda>message.
     answer [(''message'', JStr message)]))"

definition ai_endpoint :: "ai_env \<Rightarrow> chat_message list \<Rightarrow> endpoint" where
  "ai_endpoint ai messages = endpoint ''POST'' ''ai/chat'' (RateLimit ''AI'' Auth) (\<lambda>rq. CurrentUser rq (ai_chat ai messages))"

end
