(* ===== verification/Api_Claims.thy ===== *)
theory Api_Claims
  imports Api_Requests Api_Workforce Api_Inventory Api_Admin Api_Identity Reports Posture Assistant Scenario
begin

text \<open>
  The whole API: what its controllers have in common is stated as a locale and shown for each
  of them; the properties say what a request can do without a valid token or permission, and that
  reading changes nothing.
\<close>

section \<open>Handlers that only read\<close>

abbreviation reads :: "'a svc \<Rightarrow> bool" where
  "reads m \<equiv> keeps (same (\<lambda>d. d)) m"

lemma reads_outside: "keeps (same f) (outside_call g)"
  by (simp add: keeps_def same_def outside_call_def)

lemma reads_answer: "keeps (same f) (answer props)"
  unfolding answer_def by (intro same_rules)

lemma reads_one: "keeps (same f) m \<Longrightarrow> keeps (same f) (answer_one dto m)"
  unfolding answer_one_def by (intro same_rules reads_answer)

lemma reads_list: "keeps (same f) m \<Longrightarrow> keeps (same f) (answer_list dto m)"
  unfolding answer_list_def by (intro same_rules)

lemma reads_page: "(\<And>l k. keeps (same f) (fetch l k)) \<Longrightarrow> keeps (same f) (answer_page lim off fetch dto)"
  unfolding answer_page_def by (intro same_rules keeps_pair)

lemma reads_pipe: "keeps (same f) (ParseUUIDPipe s)" "keeps (same f) (zod b)"
  unfolding ParseUUIDPipe_def zod_def by (intro same_rules)+

lemma reads_user: "(\<And>u. keeps (same f) (h u)) \<Longrightarrow> keeps (same f) (CurrentUser rq h)"
  unfolding CurrentUser_def by (intro same_rules)

lemma reads_awaited: "keeps (same f) (awaited u)"
  unfolding awaited_def by (cases u) (auto intro: same_rules reads_outside)

lemma reads_resolve: "keeps (same f) (resolve u)"
proof (rule keepsI)
  fix w
  obtain e c where "resolve u w = (Inr e, w\<lparr>w_cache := c\<rparr>)" by (rule resolve_total)
  then show "same f w (snd (resolve u w))" by (simp add: same_def)
qed

lemma reads_idempotency: "keeps (same f) h \<Longrightarrow> keeps (same f) (idempotency_intercept rq h)"
proof -
  assume h: "keeps (same f) h"
  have "keeps (same f) (mmodify (w_cache_update u))" for u
    by (simp add: keeps_def same_def)
  with h show ?thesis
    unfolding idempotency_intercept_def run_and_store_def store_response_def Let_def
    by (auto intro!: same_rules split: option.split prod.split)
qed

lemma reads_limiter: "keeps (same f) (rate_limit_guard env tn rq)"
proof (rule keepsI)
  fix w
  obtain r w' where run: "rate_limit_guard env tn rq w = (r, w')" by fastforce
  then show "same f w (snd (rate_limit_guard env tn rq w))"
    using rate_limit_windowed [OF run] by (auto simp: same_def)
qed

lemma reads_jwt: "keeps (same f) (jwt_guard env rte rq)"
proof (rule keepsI)
  fix w
  obtain r w' where run: "jwt_guard env rte rq w = (r, w')" by fastforce
  then show "same f w (snd (jwt_guard env rte rq w))"
    using jwt_guard_passed(1) [OF run] by (simp add: same_def)
qed

lemma reads_pipeline: "(\<And>rq. keeps (same f) (handler rq)) \<Longrightarrow> keeps (same f) (handle_request env rte handler rq)"
  unfolding handle_request_def
  by (intro same_rules reads_limiter reads_jwt keeps_policy_guard reads_idempotency) (auto intro: same_rules split: sum.split)

lemmas read_rules = same_rules keeps_pair reads_answer reads_one reads_list reads_page reads_pipe reads_user reads_awaited
  reads_resolve keeps_check

section \<open>Controllers\<close>

locale controller =
  fixes endpoint_of :: "'op \<Rightarrow> endpoint" and public :: "'op \<Rightarrow> bool"
  assumes guarded: "\<not> public op \<Longrightarrow> rte_guarded (ep_route (endpoint_of op)) \<and> \<not> rte_public (ep_route (endpoint_of op))"
    and unscoped: "case rte_permission (ep_route (endpoint_of op)) of None \<Rightarrow> True | Some p \<Rightarrow> pr_scope_from p = None"
    and gets_read: "ep_method (endpoint_of op) = ''GET'' \<Longrightarrow> reads (ep_handler (endpoint_of op) rq)"
begin

lemma passed:
  assumes "serve env (endpoint_of op) rq w = (r, w')" and "\<not> public op" and "(\<exists>x. r = Inr x) \<or> w_db w' \<noteq> w_db w"
  shows "\<exists>b u ws w2. rq_bearer rq = Some b \<and> he_verify env b (w_now w) = Some u \<and> jwt_validate u (windowed ws w) = (Inr u, windowed ws w) \<and>
    policy_guard (rte_permission (ep_route (endpoint_of op))) (Some u) (windowed ws w) = (Inr True, w2)"
  using handle_request_stages [OF assms(1) [unfolded serve_def]] guarded [OF assms(2)] assms(3) by auto

lemma get_keeps:
  assumes "ep_method (endpoint_of op) = ''GET''"
  shows "w_db (snd (serve env (endpoint_of op) rq w)) = w_db w"
  using reads_pipeline [of "\<lambda>d. d" "ep_handler (endpoint_of op)", OF gets_read [OF assms]]
  by (simp add: serve_def keeps_def same_def)

end

lemmas route_defs = endpoint_def Auth_def RequirePermission_def Public_def RateLimit_def open_route_def

lemmas requests_reads = requests_list_def requests_get_def requests_comments_def mustGetById_def getById_def list_requests_def
  listComments_def

lemmas access_reads = accesses_list_def accesses_get_def accesses_my_grants_def access_list_def access_getById_def
  access_listActiveGrants_def
lemmas catalog_reads = catalogs_list_def catalogs_get_def catalog_list_def getItem_def findItemById_def
lemmas workforce_reads = timesheets_list_def leaves_list_def overtimes_list_def shifts_list_def document_url_def listTimesheets_def
  listLeave_def listOvertime_def listShiftLogs_def getLeaveDocumentUrl_def getLeave_def findLeaveById_def presignGet_def
lemmas inventory_reads = assets_list_def assets_get_def assets_assignments_def photo_url_def asset_list_def getAsset_def findAssetById_def
  asset_listAssignments_def asset_assignments_def getPhotoUrl_def presignGet_def licenses_list_def licenses_utilization_def
  licenses_get_def licenses_assignments_def license_list_def license_getUtilization_def getLicense_def findLicenseById_def
  license_listAssignments_def seats_def softwares_list_def softwares_get_def findings_list_def findings_get_def shadow_it_list_def
  listSoftware_def getSoftware_def findSoftwareById_def listFindings_def getFinding_def findFindingById_def listShadowItFindings_def
lemmas admin_reads = permissions_list_def roles_list_def roles_get_def user_assignments_def delegations_list_def listPermissions_def
  role_list_def getRole_def role_findById_def role_find_def listForUser_def delegation_list_to_def delegation_list_from_def
  audits_list_def audit_list_def webhooks_list_def webhooks_get_def webhooks_deliveries_def webhook_list_def webhook_getById_def
  listDeliveries_def
lemmas identity_reads = employees_list_def employees_get_def avatar_url_def listEmployees_def getEmployee_def findEmployeeById_def
  getAvatarUrl_def presignGet_def session_me_def inbox_list_def inbox_unread_count_def preferences_list_def notifications_list_def
  unreadCount_def listPreferences_def

lemmas report_defs = report_route_def report_request_summary_def report_cycle_time_def report_sla_compliance_def report_queue_depth_def
  report_throughput_def report_findings_def report_asset_utilization_def report_leave_def report_overtime_def
lemmas report_reads = ranged_report_def current_report_def getRequestSummary_def getRequestCycleTime_def getRequestSlaCompliance_def
  getRequestQueueDepth_def getRequestThroughput_def getComplianceFindingsSummary_def getAssetUtilization_def getLeaveSummary_def
  getOvertimeSummary_def
lemmas posture_reads = posture_score_def posture_history_def posture_baseline_def getLatestScore_def getScoreHistory_def
  getBaselineChecks_def getBaselineSummary_def

text \<open>The controllers together; the logins, the refresh and the
  probes are the public operations.\<close>

datatype api_op =
    Requests requests_op
  | Access access_op
  | Catalog catalog_op
  | Workforce workforce_op
  | Assets assets_op
  | Licenses licenses_op
  | Compliance compliance_op
  | Authz authz_op
  | AuditLogs audit_filters "int option" "int option"
  | Webhooks webhooks_op
  | Employees employees_op
  | Session session_op
  | Inbox inbox_op
  | Reports reports_op
  | SecurityPosture posture_op
  | Ai "chat_message list"
  | NotificationStream
  | Health health_op

record api_env =
  en_http :: http_env
  en_s3 :: s3
  en_auth :: auth_env
  en_prod :: bool
  en_ai :: ai_env
  en_health :: health_env

fun api_endpoint :: "api_env \<Rightarrow> api_op \<Rightarrow> endpoint" where
  "api_endpoint env (Requests op) = requests_endpoint op"
| "api_endpoint env (Access op) = access_endpoint op"
| "api_endpoint env (Catalog op) = catalog_endpoint op"
| "api_endpoint env (Workforce op) = workforce_endpoint (en_s3 env) op"
| "api_endpoint env (Assets op) = assets_endpoint (en_s3 env) op"
| "api_endpoint env (Licenses op) = licenses_endpoint op"
| "api_endpoint env (Compliance op) = compliance_endpoint op"
| "api_endpoint env (Authz op) = authz_endpoint op"
| "api_endpoint env (AuditLogs f lim off) = audits_endpoint f lim off"
| "api_endpoint env (Webhooks op) = webhooks_endpoint op"
| "api_endpoint env (Employees op) = employees_endpoint (en_s3 env) op"
| "api_endpoint env (Session op) = session_endpoint (en_auth env) (en_prod env) op"
| "api_endpoint env (Inbox op) = inbox_endpoint op"
| "api_endpoint env (Reports op) = reports_endpoint op"
| "api_endpoint env (SecurityPosture op) = posture_endpoint op"
| "api_endpoint env (Ai messages) = ai_endpoint (en_ai env) messages"
| "api_endpoint env NotificationStream = stream_endpoint"
| "api_endpoint env (Health op) = health_endpoint (en_health env) op"

fun public_op :: "api_op \<Rightarrow> bool" where
  "public_op (Session (EntraLogin i)) = True"
| "public_op (Session (DevLogin e)) = True"
| "public_op (Session Refresh) = True"
| "public_op (Health h) = True"
| "public_op op = False"

section \<open>Every controller\<close>

interpretation requests: controller "requests_endpoint" "\<lambda>_. False"
proof
  fix op rq
  show "reads (ep_handler (requests_endpoint op) rq)" if "ep_method (requests_endpoint op) = ''GET''"
    using that by (cases op) (auto simp: route_defs requests_reads intro!: read_rules)
qed (case_tac op; simp add: route_defs)+

interpretation access: controller "access_endpoint" "\<lambda>_. False"
proof
  fix op rq
  show "reads (ep_handler (access_endpoint op) rq)" if "ep_method (access_endpoint op) = ''GET''"
    using that by (cases op) (auto simp: route_defs access_reads intro!: read_rules)
qed (case_tac op; simp add: route_defs)+

interpretation catalog: controller "catalog_endpoint" "\<lambda>_. False"
proof
  fix op rq
  show "reads (ep_handler (catalog_endpoint op) rq)" if "ep_method (catalog_endpoint op) = ''GET''"
    using that by (cases op) (auto simp: route_defs catalog_reads intro!: read_rules)
qed (case_tac op; simp add: route_defs)+

interpretation workforce: controller "workforce_endpoint s3" "\<lambda>_. False" for s3
proof
  fix op rq
  show "reads (ep_handler (workforce_endpoint s3 op) rq)" if "ep_method (workforce_endpoint s3 op) = ''GET''"
    using that by (cases op) (auto simp: route_defs workforce_reads intro!: read_rules)
qed (case_tac op; simp add: route_defs)+

interpretation assets: controller "assets_endpoint s3" "\<lambda>_. False" for s3
proof
  fix op rq
  show "reads (ep_handler (assets_endpoint s3 op) rq)" if "ep_method (assets_endpoint s3 op) = ''GET''"
    using that by (cases op) (auto simp: route_defs inventory_reads intro!: read_rules)
qed (case_tac op; simp add: route_defs)+

interpretation licenses: controller "licenses_endpoint" "\<lambda>_. False"
proof
  fix op rq
  show "reads (ep_handler (licenses_endpoint op) rq)" if "ep_method (licenses_endpoint op) = ''GET''"
    using that by (cases op) (auto simp: route_defs inventory_reads intro!: read_rules)
qed (case_tac op; simp add: route_defs)+

interpretation compliance: controller "compliance_endpoint" "\<lambda>_. False"
proof
  fix op rq
  show "reads (ep_handler (compliance_endpoint op) rq)" if "ep_method (compliance_endpoint op) = ''GET''"
    using that by (cases op) (auto simp: route_defs inventory_reads intro!: read_rules)
qed (case_tac op; simp add: route_defs)+

interpretation authz: controller "authz_endpoint" "\<lambda>_. False"
proof
  fix op rq
  show "reads (ep_handler (authz_endpoint op) rq)" if "ep_method (authz_endpoint op) = ''GET''"
    using that by (cases op) (auto simp: route_defs admin_reads intro!: read_rules)
qed (case_tac op; simp add: route_defs)+

interpretation webhooks: controller "webhooks_endpoint" "\<lambda>_. False"
proof
  fix op rq
  show "reads (ep_handler (webhooks_endpoint op) rq)" if "ep_method (webhooks_endpoint op) = ''GET''"
    using that by (cases op) (auto simp: route_defs admin_reads intro!: read_rules)
qed (case_tac op; simp add: route_defs)+

interpretation employees: controller "employees_endpoint s3" "\<lambda>_. False" for s3
proof
  fix op rq
  show "reads (ep_handler (employees_endpoint s3 op) rq)" if "ep_method (employees_endpoint s3 op) = ''GET''"
    using that by (cases op) (auto simp: route_defs identity_reads intro!: read_rules)
qed (case_tac op; simp add: route_defs)+

interpretation inbox: controller "inbox_endpoint" "\<lambda>_. False"
proof
  fix op rq
  show "reads (ep_handler (inbox_endpoint op) rq)" if "ep_method (inbox_endpoint op) = ''GET''"
    using that by (cases op) (auto simp: route_defs identity_reads intro!: read_rules)
qed (case_tac op; simp add: route_defs)+

interpretation reports: controller "reports_endpoint" "\<lambda>_. False"
proof
  fix op rq
  show "reads (ep_handler (reports_endpoint op) rq)" if "ep_method (reports_endpoint op) = ''GET''"
    by (cases op) (auto simp: route_defs report_defs report_reads Let_def split: prod.split intro!: read_rules)
qed (case_tac op; simp add: route_defs report_defs)+

interpretation posture: controller "posture_endpoint" "\<lambda>_. False"
proof
  fix op rq
  show "reads (ep_handler (posture_endpoint op) rq)" if "ep_method (posture_endpoint op) = ''GET''"
    using that by (cases op) (auto simp: route_defs posture_reads Let_def intro!: read_rules)
qed (case_tac op; simp add: route_defs)+

interpretation assistant: controller "ai_endpoint ai" "\<lambda>_. False" for ai
  by unfold_locales (simp_all add: ai_endpoint_def route_defs)

definition session_public :: "session_op \<Rightarrow> bool" where
  "session_public op = (case op of Logout \<Rightarrow> False | Me \<Rightarrow> False | _ \<Rightarrow> True)"

interpretation session: controller "session_endpoint env isProd" session_public for env isProd
proof
  fix op rq
  show "reads (ep_handler (session_endpoint env isProd op) rq)" if "ep_method (session_endpoint env isProd op) = ''GET''"
    using that by (cases op) (auto simp: route_defs identity_reads intro!: read_rules)
qed (case_tac op; simp add: route_defs session_public_def)+

interpretation health: controller "health_endpoint env" "\<lambda>_. True" for env
proof
  fix op rq
  show "reads (ep_handler (health_endpoint env op) rq)"
    by (cases op) (auto simp: route_defs healthz_def readyz_def intro!: read_rules reads_outside)
qed (case_tac op; simp add: route_defs)+

interpretation stream: controller "\<lambda>_ :: unit. stream_endpoint" "\<lambda>_. False"
  by unfold_locales (auto simp: stream_endpoint_def notifications_stream_def unreadCount_def route_defs intro!: read_rules)

lemma audits_guarded:
  "case rte_permission (ep_route (audits_endpoint f lim off)) of None \<Rightarrow> True | Some p \<Rightarrow> pr_scope_from p = None"
  "rte_guarded (ep_route (audits_endpoint f lim off)) \<and> \<not> rte_public (ep_route (audits_endpoint f lim off))"
  "reads (ep_handler (audits_endpoint f lim off) rq)"
  by (auto simp: audits_endpoint_def route_defs admin_reads intro!: read_rules)

lemma public_session: "public_op (Session op) = session_public op"
  by (cases op) (simp_all add: session_public_def)

text \<open>The laws of the controllers give those of the API.\<close>

interpretation api: controller "api_endpoint env" public_op for env
proof
  fix op
  show "rte_guarded (ep_route (api_endpoint env op)) \<and> \<not> rte_public (ep_route (api_endpoint env op))" if "\<not> public_op op"
    using that requests.guarded access.guarded catalog.guarded workforce.guarded assets.guarded licenses.guarded compliance.guarded
      authz.guarded webhooks.guarded employees.guarded inbox.guarded reports.guarded posture.guarded assistant.guarded session.guarded stream.guarded audits_guarded(2)
    by (cases op) (simp_all add: public_session)
  show "case rte_permission (ep_route (api_endpoint env op)) of None \<Rightarrow> True | Some p \<Rightarrow> pr_scope_from p = None"
    using requests.unscoped access.unscoped catalog.unscoped workforce.unscoped assets.unscoped licenses.unscoped
      compliance.unscoped authz.unscoped webhooks.unscoped employees.unscoped inbox.unscoped reports.unscoped posture.unscoped assistant.unscoped session.unscoped
      health.unscoped stream.unscoped audits_guarded(1)
    by (cases op) (simp_all del: requests_endpoint.simps)
  fix rq
  show "reads (ep_handler (api_endpoint env op) rq)" if "ep_method (api_endpoint env op) = ''GET''"
    using that requests.gets_read access.gets_read catalog.gets_read workforce.gets_read assets.gets_read licenses.gets_read
      compliance.gets_read authz.gets_read webhooks.gets_read employees.gets_read inbox.gets_read reports.gets_read posture.gets_read assistant.gets_read session.gets_read
      health.gets_read stream.gets_read audits_guarded(3)
    by (cases op) (simp_all del: requests_endpoint.simps)
qed

section \<open>Tokens and permissions\<close>

definition required_permission :: "api_env \<Rightarrow> api_op \<Rightarrow> string option" where
  "required_permission env op = map_option pr_permission (rte_permission (ep_route (api_endpoint env op)))"

text \<open>No route of these controllers names a resource to check the scope against.\<close>

lemma unscoped_permission:
  "rte_permission (ep_route (api_endpoint env op)) = map_option (\<lambda>p. \<lparr>pr_permission = p, pr_scope_from = None\<rparr>) (required_permission env op)"
  using api.unscoped [of env op] by (cases "rte_permission (ep_route (api_endpoint env op))") (auto simp: required_permission_def split: option.splits)

text \<open>C11: nothing passes the guards without a token.  Whenever a request to any operation of the
  controllers but the two logins, the refresh and the two health probes is answered normally or changes a
  table, it carried a token that verifies and whose session and employee are not marked as revoked in the
  cache; and if the route names a permission and neither a cached decision for the user nor an outage of
  the permission query stands in the way, the user holds it, by an unexpired assignment of a role that carries the
  permission or the wildcard at that moment.\<close>

theorem api_protected:
  assumes "serve (en_http env) (api_endpoint env op) rq w = (r, w')" and "\<not> public_op op"
    and "(\<exists>x. r = Inr x) \<or> w_db w' \<noteq> w_db w"
  shows "\<exists>b u. rq_bearer rq = Some b \<and> he_verify (en_http env) b (w_now w) = Some u \<and>
    \<not> (c_enabled (w_cache w) \<and> (mark_alive (w_now w) (c_revoked_session (w_cache w) (jw_jti u)) \<or> mark_alive (w_now w) (c_revoked_employee (w_cache w) (jw_sub u)))) \<and>
    (case required_permission env op of None \<Rightarrow> True
     | Some p \<Rightarrow> cold (jw_sub u) w \<and> \<not> w_perm_outage w \<longrightarrow> holds (w_db w) (w_now w) (jw_sub u) p)"
proof -
  obtain b u ws w2 where u: "rq_bearer rq = Some b" "he_verify (en_http env) b (w_now w) = Some u"
    "jwt_validate u (windowed ws w) = (Inr u, windowed ws w)"
    "policy_guard (rte_permission (ep_route (api_endpoint env op))) (Some u) (windowed ws w) = (Inr True, w2)"
    using api.passed [OF assms] by auto
  have "holds (w_db w) (w_now w) (jw_sub u) p"
    if "required_permission env op = Some p" "cold (jw_sub u) w" "\<not> w_perm_outage w" for p
    using policy_guard_cold [of u "windowed ws w" "\<lparr>pr_permission = p, pr_scope_from = None\<rparr>"] that u(4)
    by (simp add: unscoped_permission split: if_splits)
  with u show ?thesis
    by (intro exI [of _ b] exI [of _ u]) (auto simp: jwt_validate_def split: option.split if_splits)
qed

definition visitor :: http_env where
  "visitor = \<lparr>he_hash = (\<lambda>c. rev c), he_verify = (\<lambda>b t. if b = ''good'' then Some
     \<lparr>jw_jti = ''j'', jw_sub = ''root'', jw_email = ''root@x'', jw_roles = [''admin''], jw_name = ''Root'', jw_exp = 900\<rparr> else None),
     he_eval_fails = (\<lambda>t. False)\<rparr>"

definition visit :: http_request where
  "visit = \<lparr>rq_method = ''GET'', rq_bearer = Some ''good'', rq_real_ip = None, rq_forwarded_for = None, rq_ip = Some ''10.0.0.9'',
     rq_refresh_cookie = None, rq_idempotency_key = None, rq_user = None\<rparr>"

lemma permissions_served: "\<exists>w'. serve visitor (authz_endpoint PermissionsList) visit base_world = (Inr (Some (JArr [])), w')"
  by (simp add: serve_def handle_request_def rate_limit_guard_def RATE_LIMIT_TIERS_def route_defs visit_def visitor_def rate_limit_key_def
      client_ip_def or_else_def sliding_window_def jwt_guard_def jwt_validate_def mark_alive_def role_guard_def policy_guard_def
      idempotency_intercept_def IDEMPOTENT_METHODS_def permissions_list_def answer_list_def listPermissions_def
      run_db run_authz run_base throw_if_def del: mbind_assoc cong: mbind_weak_cong)

definition sample_api :: api_env where
  "sample_api = \<lparr>en_http = visitor,
     en_s3 = \<lparr>s3_cdn = None, s3_bucket = None, s3_head = (\<lambda>key t. Inr None), s3_sign_put = (\<lambda>key mime size ttl t. Inr key),
       s3_sign_get = (\<lambda>key ttl t. Inr key)\<rparr>,
     en_auth = \<lparr>au_hash = (\<lambda>s. s), au_raw = (\<lambda>n. replicate n CHR ''r''), au_verify = (\<lambda>_ _. Inr []), au_sign = (\<lambda>_ _. Inr ''jwt''),
       au_tenant = None, au_client = None, au_refresh_days = 7, au_access_expiry = ''15m''\<rparr>,
     en_prod = True, en_ai = \<lparr>ai_key_set = False, ai_create = (\<lambda>_ _ _. Inl (PlainError ''no key''))\<rparr>,
     en_health = \<lparr>hl_postgres = (\<lambda>t. None), hl_redis = (\<lambda>t. None), hl_check = (\<lambda>rs. Inr (JArr rs))\<rparr>\<rparr>"

lemma base_cold_root: "cold ''root'' base_world" "\<not> w_perm_outage base_world"
  by (simp_all add: cold_def cache_get_perms_def run_base)

theorem api_protected_witness:
  "(\<exists>w'. serve visitor (api_endpoint sample_api (Authz PermissionsList)) visit base_world = (Inr (Some (JArr [])), w')) \<and>
   holds (w_db base_world) (w_now base_world) ''root'' ''rbac.read''"
proof -
  obtain w' where served: "serve (en_http sample_api) (api_endpoint sample_api (Authz PermissionsList)) visit base_world = (Inr (Some (JArr [])), w')"
    using permissions_served by (auto simp: sample_api_def)
  have "\<not> public_op (Authz PermissionsList)" by simp
  from api_protected [OF served this] base_cold_root
  have "holds (w_db base_world) (w_now base_world) ''root'' ''rbac.read''"
    by (simp add: required_permission_def route_defs sample_api_def visitor_def visit_def)
  with served show ?thesis by (auto simp: sample_api_def)
qed

text \<open>C34: reading changes no table: whatever a GET operation of the API answers, and whoever asks,
  every table is as before.\<close>

theorem api_reads_keep_tables:
  assumes "ep_method (api_endpoint env op) = ''GET''"
  shows "w_db (snd (serve (en_http env) (api_endpoint env op) rq w)) = w_db w"
  by (rule api.get_keeps [OF assms])

theorem api_reads_keep_tables_witness:
  "w_db (snd (serve visitor (api_endpoint sample_api (Authz PermissionsList)) visit base_world)) = base_db"
  using api_reads_keep_tables [of sample_api "Authz PermissionsList" visit base_world]
  by (simp add: route_defs sample_api_def base_world_def)

end
