(* ===== verification/Inbox_Claims.thy ===== *)
theory Inbox_Claims
  imports Api_Identity Scenario
begin

text \<open>
  The inbox: two runs that differ in the notifications and preferences of other people cannot be
  told apart by a user, and nobody changes those of others; and a reader who follows the cursors
  sees every notification.
\<close>

section \<open>Two runs\<close>

locale indistinct =
  fixes I :: "'s \<Rightarrow> 's \<Rightarrow> bool"
begin

definition agrees :: "('s, 'e, 'a) act \<Rightarrow> bool" where
  "agrees m \<longleftrightarrow> (\<forall>s t. I s t \<longrightarrow> fst (m s) = fst (m t) \<and> I (snd (m s)) (snd (m t)))"

lemma agreesD: "agrees m \<Longrightarrow> I s t \<Longrightarrow> fst (m s) = fst (m t) \<and> I (snd (m s)) (snd (m t))"
  by (simp add: agrees_def)

lemma agrees_ret: "agrees (mret x)"
  by (simp add: agrees_def)

lemma agrees_throw: "agrees (mthrow e)"
  by (simp add: agrees_def)

lemma agrees_bind_val:
  assumes "agrees m" and "\<And>x s s' t. I s t \<Longrightarrow> m s = (Inr x, s') \<Longrightarrow> agrees (f x)"
  shows "agrees (mbind m f)"
  unfolding agrees_def
proof (intro allI impI)
  fix s t
  assume "I s t"
  then have m: "fst (m s) = fst (m t)" "I (snd (m s)) (snd (m t))" using agreesD [OF assms(1)] by auto
  show "fst (mbind m f s) = fst (mbind m f t) \<and> I (snd (mbind m f s)) (snd (mbind m f t))"
  proof (cases "m s")
    case (Pair r s')
    with m obtain t' where t': "m t = (r, t')" "I s' t'" by (cases "m t") auto
    show ?thesis
    proof (cases r)
      case (Inl e)
      with Pair t' show ?thesis by (simp add: mbind_def)
    next
      case (Inr x)
      with Pair t' agreesD [OF assms(2) [OF \<open>I s t\<close>], of x s' s' t'] show ?thesis by (simp add: mbind_def)
    qed
  qed
qed

lemma agrees_bind: "agrees m \<Longrightarrow> (\<And>x. agrees (f x)) \<Longrightarrow> agrees (mbind m f)"
  by (rule agrees_bind_val)

lemma agrees_if: "agrees m \<Longrightarrow> agrees n \<Longrightarrow> agrees (if b then m else n)"
  by simp

lemma agrees_option: "agrees m \<Longrightarrow> (\<And>y. agrees (n y)) \<Longrightarrow> agrees (case x of None \<Rightarrow> m | Some y \<Rightarrow> n y)"
  by (cases x) simp_all

lemma agrees_pair: "(\<And>a b. agrees (f a b)) \<Longrightarrow> agrees (case p of (a, b) \<Rightarrow> f a b)"
  by (cases p) simp

lemma agrees_throw_if: "agrees (throw_if b e)"
  by (simp add: throw_if_def agrees_ret agrees_throw)

lemma agrees_or_throw: "agrees (or_throw x e)"
  by (cases x) (simp_all add: or_throw_def agrees_ret agrees_throw)

lemma agrees_gets: "(\<And>s t. I s t \<Longrightarrow> g s = g t) \<Longrightarrow> agrees (mgets g)"
  by (simp add: agrees_def mgets_def)

lemma agrees_modify: "(\<And>s t. I s t \<Longrightarrow> I (h s) (h t)) \<Longrightarrow> agrees (mmodify h)"
  by (simp add: agrees_def mmodify_def)

end

section \<open>What belongs to whom\<close>

definition own :: "uuid \<Rightarrow> db \<Rightarrow> in_app_notification list \<times> notification_preference list" where
  "own u d = (filter (\<lambda>n. ian_recipient n = u) (t_in_app_notifications d), filter (\<lambda>p. np_user p = u) (t_notification_preferences d))"

text \<open>Everything else: the rows of other people, and all other tables.\<close>

definition others :: "uuid \<Rightarrow> db \<Rightarrow> db" where
  "others u d = d\<lparr>t_in_app_notifications := filter (\<lambda>n. ian_recipient n \<noteq> u) (t_in_app_notifications d),
     t_notification_preferences := filter (\<lambda>p. np_user p \<noteq> u) (t_notification_preferences d)\<rparr>"

definition alike :: "uuid \<Rightarrow> timestamp \<Rightarrow> world \<Rightarrow> world \<Rightarrow> bool" where
  "alike u t w v \<longleftrightarrow> w_now w = t \<and> (\<exists>d. v = w\<lparr>w_db := d\<rparr> \<and> own u d = own u (w_db w))"

interpretation alike: indistinct "alike u t" for u t .

lemma alikeI: "w_now w = t \<Longrightarrow> own u d = own u (w_db w) \<Longrightarrow> alike u t w (w\<lparr>w_db := d\<rparr>)"
  by (auto simp: alike_def)

lemma alikeE:
  assumes "alike u t w v"
  obtains d where "v = w\<lparr>w_db := d\<rparr>" "own u d = own u (w_db w)" "w_now w = t"
  using assms by (auto simp: alike_def)

lemma alike_query:
  assumes "\<And>d d'. own u d = own u d' \<Longrightarrow> q d = q d'"
  shows "alike.agrees u t (query q)"
  unfolding query_def
proof (rule alike.agrees_gets, elim alikeE)
  fix w v :: world and d
  assume v: "v = w\<lparr>w_db := d\<rparr>" "own u d = own u (w_db w)"
  from assms [OF v(2)] v(1) show "q (w_db w) = q (w_db v)" by (cases w) simp
qed

lemma alike_exec:
  assumes "\<And>d d'. own u d = own u d' \<Longrightarrow> own u (g d) = own u (g d')"
  shows "alike.agrees u t (exec g)"
  unfolding exec_def
proof (rule alike.agrees_modify, elim alikeE)
  fix w v :: world and d
  assume v: "v = w\<lparr>w_db := d\<rparr>" "own u d = own u (w_db w)" "w_now w = t"
  have "alike u t (w\<lparr>w_db := g (w_db w)\<rparr>) (w\<lparr>w_db := g (w_db w)\<rparr>\<lparr>w_db := g d\<rparr>)"
    using v(3) assms [OF v(2)] by (intro alikeI) simp_all
  with v(1) show "alike u t (w\<lparr>w_db := g (w_db w)\<rparr>) (v\<lparr>w_db := g (w_db v)\<rparr>)" by simp
qed

lemma alike_now: "alike.agrees u t now"
  unfolding now_def by (rule alike.agrees_gets) (elim alikeE, simp)

lemma alike_cache: "alike.agrees u t (mgets w_cache)"
  by (rule alike.agrees_gets) (elim alikeE, simp)

lemma alike_cache_update: "alike.agrees u t (mmodify (w_cache_update f))"
proof (rule alike.agrees_modify, elim alikeE)
  fix w v :: world and d
  assume "v = w\<lparr>w_db := d\<rparr>" "own u d = own u (w_db w)" "w_now w = t"
  then show "alike u t (w_cache_update f w) (w_cache_update f v)"
    using alikeI [of "w_cache_update f w" t u d] by (cases w) simp
qed

lemma alike_newId: "alike.agrees u t newId"
  unfolding alike.agrees_def
proof (intro allI impI, elim alikeE)
  fix w v :: world and d
  assume "v = w\<lparr>w_db := d\<rparr>" "own u d = own u (w_db w)" "w_now w = t"
  then show "fst (newId w) = fst (newId v) \<and> alike u t (snd (newId w)) (snd (newId v))"
    using alikeI [of "snd (newId w)" t u d] by (cases w) simp
qed

lemmas alike_rules = alike.agrees_ret alike.agrees_throw alike.agrees_bind alike.agrees_if alike.agrees_option alike.agrees_pair
  alike.agrees_throw_if alike.agrees_or_throw alike_now alike_cache alike_cache_update alike_newId

section \<open>Selections of own rows\<close>

lemma select_own: "(\<And>r. p r \<Longrightarrow> q r) \<Longrightarrow> select_where p t = select_where p (filter q t)"
  unfolding select_where_def by (induction t) auto

lemma find_own: "(\<And>r. p r \<Longrightarrow> q r) \<Longrightarrow> find_where p t = find_where p (filter q t)"
  unfolding find_where_def by (induction t) auto

lemma update_own: "(\<And>r. q (f r) = q r) \<Longrightarrow> filter q (update_where p f t) = update_where p f (filter q t)"
  unfolding update_where_def by (induction t) auto

lemma delete_own: "filter q (delete_where p t) = delete_where p (filter q t)"
  unfolding delete_where_def by (simp add: conj_commute)

lemma update_others: "(\<And>r. p r \<Longrightarrow> \<not> q r) \<Longrightarrow> (\<And>r. p r \<Longrightarrow> \<not> q (f r)) \<Longrightarrow> filter q (update_where p f t) = filter q t"
  unfolding update_where_def by (induction t) auto

lemma delete_others: "(\<And>r. p r \<Longrightarrow> \<not> q r) \<Longrightarrow> filter q (delete_where p t) = filter q t"
  unfolding delete_where_def by (induction t) auto

section \<open>The handlers\<close>

lemma own_notifications: "fst (own u d) = filter (\<lambda>n. ian_recipient n = u) (t_in_app_notifications d)"
  and own_preferences: "snd (own u d) = filter (\<lambda>p. np_user p = u) (t_notification_preferences d)"
  by (simp_all add: own_def)

lemma alike_selected:
  assumes "\<And>d. q d = q' (own u d)"
  shows "alike.agrees u t (query q)"
  by (rule alike_query) (simp add: assms)

lemma alike_inbox:
  "alike.agrees (jw_sub u) t (inbox_list r lim c u)"
  "alike.agrees (jw_sub u) t (inbox_unread_count u)"
  "alike.agrees (jw_sub u) t (preferences_list u)"
proof -
  have "alike.agrees (jw_sub u) t (notifications_list (jw_sub u) f)" for f
    unfolding notifications_list_def
  proof (rule alike_query)
    fix d d'
    assume "own (jw_sub u) d = own (jw_sub u) d'"
    moreover have "select_where (listed (jw_sub u) f) (t_in_app_notifications e) = select_where (listed (jw_sub u) f) (fst (own (jw_sub u) e))" for e
      unfolding own_notifications by (rule select_own) (simp add: listed_def)
    ultimately have "select_where (listed (jw_sub u) f) (t_in_app_notifications d) = select_where (listed (jw_sub u) f) (t_in_app_notifications d')"
      by metis
    then show "(let rows = page (nf_limit f + 1) 0 (sort_key (\<lambda>r. - ian_created_at r) (select_where (listed (jw_sub u) f) (t_in_app_notifications d)));
        hasMore = length rows > nf_limit f; items = take (nf_limit f) rows in
        (items, if hasMore then Some (ian_created_at (items ! (length items - 1))) else None)) =
      (let rows = page (nf_limit f + 1) 0 (sort_key (\<lambda>r. - ian_created_at r) (select_where (listed (jw_sub u) f) (t_in_app_notifications d')));
        hasMore = length rows > nf_limit f; items = take (nf_limit f) rows in
        (items, if hasMore then Some (ian_created_at (items ! (length items - 1))) else None))"
      by simp
  qed
  then show "alike.agrees (jw_sub u) t (inbox_list r lim c u)"
    unfolding inbox_list_def answer_def by (intro alike_rules)
  have "unreadCount (jw_sub u) = query (\<lambda>d. length (select_where (\<lambda>r. ian_recipient r = jw_sub u \<and> \<not> ian_is_read r) (fst (own (jw_sub u) d))))"
    unfolding unreadCount_def own_notifications by (subst select_own [where q = "\<lambda>n. ian_recipient n = jw_sub u"]) auto
  then show "alike.agrees (jw_sub u) t (inbox_unread_count u)"
    unfolding inbox_unread_count_def answer_def by (intro alike_rules) (simp add: alike_selected)
  have "listPreferences (jw_sub u) = query (\<lambda>d. snd (own (jw_sub u) d))"
    unfolding listPreferences_def own_preferences select_where_def by simp
  then show "alike.agrees (jw_sub u) t (preferences_list u)"
    unfolding preferences_list_def answer_list_def by (intro alike_rules) (simp add: alike_selected)
qed

lemma own_updates:
  "(\<And>r. ian_recipient (f r) = ian_recipient r) \<Longrightarrow>
     own u (t_in_app_notifications_update (update_where p f) d) = map_prod (update_where p f) (\<lambda>x. x) (own u d)"
  "own u (t_notification_preferences_update (delete_where q) d) = map_prod (\<lambda>x. x) (delete_where q) (own u d)"
  by (simp_all add: own_def delete_own update_own [where q = "\<lambda>n. ian_recipient n = u"])

lemma alike_writes:
  "alike.agrees (jw_sub u) t (inbox_mark_read i u)"
  "alike.agrees (jw_sub u) t (inbox_mark_all_read u)"
  "alike.agrees (jw_sub u) t (preferences_reset k u)"
  unfolding inbox_mark_read_def inbox_mark_all_read_def preferences_reset_def no_content_def ParseUUIDPipe_def markRead_def
    markAllRead_def reset_preference_def
  by (intro alike_rules alike_exec; simp add: own_updates)+

lemma alike_upsert: "alike.agrees (jw_sub u) t (preferences_upsert k a b u)"
proof -
  let ?u = "jw_sub u"
  have find: "find_where (pref_is ?u k) (t_notification_preferences d) = find_where (pref_is ?u k) (snd (own ?u d))" for d
    unfolding own_preferences by (rule find_own) (simp add: pref_is_def)
  have sel: "alike.agrees ?u t (query (\<lambda>d. find_where (pref_is ?u k) (t_notification_preferences d)))"
    unfolding find by (rule alike_selected) (rule refl)
  have insert: "own ?u (t_notification_preferences_update (insert_row r) d) = map_prod (\<lambda>x. x) (\<lambda>x. if np_user r = ?u then x @ [r] else x) (own ?u d)" for r d
    by (simp add: own_def insert_row_def)
  have upd: "own ?u (t_notification_preferences_update (update_where (pref_is ?u k) (changed_preference inp now')) d) =
      map_prod (\<lambda>x. x) (update_where (pref_is ?u k) (changed_preference inp now')) (own ?u d)" for inp now' d
    by (simp add: own_def update_own [where q = "\<lambda>n. np_user n = ?u"] changed_preference_def)
  have "alike.agrees ?u t (exec (t_notification_preferences_update (\<lambda>tab. case old of
      None \<Rightarrow> insert_row r tab | Some x \<Rightarrow> update_where (pref_is ?u k) (changed_preference inp now') tab)))" for old r inp now'
    by (cases old) (auto intro!: alike_exec simp: insert upd)
  then show ?thesis
    unfolding preferences_upsert_def upsert_preference_def answer_present_def answer_def zod_def preference_input.simps
    by (intro alike_rules sel)
qed

lemma others_notifications:
  assumes "\<And>r. p r \<Longrightarrow> ian_recipient r = u" and "\<And>r. ian_recipient (f r) = ian_recipient r"
  shows "others u (t_in_app_notifications_update (update_where p f) d) = others u d"
proof -
  have "filter (\<lambda>n. ian_recipient n \<noteq> u) (update_where p f tab) = filter (\<lambda>n. ian_recipient n \<noteq> u) tab" for tab
    by (rule update_others) (auto simp: assms)
  then show ?thesis by (simp add: others_def)
qed

lemma others_preferences:
  assumes "\<And>tab. filter (\<lambda>p. np_user p \<noteq> u) (f tab) = filter (\<lambda>p. np_user p \<noteq> u) tab"
  shows "others u (t_notification_preferences_update f d) = others u d"
  by (simp add: others_def assms)

lemma others_writes:
  "keeps (same (others (jw_sub u))) (inbox_mark_read i u)"
  "keeps (same (others (jw_sub u))) (inbox_mark_all_read u)"
  "keeps (same (others (jw_sub u))) (preferences_reset k u)"
  unfolding inbox_mark_read_def inbox_mark_all_read_def preferences_reset_def no_content_def ParseUUIDPipe_def markRead_def
    markAllRead_def reset_preference_def
  by (intro same_rules others_notifications others_preferences delete_others; simp add: pref_is_def)+

lemma others_reads:
  "keeps (same f) (inbox_list r lim c u)" "keeps (same f) (inbox_unread_count u)" "keeps (same f) (preferences_list u)"
  unfolding inbox_list_def inbox_unread_count_def preferences_list_def answer_list_def answer_def notifications_list_def
    unreadCount_def listPreferences_def
  by (intro same_rules keeps_pair)+

lemma others_upsert: "keeps (same (others (jw_sub u))) (preferences_upsert k a b u)"
proof -
  have "others (jw_sub u) (t_notification_preferences_update (\<lambda>tab. case old of None \<Rightarrow> insert_row r tab
      | Some x \<Rightarrow> update_where (pref_is (jw_sub u) k) (changed_preference inp now') tab) d) = others (jw_sub u) d"
    if "np_user r = jw_sub u" for old r inp now' d
    using that
    by (intro others_preferences, cases old) (auto simp: insert_row_def pref_is_def changed_preference_def intro!: update_others)
  note kept = this
  show ?thesis
    unfolding preferences_upsert_def upsert_preference_def answer_present_def answer_def zod_def preference_input.simps
    by (intro same_rules kept) simp
qed

lemma inbox_handler:
  assumes "rq_user rq = Some u"
  shows "alike.agrees (jw_sub u) t (ep_handler (inbox_endpoint op) rq)"
    and "keeps (same (others (jw_sub u))) (ep_handler (inbox_endpoint op) rq)"
  by (cases op; simp add: assms endpoint_def CurrentUser_def alike_inbox alike_writes alike_upsert others_reads others_writes others_upsert)+

lemma inbox_route: "ep_route (inbox_endpoint op) = Auth"
  by (cases op) (simp_all add: endpoint_def)

section \<open>The pipeline\<close>

lemma alike_limit: "alike.agrees u t (rate_limit_guard env tn rq)"
  unfolding rate_limit_guard_def
  by (intro alike_rules, simp split: prod.split bool.split option.split add: Let_def)
    (intro alike_rules allI impI conjI; simp add: Let_def split: prod.split; intro alike_rules allI impI; simp)

lemma alike_jwt: "alike.agrees u t (jwt_guard env rte rq)"
  unfolding jwt_guard_def jwt_validate_def by (intro alike_rules)

lemma alike_idempotency: "alike.agrees u t next_handler \<Longrightarrow> alike.agrees u t (idempotency_intercept rq next_handler)"
  unfolding idempotency_intercept_def run_and_store_def store_response_def Let_def by (intro alike_rules)

lemma inbox_serve:
  "serve env (inbox_endpoint op) rq = mbind (rate_limit_guard env ''DEFAULT'' (rq\<lparr>rq_method := ep_method (inbox_endpoint op), rq_user := None\<rparr>)) (\<lambda>_.
     mbind (jwt_guard env Auth (rq\<lparr>rq_method := ep_method (inbox_endpoint op), rq_user := None\<rparr>)) (\<lambda>rq'.
     idempotency_intercept rq' (ep_handler (inbox_endpoint op) rq')))"
proof -
  have ret: "mbind (mret x) f = f x" for x and f :: "'a \<Rightarrow> 'b svc"
    by (simp add: fun_eq_iff)
  show ?thesis
    by (simp add: ret serve_def handle_request_def inbox_route Auth_def open_route_def role_guard_def policy_guard_def)
qed

lemma alike_serve:
  assumes "rq_bearer rq = Some b" and "he_verify env b t = Some u"
  shows "alike.agrees (jw_sub u) t (serve env (inbox_endpoint op) rq)"
  unfolding inbox_serve
proof (rule alike.agrees_bind, rule alike_limit, rule alike.agrees_bind_val, rule alike_jwt)
  fix rq' :: http_request and s s' v :: world
  assume "alike (jw_sub u) t s v"
    and jwt: "jwt_guard env Auth (rq\<lparr>rq_method := ep_method (inbox_endpoint op), rq_user := None\<rparr>) s = (Inr rq', s')"
  then have "w_now s = t" by (auto elim: alikeE)
  then have "rq_user rq' = Some u"
    using jwt_guard_passed(2) [OF jwt refl] assms by (auto simp: Auth_def open_route_def)
  then show "alike.agrees (jw_sub u) t (idempotency_intercept rq' (ep_handler (inbox_endpoint op) rq'))"
    by (intro alike_idempotency inbox_handler)
qed

lemma keeps_intercept: "keeps (same f) h \<Longrightarrow> keeps (same f) (idempotency_intercept rq h)"
  unfolding idempotency_intercept_def run_and_store_def store_response_def Let_def
  by (intro same_rules keeps_pair same.keeps_modify) (simp_all add: same_def)

lemma others_serve:
  assumes "rq_bearer rq = Some b" and "he_verify env b (w_now w) = Some u"
  shows "others (jw_sub u) (w_db (snd (serve env (inbox_endpoint op) rq w))) = others (jw_sub u) (w_db w)"
proof -
  obtain r w' where run: "serve env (inbox_endpoint op) rq w = (r, w')" by fastforce
  let ?rq = "rq\<lparr>rq_method := ep_method (inbox_endpoint op), rq_user := None\<rparr>"
  from handle_request_stages [OF run [unfolded serve_def inbox_route]]
  consider "w_db w' = w_db w"
    | w2 where "w_db w2 = w_db w" "idempotency_intercept (?rq\<lparr>rq_user := Some u\<rparr>) (ep_handler (inbox_endpoint op) (?rq\<lparr>rq_user := Some u\<rparr>)) w2 = (r, w')"
    using assms by (auto simp: Auth_def open_route_def)
  then show ?thesis
  proof cases
    case 2
    from keepsD [OF keeps_intercept [OF inbox_handler(2) [of "?rq\<lparr>rq_user := Some u\<rparr>" u]] 2(2)] 2(1)
    show ?thesis by (simp add: run same_def)
  qed (simp add: run)
qed

text \<open>C35: the inbox is private.  For whoever comes with a valid token, the answer of every operation of
  the notification controllers is the same whatever notifications and preferences other people have; and
  it leaves the notifications and preferences of other people and every other table as they were.
\<close>

theorem inbox_private:
  assumes "rq_bearer rq = Some b" and "he_verify env b (w_now w) = Some u" and "own (jw_sub u) d = own (jw_sub u) (w_db w)"
  shows "fst (serve env (inbox_endpoint op) rq (w\<lparr>w_db := d\<rparr>)) = fst (serve env (inbox_endpoint op) rq w) \<and>
    others (jw_sub u) (w_db (snd (serve env (inbox_endpoint op) rq w))) = others (jw_sub u) (w_db w)"
  using alike.agreesD [OF alike_serve [OF assms(1,2), of op] alikeI [OF refl assms(3)]] others_serve [OF assms(1,2), of op] by auto

definition note_for :: "uuid \<Rightarrow> string \<Rightarrow> timestamp \<Rightarrow> in_app_notification" where
  "note_for u i t = \<lparr>ian_id = i, ian_recipient = u, ian_actor = None, ian_type = ''t'', ian_title = ''T'', ian_body = None,
     ian_resource_type = None, ian_resource = None, ian_metadata = [], ian_is_read = False, ian_read_at = None, ian_created_at = t,
     ian_source_event = None\<rparr>"

definition notified :: "in_app_notification list \<Rightarrow> db" where
  "notified ns = base_db\<lparr>t_in_app_notifications := ns\<rparr>"

definition alice_env :: http_env where
  "alice_env = \<lparr>he_hash = (\<lambda>c. rev c), he_verify = (\<lambda>b t. if b = ''good'' then Some
     \<lparr>jw_jti = ''j'', jw_sub = ''alice'', jw_email = ''alice@x'', jw_roles = [], jw_name = ''Alice'', jw_exp = 900\<rparr> else None),
     he_eval_fails = (\<lambda>t. False)\<rparr>"

definition alice_visit :: http_request where
  "alice_visit = \<lparr>rq_method = ''PATCH'', rq_bearer = Some ''good'', rq_real_ip = None, rq_forwarded_for = None, rq_ip = Some ''10.0.0.9'',
     rq_refresh_cookie = None, rq_idempotency_key = None, rq_user = None\<rparr>"

text \<open>Whatever Bob has in his inbox, Alice does not notice it, and her request leaves it alone.\<close>

theorem inbox_private_witness:
  "fst (serve alice_env (inbox_endpoint InboxMarkAllRead) alice_visit (base_world\<lparr>w_db := notified [note_for ''alice'' ''n1'' 10, note_for ''bob'' ''n2'' 20]\<rparr>)) =
   fst (serve alice_env (inbox_endpoint InboxMarkAllRead) alice_visit (base_world\<lparr>w_db := notified [note_for ''alice'' ''n1'' 10]\<rparr>)) \<and>
   filter (\<lambda>n. ian_recipient n \<noteq> ''alice'') (t_in_app_notifications (w_db (snd (serve alice_env (inbox_endpoint InboxMarkAllRead) alice_visit
     (base_world\<lparr>w_db := notified [note_for ''alice'' ''n1'' 10, note_for ''bob'' ''n2'' 20]\<rparr>))))) = [note_for ''bob'' ''n2'' 20]"
proof -
  let ?u = "\<lparr>jw_jti = ''j'', jw_sub = ''alice'', jw_email = ''alice@x'', jw_roles = [], jw_name = ''Alice'', jw_exp = 900\<rparr> :: jwt_payload"
  let ?w = "base_world\<lparr>w_db := notified [note_for ''alice'' ''n1'' 10, note_for ''bob'' ''n2'' 20]\<rparr>"
  have rq: "rq_bearer alice_visit = Some ''good''" "he_verify alice_env ''good'' (w_now ?w) = Some ?u"
    by (simp_all add: alice_visit_def alice_env_def)
  have "own (jw_sub ?u) (notified [note_for ''alice'' ''n1'' 10]) = own (jw_sub ?u) (w_db ?w)"
    by (simp add: own_def notified_def note_for_def)
  note claim = inbox_private [OF rq this, of InboxMarkAllRead]
  from arg_cong [OF conjunct2 [OF claim], of t_in_app_notifications]
  have "filter (\<lambda>n. ian_recipient n \<noteq> ''alice'') (t_in_app_notifications (w_db (snd (serve alice_env (inbox_endpoint InboxMarkAllRead) alice_visit ?w)))) =
      [note_for ''bob'' ''n2'' 20]"
    by (simp add: others_def notified_def note_for_def)
  with conjunct1 [OF claim] show ?thesis by simp
qed

section \<open>Following the cursors\<close>

definition inbox_parts :: "json option \<Rightarrow> (json list \<times> timestamp option) option" where
  "inbox_parts a = (case a of
     Some (JObj [(_, JArr items), (_, JNull)]) \<Rightarrow> Some (items, None)
   | Some (JObj [(_, JArr items), (_, JDate c)]) \<Rightarrow> Some (items, Some c)
   | _ \<Rightarrow> None)"

primrec read_inbox :: "nat \<Rightarrow> bool option \<Rightarrow> int \<Rightarrow> timestamp option \<Rightarrow> jwt_payload \<Rightarrow> json list svc" where
  "read_inbox 0 isRead lim cursor u = mthrow (PlainError ''too many pages'')"
| "read_inbox (Suc n) isRead lim cursor u =
     mbind (inbox_list isRead (Some lim) cursor u) (\<lambda>a.
     mbind (or_throw (inbox_parts a) (PlainError ''not a page'')) (\<lambda>(items, nextCursor).
     mbind (case nextCursor of None \<Rightarrow> mret [] | Some c \<Rightarrow> read_inbox n isRead lim (Some c) u) (\<lambda>rest. mret (items @ rest))))"

definition before_cursor :: "timestamp option \<Rightarrow> in_app_notification \<Rightarrow> bool" where
  "before_cursor c r = (case c of None \<Rightarrow> True | Some x \<Rightarrow> ian_created_at r < x)"

definition inbox_of :: "uuid \<Rightarrow> bool option \<Rightarrow> db \<Rightarrow> in_app_notification list" where
  "inbox_of u isRead d = sort_key (\<lambda>r. - ian_created_at r)
     (filter (\<lambda>n. ian_recipient n = u \<and> opt_eq isRead (ian_is_read n)) (t_in_app_notifications d))"

lemma sorted_cut:
  fixes f :: "'a \<Rightarrow> int"
  assumes "sorted (map f xs)" and "distinct (map f xs)" and "k < length xs"
  shows "filter (\<lambda>x. f (xs ! k) < f x) xs = drop (Suc k) xs"
  using assms
proof (induction xs arbitrary: k)
  case (Cons x xs)
  show ?case
  proof (cases k)
    case 0
    have "f x < f y" if "y \<in> set xs" for y
      using Cons.prems that by (auto simp: order_le_less image_iff)
    then show ?thesis using 0 by simp
  next
    case (Suc j)
    have "\<not> f (xs ! j) < f x" using Cons.prems Suc by (auto simp: not_less)
    with Cons Suc show ?thesis by (simp del: not_less)
  qed
qed simp

lemma strictly_newest:
  "sorted (map (\<lambda>r. - k r) xs) \<Longrightarrow> distinct (map k xs) \<Longrightarrow> sorted_wrt (\<lambda>r s. k r > k s) xs" for k :: "'a \<Rightarrow> int"
  by (induction xs) (auto simp: order_le_less image_iff)

lemma inbox_page:
  assumes "1 \<le> l" "l \<le> 100"
    and rest: "filter (before_cursor c) (inbox_of (jw_sub u) isRead (w_db w)) = drop k (inbox_of (jw_sub u) isRead (w_db w))"
    and S: "S = drop k (inbox_of (jw_sub u) isRead (w_db w))"
  shows "inbox_list isRead (Some (int l)) c u w =
    (Inr (Some (JObj [(''items'', JArr (map (\<lambda>n. JObj (notification_dto n)) (take l S))),
       (''nextCursor'', if l < length S then JDate (ian_created_at (S ! (l - 1))) else JNull)])), w)"
proof -
  have sel: "sort_key (\<lambda>r. - ian_created_at r) (select_where (listed (jw_sub u) \<lparr>nf_is_read = isRead, nf_limit = l, nf_cursor = c\<rparr>)
      (t_in_app_notifications (w_db w))) = S"
  proof -
    have "select_where (listed (jw_sub u) \<lparr>nf_is_read = isRead, nf_limit = l, nf_cursor = c\<rparr>) tab =
        filter (before_cursor c) (filter (\<lambda>n. ian_recipient n = jw_sub u \<and> opt_eq isRead (ian_is_read n)) tab)" for tab
      by (auto simp: select_where_def listed_def before_cursor_def conj_ac intro!: filter_cong)
    then show ?thesis using rest by (simp add: S inbox_of_def filter_sort)
  qed
  have len: "length (select_where (listed (jw_sub u) \<lparr>nf_is_read = isRead, nf_limit = l, nf_cursor = c\<rparr>) (t_in_app_notifications (w_db w))) = length S"
    using arg_cong [OF sel, of length] by simp
  show ?thesis
  proof (cases "l < length S")
    case True
    with assms(1) have "take l S ! (l - 1) = S ! (l - 1)" "length (take l S) = l" by simp_all
    with assms(1,2) True show ?thesis
      by (simp add: inbox_list_def page_query_def MAX_LIMIT_def or_else_def notifications_list_def sel len page_def Let_def
          answer_def jtime_or_null_def min_def)
  next
    case False
    with assms(1,2) show ?thesis
      by (simp add: inbox_list_def page_query_def MAX_LIMIT_def or_else_def notifications_list_def sel len page_def Let_def
          answer_def jtime_or_null_def min_def)
  qed
qed

lemma read_inbox_from:
  assumes "1 \<le> l" "l \<le> 100" and "S = inbox_of (jw_sub u) isRead (w_db w)" and "distinct (map ian_created_at S)"
    and "filter (before_cursor c) S = drop k S" and "length S < k + n"
    and "k \<le> length S"
  shows "read_inbox n isRead (int l) c u w = (Inr (map (\<lambda>n. JObj (notification_dto n)) (drop k S)), w)"
  using assms(5-)
proof (induction n arbitrary: c k)
  case (Suc n)
  note page = inbox_page [OF assms(1,2) Suc.prems(1) [unfolded assms(3)] refl, folded assms(3)]
  have sorted: "sorted (map (\<lambda>r. - ian_created_at r) S)"
    by (simp add: assms(3) inbox_of_def)
  have "distinct (map (\<lambda>r. - ian_created_at r) S)"
    using assms(4) by (simp add: distinct_map inj_on_def)
  note cut = sorted_cut [OF sorted this]
  show ?case
  proof (cases "l < length (drop k S)")
    case True
    let ?next = "ian_created_at (S ! (k + l - Suc 0))"
    have "filter (before_cursor (Some ?next)) S = drop (k + l) S"
      using cut [of "k + l - Suc 0"] True assms(1) by (simp add: before_cursor_def [abs_def])
    from Suc.IH [OF this] Suc.prems True assms(1)
    have rest: "read_inbox n isRead (int l) (Some ?next) u w = (Inr (map (\<lambda>n. JObj (notification_dto n)) (drop (k + l) S)), w)"
      by simp
    have "take l (drop k S) @ drop (k + l) S = drop k S"
      by (metis add.commute append_take_drop_id drop_drop)
    then have all: "map (\<lambda>n. JObj (notification_dto n)) (take l (drop k S)) @ map (\<lambda>n. JObj (notification_dto n)) (drop (k + l) S) =
        map (\<lambda>n. JObj (notification_dto n)) (drop k S)"
      by (metis map_append)
    have "drop k S ! (l - 1) = S ! (k + l - Suc 0)" using True assms(1) by simp
    then show ?thesis
      using True all by (simp add: mbind_eq [where m = "inbox_list isRead (Some (int l)) c u", OF page] inbox_parts_def mbind_eq [where m = "read_inbox n isRead (int l) (Some ?next) u", OF rest])
  next
    case False
    then show ?thesis by (simp add: mbind_eq [where m = "inbox_list isRead (Some (int l)) c u", OF page] inbox_parts_def)
  qed
qed simp

text \<open>The pages of the inbox are the inbox.  A user whose notifications were created at different
  times and who follows the cursors with pages of at most 100 rows is done after at most one request
  more than there are notifications, and has then seen every own notification (of those read or
  unread, when asked for) exactly once, the newest first, and nobody else's.
\<close>

theorem inbox_pages_complete:
  assumes "1 \<le> l" and "l \<le> 100"
    and "mine = filter (\<lambda>r. ian_recipient r = jw_sub u \<and> opt_eq isRead (ian_is_read r)) (t_in_app_notifications (w_db w))"
    and "distinct (map ian_created_at mine)" and "length mine < n"
  shows "\<exists>rows. read_inbox n isRead (int l) None u w = (Inr (map (\<lambda>r. JObj (notification_dto r)) rows), w) \<and>
    mset rows = mset mine \<and> sorted_wrt (\<lambda>r s. ian_created_at r > ian_created_at s) rows"
proof -
  let ?S = "inbox_of (jw_sub u) isRead (w_db w)"
  have mset: "mset ?S = mset mine" by (simp add: inbox_of_def assms(3))
  then have distinct: "distinct (map ian_created_at ?S)" "length ?S < n"
    using assms(4,5) by (metis mset_eq_imp_distinct_iff mset_map, metis size_mset)
  have "sorted (map (\<lambda>r. - ian_created_at r) ?S)" by (simp add: inbox_of_def)
  with distinct(1) have "sorted_wrt (\<lambda>r s. ian_created_at r > ian_created_at s) ?S"
    by (intro strictly_newest)
  moreover have "read_inbox n isRead (int l) None u w = (Inr (map (\<lambda>r. JObj (notification_dto r)) (drop 0 ?S)), w)"
    using distinct by (intro read_inbox_from [OF assms(1,2) refl]) (simp_all add: before_cursor_def)
  ultimately show ?thesis using mset by auto
qed

definition alice_token :: jwt_payload where
  "alice_token = \<lparr>jw_jti = ''j'', jw_sub = ''alice'', jw_email = ''alice@x'', jw_roles = [], jw_name = ''Alice'', jw_exp = 900\<rparr>"

theorem inbox_pages_complete_witness:
  "read_inbox 4 None 2 None alice_token (base_world\<lparr>w_db := notified
       [note_for ''alice'' ''a'' 10, note_for ''bob'' ''b'' 30, note_for ''alice'' ''c'' 30, note_for ''alice'' ''d'' 20]\<rparr>) =
   (Inr (map (\<lambda>r. JObj (notification_dto r)) [note_for ''alice'' ''c'' 30, note_for ''alice'' ''d'' 20, note_for ''alice'' ''a'' 10]),
    base_world\<lparr>w_db := notified
       [note_for ''alice'' ''a'' 10, note_for ''bob'' ''b'' 30, note_for ''alice'' ''c'' 30, note_for ''alice'' ''d'' 20]\<rparr>)"
proof -
  let ?mine = "[note_for ''alice'' ''a'' 10, note_for ''alice'' ''c'' 30, note_for ''alice'' ''d'' 20]"
  let ?w = "base_world\<lparr>w_db := notified [note_for ''alice'' ''a'' 10, note_for ''bob'' ''b'' 30, note_for ''alice'' ''c'' 30, note_for ''alice'' ''d'' 20]\<rparr>"
  have "?mine = filter (\<lambda>r. ian_recipient r = jw_sub alice_token \<and> opt_eq None (ian_is_read r)) (t_in_app_notifications (w_db ?w))"
    by (simp add: notified_def alice_token_def note_for_def opt_eq_def)
  moreover have "distinct (map ian_created_at ?mine)" "length ?mine < 4" by (simp_all add: note_for_def)
  ultimately obtain rows where rows: "read_inbox 4 None 2 None alice_token ?w = (Inr (map (\<lambda>r. JObj (notification_dto r)) rows), ?w)"
    "mset rows = mset ?mine" "sorted_wrt (\<lambda>r s. ian_created_at r > ian_created_at s) rows"
    using inbox_pages_complete [of 2 ?mine alice_token None ?w 4] by auto
  have "sorted (map (\<lambda>r. - ian_created_at r) rows)"
    using rows(3) by (auto simp: sorted_map elim: sorted_wrt_mono_rel [rotated])
  from sort_key_inj_key_eq [OF rows(2) [symmetric] _ this]
  have "rows = [note_for ''alice'' ''c'' 30, note_for ''alice'' ''d'' 20, note_for ''alice'' ''a'' 10]"
    by (simp add: note_for_def inj_on_def)
  with rows(1) show ?thesis by simp
qed

end
