(* ===== verification/Paging_Claims.thy ===== *)
theory Paging_Claims
  imports Api_Requests Api_Workforce Api_Inventory Api_Admin Api_Identity Scenario
begin

text \<open>
  Lists in pages: a reader who follows the pages that a list endpoint announces gets every
  matching row exactly once, in order.
\<close>

section \<open>Following the pages\<close>

text \<open>
  A reader of a list: it asks for the page at an offset, keeps the rows and goes on behind them
  as long as the answer says that there is a next page.
\<close>

definition page_parts :: "json option \<Rightarrow> (json list \<times> bool) option" where
  "page_parts a = (case a of
     Some (JObj [(_, JArr xs), (_, JObj [_, _, _, (_, JBool again)])]) \<Rightarrow> Some (xs, again)
   | _ \<Rightarrow> None)"

primrec read_pages :: "nat \<Rightarrow> (int option \<Rightarrow> int option \<Rightarrow> json option svc) \<Rightarrow> int \<Rightarrow> int \<Rightarrow> json list svc" where
  "read_pages 0 get lim off = mthrow (PlainError ''too many pages'')"
| "read_pages (Suc n) get lim off =
     mbind (get (Some lim) (Some off)) (\<lambda>a.
     mbind (or_throw (page_parts a) (PlainError ''not a page'')) (\<lambda>(xs, again).
     mbind (if again then read_pages n get lim (off + lim) else mret []) (\<lambda>ys. mret (xs @ ys))))"

text \<open>What a list selects of a table, the newest first; rows of the same time in the order of the table.\<close>

definition newest :: "('r \<Rightarrow> bool) \<Rightarrow> ('r \<Rightarrow> int) \<Rightarrow> 'r list \<Rightarrow> 'r list" where
  "newest p k t = sort_key (\<lambda>r. - k r) (select_where p t)"

lemma newest_rows: "mset (newest p k t) = mset (filter p t)" "sorted_wrt (\<lambda>r s. k r \<ge> k s) (newest p k t)"
proof -
  have "sorted (map (\<lambda>r. - k r) (newest p k t))" by (simp add: newest_def)
  then show "sorted_wrt (\<lambda>r s. k r \<ge> k s) (newest p k t)"
    by (simp add: sorted_map sorted_wrt_iff_nth_less)
qed (simp add: newest_def select_where_def)

locale paged =
  fixes fetch :: "nat \<Rightarrow> nat \<Rightarrow> ('r list \<times> nat) svc" and rows :: "db \<Rightarrow> 'r list" and dto :: "'r \<Rightarrow> jobject"
  assumes fetch: "fetch l k w = (Inr (page l k (rows (w_db w)), length (rows (w_db w))), w)"
begin

lemma one_page:
  assumes "1 \<le> l" "l \<le> 100"
  shows "answer_page (Some (int l)) (Some (int k)) fetch dto w =
     (Inr (Some (page_json dto (buildPageResult (take l (drop k (rows (w_db w)))) (length (rows (w_db w))) l k))), w)"
  using assms by (simp add: mbind_eq [where m = "fetch l k", OF fetch] answer_page_def page_query_def MAX_LIMIT_def Let_def page_def)

lemma read_from:
  assumes "1 \<le> l" "l \<le> 100" "k \<le> length (rows (w_db w))" "length (rows (w_db w)) < k + n * l"
  shows "read_pages n (\<lambda>lim off. answer_page lim off fetch dto) (int l) (int k) w = (Inr (map (JObj \<circ> dto) (drop k (rows (w_db w)))), w)"
  using assms
proof (induction n arbitrary: k)
  case (Suc n)
  let ?xs = "rows (w_db w)"
  have rest: "read_pages n (\<lambda>lim off. answer_page lim off fetch dto) (int l) (int k + int l) w = (Inr (map (JObj \<circ> dto) (drop (k + l) ?xs)), w)"
    if "k + l \<le> length ?xs"
    using Suc.IH [of "k + l"] Suc.prems that by (simp add: algebra_simps)
  show ?case
  proof (cases "k + l < length ?xs")
    case True
    note rest = rest [OF less_imp_le [OF True]]
    from True have "map (JObj \<circ> dto) (take l (drop k ?xs)) @ map (JObj \<circ> dto) (drop (k + l) ?xs) = map (JObj \<circ> dto) (drop k ?xs)"
      by (metis add.commute append_take_drop_id drop_drop map_append)
    with True show ?thesis
      by (simp add: mbind_eq [OF one_page [OF Suc.prems(1,2)]] mbind_eq [where m = "read_pages n g a b" for g a b, OF rest] page_json_def page_parts_def buildPageResult_def comp_def)
  next
    case False
    with Suc.prems(3) show ?thesis
      by (simp add: mbind_eq [OF one_page [OF Suc.prems(1,2)]] page_json_def page_parts_def buildPageResult_def comp_def)
  qed
qed simp

end

lemmas page_rules = query_def page_of_def newest_def mgets_def Let_def

interpretation assets: paged "asset_list f" "\<lambda>d. newest (asset_matches f) as_created_at (t_assets d)" asset_dto for f
  by unfold_locales (simp add: asset_list_def page_rules)

interpretation employees: paged "listEmployees f" "\<lambda>d. newest (employee_matches f) emp_created_at (t_employees d)" employee_dto for f
  by unfold_locales (simp add: listEmployees_def page_rules)

interpretation accesses: paged "access_list f" "\<lambda>d. newest (access_matches f) ar_created_at (t_access_requests d)" access_dto for f
  by unfold_locales (simp add: access_list_def page_rules mbind_def mret_def)

interpretation audits: paged "audit_list f" "\<lambda>d. newest (audit_matches f) al_occurred_at (t_audit_logs d)" audit_dto for f
  by unfold_locales (simp add: audit_list_def page_rules)

interpretation findings: paged "listFindings f" "\<lambda>d. newest (finding_matches f) cf_detected_at (t_findings d)" finding_dto for f
  by unfold_locales (simp add: listFindings_def page_rules)

interpretation timesheets: paged "listTimesheets f"
  "\<lambda>d. newest (\<lambda>r. opt_eq (wf_employee f) (ts_employee r) \<and> opt_eq (wf_kind f) (ts_status r)) ts_work_date (t_timesheets d)" timesheet_dto for f
  by unfold_locales (simp add: listTimesheets_def page_rules)

interpretation leaves: paged "listLeave f"
  "\<lambda>d. newest (\<lambda>r. opt_eq (wf_employee f) (lr_employee r) \<and> opt_eq (wf_kind f) (lr_status r)) lr_start (t_leave_requests d)" leave_dto for f
  by unfold_locales (simp add: listLeave_def page_rules)

text \<open>
  A list shows a selection when a reader with pages of \<open>l\<close> rows and enough requests collects its rows,
  each of them once, the newest first, and no others.
\<close>

definition pages_show :: "nat \<Rightarrow> nat \<Rightarrow> (int option \<Rightarrow> int option \<Rightarrow> json option svc) \<Rightarrow> ('r \<Rightarrow> bool) \<Rightarrow> ('r \<Rightarrow> int) \<Rightarrow> ('r \<Rightarrow> jobject) \<Rightarrow> 'r list \<Rightarrow> world \<Rightarrow> bool" where
  "pages_show n l get p k dto t w \<longleftrightarrow>
     (\<exists>rows. read_pages n get (int l) 0 w = (Inr (map (JObj \<circ> dto) rows), w) \<and>
       mset rows = mset (filter p t) \<and> sorted_wrt (\<lambda>r s. k r \<ge> k s) rows)"

lemma pages_showI:
  assumes "read_pages n get (int l) 0 w = (Inr (map (JObj \<circ> dto) (newest p k t)), w)"
  shows "pages_show n l get p k dto t w"
  unfolding pages_show_def using assms newest_rows [where p = p and k = k and t = t] by blast

lemma newest_length: "length (newest p k t) \<le> length t"
  by (simp add: newest_def select_where_def)

lemma enough_pages: "1 \<le> l \<Longrightarrow> length t < n \<Longrightarrow> length (newest p k t) < 0 + n * l" for l :: nat
  using newest_length [where p = p and k = k and t = t] by (metis add_0 less_le_trans mult.right_neutral mult_le_mono2 order_le_less_trans)


text \<open>Three audit entries in pages of two.\<close>

definition entry :: "string \<Rightarrow> timestamp \<Rightarrow> audit_log" where
  "entry i t = \<lparr>al_id = i, al_actor = None, al_actor_email = None, al_action = ''a'', al_resource_type = ''r'', al_resource = None,
     al_changes = [], al_metadata = [], al_occurred_at = t\<rparr>"

definition audited :: world where
  "audited = base_world\<lparr>w_db := base_db\<lparr>t_audit_logs := [entry ''x'' 10, entry ''y'' 30, entry ''z'' 20]\<rparr>\<rparr>"

definition no_filter :: audit_filters where
  "no_filter = \<lparr>auf_actor = None, auf_resource_type = None, auf_resource = None, auf_action = None\<rparr>"

lemma three_entries:
  assumes "mset rows = mset [entry ''x'' 10, entry ''y'' 30, entry ''z'' 20]" and "sorted_wrt (\<lambda>r s. al_occurred_at r \<ge> al_occurred_at s) rows"
  shows "rows = [entry ''y'' 30, entry ''z'' 20, entry ''x'' 10]"
proof -
  have "sorted (map (\<lambda>r. - al_occurred_at r) rows)"
    using assms(2) by (simp add: sorted_map sorted_wrt_iff_nth_less)
  from sort_key_inj_key_eq [OF assms(1) [symmetric] _ this] show ?thesis
    by (simp add: entry_def inj_on_def)
qed


end
