(* ===== verification/Reports_Claims.thy ===== *)
theory Reports_Claims
  imports Reports
begin

text \<open>
  Every report accounts for the rows it selects: each of them is counted in one group, and the
  reports agree with each other.
\<close>

section \<open>Groups\<close>

lemma group_keys: "sorted (map fst (group_by k t))" "distinct (map fst (group_by k t))"
  by (simp_all add: group_by_def comp_def)

lemma group_rows: "(x, g) \<in> set (group_by k t) \<Longrightarrow> g = filter (\<lambda>r. k r = x) t \<and> g \<noteq> []"
  by (auto simp: group_by_def filter_empty_conv)

lemma sum_over_keys:
  assumes "finite K" and "k ` set t \<subseteq> K"
  shows "(\<Sum>x\<in>K. sum_list (map f (filter (\<lambda>r. k r = x) t))) = (sum_list (map f t) :: 'a::comm_monoid_add)"
  using assms(2)
proof (induction t)
  case (Cons a t)
  have "(\<Sum>x\<in>K. sum_list (map f (filter (\<lambda>r. k r = x) (a # t)))) =
      (\<Sum>x\<in>K. (if k a = x then f a else 0) + sum_list (map f (filter (\<lambda>r. k r = x) t)))"
    by (intro sum.cong) auto
  also have "\<dots> = f a + sum_list (map f t)"
    using Cons assms(1) by (simp add: sum.distrib)
  finally show ?case by simp
qed simp

text \<open>What is summed over the groups is what is summed over the rows.\<close>

lemma sum_over_groups:
  "sum_list (map (\<lambda>kg. sum_list (map f (snd kg))) (group_by k t)) = (sum_list (map f t) :: 'a::comm_monoid_add)"
proof -
  have "sum_list (map (\<lambda>kg. sum_list (map f (snd kg))) (group_by k t)) =
      (\<Sum>x\<in>set (sort (remdups (map k t))). sum_list (map f (filter (\<lambda>r. k r = x) t)))"
    by (subst sum_list_distinct_conv_sum_set [symmetric]) (simp_all add: group_by_def comp_def)
  also have "\<dots> = sum_list (map f t)"
    by (rule sum_over_keys) auto
  finally show ?thesis .
qed

lemma count_sum: "count_where p t = sum_list (map (\<lambda>r. if p r then 1 else 0) t)"
  unfolding count_where_def by (induction t) auto

lemma count_groups: "sum_list (map (\<lambda>kg. count_where p (snd kg)) (group_by k t)) = count_where p t"
  unfolding count_sum by (rule sum_over_groups)

lemma length_groups: "sum_list (map (\<lambda>kg. length (snd kg)) (group_by k t)) = length t"
  using count_groups [of "\<lambda>_. True" k t] by (simp add: count_where_def)

lemma count_le: "count_where p t \<le> length t"
  by (simp add: count_where_def)

lemma count_mono: "(\<And>r. p r \<Longrightarrow> q r) \<Longrightarrow> count_where p t \<le> count_where q t"
  unfolding count_where_def by (induction t) auto

lemma count_disjoint: "(\<And>r. \<not> (p r \<and> q r)) \<Longrightarrow> count_where p t + count_where q t = count_where (\<lambda>r. p r \<or> q r) t"
  unfolding count_where_def by (induction t) auto

section \<open>Rounding and percentiles\<close>

lemma half_up_nonneg: "0 \<le> x \<Longrightarrow> 0 < b \<Longrightarrow> 0 \<le> (2 * x + b) div (2 * b)" for x b :: int
  by (simp add: pos_imp_zdiv_nonneg_iff)

lemma half_up_mono: "x \<le> y \<Longrightarrow> 0 < b \<Longrightarrow> (2 * x + b) div (2 * b) \<le> (2 * y + b) div (2 * b)" for x y b :: int
  by (rule zdiv_mono1) auto

lemma round_div_alt: "round_div a b = (if 0 \<le> a then (2 * a + b) div (2 * b) else - ((2 * (- a) + b) div (2 * b)))"
  by (simp add: round_div_def)

lemma round_div_mono:
  assumes "a \<le> a'" and "b > 0"
  shows "round_div a b \<le> round_div a' b"
proof -
  consider "0 \<le> a" | "a < 0" "0 \<le> a'" | "a' < 0" using assms(1) by linarith
  then show ?thesis
  proof cases
    case 1
    then have "0 \<le> a'" using assms(1) by simp
    with 1 half_up_mono [OF assms] show ?thesis unfolding round_div_alt by simp
  next
    case 2
    have "0 \<le> (2 * (- a) + b) div (2 * b)" "0 \<le> (2 * a' + b) div (2 * b)"
      using 2 assms(2) by (intro half_up_nonneg; linarith)+
    with 2 show ?thesis unfolding round_div_alt by (simp del: mult_minus_right)
  next
    case 3
    then have "a < 0" using assms(1) by simp
    moreover have "(2 * (- a') + b) div (2 * b) \<le> (2 * (- a) + b) div (2 * b)"
      using assms by (intro half_up_mono) simp_all
    ultimately show ?thesis using 3 unfolding round_div_alt by (simp del: mult_minus_right)
  qed
qed

lemma round_div_exact: "b > 0 \<Longrightarrow> c \<ge> 0 \<Longrightarrow> round_div (c * b) b = c"
proof -
  assume b: "b > 0" "c \<ge> 0"
  have "(2 * (c * b) + b) div (2 * b) = (b + c * (2 * b)) div (2 * b)" by (simp add: algebra_simps)
  also have "\<dots> = c + b div (2 * b)" using b(1) by (intro div_mult_self1) simp
  also have "b div (2 * b) = 0" using b(1) by (intro div_pos_pos_trivial) simp_all
  finally show ?thesis using b unfolding round_div_alt by simp
qed

lemma percentage_bounds:
  assumes "k \<le> n" and "0 < n"
  shows "0 \<le> round_div (1000 * int k) (int n)" "round_div (1000 * int k) (int n) \<le> 1000"
  using round_div_mono [of 0 "1000 * int k" "int n"] round_div_mono [of "1000 * int k" "1000 * int n" "int n"]
    round_div_exact [of "int n" 1000] round_div_exact [of "int n" 0] assms by simp_all

definition interpolate :: "int list \<Rightarrow> nat \<Rightarrow> int" where
  "interpolate vs pos = 10 * vs ! (pos div 10) + int (pos mod 10) * (vs ! Suc (pos div 10) - vs ! (pos div 10))"

lemma percentile_interpolate: "percentile_cont p xs = interpolate (sort xs) (p * (length xs - 1))"
  by (simp add: percentile_cont_def interpolate_def Let_def)

lemma interpolate_step:
  assumes "sorted vs" and "Suc pos \<le> 10 * (length vs - 1)"
  shows "interpolate vs pos \<le> interpolate vs (Suc pos)"
proof -
  let ?lo = "pos div 10"
  have "?lo < length vs - 1" using assms(2) by linarith
  then have le: "vs ! ?lo \<le> vs ! Suc ?lo" using assms(1) by (intro sorted_nth_mono) auto
  show ?thesis
  proof (cases "pos mod 10 = 9")
    case True
    then have "Suc pos div 10 = Suc ?lo" "Suc pos mod 10 = 0" by (simp_all add: div_Suc mod_Suc)
    then show ?thesis using le True by (simp add: interpolate_def)
  next
    case False
    then have "Suc pos div 10 = ?lo" "Suc pos mod 10 = Suc (pos mod 10)" by (simp_all add: div_Suc mod_Suc)
    then show ?thesis using le by (simp add: interpolate_def algebra_simps)
  qed
qed

lemma interpolate_mono:
  assumes "sorted vs" and "i \<le> j" and "j \<le> 10 * (length vs - 1)"
  shows "interpolate vs i \<le> interpolate vs j"
  using assms(2,3)
proof (induction rule: dec_induct)
  case (step n)
  then show ?case using interpolate_step [OF assms(1), of n] by simp
qed simp

lemma percentile_mono: "p \<le> q \<Longrightarrow> q \<le> 10 \<Longrightarrow> percentile_cont p xs \<le> percentile_cont q xs"
  unfolding percentile_interpolate by (intro interpolate_mono) (auto intro: mult_le_mono1)

section \<open>The rows of the reports\<close>

lemma cycle_time_ordered: "ctr_p50_hours (cycle_time_of kg) \<le> ctr_p90_hours (cycle_time_of kg)"
  unfolding cycle_time_of_def Let_def
  by (simp, intro round_div_mono) (auto intro: percentile_mono simp: MS_PER_HOUR_def)

lemma sla_row_ok:
  "scr_within_sla (sla_compliance_of kg) \<le> scr_resolved (sla_compliance_of kg) \<and>
   scr_resolved (sla_compliance_of kg) \<le> scr_total_with_sla (sla_compliance_of kg) \<and>
   (case scr_rate_pct (sla_compliance_of kg) of None \<Rightarrow> scr_resolved (sla_compliance_of kg) = 0 | Some n \<Rightarrow> 0 \<le> n \<and> n \<le> 1000)"
proof -
  have "count_where (\<lambda>r. request_decided r \<and> ri_sla_breached_at r = None) (snd kg) \<le> count_where request_decided (snd kg)"
    by (rule count_mono) simp
  then show ?thesis
    using percentage_bounds by (simp add: sla_compliance_of_def Let_def count_le)
qed

lemma queue_row_ok:
  "qdr_pending (queue_depth_of t kg) + qdr_in_review (queue_depth_of t kg) = qdr_total (queue_depth_of t kg) \<and>
   qdr_at_risk (queue_depth_of t kg) \<le> qdr_total (queue_depth_of t kg)"
  unfolding queue_depth_of_def Let_def
  by (auto simp: count_disjoint at_risk_def insert_iff intro: count_mono)

text \<open>The sums of a column over the rows of a report.\<close>

definition total_of :: "('row \<Rightarrow> 'n::comm_monoid_add) \<Rightarrow> 'row list \<Rightarrow> 'n" where
  "total_of column rows = sum_list (map column rows)"

lemma total_count:
  assumes "\<And>kg. column (row kg) = count_where p (snd kg)"
  shows "total_of column (map row (group_by k t)) = count_where p t"
  using count_groups [of p k t] by (simp add: total_of_def comp_def assms)

lemma total_length:
  assumes "\<And>kg. column (row kg) = length (snd kg)"
  shows "total_of column (map row (group_by k t)) = length t"
  using length_groups [of k t] by (simp add: total_of_def comp_def assms)

definition summary_of :: "report_range \<Rightarrow> db \<Rightarrow> request_summary_row list" where
  "summary_of p d = map (\<lambda>((ty, st), g). \<lparr>rsr_type = ty, rsr_status = st, rsr_count = length g\<rparr>)
     (group_by (\<lambda>r. (ri_type r, ri_status r)) (filter (submitted_in p) (t_request_items d)))"

lemma summary_keys: "map (\<lambda>r. (rsr_type r, rsr_status r)) (summary_of p d) =
    map fst (group_by (\<lambda>r. (ri_type r, ri_status r)) (filter (submitted_in p) (t_request_items d)))"
  by (simp add: summary_of_def comp_def case_prod_beta)

lemma summary_counts:
  "list_all (\<lambda>r. 0 < rsr_count r \<and> rsr_count r = length (filter (\<lambda>x. submitted_in p x \<and> ri_type x = rsr_type r \<and> ri_status x = rsr_status r)
     (t_request_items d))) (summary_of p d)"
  unfolding list_all_iff summary_of_def
  by (auto dest!: group_rows intro!: arg_cong [of _ _ length] filter_cong)

lemma summary_total: "total_of rsr_count (summary_of p d) = length (filter (submitted_in p) (t_request_items d))"
  unfolding summary_of_def by (rule total_length) (simp add: case_prod_beta)

lemma throughput_total: "total_of tpp_submitted (map throughput_of (group_by k t)) = length t"
  by (rule total_length) (simp add: throughput_of_def)

lemma queue_total:
  "total_of qdr_total (map (queue_depth_of t) (group_by k (filter (\<lambda>r. ri_status r \<in> {Req_pending, Req_in_review}) rs))) =
     length (filter (\<lambda>r. ri_status r \<in> {Req_pending, Req_in_review}) rs)"
proof -
  have "total_of qdr_total (map (queue_depth_of t) (group_by k g)) = count_where (\<lambda>r. ri_status r \<in> {Req_pending, Req_in_review}) g" for g
    by (rule total_count) (simp add: queue_depth_of_def Let_def)
  then show ?thesis by (simp add: count_where_def)
qed

lemma stock_total: "total_of aur_total (map asset_utilization_of (group_by k t)) = length t"
  by (rule total_length) (simp add: asset_utilization_of_def Let_def)

lemma stock_rates:
  "list_all (\<lambda>r. 0 \<le> aur_utilization_pct r \<and> aur_utilization_pct r \<le> 1000) (map asset_utilization_of (group_by k t))"
proof -
  have "0 \<le> aur_utilization_pct (asset_utilization_of (x, g)) \<and> aur_utilization_pct (asset_utilization_of (x, g)) \<le> 1000"
    if "(x, g) \<in> set (group_by k t)" for x g
  proof -
    have "0 < length g" using group_rows [OF that] by blast
    from percentage_bounds [OF count_le this, of "\<lambda>a. as_status a = As_assigned"] show ?thesis
      by (simp add: asset_utilization_of_def Let_def)
  qed
  then show ?thesis by (auto simp: list_all_iff)
qed

lemma hours_total: "total_of osr_total_hours (map overtime_summary_of (group_by k t)) = sum_list (map ot_hours t)"
  using sum_over_groups [of ot_hours k t] by (simp add: total_of_def comp_def overtime_summary_of_def Let_def)


end
