(* ===== verification/Posture_Claims.thy ===== *)
theory Posture_Claims
  imports Posture Reports_Claims
begin

text \<open>
  What a synchronisation of the security posture leaves behind, whatever Graph answers, and that the
  summary counts every check once.
\<close>

section \<open>The summary\<close>

definition counts_for :: "string \<Rightarrow> baseline_check list \<Rightarrow> baseline_counts" where
  "counts_for c t = \<lparr>bc_pass = count_where (\<lambda>r. bl_category r = c \<and> bl_status r = ''pass'') t,
     bc_fail = count_where (\<lambda>r. bl_category r = c \<and> bl_status r = ''fail'') t,
     bc_warning = count_where (\<lambda>r. bl_category r = c \<and> bl_status r = ''warning'') t,
     bc_total = count_where (\<lambda>r. bl_category r = c) t\<rparr>"

lemma counts_for_Nil [simp]: "counts_for c [] = no_counts"
  by (simp add: counts_for_def no_counts_def count_where_def)

lemma counts_for_snoc:
  "counts_for c (t @ [r]) = (if c = bl_category r then count_check (bl_status r) (counts_for c t) else counts_for c t)"
  by (auto simp: counts_for_def count_where_def count_check_def Let_def)

lemma summarize_keys: "fst ` set (summarize S r) = insert (bl_category r) (fst ` set S)"
  by (induction S r rule: summarize.induct) auto

lemma summarize_distinct: "distinct (map fst S) \<Longrightarrow> distinct (map fst (summarize S r))"
  by (induction S r rule: summarize.induct) (auto simp: summarize_keys)

lemma summarize_counts:
  assumes "distinct (map fst S)" and "(c, n) \<in> set (summarize S r)"
  shows "if c = bl_category r then n = count_check (bl_status r) (case map_of S c of None \<Rightarrow> no_counts | Some m \<Rightarrow> m)
    else (c, n) \<in> set S"
  using assms
proof (induction S r rule: summarize.induct)
  case (2 d m rest r)
  then show ?case by (force split: if_splits)
qed simp

lemma summary_of_checks:
  "distinct (map fst (foldl summarize [] t)) \<and> fst ` set (foldl summarize [] t) = bl_category ` set t \<and>
   (\<forall>(c, n) \<in> set (foldl summarize [] t). n = counts_for c t)"
proof (induction t rule: rev_induct)
  case (snoc r t)
  let ?S = "foldl summarize [] t"
  have "n = counts_for c (t @ [r])" if "(c, n) \<in> set (summarize ?S r)" for c n
  proof (cases "c = bl_category r")
    case True
    have "(case map_of ?S c of None \<Rightarrow> no_counts | Some m \<Rightarrow> m) = counts_for c t"
    proof (cases "map_of ?S c")
      case None
      then have "c \<notin> bl_category ` set t" using snoc by (simp add: map_of_eq_None_iff)
      then show ?thesis using None by (auto simp: counts_for_def no_counts_def count_where_def filter_empty_conv)
    next
      case (Some m)
      then show ?thesis using snoc map_of_SomeD [OF Some] by auto
    qed
    with True summarize_counts [of ?S c n r] snoc that show ?thesis by (simp add: counts_for_snoc)
  next
    case False
    with summarize_counts [of ?S c n r] snoc that show ?thesis by (auto simp: counts_for_snoc)
  qed
  with snoc show ?case by (auto simp: summarize_distinct summarize_keys)
qed simp

lemma checks_total: "sum_list (map (\<lambda>(c, n). bc_total n) (foldl summarize [] t)) = length t"
proof -
  let ?S = "foldl summarize [] t"
  have "sum_list (map (\<lambda>(c, n). bc_total n) ?S) = sum_list (map (\<lambda>c. count_where (\<lambda>r. bl_category r = c) t) (map fst ?S))"
    unfolding map_map by (intro arg_cong [of _ _ sum_list] map_cong) (use summary_of_checks [of t] in \<open>auto simp: counts_for_def\<close>)
  also have "\<dots> = (\<Sum>c \<in> bl_category ` set t. sum_list (map (\<lambda>_. 1) (filter (\<lambda>r. bl_category r = c) t)))"
    using summary_of_checks [of t]
    by (subst sum_list_distinct_conv_sum_set) (auto simp: count_where_def sum_list_triv image_image)
  also have "\<dots> = length t"
    by (subst sum_over_keys) (auto simp: sum_list_triv)
  finally show ?thesis .
qed

section \<open>Synchronisation\<close>

lemma control_checks_run:
  "\<exists>rows. control_checks t cs w = (Inr rows, w\<lparr>w_next := w_next w + length cs\<rparr>) \<and>
     map (bl_id_update (\<lambda>_. [])) rows = map (\<lambda>c. control_check t c []) cs"
proof (induction cs arbitrary: w)
  case (Cons c cs)
  obtain rows where rows: "control_checks t cs (w\<lparr>w_next := Suc (w_next w)\<rparr>) = (Inr rows, w\<lparr>w_next := Suc (w_next w) + length cs\<rparr>)"
    "map (bl_id_update (\<lambda>_. [])) rows = map (\<lambda>c. control_check t c []) cs"
    using Cons.IH [of "w\<lparr>w_next := Suc (w_next w)\<rparr>"] by auto
  then show ?case
    by (simp add: mbind_eq [where m = "control_checks t cs", OF rows(1)] control_check_def)
qed simp

text \<open>The checks, without their identifiers, after a synchronisation.\<close>

definition copied_checks :: "posture_api \<Rightarrow> world \<Rightarrow> baseline_check list" where
  "copied_checks api w =
     (let old = map (bl_id_update (\<lambda>_. [])) (t_baseline_checks (w_db w)) in
      if \<not> w_graph_enabled w then old
      else case (pa_scores api (w_now w), pa_controls api (w_now w)) of
        (Inr _, Inr res) \<Rightarrow>
          let rows = map (\<lambda>c. control_check (w_now w) c []) (case res of None \<Rightarrow> [] | Some cs \<Rightarrow> cs) in
          if list_all check_fits rows then rows else []
      | _ \<Rightarrow> old)"

definition CHECK_STATUSES :: "string list" where
  "CHECK_STATUSES = [''pass'', ''fail'', ''warning'', ''not_applicable'']"

lemma control_check_known:
  "bl_status (control_check t c i) \<in> set CHECK_STATUSES" "bl_category (control_check t c i) \<in> set BASELINE_CATEGORIES"
  by (simp_all add: control_check_def CHECK_STATUSES_def mapControlStatus_def BASELINE_CATEGORIES_def mapControlCategory_def Let_def)

lemma summary_counted: "(c, n) \<in> set (foldl summarize [] t) \<Longrightarrow> n = counts_for c t \<and> 0 < bc_total n"
proof -
  assume cn: "(c, n) \<in> set (foldl summarize [] t)"
  then have "c \<in> bl_category ` set t" "n = counts_for c t"
    using summary_of_checks [of t] by (force, blast)
  then show ?thesis by (auto simp: counts_for_def count_where_def filter_empty_conv)
qed

lemma syncSecureScore_run:
  assumes "w_graph_enabled w" and "pa_scores api (w_now w) = Inr res"
  obtains x w' snapshots where "syncSecureScore api w = (Inr x, w')" "w_db w' = t_score_snapshots_update (\<lambda>t. t @ snapshots) (w_db w)"
    "length snapshots \<le> 1" "w_graph_enabled w'" "w_now w' = w_now w"
proof (cases "case res of Some (latest # _) \<Rightarrow> True | _ \<Rightarrow> False")
  case True
  then obtain latest rest where "res = Some (latest # rest)" by (auto split: option.splits list.splits)
  let ?row = "\<lparr>sn_id = w_uuid w (w_next w), sn_score = gss_current latest, sn_max_score = gss_max latest,
    sn_percentage = score_percentage latest, sn_date = takeWhile (\<lambda>c. c \<noteq> CHR ''T'') (gss_created latest), sn_created_at = w_now w\<rparr>"
  have "syncSecureScore api w = (Inr (Some (gss_current latest, gss_max latest, score_percentage latest)),
      w\<lparr>w_next := Suc (w_next w), w_db := t_score_snapshots_update (\<lambda>t. t @ [?row]) (w_db w)\<rparr>)"
    using assms \<open>res = _\<close> by (simp add: syncSecureScore_def outside_call_def insert_row_def [abs_def] mbind_def)
  from that [OF this, of "[?row]"] assms(1) show thesis by simp
next
  case False
  have "syncSecureScore api w = (Inr None, w)"
    using assms False by (auto simp: syncSecureScore_def outside_call_def mbind_def split: option.splits list.splits)
  from that [OF this, of "[]"] assms(1) show thesis by simp
qed

lemma syncBaselineChecks_run:
  assumes "w_graph_enabled w" and "pa_controls api (w_now w) = Inr res"
  obtains r w' checks where "syncBaselineChecks api w = (r, w')" "w_db w' = t_baseline_checks_update (\<lambda>_. checks) (w_db w)"
    "map (bl_id_update (\<lambda>_. [])) checks = (let rows = map (\<lambda>c. control_check (w_now w) c []) (case res of None \<Rightarrow> [] | Some cs \<Rightarrow> cs) in
       if list_all check_fits rows then rows else [])"
    "list_all (\<lambda>r. bl_status r \<in> set CHECK_STATUSES \<and> bl_category r \<in> set BASELINE_CATEGORIES) checks"
proof -
  define cs where "cs = (case res of None \<Rightarrow> [] | Some cs \<Rightarrow> cs)"
  let ?w1 = "w\<lparr>w_db := t_baseline_checks_update (\<lambda>_. []) (w_db w)\<rparr>" and ?bare = "map (bl_id_update (\<lambda>_. []))"
  obtain rows where rows: "control_checks (w_now w) cs ?w1 = (Inr rows, ?w1\<lparr>w_next := w_next ?w1 + length cs\<rparr>)"
    and bare: "?bare rows = map (\<lambda>c. control_check (w_now w) c []) cs"
    using control_checks_run by blast
  have fits: "list_all check_fits rows \<longleftrightarrow> list_all check_fits (map (\<lambda>c. control_check (w_now w) c []) cs)"
    unfolding bare [symmetric] by (simp add: list_all_iff check_fits_def)
  have "list_all (\<lambda>r. bl_status r \<in> set CHECK_STATUSES \<and> bl_category r \<in> set BASELINE_CATEGORIES) (?bare rows)"
    unfolding bare by (simp add: list_all_iff control_check_known)
  then have known: "list_all (\<lambda>r. bl_status r \<in> set CHECK_STATUSES \<and> bl_category r \<in> set BASELINE_CATEGORIES) rows"
    by (simp add: list_all_iff)
  have run: "syncBaselineChecks api w = mbind (mwhen (rows \<noteq> []) (insert_checks rows)) (\<lambda>_. mret (length rows)) (?w1\<lparr>w_next := w_next w + length cs\<rparr>)"
    using assms by (simp add: syncBaselineChecks_def outside_call_def mbind_def [of "outside_call _"] Let_def cs_def [symmetric]
        mbind_eq [where m = "control_checks (w_now w) cs", OF rows] del: mbind_when)
  show thesis
  proof (cases "list_all check_fits rows")
    case True
    with run show thesis
      by (intro that [of _ _ rows]) (auto simp: insert_checks_def mwhen_def fits bare Let_def cs_def [symmetric] known)
  next
    case False
    then have "rows \<noteq> []" by auto
    with False run show thesis
      by (intro that [of _ _ "[]"]) (auto simp: insert_checks_def mwhen_def fits bare Let_def cs_def [symmetric])
  qed
qed

text \<open>What a synchronisation did to the tables.\<close>

definition synced :: "posture_api \<Rightarrow> world \<Rightarrow> world \<Rightarrow> score_snapshot list \<Rightarrow> baseline_check list \<Rightarrow> bool" where
  "synced api w w' snapshots checks \<longleftrightarrow>
     w_db w' = t_baseline_checks_update (\<lambda>_. checks) (t_score_snapshots_update (\<lambda>t. t @ snapshots) (w_db w)) \<and>
     length snapshots \<le> 1 \<and> map (bl_id_update (\<lambda>_. [])) checks = copied_checks api w \<and>
     (checks = t_baseline_checks (w_db w) \<or>
      list_all (\<lambda>r. bl_status r \<in> set CHECK_STATUSES \<and> bl_category r \<in> set BASELINE_CATEGORIES) checks)"

lemma synced_old:
  "w_db w' = t_score_snapshots_update (\<lambda>t. t @ snapshots) (w_db w) \<Longrightarrow> length snapshots \<le> 1 \<Longrightarrow>
   copied_checks api w = map (bl_id_update (\<lambda>_. [])) (t_baseline_checks (w_db w)) \<Longrightarrow>
   synced api w w' snapshots (t_baseline_checks (w_db w))"
  by (simp add: synced_def)

lemma sync_tables: "\<exists>w' snapshots checks. syncSecurityPosture api w = (Inr (), w') \<and> synced api w w' snapshots checks"
proof (cases "w_graph_enabled w \<and> (\<exists>res. pa_scores api (w_now w) = Inr res)")
  case False
  have "syncSecurityPosture api w = (Inr (), w)"
    using False by (cases "pa_scores api (w_now w)") (auto simp: syncSecurityPosture_def syncSecureScore_def outside_call_def mtry_def mbind_def mgets_def)
  moreover have "synced api w w [] (t_baseline_checks (w_db w))"
    using False by (intro synced_old) (auto simp: copied_checks_def Let_def split: sum.splits)
  ultimately show ?thesis by blast
next
  case True
  then obtain res where res: "w_graph_enabled w" "pa_scores api (w_now w) = Inr res" by blast
  obtain x w1 snapshots where score: "syncSecureScore api w = (Inr x, w1)" "w_db w1 = t_score_snapshots_update (\<lambda>t. t @ snapshots) (w_db w)"
    "length snapshots \<le> 1" "w_graph_enabled w1" "w_now w1 = w_now w"
    using syncSecureScore_run [OF res] .
  show ?thesis
  proof (cases "pa_controls api (w_now w)")
    case (Inl e)
    have "syncSecurityPosture api w = (Inr (), w1)"
      using res score Inl by (simp add: syncSecurityPosture_def syncBaselineChecks_def outside_call_def mtry_def mbind_def mgets_def)
    moreover have "synced api w w1 snapshots (t_baseline_checks (w_db w))"
      using Inl score by (intro synced_old) (auto simp: copied_checks_def Let_def split: sum.splits)
    ultimately show ?thesis by blast
  next
    case (Inr cs)
    obtain r w2 checks where sync: "syncBaselineChecks api w1 = (r, w2)" "w_db w2 = t_baseline_checks_update (\<lambda>_. checks) (w_db w1)"
      "map (bl_id_update (\<lambda>_. [])) checks = (let rows = map (\<lambda>c. control_check (w_now w1) c []) (case cs of None \<Rightarrow> [] | Some cs \<Rightarrow> cs) in
         if list_all check_fits rows then rows else [])"
      "list_all (\<lambda>r. bl_status r \<in> set CHECK_STATUSES \<and> bl_category r \<in> set BASELINE_CATEGORIES) checks"
    proof (rule syncBaselineChecks_run)
      show "w_graph_enabled w1" by (rule score(4))
      show "pa_controls api (w_now w1) = Inr cs" using Inr score(5) by simp
    qed
    have "syncSecurityPosture api w = (Inr (), w2)"
      using res score(1) sync(1) by (cases r) (simp_all add: syncSecurityPosture_def mtry_def mbind_def mgets_def)
    moreover have "synced api w w2 snapshots checks"
      using sync score res Inr by (simp add: synced_def copied_checks_def)
    ultimately show ?thesis by blast
  qed
qed

text \<open>A synchronisation of the security posture never fails its caller and touches two tables: it adds at
  most one snapshot of the score, and the checks are afterwards the old ones (when a call to Graph fails), the
  answered controls, mapped to the known statuses and categories, or none at all (when one of
  them does not fit the table, since the old ones are deleted first).  The summary then has each category once, with the
  counts of its checks, and its totals add up to the number of checks.\<close>

theorem posture_synced:
  "\<exists>w' snapshots checks summary. syncSecurityPosture api w = (Inr (), w') \<and>
     w_db w' = t_baseline_checks_update (\<lambda>_. checks) (t_score_snapshots_update (\<lambda>t. t @ snapshots) (w_db w)) \<and>
     length snapshots \<le> 1 \<and> map (bl_id_update (\<lambda>_. [])) checks = copied_checks api w \<and>
     (checks = t_baseline_checks (w_db w) \<or>
      list_all (\<lambda>r. bl_status r \<in> set CHECK_STATUSES \<and> bl_category r \<in> set BASELINE_CATEGORIES) checks) \<and>
     getBaselineSummary w' = (Inr summary, w') \<and> distinct (map fst summary) \<and>
     list_all (\<lambda>(c, n). n = counts_for c checks \<and> 0 < bc_total n) summary \<and>
     sum_list (map (\<lambda>(c, n). bc_total n) summary) = length checks"
proof -
  obtain w' snapshots checks where run: "syncSecurityPosture api w = (Inr (), w')" and synced: "synced api w w' snapshots checks"
    using sync_tables by blast
  note tables = synced [unfolded synced_def, THEN conjunct1]
    synced [unfolded synced_def, THEN conjunct2, THEN conjunct1]
    synced [unfolded synced_def, THEN conjunct2, THEN conjunct2, THEN conjunct1]
    synced [unfolded synced_def, THEN conjunct2, THEN conjunct2, THEN conjunct2]
  let ?S = "foldl summarize [] checks"
  have answer: "getBaselineSummary w' = (Inr ?S, w')"
    using tables(1) by (simp add: getBaselineSummary_def)
  have counts: "list_all (\<lambda>(c, n). n = counts_for c checks \<and> 0 < bc_total n) ?S"
    using summary_counted by (force simp: list_all_iff)
  show ?thesis
    using summary_of_checks [of checks] by (intro exI conjI) (rule run tables checks_total answer counts | simp)+
qed

end
