(* ===== verification/Assistant_Claims.thy ===== *)
theory Assistant_Claims
  imports Assistant Request_Queries
begin

text \<open>
  What the assistant can do: read, at most twenty rows at a time, and nothing else.
\<close>

lemma enum_param_run: "snd (enum_param name values s w) = w" "fst (enum_param name values s w) = Inl e \<Longrightarrow> e = PlainError ''invalid input value for enum''"
  by (auto simp: enum_param_def or_throw_def split: option.splits)

text \<open>A step that leaves the world as it is and, when it answers, answers one of a kind.\<close>

definition answers :: "('a \<Rightarrow> bool) \<Rightarrow> world \<Rightarrow> 'a svc \<Rightarrow> bool" where
  "answers P w m \<longleftrightarrow> snd (m w) = w \<and> (case fst (m w) of Inl e \<Rightarrow> \<exists>s. e = PlainError s | Inr x \<Rightarrow> P x)"

lemma answers_bind:
  assumes "answers Q w m" and "\<And>x. Q x \<Longrightarrow> answers P w (f x)"
  shows "answers P w (mbind m f)"
proof (cases "m w")
  case (Pair r w')
  show ?thesis
  proof (cases r)
    case (Inl e)
    with assms(1) Pair show ?thesis by (simp add: answers_def mbind_def)
  next
    case (Inr x)
    with assms(1) Pair have "w' = w" "Q x" by (simp_all add: answers_def)
    with assms(2) [of x] Inr Pair show ?thesis by (simp add: answers_def mbind_def)
  qed
qed

lemma answers_ret: "P x \<Longrightarrow> answers P w (mret x)"
  by (simp add: answers_def)

lemma answers_query: "P (f (w_db w)) \<Longrightarrow> answers P w (query f)"
  by (simp add: answers_def)

lemma answers_now: "answers (\<lambda>t. t = w_now w) w now"
  by (simp add: answers_def)

lemma answers_enum: "answers (\<lambda>_. True) w (enum_param name values s)"
  by (auto simp: answers_def enum_param_def or_throw_def split: option.splits)

lemma answers_opt_enum: "answers (\<lambda>_. True) w (opt_enum_param name values s)"
  unfolding opt_enum_param_def by (cases s) (auto intro: answers_ret answers_bind answers_enum)

lemma answers_uuid: "answers (\<lambda>_. True) w (uuid_param s)"
  by (simp add: answers_def uuid_param_def)

lemma length_page: "length (page lim off t) \<le> lim"
  by (simp add: page_def)

lemma answers_requests:
  "answers (\<lambda>(rows, n). length rows \<le> lim \<and> list_all (\<lambda>(r, _). r \<in> set (t_request_items (w_db w)) \<and> request_matches f a r) rows) w
     (list_requests f a lim off)"
  using request_page_subset [of _ f a lim off "w_db w"]
  by (auto simp: answers_def list_requests_apply list_all_iff request_page_def length_page)

section \<open>Tools\<close>

text \<open>The rows of an answer, under whatever name.\<close>

definition rows_of :: "json \<Rightarrow> json list" where
  "rows_of j = (case j of JObj props \<Rightarrow> concat (map (\<lambda>(k, v). case v of JArr xs \<Rightarrow> xs | _ \<Rightarrow> []) props) | _ \<Rightarrow> [])"

definition few_rows :: "json \<Rightarrow> bool" where
  "few_rows j \<longleftrightarrow> length (rows_of j) \<le> 20"

definition row_field :: "json \<Rightarrow> string \<Rightarrow> json" where
  "row_field x k = (case x of JObj props \<Rightarrow> jfield props k | _ \<Rightarrow> JNull)"

definition own_rows :: "db \<Rightarrow> uuid \<Rightarrow> json \<Rightarrow> bool" where
  "own_rows d a j \<longleftrightarrow> list_all (\<lambda>x. \<exists>r \<in> set (t_request_items d). ri_requester r = a \<and> row_field x ''id'' = JStr (ri_id r)) (rows_of j)"

lemma tool_limit_le: "tool_limit input \<le> 20"
  by (simp add: tool_limit_def)

lemmas few_simps = few_rows_def rows_of_def jnat_def

lemma tool_pending: "answers few_rows w (toolGetPendingRequests input)"
  unfolding toolGetPendingRequests_def
  by (rule answers_bind [OF answers_requests])
    (auto simp: few_simps intro!: answers_ret intro: order_trans [OF _ tool_limit_le])

lemma tool_findings: "answers few_rows w (toolGetComplianceFindings input)"
  unfolding toolGetComplianceFindings_def
  by (intro answers_bind [OF answers_enum] answers_bind [OF answers_query [where P = "\<lambda>rows. length rows \<le> tool_limit input"]] answers_ret)
    (auto simp: few_simps length_page intro: order_trans [OF _ tool_limit_le])

lemma tool_grants: "answers few_rows w (toolGetActiveAccessGrants input)"
  unfolding toolGetActiveAccessGrants_def
  by (intro answers_bind [OF answers_now] answers_bind [OF answers_uuid]
      answers_bind [OF answers_query [where P = "\<lambda>rows. length rows \<le> 20"]] answers_ret)
    (auto simp: few_simps length_page)

lemma tool_employees: "answers few_rows w (toolSearchEmployees input)"
proof -
  have "length (filter P rows) \<le> 20" if "length rows \<le> tool_limit input" for P and rows :: "employee list"
    using that length_filter_le [of P rows] tool_limit_le [of input] by linarith
  then show ?thesis
    unfolding toolSearchEmployees_def Let_def
    by (intro answers_bind [OF answers_opt_enum] answers_bind [OF answers_query [where P = "\<lambda>rows. length rows \<le> tool_limit input"]] answers_ret)
      (auto simp: few_simps length_page intro: order_trans [OF _ tool_limit_le] split: option.split)
qed

lemma tool_mine: "answers (\<lambda>j. few_rows j \<and> own_rows (w_db w) (c # a) j) w (toolGetMyRequests input (c # a))"
  unfolding toolGetMyRequests_def
  by (intro answers_bind [OF answers_opt_enum], rule answers_bind [OF answers_requests])
    (force simp: few_simps own_rows_def list_all_iff row_field_def jfield_def request_matches_def truthy_def
      intro!: answers_ret intro: order_trans [OF _ tool_limit_le])

lemma answers_mono: "answers P w m \<Longrightarrow> (\<And>x. P x \<Longrightarrow> Q x) \<Longrightarrow> answers Q w m"
  unfolding answers_def by (auto split: sum.splits)

lemma tool_mine_few: "answers few_rows w (toolGetMyRequests input a)"
  unfolding toolGetMyRequests_def
  by (intro answers_bind [OF answers_opt_enum], rule answers_bind [OF answers_requests])
    (auto simp: few_simps intro!: answers_ret intro: order_trans [OF _ tool_limit_le])

lemma tools_answer: "answers few_rows w (executeTool name input a)"
  by (auto simp: executeTool_def tool_pending tool_findings tool_grants tool_employees tool_mine_few few_simps intro: answers_ret)

section \<open>The loop\<close>

lemma run_tools_answer: "answers (\<lambda>rs. list_all (\<lambda>(_, j). few_rows j) rs) w (run_tools a bs)"
proof (induction a bs rule: run_tools.induct)
  case (2 a i name input bs)
  show ?case
    unfolding run_tools.simps by (rule answers_bind [OF tools_answer], rule answers_bind [OF 2], rule answers_ret) simp
qed (simp_all add: answers_def)

lemma chat_loop_reads: "snd (chat_loop n ai a role ms l w) = w"
proof (induction n arbitrary: ms l)
  case (Suc n)
  have "snd (run_tools a bs w) = w" for bs
    using run_tools_answer unfolding answers_def by blast
  then show ?case
    using Suc.IH by (auto simp: mbind_def outside_call_def Let_def split: prod.splits sum.splits) (metis snd_conv)+
qed simp


end
