(* ===== verification/Seed.thy ===== *)
theory Seed
  imports Schema
begin

text \<open>
  The seed of \<^verbatim>\<open>db/seed.ts\<close>: the catalog of permissions, the system roles with their bundles, and one
  account per role with its assignments.
\<close>

section \<open>The data\<close>

definition PERMISSIONS :: "permission_row list" where
  "PERMISSIONS = [
     \<lparr>pm_key = ''*'', pm_description = ''Wildcard '' @ [CHR 0xE2, CHR 0x80, CHR 0x94] @ '' grants every permission (admin only)''\<rparr>,
     \<lparr>pm_key = ''rbac.read'', pm_description = ''View roles, permissions and assignments''\<rparr>,
     \<lparr>pm_key = ''rbac.manage'', pm_description = ''Create / edit / delete roles and permissions''\<rparr>,
     \<lparr>pm_key = ''role.assign'', pm_description = ''Grant and revoke role assignments''\<rparr>,
     \<lparr>pm_key = ''employee.read'', pm_description = ''View employee directory records''\<rparr>,
     \<lparr>pm_key = ''employee.write'', pm_description = ''Create and update employee records''\<rparr>,
     \<lparr>pm_key = ''employee.offboard'', pm_description = ''Trigger offboarding and revoke all access''\<rparr>,
     \<lparr>pm_key = ''asset.read'', pm_description = ''View hardware asset inventory''\<rparr>,
     \<lparr>pm_key = ''asset.write'', pm_description = ''Create and update asset records''\<rparr>,
     \<lparr>pm_key = ''asset.reassign'', pm_description = ''Reassign assets between employees''\<rparr>,
     \<lparr>pm_key = ''access_request.read'', pm_description = ''View privileged-access requests''\<rparr>,
     \<lparr>pm_key = ''access_request.approve'', pm_description = ''Step-1 approval for access requests (manager tier)''\<rparr>,
     \<lparr>pm_key = ''access_request.security_approve'', pm_description = ''Step-2 IT-Security approval for access requests''\<rparr>,
     \<lparr>pm_key = ''compliance.read'', pm_description = ''View compliance findings and software catalog''\<rparr>,
     \<lparr>pm_key = ''compliance.manage'', pm_description = ''Resolve findings and manage compliance data''\<rparr>,
     \<lparr>pm_key = ''workforce.read'', pm_description = ''View timesheets, leave and overtime entries''\<rparr>,
     \<lparr>pm_key = ''workforce.approve'', pm_description = ''Approve or reject workforce requests (legacy)''\<rparr>,
     \<lparr>pm_key = ''workforce.leave.review'', pm_description = ''Approve or reject leave requests via the approval engine''\<rparr>,
     \<lparr>pm_key = ''workforce.overtime.review'', pm_description = ''Approve or reject overtime requests via the approval engine''\<rparr>,
     \<lparr>pm_key = ''onboarding.approve'', pm_description = ''Step-1: Manager approves new employee hire''\<rparr>,
     \<lparr>pm_key = ''onboarding.provision'', pm_description = ''Step-2: IT provisions accounts and equipment''\<rparr>,
     \<lparr>pm_key = ''onboarding.complete'', pm_description = ''Step-3: HR marks onboarding complete''\<rparr>,
     \<lparr>pm_key = ''offboarding.approve'', pm_description = ''HR approves offboarding and triggers full access revocation''\<rparr>,
     \<lparr>pm_key = ''audit.read'', pm_description = ''Read the immutable audit log''\<rparr>,
     \<lparr>pm_key = ''reports.read'', pm_description = ''View aggregate reports and analytics dashboards''\<rparr>,
     \<lparr>pm_key = ''security.view'', pm_description = ''View Secure Score trends and baseline drift checks''\<rparr>,
     \<lparr>pm_key = ''security.manage'', pm_description = ''Trigger Graph sync and manage security posture data''\<rparr>,
     \<lparr>pm_key = ''notifications.manage'', pm_description = ''Manage notification preferences for all users''\<rparr>,
     \<lparr>pm_key = ''webhooks.manage'', pm_description = ''Create and manage outbound webhook subscriptions''\<rparr>,
     \<lparr>pm_key = ''catalog.manage'', pm_description = ''Create / edit / delete service catalog items''\<rparr>,
     \<lparr>pm_key = ''license.read'', pm_description = ''View software licenses, seats and utilization''\<rparr>,
     \<lparr>pm_key = ''license.manage'', pm_description = ''Create / edit licenses and assign / revoke seats''\<rparr>]"

record seed_role =
  sr_key :: string
  sr_name :: string
  sr_permissions :: "string list"

definition ROLES :: "seed_role list" where
  "ROLES = [
     \<lparr>sr_key = ''admin'', sr_name = ''Platform Administrator'', sr_permissions = [''*'']\<rparr>,
     \<lparr>sr_key = ''it-admin'', sr_name = ''IT Administrator'', sr_permissions = [
        ''employee.read'', ''employee.write'', ''asset.read'', ''asset.write'', ''asset.reassign'',
        ''access_request.read'', ''access_request.approve'', ''access_request.security_approve'', ''compliance.read'',
        ''security.view'', ''security.manage'', ''audit.read'', ''reports.read'', ''rbac.read'',
        ''onboarding.provision'', ''webhooks.manage'', ''catalog.manage'', ''license.read'', ''license.manage'']\<rparr>,
     \<lparr>sr_key = ''security'', sr_name = ''Security Officer'', sr_permissions = [
        ''compliance.read'', ''compliance.manage'', ''security.view'', ''security.manage'', ''access_request.read'',
        ''access_request.approve'', ''access_request.security_approve'', ''audit.read'', ''reports.read'',
        ''license.read'']\<rparr>,
     \<lparr>sr_key = ''hr'', sr_name = ''HR Manager'', sr_permissions = [
        ''employee.read'', ''employee.write'', ''employee.offboard'', ''workforce.read'', ''workforce.approve'',
        ''workforce.leave.review'', ''workforce.overtime.review'', ''audit.read'', ''reports.read'',
        ''onboarding.approve'', ''onboarding.complete'', ''offboarding.approve'']\<rparr>,
     \<lparr>sr_key = ''manager'', sr_name = ''People Manager'', sr_permissions = [
        ''employee.read'', ''workforce.read'', ''workforce.approve'', ''workforce.leave.review'',
        ''workforce.overtime.review'', ''access_request.read'', ''access_request.approve'', ''reports.read'',
        ''onboarding.approve'']\<rparr>,
     \<lparr>sr_key = ''helpdesk'', sr_name = ''Help Desk'', sr_permissions = [''asset.read'', ''asset.write'', ''access_request.read'', ''employee.read'']\<rparr>,
     \<lparr>sr_key = ''auditor'', sr_name = ''Auditor (read-only)'', sr_permissions = [
        ''rbac.read'', ''audit.read'', ''compliance.read'', ''security.view'', ''employee.read'', ''asset.read'',
        ''reports.read'', ''license.read'']\<rparr>,
     \<lparr>sr_key = ''employee'', sr_name = ''Employee'', sr_permissions = []\<rparr>]"

record seed_employee =
  se_email :: string
  se_display_name :: string
  se_department :: string
  se_job_title :: string
  se_role_keys :: "string list"
  se_status :: employee_status

definition EMPLOYEES :: "seed_employee list" where
  "EMPLOYEES = [
     \<lparr>se_email = ''admin@opshub.local'', se_display_name = ''Platform Admin'', se_department = ''IT Operations'',
      se_job_title = ''Platform Administrator'', se_role_keys = [''admin''], se_status = Emp_active\<rparr>,
     \<lparr>se_email = ''it.admin@opshub.local'', se_display_name = ''IT Admin'', se_department = ''IT Operations'',
      se_job_title = ''IT Systems Administrator'', se_role_keys = [''it-admin''], se_status = Emp_active\<rparr>,
     \<lparr>se_email = ''security@opshub.local'', se_display_name = ''Security Officer'', se_department = ''Information Security'',
      se_job_title = ''Information Security Officer'', se_role_keys = [''security''], se_status = Emp_active\<rparr>,
     \<lparr>se_email = ''hr@opshub.local'', se_display_name = ''HR Manager'', se_department = ''Human Resources'',
      se_job_title = ''HR Manager'', se_role_keys = [''hr''], se_status = Emp_active\<rparr>,
     \<lparr>se_email = ''manager@opshub.local'', se_display_name = ''People Manager'', se_department = ''Engineering'',
      se_job_title = ''Engineering Manager'', se_role_keys = [''manager''], se_status = Emp_active\<rparr>,
     \<lparr>se_email = ''helpdesk@opshub.local'', se_display_name = ''Help Desk Agent'', se_department = ''IT Operations'',
      se_job_title = ''IT Support Specialist'', se_role_keys = [''helpdesk''], se_status = Emp_active\<rparr>,
     \<lparr>se_email = ''auditor@opshub.local'', se_display_name = ''Internal Auditor'', se_department = ''Compliance'',
      se_job_title = ''Internal Auditor'', se_role_keys = [''auditor''], se_status = Emp_active\<rparr>,
     \<lparr>se_email = ''alice@opshub.local'', se_display_name = ''Alice Johnson'', se_department = ''Engineering'',
      se_job_title = ''Software Engineer'', se_role_keys = [''employee''], se_status = Emp_active\<rparr>,
     \<lparr>se_email = ''bob@opshub.local'', se_display_name = ''Bob Smith'', se_department = ''Sales'',
      se_job_title = ''Account Executive'', se_role_keys = [''employee''], se_status = Emp_active\<rparr>,
     \<lparr>se_email = ''carol@opshub.local'', se_display_name = ''Carol White'', se_department = ''Finance'',
      se_job_title = ''Financial Analyst'', se_role_keys = [''employee''], se_status = Emp_active\<rparr>]"

section \<open>The script\<close>

text \<open>\<^verbatim>\<open>insert .. onConflictDoNothing\<close>: a row is skipped when the table has one with its unique key.\<close>

definition insert_new :: "('r \<Rightarrow> 'k) \<Rightarrow> 'r list \<Rightarrow> 'r list \<Rightarrow> 'r list" where
  "insert_new k rows t = foldl (\<lambda>t r. if k r \<in> k ` set t then t else insert_row r t) t rows"

text \<open>The rows of an insertion, each with a fresh default identifier.\<close>

fun with_ids :: "(uuid \<Rightarrow> 's \<Rightarrow> 'r) \<Rightarrow> 's list \<Rightarrow> 'r list svc" where
  "with_ids f [] = mret []"
| "with_ids f (x # xs) = mbind newId (\<lambda>i. mbind (with_ids f xs) (\<lambda>rows. mret (f i x # rows)))"

definition seeded_role :: "timestamp \<Rightarrow> uuid \<Rightarrow> seed_role \<Rightarrow> role_row" where
  "seeded_role t i r = \<lparr>ro_id = i, ro_key = sr_key r, ro_name = sr_name r, ro_system = True, ro_updated_at = t\<rparr>"

definition seeded_employee :: "timestamp \<Rightarrow> uuid \<Rightarrow> seed_employee \<Rightarrow> employee" where
  "seeded_employee t i e = \<lparr>emp_id = i, emp_entra_oid = None, emp_email = se_email e, emp_display_name = se_display_name e,
     emp_department = Some (se_department e), emp_job_title = Some (se_job_title e), emp_manager = None,
     emp_roles = se_role_keys e, emp_status = se_status e, emp_photo_key = None, emp_created_at = t, emp_updated_at = t\<rparr>"

text \<open>\<^verbatim>\<open>new Map(rows.map(..))\<close>: a later row replaces an earlier one.\<close>

definition map_from :: "('r \<Rightarrow> string) \<Rightarrow> ('r \<Rightarrow> uuid) \<Rightarrow> 'r list \<Rightarrow> string \<Rightarrow> uuid option" where
  "map_from k v rows = map_of (rev (map (\<lambda>r. (k r, v r)) rows))"

definition role_ids :: "db \<Rightarrow> string \<Rightarrow> uuid option" where
  "role_ids d = map_from ro_key ro_id (select_where (\<lambda>r. ro_key r \<in> sr_key ` set ROLES) (t_roles d))"

definition employee_ids :: "db \<Rightarrow> string \<Rightarrow> uuid option" where
  "employee_ids d = map_from emp_email emp_id (select_where (\<lambda>e. emp_email e \<in> se_email ` set EMPLOYEES) (t_employees d))"

definition seed_permissions :: "(string \<Rightarrow> uuid option) \<Rightarrow> role_permission list" where
  "seed_permissions roleIdByKey = concat (map (\<lambda>r. case roleIdByKey (sr_key r) of
     None \<Rightarrow> [] | Some i \<Rightarrow> map (\<lambda>p. \<lparr>rp_role = i, rp_permission = p\<rparr>) (sr_permissions r)) ROLES)"

text \<open>The permission of a new row refers to the catalog.\<close>

definition insert_role_permissions :: "role_permission list \<Rightarrow> unit svc" where
  "insert_role_permissions rows =
     mbind (query (\<lambda>d. list_all (\<lambda>r. rp_permission r \<in> pm_key ` set (t_permissions d)) rows)) (\<lambda>known.
     mbind (throw_if (\<not> known) (PlainError ''foreign key'')) (\<lambda>_.
     exec (t_role_permissions_update (insert_new (\<lambda>r. (rp_role r, rp_permission r)) rows))))"

definition seed_assignment :: "uuid \<Rightarrow> uuid \<Rightarrow> uuid \<Rightarrow> unit svc" where
  "seed_assignment grantedBy userId roleId =
     mbind (query (\<lambda>d. find_where (\<lambda>a. ura_user a = userId \<and> ura_role a = roleId \<and> ura_scope_type a = Scope_global \<and>
              ura_scope_id a = None) (t_role_assignments d))) (\<lambda>existing.
     mwhen (existing = None) (mbind newId (\<lambda>i. mbind now (\<lambda>t.
       exec (t_role_assignments_update (insert_row \<lparr>ura_id = i, ura_user = userId, ura_role = roleId,
         ura_scope_type = Scope_global, ura_scope_id = None, ura_granted_by = grantedBy, ura_expires_at = None,
         ura_created_at = t\<rparr>))))))"

definition seed_employee_roles :: "(string \<Rightarrow> uuid option) \<Rightarrow> (string \<Rightarrow> uuid option) \<Rightarrow> seed_employee \<Rightarrow> unit svc" where
  "seed_employee_roles roleIdByKey empIdByEmail emp =
     (case empIdByEmail (se_email emp) of
        None \<Rightarrow> mret ()
      | Some userId \<Rightarrow> mfor (se_role_keys emp) (\<lambda>k.
          case roleIdByKey k of
            None \<Rightarrow> mret ()
          | Some roleId \<Rightarrow> seed_assignment
              (case empIdByEmail ''admin@opshub.local'' of None \<Rightarrow> userId | Some adminId \<Rightarrow> adminId) userId roleId))"

definition seed_main :: "unit svc" where
  "seed_main =
     mbind (exec (t_permissions_update (insert_new pm_key PERMISSIONS))) (\<lambda>_.
     mbind now (\<lambda>t.
     mbind (with_ids (seeded_role t) ROLES) (\<lambda>roles.
     mbind (exec (t_roles_update (insert_new ro_key roles))) (\<lambda>_.
     mbind (query role_ids) (\<lambda>roleIdByKey.
     let rolePermValues = seed_permissions roleIdByKey in
     mbind (mwhen (rolePermValues \<noteq> []) (insert_role_permissions rolePermValues)) (\<lambda>_.
     mbind now (\<lambda>t'.
     mbind (with_ids (seeded_employee t') EMPLOYEES) (\<lambda>emps.
     mbind (exec (t_employees_update (insert_new emp_email emps))) (\<lambda>_.
     mbind (query employee_ids) (\<lambda>empIdByEmail.
     mfor EMPLOYEES (seed_employee_roles roleIdByKey empIdByEmail)))))))))))"

end
