(* ===== verification/Permission_Claims.thy ===== *)
theory Permission_Claims
  imports Api_Claims Seed
begin

text \<open>
  The catalog of permissions that the seed writes, against the permissions that the routes and the types of
  requests ask for.
\<close>

definition known_permission :: "string \<Rightarrow> bool" where
  "known_permission p \<longleftrightarrow> p \<in> set (map pm_key PERMISSIONS)"

text \<open>Every permission that lets somebody approve a step of a request of the type.\<close>

definition approval_permissions :: "type_def \<Rightarrow> string list" where
  "approval_permissions def = td_permission def # (case td_steps def of None \<Rightarrow> [] | Some steps \<Rightarrow> map sd_permission steps)"

lemma step_permission_in: "step_permission def n \<in> set (approval_permissions def)"
  by (auto simp: step_permission_def approval_permissions_def find_where_def find_Some_iff split: option.split)

text \<open>The permissions that a controller asks for.\<close>

definition route_permissions :: "string list" where
  "route_permissions = [''access_request.security_approve'', ''asset.write'', ''asset.reassign'', ''audit.read'', ''rbac.read'',
     ''rbac.manage'', ''role.assign'', ''catalog.manage'', ''compliance.manage'', ''compliance.read'', ''employee.write'', ''license.read'',
     ''license.manage'', ''workforce.approve'', ''onboarding.approve'', ''offboarding.approve'', ''reports.read'', ''security.view'',
     ''security.manage'']"

definition asks_for :: "endpoint \<Rightarrow> string list" where
  "asks_for ep = (case rte_permission (ep_route ep) of None \<Rightarrow> [] | Some p \<Rightarrow> [pr_permission p])"

lemma requests_asks: "set (asks_for (requests_endpoint op)) \<subseteq> set route_permissions"
  by (cases op) (simp_all add: asks_for_def route_permissions_def route_defs)

lemma access_asks: "set (asks_for (access_endpoint op)) \<subseteq> set route_permissions"
  by (cases op) (simp_all add: asks_for_def route_permissions_def route_defs)

lemma catalog_asks: "set (asks_for (catalog_endpoint op)) \<subseteq> set route_permissions"
  by (cases op) (simp_all add: asks_for_def route_permissions_def route_defs)

lemma workforce_asks: "set (asks_for (workforce_endpoint s3 op)) \<subseteq> set route_permissions"
  by (cases op) (simp_all add: asks_for_def route_permissions_def route_defs)

lemma assets_asks: "set (asks_for (assets_endpoint s3 op)) \<subseteq> set route_permissions"
  by (cases op) (simp_all add: asks_for_def route_permissions_def route_defs)

lemma licenses_asks: "set (asks_for (licenses_endpoint op)) \<subseteq> set route_permissions"
  by (cases op) (simp_all add: asks_for_def route_permissions_def route_defs)

lemma compliance_asks: "set (asks_for (compliance_endpoint op)) \<subseteq> set route_permissions"
  by (cases op) (simp_all add: asks_for_def route_permissions_def route_defs)

lemma authz_asks: "set (asks_for (authz_endpoint op)) \<subseteq> set route_permissions"
  by (cases op) (simp_all add: asks_for_def route_permissions_def route_defs)

lemma webhooks_asks: "set (asks_for (webhooks_endpoint op)) \<subseteq> set route_permissions"
  by (cases op) (simp_all add: asks_for_def route_permissions_def route_defs)

lemma employees_asks: "set (asks_for (employees_endpoint s3 op)) \<subseteq> set route_permissions"
  by (cases op) (simp_all add: asks_for_def route_permissions_def route_defs)

lemma session_asks: "set (asks_for (session_endpoint ae isProd op)) \<subseteq> set route_permissions"
  by (cases op) (simp_all add: asks_for_def route_permissions_def route_defs)

lemma inbox_asks: "set (asks_for (inbox_endpoint op)) \<subseteq> set route_permissions"
  by (cases op) (simp_all add: asks_for_def route_permissions_def route_defs)

lemma reports_asks: "set (asks_for (reports_endpoint op)) \<subseteq> set route_permissions"
  by (cases op) (simp_all add: asks_for_def route_permissions_def route_defs report_route_def)

lemma posture_asks: "set (asks_for (posture_endpoint op)) \<subseteq> set route_permissions"
  by (cases op) (simp_all add: asks_for_def route_permissions_def route_defs)

lemma audits_asks: "set (asks_for (audits_endpoint f lim off)) \<subseteq> set route_permissions"
  by (simp add: asks_for_def route_permissions_def route_defs audits_endpoint_def)

lemma ai_asks: "set (asks_for (ai_endpoint ai ms)) \<subseteq> set route_permissions"
  by (simp add: asks_for_def route_defs ai_endpoint_def)

lemma health_asks: "set (asks_for (health_endpoint he op)) \<subseteq> set route_permissions"
  by (cases op) (simp_all add: asks_for_def route_defs)

lemma stream_asks: "set (asks_for stream_endpoint) \<subseteq> set route_permissions"
  by (simp add: asks_for_def route_defs stream_endpoint_def)

lemmas every_ask = health_asks stream_asks requests_asks access_asks catalog_asks workforce_asks assets_asks licenses_asks compliance_asks authz_asks webhooks_asks employees_asks session_asks inbox_asks reports_asks posture_asks audits_asks ai_asks

lemma api_asks: "set (asks_for (api_endpoint env op)) \<subseteq> set route_permissions"
  by (cases op) (simp_all only: api_endpoint.simps every_ask)

lemma routes_known: "list_all known_permission route_permissions"
  by (simp add: known_permission_def route_permissions_def PERMISSIONS_def)

text \<open>Each of them is asked for by some operation.\<close>

lemma route_asked:
  "\<exists>op. ''access_request.security_approve'' \<in> set (asks_for (api_endpoint env op))"
  "\<exists>op. ''asset.write'' \<in> set (asks_for (api_endpoint env op))"
  "\<exists>op. ''asset.reassign'' \<in> set (asks_for (api_endpoint env op))"
  "\<exists>op. ''audit.read'' \<in> set (asks_for (api_endpoint env op))"
  "\<exists>op. ''rbac.read'' \<in> set (asks_for (api_endpoint env op))"
  "\<exists>op. ''rbac.manage'' \<in> set (asks_for (api_endpoint env op))"
  "\<exists>op. ''role.assign'' \<in> set (asks_for (api_endpoint env op))"
  "\<exists>op. ''catalog.manage'' \<in> set (asks_for (api_endpoint env op))"
  "\<exists>op. ''compliance.manage'' \<in> set (asks_for (api_endpoint env op))"
  "\<exists>op. ''compliance.read'' \<in> set (asks_for (api_endpoint env op))"
  "\<exists>op. ''employee.write'' \<in> set (asks_for (api_endpoint env op))"
  "\<exists>op. ''license.read'' \<in> set (asks_for (api_endpoint env op))"
  "\<exists>op. ''license.manage'' \<in> set (asks_for (api_endpoint env op))"
  "\<exists>op. ''workforce.approve'' \<in> set (asks_for (api_endpoint env op))"
  "\<exists>op. ''onboarding.approve'' \<in> set (asks_for (api_endpoint env op))"
  "\<exists>op. ''offboarding.approve'' \<in> set (asks_for (api_endpoint env op))"
  "\<exists>op. ''reports.read'' \<in> set (asks_for (api_endpoint env op))"
  "\<exists>op. ''security.view'' \<in> set (asks_for (api_endpoint env op))"
  "\<exists>op. ''security.manage'' \<in> set (asks_for (api_endpoint env op))"
  subgoal by (rule exI [of _ "Access (AccessApprove undefined undefined)"]) (simp add: asks_for_def route_defs report_route_def audits_endpoint_def)
  subgoal by (rule exI [of _ "Assets (AssetsCreate undefined)"]) (simp add: asks_for_def route_defs report_route_def audits_endpoint_def)
  subgoal by (rule exI [of _ "Assets (AssetsAssign undefined undefined undefined)"]) (simp add: asks_for_def route_defs report_route_def audits_endpoint_def)
  subgoal by (rule exI [of _ "AuditLogs undefined undefined undefined"]) (simp add: asks_for_def route_defs report_route_def audits_endpoint_def)
  subgoal by (rule exI [of _ "Authz PermissionsList"]) (simp add: asks_for_def route_defs report_route_def audits_endpoint_def)
  subgoal by (rule exI [of _ "Authz (RolesCreate undefined)"]) (simp add: asks_for_def route_defs report_route_def audits_endpoint_def)
  subgoal by (rule exI [of _ "Authz (AssignmentsCreate undefined)"]) (simp add: asks_for_def route_defs report_route_def audits_endpoint_def)
  subgoal by (rule exI [of _ "Catalog (CatalogCreate undefined)"]) (simp add: asks_for_def route_defs report_route_def audits_endpoint_def)
  subgoal by (rule exI [of _ "Compliance (ShadowItScan undefined)"]) (simp add: asks_for_def route_defs report_route_def audits_endpoint_def)
  subgoal by (rule exI [of _ "Compliance ShadowItList"]) (simp add: asks_for_def route_defs report_route_def audits_endpoint_def)
  subgoal by (rule exI [of _ "Employees (EmployeesCreate undefined)"]) (simp add: asks_for_def route_defs report_route_def audits_endpoint_def)
  subgoal by (rule exI [of _ "Licenses (LicensesGet undefined)"]) (simp add: asks_for_def route_defs report_route_def audits_endpoint_def)
  subgoal by (rule exI [of _ "Licenses (LicensesCreate undefined)"]) (simp add: asks_for_def route_defs report_route_def audits_endpoint_def)
  subgoal by (rule exI [of _ "Workforce (TimesheetsReview undefined undefined)"]) (simp add: asks_for_def route_defs report_route_def audits_endpoint_def)
  subgoal by (rule exI [of _ "Workforce (OnboardingSubmit undefined)"]) (simp add: asks_for_def route_defs report_route_def audits_endpoint_def)
  subgoal by (rule exI [of _ "Workforce (OffboardingSubmit undefined)"]) (simp add: asks_for_def route_defs report_route_def audits_endpoint_def)
  subgoal by (rule exI [of _ "Reports ReportQueueDepth"]) (simp add: asks_for_def route_defs report_route_def audits_endpoint_def)
  subgoal by (rule exI [of _ "SecurityPosture PostureScore"]) (simp add: asks_for_def route_defs report_route_def audits_endpoint_def)
  subgoal by (rule exI [of _ "SecurityPosture (PostureSync undefined)"]) (simp add: asks_for_def route_defs report_route_def audits_endpoint_def)
  done

lemma routes_exact: "(\<exists>op. p \<in> set (asks_for (api_endpoint env op))) \<longleftrightarrow> p \<in> set route_permissions"
proof
  assume "p \<in> set route_permissions"
  then show "\<exists>op. p \<in> set (asks_for (api_endpoint env op))"
    unfolding route_permissions_def using route_asked by auto
qed (use api_asks in blast)

text \<open>The permissions that open a route or approve a step of a request.\<close>

definition used_permissions :: "string list" where
  "used_permissions = route_permissions @ concat (map approval_permissions app_types)"

lemma approvals_exact: "(\<exists>n. p = step_permission def n) \<longleftrightarrow> p \<in> set (approval_permissions def)" if "def \<in> set app_types"
proof
  assume "p \<in> set (approval_permissions def)"
  then have "p = step_permission def 0 \<or> p = step_permission def 1 \<or> p = step_permission def 2 \<or> p = step_permission def 3"
    using that by (auto simp: app_types_def type_defs approval_permissions_def step_permission_def)
  then show "\<exists>n. p = step_permission def n" by blast
qed (use step_permission_in in auto)

lemma used_unknown: "filter (\<lambda>p. \<not> known_permission p) used_permissions = [''requests.approve'']"
  by (simp add: used_permissions_def route_permissions_def app_types_def type_defs approval_permissions_def known_permission_def PERMISSIONS_def)

lemma known_unused:
  "filter (\<lambda>p. p \<noteq> ''*'' \<and> p \<notin> set used_permissions) (map pm_key PERMISSIONS) =
     [''employee.read'', ''employee.offboard'', ''asset.read'', ''access_request.read'', ''workforce.read'',
      ''notifications.manage'', ''webhooks.manage'']"
  by (simp add: used_permissions_def route_permissions_def app_types_def type_defs approval_permissions_def PERMISSIONS_def)

text \<open>C39: the seeded catalog against the permissions in use, exactly.  The permissions that some route of
  the API asks for are those of \<open>route_permissions\<close>, and those that decide some step of a request of a type are its
  \<open>approval_permissions\<close>.  Of all these exactly one is not in the catalog, that of catalog requests, so
  that of the seeded roles only the wildcard covers it; and exactly seven permissions of the catalog
  (besides the wildcard) are asked for by no route and no step, among them the one to manage webhooks.\<close>

theorem permissions_known:
  "((\<exists>op. p \<in> set (asks_for (api_endpoint env op))) \<longleftrightarrow> p \<in> set route_permissions) \<and>
   list_all (\<lambda>def. (\<exists>n. p = step_permission def n) \<longleftrightarrow> p \<in> set (approval_permissions def)) app_types \<and>
   filter (\<lambda>p. \<not> known_permission p) (route_permissions @ concat (map approval_permissions app_types)) = [''requests.approve''] \<and>
   filter (\<lambda>p. p \<noteq> ''*'' \<and> p \<notin> set (route_permissions @ concat (map approval_permissions app_types))) (map pm_key PERMISSIONS) =
     [''employee.read'', ''employee.offboard'', ''asset.read'', ''access_request.read'', ''workforce.read'',
      ''notifications.manage'', ''webhooks.manage''] \<and>
   step_permission catalog_request_def n = ''requests.approve''"
proof (intro conjI)
  show "(\<exists>op. p \<in> set (asks_for (api_endpoint env op))) \<longleftrightarrow> p \<in> set route_permissions"
    by (rule routes_exact)
  show "list_all (\<lambda>def. (\<exists>n. p = step_permission def n) \<longleftrightarrow> p \<in> set (approval_permissions def)) app_types"
    unfolding list_all_iff by (intro ballI approvals_exact)
  show "step_permission catalog_request_def n = ''requests.approve''"
    by (simp add: catalog_request_def_def step_permission_def)
qed (fact used_unknown [unfolded used_permissions_def] known_unused [unfolded used_permissions_def])+

end
