(* ===== verification/Seed_Claims.thy ===== *)
theory Seed_Claims
  imports Seed Scenario
begin

text \<open>
  The seed runs through on any database and leaves it seeded, and run again it changes no table.
\<close>

section \<open>Insertions\<close>

lemma insert_new_keys: "k ` set (insert_new k rows t) = k ` set rows \<union> k ` set t"
  unfolding insert_new_def by (induction rows arbitrary: t) (auto simp: insert_row_def)

lemma insert_new_known: "k ` set rows \<subseteq> k ` set t \<Longrightarrow> insert_new k rows t = t"
  unfolding insert_new_def by (induction rows) auto

lemma insert_new_append: "distinct (map k (t @ rows)) \<Longrightarrow> insert_new k rows t = t @ rows"
  unfolding insert_new_def
proof (induction rows arbitrary: t)
  case (Cons r rows)
  then have "k r \<notin> k ` set t" by auto
  with Cons.IH [of "t @ [r]"] Cons.prems show ?case by (simp add: insert_row_def)
qed simp

lemma with_ids_run:
  "\<exists>rows. with_ids f xs w = (Inr rows, w\<lparr>w_next := w_next w + length xs\<rparr>) \<and> length rows = length xs \<and>
     (\<forall>i < length xs. rows ! i = f (w_uuid w (w_next w + i)) (xs ! i))"
proof (induction xs arbitrary: w)
  case (Cons x xs)
  obtain rows where rows: "with_ids f xs (w\<lparr>w_next := Suc (w_next w)\<rparr>) = (Inr rows, w\<lparr>w_next := Suc (w_next w) + length xs\<rparr>)"
    "length rows = length xs" "\<forall>i < length xs. rows ! i = f (w_uuid w (Suc (w_next w) + i)) (xs ! i)"
    using Cons.IH [of "w\<lparr>w_next := Suc (w_next w)\<rparr>"] by auto
  show ?case
    using rows by (intro exI [of _ "f (w_uuid w (w_next w)) x # rows"]) (auto simp: mbind_eq [where m = "with_ids f xs", OF rows(1)] nth_Cons split: nat.split)
qed simp

lemma with_ids_keys:
  assumes "with_ids f xs w = (Inr rows, w')" and "\<And>i x. k (f i x) = g x"
  shows "map k rows = map g xs" and "w' = w\<lparr>w_next := w_next w + length xs\<rparr>"
  using with_ids_run [of f xs w] assms by (auto simp: list_eq_iff_nth_eq)

section \<open>Running twice\<close>

definition assigned :: "db \<Rightarrow> uuid \<Rightarrow> uuid \<Rightarrow> bool" where
  "assigned d u r \<longleftrightarrow> find_where (\<lambda>a. ura_user a = u \<and> ura_role a = r \<and> ura_scope_type a = Scope_global \<and> ura_scope_id a = None)
     (t_role_assignments d) \<noteq> None"

text \<open>Only assignments are added, and none is removed.\<close>

definition more_assignments :: "world \<Rightarrow> world \<Rightarrow> bool" where
  "more_assignments w w' \<longleftrightarrow> (\<exists>new. w_db w' = t_role_assignments_update (\<lambda>t. t @ new) (w_db w))"

interpretation more: frame_rel more_assignments
proof
  fix w u v :: world
  show "more_assignments w w"
    unfolding more_assignments_def by (intro exI [of _ "[]"]) simp
  assume "more_assignments w u" "more_assignments u v"
  then obtain xs ys where "w_db u = t_role_assignments_update (\<lambda>t. t @ xs) (w_db w)" "w_db v = t_role_assignments_update (\<lambda>t. t @ ys) (w_db u)"
    unfolding more_assignments_def by blast
  then show "more_assignments w v"
    unfolding more_assignments_def by (intro exI [of _ "xs @ ys"]) (simp add: comp_def)
qed

lemma assigned_iff:
  "assigned d u r \<longleftrightarrow> list_ex (\<lambda>a. ura_user a = u \<and> ura_role a = r \<and> ura_scope_type a = Scope_global \<and> ura_scope_id a = None) (t_role_assignments d)"
  unfolding assigned_def find_where_def by (induction "t_role_assignments d") (auto simp: find_None_iff list_ex_iff)

lemma assigned_more: "assigned (w_db w) u r \<Longrightarrow> more_assignments w w' \<Longrightarrow> assigned (w_db w') u r"
  by (auto simp: assigned_iff more_assignments_def)

lemma seed_assignment_run:
  "\<exists>w'. seed_assignment g u r w = (Inr (), w') \<and> more_assignments w w' \<and> assigned (w_db w') u r \<and> (assigned (w_db w) u r \<longrightarrow> w' = w)"
proof (cases "assigned (w_db w) u r")
  case True
  then have "seed_assignment g u r w = (Inr (), w)"
    unfolding seed_assignment_def assigned_def by (simp only: mbind_query mwhen_def if_False) simp
  with True show ?thesis using more.rel_refl by blast
next
  case False
  let ?row = "\<lparr>ura_id = w_uuid w (w_next w), ura_user = u, ura_role = r, ura_scope_type = Scope_global, ura_scope_id = None,
    ura_granted_by = g, ura_expires_at = None, ura_created_at = w_now w\<rparr>"
  let ?w = "w\<lparr>w_next := Suc (w_next w), w_db := t_role_assignments_update (\<lambda>t. t @ [?row]) (w_db w)\<rparr>"
  have "seed_assignment g u r w = (Inr (), ?w)"
    using False by (simp add: seed_assignment_def assigned_def mwhen_def insert_row_def [abs_def])
  moreover have "more_assignments w ?w"
    unfolding more_assignments_def by (intro exI [of _ "[?row]"]) simp
  moreover have "assigned (w_db ?w) u r" by (simp add: assigned_iff)
  ultimately show ?thesis using False by blast
qed

text \<open>A loop whose step establishes a property that the rest of the loop keeps.\<close>

lemma mfor_establishes:
  assumes "\<And>x w. x \<in> set xs \<Longrightarrow> \<exists>w'. f x w = (Inr (), w') \<and> more_assignments w w' \<and> P x w' \<and> (P x w \<longrightarrow> w' = w)"
    and "\<And>x w w'. P x w \<Longrightarrow> more_assignments w w' \<Longrightarrow> P x w'"
  shows "\<exists>w'. mfor xs f w = (Inr (), w') \<and> more_assignments w w' \<and> (\<forall>x \<in> set xs. P x w') \<and> ((\<forall>x \<in> set xs. P x w) \<longrightarrow> w' = w)"
  using assms(1)
proof (induction xs arbitrary: w)
  case Nil
  then show ?case using more.rel_refl by simp
next
  case (Cons x xs)
  obtain u where u: "f x w = (Inr (), u)" "more_assignments w u" "P x u" "P x w \<longrightarrow> u = w" using Cons.prems [of x w] by auto
  obtain v where v: "mfor xs f u = (Inr (), v)" "more_assignments u v" "\<forall>x \<in> set xs. P x v" "(\<forall>x \<in> set xs. P x u) \<longrightarrow> v = u"
    using Cons.IH [of u, OF Cons.prems] by auto
  have "mfor (x # xs) f w = (Inr (), v)" using u(1) v(1) by (simp add: mbind_def)
  moreover have "more_assignments w v" using u(2) v(2) by (rule more.rel_trans)
  moreover have "P x v" using assms(2) [OF u(3) v(2)] .
  ultimately show ?case using u(4) v(3,4) by auto
qed

definition equipped :: "(string \<Rightarrow> uuid option) \<Rightarrow> (string \<Rightarrow> uuid option) \<Rightarrow> seed_employee \<Rightarrow> world \<Rightarrow> bool" where
  "equipped roleIdByKey empIdByEmail e w \<longleftrightarrow>
     (\<forall>k \<in> set (se_role_keys e). \<forall>u r. empIdByEmail (se_email e) = Some u \<and> roleIdByKey k = Some r \<longrightarrow> assigned (w_db w) u r)"

lemma equipped_more: "equipped rs es e w \<Longrightarrow> more_assignments w w' \<Longrightarrow> equipped rs es e w'"
  unfolding equipped_def using assigned_more by blast

lemma seed_employee_roles_run:
  "\<exists>w'. seed_employee_roles rs es e w = (Inr (), w') \<and> more_assignments w w' \<and> equipped rs es e w' \<and> (equipped rs es e w \<longrightarrow> w' = w)"
proof (cases "es (se_email e)")
  case None
  then show ?thesis using more.rel_refl by (auto simp: seed_employee_roles_def equipped_def)
next
  case (Some u)
  define P where "P k w \<longleftrightarrow> (\<forall>r. rs k = Some r \<longrightarrow> assigned (w_db w) u r)" for k and w :: world
  let ?g = "case es ''admin@opshub.local'' of None \<Rightarrow> u | Some adminId \<Rightarrow> adminId"
  have step: "\<exists>w'. (case rs k of None \<Rightarrow> mret () | Some r \<Rightarrow> seed_assignment ?g u r) w = (Inr (), w') \<and> more_assignments w w' \<and> P k w' \<and> (P k w \<longrightarrow> w' = w)" for k w
    using more.rel_refl seed_assignment_run [of ?g u _ w] by (cases "rs k") (auto simp: P_def)
  have keep: "P k w \<Longrightarrow> more_assignments w w' \<Longrightarrow> P k w'" for k w w'
    unfolding P_def using assigned_more by blast
  from mfor_establishes [of "se_role_keys e" "\<lambda>k. case rs k of None \<Rightarrow> mret () | Some r \<Rightarrow> seed_assignment ?g u r" P, OF step keep]
  show ?thesis
    using Some by (auto simp: seed_employee_roles_def equipped_def P_def)
qed

lemma assignments_run:
  "\<exists>w'. mfor EMPLOYEES (seed_employee_roles rs es) w = (Inr (), w') \<and> more_assignments w w' \<and> (\<forall>e \<in> set EMPLOYEES. equipped rs es e w') \<and>
     ((\<forall>e \<in> set EMPLOYEES. equipped rs es e w) \<longrightarrow> w' = w)"
  by (rule mfor_establishes [OF seed_employee_roles_run equipped_more])

text \<open>What a database has once the seed has run.\<close>

definition seeded :: "db \<Rightarrow> bool" where
  "seeded d \<longleftrightarrow> pm_key ` set PERMISSIONS \<subseteq> pm_key ` set (t_permissions d) \<and> sr_key ` set ROLES \<subseteq> ro_key ` set (t_roles d) \<and>
     (\<lambda>r. (rp_role r, rp_permission r)) ` set (seed_permissions (role_ids d)) \<subseteq> (\<lambda>r. (rp_role r, rp_permission r)) ` set (t_role_permissions d) \<and>
     list_all (\<lambda>r. rp_permission r \<in> pm_key ` set (t_permissions d)) (seed_permissions (role_ids d)) \<and>
     se_email ` set EMPLOYEES \<subseteq> emp_email ` set (t_employees d) \<and>
     (\<forall>e \<in> set EMPLOYEES. \<forall>k \<in> set (se_role_keys e). \<forall>u r. employee_ids d (se_email e) = Some u \<and> role_ids d k = Some r \<longrightarrow> assigned d u r)"

lemma unchanged_tables:
  "f (t_permissions d) = t_permissions d \<Longrightarrow> t_permissions_update f d = d"
  "g (t_roles d) = t_roles d \<Longrightarrow> t_roles_update g d = d"
  "h (t_role_permissions d) = t_role_permissions d \<Longrightarrow> t_role_permissions_update h d = d"
  "m (t_employees d) = t_employees d \<Longrightarrow> t_employees_update m d = d"
  by (cases d; simp)+

lemma same_db_world: "d = w_db w \<Longrightarrow> w\<lparr>w_db := d\<rparr> = w" for w :: world
  by simp

lemma seeded_keys: "ro_key (seeded_role t i r) = sr_key r" "emp_email (seeded_employee t i e) = se_email e"
  by (simp_all add: seeded_role_def seeded_employee_def)

lemma seed_again:
  assumes "seeded (w_db w)"
  shows "\<exists>w'. seed_main w = (Inr (), w') \<and> w_db w' = w_db w"
proof -
  let ?d = "w_db w" and ?t = "w_now w"
  have perms: "t_permissions_update (insert_new pm_key PERMISSIONS) ?d = ?d"
    using assms by (intro unchanged_tables insert_new_known) (simp add: seeded_def)
  obtain roles where roles: "with_ids (seeded_role ?t) ROLES w = (Inr roles, w\<lparr>w_next := w_next w + length ROLES\<rparr>)"
    using with_ids_run by blast
  let ?w2 = "w\<lparr>w_next := w_next w + length ROLES\<rparr>"
  have "ro_key ` set roles = sr_key ` set ROLES"
    using with_ids_keys(1) [OF roles, of ro_key sr_key] by (metis list.set_map seeded_keys(1))
  then have t_roles: "t_roles_update (insert_new ro_key roles) ?d = ?d"
    using assms by (intro unchanged_tables insert_new_known) (simp add: seeded_def)
  have bundles: "mwhen (seed_permissions (role_ids ?d) \<noteq> []) (insert_role_permissions (seed_permissions (role_ids ?d))) ?w2 = (Inr (), ?w2)"
  proof -
    have "t_role_permissions_update (insert_new (\<lambda>r. (rp_role r, rp_permission r)) (seed_permissions (role_ids ?d))) ?d = ?d"
      using assms by (intro unchanged_tables insert_new_known) (simp add: seeded_def)
    then show ?thesis
      using assms by (simp add: seeded_def mwhen_def insert_role_permissions_def)
  qed
  obtain emps where emps: "with_ids (seeded_employee ?t) EMPLOYEES ?w2 = (Inr emps, ?w2\<lparr>w_next := w_next ?w2 + length EMPLOYEES\<rparr>)"
    using with_ids_run by blast
  let ?w3 = "?w2\<lparr>w_next := w_next ?w2 + length EMPLOYEES\<rparr>"
  have "emp_email ` set emps = se_email ` set EMPLOYEES"
    using with_ids_keys(1) [OF emps, of emp_email se_email] by (metis list.set_map seeded_keys(2))
  then have t_emps: "t_employees_update (insert_new emp_email emps) ?d = ?d"
    using assms by (intro unchanged_tables insert_new_known) (simp add: seeded_def)
  have "\<forall>e \<in> set EMPLOYEES. equipped (role_ids ?d) (employee_ids ?d) e ?w3"
    using assms by (simp add: seeded_def equipped_def)
  with assignments_run [of "role_ids ?d" "employee_ids ?d" ?w3]
  have loop: "mfor EMPLOYEES (seed_employee_roles (role_ids ?d) (employee_ids ?d)) ?w3 = (Inr (), ?w3)"
    by blast
  have "seed_main w = (Inr (), ?w3)"
    unfolding seed_main_def Let_def mbind_exec mbind_now mbind_query perms
    using loop by (simp add: t_roles t_emps
        mbind_eq [where m = "with_ids (seeded_role (w_now w)) ROLES", OF roles]
        mbind_eq [where m = "mwhen (seed_permissions (role_ids (w_db w)) \<noteq> []) (insert_role_permissions (seed_permissions (role_ids (w_db w))))", OF bundles]
        mbind_eq [where m = "with_ids (seeded_employee (w_now w)) EMPLOYEES", OF emps] del: mbind_when)
  then show ?thesis by auto
qed

text \<open>The seed in two halves: the roles and their bundles, then the accounts and their assignments.\<close>

definition accounts_half :: "(string \<Rightarrow> uuid option) \<Rightarrow> unit svc" where
  "accounts_half rs = mbind now (\<lambda>t'. mbind (with_ids (seeded_employee t') EMPLOYEES) (\<lambda>emps.
     mbind (exec (t_employees_update (insert_new emp_email emps))) (\<lambda>_. mbind (query employee_ids) (\<lambda>es.
     mfor EMPLOYEES (seed_employee_roles rs es)))))"

definition bundles_half :: "(string \<Rightarrow> uuid option) \<Rightarrow> unit svc" where
  "bundles_half rs = mwhen (seed_permissions rs \<noteq> []) (insert_role_permissions (seed_permissions rs))"

lemma seed_main_halves:
  assumes "with_ids (seeded_role (w_now w)) ROLES (w\<lparr>w_db := t_permissions_update (insert_new pm_key PERMISSIONS) (w_db w)\<rparr>) = (Inr roles, w2)"
    and "w3 = w2\<lparr>w_db := t_roles_update (insert_new ro_key roles) (w_db w2)\<rparr>"
  shows "seed_main w = mbind (bundles_half (role_ids (w_db w3))) (\<lambda>_. accounts_half (role_ids (w_db w3))) w3"
  by (simp add: seed_main_def accounts_half_def bundles_half_def Let_def assms(2)
      mbind_eq [where m = "with_ids (seeded_role (w_now w)) ROLES", OF assms(1)] del: mbind_when)

lemma accounts_half_run:
  assumes "with_ids (seeded_employee (w_now w)) EMPLOYEES w = (Inr emps, w2)"
    and "w3 = w2\<lparr>w_db := t_employees_update (insert_new emp_email emps) (w_db w2)\<rparr>"
  shows "accounts_half rs w = mfor EMPLOYEES (seed_employee_roles rs (employee_ids (w_db w3))) w3"
  by (simp add: accounts_half_def assms(2) mbind_eq [where m = "with_ids (seeded_employee (w_now w)) EMPLOYEES", OF assms(1)])

lemma with_ids_gives: obtains rows where "with_ids f xs w = (Inr rows, w\<lparr>w_next := w_next w + length xs\<rparr>)"
  using with_ids_run by blast

lemma seed_seeds:
  assumes "seed_main w = (Inr (), w')"
  shows "seeded (w_db w')"
proof -
  let ?t = "w_now w" and ?w1 = "w\<lparr>w_db := t_permissions_update (insert_new pm_key PERMISSIONS) (w_db w)\<rparr>"
  let ?b = "\<lambda>r. (rp_role r, rp_permission r)"
  obtain roles w2 where roles: "with_ids (seeded_role ?t) ROLES ?w1 = (Inr roles, w2)"
    using with_ids_run by blast
  note role_keys = with_ids_keys [OF roles, of ro_key sr_key, OF seeded_keys(1)]
  let ?w3 = "w2\<lparr>w_db := t_roles_update (insert_new ro_key roles) (w_db w2)\<rparr>"
  let ?rs = "role_ids (w_db ?w3)"
  let ?vals = "seed_permissions ?rs"
  have "mbind (bundles_half ?rs) (\<lambda>_. accounts_half ?rs) ?w3 = (Inr (), w')"
    using assms seed_main_halves [OF roles refl] by simp
  then obtain w4 where w4: "bundles_half ?rs ?w3 = (Inr (), w4)" and rest: "accounts_half ?rs w4 = (Inr (), w')"
    by (rule mbind_InrE) simp
  have bundles: "w_db w4 = t_role_permissions_update (insert_new ?b ?vals) (w_db ?w3)"
    "list_all (\<lambda>r. rp_permission r \<in> pm_key ` set (t_permissions (w_db ?w3))) ?vals"
    using w4 by (auto simp: bundles_half_def mwhen_def insert_role_permissions_def insert_new_def split: if_splits)
  obtain emps w5 where emps: "with_ids (seeded_employee (w_now w4)) EMPLOYEES w4 = (Inr emps, w5)"
    using with_ids_run by blast
  note emp_keys = with_ids_keys [OF emps, of emp_email se_email, OF seeded_keys(2)]
  let ?w6 = "w5\<lparr>w_db := t_employees_update (insert_new emp_email emps) (w_db w5)\<rparr>"
  have "mfor EMPLOYEES (seed_employee_roles ?rs (employee_ids (w_db ?w6))) ?w6 = (Inr (), w')"
    using rest accounts_half_run [OF emps refl] by simp
  with assignments_run [of ?rs "employee_ids (w_db ?w6)" ?w6]
  have loop: "more_assignments ?w6 w'" "\<forall>e \<in> set EMPLOYEES. equipped ?rs (employee_ids (w_db ?w6)) e w'" by auto
  then obtain new where w': "w_db w' = t_role_assignments_update (\<lambda>t. t @ new) (w_db ?w6)"
    unfolding more_assignments_def by blast
  have roles_same: "t_roles (w_db w') = insert_new ro_key roles (t_roles (w_db w))" "t_permissions (w_db w') = insert_new pm_key PERMISSIONS (t_permissions (w_db w))"
    "t_role_permissions (w_db w') = insert_new ?b ?vals (t_role_permissions (w_db w))" "t_employees (w_db w') = insert_new emp_email emps (t_employees (w_db w))"
    unfolding w' using role_keys(2) emp_keys(2) bundles(1) by simp_all
  have ids: "role_ids (w_db w') = ?rs" "employee_ids (w_db w') = employee_ids (w_db ?w6)"
    unfolding role_ids_def employee_ids_def roles_same using role_keys(2) emp_keys(2) bundles(1) by simp_all
  have role_set: "ro_key ` set roles = sr_key ` set ROLES" and emp_set: "emp_email ` set emps = se_email ` set EMPLOYEES"
    using role_keys(1) emp_keys(1) by (metis list.set_map)+
  show ?thesis
    unfolding seeded_def ids roles_same insert_new_keys role_set emp_set
    using loop(2) bundles(2) role_keys(2) by (auto simp: equipped_def roles_same insert_new_keys)
qed

text \<open>The seed always runs through: its bundles name permissions of its own catalog only.\<close>

lemma bundles_known: "list_all (\<lambda>r. list_all (\<lambda>p. p \<in> set (map pm_key PERMISSIONS)) (sr_permissions r)) ROLES"
  unfolding ROLES_def PERMISSIONS_def by simp

lemma seed_permissions_known: "r \<in> set (seed_permissions f) \<Longrightarrow> rp_permission r \<in> pm_key ` set PERMISSIONS"
  using bundles_known by (auto simp: seed_permissions_def list_all_iff split: option.splits)

lemma bundles_run:
  assumes "t_permissions (w_db w) = insert_new pm_key PERMISSIONS t"
  obtains w' where "bundles_half f w = (Inr (), w')"
proof -
  have "list_all (\<lambda>r. rp_permission r \<in> pm_key ` set (t_permissions (w_db w))) (seed_permissions f)"
    using seed_permissions_known assms by (auto simp: list_all_iff insert_new_keys)
  then have "\<exists>w'. bundles_half f w = (Inr (), w')"
    by (cases "seed_permissions f = []") (simp_all add: bundles_half_def mwhen_def insert_role_permissions_def)
  with that show thesis by blast
qed

lemma accounts_half_runs: "\<exists>w'. accounts_half rs w = (Inr (), w')"
proof -
  obtain emps where emps: "with_ids (seeded_employee (w_now w)) EMPLOYEES w = (Inr emps, w\<lparr>w_next := w_next w + length EMPLOYEES\<rparr>)"
    by (rule with_ids_gives)
  show ?thesis
    unfolding accounts_half_run [OF emps refl] using assignments_run by blast
qed

lemma seed_runs: "\<exists>w'. seed_main w = (Inr (), w')"
proof -
  let ?w1 = "w\<lparr>w_db := t_permissions_update (insert_new pm_key PERMISSIONS) (w_db w)\<rparr>"
  obtain roles where roles: "with_ids (seeded_role (w_now w)) ROLES ?w1 = (Inr roles, ?w1\<lparr>w_next := w_next ?w1 + length ROLES\<rparr>)"
    by (rule with_ids_gives)
  define w3 where "w3 = (?w1\<lparr>w_next := w_next ?w1 + length ROLES\<rparr>)\<lparr>w_db := t_roles_update (insert_new ro_key roles) (w_db (?w1\<lparr>w_next := w_next ?w1 + length ROLES\<rparr>))\<rparr>"
  have "t_permissions (w_db w3) = insert_new pm_key PERMISSIONS (t_permissions (w_db w))" by (simp add: w3_def)
  then obtain w4 where "bundles_half (role_ids (w_db w3)) w3 = (Inr (), w4)" by (rule bundles_run)
  with seed_main_halves [OF roles w3_def] accounts_half_runs show ?thesis
    by (simp add: mbind_eq [where m = "bundles_half _"])
qed

text \<open>The seed runs through on any database and leaves it seeded, with the whole catalog, every
  system role and its bundle, every account and its assignments; and running it again, at whatever later
  time, runs through and changes no table.\<close>

theorem seed_idempotent:
  "\<exists>w1 w2. seed_main w = (Inr (), w1) \<and> seeded (w_db w1) \<and>
     seed_main (w1\<lparr>w_now := t\<rparr>) = (Inr (), w2) \<and> w_db w2 = w_db w1"
proof -
  obtain w1 where run: "seed_main w = (Inr (), w1)"
    using seed_runs by blast
  then have "seeded (w_db w1)" by (rule seed_seeds)
  with run show ?thesis using seed_again [of "w1\<lparr>w_now := t\<rparr>"] by auto
qed

end
