(* ===== verification/Live_Stream.thy ===== *)
theory Live_Stream
  imports Prelude
begin

text \<open>
  The live stream of notifications: the Redis subscriptions of
  \<^verbatim>\<open>libs/platform/src/notifications/notification-pubsub.service.ts\<close> and the open responses of
  \<^verbatim>\<open>notification-sse.controller.ts\<close>.  What runs between two awaits is one operation; they
  interleave as the step relation allows.  The connection sends its commands in order and Redis answers
  them in order.
\<close>

section \<open>State\<close>

record pubsub_payload =
  psp_notification :: uuid
  psp_recipient :: uuid
  psp_type :: string
  psp_title :: string
  psp_body :: "string option"
  psp_resource_type :: "string option"
  psp_resource_id :: "string option"

datatype sse_event = Connected nat | Notified pubsub_payload | Heartbeat

text \<open>
  A request for the stream counts the unread notifications, subscribes, and is live once its listener for
  the end of the connection is in place; it fails when it throws.
\<close>

datatype stream_phase = Counting | Subscribing | Live | Failed

record sse_stream =
  ss_user :: uuid
  ss_open :: bool
  ss_phase :: stream_phase
  ss_out :: "sse_event list"

text \<open>A \<open>Subscribe\<close> carries the stream that waits for its answer.\<close>

datatype redis_command = Subscribe nat string | Unsubscribe string

record live =
  lv_subscriber :: bool
  lv_handlers :: "string \<Rightarrow> nat list option"
  lv_sent :: "redis_command list"
  lv_ready :: "nat list"
  lv_server :: "string set"
  lv_incoming :: "(string \<times> pubsub_payload) list"
  lv_streams :: "nat \<Rightarrow> sse_stream option"

definition live_init :: "bool \<Rightarrow> live" where
  "live_init enabled = \<lparr>lv_subscriber = enabled, lv_handlers = (\<lambda>_. None), lv_sent = [], lv_ready = [], lv_server = {},
     lv_incoming = [], lv_streams = (\<lambda>_. None)\<rparr>"

section \<open>Channels\<close>

definition ns :: "string \<Rightarrow> string \<Rightarrow> string" where
  "ns prefix suffix = prefix @ ''notifications:'' @ suffix"

definition userChannel :: "string \<Rightarrow> uuid \<Rightarrow> string" where
  "userChannel prefix recipientId = ns prefix (''user:'' @ recipientId)"

definition relayWakeChannel :: "string \<Rightarrow> string" where
  "relayWakeChannel prefix = ns prefix ''relay:wake''"

definition emailRelayWakeChannel :: "string \<Rightarrow> string" where
  "emailRelayWakeChannel prefix = ns prefix ''email:relay:wake''"

section \<open>Subscriptions\<close>

definition set_stream :: "nat \<Rightarrow> (sse_stream \<Rightarrow> sse_stream) \<Rightarrow> live \<Rightarrow> live" where
  "set_stream i f s = s\<lparr>lv_streams := (lv_streams s)(i := map_option f (lv_streams s i))\<rparr>"

definition set_handlers :: "string \<Rightarrow> nat list option \<Rightarrow> live \<Rightarrow> live" where
  "set_handlers c hs s = s\<lparr>lv_handlers := (lv_handlers s)(c := hs)\<rparr>"

definition set_add :: "nat \<Rightarrow> nat list \<Rightarrow> nat list" where
  "set_add i hs = (if i \<in> set hs then hs else hs @ [i])"

definition send :: "redis_command \<Rightarrow> live \<Rightarrow> live" where
  "send c s = s\<lparr>lv_sent := lv_sent s @ [c]\<rparr>"

text \<open>\<open>subscribe\<close> until its await, and from there on; with a known channel there is nothing to wait for.\<close>

definition subscribe :: "string \<Rightarrow> nat \<Rightarrow> live \<Rightarrow> live" where
  "subscribe c i s =
     (if \<not> lv_subscriber s then set_stream i (ss_phase_update (\<lambda>_. Live)) s
      else case lv_handlers s c of
        None \<Rightarrow> set_stream i (ss_phase_update (\<lambda>_. Subscribing)) (send (Subscribe i c) (set_handlers c (Some []) s))
      | Some hs \<Rightarrow> set_stream i (ss_phase_update (\<lambda>_. Live)) (set_handlers c (Some (set_add i hs)) s))"

definition subscribed_to :: "string \<Rightarrow> nat \<Rightarrow> live \<Rightarrow> live" where
  "subscribed_to c i s =
     (case lv_handlers s c of
        None \<Rightarrow> set_stream i (ss_phase_update (\<lambda>_. Failed)) s
      | Some hs \<Rightarrow> set_stream i (ss_phase_update (\<lambda>_. Live)) (set_handlers c (Some (set_add i hs)) s))"

definition unsubscribe :: "string \<Rightarrow> nat \<Rightarrow> live \<Rightarrow> live" where
  "unsubscribe c i s =
     (case lv_handlers s c of
        None \<Rightarrow> s
      | Some hs \<Rightarrow> let hs' = removeAll i hs in
          if hs' = [] then send (Unsubscribe c) (set_handlers c None s) else set_handlers c (Some hs') s)"

text \<open>The next answer of Redis.\<close>

definition redis_reply :: "live \<Rightarrow> live" where
  "redis_reply s = (case lv_sent s of
     [] \<Rightarrow> s
   | Subscribe i c # rest \<Rightarrow> s\<lparr>lv_sent := rest, lv_server := insert c (lv_server s), lv_ready := lv_ready s @ [i]\<rparr>
   | Unsubscribe c # rest \<Rightarrow> s\<lparr>lv_sent := rest, lv_server := lv_server s - {c}\<rparr>)"

section \<open>Messages\<close>

definition notifyUser :: "string \<Rightarrow> pubsub_payload \<Rightarrow> live \<Rightarrow> live" where
  "notifyUser prefix p s = (let c = userChannel prefix (psp_recipient p) in
     if c \<in> lv_server s then s\<lparr>lv_incoming := lv_incoming s @ [(c, p)]\<rparr> else s)"

text \<open>A response that the client has closed is not written to.\<close>

definition writeEvent :: "sse_event \<Rightarrow> nat \<Rightarrow> live \<Rightarrow> live" where
  "writeEvent e i s = set_stream i (\<lambda>st. if ss_open st then st\<lparr>ss_out := ss_out st @ [e]\<rparr> else st) s"

definition on_message :: "live \<Rightarrow> live" where
  "on_message s = (case lv_incoming s of
     [] \<Rightarrow> s
   | (c, p) # rest \<Rightarrow> foldl (\<lambda>s i. writeEvent (Notified p) i s) (s\<lparr>lv_incoming := rest\<rparr>)
       (case lv_handlers s c of None \<Rightarrow> [] | Some hs \<Rightarrow> hs))"

section \<open>The controller\<close>

definition stream_opened :: "nat \<Rightarrow> uuid \<Rightarrow> live \<Rightarrow> live" where
  "stream_opened i u s = s\<lparr>lv_streams := (lv_streams s)(i := Some \<lparr>ss_user = u, ss_open = True, ss_phase = Counting, ss_out = []\<rparr>)\<rparr>"

definition stream_counted :: "string \<Rightarrow> nat \<Rightarrow> uuid \<Rightarrow> nat \<Rightarrow> live \<Rightarrow> live" where
  "stream_counted prefix i u unreadCount s = subscribe (userChannel prefix u) i (writeEvent (Connected unreadCount) i s)"

definition stream_resumed :: "string \<Rightarrow> nat \<Rightarrow> uuid \<Rightarrow> live \<Rightarrow> live" where
  "stream_resumed prefix i u s = subscribed_to (userChannel prefix u) i (s\<lparr>lv_ready := removeAll i (lv_ready s)\<rparr>)"

text \<open>The end of a connection is noticed by a live stream only: its listener is registered last.\<close>

definition stream_closed :: "string \<Rightarrow> nat \<Rightarrow> sse_stream \<Rightarrow> live \<Rightarrow> live" where
  "stream_closed prefix i st s = (let s' = set_stream i (ss_open_update (\<lambda>_. False)) s in
     if ss_phase st = Live then unsubscribe (userChannel prefix (ss_user st)) i s' else s')"

inductive live_step :: "string \<Rightarrow> live \<Rightarrow> live \<Rightarrow> bool" for prefix where
  opened: "lv_streams s i = None \<Longrightarrow> live_step prefix s (stream_opened i u s)"
| counted: "lv_streams s i = Some st \<Longrightarrow> ss_phase st = Counting \<Longrightarrow> live_step prefix s (stream_counted prefix i (ss_user st) n s)"
| uncounted: "lv_streams s i = Some st \<Longrightarrow> ss_phase st = Counting \<Longrightarrow> live_step prefix s (set_stream i (ss_phase_update (\<lambda>_. Failed)) s)"
| replied: "lv_sent s \<noteq> [] \<Longrightarrow> live_step prefix s (redis_reply s)"
| resumed: "lv_streams s i = Some st \<Longrightarrow> ss_phase st = Subscribing \<Longrightarrow> i \<in> set (lv_ready s) \<Longrightarrow>
    live_step prefix s (stream_resumed prefix i (ss_user st) s)"
| closed: "lv_streams s i = Some st \<Longrightarrow> ss_open st \<Longrightarrow> live_step prefix s (stream_closed prefix i st s)"
| beat: "lv_streams s i = Some st \<Longrightarrow> ss_phase st = Live \<Longrightarrow> live_step prefix s (writeEvent Heartbeat i s)"
| published: "live_step prefix s (notifyUser prefix p s)"
| arrived: "lv_incoming s \<noteq> [] \<Longrightarrow> live_step prefix s (on_message s)"

inductive live_reachable :: "string \<Rightarrow> bool \<Rightarrow> live \<Rightarrow> bool" for prefix enabled where
  start: "live_reachable prefix enabled (live_init enabled)"
| step: "live_reachable prefix enabled s \<Longrightarrow> live_step prefix s s' \<Longrightarrow> live_reachable prefix enabled s'"

end
