(* ===== verification/Live_Claims.thy ===== *)
theory Live_Claims
  imports Live_Stream
begin

text \<open>
  In every interleaving of the streams, the subscriptions and the answers of Redis: what is written to a stream is
  addressed to its user, and once nothing is under way the subscriptions are exactly those of the open
  streams' channels.
\<close>

section \<open>The invariant\<close>

text \<open>What Redis will be subscribed to when it has answered every command under way.\<close>

fun settled :: "string set \<Rightarrow> redis_command list \<Rightarrow> string set" where
  "settled S [] = S"
| "settled S (Subscribe i c # cs) = settled (insert c S) cs"
| "settled S (Unsubscribe c # cs) = settled (S - {c}) cs"

lemma settled_send: "settled S (cs @ [Subscribe i c]) = insert c (settled S cs)" "settled S (cs @ [Unsubscribe c]) = settled S cs - {c}"
  by (induction S cs rule: settled.induct) simp_all

definition chan :: "string \<Rightarrow> sse_stream \<Rightarrow> string" where
  "chan prefix st = userChannel prefix (ss_user st)"

definition addressed :: "uuid \<Rightarrow> sse_event \<Rightarrow> bool" where
  "addressed u e = (case e of Notified p \<Rightarrow> psp_recipient p = u | _ \<Rightarrow> True)"

text \<open>A handler belongs to a stream whose user the channel is named after.\<close>

definition handlers_ok :: "string \<Rightarrow> live \<Rightarrow> bool" where
  "handlers_ok prefix s \<longleftrightarrow> (\<forall>c hs. lv_handlers s c = Some hs \<longrightarrow> distinct hs \<and>
     (\<forall>i \<in> set hs. \<exists>st. lv_streams s i = Some st \<and> c = chan prefix st \<and> ss_phase st = Live))"

definition listening_ok :: "string \<Rightarrow> live \<Rightarrow> bool" where
  "listening_ok prefix s \<longleftrightarrow> (\<forall>i st. lv_streams s i = Some st \<and> ss_phase st = Live \<and> ss_open st \<longrightarrow>
     (\<exists>hs. lv_handlers s (chan prefix st) = Some hs \<and> i \<in> set hs))"

definition waiting_ok :: "string \<Rightarrow> live \<Rightarrow> bool" where
  "waiting_ok prefix s \<longleftrightarrow>
     (\<forall>c. lv_handlers s c = Some [] \<longrightarrow> (\<exists>i st. lv_streams s i = Some st \<and> c = chan prefix st \<and> ss_phase st = Subscribing)) \<and>
     (\<forall>i st. lv_streams s i = Some st \<and> ss_phase st = Subscribing \<longrightarrow>
        Subscribe i (chan prefix st) \<in> set (lv_sent s) \<or> i \<in> set (lv_ready s))"

definition channels_ok :: "live \<Rightarrow> bool" where
  "channels_ok s \<longleftrightarrow> dom (lv_handlers s) = settled (lv_server s) (lv_sent s)"

definition messages_ok :: "string \<Rightarrow> live \<Rightarrow> bool" where
  "messages_ok prefix s \<longleftrightarrow> (\<forall>(c, p) \<in> set (lv_incoming s). c = userChannel prefix (psp_recipient p)) \<and>
     (\<forall>i st. lv_streams s i = Some st \<longrightarrow> list_all (addressed (ss_user st)) (ss_out st))"

definition live_ok :: "string \<Rightarrow> live \<Rightarrow> bool" where
  "live_ok prefix s \<longleftrightarrow> lv_subscriber s \<and> handlers_ok prefix s \<and> listening_ok prefix s \<and> waiting_ok prefix s \<and> channels_ok s \<and>
     messages_ok prefix s"

lemmas ok_defs = handlers_ok_def listening_ok_def waiting_ok_def channels_ok_def messages_ok_def

lemma userChannel_inj: "userChannel prefix u = userChannel prefix v \<longleftrightarrow> u = v"
  by (simp add: userChannel_def ns_def)

lemma chan_simps [simp]: "chan prefix (ss_phase_update f st) = chan prefix st" "chan prefix (ss_open_update g st) = chan prefix st"
  "chan prefix (ss_out_update h st) = chan prefix st"
  by (simp_all add: chan_def)

lemma set_stream_simps [simp]:
  "lv_subscriber (set_stream i f s) = lv_subscriber s" "lv_handlers (set_stream i f s) = lv_handlers s"
  "lv_sent (set_stream i f s) = lv_sent s" "lv_ready (set_stream i f s) = lv_ready s" "lv_server (set_stream i f s) = lv_server s"
  "lv_incoming (set_stream i f s) = lv_incoming s"
  "lv_streams (set_stream i f s) = (lv_streams s)(i := map_option f (lv_streams s i))"
  by (simp_all add: set_stream_def)

lemma set_handlers_simps [simp]:
  "lv_subscriber (set_handlers c hs s) = lv_subscriber s" "lv_handlers (set_handlers c hs s) = (lv_handlers s)(c := hs)"
  "lv_sent (set_handlers c hs s) = lv_sent s" "lv_ready (set_handlers c hs s) = lv_ready s" "lv_server (set_handlers c hs s) = lv_server s"
  "lv_incoming (set_handlers c hs s) = lv_incoming s" "lv_streams (set_handlers c hs s) = lv_streams s"
  by (simp_all add: set_handlers_def)

lemma send_simps [simp]:
  "lv_subscriber (send k s) = lv_subscriber s" "lv_handlers (send k s) = lv_handlers s"
  "lv_sent (send k s) = lv_sent s @ [k]" "lv_ready (send k s) = lv_ready s" "lv_server (send k s) = lv_server s"
  "lv_incoming (send k s) = lv_incoming s" "lv_streams (send k s) = lv_streams s"
  by (simp_all add: send_def)

lemma set_set_add [simp]: "set (set_add i hs) = insert i (set hs)" "distinct (set_add i hs) \<longleftrightarrow> distinct hs" "set_add i hs \<noteq> []"
  by (auto simp: set_add_def)

section \<open>Its preservation\<close>

abbreviation phased :: "nat \<Rightarrow> stream_phase \<Rightarrow> live \<Rightarrow> live" where
  "phased i ph s \<equiv> set_stream i (ss_phase_update (\<lambda>_. ph)) s"

lemma not_handler: "handlers_ok prefix s \<Longrightarrow> lv_streams s i = Some st \<Longrightarrow> ss_phase st \<noteq> Live \<Longrightarrow> lv_handlers s c = Some hs \<Longrightarrow> i \<notin> set hs"
  unfolding handlers_ok_def by fastforce

lemma phased_handlers:
  assumes "handlers_ok prefix s" and "lv_streams s i = Some st" and "ss_phase st \<noteq> Live"
  shows "handlers_ok prefix (phased i ph s)"
  unfolding handlers_ok_def
proof (intro allI impI conjI ballI)
  fix c hs assume hs: "lv_handlers (phased i ph s) c = Some hs"
  then show "distinct hs" using assms(1) by (simp add: handlers_ok_def)
  fix j assume "j \<in> set hs"
  with hs assms not_handler [OF assms] have "j \<noteq> i" by auto
  with hs assms(1) \<open>j \<in> set hs\<close> show "\<exists>st. lv_streams (phased i ph s) j = Some st \<and> c = chan prefix st \<and> ss_phase st = Live"
    by (simp add: handlers_ok_def)
qed

lemma phased_listening: "listening_ok prefix s \<Longrightarrow> ph \<noteq> Live \<Longrightarrow> listening_ok prefix (phased i ph s)"
  unfolding listening_ok_def by (auto split: if_splits)

lemma phased_messages: "messages_ok prefix s \<Longrightarrow> messages_ok prefix (phased i ph s)"
  unfolding messages_ok_def by auto

lemma phased_channels: "channels_ok (phased i ph s) = channels_ok s"
  by (simp add: channels_ok_def)

text \<open>A stream that was not waiting is not the one that a channel without handlers waits for.\<close>

lemma phased_waiting:
  assumes "waiting_ok prefix s" and "lv_streams s i = Some st" and "ss_phase st \<noteq> Subscribing" and "ph \<noteq> Subscribing"
  shows "waiting_ok prefix (phased i ph s)"
  unfolding waiting_ok_def
proof (intro conjI allI impI)
  fix c assume "lv_handlers (phased i ph s) c = Some []"
  then obtain j st' where "lv_streams s j = Some st'" "c = chan prefix st'" "ss_phase st' = Subscribing"
    using assms(1) by (auto simp: waiting_ok_def)
  moreover from this assms(2,3) have "j \<noteq> i" by auto
  ultimately show "\<exists>j st. lv_streams (phased i ph s) j = Some st \<and> c = chan prefix st \<and> ss_phase st = Subscribing" by auto
next
  fix j st' assume "lv_streams (phased i ph s) j = Some st' \<and> ss_phase st' = Subscribing"
  with assms show "Subscribe j (chan prefix st') \<in> set (lv_sent (phased i ph s)) \<or> j \<in> set (lv_ready (phased i ph s))"
    by (auto simp: waiting_ok_def split: if_splits)
qed

text \<open>Putting a handler into a set that exists.\<close>

abbreviation added :: "string \<Rightarrow> nat \<Rightarrow> nat list \<Rightarrow> live \<Rightarrow> live" where
  "added c i hs s \<equiv> phased i Live (set_handlers c (Some (set_add i hs)) s)"

lemma added_handlers:
  assumes "handlers_ok prefix s" and "lv_streams s i = Some st" and "ss_phase st \<noteq> Live" and "lv_handlers s (chan prefix st) = Some hs"
  shows "handlers_ok prefix (added (chan prefix st) i hs s)"
  unfolding handlers_ok_def
proof (intro allI impI conjI ballI)
  fix c ks assume ks: "lv_handlers (added (chan prefix st) i hs s) c = Some ks"
  then show "distinct ks" using assms(1,4) by (auto simp: handlers_ok_def split: if_splits)
  fix j assume j: "j \<in> set ks"
  show "\<exists>st'. lv_streams (added (chan prefix st) i hs s) j = Some st' \<and> c = chan prefix st' \<and> ss_phase st' = Live"
  proof (cases "j = i")
    case True
    then have "c = chan prefix st"
      using ks j not_handler [OF assms(1-3), of c ks] by (auto split: if_splits)
    with True assms(2) show ?thesis by simp
  next
    case False
    have "\<exists>old. lv_handlers s c = Some old \<and> j \<in> set old"
      using False ks j assms(4) by (cases "c = chan prefix st") auto
    with False assms(1) show ?thesis by (auto simp: handlers_ok_def)
  qed
qed

lemma added_listening:
  assumes "listening_ok prefix s" and "lv_streams s i = Some st" and "lv_handlers s (chan prefix st) = Some hs"
  shows "listening_ok prefix (added (chan prefix st) i hs s)"
  unfolding listening_ok_def
proof (intro allI impI)
  fix j st' assume j: "lv_streams (added (chan prefix st) i hs s) j = Some st' \<and> ss_phase st' = Live \<and> ss_open st'"
  show "\<exists>ks. lv_handlers (added (chan prefix st) i hs s) (chan prefix st') = Some ks \<and> j \<in> set ks"
  proof (cases "j = i")
    case False
    with j assms(1) obtain ks where "lv_handlers s (chan prefix st') = Some ks" "j \<in> set ks" by (auto simp: listening_ok_def)
    with assms(3) show ?thesis by auto
  qed (use j assms(2) in auto)
qed

lemma added_waiting:
  assumes "waiting_ok prefix s" and "lv_streams s i = Some st"
  shows "waiting_ok prefix (added (chan prefix st) i hs s)"
  unfolding waiting_ok_def
proof (intro conjI allI impI)
  fix c assume "lv_handlers (added (chan prefix st) i hs s) c = Some []"
  then have c: "c \<noteq> chan prefix st" "lv_handlers s c = Some []" by (auto split: if_splits)
  then obtain j st' where "lv_streams s j = Some st'" "c = chan prefix st'" "ss_phase st' = Subscribing"
    using assms(1) by (auto simp: waiting_ok_def)
  moreover from this assms(2) c have "j \<noteq> i" by auto
  ultimately show "\<exists>j st'. lv_streams (added (chan prefix st) i hs s) j = Some st' \<and> c = chan prefix st' \<and> ss_phase st' = Subscribing"
    by auto
next
  fix j st' assume "lv_streams (added (chan prefix st) i hs s) j = Some st' \<and> ss_phase st' = Subscribing"
  with assms show "Subscribe j (chan prefix st') \<in> set (lv_sent (added (chan prefix st) i hs s)) \<or> j \<in> set (lv_ready (added (chan prefix st) i hs s))"
    by (auto simp: waiting_ok_def split: if_splits)
qed

lemma added_channels: "channels_ok s \<Longrightarrow> lv_handlers s c = Some hs \<Longrightarrow> channels_ok (added c i ks s)"
  by (auto simp: channels_ok_def)

lemma added_messages: "messages_ok prefix s \<Longrightarrow> messages_ok prefix (added c i ks s)"
  unfolding messages_ok_def by auto

lemma added_ok:
  assumes "live_ok prefix s" and "lv_streams s i = Some st" and "ss_phase st \<noteq> Live" and "lv_handlers s (chan prefix st) = Some hs"
  shows "live_ok prefix (added (chan prefix st) i hs s)"
  using assms added_handlers added_listening added_waiting added_channels added_messages unfolding live_ok_def by auto

lemma failed_ok:
  assumes "live_ok prefix s" and "lv_streams s i = Some st" and "ss_phase st = Counting"
  shows "live_ok prefix (phased i Failed s)"
  using assms phased_handlers [of prefix s i st] phased_listening phased_waiting [of prefix s i st] phased_messages phased_channels
  unfolding live_ok_def by simp

text \<open>A change of one stream that keeps its user and phase, and does not open it again.\<close>

lemma kept_ok:
  assumes "live_ok prefix s" and "\<And>st. ss_user (f st) = ss_user st \<and> ss_phase (f st) = ss_phase st \<and> (ss_open (f st) \<longrightarrow> ss_open st)"
    and "\<And>st. lv_streams s i = Some st \<Longrightarrow> list_all (addressed (ss_user st)) (ss_out st) \<Longrightarrow> list_all (addressed (ss_user st)) (ss_out (f st))"
  shows "live_ok prefix (set_stream i f s)"
proof -
  have same: "chan prefix (f st) = chan prefix st" "ss_phase (f st) = ss_phase st" "ss_open (f st) \<Longrightarrow> ss_open st" for st
    using assms(2) by (simp_all add: chan_def)
  have after: "\<exists>st'. lv_streams (set_stream i f s) j = Some st' \<and> chan prefix st' = chan prefix st \<and> ss_phase st' = ss_phase st"
    if "lv_streams s j = Some st" for j st
    using that same by (cases "j = i") auto
  have before: "\<exists>st. lv_streams s j = Some st \<and> chan prefix st' = chan prefix st \<and> ss_phase st' = ss_phase st"
    if "lv_streams (set_stream i f s) j = Some st'" for j st'
    using that same by (cases "j = i") auto
  have "handlers_ok prefix (set_stream i f s)"
    unfolding handlers_ok_def
  proof (intro allI impI conjI ballI)
    fix c hs assume "lv_handlers (set_stream i f s) c = Some hs"
    then have hs: "distinct hs" "\<And>j. j \<in> set hs \<Longrightarrow> \<exists>st. lv_streams s j = Some st \<and> c = chan prefix st \<and> ss_phase st = Live"
      using assms(1) by (simp_all add: live_ok_def handlers_ok_def)
    show "distinct hs" by (rule hs(1))
    fix j assume "j \<in> set hs"
    then obtain st where st: "lv_streams s j = Some st" "c = chan prefix st" "ss_phase st = Live" using hs(2) by blast
    from after [OF st(1)] st(2,3) show "\<exists>st. lv_streams (set_stream i f s) j = Some st \<and> c = chan prefix st \<and> ss_phase st = Live" by force
  qed
  moreover have "waiting_ok prefix (set_stream i f s)"
    unfolding waiting_ok_def
  proof (intro allI impI conjI)
    fix c assume "lv_handlers (set_stream i f s) c = Some []"
    then obtain j st where st: "lv_streams s j = Some st" "c = chan prefix st" "ss_phase st = Subscribing"
      using assms(1) by (auto simp: live_ok_def waiting_ok_def)
    from after [OF st(1)] st(2,3) show "\<exists>j st. lv_streams (set_stream i f s) j = Some st \<and> c = chan prefix st \<and> ss_phase st = Subscribing" by metis
  next
    fix j st' assume st': "lv_streams (set_stream i f s) j = Some st' \<and> ss_phase st' = Subscribing"
    then obtain st where "lv_streams s j = Some st" "chan prefix st' = chan prefix st" "ss_phase st = Subscribing" using before [of j st'] by auto
    then show "Subscribe j (chan prefix st') \<in> set (lv_sent (set_stream i f s)) \<or> j \<in> set (lv_ready (set_stream i f s))"
      using assms(1) by (simp add: live_ok_def waiting_ok_def)
  qed
  moreover have "listening_ok prefix (set_stream i f s)"
    unfolding listening_ok_def
  proof (intro allI impI)
    fix j st' assume j: "lv_streams (set_stream i f s) j = Some st' \<and> ss_phase st' = Live \<and> ss_open st'"
    obtain st where "lv_streams s j = Some st" "ss_phase st = Live" "ss_open st" "chan prefix st' = chan prefix st"
      using j same by (cases "j = i") auto
    then show "\<exists>hs. lv_handlers (set_stream i f s) (chan prefix st') = Some hs \<and> j \<in> set hs"
      using assms(1) by (auto simp: live_ok_def listening_ok_def)
  qed
  moreover have "messages_ok prefix (set_stream i f s)"
    using assms unfolding live_ok_def messages_ok_def by auto
  ultimately show ?thesis
    using assms(1) by (simp add: live_ok_def channels_ok_def)
qed

lemma writeEvent_ok:
  assumes "live_ok prefix s" and "\<And>st. lv_streams s i = Some st \<Longrightarrow> addressed (ss_user st) e"
  shows "live_ok prefix (writeEvent e i s)"
  unfolding writeEvent_def by (rule kept_ok) (use assms in auto)

lemma subscribe_ok:
  assumes "live_ok prefix s" and "lv_streams s i = Some st" and "ss_phase st = Counting"
  shows "live_ok prefix (subscribe (chan prefix st) i s)"
proof (cases "lv_handlers s (chan prefix st)")
  case (Some hs)
  with assms added_ok [of prefix s i st hs] show ?thesis by (simp add: subscribe_def live_ok_def)
next
  case None
  let ?c = "chan prefix st" and ?s = "phased i Subscribing (send (Subscribe i (chan prefix st)) (set_handlers (chan prefix st) (Some []) s))"
  have "handlers_ok prefix ?s" "listening_ok prefix ?s"
  proof -
    have 1: "handlers_ok prefix (phased i Subscribing s)" "listening_ok prefix (phased i Subscribing s)"
      using assms phased_handlers [of prefix s i st] phased_listening unfolding live_ok_def by auto
    then show "handlers_ok prefix ?s" using None by (auto simp: handlers_ok_def)
    show "listening_ok prefix ?s"
      using 1(2) None unfolding listening_ok_def by (metis fun_upd_apply option.distinct(1) send_simps(2,7) set_handlers_simps(2,7) set_stream_simps(2,7))
  qed
  moreover have "waiting_ok prefix ?s"
    unfolding waiting_ok_def
  proof (intro conjI allI impI)
    fix c assume c: "lv_handlers ?s c = Some []"
    show "\<exists>j st'. lv_streams ?s j = Some st' \<and> c = chan prefix st' \<and> ss_phase st' = Subscribing"
    proof (cases "c = ?c")
      case False
      with c assms obtain j st' where "lv_streams s j = Some st'" "c = chan prefix st'" "ss_phase st' = Subscribing"
        by (auto simp: live_ok_def waiting_ok_def)
      moreover from this False assms(2) have "j \<noteq> i" by auto
      ultimately show ?thesis by auto
    qed (use assms(2) in auto)
  next
    fix j st' assume "lv_streams ?s j = Some st' \<and> ss_phase st' = Subscribing"
    with assms show "Subscribe j (chan prefix st') \<in> set (lv_sent ?s) \<or> j \<in> set (lv_ready ?s)"
      by (auto simp: live_ok_def waiting_ok_def split: if_splits)
  qed
  moreover have "channels_ok ?s" "messages_ok prefix ?s"
    using assms(1) unfolding live_ok_def channels_ok_def messages_ok_def by (auto simp: settled_send)
  ultimately show ?thesis
    using None assms(1) by (simp add: subscribe_def live_ok_def)
qed

lemma replied_ok:
  assumes "live_ok prefix s" and "lv_sent s \<noteq> []"
  shows "live_ok prefix (redis_reply s)"
proof -
  obtain k rest where k: "lv_sent s = k # rest" using assms(2) by (cases "lv_sent s") auto
  have same: "lv_subscriber (redis_reply s) = lv_subscriber s" "lv_handlers (redis_reply s) = lv_handlers s" "lv_streams (redis_reply s) = lv_streams s"
    "lv_incoming (redis_reply s) = lv_incoming s"
    by (simp_all add: redis_reply_def k split: redis_command.split)
  have "settled (lv_server (redis_reply s)) (lv_sent (redis_reply s)) = settled (lv_server s) (lv_sent s)"
    by (simp add: redis_reply_def k split: redis_command.split)
  moreover have "Subscribe j c \<in> set (lv_sent (redis_reply s)) \<or> j \<in> set (lv_ready (redis_reply s))"
    if "Subscribe j c \<in> set (lv_sent s) \<or> j \<in> set (lv_ready s)" for j c
    using that by (auto simp: redis_reply_def k split: redis_command.split)
  ultimately show ?thesis
    using assms(1) by (simp add: live_ok_def handlers_ok_def listening_ok_def waiting_ok_def channels_ok_def messages_ok_def same)
qed

lemma resumed_ok:
  assumes "live_ok prefix s" and "lv_streams s i = Some st" and "ss_phase st = Subscribing"
  shows "live_ok prefix (stream_resumed prefix i (ss_user st) s)"
proof -
  let ?s = "s\<lparr>lv_ready := removeAll i (lv_ready s)\<rparr>"
  have parts: "handlers_ok prefix ?s" "listening_ok prefix ?s" "channels_ok ?s" "messages_ok prefix ?s" "lv_streams ?s i = Some st"
    using assms unfolding live_ok_def ok_defs by simp_all
  have waits: "Subscribe j (chan prefix st') \<in> set (lv_sent s) \<or> j \<in> set (removeAll i (lv_ready s))"
    if "lv_streams s j = Some st'" "ss_phase st' = Subscribing" "j \<noteq> i" for j st'
    using assms(1) that by (auto simp: live_ok_def waiting_ok_def)
  have waited: "\<exists>j st'. j \<noteq> i \<and> lv_streams s j = Some st' \<and> c = chan prefix st' \<and> ss_phase st' = Subscribing"
    if c: "lv_handlers s c = Some []" "c \<noteq> chan prefix st" for c
  proof -
    obtain j st' where j: "lv_streams s j = Some st'" "c = chan prefix st'" "ss_phase st' = Subscribing"
      using assms(1) c(1) by (auto simp: live_ok_def waiting_ok_def)
    moreover from j c(2) assms(2) have "j \<noteq> i" by auto
    ultimately show ?thesis by blast
  qed
  show ?thesis
  proof (cases "lv_handlers s (chan prefix st)")
    case None
    have "waiting_ok prefix (phased i Failed ?s)"
      unfolding waiting_ok_def
    proof (intro conjI allI impI)
      fix c assume "lv_handlers (phased i Failed ?s) c = Some []"
      with waited [of c] None show "\<exists>j st. lv_streams (phased i Failed ?s) j = Some st \<and> c = chan prefix st \<and> ss_phase st = Subscribing" by force
    qed (use waits in \<open>auto split: if_splits\<close>)
    with parts None assms(1) show ?thesis
      using phased_handlers [OF parts(1,5)] phased_listening [OF parts(2)] phased_messages [OF parts(4)] assms(3)
      by (simp add: live_ok_def stream_resumed_def subscribed_to_def chan_def phased_channels)
  next
    case (Some hs)
    have "waiting_ok prefix (added (chan prefix st) i hs ?s)"
      unfolding waiting_ok_def
    proof (intro conjI allI impI)
      fix c assume "lv_handlers (added (chan prefix st) i hs ?s) c = Some []"
      with waited [of c] show "\<exists>j st'. lv_streams (added (chan prefix st) i hs ?s) j = Some st' \<and> c = chan prefix st' \<and> ss_phase st' = Subscribing"
        by (force split: if_splits)
    qed (use waits in \<open>auto split: if_splits\<close>)
    with parts Some assms(1) show ?thesis
      using added_handlers [OF parts(1,5)] added_listening [OF parts(2,5)] added_messages [OF parts(4)] added_channels [OF parts(3)] assms(3)
      by (simp add: live_ok_def stream_resumed_def subscribed_to_def chan_def)
  qed
qed

lemma unsubscribe_ok:
  assumes "live_ok prefix s" and "lv_streams s i = Some st" and "\<not> ss_open st"
  shows "live_ok prefix (unsubscribe (chan prefix st) i s)"
proof (cases "lv_handlers s (chan prefix st)")
  case (Some hs)
  let ?s = "unsubscribe (chan prefix st) i s"
  have view: "lv_streams ?s = lv_streams s" "lv_ready ?s = lv_ready s" "lv_subscriber ?s = lv_subscriber s" "lv_incoming ?s = lv_incoming s"
    "lv_server ?s = lv_server s" "set (lv_sent s) \<subseteq> set (lv_sent ?s)"
    "lv_handlers ?s = (lv_handlers s)(chan prefix st := if removeAll i hs = [] then None else Some (removeAll i hs))"
    using Some by (auto simp: unsubscribe_def Let_def)
  have "handlers_ok prefix ?s"
    using assms(1) Some unfolding live_ok_def handlers_ok_def view by (auto simp: distinct_removeAll split: if_splits)
  moreover have "listening_ok prefix ?s"
    unfolding listening_ok_def
  proof (intro allI impI)
    fix j st' assume j: "lv_streams ?s j = Some st' \<and> ss_phase st' = Live \<and> ss_open st'"
    then obtain ks where ks: "lv_handlers s (chan prefix st') = Some ks" "j \<in> set ks"
      using assms(1) by (auto simp: live_ok_def listening_ok_def view)
    have "j \<noteq> i" using j assms(2,3) by (auto simp: view)
    with ks Some have "chan prefix st' = chan prefix st \<Longrightarrow> j \<in> set (removeAll i hs)" by simp
    moreover from this have "chan prefix st' = chan prefix st \<Longrightarrow> removeAll i hs \<noteq> []" by (metis empty_iff empty_set)
    ultimately show "\<exists>ks. lv_handlers ?s (chan prefix st') = Some ks \<and> j \<in> set ks"
      using ks by (cases "chan prefix st' = chan prefix st") (simp_all add: view)
  qed
  moreover have "waiting_ok prefix ?s"
    using assms(1) view(6) unfolding live_ok_def waiting_ok_def view by (auto split: if_splits)
  moreover have "channels_ok ?s"
    using assms(1) Some by (auto simp: live_ok_def channels_ok_def unsubscribe_def Let_def settled_send)
  moreover have "messages_ok prefix ?s"
    using assms(1) unfolding live_ok_def messages_ok_def view by simp
  ultimately show ?thesis using assms(1) by (simp add: live_ok_def view)
qed (use assms in \<open>simp add: unsubscribe_def\<close>)

lemma closed_ok:
  assumes "live_ok prefix s" and "lv_streams s i = Some st"
  shows "live_ok prefix (stream_closed prefix i st s)"
proof -
  have ok: "live_ok prefix (set_stream i (ss_open_update (\<lambda>_. False)) s)"
    by (rule kept_ok) (use assms in simp_all)
  from unsubscribe_ok [OF ok, of i "st\<lparr>ss_open := False\<rparr>"] ok assms(2) show ?thesis
    by (simp add: stream_closed_def Let_def chan_def)
qed

lemma opened_ok:
  assumes "live_ok prefix s" and "lv_streams s i = None"
  shows "live_ok prefix (stream_opened i u s)"
proof -
  let ?s = "stream_opened i u s"
  have view: "lv_handlers ?s = lv_handlers s" "lv_sent ?s = lv_sent s" "lv_ready ?s = lv_ready s" "lv_server ?s = lv_server s"
    "lv_incoming ?s = lv_incoming s" "lv_subscriber ?s = lv_subscriber s" "\<And>j. j \<noteq> i \<Longrightarrow> lv_streams ?s j = lv_streams s j"
    "lv_streams ?s i = Some \<lparr>ss_user = u, ss_open = True, ss_phase = Counting, ss_out = []\<rparr>"
    by (simp_all add: stream_opened_def)
  have others: "\<exists>st. lv_streams s j = Some st \<and> Q st \<Longrightarrow> \<exists>st. lv_streams ?s j = Some st \<and> Q st" for j Q
    using assms(2) view(7) [of j] by (cases "j = i") auto
  have old: "lv_streams ?s j = Some st \<Longrightarrow> ss_phase st \<noteq> Counting \<Longrightarrow> lv_streams s j = Some st" for j st
    using view(7) [of j] view(8) by (cases "j = i") auto
  have "handlers_ok prefix ?s"
    unfolding handlers_ok_def view
  proof (intro allI impI conjI ballI)
    fix c hs assume hs: "lv_handlers s c = Some hs"
    then show "distinct hs" using assms(1) by (simp add: live_ok_def handlers_ok_def)
    fix j assume "j \<in> set hs"
    with hs assms(1) have "\<exists>st. lv_streams s j = Some st \<and> c = chan prefix st \<and> ss_phase st = Live"
      by (simp add: live_ok_def handlers_ok_def)
    then show "\<exists>st. lv_streams ?s j = Some st \<and> c = chan prefix st \<and> ss_phase st = Live" by (rule others)
  qed
  moreover have "listening_ok prefix ?s"
    unfolding listening_ok_def view
  proof (intro allI impI)
    fix j st assume st: "lv_streams ?s j = Some st \<and> ss_phase st = Live \<and> ss_open st"
    then have "lv_streams s j = Some st" using old [of j st] by simp
    with st assms(1) show "\<exists>hs. lv_handlers s (chan prefix st) = Some hs \<and> j \<in> set hs"
      by (simp add: live_ok_def listening_ok_def)
  qed
  moreover have "waiting_ok prefix ?s"
    unfolding waiting_ok_def view
  proof (intro conjI allI impI)
    fix c assume "lv_handlers s c = Some []"
    then obtain j where "\<exists>st. lv_streams s j = Some st \<and> c = chan prefix st \<and> ss_phase st = Subscribing"
      using assms(1) unfolding live_ok_def waiting_ok_def by blast
    from others [OF this] show "\<exists>j st. lv_streams ?s j = Some st \<and> c = chan prefix st \<and> ss_phase st = Subscribing" by (rule exI)
  next
    fix j st assume st: "lv_streams ?s j = Some st \<and> ss_phase st = Subscribing"
    then have "lv_streams s j = Some st" using old [of j st] by simp
    with st assms(1) show "Subscribe j (chan prefix st) \<in> set (lv_sent s) \<or> j \<in> set (lv_ready s)"
      by (simp add: live_ok_def waiting_ok_def)
  qed
  moreover have "channels_ok ?s" "messages_ok prefix ?s"
    using assms(1) unfolding live_ok_def channels_ok_def messages_ok_def view by (auto simp: stream_opened_def)
  ultimately show ?thesis using assms(1) by (simp add: live_ok_def view)
qed

lemma notify_ok: "live_ok prefix s \<Longrightarrow> live_ok prefix (notifyUser prefix p s)"
  unfolding live_ok_def ok_defs notifyUser_def Let_def by simp

lemma write_all_ok:
  "live_ok prefix s \<Longrightarrow> (\<And>i st. i \<in> set is \<Longrightarrow> lv_streams s i = Some st \<Longrightarrow> addressed (ss_user st) e) \<Longrightarrow>
   live_ok prefix (foldl (\<lambda>s i. writeEvent e i s) s is)"
proof (induction "is" arbitrary: s)
  case (Cons i js)
  have "live_ok prefix (writeEvent e i s)"
    using Cons.prems by (intro writeEvent_ok) auto
  moreover have "addressed (ss_user st) e" if "j \<in> set js" "lv_streams (writeEvent e i s) j = Some st" for j st
    using that Cons.prems(2) [of j] Cons.prems(2) [of i] by (auto simp: writeEvent_def split: if_splits)
  ultimately show ?case using Cons.IH by simp
qed simp

lemma arrived_ok:
  assumes "live_ok prefix s"
  shows "live_ok prefix (on_message s)"
proof (cases "lv_incoming s")
  case (Cons m rest)
  obtain c p where m: "m = (c, p)" by (cases m)
  have c: "c = userChannel prefix (psp_recipient p)"
    using assms by (simp add: live_ok_def messages_ok_def Cons m)
  have ok: "live_ok prefix (s\<lparr>lv_incoming := rest\<rparr>)"
    using assms by (simp add: live_ok_def ok_defs Cons)
  have "addressed (ss_user st) (Notified p)"
    if "i \<in> set (case lv_handlers s c of None \<Rightarrow> [] | Some hs \<Rightarrow> hs)" "lv_streams s i = Some st" for i st
    using that assms c unfolding live_ok_def handlers_ok_def addressed_def
    by (force simp: chan_def userChannel_inj split: option.splits)
  with write_all_ok [OF ok, of "case lv_handlers s c of None \<Rightarrow> [] | Some hs \<Rightarrow> hs" "Notified p"] show ?thesis
    by (simp add: on_message_def Cons m)
qed (use assms in \<open>simp add: on_message_def\<close>)

lemma counted_ok:
  assumes "live_ok prefix s" and "lv_streams s i = Some st" and "ss_phase st = Counting"
  shows "live_ok prefix (stream_counted prefix i (ss_user st) n s)"
proof -
  let ?st = "if ss_open st then st\<lparr>ss_out := ss_out st @ [Connected n]\<rparr> else st"
  have ok: "live_ok prefix (writeEvent (Connected n) i s)"
    using assms(1) by (rule writeEvent_ok) (simp add: addressed_def)
  have "lv_streams (writeEvent (Connected n) i s) i = Some ?st"
    using assms(2) by (simp add: writeEvent_def)
  moreover have "ss_phase ?st = Counting" "chan prefix ?st = userChannel prefix (ss_user st)"
    using assms(3) by (simp_all add: chan_def)
  ultimately show ?thesis
    using subscribe_ok [OF ok, of i ?st] by (simp only: stream_counted_def)
qed

lemma live_step_ok: "live_step prefix s s' \<Longrightarrow> live_ok prefix s \<Longrightarrow> live_ok prefix s'"
proof (induction rule: live_step.induct)
  case (beat s i st)
  then show ?case by (intro writeEvent_ok) (simp_all add: addressed_def)
qed (auto intro: opened_ok counted_ok failed_ok replied_ok resumed_ok closed_ok notify_ok arrived_ok)

lemma live_reachable_ok: "live_reachable prefix True s \<Longrightarrow> live_ok prefix s"
proof (induction rule: live_reachable.induct)
  case start
  show ?case by (simp add: live_init_def live_ok_def ok_defs)
next
  case (step s s')
  then show ?case using live_step_ok by blast
qed

section \<open>Streams\<close>

text \<open>Nothing is under way between the process and Redis.\<close>

definition at_rest :: "live \<Rightarrow> bool" where
  "at_rest s \<longleftrightarrow> lv_sent s = [] \<and> lv_ready s = [] \<and> lv_incoming s = []"

lemma write_all_streams:
  "distinct is \<Longrightarrow> lv_streams (foldl (\<lambda>s i. writeEvent e i s) s is) j =
     (if j \<in> set is then map_option (\<lambda>st. if ss_open st then st\<lparr>ss_out := ss_out st @ [e]\<rparr> else st) (lv_streams s j) else lv_streams s j)"
  by (induction "is" arbitrary: s) (auto simp: writeEvent_def)

lemma rest_delivers:
  assumes "live_ok prefix s" and "at_rest s" and "lv_streams s i = Some st" and "ss_phase st = Live" and "ss_open st"
  shows "lv_streams (on_message (notifyUser prefix p s)) i =
    Some (if psp_recipient p = ss_user st then st\<lparr>ss_out := ss_out st @ [Notified p]\<rparr> else st)"
proof -
  obtain hs where hs: "lv_handlers s (chan prefix st) = Some hs" "i \<in> set hs"
    using assms by (auto simp: live_ok_def listening_ok_def)
  have server: "lv_server s = dom (lv_handlers s)"
    using assms(1,2) by (simp add: live_ok_def channels_ok_def at_rest_def)
  have distinct: "distinct ks" if "lv_handlers s c = Some ks" for c ks
    using assms(1) that by (simp add: live_ok_def handlers_ok_def)
  have other: "i \<notin> set ks" if "lv_handlers s (userChannel prefix u) = Some ks" "u \<noteq> ss_user st" for u ks
    using assms(1,3) that unfolding live_ok_def handlers_ok_def by (force simp: chan_def userChannel_inj)
  show ?thesis
  proof (cases "lv_handlers s (userChannel prefix (psp_recipient p))")
    case None
    with hs have "psp_recipient p \<noteq> ss_user st" by (auto simp: chan_def)
    with None assms(2,3) server show ?thesis
      by (auto simp: notifyUser_def on_message_def at_rest_def Let_def)
  next
    case (Some ks)
    then have "on_message (notifyUser prefix p s) = foldl (\<lambda>s i. writeEvent (Notified p) i s) (s\<lparr>lv_incoming := []\<rparr>) ks"
      using assms(2) server by (auto simp: notifyUser_def on_message_def at_rest_def Let_def)
    with write_all_streams [OF distinct [OF Some], of "Notified p" "s\<lparr>lv_incoming := []\<rparr>" i] Some hs other [of "psp_recipient p" ks] assms(3,5)
    show ?thesis by (auto simp: chan_def)
  qed
qed


text \<open>A stream of Alice that has gone live.\<close>

definition alice_live :: live where
  "alice_live = stream_resumed [] 0 ''alice'' (redis_reply (stream_counted [] 0 ''alice'' 3 (stream_opened 0 ''alice'' (live_init True))))"

lemmas live_ops = stream_opened_def stream_counted_def stream_resumed_def stream_closed_def subscribe_def subscribed_to_def unsubscribe_def
  redis_reply_def writeEvent_def set_stream_def set_handlers_def send_def set_add_def live_init_def Let_def

abbreviation alice_at :: "stream_phase \<Rightarrow> sse_event list \<Rightarrow> sse_stream" where
  "alice_at ph out \<equiv> \<lparr>ss_user = ''alice'', ss_open = True, ss_phase = ph, ss_out = out\<rparr>"

lemma alice_opens: "lv_streams s i = None \<Longrightarrow> live_reachable [] True s \<Longrightarrow> live_reachable [] True (stream_opened i ''alice'' s)"
  by (rule step [OF _ opened])

lemma alice_counts:
  "lv_streams s i = Some (alice_at Counting []) \<Longrightarrow> live_reachable [] True s \<Longrightarrow> live_reachable [] True (stream_counted [] i ''alice'' n s)"
  using step [OF _ counted, of "[]" True s i "alice_at Counting []" n] by simp

lemma alice_resumes:
  "lv_streams s i = Some (alice_at Subscribing out) \<Longrightarrow> i \<in> set (lv_ready s) \<Longrightarrow> live_reachable [] True s \<Longrightarrow>
   live_reachable [] True (stream_resumed [] i ''alice'' s)"
  using step [OF _ resumed, of "[]" True s i "alice_at Subscribing out"] by simp

lemma redis_answers: "lv_sent s \<noteq> [] \<Longrightarrow> live_reachable [] True s \<Longrightarrow> live_reachable [] True (redis_reply s)"
  by (rule step [OF _ replied])

lemma alice_live_reachable: "live_reachable [] True alice_live"
  unfolding alice_live_def
  by (intro alice_resumes [where out = "[Connected 3]"] redis_answers alice_counts alice_opens start) (simp_all add: live_ops)

definition hello :: pubsub_payload where
  "hello = \<lparr>psp_notification = ''n1'', psp_recipient = ''alice'', psp_type = ''test'', psp_title = ''Hello'', psp_body = None,
     psp_resource_type = None, psp_resource_id = None\<rparr>"


text \<open>
  One fault remains: a second stream of the same user that comes and goes while the first one waits for Redis takes
  the set of handlers away, and the first one fails.
\<close>

definition alice_twice :: live where
  "alice_twice = stream_counted [] 1 ''alice'' 0 (stream_opened 1 ''alice'' (stream_counted [] 0 ''alice'' 0 (stream_opened 0 ''alice'' (live_init True))))"

lemma live_race:
  "\<exists>s. live_reachable [] True s \<and> lv_streams s 0 = Some (alice_at Failed [Connected 0])"
proof (intro exI conjI)
  have "live_reachable [] True alice_twice"
    unfolding alice_twice_def by (intro alice_counts alice_opens start) (simp_all add: live_ops)
  moreover have "lv_streams alice_twice 1 = Some (alice_at Live [Connected 0])"
    by (simp add: alice_twice_def live_ops)
  ultimately have "live_reachable [] True (stream_closed [] 1 (alice_at Live [Connected 0]) alice_twice)"
    by (intro step [OF _ closed]) simp_all
  then show "live_reachable [] True (stream_resumed [] 0 ''alice'' (redis_reply (stream_closed [] 1 (alice_at Live [Connected 0]) alice_twice)))"
    by (intro alice_resumes [where out = "[Connected 0]"] redis_answers) (simp_all add: alice_twice_def live_ops)
qed (simp add: alice_twice_def live_ops)

end
